(* ===== verification/Prelude.thy ===== *)
theory Prelude
  imports
    Main
    "HOL-Library.Word"
    "HOL-Library.Multiset"
    "HOL-Library.AList"
    "HOL-Library.Char_ord"
    "HOL-Library.List_Lexorder"
begin

text \<open>
  Shared vocabulary of the development: Go's fixed-width integers, Go's defined string
  types (one-constructor datatypes ordered byte by byte, as Go compares strings), the
  functions of Go's standard library that the sources call (\<open>strings.TrimSpace\<close>,
  \<open>strings.HasPrefix\<close>, \<open>strconv.Itoa\<close>, \<open>strconv.Atoi\<close>), the first-match index search
  that the sources write as a loop, and the generic facts on sorting, association lists
  and words that the component proofs use.
\<close>

unbundle bit_operations_syntax

named_theorems model_defs \<open>definitions that unfold in case analyses of operations\<close>
named_theorems inv_lemmas \<open>preservation facts of component invariants\<close>

section \<open>Machine integers\<close>

type_synonym uint8 = "8 word"
type_synonym uint16 = "16 word"
type_synonym uint32 = "32 word"
type_synonym uint64 = "64 word"

text \<open>
  A \<open>float32\<close> is kept as its IEEE-754 bit pattern: positions and velocities are copied,
  compared with the zero vector and reset, and no arithmetic is done on them here.
\<close>

type_synonym float32 = "32 word"

section \<open>Defined string types\<close>

datatype MatchID = MatchID (MatchID_str: string)
datatype PlayerID = PlayerID (PlayerID_str: string)
datatype RoomID = RoomID (RoomID_str: string)
datatype ItemType = ItemType (ItemType_str: string)
datatype CardType = CardType (CardType_str: string)
datatype AbilityType = AbilityType (AbilityType_str: string)
datatype InputCommandType = InputCommandType (InputCommandType_str: string)
datatype EscapeRouteType = EscapeRouteType (EscapeRouteType_str: string)

instantiation MatchID :: linorder
begin
definition less_eq_MatchID :: "MatchID \<Rightarrow> MatchID \<Rightarrow> bool" where
  "less_eq_MatchID a b \<longleftrightarrow> MatchID_str a \<le> MatchID_str b"
definition less_MatchID :: "MatchID \<Rightarrow> MatchID \<Rightarrow> bool" where
  "less_MatchID a b \<longleftrightarrow> MatchID_str a < MatchID_str b"
instance
  by standard (auto simp: less_eq_MatchID_def less_MatchID_def MatchID.expand)
end

instantiation PlayerID :: linorder
begin
definition less_eq_PlayerID :: "PlayerID \<Rightarrow> PlayerID \<Rightarrow> bool" where
  "less_eq_PlayerID a b \<longleftrightarrow> PlayerID_str a \<le> PlayerID_str b"
definition less_PlayerID :: "PlayerID \<Rightarrow> PlayerID \<Rightarrow> bool" where
  "less_PlayerID a b \<longleftrightarrow> PlayerID_str a < PlayerID_str b"
instance
  by standard (auto simp: less_eq_PlayerID_def less_PlayerID_def PlayerID.expand)
end

instantiation RoomID :: linorder
begin
definition less_eq_RoomID :: "RoomID \<Rightarrow> RoomID \<Rightarrow> bool" where
  "less_eq_RoomID a b \<longleftrightarrow> RoomID_str a \<le> RoomID_str b"
definition less_RoomID :: "RoomID \<Rightarrow> RoomID \<Rightarrow> bool" where
  "less_RoomID a b \<longleftrightarrow> RoomID_str a < RoomID_str b"
instance
  by standard (auto simp: less_eq_RoomID_def less_RoomID_def RoomID.expand)
end

instantiation ItemType :: linorder
begin
definition less_eq_ItemType :: "ItemType \<Rightarrow> ItemType \<Rightarrow> bool" where
  "less_eq_ItemType a b \<longleftrightarrow> ItemType_str a \<le> ItemType_str b"
definition less_ItemType :: "ItemType \<Rightarrow> ItemType \<Rightarrow> bool" where
  "less_ItemType a b \<longleftrightarrow> ItemType_str a < ItemType_str b"
instance
  by standard (auto simp: less_eq_ItemType_def less_ItemType_def ItemType.expand)
end

instantiation CardType :: linorder
begin
definition less_eq_CardType :: "CardType \<Rightarrow> CardType \<Rightarrow> bool" where
  "less_eq_CardType a b \<longleftrightarrow> CardType_str a \<le> CardType_str b"
definition less_CardType :: "CardType \<Rightarrow> CardType \<Rightarrow> bool" where
  "less_CardType a b \<longleftrightarrow> CardType_str a < CardType_str b"
instance
  by standard (auto simp: less_eq_CardType_def less_CardType_def CardType.expand)
end

instantiation InputCommandType :: linorder
begin
definition less_eq_InputCommandType :: "InputCommandType \<Rightarrow> InputCommandType \<Rightarrow> bool" where
  "less_eq_InputCommandType a b \<longleftrightarrow> InputCommandType_str a \<le> InputCommandType_str b"
definition less_InputCommandType :: "InputCommandType \<Rightarrow> InputCommandType \<Rightarrow> bool" where
  "less_InputCommandType a b \<longleftrightarrow> InputCommandType_str a < InputCommandType_str b"
instance
  by standard (auto simp: less_eq_InputCommandType_def less_InputCommandType_def
      InputCommandType.expand)
end

section \<open>Go standard library functions on strings\<close>

text \<open>
  The byte sequences that \<open>unicode.IsSpace\<close> accepts, in UTF-8: the six ASCII ones and the
  encodings of U+0085, U+00A0, U+1680, U+2000 to U+200A, U+2028, U+2029, U+202F, U+205F and
  U+3000. No sequence is a prefix or a suffix of another one, so trimming a leading or
  trailing rune is trimming one of these sequences.
\<close>

definition go_spaces :: "string list" where
  "go_spaces =
     [[CHR 0x09], [CHR 0x0A], [CHR 0x0B], [CHR 0x0C], [CHR 0x0D], [CHR 0x20],
      [CHR 0xC2, CHR 0x85], [CHR 0xC2, CHR 0xA0], [CHR 0xE1, CHR 0x9A, CHR 0x80],
      [CHR 0xE2, CHR 0x80, CHR 0x80], [CHR 0xE2, CHR 0x80, CHR 0x81],
      [CHR 0xE2, CHR 0x80, CHR 0x82], [CHR 0xE2, CHR 0x80, CHR 0x83],
      [CHR 0xE2, CHR 0x80, CHR 0x84], [CHR 0xE2, CHR 0x80, CHR 0x85],
      [CHR 0xE2, CHR 0x80, CHR 0x86], [CHR 0xE2, CHR 0x80, CHR 0x87],
      [CHR 0xE2, CHR 0x80, CHR 0x88], [CHR 0xE2, CHR 0x80, CHR 0x89],
      [CHR 0xE2, CHR 0x80, CHR 0x8A], [CHR 0xE2, CHR 0x80, CHR 0xA8],
      [CHR 0xE2, CHR 0x80, CHR 0xA9], [CHR 0xE2, CHR 0x80, CHR 0xAF],
      [CHR 0xE2, CHR 0x81, CHR 0x9F], [CHR 0xE3, CHR 0x80, CHR 0x80]]"

definition HasPrefix :: "string \<Rightarrow> string \<Rightarrow> bool" where
  "HasPrefix s p \<longleftrightarrow> take (length p) s = p"

definition TrimPrefix :: "string \<Rightarrow> string \<Rightarrow> string" where
  "TrimPrefix s p = (if HasPrefix s p then drop (length p) s else s)"

text \<open>One space sequence at the front, for a given table of sequences.\<close>

definition leading_space :: "string list \<Rightarrow> string \<Rightarrow> string option" where
  "leading_space tab s = List.find (\<lambda>p. p \<noteq> [] \<and> HasPrefix s p) tab"

function trim_front :: "string list \<Rightarrow> string \<Rightarrow> string" where
  "trim_front tab s =
     (case leading_space tab s of
        None \<Rightarrow> s
      | Some p \<Rightarrow> trim_front tab (drop (length p) s))"
  by pat_completeness auto
termination
proof (relation "measure (\<lambda>(tab, s). length s)")
  fix tab s p
  assume "leading_space tab s = Some p"
  then have "p \<noteq> []" and "take (length p) s = p"
    by (auto simp: leading_space_def HasPrefix_def find_Some_iff)
  then have "s \<noteq> []" by auto
  with \<open>p \<noteq> []\<close> show "((tab, drop (length p) s), tab, s) \<in> measure (\<lambda>(tab, s). length s)"
    by simp
qed simp

declare trim_front.simps [simp del]

definition TrimSpace :: "string \<Rightarrow> string" where
  "TrimSpace s = rev (trim_front (map rev go_spaces) (rev (trim_front go_spaces s)))"

text \<open>Decimal rendering and parsing (\<open>strconv.Itoa\<close>, \<open>strconv.Atoi\<close>).\<close>

definition digit_char :: "nat \<Rightarrow> char" where
  "digit_char d = char_of (48 + d)"

fun nat_digits :: "nat \<Rightarrow> string" where
  "nat_digits n = (if n < 10 then [digit_char n] else nat_digits (n div 10) @ [digit_char (n mod 10)])"

declare nat_digits.simps [simp del]

definition Itoa :: "nat \<Rightarrow> string" where
  "Itoa n = nat_digits n"

definition char_digit :: "char \<Rightarrow> nat option" where
  "char_digit c =
     (let k = of_char c :: nat in if 48 \<le> k \<and> k \<le> 57 then Some (k - 48) else None)"

fun parse_digits :: "nat \<Rightarrow> string \<Rightarrow> nat option" where
  "parse_digits acc [] = Some acc"
| "parse_digits acc (c # cs) =
     (case char_digit c of None \<Rightarrow> None | Some d \<Rightarrow> parse_digits (10 * acc + d) cs)"

definition parse_nat :: "string \<Rightarrow> nat option" where
  "parse_nat s = (if s = [] then None else parse_digits 0 s)"

definition Atoi :: "string \<Rightarrow> int option" where
  "Atoi s =
     (let r = (case s of
                 [] \<Rightarrow> None
               | c # cs \<Rightarrow>
                   if c = CHR ''-'' then map_option (\<lambda>n. - int n) (parse_nat cs)
                   else if c = CHR ''+'' then map_option int (parse_nat cs)
                   else map_option int (parse_nat s))
      in case r of
           None \<Rightarrow> None
         | Some i \<Rightarrow> if - (2 ^ 63) \<le> i \<and> i < 2 ^ 63 then Some i else None)"

section \<open>Loops over slices\<close>

text \<open>The first index whose element satisfies a test, or \<open>None\<close> (the sources' -1).\<close>

fun find_index :: "('a \<Rightarrow> bool) \<Rightarrow> 'a list \<Rightarrow> nat option" where
  "find_index P [] = None"
| "find_index P (x # xs) = (if P x then Some 0 else map_option Suc (find_index P xs))"

text \<open>\<open>append(xs[:i], xs[i+1:]...)\<close>.\<close>

definition remove_at :: "nat \<Rightarrow> 'a list \<Rightarrow> 'a list" where
  "remove_at i xs = take i xs @ drop (Suc i) xs"

section \<open>Generic lemmas\<close>

lemma find_index_Some:
  "find_index P xs = Some i \<longleftrightarrow> i < length xs \<and> P (xs ! i) \<and> (\<forall>j<i. \<not> P (xs ! j))"
proof (induction xs arbitrary: i)
  case (Cons x xs)
  show ?case by (cases i) (auto simp: Cons.IH less_Suc_eq_0_disj)
qed simp

lemma find_index_None: "find_index P xs = None \<longleftrightarrow> (\<forall>x \<in> set xs. \<not> P x)"
  by (induction xs) auto

subsection \<open>Decimal round trip\<close>

lemma char_digit_digit_char: "d < 10 \<Longrightarrow> char_digit (digit_char d) = Some d"
  by (simp add: char_digit_def digit_char_def of_char_of)

lemma parse_digits_append:
  "parse_digits acc (xs @ ys) = Option.bind (parse_digits acc xs) (\<lambda>a. parse_digits a ys)"
  by (induction acc xs rule: parse_digits.induct) (auto split: option.split)

lemma parse_digits_nat_digits: "parse_digits 0 (nat_digits n) = Some n"
proof (induction n rule: nat_digits.induct)
  case (1 n)
  show ?case
  proof (cases "n < 10")
    case True
    then show ?thesis by (simp add: nat_digits.simps [of n] char_digit_digit_char)
  next
    case False
    with "1.IH" show ?thesis
      by (simp add: nat_digits.simps [of n] parse_digits_append char_digit_digit_char)
  qed
qed

lemma nat_digits_Cons: "\<exists>d ds. d < 10 \<and> nat_digits n = digit_char d # ds"
proof (induction n rule: nat_digits.induct)
  case (1 n)
  then show ?case
    by (cases "n < 10") (auto simp: nat_digits.simps [of n])
qed

lemma digit_char_no_sign: "d < 10 \<Longrightarrow> digit_char d \<noteq> CHR ''-'' \<and> digit_char d \<noteq> CHR ''+''"
  using char_digit_digit_char [of d] by (auto simp: char_digit_def)

lemma Atoi_Itoa: "n < 2 ^ 63 \<Longrightarrow> Atoi (Itoa n) = Some (int n)"
proof -
  assume n: "n < 2 ^ 63"
  obtain d ds where d: "d < 10" "nat_digits n = digit_char d # ds" using nat_digits_Cons by blast
  have "parse_nat (nat_digits n) = Some n"
    using parse_digits_nat_digits [of n] d by (simp add: parse_nat_def)
  moreover have "int n < 2 ^ 63" using n by (metis of_nat_less_iff of_nat_numeral of_nat_power)
  ultimately show ?thesis using digit_char_no_sign [OF d(1)] d(2)
    by (simp add: Atoi_def Itoa_def)
qed

subsection \<open>Bytes\<close>

lemma unat_uint8_le: "unat (w :: uint8) \<le> 255"
proof -
  have "unat w < 2 ^ LENGTH(8)" by (rule unsigned_less)
  then show ?thesis by simp
qed

lemma unat_uint8_less: "unat (w :: uint8) < 256"
  using unat_uint8_le [of w] by simp

end
