(* ===== verification/Model.thy ===== *)
theory Model
  imports Prelude
begin

text \<open>
  The shared schema (\<open>src/internal/shared/model\<close> and \<open>src/internal/shared/constants\<close>): the
  enumerations that only the server writes are datatypes, with a constructor for Go's empty
  string where the code uses it; the ones that clients send or that the code compares by
  \<open><\<close> keep their string (the one-constructor datatypes of the prelude), with the named
  constants as abbreviations. Structs are records; a pointer field is an \<open>option\<close>. A nil
  slice and an empty slice are both \<open>[]\<close>: the code only takes their length and ranges over
  them.
\<close>

section \<open>Identifiers and enumerations (types.go)\<close>

type_synonym EntityID = uint32
type_synonym DoorID = uint16
type_synonym CellID = uint16
type_synonym ZoneID = uint16

datatype MatchStatus = MatchStatusLobby | MatchStatusRunning | MatchStatusGameOver

datatype PhaseType = PhaseDay | PhaseNight

datatype FactionType = FactionNone | FactionAuthority | FactionPrisoner | FactionNeutral

datatype AlignmentType = AlignmentNone | AlignmentGood | AlignmentEvil | AlignmentNeutral

datatype RoleType = RoleNone | RoleWarden | RoleDeputy | RoleGangLeader | RoleGangMember
  | RoleSnitch | RoleNeutralPrisoner

datatype EntityKind = EntityKindPlayer | EntityKindNPCGuard | EntityKindNPCPrisoner
  | EntityKindProjectile | EntityKindDroppedItem | EntityKindDoorProxy

text \<open>The string of a role: its bytes enter the hash of \<open>deterministicAssignedAbility\<close>.\<close>

fun RoleType_str :: "RoleType \<Rightarrow> string" where
  "RoleType_str RoleNone = ''''"
| "RoleType_str RoleWarden = ''warden''"
| "RoleType_str RoleDeputy = ''deputy''"
| "RoleType_str RoleGangLeader = ''gang_leader''"
| "RoleType_str RoleGangMember = ''gang_member''"
| "RoleType_str RoleSnitch = ''snitch''"
| "RoleType_str RoleNeutralPrisoner = ''neutral_prisoner''"

abbreviation "ItemBaton \<equiv> ItemType ''baton''"
abbreviation "ItemWood \<equiv> ItemType ''wood''"
abbreviation "ItemMetalSlab \<equiv> ItemType ''metal_slab''"
abbreviation "ItemShiv \<equiv> ItemType ''shiv''"
abbreviation "ItemBullet \<equiv> ItemType ''bullet''"
abbreviation "ItemPistol \<equiv> ItemType ''pistol''"
abbreviation "ItemHuntingRifle \<equiv> ItemType ''hunting_rifle''"
abbreviation "ItemLockPick \<equiv> ItemType ''lock_pick''"
abbreviation "ItemWireCutters \<equiv> ItemType ''wire_cutters''"
abbreviation "ItemSilencer \<equiv> ItemType ''silencer''"
abbreviation "ItemSatchel \<equiv> ItemType ''satchel''"
abbreviation "ItemDoorStop \<equiv> ItemType ''door_stop''"
abbreviation "ItemGoldenBullet \<equiv> ItemType ''golden_bullet''"
abbreviation "ItemLadder \<equiv> ItemType ''ladder''"
abbreviation "ItemShovel \<equiv> ItemType ''shovel''"
abbreviation "ItemBadge \<equiv> ItemType ''badge''"
abbreviation "ItemKeys \<equiv> ItemType ''keys''"
abbreviation "NoItem \<equiv> ItemType ''''"

abbreviation "CardMorphine \<equiv> CardType ''morphine''"
abbreviation "CardBullet \<equiv> CardType ''bullet''"
abbreviation "CardMoney \<equiv> CardType ''money''"
abbreviation "CardSpeed \<equiv> CardType ''speed''"
abbreviation "CardArmorPlate \<equiv> CardType ''armor_plate''"
abbreviation "CardLockSnap \<equiv> CardType ''lock_snap''"
abbreviation "CardItemSteal \<equiv> CardType ''item_steal''"
abbreviation "CardItemGrab \<equiv> CardType ''item_grab''"
abbreviation "CardScrapBundle \<equiv> CardType ''scrap_bundle''"
abbreviation "CardDoorStop \<equiv> CardType ''door_stop''"
abbreviation "CardGetOutOfJailFree \<equiv> CardType ''get_out_of_jail_free''"

abbreviation "AbilityAlarm \<equiv> AbilityType ''alarm''"
abbreviation "AbilitySearch \<equiv> AbilityType ''search''"
abbreviation "AbilityCameraMan \<equiv> AbilityType ''camera_man''"
abbreviation "AbilityDetainer \<equiv> AbilityType ''detainer''"
abbreviation "AbilityTracker \<equiv> AbilityType ''tracker''"
abbreviation "AbilityPickPocket \<equiv> AbilityType ''pick_pocket''"
abbreviation "AbilityHacker \<equiv> AbilityType ''hacker''"
abbreviation "AbilityDisguise \<equiv> AbilityType ''disguise''"
abbreviation "AbilityLocksmith \<equiv> AbilityType ''locksmith''"
abbreviation "AbilityChameleon \<equiv> AbilityType ''chameleon''"

abbreviation "CmdMoveIntent \<equiv> InputCommandType ''move_intent''"
abbreviation "CmdAimIntent \<equiv> InputCommandType ''aim_intent''"
abbreviation "CmdInteract \<equiv> InputCommandType ''interact''"
abbreviation "CmdUseAbility \<equiv> InputCommandType ''use_ability''"
abbreviation "CmdUseCard \<equiv> InputCommandType ''use_card''"
abbreviation "CmdUseItem \<equiv> InputCommandType ''use_item''"
abbreviation "CmdBlackMarketBuy \<equiv> InputCommandType ''black_market_buy''"
abbreviation "CmdFireWeapon \<equiv> InputCommandType ''fire_weapon''"
abbreviation "CmdEquipItem \<equiv> InputCommandType ''equip_item''"
abbreviation "CmdReload \<equiv> InputCommandType ''reload''"
abbreviation "CmdDropItem \<equiv> InputCommandType ''drop_item''"
abbreviation "CmdCraftItem \<equiv> InputCommandType ''craft_item''"

datatype SnapshotKind = SnapshotKindFull | SnapshotKindDelta

datatype EffectType = EffectNone | EffectStunned | EffectSolitary | EffectSpeedBoost
  | EffectArmorPlate | EffectTracked | EffectDisguised | EffectChameleon | EffectCameraView
  | EffectTrackerView

abbreviation "EscapeRouteCourtyardDig \<equiv> EscapeRouteType ''courtyard_dig''"
abbreviation "EscapeRouteBadgeEscape \<equiv> EscapeRouteType ''badge_escape''"
abbreviation "EscapeRoutePowerOutEscape \<equiv> EscapeRouteType ''power_out_escape''"
abbreviation "EscapeRouteLadderEscape \<equiv> EscapeRouteType ''ladder_escape''"
abbreviation "EscapeRouteRoofHelicopter \<equiv> EscapeRouteType ''roof_helicopter_escape''"

datatype EscapeAttemptStatus = EscapeAttemptStatusNone | EscapeAttemptStatusSuccess
  | EscapeAttemptStatusFailed

datatype ActionFeedbackKind = ActionFeedbackKindNone | ActionFeedbackKindCombat
  | ActionFeedbackKindStun | ActionFeedbackKindAlarm | ActionFeedbackKindDoor
  | ActionFeedbackKindPurchase | ActionFeedbackKindEscape | ActionFeedbackKindSystem

datatype ActionFeedbackLevel = ActionFeedbackLevelNone | ActionFeedbackLevelInfo
  | ActionFeedbackLevelSuccess | ActionFeedbackLevelWarning | ActionFeedbackLevelError

datatype WinReason = WinReasonNone | WinReasonMaxCyclesReached | WinReasonWardenDied
  | WinReasonGangLeaderEscaped | WinReasonAllGangMembersDead | WinReasonNoEscapesAtTimeLimit
  | WinReasonHitmanTargetEliminated | WinReasonEscapeArtistFirstEscape

section \<open>State (state.go)\<close>

record Vector2 =
  X :: float32
  Y :: float32

definition zero_vector :: Vector2 where
  "zero_vector = \<lparr>X = 0, Y = 0\<rparr>"

record PhaseState =
  Current :: PhaseType
  StartedTick :: uint64
  EndsTick :: uint64

record AlarmState =
  Active :: bool
  AlarmEndsTick :: uint64
  TriggeredBy :: PlayerID

definition inactive_alarm :: AlarmState where
  "inactive_alarm = \<lparr>Active = False, AlarmEndsTick = 0, TriggeredBy = PlayerID ''''\<rparr>"

record ItemStack =
  Item :: ItemType
  Quantity :: uint8

record EffectState =
  Effect :: EffectType
  EffectEndsTick :: uint64
  Stacks :: uint8
  SourceID :: EntityID
  SourcePID :: PlayerID

record EscapeAttemptFeedback =
  Route :: EscapeRouteType
  AttemptStatus :: EscapeAttemptStatus
  AttemptReason :: string
  AttemptTickID :: uint64

definition no_escape_attempt :: EscapeAttemptFeedback where
  "no_escape_attempt = \<lparr>Route = EscapeRouteType '''', AttemptStatus = EscapeAttemptStatusNone,
     AttemptReason = '''', AttemptTickID = 0\<rparr>"

record ActionFeedback =
  FeedbackKind :: ActionFeedbackKind
  FeedbackLevel :: ActionFeedbackLevel
  FeedbackMessage :: string
  FeedbackTickID :: uint64

definition no_action_feedback :: ActionFeedback where
  "no_action_feedback = \<lparr>FeedbackKind = ActionFeedbackKindNone,
     FeedbackLevel = ActionFeedbackLevelNone, FeedbackMessage = '''', FeedbackTickID = 0\<rparr>"

record PlayerState =
  ID :: PlayerID
  Name :: string
  Connected :: bool
  Alive :: bool
  Faction :: FactionType
  Alignment :: AlignmentType
  Role :: RoleType
  HeartsHalf :: uint8
  TempHeartsHalf :: uint8
  Bullets :: uint8
  LivesRemaining :: uint8
  EquippedItem :: ItemType
  InventorySlots :: uint8
  Position :: Vector2
  Velocity :: Vector2
  Facing :: Vector2
  CurrentRoomID :: RoomID
  AssignedCell :: CellID
  LockedInCell :: CellID
  AssignedAbility :: AbilityType
  StunnedUntilTick :: uint64
  SolitaryUntilTick :: uint64
  Inventory :: "ItemStack list"
  Cards :: "CardType list"
  NightCardChoices :: "CardType list"
  Effects :: "EffectState list"
  LastEscapeAttempt :: EscapeAttemptFeedback
  LastActionFeedback :: ActionFeedback

text \<open>Go's zero value \<open>model.PlayerState{}\<close>.\<close>

definition zero_player :: PlayerState where
  "zero_player = \<lparr>ID = PlayerID '''', Name = '''', Connected = False, Alive = False,
     Faction = FactionNone, Alignment = AlignmentNone, Role = RoleNone, HeartsHalf = 0,
     TempHeartsHalf = 0, Bullets = 0, LivesRemaining = 0, EquippedItem = NoItem,
     InventorySlots = 0, Position = zero_vector, Velocity = zero_vector, Facing = zero_vector,
     CurrentRoomID = RoomID '''', AssignedCell = 0, LockedInCell = 0,
     AssignedAbility = AbilityType '''', StunnedUntilTick = 0, SolitaryUntilTick = 0,
     Inventory = [], Cards = [], NightCardChoices = [], Effects = [],
     LastEscapeAttempt = no_escape_attempt, LastActionFeedback = no_action_feedback\<rparr>"

record DoorState =
  DoorState_ID :: DoorID
  RoomA :: RoomID
  RoomB :: RoomID
  Open :: bool
  Locked :: bool
  CanClose :: bool
  BlockedUntilTick :: uint64
  LockedByPlayerID :: PlayerID

record CellState =
  CellState_ID :: CellID
  OwnerPlayerID :: PlayerID
  CellDoorID :: DoorID
  OccupantPlayerIDs :: "PlayerID list"
  Stash :: "ItemStack list"

record ZoneState =
  ZoneState_ID :: ZoneID
  ZoneRoomID :: RoomID
  Restricted :: bool
  ZoneName :: string

record MapState =
  PowerOn :: bool
  Alarm :: AlarmState
  BlackMarketRoomID :: RoomID
  Doors :: "DoorState list"
  Cells :: "CellState list"
  RestrictedZones :: "ZoneState list"

record EntityState =
  EntityState_ID :: EntityID
  Kind :: EntityKind
  EntityOwnerPlayerID :: PlayerID
  EntityPosition :: Vector2
  EntityVelocity :: Vector2
  EntityHeartsHalf :: "16 word"
  EntityActive :: bool
  EntityRoomID :: RoomID
  Tags :: "string list"

record GameOverState =
  Reason :: WinReason
  EndedTick :: uint64
  WinnerPlayerIDs :: "PlayerID list"
  Notes :: string

record GameState =
  GameState_MatchID :: MatchID
  TickID :: uint64
  Status :: MatchStatus
  CycleCount :: uint8
  Phase :: PhaseState
  Map :: MapState
  Players :: "PlayerState list"
  Entities :: "EntityState list"
  GameOver :: "GameOverState option"

record PlayerAck =
  AckPlayerID :: PlayerID
  LastProcessedClientSeq :: uint64

record GameDelta =
  ChangedPlayers :: "PlayerState list"
  RemovedPlayerIDs :: "PlayerID list"
  ChangedEntities :: "EntityState list"
  RemovedEntityIDs :: "EntityID list"
  ChangedDoors :: "DoorState list"
  ChangedCells :: "CellState list"
  ChangedZones :: "ZoneState list"
  DeltaPhase :: "PhaseState option"
  DeltaStatus :: "MatchStatus option"
  DeltaCycleCount :: "uint8 option"
  DeltaPowerOn :: "bool option"
  DeltaAlarm :: "AlarmState option"
  DeltaBlackMarketRoomID :: "RoomID option"
  DeltaGameOver :: "GameOverState option"

record Snapshot =
  SnapshotKind_of :: SnapshotKind
  SnapshotTickID :: uint64
  BaseTickID :: uint64
  State :: "GameState option"
  Delta :: "GameDelta option"
  PlayerAcks :: "PlayerAck list"

section \<open>Inputs (input.go)\<close>

text \<open>A raw JSON payload is its bytes.\<close>

record InputCommand =
  CmdPlayerID :: PlayerID
  ClientSeq :: uint64
  IngressSeq :: uint64
  TargetTick :: uint64
  CmdType :: InputCommandType
  Payload :: string

record MovementInputPayload =
  MoveX :: float32
  MoveY :: float32
  Sprint :: bool

record AimInputPayload =
  AimX :: float32
  AimY :: float32

record InteractPayload =
  InteractEntityID :: EntityID
  InteractDoorID :: DoorID
  InteractCellID :: CellID
  InteractRoomID :: RoomID
  EscapeRoute :: EscapeRouteType
  MarketRoomID :: RoomID
  NightCardChoice :: CardType
  StashAction :: string
  StashItem :: ItemType
  StashAmount :: uint8

record AbilityUsePayload =
  Ability :: AbilityType
  AbilityTargetPlayerID :: PlayerID
  AbilityTargetEntityID :: EntityID
  AbilityTargetDoorID :: DoorID
  AbilityTargetCellID :: CellID
  AbilityTargetRoomID :: RoomID

record CardUsePayload =
  Card :: CardType
  CardTargetPlayerID :: PlayerID
  CardTargetEntityID :: EntityID
  CardTargetDoorID :: DoorID
  CardTargetCellID :: CellID
  CardTargetItem :: ItemType

record ItemUsePayload =
  UseItem :: ItemType
  ItemTargetPlayerID :: PlayerID
  ItemTargetDoorID :: DoorID
  ItemTargetRoomID :: RoomID
  UseAmount :: uint8

record BlackMarketPurchasePayload =
  PurchaseItem :: ItemType

record FireWeaponPayload =
  Weapon :: ItemType
  TargetX :: float32
  TargetY :: float32
  UseGoldenRound :: bool

record EquipItemPayload =
  EquipItem :: ItemType

record CraftItemPayload =
  CraftItem :: ItemType

record DropItemPayload =
  DropItem :: ItemType
  DropAmount :: uint8

section \<open>Constants (simulation.go)\<close>

definition MinPlayersDefault :: uint8 where "MinPlayersDefault = 5"
definition MaxPlayersDefault :: uint8 where "MaxPlayersDefault = 12"
definition ServerTickRateHz :: uint32 where "ServerTickRateHz = 30"
definition MaxAcceptedCommandsPerPlayerPerTick :: uint8 where
  "MaxAcceptedCommandsPerPlayerPerTick = 8"
definition DayPhaseDurationSeconds :: uint16 where "DayPhaseDurationSeconds = 300"
definition NightPhaseDurationSeconds :: uint16 where "NightPhaseDurationSeconds = 120"
definition MaxDayNightCycles :: uint8 where "MaxDayNightCycles = 6"

lemmas constant_defs = MinPlayersDefault_def MaxPlayersDefault_def ServerTickRateHz_def
  MaxAcceptedCommandsPerPlayerPerTick_def DayPhaseDurationSeconds_def
  NightPhaseDurationSeconds_def MaxDayNightCycles_def

end
