(* ===== verification/Items.thy ===== *)
theory Items
  imports Model
begin

text \<open>
  Inventories, recipes, dropped-item tags and the black-market catalogue
  (\<open>src/internal/gamecore/items\<close>). A Go operation that returns \<open>false\<close> leaves its player
  unchanged, so it is modelled as a function to \<open>PlayerState option\<close>: \<open>None\<close> is \<open>false\<close>,
  \<open>Some p\<close> is \<open>true\<close> with the updated player. The abstract view of an inventory is the
  quantity it holds of every item (\<open>raw_qty\<close>); \<open>canonical\<close> is the representation invariant
  that every operation establishes.
\<close>

section \<open>Catalogues\<close>

definition BaseInventoryStackLimit :: int where
  "BaseInventoryStackLimit = 6"

definition SatchelBonusStacks :: int where
  "SatchelBonusStacks = 3"

record Recipe =
  Output :: ItemType
  OutputQuantity :: uint8
  Inputs :: "ItemStack list"

abbreviation stack :: "ItemType \<Rightarrow> uint8 \<Rightarrow> ItemStack" where
  "stack i q \<equiv> \<lparr>Item = i, Quantity = q\<rparr>"

definition knownItems :: "ItemType list" where
  "knownItems = [ItemBaton, ItemWood, ItemMetalSlab, ItemShiv, ItemBullet, ItemPistol,
     ItemHuntingRifle, ItemLockPick, ItemWireCutters, ItemSilencer, ItemSatchel, ItemDoorStop,
     ItemGoldenBullet, ItemLadder, ItemShovel, ItemBadge, ItemKeys]"

definition contrabandItems :: "ItemType list" where
  "contrabandItems = [ItemShiv, ItemPistol, ItemHuntingRifle, ItemLadder, ItemShovel,
     ItemWireCutters]"

definition recipesByOutput :: "(ItemType \<times> Recipe) list" where
  "recipesByOutput =
     [(ItemShiv, \<lparr>Output = ItemShiv, OutputQuantity = 1,
        Inputs = [stack ItemWood 1, stack ItemMetalSlab 1]\<rparr>),
      (ItemDoorStop, \<lparr>Output = ItemDoorStop, OutputQuantity = 1,
        Inputs = [stack ItemWood 1, stack ItemMetalSlab 1]\<rparr>),
      (ItemLadder, \<lparr>Output = ItemLadder, OutputQuantity = 1,
        Inputs = [stack ItemWood 2, stack ItemMetalSlab 1]\<rparr>),
      (ItemShovel, \<lparr>Output = ItemShovel, OutputQuantity = 1,
        Inputs = [stack ItemWood 1, stack ItemMetalSlab 2]\<rparr>),
      (ItemWireCutters, \<lparr>Output = ItemWireCutters, OutputQuantity = 1,
        Inputs = [stack ItemMetalSlab 2, stack ItemLockPick 1]\<rparr>)]"

definition IsKnownItem :: "ItemType \<Rightarrow> bool" where
  "IsKnownItem item \<longleftrightarrow> List.member knownItems item"

definition IsContraband :: "ItemType \<Rightarrow> bool" where
  "IsContraband item \<longleftrightarrow> List.member contrabandItems item"

section \<open>Normalisation and stack limits\<close>

text \<open>\<open>aggregated[stack.Item] += uint16(stack.Quantity)\<close> on the Go map, kept as an
  association list; reading a missing key gives zero.\<close>

definition aggregate_step :: "(ItemType \<times> uint16) list \<Rightarrow> ItemStack \<Rightarrow> (ItemType \<times> uint16) list" where
  "aggregate_step agg s =
     (if Quantity s = 0 \<or> \<not> IsKnownItem (Item s) then agg
      else AList.update (Item s)
             ((case map_of agg (Item s) of None \<Rightarrow> 0 | Some q \<Rightarrow> q) + ucast (Quantity s)) agg)"

definition aggregate_inventory :: "ItemStack list \<Rightarrow> (ItemType \<times> uint16) list" where
  "aggregate_inventory inventory = foldl aggregate_step [] inventory"

definition clamp_entry :: "ItemType \<times> uint16 \<Rightarrow> ItemStack option" where
  "clamp_entry e =
     (case e of (item, quantity) \<Rightarrow>
        if quantity = 0 then None
        else if quantity > 255 then Some (stack item 255)
        else Some (stack item (ucast quantity)))"

text \<open>The second loop and the sort, on the entries in the order the map yields them.\<close>

definition collect_entries :: "(ItemType \<times> uint16) list \<Rightarrow> ItemStack list" where
  "collect_entries entries = sort_key Item (List.map_filter clamp_entry entries)"

definition normalizeInventory :: "ItemStack list \<Rightarrow> ItemStack list" where
  "normalizeInventory inventory =
     (if inventory = [] then [] else collect_entries (aggregate_inventory inventory))"

definition findStackIndex :: "ItemStack list \<Rightarrow> ItemType \<Rightarrow> nat option" where
  "findStackIndex inventory item = find_index (\<lambda>s. Item s = item) inventory"

definition stackLimitForBase :: "ItemStack list \<Rightarrow> int \<Rightarrow> int" where
  "stackLimitForBase inventory baseLimit =
     (let satchelCount =
        foldl (\<lambda>n s. if Item s \<noteq> ItemSatchel then n else n + uint (Quantity s)) 0 inventory
      in baseLimit + satchelCount * SatchelBonusStacks)"

definition baseStackLimitForPlayer :: "PlayerState \<Rightarrow> int" where
  "baseStackLimitForPlayer player =
     (if InventorySlots player > 0 then uint (InventorySlots player)
      else BaseInventoryStackLimit)"

definition stackLimitForPlayer :: "PlayerState \<Rightarrow> ItemStack list \<Rightarrow> int" where
  "stackLimitForPlayer player inventory = stackLimitForBase inventory (baseStackLimitForPlayer player)"

definition InventoryStackLimit :: "PlayerState \<Rightarrow> uint8" where
  "InventoryStackLimit player =
     word_of_int (stackLimitForPlayer player (normalizeInventory (Inventory player)))"

definition addToInventory :: "ItemStack list \<Rightarrow> ItemType \<Rightarrow> uint8 \<Rightarrow> int \<Rightarrow> ItemStack list option" where
  "addToInventory inventory item amount baseStackLimit =
     (if amount = 0 \<or> \<not> IsKnownItem item then None
      else
        let updated =
          (case findStackIndex inventory item of
             Some index \<Rightarrow>
               let nextQuantity = uint (Quantity (inventory ! index)) + uint amount
               in if nextQuantity > 255 then None
                  else Some (inventory[index := (inventory ! index)\<lparr>Quantity := word_of_int nextQuantity\<rparr>])
           | None \<Rightarrow> Some (inventory @ [stack item amount]))
        in case updated of
             None \<Rightarrow> None
           | Some next \<Rightarrow>
               let next' = normalizeInventory next;
                   baseLimit = (if baseStackLimit \<le> 0 then BaseInventoryStackLimit
                                else baseStackLimit)
               in if int (length next') > stackLimitForBase next' baseLimit then None
                  else Some next')"

definition removeFromInventory :: "ItemStack list \<Rightarrow> ItemType \<Rightarrow> uint8 \<Rightarrow> ItemStack list option" where
  "removeFromInventory inventory item amount =
     (if amount = 0 \<or> \<not> IsKnownItem item then None
      else case findStackIndex inventory item of
             None \<Rightarrow> None
           | Some index \<Rightarrow>
               if Quantity (inventory ! index) < amount then None
               else
                 let q = Quantity (inventory ! index) - amount;
                     next = inventory[index := (inventory ! index)\<lparr>Quantity := q\<rparr>];
                     next' = (if q = 0 then remove_at index next else next)
                 in Some (normalizeInventory next'))"

section \<open>Player operations\<close>

definition HasItem :: "PlayerState \<Rightarrow> ItemType \<Rightarrow> uint8 \<Rightarrow> bool" where
  "HasItem player item amount =
     (if \<not> IsKnownItem item then False
      else if amount = 0 then True
      else
        let inventory = normalizeInventory (Inventory player)
        in case findStackIndex inventory item of
             None \<Rightarrow> False
           | Some index \<Rightarrow> Quantity (inventory ! index) \<ge> amount)"

definition AddItem :: "PlayerState \<Rightarrow> ItemType \<Rightarrow> uint8 \<Rightarrow> PlayerState option" where
  "AddItem player item amount =
     (if amount = 0 \<or> \<not> IsKnownItem item then None
      else case addToInventory (normalizeInventory (Inventory player)) item amount
                  (baseStackLimitForPlayer player) of
             None \<Rightarrow> None
           | Some nextInventory \<Rightarrow> Some (player\<lparr>Inventory := nextInventory\<rparr>))"

definition RemoveItem :: "PlayerState \<Rightarrow> ItemType \<Rightarrow> uint8 \<Rightarrow> PlayerState option" where
  "RemoveItem player item amount =
     (if amount = 0 \<or> \<not> IsKnownItem item then None
      else case removeFromInventory (normalizeInventory (Inventory player)) item amount of
             None \<Rightarrow> None
           | Some nextInventory \<Rightarrow>
               if item = ItemSatchel \<and>
                  int (length nextInventory) > stackLimitForPlayer player nextInventory
               then None
               else Some (player\<lparr>Inventory := nextInventory\<rparr>))"

definition TransferItem ::
  "PlayerState \<Rightarrow> PlayerState \<Rightarrow> ItemType \<Rightarrow> uint8 \<Rightarrow> (PlayerState \<times> PlayerState) option" where
  "TransferItem from to item amount =
     (if amount = 0 \<or> \<not> IsKnownItem item then None
      else if ID from = ID to then None
      else
        let sourceInventory = normalizeInventory (Inventory from);
            destinationInventory = normalizeInventory (Inventory to)
        in case removeFromInventory sourceInventory item amount of
             None \<Rightarrow> None
           | Some sourceAfter \<Rightarrow>
               case addToInventory destinationInventory item amount
                      (baseStackLimitForPlayer to) of
                 None \<Rightarrow> None
               | Some destinationAfter \<Rightarrow>
                   Some (from\<lparr>Inventory := sourceAfter\<rparr>, to\<lparr>Inventory := destinationAfter\<rparr>))"

definition RecipeFor :: "ItemType \<Rightarrow> Recipe option" where
  "RecipeFor output =
     (case map_of recipesByOutput output of
        None \<Rightarrow> None
      | Some recipe \<Rightarrow> Some (recipe\<lparr>Inputs := sort_key Item (Inputs recipe)\<rparr>))"

fun consume_requirements :: "ItemStack list \<Rightarrow> ItemStack list \<Rightarrow> ItemStack list option" where
  "consume_requirements inventory [] = Some inventory"
| "consume_requirements inventory (requirement # rest) =
     (case removeFromInventory inventory (Item requirement) (Quantity requirement) of
        None \<Rightarrow> None
      | Some nextInventory \<Rightarrow> consume_requirements nextInventory rest)"

definition Craft :: "PlayerState \<Rightarrow> ItemType \<Rightarrow> PlayerState option" where
  "Craft player output =
     (case RecipeFor output of
        None \<Rightarrow> None
      | Some recipe \<Rightarrow>
          case consume_requirements (normalizeInventory (Inventory player)) (Inputs recipe) of
            None \<Rightarrow> None
          | Some nextInventory \<Rightarrow>
              case addToInventory nextInventory (Output recipe) (OutputQuantity recipe)
                     (baseStackLimitForPlayer player) of
                None \<Rightarrow> None
              | Some finalInventory \<Rightarrow> Some (player\<lparr>Inventory := finalInventory\<rparr>))"

definition ContrabandStacks :: "PlayerState \<Rightarrow> ItemStack list" where
  "ContrabandStacks player =
     filter (\<lambda>s. IsContraband (Item s)) (normalizeInventory (Inventory player))"

definition HasContraband :: "PlayerState \<Rightarrow> bool" where
  "HasContraband player \<longleftrightarrow> length (ContrabandStacks player) > 0"

section \<open>Dropped-item tags\<close>

definition BuildDroppedItemTags :: "ItemType \<Rightarrow> uint8 \<Rightarrow> string list" where
  "BuildDroppedItemTags item quantity =
     (let quantity = (if quantity = 0 then 1 else quantity);
          tags = [''dropped_item'', ''item:'' @ ItemType_str item, ''qty:'' @ Itoa (unat quantity)];
          tags = (if IsContraband item then tags @ [''contraband''] else tags)
      in sort tags)"

text \<open>The loop over the tags; the accumulator is \<open>(item, quantity)\<close>.\<close>

fun parse_tags :: "string list \<Rightarrow> ItemType \<times> uint8 \<Rightarrow> (ItemType \<times> uint8) option" where
  "parse_tags [] acc = Some acc"
| "parse_tags (tag # tags) (item, quantity) =
     (if HasPrefix tag ''item:'' then
        let candidate = ItemType (TrimPrefix tag ''item:'')
        in if \<not> IsKnownItem candidate then None else parse_tags tags (candidate, quantity)
      else if HasPrefix tag ''qty:'' then
        (case Atoi (TrimPrefix tag ''qty:'') of
           None \<Rightarrow> None
         | Some parsed \<Rightarrow>
             if parsed \<le> 0 \<or> parsed > 255 then None
             else parse_tags tags (item, word_of_int parsed))
      else parse_tags tags (item, quantity))"

definition ParseDroppedItem :: "EntityState \<Rightarrow> (ItemType \<times> uint8) option" where
  "ParseDroppedItem entity =
     (if Kind entity \<noteq> EntityKindDroppedItem then None
      else case parse_tags (Tags entity) (NoItem, 1) of
             None \<Rightarrow> None
           | Some (item, quantity) \<Rightarrow> if item = NoItem then None else Some (item, quantity))"

section \<open>Black market (market.go)\<close>

record BlackMarketOffer =
  OfferItem :: ItemType
  OfferQuantity :: uint8
  MoneyCardCost :: uint8

abbreviation offer :: "ItemType \<Rightarrow> uint8 \<Rightarrow> uint8 \<Rightarrow> BlackMarketOffer" where
  "offer i q c \<equiv> \<lparr>OfferItem = i, OfferQuantity = q, MoneyCardCost = c\<rparr>"

definition blackMarketOffers :: "BlackMarketOffer list" where
  "blackMarketOffers =
     [offer ItemWood 1 1, offer ItemMetalSlab 1 1, offer ItemBullet 1 1, offer ItemLockPick 1 1,
      offer ItemShiv 1 2, offer ItemDoorStop 1 2, offer ItemSilencer 1 2, offer ItemSatchel 1 2,
      offer ItemWireCutters 1 2, offer ItemPistol 1 3, offer ItemHuntingRifle 1 3,
      offer ItemGoldenBullet 1 3]"

definition BlackMarketCatalog :: "BlackMarketOffer list" where
  "BlackMarketCatalog = blackMarketOffers"

definition BlackMarketOfferForItem :: "ItemType \<Rightarrow> BlackMarketOffer option" where
  "BlackMarketOfferForItem item = List.find (\<lambda>ofr. OfferItem ofr = item) blackMarketOffers"

definition IsBlackMarketItem :: "ItemType \<Rightarrow> bool" where
  "IsBlackMarketItem item \<longleftrightarrow> BlackMarketOfferForItem item \<noteq> None"

section \<open>The abstract view: quantities\<close>

text \<open>The quantity of an item over all stacks, as a natural number.\<close>

definition raw_qty :: "ItemStack list \<Rightarrow> ItemType \<Rightarrow> nat" where
  "raw_qty inventory i = sum_list (map (\<lambda>s. if Item s = i then unat (Quantity s) else 0) inventory)"

definition canonical :: "ItemStack list \<Rightarrow> bool" where
  "canonical inventory \<longleftrightarrow>
     sorted_wrt (<) (map Item inventory) \<and>
     (\<forall>s \<in> set inventory. IsKnownItem (Item s) \<and> Quantity s \<noteq> 0)"

lemma raw_qty_Nil [simp]: "raw_qty [] i = 0"
  by (simp add: raw_qty_def)

lemma raw_qty_Cons [simp]:
  "raw_qty (s # ss) i = (if Item s = i then unat (Quantity s) else 0) + raw_qty ss i"
  by (simp add: raw_qty_def)

lemma raw_qty_append [simp]: "raw_qty (xs @ ys) i = raw_qty xs i + raw_qty ys i"
  by (simp add: raw_qty_def)

lemma raw_qty_mset: "mset xs = mset ys \<Longrightarrow> raw_qty xs i = raw_qty ys i"
  by (simp add: raw_qty_def flip: sum_mset_sum_list)

lemma raw_qty_zero: "i \<notin> Item ` set xs \<Longrightarrow> raw_qty xs i = 0"
  by (induction xs) auto

lemma canonical_Nil [simp]: "canonical []"
  by (simp add: canonical_def)

lemma canonical_distinct: "canonical inventory \<Longrightarrow> distinct (map Item inventory)"
  by (simp add: canonical_def strict_sorted_iff)

lemma raw_qty_member:
  "distinct (map Item xs) \<Longrightarrow> s \<in> set xs \<Longrightarrow> raw_qty xs (Item s) = unat (Quantity s)"
proof (induction xs)
  case (Cons x xs)
  show ?case
  proof (cases "s = x")
    case True
    with Cons.prems have "Item s \<notin> Item ` set xs" by simp
    with True show ?thesis by (simp add: raw_qty_zero)
  next
    case False
    with Cons.prems have "s \<in> set xs" and "Item x \<noteq> Item s" by force+
    with Cons show ?thesis by simp
  qed
qed simp

lemma canonical_raw_qty_le: "canonical xs \<Longrightarrow> raw_qty xs i \<le> 255"
proof (cases "i \<in> Item ` set xs")
  case True
  assume c: "canonical xs"
  from True obtain s where s: "s \<in> set xs" and i: "i = Item s" by auto
  have "raw_qty xs i = unat (Quantity s)"
    using raw_qty_member [OF canonical_distinct [OF c] s] i by simp
  then show ?thesis by (simp add: unat_uint8_le)
qed (simp add: raw_qty_zero)

lemma canonical_unknown: "canonical xs \<Longrightarrow> \<not> IsKnownItem i \<Longrightarrow> raw_qty xs i = 0"
  by (rule raw_qty_zero) (auto simp: canonical_def)

lemma canonical_stack_iff:
  assumes "canonical xs"
  shows "s \<in> set xs \<longleftrightarrow> Quantity s \<noteq> 0 \<and> raw_qty xs (Item s) = unat (Quantity s)"
proof
  assume "s \<in> set xs"
  with assms show "Quantity s \<noteq> 0 \<and> raw_qty xs (Item s) = unat (Quantity s)"
    using raw_qty_member [OF canonical_distinct [OF assms]] by (auto simp: canonical_def)
next
  assume q: "Quantity s \<noteq> 0 \<and> raw_qty xs (Item s) = unat (Quantity s)"
  then have "raw_qty xs (Item s) \<noteq> 0" by (simp add: unat_eq_zero)
  then have "Item s \<in> Item ` set xs" by (rule contrapos_np) (rule raw_qty_zero)
  then obtain t where t: "t \<in> set xs" "Item t = Item s" by auto
  with raw_qty_member [OF canonical_distinct [OF assms] t(1)] q
  have "unat (Quantity t) = unat (Quantity s)" by simp
  then have "Quantity t = Quantity s" by (rule unsigned_word_eqI)
  with t have "t = s" by simp
  with t show "s \<in> set xs" by simp
qed

text \<open>A canonical inventory is determined by its quantities.\<close>

lemma canonical_ext:
  assumes "canonical xs" and "canonical ys" and "\<And>i. raw_qty xs i = raw_qty ys i"
  shows "xs = ys"
proof -
  have sets: "set xs = set ys"
    by (rule set_eqI) (simp add: canonical_stack_iff assms)
  have "map Item xs = map Item ys"
    using assms(1,2) sets
    by (intro strict_sorted_equal) (auto simp: canonical_def)
  moreover have "inj_on Item (set xs \<union> set ys)"
    using canonical_distinct [OF assms(1)] by (simp add: distinct_map flip: sets)
  ultimately show ?thesis using inj_on_map_eq_map by blast
qed

section \<open>What normalisation computes\<close>

lemma aggregate_step_distinct:
  "distinct (map fst agg) \<Longrightarrow> distinct (map fst (aggregate_step agg s))"
  by (simp add: aggregate_step_def distinct_update)

definition agg_get :: "(ItemType \<times> uint16) list \<Rightarrow> ItemType \<Rightarrow> uint16" where
  "agg_get agg i = (case map_of agg i of None \<Rightarrow> 0 | Some q \<Rightarrow> q)"

lemma agg_get_Nil: "agg_get [] i = 0"
  by (simp add: agg_get_def)

lemma agg_get_step:
  "agg_get (aggregate_step agg s) i =
     agg_get agg i + (if Item s = i \<and> IsKnownItem i then ucast (Quantity s) else 0)"
  by (auto simp: aggregate_step_def agg_get_def update_conv' split: option.split)

lemma foldl_aggregate_distinct:
  "distinct (map fst agg) \<Longrightarrow> distinct (map fst (foldl aggregate_step agg xs))"
  by (induction xs arbitrary: agg) (simp_all add: aggregate_step_distinct)

lemma foldl_aggregate_get:
  "agg_get (foldl aggregate_step agg xs) i =
     agg_get agg i + (if IsKnownItem i then of_nat (raw_qty xs i) else 0)"
proof (induction xs arbitrary: agg)
  case (Cons x xs)
  have "(ucast (Quantity x) :: uint16) = of_nat (unat (Quantity x))"
    by (simp add: of_nat_unat)
  then show ?case by (simp add: Cons.IH agg_get_step)
qed simp

lemma foldl_aggregate_known:
  "fst ` set (foldl aggregate_step agg xs) \<subseteq> fst ` set agg \<union> {i. IsKnownItem i}"
proof (induction xs arbitrary: agg)
  case (Cons x xs)
  have "fst ` set (aggregate_step agg x) \<subseteq> fst ` set agg \<union> {i. IsKnownItem i}"
    by (auto simp: aggregate_step_def dom_update)
  with Cons.IH [of "aggregate_step agg x"] show ?case by auto
qed simp

lemma map_filter_clamp_Cons:
  "List.map_filter clamp_entry (e # es) =
     (case clamp_entry e of None \<Rightarrow> [] | Some s \<Rightarrow> [s]) @ List.map_filter clamp_entry es"
  by (simp add: List.map_filter_simps split: option.split)

lemma clamp_entry_Some:
  "clamp_entry e = Some s \<Longrightarrow>
     Item s = fst e \<and> Quantity s \<noteq> 0 \<and> unat (Quantity s) = min 255 (unat (snd e))"
proof -
  assume a: "clamp_entry e = Some s"
  obtain i q where e: "e = (i, q)" by (cases e)
  from a e have q0: "q \<noteq> 0" by (auto simp: clamp_entry_def)
  show ?thesis
  proof (cases "q > 255")
    case True
    then have "255 < unat q" by (simp add: word_less_nat_alt)
    with True a e q0 show ?thesis by (auto simp: clamp_entry_def)
  next
    case False
    then have le: "unat q \<le> 255" by (simp add: word_less_nat_alt)
    then have u: "unat (ucast q :: uint8) = unat q" by (simp add: unsigned_ucast_eq take_bit_nat_eq_self)
    have "unat (ucast q :: uint8) \<noteq> 0" using u q0 by (simp add: unat_eq_zero)
    then have "(ucast q :: uint8) \<noteq> 0" by auto
    with False a e q0 u le show ?thesis by (auto simp: clamp_entry_def)
  qed
qed

lemma clamp_entry_None: "clamp_entry e = None \<Longrightarrow> snd e = 0"
  by (auto simp: clamp_entry_def split: prod.splits if_splits)

lemma clamp_items_subset: "Item ` set (List.map_filter clamp_entry es) \<subseteq> fst ` set es"
  by (induction es)
     (auto simp: map_filter_clamp_Cons dest: clamp_entry_Some split: option.splits)

lemma clamp_items_distinct:
  "distinct (map fst es) \<Longrightarrow> distinct (map Item (List.map_filter clamp_entry es))"
proof (induction es)
  case (Cons e es)
  have "Item s \<notin> Item ` set (List.map_filter clamp_entry es)" if "clamp_entry e = Some s" for s
    using clamp_items_subset [of es] clamp_entry_Some [OF that] Cons.prems by auto
  with Cons show ?case by (auto simp: map_filter_clamp_Cons split: option.split)
qed (simp add: List.map_filter_simps)

lemma raw_qty_clamp:
  "distinct (map fst es) \<Longrightarrow>
     raw_qty (List.map_filter clamp_entry es) i = min 255 (unat (agg_get es i))"
proof (induction es)
  case (Cons e es)
  show ?case
  proof (cases "fst e = i")
    case True
    with Cons.prems have n: "i \<notin> fst ` set es" by auto
    then have "raw_qty (List.map_filter clamp_entry es) i = 0"
      using clamp_items_subset [of es] by (intro raw_qty_zero) blast
    moreover have "agg_get (e # es) i = snd e"
      using True by (cases e) (simp add: agg_get_def)
    ultimately show ?thesis
      using clamp_entry_Some [of e] clamp_entry_None [of e] True
      by (auto simp: map_filter_clamp_Cons split: option.split)
  next
    case False
    then have "agg_get (e # es) i = agg_get es i" by (cases e) (simp add: agg_get_def)
    with False Cons show ?thesis
      using clamp_entry_Some [of e] by (auto simp: map_filter_clamp_Cons split: option.split)
  qed
qed (simp add: List.map_filter_simps agg_get_def)

lemma collect_entries_canonical:
  assumes "distinct (map fst es)" and "\<And>i. i \<in> fst ` set es \<Longrightarrow> IsKnownItem i"
  shows "canonical (collect_entries es)"
proof -
  let ?r = "List.map_filter clamp_entry es"
  have "distinct (map Item (sort_key Item ?r))"
    using clamp_items_distinct [OF assms(1)]
    by (metis distinct_map distinct_sort set_sort)
  then have "sorted_wrt (<) (map Item (sort_key Item ?r))"
    by (simp add: strict_sorted_iff)
  moreover have "IsKnownItem (Item s) \<and> Quantity s \<noteq> 0" if "s \<in> set ?r" for s
  proof -
    from that obtain e where "e \<in> set es" "clamp_entry e = Some s"
      by (auto simp: List.map_filter_def)
    with clamp_entry_Some [of e s] assms(2) show ?thesis by auto
  qed
  ultimately show ?thesis by (simp add: canonical_def collect_entries_def)
qed

lemma raw_qty_collect_entries:
  "distinct (map fst es) \<Longrightarrow> raw_qty (collect_entries es) i = min 255 (unat (agg_get es i))"
  using raw_qty_mset [of "collect_entries es" "List.map_filter clamp_entry es" i]
  by (simp add: collect_entries_def raw_qty_clamp)

lemma collect_entries_Nil: "collect_entries [] = []"
  by (simp add: collect_entries_def List.map_filter_simps)

lemma agg_get_mset:
  assumes "distinct (map fst es)" and "mset es = mset es'"
  shows "agg_get es i = agg_get es' i"
proof -
  have "distinct (map fst es')" using assms by (metis distinct_map mset_eq_imp_distinct_iff mset_map)
  then have "map_of es = map_of es'"
    using assms map_of_inject_set mset_eq_setD by metis
  then show ?thesis by (simp add: agg_get_def)
qed

text \<open>The order in which the Go map yields its entries does not matter.\<close>

lemma collect_entries_order_irrelevant:
  assumes "distinct (map fst es)" and "\<And>i. i \<in> fst ` set es \<Longrightarrow> IsKnownItem i"
    and "mset es = mset es'"
  shows "collect_entries es = collect_entries es'"
proof (rule canonical_ext)
  have d: "distinct (map fst es')" using assms by (metis mset_eq_imp_distinct_iff mset_map)
  have "set es' = set es" using assms(3) by (metis set_mset_mset)
  with d assms(2) show "canonical (collect_entries es')" by (intro collect_entries_canonical) auto
  show "canonical (collect_entries es)" by (rule collect_entries_canonical) (use assms in auto)
  show "raw_qty (collect_entries es) i = raw_qty (collect_entries es') i" for i
    using agg_get_mset [OF assms(1,3)] by (simp add: raw_qty_collect_entries assms(1) d)
qed

lemma aggregate_inventory_distinct: "distinct (map fst (aggregate_inventory inventory))"
  by (simp add: aggregate_inventory_def foldl_aggregate_distinct)

lemma aggregate_inventory_known:
  "i \<in> fst ` set (aggregate_inventory inventory) \<Longrightarrow> IsKnownItem i"
  using foldl_aggregate_known [of "[]" inventory] by (auto simp: aggregate_inventory_def)

lemma normalizeInventory_canonical [simp, intro]: "canonical (normalizeInventory inventory)"
  by (simp add: normalizeInventory_def collect_entries_canonical aggregate_inventory_distinct
      aggregate_inventory_known)

lemma raw_qty_normalizeInventory:
  "raw_qty (normalizeInventory inventory) i =
     (if IsKnownItem i then min 255 (raw_qty inventory i mod 65536) else 0)"
proof (cases "inventory = []")
  case False
  have "unat (of_nat n :: uint16) = n mod 65536" for n
    by (simp add: unat_of_nat)
  with False show ?thesis
    by (simp add: normalizeInventory_def raw_qty_collect_entries foldl_aggregate_distinct
        aggregate_inventory_def foldl_aggregate_get agg_get_Nil)
qed (simp add: normalizeInventory_def)

lemma raw_qty_normalize_small:
  assumes "\<And>i. raw_qty xs i \<le> 255" and "\<And>i. \<not> IsKnownItem i \<Longrightarrow> raw_qty xs i = 0"
  shows "raw_qty (normalizeInventory xs) = raw_qty xs"
proof
  fix i
  show "raw_qty (normalizeInventory xs) i = raw_qty xs i"
    using assms(1) [of i] assms(2) [of i] by (auto simp: raw_qty_normalizeInventory)
qed

lemma normalizeInventory_id: "canonical xs \<Longrightarrow> normalizeInventory xs = xs"
proof (rule canonical_ext)
  assume c: "canonical xs"
  show "raw_qty (normalizeInventory xs) i = raw_qty xs i" for i
    using canonical_raw_qty_le [OF c, of i] canonical_unknown [OF c, of i]
    by (auto simp: raw_qty_normalizeInventory)
qed auto

section \<open>What the operations do to the quantities\<close>

lemma findStackIndex_Some:
  assumes "canonical inventory" and "findStackIndex inventory item = Some k"
  shows "k < length inventory" and "Item (inventory ! k) = item"
    and "raw_qty inventory item = unat (Quantity (inventory ! k))"
    and "Quantity (inventory ! k) \<noteq> 0"
proof -
  from assms(2) show k: "k < length inventory" "Item (inventory ! k) = item"
    by (auto simp: findStackIndex_def find_index_Some)
  from raw_qty_member [OF canonical_distinct [OF assms(1)] nth_mem [OF k(1)]] k(2)
  show "raw_qty inventory item = unat (Quantity (inventory ! k))" by simp
  show "Quantity (inventory ! k) \<noteq> 0"
    using assms(1) nth_mem [OF k(1)] by (auto simp: canonical_def)
qed

lemma findStackIndex_None:
  "findStackIndex inventory item = None \<longleftrightarrow> item \<notin> Item ` set inventory"
  by (auto simp: findStackIndex_def find_index_None)

lemma raw_qty_set_quantity:
  assumes "k < length xs" and "Item (xs ! k) = item"
  shows "raw_qty (xs[k := (xs ! k)\<lparr>Quantity := q\<rparr>]) i + (if i = item then unat (Quantity (xs ! k)) else 0)
           = raw_qty xs i + (if i = item then unat q else 0)"
  using assms
proof (induction xs arbitrary: k)
  case (Cons x xs)
  then show ?case by (cases k) auto
qed simp

lemma raw_qty_remove_at_zero:
  assumes "k < length xs" and "Quantity (xs ! k) = 0"
  shows "raw_qty (remove_at k xs) i = raw_qty xs i"
proof -
  have "raw_qty xs i = raw_qty (take k xs @ xs ! k # drop (Suc k) xs) i"
    using assms(1) by (simp flip: id_take_nth_drop)
  with assms(2) show ?thesis by (simp add: remove_at_def)
qed

text \<open>The success condition of an insertion, over quantities only.\<close>

definition bag_add :: "(ItemType \<Rightarrow> nat) \<Rightarrow> ItemType \<Rightarrow> nat \<Rightarrow> (ItemType \<Rightarrow> nat)" where
  "bag_add b item n = b(item := b item + n)"

definition bag_remove :: "(ItemType \<Rightarrow> nat) \<Rightarrow> ItemType \<Rightarrow> nat \<Rightarrow> (ItemType \<Rightarrow> nat)" where
  "bag_remove b item n = b(item := b item - n)"

definition effective_base :: "int \<Rightarrow> int" where
  "effective_base base = (if base \<le> 0 then BaseInventoryStackLimit else base)"

definition within_limit :: "ItemStack list \<Rightarrow> int \<Rightarrow> bool" where
  "within_limit inventory base \<longleftrightarrow> int (length inventory) \<le> stackLimitForBase inventory base"

lemma foldl_satchels:
  "foldl (\<lambda>n s. if Item s \<noteq> ItemSatchel then n else n + uint (Quantity s)) n inventory =
     n + int (raw_qty inventory ItemSatchel)"
  by (induction inventory arbitrary: n) auto

lemma stackLimitForBase_eq:
  "stackLimitForBase inventory base = base + 3 * int (raw_qty inventory ItemSatchel)"
  by (simp add: stackLimitForBase_def foldl_satchels SatchelBonusStacks_def)

lemma uint8_sum_le:
  assumes "uint (a :: uint8) + uint (b :: uint8) \<le> 255"
  shows "unat (word_of_int (uint a + uint b) :: uint8) = unat a + unat b"
proof -
  have le: "unat a + unat b \<le> 255"
    using assms by (metis nat_le_iff nat_numeral of_nat_add of_nat_le_iff of_nat_numeral uint_nat)
  have "(word_of_int (uint a + uint b) :: uint8) = a + b" by (simp add: wi_hom_add)
  moreover have "unat (a + b) = (unat a + unat b) mod 2 ^ LENGTH(8)"
    by (simp add: unat_word_ariths)
  ultimately show ?thesis using le by simp
qed

lemma removeFromInventory_Some:
  assumes c: "canonical inventory" and r: "removeFromInventory inventory item amount = Some inventory'"
  shows "canonical inventory'"
    and "unat amount \<le> raw_qty inventory item"
    and "raw_qty inventory' = bag_remove (raw_qty inventory) item (unat amount)"
proof -
  from r obtain k where k: "findStackIndex inventory item = Some k"
    and known: "IsKnownItem item" and a0: "amount \<noteq> 0"
    and ge: "\<not> Quantity (inventory ! k) < amount"
    by (auto simp: removeFromInventory_def Let_def split: if_splits option.splits)
  note f = findStackIndex_Some [OF c k]
  let ?q = "Quantity (inventory ! k) - amount"
  let ?next = "inventory[k := (inventory ! k)\<lparr>Quantity := ?q\<rparr>]"
  let ?next' = "if ?q = 0 then remove_at k ?next else ?next"
  from ge have le: "amount \<le> Quantity (inventory ! k)" by simp
  then have q: "unat ?q = unat (Quantity (inventory ! k)) - unat amount" by (rule unat_sub)
  from r k known a0 ge have inv': "inventory' = normalizeInventory ?next'"
    by (simp add: removeFromInventory_def Let_def split: if_splits)
  show "canonical inventory'" by (simp add: inv')
  show "unat amount \<le> raw_qty inventory item" using le f(3) by (simp add: word_le_nat_alt)
  have drop0: "raw_qty ?next' i = raw_qty ?next i" for i
    using raw_qty_remove_at_zero [of k ?next i] f(1) by simp
  have rq: "raw_qty ?next i = bag_remove (raw_qty inventory) item (unat amount) i" for i
    using raw_qty_set_quantity [OF f(1,2), of ?q i] f(3) q le
    by (auto simp: bag_remove_def word_le_nat_alt)
  have nx: "raw_qty ?next' = bag_remove (raw_qty inventory) item (unat amount)"
    by (rule ext) (simp only: drop0 rq)
  have "raw_qty (normalizeInventory ?next') = raw_qty ?next'"
    using canonical_raw_qty_le [OF c] canonical_unknown [OF c] known
    by (intro raw_qty_normalize_small) (auto simp only: nx bag_remove_def fun_upd_def
        intro: le_trans [OF diff_le_self] split: if_splits)
  then show "raw_qty inventory' = bag_remove (raw_qty inventory) item (unat amount)"
    by (simp only: inv' nx)
qed

lemma removeFromInventory_None_iff:
  assumes c: "canonical inventory"
  shows "removeFromInventory inventory item amount = None \<longleftrightarrow>
    amount = 0 \<or> \<not> IsKnownItem item \<or> raw_qty inventory item < unat amount"
proof (cases "findStackIndex inventory item")
  case None
  then have "raw_qty inventory item = 0" by (simp add: findStackIndex_None raw_qty_zero)
  with None show ?thesis by (auto simp: removeFromInventory_def unat_gt_0)
next
  case (Some k)
  show ?thesis using findStackIndex_Some(3) [OF c Some] Some
    by (auto simp: removeFromInventory_def Let_def word_less_nat_alt)
qed

text \<open>The list before normalisation in an insertion, when the 255 bound does not reject it.\<close>

lemma addToInventory_eq:
  assumes c: "canonical inventory" and "amount \<noteq> 0" and known: "IsKnownItem item"
    and bound: "raw_qty inventory item + unat amount \<le> 255"
  obtains inventory' where "canonical inventory'"
    and "raw_qty inventory' = bag_add (raw_qty inventory) item (unat amount)"
    and "addToInventory inventory item amount base =
           (if within_limit inventory' (effective_base base) then Some inventory' else None)"
proof (cases "findStackIndex inventory item")
  case None
  let ?next = "inventory @ [stack item amount]"
  have nx: "raw_qty ?next = bag_add (raw_qty inventory) item (unat amount)"
    by (auto simp: bag_add_def)
  have nn: "raw_qty (normalizeInventory ?next) = raw_qty ?next"
    using canonical_raw_qty_le [OF c] canonical_unknown [OF c] known bound
    by (intro raw_qty_normalize_small) (auto simp: nx bag_add_def)
  show ?thesis
  proof (rule that [of "normalizeInventory ?next"])
    show "addToInventory inventory item amount base =
      (if within_limit (normalizeInventory ?next) (effective_base base)
       then Some (normalizeInventory ?next) else None)"
      using assms None
      by (simp add: addToInventory_def Let_def effective_base_def within_limit_def)
  qed (simp, simp only: nn nx)
next
  case (Some k)
  note f = findStackIndex_Some [OF c Some]
  let ?n = "uint (Quantity (inventory ! k)) + uint amount"
  let ?next = "inventory[k := (inventory ! k)\<lparr>Quantity := word_of_int ?n\<rparr>]"
  have n: "?n \<le> 255"
    using bound f(3) by (metis nat_le_iff nat_numeral of_nat_add of_nat_le_iff of_nat_numeral uint_nat)
  have nx: "raw_qty ?next = bag_add (raw_qty inventory) item (unat amount)"
  proof
    fix i
    show "raw_qty ?next i = bag_add (raw_qty inventory) item (unat amount) i"
      using raw_qty_set_quantity [OF f(1,2), of "word_of_int ?n" i] f(3) uint8_sum_le [OF n]
      by (auto simp: bag_add_def)
  qed
  have nn: "raw_qty (normalizeInventory ?next) = raw_qty ?next"
    using canonical_raw_qty_le [OF c] canonical_unknown [OF c] known bound
    by (intro raw_qty_normalize_small) (auto simp only: nx bag_add_def fun_upd_def split: if_splits)
  show ?thesis
  proof (rule that [of "normalizeInventory ?next"])
    show "addToInventory inventory item amount base =
      (if within_limit (normalizeInventory ?next) (effective_base base)
       then Some (normalizeInventory ?next) else None)"
      using assms Some n
      by (simp add: addToInventory_def Let_def effective_base_def within_limit_def)
  qed (simp, simp only: nn nx)
qed

lemma addToInventory_invalid:
  "amount = 0 \<or> \<not> IsKnownItem item \<Longrightarrow> addToInventory inventory item amount base = None"
  by (simp add: addToInventory_def)

lemma addToInventory_overflow:
  assumes c: "canonical inventory" and "255 < raw_qty inventory item + unat amount"
  shows "addToInventory inventory item amount base = None"
proof (cases "findStackIndex inventory item")
  case None
  then have "raw_qty inventory item = 0" by (simp add: findStackIndex_None raw_qty_zero)
  with assms(2) unat_uint8_le [of amount] show ?thesis by simp
next
  case (Some k)
  note f = findStackIndex_Some [OF c Some]
  have "255 < uint (Quantity (inventory ! k)) + uint amount"
    using assms(2) f(3)
    by (metis nat_numeral of_nat_add of_nat_less_iff of_nat_numeral uint_nat)
  with Some show ?thesis by (simp add: addToInventory_def Let_def)
qed

lemma addToInventory_Some_iff:
  assumes c: "canonical inventory"
  shows "addToInventory inventory item amount base = Some inventory' \<longleftrightarrow>
    amount \<noteq> 0 \<and> IsKnownItem item \<and> raw_qty inventory item + unat amount \<le> 255 \<and>
    canonical inventory' \<and> raw_qty inventory' = bag_add (raw_qty inventory) item (unat amount) \<and>
    within_limit inventory' (effective_base base)"
proof (cases "amount \<noteq> 0 \<and> IsKnownItem item \<and> raw_qty inventory item + unat amount \<le> 255")
  case True
  then obtain v where v: "canonical v" "raw_qty v = bag_add (raw_qty inventory) item (unat amount)"
    "addToInventory inventory item amount base =
       (if within_limit v (effective_base base) then Some v else None)"
    using addToInventory_eq [OF c] by metis
  have "inventory' = v" if "canonical inventory'"
    "raw_qty inventory' = bag_add (raw_qty inventory) item (unat amount)"
    using that v by (intro canonical_ext) auto
  with v True show ?thesis by auto
next
  case False
  then have "addToInventory inventory item amount base = None"
    by (auto simp: not_le addToInventory_invalid addToInventory_overflow [OF c])
  with False show ?thesis by auto
qed

lemma removeFromInventory_Some_iff:
  assumes c: "canonical inventory"
  shows "removeFromInventory inventory item amount = Some inventory' \<longleftrightarrow>
    amount \<noteq> 0 \<and> IsKnownItem item \<and> unat amount \<le> raw_qty inventory item \<and>
    canonical inventory' \<and> raw_qty inventory' = bag_remove (raw_qty inventory) item (unat amount)"
    (is "?l = Some _ \<longleftrightarrow> ?r inventory'")
proof
  assume "?l = Some inventory'"
  then show "?r inventory'"
    using removeFromInventory_Some [OF c] removeFromInventory_None_iff [OF c, of item amount] by auto
next
  assume r: "?r inventory'"
  then have "?l \<noteq> None" using removeFromInventory_None_iff [OF c, of item amount] by auto
  then obtain v where v: "?l = Some v" by auto
  have "v = inventory'"
    using removeFromInventory_Some [OF c v] r by (intro canonical_ext) auto
  with v show "?l = Some inventory'" by simp
qed

section \<open>The container interface\<close>

text \<open>
  What the callers of the inventory rely on (transfers, cell stashes, purchases): an
  insertion and a removal that either fail or change the quantity of the named item by
  exactly the given amount, and keep the representation invariant.
\<close>

locale item_container =
  fixes put :: "'s \<Rightarrow> ItemType \<Rightarrow> uint8 \<Rightarrow> 's option"
    and take_out :: "'s \<Rightarrow> ItemType \<Rightarrow> uint8 \<Rightarrow> 's option"
    and qty :: "'s \<Rightarrow> ItemType \<Rightarrow> nat"
    and invar :: "'s \<Rightarrow> bool"
  assumes put_qty: "invar s \<Longrightarrow> put s i n = Some s' \<Longrightarrow> qty s' = bag_add (qty s) i (unat n)"
    and put_invar: "invar s \<Longrightarrow> put s i n = Some s' \<Longrightarrow> invar s'"
    and take_enough: "invar s \<Longrightarrow> take_out s i n = Some s' \<Longrightarrow> unat n \<le> qty s i"
    and take_qty: "invar s \<Longrightarrow> take_out s i n = Some s' \<Longrightarrow> qty s' = bag_remove (qty s) i (unat n)"
    and take_invar: "invar s \<Longrightarrow> take_out s i n = Some s' \<Longrightarrow> invar s'"
begin

text \<open>Moving items between two containers neither creates nor loses any.\<close>

lemma move_conserves:
  assumes "invar a" and "invar b" and "take_out a i n = Some a'" and "put b i n = Some b'"
  shows "qty a' j + qty b' j = qty a j + qty b j"
  using assms take_enough [OF assms(1,3)]
  by (auto simp: take_qty put_qty bag_add_def bag_remove_def)

text \<open>Putting back what was taken restores every quantity.\<close>

lemma take_put:
  assumes "invar a" and "take_out a i n = Some a'" and "put a' i n = Some a''"
  shows "qty a'' = qty a"
  using assms take_enough [OF assms(1,2)] put_qty [OF take_invar [OF assms(1,2)] assms(3)]
  by (auto simp: take_qty bag_add_def bag_remove_def)

lemma put_take:
  assumes "invar a" and "put a i n = Some a'" and "take_out a' i n = Some a''"
  shows "qty a'' = qty a"
  using assms take_qty [OF put_invar [OF assms(1,2)] assms(3)]
  by (auto simp: put_qty bag_add_def bag_remove_def)

end

interpretation slots: item_container
  "\<lambda>inventory item amount. addToInventory inventory item amount base"
  removeFromInventory raw_qty canonical
  for base
  by unfold_locales (auto simp: addToInventory_Some_iff removeFromInventory_Some_iff)

text \<open>The quantities a player holds, as the operations see them.\<close>

definition player_qty :: "PlayerState \<Rightarrow> ItemType \<Rightarrow> nat" where
  "player_qty p = raw_qty (normalizeInventory (Inventory p))"

lemma player_qty_Inventory [simp]:
  "canonical inventory \<Longrightarrow> player_qty (p\<lparr>Inventory := inventory\<rparr>) = raw_qty inventory"
  by (simp add: player_qty_def normalizeInventory_id)

lemma base_positive: "0 < baseStackLimitForPlayer p"
  by (simp add: baseStackLimitForPlayer_def BaseInventoryStackLimit_def word_less_def)

lemma effective_base_player [simp]:
  "effective_base (baseStackLimitForPlayer p) = baseStackLimitForPlayer p"
  using base_positive [of p] by (simp add: effective_base_def)

lemma AddItem_Some_eq:
  "AddItem p item amount = Some p' \<longleftrightarrow>
     (\<exists>inventory'. p' = p\<lparr>Inventory := inventory'\<rparr> \<and>
        addToInventory (normalizeInventory (Inventory p)) item amount (baseStackLimitForPlayer p)
          = Some inventory')"
  by (auto simp: AddItem_def addToInventory_invalid split: option.split)

lemma AddItem_Some_iff:
  "AddItem p item amount = Some p' \<longleftrightarrow>
     amount \<noteq> 0 \<and> IsKnownItem item \<and> player_qty p item + unat amount \<le> 255 \<and>
     (\<exists>inventory'. p' = p\<lparr>Inventory := inventory'\<rparr> \<and> canonical inventory' \<and>
        raw_qty inventory' = bag_add (player_qty p) item (unat amount) \<and>
        within_limit inventory' (baseStackLimitForPlayer p))"
  unfolding AddItem_Some_eq player_qty_def by (simp add: addToInventory_Some_iff) blast

lemma RemoveItem_Some_eq:
  "RemoveItem p item amount = Some p' \<longleftrightarrow>
     (\<exists>inventory'. p' = p\<lparr>Inventory := inventory'\<rparr> \<and>
        removeFromInventory (normalizeInventory (Inventory p)) item amount = Some inventory' \<and>
        (item = ItemSatchel \<longrightarrow> within_limit inventory' (baseStackLimitForPlayer p)))"
proof (cases "removeFromInventory (normalizeInventory (Inventory p)) item amount")
  case None
  then show ?thesis by (simp add: RemoveItem_def)
next
  case (Some v)
  moreover from Some have "amount \<noteq> 0 \<and> IsKnownItem item"
    by (auto simp: removeFromInventory_def split: if_splits)
  ultimately show ?thesis
    by (auto simp: RemoveItem_def within_limit_def stackLimitForPlayer_def)
qed

lemma RemoveItem_Some_iff:
  "RemoveItem p item amount = Some p' \<longleftrightarrow>
     amount \<noteq> 0 \<and> IsKnownItem item \<and> unat amount \<le> player_qty p item \<and>
     (\<exists>inventory'. p' = p\<lparr>Inventory := inventory'\<rparr> \<and> canonical inventory' \<and>
        raw_qty inventory' = bag_remove (player_qty p) item (unat amount) \<and>
        (item = ItemSatchel \<longrightarrow> within_limit inventory' (baseStackLimitForPlayer p)))"
  unfolding RemoveItem_Some_eq player_qty_def by (simp add: removeFromInventory_Some_iff) blast

interpretation bag: item_container AddItem RemoveItem player_qty "\<lambda>_. True"
  by unfold_locales (auto simp: AddItem_Some_iff RemoveItem_Some_iff)

lemma HasItem_iff: "HasItem p item amount \<longleftrightarrow> IsKnownItem item \<and> unat amount \<le> player_qty p item"
proof (cases "findStackIndex (normalizeInventory (Inventory p)) item")
  case None
  then have "player_qty p item = 0" by (simp add: player_qty_def findStackIndex_None raw_qty_zero)
  with None show ?thesis by (simp add: HasItem_def unat_eq_zero)
next
  case (Some k)
  then show ?thesis
    using findStackIndex_Some(3) [OF normalizeInventory_canonical Some]
    by (auto simp: HasItem_def player_qty_def word_le_nat_alt Let_def)
qed

section \<open>Transfers and crafting\<close>

lemma TransferItem_Some_iff:
  "TransferItem a b item amount = Some (a', b') \<longleftrightarrow>
     ID a \<noteq> ID b \<and>
     (\<exists>ia ib. a' = a\<lparr>Inventory := ia\<rparr> \<and> b' = b\<lparr>Inventory := ib\<rparr> \<and>
        removeFromInventory (normalizeInventory (Inventory a)) item amount = Some ia \<and>
        addToInventory (normalizeInventory (Inventory b)) item amount (baseStackLimitForPlayer b)
          = Some ib)"
  by (auto simp: TransferItem_def addToInventory_invalid Let_def split: option.splits)

lemma consume_requirements_Some_iff:
  assumes "canonical inventory"
    and "\<And>s. s \<in> set reqs \<Longrightarrow> IsKnownItem (Item s) \<and> Quantity s \<noteq> 0"
  shows "consume_requirements inventory reqs = Some inventory' \<longleftrightarrow>
    canonical inventory' \<and> (\<forall>j. raw_qty reqs j \<le> raw_qty inventory j) \<and>
    raw_qty inventory' = (\<lambda>j. raw_qty inventory j - raw_qty reqs j)"
  using assms
proof (induction reqs arbitrary: inventory)
  case Nil
  then show ?case by (auto simp: fun_eq_iff intro: canonical_ext)
next
  case (Cons r rs)
  note c = Cons.prems(1)
  show ?case
  proof (cases "removeFromInventory inventory (Item r) (Quantity r)")
    case None
    then have "raw_qty inventory (Item r) < unat (Quantity r)"
      using removeFromInventory_None_iff [OF c] Cons.prems(2) [of r] by auto
    then have "\<not> raw_qty (r # rs) (Item r) \<le> raw_qty inventory (Item r)" by simp
    with None show ?thesis by (auto simp del: raw_qty_Cons)
  next
    case (Some v)
    note v = removeFromInventory_Some [OF c Some]
    have IH: "consume_requirements v rs = Some inventory' \<longleftrightarrow>
      canonical inventory' \<and> (\<forall>j. raw_qty rs j \<le> raw_qty v j) \<and>
      raw_qty inventory' = (\<lambda>j. raw_qty v j - raw_qty rs j)"
      using Cons.IH [OF v(1)] Cons.prems(2) by simp
    have le: "raw_qty rs j \<le> raw_qty v j \<longleftrightarrow> raw_qty (r # rs) j \<le> raw_qty inventory j" for j
      using v(2) by (auto simp: v(3) bag_remove_def)
    have sub: "raw_qty v j - raw_qty rs j = raw_qty inventory j - raw_qty (r # rs) j" for j
      by (auto simp: v(3) bag_remove_def)
    show ?thesis by (simp only: consume_requirements.simps Some option.simps IH le sub)
  qed
qed

lemma consume_requirements_total:
  assumes "canonical inventory"
    and "\<And>s. s \<in> set reqs \<Longrightarrow> IsKnownItem (Item s) \<and> Quantity s \<noteq> 0"
    and "\<And>j. raw_qty reqs j \<le> raw_qty inventory j"
  shows "consume_requirements inventory reqs \<noteq> None"
  using assms
proof (induction reqs arbitrary: inventory)
  case (Cons r rs)
  note c = Cons.prems(1)
  have "removeFromInventory inventory (Item r) (Quantity r) \<noteq> None"
    using removeFromInventory_None_iff [OF c] Cons.prems(2) [of r] Cons.prems(3) [of "Item r"] by auto
  then obtain v where Some: "removeFromInventory inventory (Item r) (Quantity r) = Some v" by auto
  note v = removeFromInventory_Some [OF c Some]
  have "raw_qty rs j \<le> raw_qty v j" for j
    using Cons.prems(3) [of j] by (auto simp: v(3) bag_remove_def split: if_splits)
  then have "consume_requirements v rs \<noteq> None" using Cons.prems(2) by (intro Cons.IH v(1)) auto
  with Some show ?case by simp
qed simp

lemma RecipeFor_inputs:
  assumes "RecipeFor output = Some r"
  shows "Output r = output \<and> OutputQuantity r = 1 \<and> IsKnownItem output \<and>
     (\<forall>s \<in> set (Inputs r). IsKnownItem (Item s) \<and> Quantity s \<noteq> 0)"
  using assms
  by (auto simp: RecipeFor_def recipesByOutput_def IsKnownItem_def knownItems_def
      split: option.splits if_splits)

lemma Craft_Some_iff:
  "Craft p output = Some p' \<longleftrightarrow>
     (\<exists>r. RecipeFor output = Some r \<and> (\<forall>j. raw_qty (Inputs r) j \<le> player_qty p j) \<and>
        player_qty p output - raw_qty (Inputs r) output < 255 \<and>
        (\<exists>inventory'. p' = p\<lparr>Inventory := inventory'\<rparr> \<and> canonical inventory' \<and>
           raw_qty inventory' = bag_add (\<lambda>j. player_qty p j - raw_qty (Inputs r) j) output 1 \<and>
           within_limit inventory' (baseStackLimitForPlayer p)))"
proof (cases "RecipeFor output")
  case None
  then show ?thesis by (simp add: Craft_def)
next
  case (Some r)
  note rr = RecipeFor_inputs [OF Some]
  let ?n = "normalizeInventory (Inventory p)"
  show ?thesis
  proof (cases "consume_requirements ?n (Inputs r)")
    case None
    with consume_requirements_total [of ?n "Inputs r"] rr
    have "\<not> (\<forall>j. raw_qty (Inputs r) j \<le> player_qty p j)" by (auto simp: player_qty_def)
    with None Some show ?thesis by (auto simp: Craft_def)
  next
    case v: (Some v)
    with rr have q: "canonical v" "\<forall>j. raw_qty (Inputs r) j \<le> player_qty p j"
      "raw_qty v = (\<lambda>j. player_qty p j - raw_qty (Inputs r) j)"
      by (auto simp: player_qty_def consume_requirements_Some_iff)
    have "Craft p output = Some p' \<longleftrightarrow>
      (\<exists>inventory'. addToInventory v output 1 (baseStackLimitForPlayer p) = Some inventory' \<and>
         p' = p\<lparr>Inventory := inventory'\<rparr>)"
      using Some v rr by (auto simp: Craft_def split: option.splits)
    also have "\<dots> \<longleftrightarrow> player_qty p output - raw_qty (Inputs r) output < 255 \<and>
      (\<exists>inventory'. p' = p\<lparr>Inventory := inventory'\<rparr> \<and> canonical inventory' \<and>
         raw_qty inventory' = bag_add (\<lambda>j. player_qty p j - raw_qty (Inputs r) j) output 1 \<and>
         within_limit inventory' (baseStackLimitForPlayer p))"
      using rr q(1) by (simp add: addToInventory_Some_iff q(3)) fastforce
    finally show ?thesis using q(2) by (simp add: Some)
  qed
qed

section \<open>Dropped-item tags round trip\<close>

text \<open>Tags that are the item's, the quantity's, or neither are read in any order.\<close>

lemma parse_tags_any_order:
  assumes "IsKnownItem item" and "0 < q" and "q \<le> 255"
    and "\<And>t. t \<in> set tags \<Longrightarrow>
       t = ''item:'' @ ItemType_str item \<or> t = ''qty:'' @ Itoa q \<or>
       \<not> HasPrefix t ''item:'' \<and> \<not> HasPrefix t ''qty:''"
  shows "parse_tags tags (i0, q0) = Some
     (if ''item:'' @ ItemType_str item \<in> set tags then item else i0,
      if ''qty:'' @ Itoa q \<in> set tags then of_nat q else q0)"
  using assms(4)
proof (induction tags arbitrary: i0 q0)
  case (Cons t ts)
  have at: "Atoi (Itoa q) = Some (int q)" using assms(3) by (intro Atoi_Itoa) simp
  from Cons.prems consider (i) "t = ''item:'' @ ItemType_str item" | (q) "t = ''qty:'' @ Itoa q"
    | (n) "\<not> HasPrefix t ''item:''" "\<not> HasPrefix t ''qty:''" by auto
  then show ?case
  proof cases
    case i
    then show ?thesis using Cons assms(1)
      by (simp add: HasPrefix_def TrimPrefix_def)
  next
    case q
    then show ?thesis using Cons assms(2,3) at
      by (simp add: HasPrefix_def TrimPrefix_def)
  next
    case n
    then have "t \<noteq> ''item:'' @ ItemType_str item" and "t \<noteq> ''qty:'' @ Itoa q"
      by (auto simp: HasPrefix_def)
    then show ?thesis using Cons n by simp
  qed
qed simp

lemma known_not_empty: "IsKnownItem i \<Longrightarrow> i \<noteq> NoItem"
  by (auto simp: IsKnownItem_def knownItems_def)

lemma BuildDroppedItemTags_set:
  "set (BuildDroppedItemTags item quantity) =
     {''dropped_item'', ''item:'' @ ItemType_str item,
      ''qty:'' @ Itoa (if quantity = 0 then 1 else unat quantity)} \<union>
     (if IsContraband item then {''contraband''} else {})"
  by (auto simp: BuildDroppedItemTags_def Let_def)

lemma tag_prefixes:
  "\<not> HasPrefix ''dropped_item'' ''item:''" "\<not> HasPrefix ''dropped_item'' ''qty:''"
  "\<not> HasPrefix ''contraband'' ''item:''" "\<not> HasPrefix ''contraband'' ''qty:''"
  by (simp_all add: HasPrefix_def)

lemma parse_build_tags:
  assumes "IsKnownItem item" and "Kind e = EntityKindDroppedItem"
    and "Tags e = BuildDroppedItemTags item quantity"
  shows "ParseDroppedItem e = Some (item, if quantity = 0 then 1 else quantity)"
proof -
  let ?q = "if quantity = 0 then 1 else unat quantity"
  have tg: "t = ''item:'' @ ItemType_str item \<or> t = ''qty:'' @ Itoa ?q \<or>
      \<not> HasPrefix t ''item:'' \<and> \<not> HasPrefix t ''qty:''" if "t \<in> set (Tags e)" for t
    using that assms(3) tag_prefixes by (auto simp: BuildDroppedItemTags_set split: if_splits)
  have "0 < ?q" and "?q \<le> 255" using unat_uint8_le [of quantity] by (auto simp: unat_gt_0)
  then have "parse_tags (Tags e) (NoItem, 1) = Some (item, of_nat ?q)"
    using parse_tags_any_order [OF assms(1) _ _ tg, of "Tags e" NoItem 1] assms(3)
    by (simp add: BuildDroppedItemTags_set)
  then show ?thesis
    using assms(2) known_not_empty [OF assms(1)] by (simp add: ParseDroppedItem_def)
qed

section \<open>Properties\<close>

text \<open>Normalising an inventory gives, for every input list, the canonical
  representation: stacks strictly ordered by item name, all known items, no empty stack;
  it holds of every known item the sum of the input stacks (16-bit sum, saturated at 255) and
  of no unknown item anything; normalising again changes nothing.\<close>

theorem normalizeInventory_spec:
  "canonical (normalizeInventory inventory) \<and>
   (\<forall>i. raw_qty (normalizeInventory inventory) i =
      (if IsKnownItem i then min 255 (raw_qty inventory i mod 65536) else 0)) \<and>
   normalizeInventory (normalizeInventory inventory) = normalizeInventory inventory"
  by (simp add: raw_qty_normalizeInventory normalizeInventory_id)

text \<open>Normalisation is deterministic although it ranges over a Go map: whatever order
  the map yields its entries in, and whatever order the stacks had, the result is the same.\<close>

theorem normalizeInventory_order_irrelevant:
  assumes "mset xs = mset ys" and "mset entries = mset (aggregate_inventory ys)"
  shows "collect_entries entries = normalizeInventory xs"
proof -
  have "collect_entries entries = normalizeInventory ys"
    using collect_entries_order_irrelevant [OF aggregate_inventory_distinct
        aggregate_inventory_known assms(2) [symmetric]]
    by (cases "ys = []")
       (auto simp: normalizeInventory_def aggregate_inventory_def collect_entries_Nil)
  moreover have "normalizeInventory ys = normalizeInventory xs"
    by (rule canonical_ext) (simp_all add: raw_qty_normalizeInventory raw_qty_mset [OF assms(1)])
  ultimately show ?thesis by simp
qed

theorem normalizeInventory_order_irrelevant_witness:
  "collect_entries [(ItemWood, 3), (ItemBaton, 1)] =
     normalizeInventory [stack ItemWood 1, stack ItemBaton 1, stack ItemWood 2]"
  by (rule normalizeInventory_order_irrelevant
      [of _ "[stack ItemBaton 1, stack ItemWood 1, stack ItemWood 2]"]) code_simp+

text \<open>C15. \<open>AddItem\<close> refines insertion into a bag: it succeeds exactly when the amount is
  positive, the item is known, the new quantity fits a byte and the resulting stacks fit the
  player's limit (slots plus three per satchel); then only the inventory changes, to the
  canonical list whose quantities are the old ones plus the amount.\<close>

theorem AddItem_refines_bag:
  "AddItem p item amount = Some p' \<longleftrightarrow>
     amount \<noteq> 0 \<and> IsKnownItem item \<and> player_qty p item + unat amount \<le> 255 \<and>
     (\<exists>inventory'. p' = p\<lparr>Inventory := inventory'\<rparr> \<and> canonical inventory' \<and>
        raw_qty inventory' = bag_add (player_qty p) item (unat amount) \<and>
        int (length inventory') \<le>
          baseStackLimitForPlayer p + 3 * int (raw_qty inventory' ItemSatchel))"
  unfolding AddItem_Some_iff within_limit_def stackLimitForBase_eq by blast

text \<open>C16. \<open>RemoveItem\<close> refines removal from a bag: it succeeds exactly when the player holds
  the amount and, for a satchel, the remaining stacks still fit the smaller limit.\<close>

theorem RemoveItem_refines_bag:
  "RemoveItem p item amount = Some p' \<longleftrightarrow>
     amount \<noteq> 0 \<and> IsKnownItem item \<and> unat amount \<le> player_qty p item \<and>
     (\<exists>inventory'. p' = p\<lparr>Inventory := inventory'\<rparr> \<and> canonical inventory' \<and>
        raw_qty inventory' = bag_remove (player_qty p) item (unat amount) \<and>
        (item = ItemSatchel \<longrightarrow> int (length inventory') \<le>
           baseStackLimitForPlayer p + 3 * int (raw_qty inventory' ItemSatchel)))"
  unfolding RemoveItem_Some_iff within_limit_def stackLimitForBase_eq by blast

theorem RemoveItem_refines_bag_witness:
  "RemoveItem (zero_player\<lparr>Inventory := [stack ItemSatchel 1, stack ItemWood 2]\<rparr>) ItemSatchel 1 =
     Some (zero_player\<lparr>Inventory := [stack ItemWood 2]\<rparr>) \<and>
   1 \<le> player_qty (zero_player\<lparr>Inventory := [stack ItemSatchel 1, stack ItemWood 2]\<rparr>) ItemSatchel"
proof
  let ?p = "zero_player\<lparr>Inventory := [stack ItemSatchel 1, stack ItemWood 2]\<rparr>"
  show r: "RemoveItem ?p ItemSatchel 1 = Some (zero_player\<lparr>Inventory := [stack ItemWood 2]\<rparr>)"
    by code_simp
  show "1 \<le> player_qty ?p ItemSatchel"
    using iffD1 [OF RemoveItem_refines_bag r] by simp
qed

text \<open>C17. A transfer between two players neither creates nor destroys items: it moves the
  amount of the named item, every other quantity and every other field of both players stays,
  and the receiver ends within the stack limit.\<close>

theorem TransferItem_conserves:
  assumes "TransferItem a b item amount = Some (a', b')"
  shows "player_qty a' = bag_remove (player_qty a) item (unat amount) \<and>
     player_qty b' = bag_add (player_qty b) item (unat amount) \<and>
     (\<forall>j. player_qty a' j + player_qty b' j = player_qty a j + player_qty b j) \<and>
     a'\<lparr>Inventory := []\<rparr> = a\<lparr>Inventory := []\<rparr> \<and> b'\<lparr>Inventory := []\<rparr> = b\<lparr>Inventory := []\<rparr> \<and>
     within_limit (Inventory b') (baseStackLimitForPlayer b)"
proof -
  from assms obtain ia ib where a': "a' = a\<lparr>Inventory := ia\<rparr>" and b': "b' = b\<lparr>Inventory := ib\<rparr>"
    and ia: "removeFromInventory (normalizeInventory (Inventory a)) item amount = Some ia"
    and ib: "addToInventory (normalizeInventory (Inventory b)) item amount
               (baseStackLimitForPlayer b) = Some ib"
    by (auto simp: TransferItem_Some_iff)
  note c = normalizeInventory_canonical
  have "normalizeInventory ia = ia" and "normalizeInventory ib = ib"
    using slots.take_invar [OF c ia] slots.put_invar [OF c ib]
    by (simp_all add: normalizeInventory_id)
  moreover have "within_limit ib (baseStackLimitForPlayer b)"
    using ib by (simp add: addToInventory_Some_iff)
  ultimately show ?thesis
    using slots.take_qty [OF c ia] slots.put_qty [OF c ib] slots.move_conserves [OF c c ia ib]
    by (simp add: player_qty_def a' b')
qed

definition satchel_owner :: PlayerState where
  "satchel_owner = zero_player\<lparr>ID := PlayerID ''a'', InventorySlots := 3,
     Inventory := [stack ItemBaton 1, stack ItemBullet 3, stack ItemPistol 1,
       stack ItemSatchel 1, stack ItemWood 1]\<rparr>"

definition satchel_taker :: PlayerState where
  "satchel_taker = zero_player\<lparr>ID := PlayerID ''b'', InventorySlots := 3\<rparr>"

theorem TransferItem_conserves_witness:
  "\<exists>a' b'. TransferItem satchel_owner satchel_taker ItemBullet 2 = Some (a', b') \<and>
     player_qty b' = bag_add (player_qty satchel_taker) ItemBullet 2 \<and>
     player_qty a' ItemBullet + player_qty b' ItemBullet = 3"
proof -
  let ?r = "TransferItem satchel_owner satchel_taker ItemBullet 2"
  have "?r \<noteq> None" by code_simp
  then obtain a' b' where r: "?r = Some (a', b')" by auto
  have "player_qty satchel_owner ItemBullet + player_qty satchel_taker ItemBullet = 3"
    by code_simp
  with r TransferItem_conserves [OF r] show ?thesis by auto
qed

text \<open>A transfer does not check the giver's stack limit: a player who gives away the
  satchel that made room for the other stacks ends above the limit, although \<open>RemoveItem\<close>
  refuses the same removal.\<close>

theorem TransferItem_satchel_breaks_limit:
  "within_limit (Inventory satchel_owner) (baseStackLimitForPlayer satchel_owner) \<and>
   RemoveItem satchel_owner ItemSatchel 1 = None \<and>
   (\<exists>a' b'. TransferItem satchel_owner satchel_taker ItemSatchel 1 = Some (a', b') \<and>
      \<not> within_limit (Inventory a') (baseStackLimitForPlayer a'))"
proof (intro conjI)
  show "within_limit (Inventory satchel_owner) (baseStackLimitForPlayer satchel_owner)"
    by code_simp
  show "RemoveItem satchel_owner ItemSatchel 1 = None" by code_simp
  let ?a = "satchel_owner\<lparr>Inventory := [stack ItemBaton 1, stack ItemBullet 3, stack ItemPistol 1,
       stack ItemWood 1]\<rparr>"
  have "TransferItem satchel_owner satchel_taker ItemSatchel 1 =
      Some (?a, satchel_taker\<lparr>Inventory := [stack ItemSatchel 1]\<rparr>)" by code_simp
  moreover have "\<not> within_limit (Inventory ?a) (baseStackLimitForPlayer ?a)" by code_simp
  ultimately show "\<exists>a' b'. TransferItem satchel_owner satchel_taker ItemSatchel 1 = Some (a', b') \<and>
      \<not> within_limit (Inventory a') (baseStackLimitForPlayer a')" by blast
qed

text \<open>C27. Crafting consumes exactly the inputs of the recipe and adds one of its output: it
  succeeds exactly when there is a recipe, the player holds every input in the required
  quantity, the output fits a byte and the resulting stacks fit the limit.\<close>

theorem Craft_exact:
  "Craft p output = Some p' \<longleftrightarrow>
     (\<exists>r. RecipeFor output = Some r \<and> (\<forall>j. raw_qty (Inputs r) j \<le> player_qty p j) \<and>
        player_qty p output - raw_qty (Inputs r) output < 255 \<and>
        (\<exists>inventory'. p' = p\<lparr>Inventory := inventory'\<rparr> \<and> canonical inventory' \<and>
           raw_qty inventory' = bag_add (\<lambda>j. player_qty p j - raw_qty (Inputs r) j) output 1 \<and>
           int (length inventory') \<le>
             baseStackLimitForPlayer p + 3 * int (raw_qty inventory' ItemSatchel)))"
  unfolding Craft_Some_iff within_limit_def stackLimitForBase_eq by blast

text \<open>C40. The tags written for a dropped stack read back as that stack, for every known item
  and every quantity (a quantity of zero is written as one).\<close>

theorem dropped_item_tags_roundtrip:
  assumes "IsKnownItem item" and "Kind e = EntityKindDroppedItem"
    and "Tags e = BuildDroppedItemTags item quantity"
  shows "ParseDroppedItem e = Some (item, if quantity = 0 then 1 else quantity)"
  using assms by (rule parse_build_tags)

definition dropped_example :: EntityState where
  "dropped_example = \<lparr>EntityState_ID = 7, Kind = EntityKindDroppedItem,
     EntityOwnerPlayerID = PlayerID ''a'', EntityPosition = zero_vector,
     EntityVelocity = zero_vector, EntityHeartsHalf = 0, EntityActive = True,
     EntityRoomID = RoomID ''courtyard'', Tags = BuildDroppedItemTags ItemShiv 2\<rparr>"

theorem dropped_item_tags_roundtrip_witness:
  "ParseDroppedItem dropped_example = Some (ItemShiv, 2)"
  using dropped_item_tags_roundtrip [of ItemShiv dropped_example 2]
  by (simp add: dropped_example_def IsKnownItem_def knownItems_def)

end
