(* ===== verification/Hashing.thy ===== *)
theory Hashing
  imports Prelude
begin

text \<open>
  The hash and the pseudo-random generators that make the game's choices deterministic:
  Go's \<open>hash/fnv\<close> 64-bit FNV-1a hasher (its documented constants; a hasher is the word it has
  accumulated), \<open>binary.LittleEndian.PutUint64\<close>, the \<open>splitmix64\<close> stream of
  \<open>gamecore/determinism/rng.go\<close> with its table of named streams, and the \<open>xorshift\<close>
  generator of \<open>gamecore/roles/assignment.go\<close>. Every operation is on 64-bit words and wraps.
\<close>

section \<open>FNV-1a\<close>

definition fnv_offset :: uint64 where
  "fnv_offset = 14695981039346656037"

definition fnv_prime :: uint64 where
  "fnv_prime = 1099511628211"

type_synonym hasher = uint64

definition fnv_New64a :: hasher where
  "fnv_New64a = fnv_offset"

fun fnv_Write :: "hasher \<Rightarrow> uint8 list \<Rightarrow> hasher" where
  "fnv_Write h [] = h"
| "fnv_Write h (b # bs) = fnv_Write ((h XOR ucast b) * fnv_prime) bs"

definition bytes_of_string :: "string \<Rightarrow> uint8 list" where
  "bytes_of_string s = map (\<lambda>c. of_char c) s"

text \<open>\<open>byte(x >> (8 * i))\<close> for \<open>i = 0..7\<close>; \<open>binary.LittleEndian.PutUint64\<close> writes the same bytes.\<close>

definition le_bytes64 :: "uint64 \<Rightarrow> uint8 list" where
  "le_bytes64 x = map (\<lambda>i. ucast (drop_bit (8 * i) x)) [0 ..< 8]"

text \<open>\<open>hasher.Sum64() % uint64(n)\<close> used as a slice index.\<close>

definition mod_index :: "uint64 \<Rightarrow> nat \<Rightarrow> nat" where
  "mod_index h n = unat h mod n"

lemma fnv_Write_append: "fnv_Write h (xs @ ys) = fnv_Write (fnv_Write h xs) ys"
  by (induction h xs rule: fnv_Write.induct) auto

lemma mod_index_less [simp, intro]: "0 < n \<Longrightarrow> mod_index h n < n"
  by (simp add: mod_index_def)

text \<open>The index computed on 64-bit words is the one computed on natural numbers.\<close>

lemma mod_index_word:
  assumes "0 < n" and "n < 2 ^ 64"
  shows "unat (h mod (of_nat n :: uint64)) = mod_index h n"
  using assms by (simp add: mod_index_def unat_mod unat_of_nat)

text \<open>Evaluation on binary integers.\<close>

lemma mod_index_code [code]: "mod_index h n = nat (uint h mod int n)"
  by (simp add: mod_index_def nat_mod_distrib)

lemma nth_mod_index_in_set: "xs \<noteq> [] \<Longrightarrow> xs ! mod_index h (length xs) \<in> set xs"
  by (simp add: mod_index_def)

lemma sort_nth_mod_index_in_set: "xs \<noteq> [] \<Longrightarrow> sort xs ! mod_index h (length xs) \<in> set xs"
proof -
  assume "xs \<noteq> []"
  then have "mod_index h (length xs) < length (sort xs)" by simp
  then have "sort xs ! mod_index h (length xs) \<in> set (sort xs)" by (rule nth_mem)
  then show ?thesis by simp
qed

section \<open>splitmix64 streams (rng.go)\<close>

definition defaultSeed :: uint64 where
  "defaultSeed = 0x9e3779b97f4a7c15"

text \<open>A \<open>StreamRNG\<close> is its state word.\<close>

type_synonym StreamRNG = uint64

definition newStreamRNG :: "uint64 \<Rightarrow> StreamRNG" where
  "newStreamRNG seed = (if seed = 0 then defaultSeed else seed)"

definition NextUint64 :: "StreamRNG \<Rightarrow> uint64 \<times> StreamRNG" where
  "NextUint64 r =
     (let st = r + defaultSeed;
          z = st;
          z = (z XOR drop_bit 30 z) * 0xbf58476d1ce4e5b9;
          z = (z XOR drop_bit 27 z) * 0x94d049bb133111eb
      in (z XOR drop_bit 31 z, st))"

text \<open>\<open>None\<close> is the panic of the source for \<open>n <= 0\<close>.\<close>

definition NextIntn :: "StreamRNG \<Rightarrow> int \<Rightarrow> (nat \<times> StreamRNG) option" where
  "NextIntn r n =
     (if n \<le> 0 then None
      else case NextUint64 r of (z, r') \<Rightarrow> Some (mod_index z (nat n), r'))"

record RNGStreams =
  matchSeed :: uint64
  streams :: "string \<rightharpoonup> StreamRNG"

definition NewRNGStreams :: "uint64 \<Rightarrow> RNGStreams" where
  "NewRNGStreams seed = \<lparr>matchSeed = seed, streams = Map.empty\<rparr>"

definition DeriveStreamSeed :: "uint64 \<Rightarrow> string \<Rightarrow> uint64" where
  "DeriveStreamSeed seed streamName =
     (let h = fnv_Write fnv_New64a (le_bytes64 seed);
          h = fnv_Write h (bytes_of_string streamName)
      in if h = 0 then defaultSeed else h)"

text \<open>
  \<open>Stream(name)\<close> returns the existing stream or creates it; the pointer it returns is the
  entry of the table under that name.
\<close>

definition Stream :: "RNGStreams \<Rightarrow> string \<Rightarrow> StreamRNG \<times> RNGStreams" where
  "Stream r name =
     (case streams r name of
        Some s \<Rightarrow> (s, r)
      | None \<Rightarrow>
          let s = newStreamRNG (DeriveStreamSeed (matchSeed r) name)
          in (s, r\<lparr>streams := (streams r)(name \<mapsto> s)\<rparr>))"

text \<open>One draw from a named stream: \<open>r.Stream(name).NextUint64()\<close>.\<close>

definition stream_draw :: "RNGStreams \<Rightarrow> string \<Rightarrow> uint64 \<times> RNGStreams" where
  "stream_draw r name =
     (case Stream r name of (s, r') \<Rightarrow>
        case NextUint64 s of (z, s') \<Rightarrow> (z, r'\<lparr>streams := (streams r')(name \<mapsto> s')\<rparr>))"

section \<open>xorshift (assignment.go)\<close>

type_synonym deterministicRNG = uint64

definition newDeterministicRNG :: "uint64 \<Rightarrow> deterministicRNG" where
  "newDeterministicRNG seed = (if seed = 0 then 0x6a09e667f3bcc909 else seed)"

definition rng_next :: "deterministicRNG \<Rightarrow> uint64 \<times> deterministicRNG" where
  "rng_next r =
     (let x = r;
          x = x XOR push_bit 13 x;
          x = x XOR drop_bit 7 x;
          x = x XOR push_bit 17 x
      in (x, x))"

definition rng_Intn :: "deterministicRNG \<Rightarrow> nat \<Rightarrow> nat \<times> deterministicRNG" where
  "rng_Intn r limit =
     (if limit \<le> 1 then (0, r)
      else case rng_next r of (x, r') \<Rightarrow> (mod_index x limit, r'))"

lemma rng_Intn_less: "0 < limit \<Longrightarrow> fst (rng_Intn r limit) < limit"
  by (simp add: rng_Intn_def split: prod.split)

lemma NextIntn_Some:
  "0 < n \<Longrightarrow> \<exists>k r'. NextIntn r n = Some (k, r') \<and> int k < n"
  by (auto simp: NextIntn_def mod_index_def split: prod.split)
     (metis int_nat_eq less_imp_le mod_less_divisor zero_less_nat_eq zless_nat_conj nat_less_iff of_nat_0_le_iff nat_int)

section \<open>Streams are isolated from each other\<close>

text \<open>The sequence of values drawn from the names of a schedule, in order.\<close>

fun draws :: "RNGStreams \<Rightarrow> string list \<Rightarrow> (string \<times> uint64) list" where
  "draws r [] = []"
| "draws r (n # ns) = (case stream_draw r n of (z, r') \<Rightarrow> (n, z) # draws r' ns)"

text \<open>The seed state a name starts from, and the state the table gives it.\<close>

definition stream_state :: "RNGStreams \<Rightarrow> string \<Rightarrow> StreamRNG" where
  "stream_state r name =
     (case streams r name of
        Some s \<Rightarrow> s | None \<Rightarrow> newStreamRNG (DeriveStreamSeed (matchSeed r) name))"

fun iterate_stream :: "StreamRNG \<Rightarrow> nat \<Rightarrow> uint64 list" where
  "iterate_stream s 0 = []"
| "iterate_stream s (Suc k) = (case NextUint64 s of (z, s') \<Rightarrow> z # iterate_stream s' k)"

lemma stream_draw_value:
  "fst (stream_draw r n) = fst (NextUint64 (stream_state r n))"
  by (simp add: stream_draw_def Stream_def stream_state_def Let_def split: option.split prod.split)

lemma stream_draw_state_same:
  "stream_state (snd (stream_draw r n)) n = snd (NextUint64 (stream_state r n))"
  by (simp add: stream_draw_def Stream_def stream_state_def Let_def split: option.split prod.split)

lemma stream_draw_state_other:
  "m \<noteq> n \<Longrightarrow> stream_state (snd (stream_draw r n)) m = stream_state r m"
  by (simp add: stream_draw_def Stream_def stream_state_def Let_def split: option.split prod.split)

lemma draws_filter_gen:
  "map snd (filter (\<lambda>p. fst p = m) (draws r ns)) =
     iterate_stream (stream_state r m) (count_list ns m)"
proof (induction ns arbitrary: r)
  case (Cons n ns)
  obtain z r' where d: "stream_draw r n = (z, r')" by (cases "stream_draw r n")
  show ?case
  proof (cases "n = m")
    case True
    have "z = fst (NextUint64 (stream_state r m))"
      and "stream_state r' m = snd (NextUint64 (stream_state r m))"
      using stream_draw_value [of r m] stream_draw_state_same [of r m] d True by simp_all
    then show ?thesis using d True Cons.IH [of r'] by (simp split: prod.split)
  next
    case False
    have "stream_state r' m = stream_state r m"
      using stream_draw_state_other [of m n r] d False by simp
    then show ?thesis using d False Cons.IH [of r'] by simp
  qed
qed simp

end
