(* ===== verification/Cards.thy ===== *)
theory Cards
  imports Items Hashing
begin

text \<open>
  The card hand of a player (\<open>src/internal/gamecore/cards/framework.go\<close>): the catalogue, adding
  and removing a card, durations in ticks, and the hash-based choice of the item that the
  item-grab and item-steal cards give. An operation that returns \<open>false\<close> leaves the player
  unchanged and is \<open>None\<close> here. The abstract view of a hand is the multiset of its cards;
  \<open>hand_ok\<close> is the invariant of every hand that \<open>AddCard\<close> and \<open>RemoveCard\<close> build.
\<close>

section \<open>Definitions\<close>

definition MaxCardsHeld :: nat where "MaxCardsHeld = 3"
definition SpeedDurationSeconds :: uint64 where "SpeedDurationSeconds = 5"
definition DoorStopDurationSeconds :: uint64 where "DoorStopDurationSeconds = 10"

definition knownCards :: "CardType list" where
  "knownCards = [CardMorphine, CardBullet, CardMoney, CardSpeed, CardArmorPlate, CardLockSnap,
     CardItemSteal, CardItemGrab, CardScrapBundle, CardDoorStop, CardGetOutOfJailFree]"

definition knownCardCatalog :: "CardType list" where
  "knownCardCatalog = [CardMorphine, CardBullet, CardMoney, CardSpeed, CardArmorPlate,
     CardLockSnap, CardItemSteal, CardItemGrab, CardScrapBundle, CardDoorStop,
     CardGetOutOfJailFree]"

definition deterministicGrabPool :: "ItemType list" where
  "deterministicGrabPool = [ItemWood, ItemMetalSlab, ItemLockPick, ItemShiv, ItemBullet,
     ItemWireCutters]"

definition IsKnownCard :: "CardType \<Rightarrow> bool" where
  "IsKnownCard crd \<longleftrightarrow> List.member knownCards crd"

definition KnownCards :: "CardType list" where
  "KnownCards = knownCardCatalog"

definition HasCard :: "PlayerState \<Rightarrow> CardType \<Rightarrow> bool" where
  "HasCard player crd \<longleftrightarrow> list_ex (\<lambda>existing. existing = crd) (Cards player)"

definition AddCard :: "PlayerState \<Rightarrow> CardType \<Rightarrow> PlayerState option" where
  "AddCard player crd =
     (if \<not> IsKnownCard crd then None
      else if length (Cards player) \<ge> MaxCardsHeld then None
      else Some (player\<lparr>Cards := sort (Cards player @ [crd])\<rparr>))"

definition RemoveCard :: "PlayerState \<Rightarrow> CardType \<Rightarrow> PlayerState option" where
  "RemoveCard player crd =
     (if \<not> IsKnownCard crd \<or> length (Cards player) = 0 then None
      else case find_index (\<lambda>c. c = crd) (Cards player) of
             None \<Rightarrow> None
           | Some index \<Rightarrow> Some (player\<lparr>Cards := remove_at index (Cards player)\<rparr>))"

definition SpeedDurationTicks :: "uint32 \<Rightarrow> uint64" where
  "SpeedDurationTicks tickRateHz =
     (if tickRateHz = 0 then 0 else SpeedDurationSeconds * ucast tickRateHz)"

definition DoorStopDurationTicks :: "uint32 \<Rightarrow> uint64" where
  "DoorStopDurationTicks tickRateHz =
     (if tickRateHz = 0 then 0 else DoorStopDurationSeconds * ucast tickRateHz)"

definition DeterministicGrabItem :: "PlayerID \<Rightarrow> uint64 \<Rightarrow> ItemType" where
  "DeterministicGrabItem playerID tickID =
     (if length deterministicGrabPool = 0 then NoItem
      else
        let hasher = fnv_Write fnv_New64a (bytes_of_string (PlayerID_str playerID));
            hasher = fnv_Write hasher (le_bytes64 tickID);
            choice = mod_index hasher (length deterministicGrabPool)
        in deterministicGrabPool ! choice)"

definition grab_candidates :: "ItemStack list \<Rightarrow> ItemType list" where
  "grab_candidates inventory =
     map Item (filter (\<lambda>s. \<not> (Quantity s = 0 \<or> Item s = NoItem)) inventory)"

definition DeterministicGrabFromInventory ::
  "PlayerID \<Rightarrow> PlayerID \<Rightarrow> uint64 \<Rightarrow> ItemStack list \<Rightarrow> ItemType" where
  "DeterministicGrabFromInventory actorPlayerID targetPlayerID tickID inventory =
     (let candidates = grab_candidates inventory
      in if length candidates = 0 then NoItem
         else
           let candidates = sort candidates;
               hasher = fnv_Write fnv_New64a (bytes_of_string (PlayerID_str actorPlayerID));
               hasher = fnv_Write hasher (bytes_of_string (PlayerID_str targetPlayerID));
               hasher = fnv_Write hasher (le_bytes64 tickID);
               choice = mod_index hasher (length candidates)
           in candidates ! choice)"

section \<open>The hand as a bounded multiset\<close>

definition hand_ok :: "CardType list \<Rightarrow> bool" where
  "hand_ok hand \<longleftrightarrow> sorted hand \<and> length hand \<le> MaxCardsHeld \<and> (\<forall>c \<in> set hand. IsKnownCard c)"

lemma mset_remove_at:
  assumes "i < length xs"
  shows "mset (remove_at i xs) = mset xs - {#xs ! i#}"
proof -
  have "mset xs = mset (take i xs @ xs ! i # drop (Suc i) xs)"
    using assms by (simp add: id_take_nth_drop [symmetric])
  then show ?thesis by (simp add: remove_at_def)
qed

lemma sorted_remove_at: "sorted xs \<Longrightarrow> sorted (remove_at i xs)"
proof -
  assume s: "sorted xs"
  have "sorted (take i xs @ drop i xs)" using s by simp
  then have "\<forall>x \<in> set (take i xs). \<forall>y \<in> set (drop i xs). x \<le> y" unfolding sorted_append by blast
  moreover have "set (drop (Suc i) xs) \<subseteq> set (drop i xs)" by (rule set_drop_subset_set_drop) simp
  ultimately show ?thesis
    using s by (auto simp: remove_at_def sorted_append sorted_wrt_take sorted_wrt_drop)
qed

lemma RemoveCard_Some:
  "RemoveCard p crd = Some p' \<longleftrightarrow>
     IsKnownCard crd \<and> (\<exists>i. find_index (\<lambda>c. c = crd) (Cards p) = Some i \<and>
       p' = p\<lparr>Cards := remove_at i (Cards p)\<rparr>)"
  by (auto simp: RemoveCard_def split: option.splits)

lemma RemoveCard_None:
  "RemoveCard p crd = None \<longleftrightarrow> \<not> IsKnownCard crd \<or> crd \<notin> set (Cards p)"
  by (auto simp: RemoveCard_def find_index_None find_index_Some split: option.splits)

lemma grab_candidates_known:
  "i \<in> set (grab_candidates inventory) \<longleftrightarrow> i \<noteq> NoItem \<and> 0 < raw_qty inventory i"
  by (induction inventory) (auto simp: grab_candidates_def unat_gt_0)

section \<open>Properties\<close>

text \<open>A hand is a bounded multiset of known cards kept sorted. Adding a card fails exactly
  when the card is unknown or three cards are held, and otherwise adds exactly that card;
  removing a card fails exactly when it is unknown or not held, and otherwise removes exactly
  one copy; both keep the invariant and change nothing but the hand.\<close>

theorem hand_operations:
  assumes "hand_ok (Cards p)"
  shows "(AddCard p crd = None \<longleftrightarrow> \<not> IsKnownCard crd \<or> length (Cards p) = 3) \<and>
     (RemoveCard p crd = None \<longleftrightarrow> \<not> HasCard p crd) \<and>
     (\<forall>p'. AddCard p crd = Some p' \<longrightarrow> hand_ok (Cards p') \<and>
        p' = p\<lparr>Cards := Cards p'\<rparr> \<and> mset (Cards p') = add_mset crd (mset (Cards p))) \<and>
     (\<forall>p'. RemoveCard p crd = Some p' \<longrightarrow> hand_ok (Cards p') \<and>
        p' = p\<lparr>Cards := Cards p'\<rparr> \<and> mset (Cards p) = add_mset crd (mset (Cards p')))"
proof (intro conjI allI impI)
  from assms have le: "length (Cards p) \<le> 3" and known: "\<forall>c \<in> set (Cards p). IsKnownCard c"
    and srt: "sorted (Cards p)"
    by (auto simp: hand_ok_def MaxCardsHeld_def)
  show "AddCard p crd = None \<longleftrightarrow> \<not> IsKnownCard crd \<or> length (Cards p) = 3"
    using le by (auto simp: AddCard_def MaxCardsHeld_def)
  show "RemoveCard p crd = None \<longleftrightarrow> \<not> HasCard p crd"
    using known by (auto simp: RemoveCard_None HasCard_def list_ex_iff)
  show "hand_ok (Cards p')" "p' = p\<lparr>Cards := Cards p'\<rparr>"
    "mset (Cards p') = add_mset crd (mset (Cards p))" if "AddCard p crd = Some p'" for p'
    using that le known by (auto simp: AddCard_def MaxCardsHeld_def hand_ok_def split: if_splits)
  show "hand_ok (Cards p')" "p' = p\<lparr>Cards := Cards p'\<rparr>"
    "mset (Cards p) = add_mset crd (mset (Cards p'))" if "RemoveCard p crd = Some p'" for p'
  proof -
    from that obtain i where i: "i < length (Cards p)" "Cards p ! i = crd"
      and p': "p' = p\<lparr>Cards := remove_at i (Cards p)\<rparr>"
      by (auto simp: RemoveCard_Some find_index_Some)
    show "mset (Cards p) = add_mset crd (mset (Cards p'))"
      using i by (auto simp: p' mset_remove_at)
    show "p' = p\<lparr>Cards := Cards p'\<rparr>" by (simp add: p')
    have "set (remove_at i (Cards p)) \<subseteq> set (Cards p)"
      by (auto simp: remove_at_def dest: in_set_takeD in_set_dropD)
    then show "hand_ok (Cards p')"
      using i le known sorted_remove_at [OF srt, of i]
      by (auto simp: p' hand_ok_def MaxCardsHeld_def remove_at_def)
  qed
qed

theorem hand_operations_witness:
  "\<exists>p'. RemoveCard (zero_player\<lparr>Cards := [CardMoney, CardMoney, CardSpeed]\<rparr>) CardMoney = Some p' \<and>
     add_mset CardMoney (mset (Cards p')) = {#CardMoney, CardMoney, CardSpeed#}"
proof -
  let ?p = "zero_player\<lparr>Cards := [CardMoney, CardMoney, CardSpeed]\<rparr>"
  have ok: "hand_ok (Cards ?p)" by code_simp
  have "RemoveCard ?p CardMoney \<noteq> None" by code_simp
  then obtain p' where r: "RemoveCard ?p CardMoney = Some p'" by auto
  then show ?thesis using hand_operations [OF ok, of CardMoney] by auto
qed

text \<open>The item that the item-grab card takes from a target is one the target holds in a
  positive quantity (it is the empty name exactly when the target holds nothing), and it does
  not depend on the order of the stacks.\<close>

theorem DeterministicGrabFromInventory_sound:
  assumes "mset xs = mset ys"
  shows "DeterministicGrabFromInventory actor target tick xs =
      DeterministicGrabFromInventory actor target tick ys \<and>
    (if \<exists>i. i \<noteq> NoItem \<and> 0 < raw_qty xs i
     then DeterministicGrabFromInventory actor target tick xs \<noteq> NoItem \<and>
       0 < raw_qty xs (DeterministicGrabFromInventory actor target tick xs)
     else DeterministicGrabFromInventory actor target tick xs = NoItem)"
proof
  have m: "mset (grab_candidates xs) = mset (grab_candidates ys)"
    using assms by (simp add: grab_candidates_def)
  then have "sort (grab_candidates xs) = sort (grab_candidates ys)"
    and "length (grab_candidates xs) = length (grab_candidates ys)"
    by (auto intro: properties_for_sort dest: mset_eq_length)
  then show "DeterministicGrabFromInventory actor target tick xs =
      DeterministicGrabFromInventory actor target tick ys"
    unfolding DeterministicGrabFromInventory_def Let_def by (simp only:)
  let ?g = "DeterministicGrabFromInventory actor target tick xs"
  have "?g \<in> set (grab_candidates xs)" if "grab_candidates xs \<noteq> []"
    using that sort_nth_mod_index_in_set [of "grab_candidates xs"]
    by (simp add: DeterministicGrabFromInventory_def Let_def)
  moreover have "?g = NoItem" if "grab_candidates xs = []"
    using that by (simp add: DeterministicGrabFromInventory_def)
  moreover have "(\<exists>i. i \<noteq> NoItem \<and> 0 < raw_qty xs i) \<longleftrightarrow> grab_candidates xs \<noteq> []"
    using grab_candidates_known [of _ xs] by (metis list.set_intros(1) neq_Nil_conv list.set(1) empty_iff)
  ultimately show "if \<exists>i. i \<noteq> NoItem \<and> 0 < raw_qty xs i then ?g \<noteq> NoItem \<and> 0 < raw_qty xs ?g
     else ?g = NoItem"
    by (auto simp: grab_candidates_known)
qed

theorem DeterministicGrabFromInventory_sound_witness:
  "DeterministicGrabFromInventory (PlayerID ''a'') (PlayerID ''b'') 9
     [stack ItemWood 1, stack ItemBaton 2] =
   DeterministicGrabFromInventory (PlayerID ''a'') (PlayerID ''b'') 9
     [stack ItemBaton 2, stack ItemWood 1]"
  using DeterministicGrabFromInventory_sound
    [of "[stack ItemWood 1, stack ItemBaton 2]" "[stack ItemBaton 2, stack ItemWood 1]"
      "PlayerID ''a''" "PlayerID ''b''" 9]
  by simp

end
