(* ===== verification/Access.thy ===== *)
theory Access
  imports Model Hashing
begin

text \<open>
  Rooms, access rules and the nightly black market
  (\<open>src/internal/gamecore/map/access_control.go\<close>, \<open>black_market.go\<close> and the room names of
  \<open>layout.go\<close>), and the ability table that is scoped by the same faction tests
  (\<open>src/internal/gamecore/abilities/framework.go\<close>).
\<close>

section \<open>Room names (layout.go)\<close>

abbreviation "RoomCorridorMain \<equiv> RoomID ''corridor_main''"
abbreviation "RoomWardenHQ \<equiv> RoomID ''warden_hq''"
abbreviation "RoomCameraRoom \<equiv> RoomID ''camera_room''"
abbreviation "RoomPowerRoom \<equiv> RoomID ''power_room''"
abbreviation "RoomAmmoRoom \<equiv> RoomID ''ammunition_room''"
abbreviation "RoomMailRoom \<equiv> RoomID ''mail_room''"
abbreviation "RoomCellBlockA \<equiv> RoomID ''cell_block_a''"
abbreviation "RoomCafeteria \<equiv> RoomID ''cafeteria''"
abbreviation "RoomCourtyard \<equiv> RoomID ''courtyard''"
abbreviation "RoomBlackMarket \<equiv> RoomID ''black_market''"
abbreviation "RoomRoofLookout \<equiv> RoomID ''roof_lookout''"
abbreviation "NoRoom \<equiv> RoomID ''''"

section \<open>Access control\<close>

datatype AccessVerdict = AccessAllow | AccessDenyUnknownRoom | AccessDenyWardenHQRestricted
  | AccessDenyCameraAuthorityOnly | AccessDenyCameraPowerOff | AccessDenyPowerRoomAuthorityOnly
  | AccessDenyAmmoAuthorityOnly | AccessDenyAmmoPowerOff | AccessDenyBlackMarketPrisonersOnly
  | AccessDenyCellDoorForbidden

record RoomEntryDecision =
  DecisionRoomID :: RoomID
  EntryAllowed :: bool
  EntryVerdict :: AccessVerdict

record CellDoorDecision =
  DecisionCellID :: CellID
  DoorAllowed :: bool
  DoorVerdict :: AccessVerdict

definition IsAuthorityPlayer :: "PlayerState \<Rightarrow> bool" where
  "IsAuthorityPlayer player =
     (if Faction player = FactionAuthority then True
      else Role player = RoleWarden \<or> Role player = RoleDeputy)"

definition IsPrisonerPlayer :: "PlayerState \<Rightarrow> bool" where
  "IsPrisonerPlayer player =
     (if Faction player = FactionPrisoner then True
      else case Role player of
             RoleGangLeader \<Rightarrow> True | RoleGangMember \<Rightarrow> True | RoleSnitch \<Rightarrow> True
           | RoleNeutralPrisoner \<Rightarrow> True | _ \<Rightarrow> False)"

definition deny :: "RoomEntryDecision \<Rightarrow> AccessVerdict \<Rightarrow> RoomEntryDecision" where
  "deny decision verdict = decision\<lparr>EntryAllowed := False, EntryVerdict := verdict\<rparr>"

definition EvaluateRoomEntry :: "PlayerState \<Rightarrow> RoomID \<Rightarrow> MapState \<Rightarrow> RoomEntryDecision" where
  "EvaluateRoomEntry player roomID mapState =
     (let decision = \<lparr>DecisionRoomID = roomID, EntryAllowed = True, EntryVerdict = AccessAllow\<rparr>
      in if roomID = NoRoom then deny decision AccessDenyUnknownRoom
         else if roomID = RoomWardenHQ then
           (if Role player \<noteq> RoleWarden then deny decision AccessDenyWardenHQRestricted
            else decision)
         else if roomID = RoomCameraRoom then
           (if \<not> PowerOn mapState then deny decision AccessDenyCameraPowerOff
            else if \<not> IsAuthorityPlayer player then deny decision AccessDenyCameraAuthorityOnly
            else decision)
         else if roomID = RoomPowerRoom then
           (if \<not> IsAuthorityPlayer player then deny decision AccessDenyPowerRoomAuthorityOnly
            else decision)
         else if roomID = RoomAmmoRoom then
           (if \<not> PowerOn mapState then deny decision AccessDenyAmmoPowerOff
            else if \<not> IsAuthorityPlayer player then deny decision AccessDenyAmmoAuthorityOnly
            else decision)
         else if BlackMarketRoomID mapState \<noteq> NoRoom \<and> roomID = BlackMarketRoomID mapState then
           (if \<not> IsPrisonerPlayer player then deny decision AccessDenyBlackMarketPrisonersOnly
            else decision)
         else decision)"

definition CanEnterRoom :: "PlayerState \<Rightarrow> RoomID \<Rightarrow> MapState \<Rightarrow> bool" where
  "CanEnterRoom player roomID mapState = EntryAllowed (EvaluateRoomEntry player roomID mapState)"

definition EvaluateCellDoorOperation :: "PlayerState \<Rightarrow> CellState \<Rightarrow> CellDoorDecision" where
  "EvaluateCellDoorOperation player cell =
     (let decision = \<lparr>DecisionCellID = CellState_ID cell, DoorAllowed = False,
                       DoorVerdict = AccessDenyCellDoorForbidden\<rparr>
      in if IsAuthorityPlayer player
         then decision\<lparr>DoorAllowed := True, DoorVerdict := AccessAllow\<rparr>
         else if OwnerPlayerID cell \<noteq> PlayerID '''' \<and> OwnerPlayerID cell = ID player
         then decision\<lparr>DoorAllowed := True, DoorVerdict := AccessAllow\<rparr>
         else decision\<lparr>DoorVerdict := AccessDenyCellDoorForbidden\<rparr>)"

definition CanOperateCellDoor :: "PlayerState \<Rightarrow> CellState \<Rightarrow> bool" where
  "CanOperateCellDoor player cell = DoorAllowed (EvaluateCellDoorOperation player cell)"

section \<open>Nightly black market\<close>

definition nightlyBlackMarketCandidates :: "RoomID list" where
  "nightlyBlackMarketCandidates =
     [RoomBlackMarket, RoomCourtyard, RoomCafeteria, RoomMailRoom, RoomRoofLookout]"

definition NightlyBlackMarketCandidates :: "RoomID list" where
  "NightlyBlackMarketCandidates = nightlyBlackMarketCandidates"

definition IsNightlyBlackMarketCandidate :: "RoomID \<Rightarrow> bool" where
  "IsNightlyBlackMarketCandidate roomID \<longleftrightarrow>
     list_ex (\<lambda>candidate. candidate = roomID) nightlyBlackMarketCandidates"

definition DeterministicNightlyBlackMarketRoom :: "MatchID \<Rightarrow> uint8 \<Rightarrow> uint64 \<Rightarrow> RoomID" where
  "DeterministicNightlyBlackMarketRoom matchID cycle nightStartTick =
     (if length nightlyBlackMarketCandidates = 0 then RoomBlackMarket
      else
        let hasher = fnv_Write fnv_New64a (bytes_of_string (MatchID_str matchID));
            hasher = fnv_Write hasher [cycle];
            hasher = fnv_Write hasher (le_bytes64 nightStartTick);
            index = mod_index hasher (length nightlyBlackMarketCandidates)
        in nightlyBlackMarketCandidates ! index)"

section \<open>Abilities\<close>

datatype ScopeType = ScopeWardenOnly | ScopeAuthority | ScopePrisoner

record Spec =
  SpecAbility :: AbilityType
  Scope :: ScopeType
  CooldownSeconds :: uint16
  SpecOncePerDay :: bool
  SpecDailyUseLimit :: uint8

abbreviation spec :: "AbilityType \<Rightarrow> ScopeType \<Rightarrow> uint16 \<Rightarrow> bool \<Rightarrow> uint8 \<Rightarrow> AbilityType \<times> Spec" where
  "spec a s c o1 d \<equiv> (a, \<lparr>SpecAbility = a, Scope = s, CooldownSeconds = c, SpecOncePerDay = o1,
     SpecDailyUseLimit = d\<rparr>)"

definition specsByAbility :: "(AbilityType \<times> Spec) list" where
  "specsByAbility =
     [spec AbilityAlarm ScopeWardenOnly 5 True 1,
      spec AbilitySearch ScopeAuthority 8 True 1,
      spec AbilityCameraMan ScopeAuthority 6 False 0,
      spec AbilityDetainer ScopeAuthority 6 False 2,
      spec AbilityTracker ScopeAuthority 4 False 0,
      spec AbilityPickPocket ScopePrisoner 5 False 1,
      spec AbilityHacker ScopePrisoner 6 False 0,
      spec AbilityDisguise ScopePrisoner 8 False 0,
      spec AbilityLocksmith ScopePrisoner 4 False 1,
      spec AbilityChameleon ScopePrisoner 8 False 0]"

definition abilityCatalog :: "AbilityType list" where
  "abilityCatalog = [AbilityAlarm, AbilitySearch, AbilityCameraMan, AbilityDetainer,
     AbilityTracker, AbilityPickPocket, AbilityHacker, AbilityDisguise, AbilityLocksmith,
     AbilityChameleon]"

definition KnownAbilities :: "AbilityType list" where
  "KnownAbilities = abilityCatalog"

definition IsKnownAbility :: "AbilityType \<Rightarrow> bool" where
  "IsKnownAbility ability \<longleftrightarrow> map_of specsByAbility ability \<noteq> None"

definition SpecFor :: "AbilityType \<Rightarrow> Spec option" where
  "SpecFor ability = map_of specsByAbility ability"

definition CooldownTicks :: "AbilityType \<Rightarrow> uint32 \<Rightarrow> uint64" where
  "CooldownTicks ability tickRateHz =
     (case map_of specsByAbility ability of
        None \<Rightarrow> 0
      | Some s \<Rightarrow> if tickRateHz = 0 \<or> CooldownSeconds s = 0 then 0
                  else ucast (CooldownSeconds s) * ucast tickRateHz)"

definition OncePerDay :: "AbilityType \<Rightarrow> bool" where
  "OncePerDay ability =
     (case map_of specsByAbility ability of
        None \<Rightarrow> False
      | Some s \<Rightarrow> SpecOncePerDay s \<or> SpecDailyUseLimit s = 1)"

definition DailyUseLimit :: "AbilityType \<Rightarrow> uint8" where
  "DailyUseLimit ability =
     (case map_of specsByAbility ability of
        None \<Rightarrow> 0
      | Some s \<Rightarrow> if SpecDailyUseLimit s > 0 then SpecDailyUseLimit s
                  else if SpecOncePerDay s then 1 else 0)"

definition CanPlayerUse :: "PlayerState \<Rightarrow> AbilityType \<Rightarrow> bool" where
  "CanPlayerUse player ability =
     (case map_of specsByAbility ability of
        None \<Rightarrow> False
      | Some s \<Rightarrow>
          (case Scope s of
             ScopeWardenOnly \<Rightarrow> Role player = RoleWarden
           | ScopeAuthority \<Rightarrow> IsAuthorityPlayer player
           | ScopePrisoner \<Rightarrow> IsPrisonerPlayer player))"

definition AbilitiesForPlayer :: "PlayerState \<Rightarrow> AbilityType list" where
  "AbilitiesForPlayer player = filter (\<lambda>ability. CanPlayerUse player ability) abilityCatalog"

definition EffectDurationTicks :: "AbilityType \<Rightarrow> uint32 \<Rightarrow> uint64" where
  "EffectDurationTicks ability tickRateHz =
     (if tickRateHz = 0 then 0
      else if ability = AbilityCameraMan then ucast tickRateHz * 15
      else if ability = AbilityDetainer then ucast tickRateHz * 15
      else if ability = AbilityTracker then ucast tickRateHz * 30
      else if ability = AbilityDisguise then ucast tickRateHz * 20
      else if ability = AbilityChameleon then 0
      else 0)"

section \<open>Lemmas\<close>

lemma candidate_in_set:
  "DeterministicNightlyBlackMarketRoom m c t \<in> set nightlyBlackMarketCandidates"
  using nth_mod_index_in_set [of nightlyBlackMarketCandidates]
  by (simp add: DeterministicNightlyBlackMarketRoom_def nightlyBlackMarketCandidates_def Let_def)

lemma candidate_not_reserved:
  "r \<in> set nightlyBlackMarketCandidates \<Longrightarrow>
     r \<notin> {NoRoom, RoomWardenHQ, RoomCameraRoom, RoomPowerRoom, RoomAmmoRoom}"
  by (auto simp: nightlyBlackMarketCandidates_def)

text \<open>A 16-bit count of seconds times a 32-bit rate fits 64 bits.\<close>

lemma seconds_times_rate:
  "unat (ucast (s :: uint16) * ucast (r :: uint32) :: uint64) = unat s * unat r"
proof -
  have "unat s < 2 ^ 16" and "unat r < 2 ^ 32"
    using unsigned_less [of s] unsigned_less [of r] by simp_all
  then have "unat s * unat r < 2 ^ 16 * 2 ^ 32" by (intro mult_strict_mono) auto
  moreover have "unat (ucast s :: uint64) = unat s" "unat (ucast r :: uint64) = unat r"
    using \<open>unat s < 2 ^ 16\<close> \<open>unat r < 2 ^ 32\<close> by (simp_all add: unsigned_ucast_eq take_bit_nat_eq_self_iff)
  ultimately show ?thesis by (simp add: unat_word_ariths)
qed

lemma abilities_known:
  "map_of specsByAbility a \<noteq> None \<longleftrightarrow> a \<in> set abilityCatalog"
proof -
  have "map fst specsByAbility = abilityCatalog"
    by (simp add: specsByAbility_def abilityCatalog_def)
  then show ?thesis by (metis list.set_map map_of_eq_None_iff)
qed

section \<open>Properties\<close>

text \<open>The room-entry rule: the decision allows exactly when its verdict is \<open>allow\<close>, and a
  player may enter a room exactly when the room has a name, only the warden enters the HQ, only
  the authority enters the camera, power and ammunition rooms (camera and ammunition only with
  the power on), and only prisoners enter the current black market when it is none of these.\<close>

theorem EvaluateRoomEntry_rule:
  "(EntryAllowed (EvaluateRoomEntry p r m) \<longleftrightarrow> EntryVerdict (EvaluateRoomEntry p r m) = AccessAllow) \<and>
   (CanEnterRoom p r m \<longleftrightarrow>
      r \<noteq> NoRoom \<and>
      (if r = RoomWardenHQ then Role p = RoleWarden
       else if r \<in> {RoomCameraRoom, RoomAmmoRoom} then PowerOn m \<and> IsAuthorityPlayer p
       else if r = RoomPowerRoom then IsAuthorityPlayer p
       else if r = BlackMarketRoomID m then IsPrisonerPlayer p
       else True))"
  by (simp add: CanEnterRoom_def EvaluateRoomEntry_def deny_def Let_def)

text \<open>The nightly black market is always one of the five candidate rooms, and once it is
  installed in the map exactly the prisoners can enter it, whatever the power state: the
  hash never puts it in a room with another access rule.\<close>

theorem nightly_black_market_open_to_prisoners:
  "IsNightlyBlackMarketCandidate (DeterministicNightlyBlackMarketRoom mid cycle tick) \<and>
   (CanEnterRoom p (DeterministicNightlyBlackMarketRoom mid cycle tick)
      (m\<lparr>BlackMarketRoomID := DeterministicNightlyBlackMarketRoom mid cycle tick\<rparr>) \<longleftrightarrow>
    IsPrisonerPlayer p)"
  using candidate_in_set [of mid cycle tick] candidate_not_reserved
  by (auto simp: IsNightlyBlackMarketCandidate_def list_ex_iff CanEnterRoom_def
      EvaluateRoomEntry_def deny_def Let_def)

text \<open>The ability table is consistent: the catalogue lists exactly the abilities with an
  entry, a player is offered exactly the abilities he can use, an ability is once per day
  exactly when its daily limit is one, and the cooldown in ticks is the product of seconds and
  tick rate with no wrap-around for any 32-bit rate.\<close>

theorem ability_table_consistent:
  "(IsKnownAbility a \<longleftrightarrow> a \<in> set KnownAbilities) \<and>
   (a \<in> set (AbilitiesForPlayer p) \<longleftrightarrow> CanPlayerUse p a) \<and>
   (OncePerDay a \<longleftrightarrow> DailyUseLimit a = 1) \<and>
   unat (CooldownTicks a rate) =
     (case SpecFor a of None \<Rightarrow> 0 | Some s \<Rightarrow> unat (CooldownSeconds s) * unat rate)"
proof (intro conjI)
  show "IsKnownAbility a \<longleftrightarrow> a \<in> set KnownAbilities"
    by (simp only: IsKnownAbility_def KnownAbilities_def abilities_known)
  have "CanPlayerUse p a \<Longrightarrow> a \<in> set abilityCatalog"
    unfolding abilities_known [symmetric] by (auto simp: CanPlayerUse_def split: option.splits)
  then show "a \<in> set (AbilitiesForPlayer p) \<longleftrightarrow> CanPlayerUse p a"
    by (auto simp: AbilitiesForPlayer_def)
  show "OncePerDay a \<longleftrightarrow> DailyUseLimit a = 1"
    by (auto simp: OncePerDay_def DailyUseLimit_def specsByAbility_def)
  show "unat (CooldownTicks a rate) =
     (case SpecFor a of None \<Rightarrow> 0 | Some s \<Rightarrow> unat (CooldownSeconds s) * unat rate)"
    by (simp add: CooldownTicks_def SpecFor_def seconds_times_rate split: option.split)
qed

end
