(* ===== verification/Escape.thy ===== *)
theory Escape
  imports Items Access
begin

text \<open>
  Escape routes and their requirements (\<open>src/internal/gamecore/escape/routes.go\<close>).
\<close>

record RouteRequirement =
  Label :: string
  Met :: bool

record RouteEvaluation =
  EvalRoute :: EscapeRouteType
  EvalRouteLabel :: string
  CanAttempt :: bool
  FailureReason :: string
  Requirements :: "RouteRequirement list"

abbreviation req :: "string \<Rightarrow> bool \<Rightarrow> RouteRequirement" where
  "req l m \<equiv> \<lparr>Label = l, Met = m\<rparr>"

definition KnownRoutes :: "EscapeRouteType list" where
  "KnownRoutes = [EscapeRouteCourtyardDig, EscapeRouteBadgeEscape, EscapeRoutePowerOutEscape,
     EscapeRouteLadderEscape, EscapeRouteRoofHelicopter]"

definition IsKnownRoute :: "EscapeRouteType \<Rightarrow> bool" where
  "IsKnownRoute route \<longleftrightarrow> list_ex (\<lambda>candidate. candidate = route) KnownRoutes"

definition RouteLabel :: "EscapeRouteType \<Rightarrow> string" where
  "RouteLabel route =
     (if route = EscapeRouteCourtyardDig then ''Courtyard Dig''
      else if route = EscapeRouteBadgeEscape then ''Badge Escape''
      else if route = EscapeRoutePowerOutEscape then ''Power-Out Escape''
      else if route = EscapeRouteLadderEscape then ''Ladder Escape''
      else if route = EscapeRouteRoofHelicopter then ''Roof Helicopter''
      else ''Unknown Route'')"

text \<open>The requirements appended by the switch on the route.\<close>

definition route_requirements ::
  "EscapeRouteType \<Rightarrow> PlayerState \<Rightarrow> MapState \<Rightarrow> RouteRequirement list" where
  "route_requirements route player mapState =
     (if route = EscapeRouteCourtyardDig then
        [req ''Room: courtyard'' (CurrentRoomID player = RoomCourtyard),
         req ''Item: shovel x1'' (HasItem player ItemShovel 1)]
      else if route = EscapeRouteBadgeEscape then
        [req ''Room: main corridor'' (CurrentRoomID player = RoomCorridorMain),
         req ''Item: badge x1'' (HasItem player ItemBadge 1)]
      else if route = EscapeRoutePowerOutEscape then
        [req ''Room: power room'' (CurrentRoomID player = RoomPowerRoom),
         req ''Power state: OFF'' (\<not> PowerOn mapState)]
      else if route = EscapeRouteLadderEscape then
        [req ''Room: courtyard'' (CurrentRoomID player = RoomCourtyard),
         req ''Item: ladder x2'' (HasItem player ItemLadder 2)]
      else if route = EscapeRouteRoofHelicopter then
        [req ''Room: roof lookout'' (CurrentRoomID player = RoomRoofLookout),
         req ''Item: keys x1'' (HasItem player ItemKeys 1)]
      else [])"

text \<open>The final loop: the label of the first requirement that is not met.\<close>

fun first_unmet :: "RouteRequirement list \<Rightarrow> string option" where
  "first_unmet [] = None"
| "first_unmet (requirement # rest) =
     (if Met requirement then first_unmet rest else Some (Label requirement))"

definition EvaluateRoute :: "EscapeRouteType \<Rightarrow> PlayerState \<Rightarrow> MapState \<Rightarrow> RouteEvaluation" where
  "EvaluateRoute route player mapState =
     (let eval = \<lparr>EvalRoute = route, EvalRouteLabel = RouteLabel route, CanAttempt = False,
                  FailureReason = '''', Requirements = []\<rparr>
      in if \<not> IsKnownRoute route then eval\<lparr>FailureReason := ''Unknown escape route.''\<rparr>
         else
           let eval = eval\<lparr>Requirements := [req ''Alive'' (Alive player),
                 req ''Prisoner faction'' (IsPrisonerPlayer player)]\<rparr>;
               eval = eval\<lparr>Requirements := Requirements eval @ route_requirements route player mapState\<rparr>
           in case first_unmet (Requirements eval) of
                Some l \<Rightarrow> eval\<lparr>FailureReason := ''Missing requirement: '' @ l @ ''.''\<rparr>
              | None \<Rightarrow> eval\<lparr>CanAttempt := True\<rparr>)"

definition EvaluateAllRoutes :: "PlayerState \<Rightarrow> MapState \<Rightarrow> RouteEvaluation list" where
  "EvaluateAllRoutes player mapState =
     map (\<lambda>route. EvaluateRoute route player mapState) KnownRoutes"

definition CanAttemptRoute :: "EscapeRouteType \<Rightarrow> PlayerState \<Rightarrow> MapState \<Rightarrow> bool" where
  "CanAttemptRoute route player mapState = CanAttempt (EvaluateRoute route player mapState)"

lemma first_unmet_None: "first_unmet rs = None \<longleftrightarrow> (\<forall>r \<in> set rs. Met r)"
  by (induction rs) auto

text \<open>C38. The escape rule: an attempt is allowed exactly for a living prisoner on a known route
  who stands in that route's room and, in the abstract quantities of his inventory, holds the
  item it needs (or, for the power-out route, finds the power off). The evaluation carries a
  failure reason exactly when the attempt is not allowed.\<close>

theorem EvaluateRoute_rule:
  "(CanAttemptRoute route p m \<longleftrightarrow> Alive p \<and> IsPrisonerPlayer p \<and>
      (route = EscapeRouteCourtyardDig \<and> CurrentRoomID p = RoomCourtyard \<and> 1 \<le> player_qty p ItemShovel \<or>
       route = EscapeRouteBadgeEscape \<and> CurrentRoomID p = RoomCorridorMain \<and> 1 \<le> player_qty p ItemBadge \<or>
       route = EscapeRoutePowerOutEscape \<and> CurrentRoomID p = RoomPowerRoom \<and> PowerOn m = False \<or>
       route = EscapeRouteLadderEscape \<and> CurrentRoomID p = RoomCourtyard \<and> 2 \<le> player_qty p ItemLadder \<or>
       route = EscapeRouteRoofHelicopter \<and> CurrentRoomID p = RoomRoofLookout \<and> 1 \<le> player_qty p ItemKeys)) \<and>
   (CanAttemptRoute route p m \<longleftrightarrow> FailureReason (EvaluateRoute route p m) = '''')"
proof
  have known: "IsKnownItem ItemShovel" "IsKnownItem ItemBadge" "IsKnownItem ItemLadder"
    "IsKnownItem ItemKeys" by (simp_all add: IsKnownItem_def knownItems_def)
  have one: "unat (1 :: uint8) = 1" "unat (2 :: uint8) = 2" by simp_all
  have rt: "IsKnownRoute route \<longleftrightarrow> route \<in> {EscapeRouteCourtyardDig, EscapeRouteBadgeEscape,
      EscapeRoutePowerOutEscape, EscapeRouteLadderEscape, EscapeRouteRoofHelicopter}"
    by (auto simp: IsKnownRoute_def KnownRoutes_def)
  have c: "CanAttemptRoute route p m \<longleftrightarrow> IsKnownRoute route \<and> Alive p \<and> IsPrisonerPlayer p \<and>
      list_all Met (route_requirements route p m)"
    using first_unmet_None [of "route_requirements route p m"]
    by (auto simp: CanAttemptRoute_def EvaluateRoute_def Let_def list_all_iff split: option.split)
  show "CanAttemptRoute route p m \<longleftrightarrow> Alive p \<and> IsPrisonerPlayer p \<and>
      (route = EscapeRouteCourtyardDig \<and> CurrentRoomID p = RoomCourtyard \<and> 1 \<le> player_qty p ItemShovel \<or>
       route = EscapeRouteBadgeEscape \<and> CurrentRoomID p = RoomCorridorMain \<and> 1 \<le> player_qty p ItemBadge \<or>
       route = EscapeRoutePowerOutEscape \<and> CurrentRoomID p = RoomPowerRoom \<and> PowerOn m = False \<or>
       route = EscapeRouteLadderEscape \<and> CurrentRoomID p = RoomCourtyard \<and> 2 \<le> player_qty p ItemLadder \<or>
       route = EscapeRouteRoofHelicopter \<and> CurrentRoomID p = RoomRoofLookout \<and> 1 \<le> player_qty p ItemKeys)"
    unfolding c rt by (auto simp: route_requirements_def HasItem_iff known one)
  show "CanAttemptRoute route p m \<longleftrightarrow> FailureReason (EvaluateRoute route p m) = ''''"
    by (simp add: CanAttemptRoute_def EvaluateRoute_def Let_def split: option.split)
qed

end
