(* ===== verification/Prison.thy ===== *)
theory Prison
  imports Access
begin

text \<open>
  Prison-wide systems (\<open>src/internal/gamecore/prison/systems.go\<close>): durations of the alarm and of
  the guards' shots, the effect of the power state on the doors, and the prisoners that the
  alarm exposes in restricted rooms.
\<close>

definition AlarmDurationSeconds :: uint16 where "AlarmDurationSeconds = 5"
definition GuardShotIntervalSecond :: uint16 where "GuardShotIntervalSecond = 1"
definition GuardShotDamageHalf :: uint8 where "GuardShotDamageHalf = 2"

definition AlarmDurationTicks :: "uint32 \<Rightarrow> uint64" where
  "AlarmDurationTicks tickRateHz =
     (if tickRateHz = 0 then 0 else ucast AlarmDurationSeconds * ucast tickRateHz)"

definition GuardShotIntervalTicks :: "uint32 \<Rightarrow> uint64" where
  "GuardShotIntervalTicks tickRateHz =
     (if tickRateHz = 0 then 0 else ucast GuardShotIntervalSecond * ucast tickRateHz)"

text \<open>The body of the loop over the doors, with the \<open>changed\<close> flag.\<close>

definition power_door :: "bool \<Rightarrow> DoorState \<times> bool \<Rightarrow> DoorState \<times> bool" where
  "power_door powerOn dc =
     (case dc of (door, changed) \<Rightarrow>
        if powerOn then
          (if \<not> CanClose door then (door\<lparr>CanClose := True\<rparr>, True) else (door, changed))
        else
          let (door, changed) =
                (if CanClose door then (door\<lparr>CanClose := False\<rparr>, True) else (door, changed))
          in if \<not> Open door then (door\<lparr>Open := True\<rparr>, True) else (door, changed))"

fun power_doors :: "bool \<Rightarrow> DoorState list \<Rightarrow> bool \<Rightarrow> DoorState list \<times> bool" where
  "power_doors powerOn [] changed = ([], changed)"
| "power_doors powerOn (door # rest) changed =
     (case power_door powerOn (door, changed) of (door', changed') \<Rightarrow>
        case power_doors powerOn rest changed' of (rest', changed'') \<Rightarrow>
          (door' # rest', changed''))"

definition ApplyPowerState :: "MapState \<Rightarrow> bool \<Rightarrow> MapState \<times> bool" where
  "ApplyPowerState mapState powerOn =
     (let (mapState, changed) =
        (if PowerOn mapState \<noteq> powerOn then (mapState\<lparr>PowerOn := powerOn\<rparr>, True)
         else (mapState, False));
          (doors, changed) = power_doors powerOn (Doors mapState) changed
      in (mapState\<lparr>Doors := doors\<rparr>, changed))"

definition IsRestrictedRoom :: "RoomID \<Rightarrow> MapState \<Rightarrow> bool" where
  "IsRestrictedRoom roomID mapState =
     (if roomID = NoRoom then False
      else list_ex (\<lambda>zone. Restricted zone \<and> ZoneRoomID zone = roomID) (RestrictedZones mapState))"

fun restricted_loop :: "MapState \<Rightarrow> PlayerState list \<Rightarrow> PlayerID list \<Rightarrow> PlayerID list" where
  "restricted_loop mapState [] ids = ids"
| "restricted_loop mapState (player # rest) ids =
     (if \<not> Alive player then restricted_loop mapState rest ids
      else if \<not> IsPrisonerPlayer player then restricted_loop mapState rest ids
      else if \<not> IsRestrictedRoom (CurrentRoomID player) mapState then restricted_loop mapState rest ids
      else restricted_loop mapState rest (ids @ [ID player]))"

definition RestrictedPrisonerIDs :: "PlayerState list \<Rightarrow> MapState \<Rightarrow> PlayerID list" where
  "RestrictedPrisonerIDs players mapState = sort (restricted_loop mapState players [])"

section \<open>Lemmas\<close>

text \<open>The effect on one door, without the flag.\<close>

definition powered :: "bool \<Rightarrow> DoorState \<Rightarrow> DoorState" where
  "powered on d = (if on then d\<lparr>CanClose := True\<rparr> else d\<lparr>CanClose := False, Open := True\<rparr>)"

lemma power_door_eq: "power_door on (d, c) = (powered on d, c \<or> powered on d \<noteq> d)"
  by (cases d) (auto simp: power_door_def powered_def)

lemma power_doors_eq: "power_doors on ds c = (map (powered on) ds, c \<or> map (powered on) ds \<noteq> ds)"
  by (induction on ds c rule: power_doors.induct) (auto simp: power_door_eq)

lemma ApplyPowerState_eq:
  "ApplyPowerState m on =
     (m\<lparr>PowerOn := on, Doors := map (powered on) (Doors m)\<rparr>,
      PowerOn m \<noteq> on \<or> map (powered on) (Doors m) \<noteq> Doors m)"
  by (simp add: ApplyPowerState_def power_doors_eq)

lemma powered_idem [simp]: "powered on (powered on d) = powered on d"
  by (simp add: powered_def)

lemma restricted_loop_eq:
  "restricted_loop m ps acc = acc @ map ID (filter (\<lambda>p. Alive p \<and> IsPrisonerPlayer p \<and>
     IsRestrictedRoom (CurrentRoomID p) m) ps)"
  by (induction m ps acc rule: restricted_loop.induct) auto

section \<open>Properties\<close>

text \<open>C39. Switching the power: the result reports a change exactly when the map differs from
  before; with the power off every door stands open and cannot be closed, with the power on every
  door can be closed and keeps its position; nothing but the power flag and those two door
  fields changes, and repeating the switch changes nothing.\<close>

theorem ApplyPowerState_spec:
  "ApplyPowerState m on = (m', changed) \<longleftrightarrow>
     m' = m\<lparr>PowerOn := on,
       Doors := map (\<lambda>d. d\<lparr>CanClose := on, Open := (if on then Open d else True)\<rparr>) (Doors m)\<rparr> \<and>
     (changed \<longleftrightarrow> m' \<noteq> m) \<and> ApplyPowerState m' on = (m', False)"
proof -
  have p: "powered on = (\<lambda>d. d\<lparr>CanClose := on, Open := (if on then Open d else True)\<rparr>)"
    by (auto simp: powered_def)
  let ?m = "m\<lparr>PowerOn := on, Doors := map (powered on) (Doors m)\<rparr>"
  have "(PowerOn m \<noteq> on \<or> map (powered on) (Doors m) \<noteq> Doors m) \<longleftrightarrow> ?m \<noteq> m"
    by (cases m) auto
  moreover have "ApplyPowerState ?m on = (?m, False)"
    unfolding ApplyPowerState_eq by (simp add: comp_def)
  ultimately show ?thesis unfolding ApplyPowerState_eq p [symmetric] by auto
qed

text \<open>The exposed prisoners are exactly the living prisoners that stand in a restricted room,
  in increasing order, whatever the order of the player list.\<close>

theorem RestrictedPrisonerIDs_spec:
  "sorted (RestrictedPrisonerIDs ps m) \<and>
   mset (RestrictedPrisonerIDs ps m) =
     image_mset ID (filter_mset (\<lambda>p. Alive p \<and> IsPrisonerPlayer p \<and> CurrentRoomID p \<noteq> NoRoom \<and>
       (\<exists>z. z \<in> set (RestrictedZones m) \<and> Restricted z \<and> ZoneRoomID z = CurrentRoomID p)) (mset ps))"
proof -
  have "(Alive p \<and> IsPrisonerPlayer p \<and> IsRestrictedRoom (CurrentRoomID p) m) \<longleftrightarrow>
      (Alive p \<and> IsPrisonerPlayer p \<and> CurrentRoomID p \<noteq> NoRoom \<and>
       (\<exists>z. z \<in> set (RestrictedZones m) \<and> Restricted z \<and> ZoneRoomID z = CurrentRoomID p))" for p
    by (auto simp: IsRestrictedRoom_def list_ex_iff)
  then show ?thesis by (simp add: RestrictedPrisonerIDs_def restricted_loop_eq)
qed

end
