(* ===== verification/Combat.thy ===== *)
theory Combat
  imports Items Access
begin

text \<open>
  Combat rules (\<open>src/internal/gamecore/combat/engine.go\<close>): role loadouts, weapons, the cost of a
  shot, damage, and the penalty for an unjust shot by the authority. Hearts, temporary hearts,
  bullets and damage are bytes and tick arithmetic is on 64-bit words, as in the source.
  \<open>SelectTarget\<close> and \<open>BatonImpulse\<close> compute in \<open>float32\<close> and are not modelled here; weapon
  ranges are the bit patterns of their constants.
\<close>

section \<open>Definitions\<close>

definition DefaultPlayerLives :: uint8 where "DefaultPlayerLives = 3"
abbreviation "WeaponBaton \<equiv> ItemBaton"
definition ShivDamageHalf :: uint8 where "ShivDamageHalf = 1"
definition FirearmDamageHalf :: uint8 where "FirearmDamageHalf = 2"
definition GoldenBulletDamageHalf :: uint8 where "GoldenBulletDamageHalf = 4"
definition BatonStunDurationSecond :: uint16 where "BatonStunDurationSecond = 3"

text \<open>1.5, 1.5, 8 and 12 in single precision.\<close>

definition BatonRangeTiles :: float32 where "BatonRangeTiles = 0x3FC00000"
definition ShivRangeTiles :: float32 where "ShivRangeTiles = 0x3FC00000"
definition PistolRangeTiles :: float32 where "PistolRangeTiles = 0x41000000"
definition HuntingRifleRangeTiles :: float32 where "HuntingRifleRangeTiles = 0x41400000"

record DamageResult =
  AppliedHalf :: uint8
  TempConsumedHalf :: uint8
  HealthConsumedHalf :: uint8
  Eliminated :: bool

definition no_damage :: DamageResult where
  "no_damage = \<lparr>AppliedHalf = 0, TempConsumedHalf = 0, HealthConsumedHalf = 0, Eliminated = False\<rparr>"

record loadout =
  LoadoutHeartsHalf :: uint8
  LoadoutBullets :: uint8

definition loadoutForRole :: "RoleType \<Rightarrow> loadout" where
  "loadoutForRole role =
     (case role of
        RoleWarden \<Rightarrow> \<lparr>LoadoutHeartsHalf = 10, LoadoutBullets = 3\<rparr>
      | RoleDeputy \<Rightarrow> \<lparr>LoadoutHeartsHalf = 8, LoadoutBullets = 3\<rparr>
      | _ \<Rightarrow> \<lparr>LoadoutHeartsHalf = 6, LoadoutBullets = 0\<rparr>)"

definition apply_loadout :: "PlayerState \<Rightarrow> PlayerState" where
  "apply_loadout player =
     (let l = loadoutForRole (Role player)
      in player\<lparr>HeartsHalf := LoadoutHeartsHalf l, Bullets := LoadoutBullets l,
           LivesRemaining := DefaultPlayerLives, TempHeartsHalf := 0,
           Alive := LoadoutHeartsHalf l > 0, StunnedUntilTick := 0, SolitaryUntilTick := 0,
           LockedInCell := 0\<rparr>)"

definition ApplyRoleLoadouts :: "GameState \<Rightarrow> GameState" where
  "ApplyRoleLoadouts state = state\<lparr>Players := map apply_loadout (Players state)\<rparr>"

definition MaxHeartsHalfForRole :: "RoleType \<Rightarrow> uint8" where
  "MaxHeartsHalfForRole role = LoadoutHeartsHalf (loadoutForRole role)"

definition IsSupportedWeapon :: "ItemType \<Rightarrow> bool" where
  "IsSupportedWeapon weapon \<longleftrightarrow>
     weapon = WeaponBaton \<or> weapon = ItemShiv \<or> weapon = ItemPistol \<or> weapon = ItemHuntingRifle"

definition IsFirearm :: "ItemType \<Rightarrow> bool" where
  "IsFirearm weapon \<longleftrightarrow> weapon = ItemPistol \<or> weapon = ItemHuntingRifle"

definition WeaponRangeTiles :: "ItemType \<Rightarrow> float32" where
  "WeaponRangeTiles weapon =
     (if weapon = WeaponBaton then BatonRangeTiles
      else if weapon = ItemShiv then ShivRangeTiles
      else if weapon = ItemPistol then PistolRangeTiles
      else if weapon = ItemHuntingRifle then HuntingRifleRangeTiles
      else 0)"

definition CanUseWeapon :: "PlayerState \<Rightarrow> ItemType \<Rightarrow> bool" where
  "CanUseWeapon player weapon =
     (if \<not> Alive player \<or> \<not> IsSupportedWeapon weapon then False
      else
        let legacyAuthorityLoadout = (IsAuthorityPlayer player \<and> InventorySlots player = 0)
        in if weapon = WeaponBaton then
             (if legacyAuthorityLoadout then True else HasItem player ItemBaton 1)
           else if weapon = ItemShiv then HasItem player ItemShiv 1
           else if weapon = ItemPistol then
             (if legacyAuthorityLoadout then True else HasItem player ItemPistol 1)
           else if weapon = ItemHuntingRifle then
             (if legacyAuthorityLoadout then True else HasItem player ItemHuntingRifle 1)
           else False)"

definition IsActionBlocked :: "PlayerState \<Rightarrow> uint64 \<Rightarrow> bool" where
  "IsActionBlocked player tickID =
     (if \<not> Alive player then True
      else if StunnedUntilTick player \<noteq> 0 \<and> tickID \<le> StunnedUntilTick player then True
      else if SolitaryUntilTick player \<noteq> 0 \<and> tickID \<le> SolitaryUntilTick player then True
      else False)"

text \<open>\<open>None\<close> is the result \<open>(0, false)\<close>, which leaves the shooter unchanged.\<close>

definition ConsumeShotCostAndResolveDamage ::
  "PlayerState \<Rightarrow> ItemType \<Rightarrow> bool \<Rightarrow> (PlayerState \<times> uint8) option" where
  "ConsumeShotCostAndResolveDamage shooter weapon useGoldenRound =
     (if \<not> CanUseWeapon shooter weapon then None
      else if weapon = WeaponBaton then
        (if useGoldenRound then None else Some (shooter, 0))
      else if weapon = ItemShiv then
        (if useGoldenRound then None else Some (shooter, ShivDamageHalf))
      else if weapon = ItemPistol \<or> weapon = ItemHuntingRifle then
        (if useGoldenRound then
           (case RemoveItem shooter ItemGoldenBullet 1 of
              None \<Rightarrow> None
            | Some shooter' \<Rightarrow> Some (shooter', GoldenBulletDamageHalf))
         else if Bullets shooter = 0 then None
         else Some (shooter\<lparr>Bullets := Bullets shooter - 1\<rparr>, FirearmDamageHalf))
      else None)"

definition BatonStunDurationTicks :: "uint32 \<Rightarrow> uint64" where
  "BatonStunDurationTicks tickRateHz =
     (if tickRateHz = 0 then 0 else ucast tickRateHz * ucast BatonStunDurationSecond)"

text \<open>The two blocks of \<open>ApplyDamage\<close>, on the target, the remaining damage and the result.\<close>

definition absorb_temp ::
  "PlayerState \<Rightarrow> uint8 \<Rightarrow> DamageResult \<Rightarrow> PlayerState \<times> uint8 \<times> DamageResult" where
  "absorb_temp target remaining result =
     (if TempHeartsHalf target > 0 \<and> remaining > 0
      then let tempConsumed = (if remaining > TempHeartsHalf target
                               then TempHeartsHalf target else remaining)
           in (target\<lparr>TempHeartsHalf := TempHeartsHalf target - tempConsumed\<rparr>,
               remaining - tempConsumed, result\<lparr>TempConsumedHalf := tempConsumed\<rparr>)
      else (target, remaining, result))"

definition absorb_health ::
  "PlayerState \<Rightarrow> uint8 \<Rightarrow> DamageResult \<Rightarrow> PlayerState \<times> uint8 \<times> DamageResult" where
  "absorb_health target remaining result =
     (if HeartsHalf target > 0 \<and> remaining > 0
      then let healthConsumed = (if remaining > HeartsHalf target
                                 then HeartsHalf target else remaining)
           in (target\<lparr>HeartsHalf := HeartsHalf target - healthConsumed\<rparr>,
               remaining - healthConsumed, result\<lparr>HealthConsumedHalf := healthConsumed\<rparr>)
      else (target, remaining, result))"

definition ApplyDamage :: "PlayerState \<Rightarrow> uint8 \<Rightarrow> PlayerState \<times> DamageResult" where
  "ApplyDamage target damageHalf =
     (if damageHalf = 0 \<or> \<not> Alive target then (target, no_damage)
      else
        let (target, remaining, result) = absorb_temp target damageHalf no_damage;
            (target, remaining, result) = absorb_health target remaining result;
            result = result\<lparr>AppliedHalf := TempConsumedHalf result + HealthConsumedHalf result\<rparr>
        in if HeartsHalf target = 0
           then (target\<lparr>Alive := False, Velocity := zero_vector, StunnedUntilTick := 0\<rparr>,
                 result\<lparr>Eliminated := True\<rparr>)
           else (target, result))"

definition isRestrictedRoom :: "RoomID \<Rightarrow> MapState \<Rightarrow> bool" where
  "isRestrictedRoom roomID mapState =
     (if roomID = NoRoom then False
      else list_ex (\<lambda>zone. if \<not> Restricted zone then False else ZoneRoomID zone = roomID)
             (RestrictedZones mapState))"

definition hasPenaltyExemptContraband :: "PlayerState \<Rightarrow> bool" where
  "hasPenaltyExemptContraband target \<longleftrightarrow>
     HasItem target ItemPistol 1 \<or> HasItem target ItemHuntingRifle 1 \<or> HasItem target ItemShiv 1 \<or>
     HasItem target ItemLadder 1 \<or> HasItem target ItemShovel 1 \<or> HasItem target ItemWireCutters 1"

definition IsUnjustAuthorityShot :: "PlayerState \<Rightarrow> MapState \<Rightarrow> bool" where
  "IsUnjustAuthorityShot target mapState =
     (if \<not> PowerOn mapState then False
      else if isRestrictedRoom (CurrentRoomID target) mapState then False
      else if hasPenaltyExemptContraband target then False
      else True)"

definition ApplyUnjustShotPenalty ::
  "PlayerState \<Rightarrow> PhaseState \<Rightarrow> uint64 \<Rightarrow> PlayerState \<times> bool" where
  "ApplyUnjustShotPenalty shooter phase tickID =
     (if \<not> IsAuthorityPlayer shooter then (shooter, False)
      else if Current phase \<noteq> PhaseDay then (shooter, False)
      else if EndsTick phase = 0 \<or> EndsTick phase \<le> tickID then (shooter, False)
      else
        let changed = False;
            penaltyEnds = EndsTick phase - 1;
            (shooter, changed) =
              (if penaltyEnds > SolitaryUntilTick shooter
               then (shooter\<lparr>SolitaryUntilTick := penaltyEnds\<rparr>, True) else (shooter, changed));
            (shooter, changed) =
              (if AssignedCell shooter \<noteq> 0 \<and> LockedInCell shooter \<noteq> AssignedCell shooter
               then (shooter\<lparr>LockedInCell := AssignedCell shooter\<rparr>, True) else (shooter, changed))
        in (shooter, changed))"

section \<open>Lemmas\<close>

lemma unat_sub_le: "unat (b :: 'a::len word) \<le> unat a \<Longrightarrow> unat (a - b) = unat a - unat b"
  by (simp add: unat_sub_if')

text \<open>Both blocks as unconditional updates (the amount is zero when the guard fails).\<close>

definition taken :: "uint8 \<Rightarrow> uint8 \<Rightarrow> uint8" where
  "taken dmg pool = (if dmg > pool then pool else dmg)"

lemma take_from_pool:
  shows "unat (taken dmg pool) = min (unat dmg) (unat pool)"
    and "unat (pool - taken dmg pool) = unat pool - unat dmg"
    and "unat (dmg - taken dmg pool) = unat dmg - unat pool"
  unfolding taken_def by (auto simp: unat_sub_le word_less_nat_alt not_less)

lemma absorb_temp_eq:
  assumes "TempConsumedHalf r = 0"
  shows "absorb_temp p d r =
    (p\<lparr>TempHeartsHalf := TempHeartsHalf p - taken d (TempHeartsHalf p)\<rparr>,
     d - taken d (TempHeartsHalf p), r\<lparr>TempConsumedHalf := taken d (TempHeartsHalf p)\<rparr>)"
proof (cases "TempHeartsHalf p > 0 \<and> d > 0")
  case False
  then have "taken d (TempHeartsHalf p) = 0" by (auto simp: taken_def word_gt_0)
  moreover have "absorb_temp p d r = (p, d, r)" using False by (simp only: absorb_temp_def if_False)
  moreover have "r\<lparr>TempConsumedHalf := 0\<rparr> = r" using assms by (cases r) simp
  ultimately show ?thesis by simp
qed (simp add: absorb_temp_def taken_def Let_def)

lemma absorb_health_eq:
  assumes "HealthConsumedHalf r = 0"
  shows "absorb_health p d r =
    (p\<lparr>HeartsHalf := HeartsHalf p - taken d (HeartsHalf p)\<rparr>,
     d - taken d (HeartsHalf p), r\<lparr>HealthConsumedHalf := taken d (HeartsHalf p)\<rparr>)"
proof (cases "HeartsHalf p > 0 \<and> d > 0")
  case False
  then have "taken d (HeartsHalf p) = 0" by (auto simp: taken_def word_gt_0)
  moreover have "absorb_health p d r = (p, d, r)" using False by (simp only: absorb_health_def if_False)
  moreover have "r\<lparr>HealthConsumedHalf := 0\<rparr> = r" using assms by (cases r) simp
  ultimately show ?thesis by simp
qed (simp add: absorb_health_def taken_def Let_def)

lemma unat_pred: "(a :: 'a::len word) \<noteq> 0 \<Longrightarrow> unat (a - 1) = unat a - 1"
  using unat_sub_le [of 1 a] by (simp add: unat_gt_0 Suc_le_eq)

lemma unat_zero_iff: "unat (w :: 'a::len word) = 0 \<longleftrightarrow> w = 0"
  by (simp add: unat_eq_zero)

section \<open>Properties\<close>

text \<open>C28. Damage is exact: on a living target temporary hearts absorb first and hearts the rest,
  each reduced by exactly what was taken and never below zero; the result reports both parts and
  their sum without wrap-around, at most the damage dealt; the target dies, stops and loses its
  stun exactly when no heart is left, and nothing else of it changes. A dead target or a zero
  damage changes nothing.\<close>

theorem ApplyDamage_exact:
  "case ApplyDamage p d of (p', r) \<Rightarrow>
     (if d = 0 \<or> Alive p = False then p' = p \<and> r = no_damage
      else
        unat (TempConsumedHalf r) = min (unat d) (unat (TempHeartsHalf p)) \<and>
        unat (HealthConsumedHalf r) =
          min (unat d - unat (TempHeartsHalf p)) (unat (HeartsHalf p)) \<and>
        unat (AppliedHalf r) = unat (TempConsumedHalf r) + unat (HealthConsumedHalf r) \<and>
        unat (AppliedHalf r) \<le> unat d \<and>
        unat (TempHeartsHalf p') = unat (TempHeartsHalf p) - unat d \<and>
        unat (HeartsHalf p') =
          unat (HeartsHalf p) - (unat d - unat (TempHeartsHalf p)) \<and>
        (Eliminated r \<longleftrightarrow> HeartsHalf p' = 0) \<and> (Alive p' \<longleftrightarrow> HeartsHalf p' \<noteq> 0) \<and>
        p' = p\<lparr>TempHeartsHalf := TempHeartsHalf p', HeartsHalf := HeartsHalf p',
          Alive := HeartsHalf p' \<noteq> 0,
          Velocity := (if HeartsHalf p' = 0 then zero_vector else Velocity p),
          StunnedUntilTick := (if HeartsHalf p' = 0 then 0 else StunnedUntilTick p)\<rparr>)"
proof (cases "d = 0 \<or> Alive p = False")
  case True
  then show ?thesis by (auto simp: ApplyDamage_def)
next
  case False
  define t where "t = taken d (TempHeartsHalf p)"
  define h where "h = taken (d - t) (HeartsHalf p)"
  note T = take_from_pool [where dmg = d and pool = "TempHeartsHalf p", folded t_def]
  note H = take_from_pool [where dmg = "d - t" and pool = "HeartsHalf p", folded h_def]
  have le: "unat t + unat h \<le> unat d" using T(1) H(1) T(3) by linarith
  then have sum: "unat (t + h) = unat t + unat h"
    using unat_uint8_less [of d] by (simp add: unat_word_ariths)
  let ?q = "p\<lparr>TempHeartsHalf := TempHeartsHalf p - t, HeartsHalf := HeartsHalf p - h\<rparr>"
  let ?r = "\<lparr>AppliedHalf = t + h, TempConsumedHalf = t, HealthConsumedHalf = h, Eliminated = False\<rparr>"
  have run: "ApplyDamage p d =
      (if HeartsHalf p = h
       then (?q\<lparr>Alive := False, Velocity := zero_vector, StunnedUntilTick := 0\<rparr>, ?r\<lparr>Eliminated := True\<rparr>)
       else (?q, ?r))"
    using False by (simp add: ApplyDamage_def no_damage_def absorb_temp_eq absorb_health_eq
        t_def [symmetric] h_def [symmetric] Let_def)
  obtain p' r where r: "ApplyDamage p d = (p', r)" by force
  with run have f: "TempConsumedHalf r = t" "HealthConsumedHalf r = h" "AppliedHalf r = t + h"
    "Eliminated r \<longleftrightarrow> HeartsHalf p = h" "TempHeartsHalf p' = TempHeartsHalf p - t"
    "HeartsHalf p' = HeartsHalf p - h" "Alive p' \<longleftrightarrow> HeartsHalf p \<noteq> h"
    using False by (simp_all split: if_splits)
  have z: "HeartsHalf p' = 0 \<longleftrightarrow> HeartsHalf p = h" by (simp add: f(6))
  have p': "p' = p\<lparr>TempHeartsHalf := TempHeartsHalf p', HeartsHalf := HeartsHalf p',
      Alive := HeartsHalf p' \<noteq> 0, Velocity := (if HeartsHalf p' = 0 then zero_vector else Velocity p),
      StunnedUntilTick := (if HeartsHalf p' = 0 then 0 else StunnedUntilTick p)\<rparr>"
    using r run False unfolding z f(5,6) by (cases p) (auto split: if_splits)
  have al: "Alive p' \<longleftrightarrow> HeartsHalf p' \<noteq> 0" unfolding z f(7) ..
  show ?thesis
    unfolding r prod.case if_not_P [OF False]
  proof (intro conjI)
    show "unat (TempConsumedHalf r) = min (unat d) (unat (TempHeartsHalf p))" unfolding f by (rule T(1))
    show "unat (HealthConsumedHalf r) = min (unat d - unat (TempHeartsHalf p)) (unat (HeartsHalf p))"
      unfolding f H(1) T(3) ..
    show "unat (AppliedHalf r) = unat (TempConsumedHalf r) + unat (HealthConsumedHalf r)"
      unfolding f by (rule sum)
    show "unat (AppliedHalf r) \<le> unat d" unfolding f sum by (rule le)
    show "unat (TempHeartsHalf p') = unat (TempHeartsHalf p) - unat d" using T(2) f(5) by simp
    show "unat (HeartsHalf p') = unat (HeartsHalf p) - (unat d - unat (TempHeartsHalf p))"
      using H(2) T(3) f(6) by simp
    show "Eliminated r \<longleftrightarrow> HeartsHalf p' = 0" unfolding z by (rule f(4))
  qed (rule al, rule p')
qed


text \<open>The unjust-shot penalty holds to the end of the day: an authority shooter penalised in
  a day phase that still runs cannot act at any later tick of that phase, his solitary term is
  never shortened, and only the solitary term and the cell lock change.\<close>

theorem unjust_shot_penalty_lasts:
  assumes "IsAuthorityPlayer p" and "Current ph = PhaseDay" and "tick < EndsTick ph"
    and "t < EndsTick ph" and "1 < EndsTick ph"
  shows "IsActionBlocked (fst (ApplyUnjustShotPenalty p ph tick)) t \<and>
    SolitaryUntilTick p \<le> SolitaryUntilTick (fst (ApplyUnjustShotPenalty p ph tick)) \<and>
    (fst (ApplyUnjustShotPenalty p ph tick))\<lparr>SolitaryUntilTick := 0, LockedInCell := 0\<rparr> =
      p\<lparr>SolitaryUntilTick := 0, LockedInCell := 0\<rparr>"
proof -
  have e: "EndsTick ph \<noteq> 0" "\<not> EndsTick ph \<le> tick" using assms(3) by auto
  have u: "unat (EndsTick ph - 1) = unat (EndsTick ph) - 1"
    using e(1) by (rule unat_pred)
  have "t \<le> EndsTick ph - 1" and "EndsTick ph - 1 \<noteq> 0"
    using assms(4,5) u by (auto simp: word_le_nat_alt word_less_nat_alt unat_zero_iff [symmetric])
  moreover have "SolitaryUntilTick (fst (ApplyUnjustShotPenalty p ph tick)) =
      max (SolitaryUntilTick p) (EndsTick ph - 1)"
    using assms(1,2) e by (auto simp: ApplyUnjustShotPenalty_def Let_def max_def)
  ultimately have "IsActionBlocked (fst (ApplyUnjustShotPenalty p ph tick)) t \<and>
      SolitaryUntilTick p \<le> SolitaryUntilTick (fst (ApplyUnjustShotPenalty p ph tick))"
    by (auto simp: IsActionBlocked_def max_def split: if_splits)
  moreover have "(fst (ApplyUnjustShotPenalty p ph tick))\<lparr>SolitaryUntilTick := 0, LockedInCell := 0\<rparr> =
      p\<lparr>SolitaryUntilTick := 0, LockedInCell := 0\<rparr>"
    by (auto simp: ApplyUnjustShotPenalty_def Let_def)
  ultimately show ?thesis by blast
qed

theorem unjust_shot_penalty_lasts_witness:
  "IsActionBlocked (fst (ApplyUnjustShotPenalty
     (zero_player\<lparr>ID := PlayerID ''w'', Alive := True, Role := RoleWarden\<rparr>)
     \<lparr>Current = PhaseDay, StartedTick = 1, EndsTick = 9001\<rparr> 40)) 9000"
proof -
  let ?p = "zero_player\<lparr>ID := PlayerID ''w'', Alive := True, Role := RoleWarden\<rparr>"
  let ?ph = "\<lparr>Current = PhaseDay, StartedTick = 1, EndsTick = 9001\<rparr>"
  have "IsAuthorityPlayer ?p" "Current ?ph = PhaseDay" "40 < EndsTick ?ph" "9000 < EndsTick ?ph"
    "1 < EndsTick ?ph" by code_simp+
  from unjust_shot_penalty_lasts [OF this] show ?thesis by blast
qed

end
