(* ===== verification/Roles.thy ===== *)
theory Roles
  imports Model Hashing
begin

text \<open>
  Role assignment at the start of a match (\<open>src/internal/gamecore/roles/assignment.go\<close>): the
  role templates by number of players, the seed hashed from the match and the sorted players,
  the shuffle driven by the xorshift generator of \<open>Hashing\<close>, and the write-back into the game
  state.
\<close>

section \<open>Definitions\<close>

datatype RolesError = ErrNoPlayersProvided | ErrDuplicatePlayerID

record Assignment =
  AssignmentPlayerID :: PlayerID
  AssignmentRole :: RoleType
  AssignmentFaction :: FactionType
  AssignmentAlignment :: AlignmentType

record roleProfile =
  ProfileRole :: RoleType
  ProfileFaction :: FactionType
  ProfileAlignment :: AlignmentType

abbreviation profile :: "RoleType \<Rightarrow> FactionType \<Rightarrow> AlignmentType \<Rightarrow> roleProfile" where
  "profile r f a \<equiv> \<lparr>ProfileRole = r, ProfileFaction = f, ProfileAlignment = a\<rparr>"

definition roleTemplatesByCount :: "(nat \<times> roleProfile list list) list" where
  "roleTemplatesByCount =
     [(6,
       [[profile RoleWarden FactionAuthority AlignmentGood,
         profile RoleDeputy FactionAuthority AlignmentGood,
         profile RoleGangLeader FactionPrisoner AlignmentEvil,
         profile RoleGangMember FactionPrisoner AlignmentEvil,
         profile RoleGangMember FactionPrisoner AlignmentEvil,
         profile RoleSnitch FactionPrisoner AlignmentGood],
        [profile RoleWarden FactionAuthority AlignmentGood,
         profile RoleDeputy FactionAuthority AlignmentGood,
         profile RoleGangLeader FactionPrisoner AlignmentEvil,
         profile RoleGangMember FactionPrisoner AlignmentEvil,
         profile RoleNeutralPrisoner FactionNeutral AlignmentNeutral,
         profile RoleNeutralPrisoner FactionNeutral AlignmentNeutral],
        [profile RoleWarden FactionAuthority AlignmentGood,
         profile RoleDeputy FactionAuthority AlignmentEvil,
         profile RoleGangLeader FactionPrisoner AlignmentEvil,
         profile RoleGangMember FactionPrisoner AlignmentEvil,
         profile RoleSnitch FactionPrisoner AlignmentGood,
         profile RoleNeutralPrisoner FactionNeutral AlignmentNeutral]]),
      (7,
       [[profile RoleWarden FactionAuthority AlignmentGood,
         profile RoleDeputy FactionAuthority AlignmentGood,
         profile RoleDeputy FactionAuthority AlignmentGood,
         profile RoleGangLeader FactionPrisoner AlignmentEvil,
         profile RoleGangMember FactionPrisoner AlignmentEvil,
         profile RoleGangMember FactionPrisoner AlignmentEvil,
         profile RoleNeutralPrisoner FactionNeutral AlignmentNeutral],
        [profile RoleWarden FactionAuthority AlignmentGood,
         profile RoleDeputy FactionAuthority AlignmentGood,
         profile RoleDeputy FactionAuthority AlignmentEvil,
         profile RoleGangLeader FactionPrisoner AlignmentEvil,
         profile RoleGangMember FactionPrisoner AlignmentEvil,
         profile RoleSnitch FactionPrisoner AlignmentGood,
         profile RoleNeutralPrisoner FactionNeutral AlignmentNeutral]]),
      (8,
       [[profile RoleWarden FactionAuthority AlignmentGood,
         profile RoleDeputy FactionAuthority AlignmentGood,
         profile RoleDeputy FactionAuthority AlignmentGood,
         profile RoleGangLeader FactionPrisoner AlignmentEvil,
         profile RoleGangMember FactionPrisoner AlignmentEvil,
         profile RoleGangMember FactionPrisoner AlignmentEvil,
         profile RoleGangMember FactionPrisoner AlignmentEvil,
         profile RoleNeutralPrisoner FactionNeutral AlignmentNeutral],
        [profile RoleWarden FactionAuthority AlignmentGood,
         profile RoleDeputy FactionAuthority AlignmentGood,
         profile RoleDeputy FactionAuthority AlignmentEvil,
         profile RoleGangLeader FactionPrisoner AlignmentEvil,
         profile RoleGangMember FactionPrisoner AlignmentEvil,
         profile RoleGangMember FactionPrisoner AlignmentEvil,
         profile RoleSnitch FactionPrisoner AlignmentGood,
         profile RoleNeutralPrisoner FactionNeutral AlignmentNeutral]]),
      (9,
       [[profile RoleWarden FactionAuthority AlignmentGood,
         profile RoleDeputy FactionAuthority AlignmentGood,
         profile RoleDeputy FactionAuthority AlignmentGood,
         profile RoleGangLeader FactionPrisoner AlignmentEvil,
         profile RoleGangMember FactionPrisoner AlignmentEvil,
         profile RoleGangMember FactionPrisoner AlignmentEvil,
         profile RoleGangMember FactionPrisoner AlignmentEvil,
         profile RoleNeutralPrisoner FactionNeutral AlignmentNeutral,
         profile RoleNeutralPrisoner FactionNeutral AlignmentNeutral],
        [profile RoleWarden FactionAuthority AlignmentGood,
         profile RoleDeputy FactionAuthority AlignmentGood,
         profile RoleDeputy FactionAuthority AlignmentEvil,
         profile RoleGangLeader FactionPrisoner AlignmentEvil,
         profile RoleGangMember FactionPrisoner AlignmentEvil,
         profile RoleGangMember FactionPrisoner AlignmentEvil,
         profile RoleSnitch FactionPrisoner AlignmentGood,
         profile RoleNeutralPrisoner FactionNeutral AlignmentNeutral,
         profile RoleNeutralPrisoner FactionNeutral AlignmentNeutral]]),
      (10,
       [[profile RoleWarden FactionAuthority AlignmentGood,
         profile RoleDeputy FactionAuthority AlignmentGood,
         profile RoleDeputy FactionAuthority AlignmentGood,
         profile RoleDeputy FactionAuthority AlignmentEvil,
         profile RoleGangLeader FactionPrisoner AlignmentEvil,
         profile RoleGangMember FactionPrisoner AlignmentEvil,
         profile RoleGangMember FactionPrisoner AlignmentEvil,
         profile RoleGangMember FactionPrisoner AlignmentEvil,
         profile RoleSnitch FactionPrisoner AlignmentGood,
         profile RoleNeutralPrisoner FactionNeutral AlignmentNeutral],
        [profile RoleWarden FactionAuthority AlignmentGood,
         profile RoleDeputy FactionAuthority AlignmentGood,
         profile RoleDeputy FactionAuthority AlignmentGood,
         profile RoleDeputy FactionAuthority AlignmentGood,
         profile RoleGangLeader FactionPrisoner AlignmentEvil,
         profile RoleGangMember FactionPrisoner AlignmentEvil,
         profile RoleGangMember FactionPrisoner AlignmentEvil,
         profile RoleGangMember FactionPrisoner AlignmentEvil,
         profile RoleGangMember FactionPrisoner AlignmentEvil,
         profile RoleNeutralPrisoner FactionNeutral AlignmentNeutral],
        [profile RoleWarden FactionAuthority AlignmentGood,
         profile RoleDeputy FactionAuthority AlignmentGood,
         profile RoleDeputy FactionAuthority AlignmentEvil,
         profile RoleDeputy FactionAuthority AlignmentEvil,
         profile RoleGangLeader FactionPrisoner AlignmentEvil,
         profile RoleGangMember FactionPrisoner AlignmentEvil,
         profile RoleSnitch FactionPrisoner AlignmentGood,
         profile RoleSnitch FactionPrisoner AlignmentGood,
         profile RoleNeutralPrisoner FactionNeutral AlignmentNeutral,
         profile RoleNeutralPrisoner FactionNeutral AlignmentNeutral]]),
      (11,
       [[profile RoleWarden FactionAuthority AlignmentGood,
         profile RoleDeputy FactionAuthority AlignmentGood,
         profile RoleDeputy FactionAuthority AlignmentGood,
         profile RoleDeputy FactionAuthority AlignmentEvil,
         profile RoleGangLeader FactionPrisoner AlignmentEvil,
         profile RoleGangMember FactionPrisoner AlignmentEvil,
         profile RoleGangMember FactionPrisoner AlignmentEvil,
         profile RoleGangMember FactionPrisoner AlignmentEvil,
         profile RoleGangMember FactionPrisoner AlignmentEvil,
         profile RoleSnitch FactionPrisoner AlignmentGood,
         profile RoleNeutralPrisoner FactionNeutral AlignmentNeutral],
        [profile RoleWarden FactionAuthority AlignmentGood,
         profile RoleDeputy FactionAuthority AlignmentGood,
         profile RoleDeputy FactionAuthority AlignmentGood,
         profile RoleDeputy FactionAuthority AlignmentGood,
         profile RoleGangLeader FactionPrisoner AlignmentEvil,
         profile RoleGangMember FactionPrisoner AlignmentEvil,
         profile RoleGangMember FactionPrisoner AlignmentEvil,
         profile RoleGangMember FactionPrisoner AlignmentEvil,
         profile RoleGangMember FactionPrisoner AlignmentEvil,
         profile RoleGangMember FactionPrisoner AlignmentEvil,
         profile RoleNeutralPrisoner FactionNeutral AlignmentNeutral],
        [profile RoleWarden FactionAuthority AlignmentGood,
         profile RoleDeputy FactionAuthority AlignmentGood,
         profile RoleDeputy FactionAuthority AlignmentEvil,
         profile RoleDeputy FactionAuthority AlignmentEvil,
         profile RoleGangLeader FactionPrisoner AlignmentEvil,
         profile RoleGangMember FactionPrisoner AlignmentEvil,
         profile RoleGangMember FactionPrisoner AlignmentEvil,
         profile RoleSnitch FactionPrisoner AlignmentGood,
         profile RoleSnitch FactionPrisoner AlignmentGood,
         profile RoleNeutralPrisoner FactionNeutral AlignmentNeutral,
         profile RoleNeutralPrisoner FactionNeutral AlignmentNeutral]]),
      (12,
       [[profile RoleWarden FactionAuthority AlignmentGood,
         profile RoleDeputy FactionAuthority AlignmentGood,
         profile RoleDeputy FactionAuthority AlignmentGood,
         profile RoleDeputy FactionAuthority AlignmentEvil,
         profile RoleDeputy FactionAuthority AlignmentEvil,
         profile RoleGangLeader FactionPrisoner AlignmentEvil,
         profile RoleGangMember FactionPrisoner AlignmentEvil,
         profile RoleGangMember FactionPrisoner AlignmentEvil,
         profile RoleGangMember FactionPrisoner AlignmentEvil,
         profile RoleSnitch FactionPrisoner AlignmentGood,
         profile RoleSnitch FactionPrisoner AlignmentGood,
         profile RoleNeutralPrisoner FactionNeutral AlignmentNeutral],
        [profile RoleWarden FactionAuthority AlignmentGood,
         profile RoleDeputy FactionAuthority AlignmentGood,
         profile RoleDeputy FactionAuthority AlignmentGood,
         profile RoleDeputy FactionAuthority AlignmentGood,
         profile RoleDeputy FactionAuthority AlignmentGood,
         profile RoleGangLeader FactionPrisoner AlignmentEvil,
         profile RoleGangMember FactionPrisoner AlignmentEvil,
         profile RoleGangMember FactionPrisoner AlignmentEvil,
         profile RoleGangMember FactionPrisoner AlignmentEvil,
         profile RoleGangMember FactionPrisoner AlignmentEvil,
         profile RoleGangMember FactionPrisoner AlignmentEvil,
         profile RoleGangMember FactionPrisoner AlignmentEvil],
        [profile RoleWarden FactionAuthority AlignmentGood,
         profile RoleDeputy FactionAuthority AlignmentGood,
         profile RoleDeputy FactionAuthority AlignmentGood,
         profile RoleDeputy FactionAuthority AlignmentEvil,
         profile RoleDeputy FactionAuthority AlignmentEvil,
         profile RoleGangLeader FactionPrisoner AlignmentEvil,
         profile RoleGangMember FactionPrisoner AlignmentEvil,
         profile RoleGangMember FactionPrisoner AlignmentEvil,
         profile RoleSnitch FactionPrisoner AlignmentGood,
         profile RoleSnitch FactionPrisoner AlignmentGood,
         profile RoleNeutralPrisoner FactionNeutral AlignmentNeutral,
         profile RoleNeutralPrisoner FactionNeutral AlignmentNeutral]])]"

text \<open>The loop \<open>for len(profile) < playerCount\<close> appends neutral prisoners.\<close>

function pad_neutral :: "nat \<Rightarrow> roleProfile list \<Rightarrow> roleProfile list" where
  "pad_neutral playerCount prof =
     (if length prof < playerCount
      then pad_neutral playerCount
             (prof @ [profile RoleNeutralPrisoner FactionNeutral AlignmentNeutral])
      else prof)"
  by pat_completeness auto
termination by (relation "measure (\<lambda>(n, p). n - length p)") auto

declare pad_neutral.simps [simp del]

definition profilesForCount :: "nat \<Rightarrow> roleProfile list list" where
  "profilesForCount playerCount =
     (let templates = (case map_of roleTemplatesByCount playerCount of Some ts \<Rightarrow> ts | None \<Rightarrow> [])
      in if length templates > 0 then templates
         else
           let prof = [];
               prof = (if playerCount \<ge> 1 then prof @ [profile RoleWarden FactionAuthority AlignmentGood] else prof);
               prof = (if playerCount \<ge> 2 then prof @ [profile RoleDeputy FactionAuthority AlignmentGood] else prof);
               prof = (if playerCount \<ge> 3 then prof @ [profile RoleGangLeader FactionPrisoner AlignmentEvil] else prof)
           in [pad_neutral playerCount prof])"

definition hashSeed :: "MatchID \<Rightarrow> PlayerID list \<Rightarrow> uint64" where
  "hashSeed matchID orderedPlayers =
     foldl (\<lambda>hasher playerID. fnv_Write (fnv_Write hasher [0]) (bytes_of_string (PlayerID_str playerID)))
       (fnv_Write fnv_New64a (bytes_of_string (MatchID_str matchID))) orderedPlayers"

definition swap_at :: "nat \<Rightarrow> nat \<Rightarrow> 'a list \<Rightarrow> 'a list" where
  "swap_at i j xs = xs[i := xs ! j, j := xs ! i]"

text \<open>The shuffle for \<open>idx\<close> counting down to 1.\<close>

fun shuffle_loop :: "nat \<Rightarrow> roleProfile list \<Rightarrow> deterministicRNG \<Rightarrow> roleProfile list \<times> deterministicRNG" where
  "shuffle_loop 0 profiles rng = (profiles, rng)"
| "shuffle_loop (Suc k) profiles rng =
     (case rng_Intn rng (Suc k + 1) of (swapIdx, rng') \<Rightarrow>
        shuffle_loop k (swap_at (Suc k) swapIdx profiles) rng')"

definition shuffleRoleProfiles ::
  "roleProfile list \<Rightarrow> deterministicRNG \<Rightarrow> roleProfile list \<times> deterministicRNG" where
  "shuffleRoleProfiles profiles rng = shuffle_loop (length profiles - 1) profiles rng"

text \<open>The duplicate test: is some element of the sorted list equal to its predecessor?\<close>

fun adjacent_equal :: "PlayerID list \<Rightarrow> bool" where
  "adjacent_equal (x # y # rest) = (if x = y then True else adjacent_equal (y # rest))"
| "adjacent_equal _ = False"

definition Assign :: "PlayerID list \<Rightarrow> MatchID \<Rightarrow> RolesError + Assignment list" where
  "Assign playerIDs matchID =
     (if length playerIDs = 0 then Inl ErrNoPlayersProvided
      else
        let ordered = sort playerIDs
        in if adjacent_equal ordered then Inl ErrDuplicatePlayerID
           else
             let profiles = profilesForCount (length ordered);
                 seed = hashSeed matchID ordered;
                 templateIndex = (if length profiles > 1 then mod_index seed (length profiles) else 0);
                 rng = newDeterministicRNG (seed XOR 0x9e3779b97f4a7c15);
                 (selected, rng') = shuffleRoleProfiles (profiles ! templateIndex) rng
             in Inr (map (\<lambda>(idx, playerID).
                   \<lparr>AssignmentPlayerID = playerID,
                    AssignmentRole = ProfileRole (selected ! idx),
                    AssignmentFaction = ProfileFaction (selected ! idx),
                    AssignmentAlignment = ProfileAlignment (selected ! idx)\<rparr>)
                   (enumerate 0 ordered)))"

definition zero_assignment :: Assignment where
  "zero_assignment = \<lparr>AssignmentPlayerID = PlayerID '''', AssignmentRole = RoleNone,
     AssignmentFaction = FactionNone, AssignmentAlignment = AlignmentNone\<rparr>"

text \<open>\<open>byID\<close>: the Go map built from the assignments (a later entry overwrites an earlier one).\<close>

definition assignments_by_id :: "Assignment list \<Rightarrow> PlayerID \<rightharpoonup> Assignment" where
  "assignments_by_id assignments =
     foldl (\<lambda>byID a. byID(AssignmentPlayerID a \<mapsto> a)) Map.empty assignments"

definition apply_assignment :: "(PlayerID \<rightharpoonup> Assignment) \<Rightarrow> PlayerState \<Rightarrow> PlayerState" where
  "apply_assignment byID player =
     (let assignment = (case byID (ID player) of Some a \<Rightarrow> a | None \<Rightarrow> zero_assignment)
      in player\<lparr>Role := AssignmentRole assignment, Faction := AssignmentFaction assignment,
           Alignment := AssignmentAlignment assignment\<rparr>)"

definition ApplyAssignments :: "GameState \<Rightarrow> MatchID \<Rightarrow> RolesError + GameState" where
  "ApplyAssignments state matchID =
     (if length (Players state) = 0 then Inr state
      else case Assign (map ID (Players state)) matchID of
             Inl err \<Rightarrow> Inl err
           | Inr assignments \<Rightarrow>
               let byID = assignments_by_id assignments
               in Inr (state\<lparr>Players := map (apply_assignment byID) (Players state)\<rparr>))"

section \<open>The templates\<close>

definition template_ok :: "nat \<Rightarrow> roleProfile list \<Rightarrow> bool" where
  "template_ok n t \<longleftrightarrow> length t = n \<and> count_list (map ProfileRole t) RoleWarden = 1 \<and>
     count_list (map ProfileRole t) RoleGangLeader = (if n \<ge> 3 then 1 else 0)"

lemma templates_ok:
  "list_all (\<lambda>(n, ts). list_all (template_ok n) ts) roleTemplatesByCount"
  by code_simp

lemma pad_neutral_eq:
  "pad_neutral n p = p @ replicate (n - length p) (profile RoleNeutralPrisoner FactionNeutral AlignmentNeutral)"
proof (induction n p rule: pad_neutral.induct)
  case (1 n p)
  show ?case
  proof (cases "length p < n")
    case True
    then obtain k where "n - length p = Suc k" "n - Suc (length p) = k"
      by (metis Suc_diff_Suc diff_Suc_Suc)
    then show ?thesis using True 1 by (simp add: pad_neutral.simps [of n p])
  next
    case False
    then show ?thesis by (simp add: pad_neutral.simps [of n p])
  qed
qed

lemma profilesForCount_ok:
  assumes "0 < n"
  shows "profilesForCount n \<noteq> []" and "\<forall>t \<in> set (profilesForCount n). template_ok n t"
proof -
  let ?ts = "case map_of roleTemplatesByCount n of Some ts \<Rightarrow> ts | None \<Rightarrow> []"
  have "\<forall>t \<in> set ?ts. template_ok n t"
    using templates_ok by (fastforce simp: list_all_iff split: option.splits dest: sym map_of_SomeD)
  moreover have "count_list (replicate k x) y = (if x = y then k else 0)" for k x and y :: RoleType
    by (induction k) auto
  ultimately show "profilesForCount n \<noteq> []" "\<forall>t \<in> set (profilesForCount n). template_ok n t"
    using assms by (auto simp: profilesForCount_def Let_def pad_neutral_eq template_ok_def)
qed

section \<open>Assignment\<close>

lemma mset_swap_at: "i < length xs \<Longrightarrow> j < length xs \<Longrightarrow> mset (swap_at i j xs) = mset xs"
  unfolding swap_at_def by (rule mset_swap)

lemma shuffle_loop_mset: "k < length ps \<Longrightarrow> mset (fst (shuffle_loop k ps r)) = mset ps"
proof (induction k ps r rule: shuffle_loop.induct)
  case (2 k ps r)
  obtain j r' where j: "rng_Intn r (Suc k + 1) = (j, r')" by force
  with rng_Intn_less [of "Suc k + 1" r] have jl: "j < length ps" using 2(2) by simp
  moreover have "length (swap_at (Suc k) j ps) = length ps" by (simp add: swap_at_def)
  moreover have "shuffle_loop (Suc k) ps r = shuffle_loop k (swap_at (Suc k) j ps) r'"
    by (simp only: shuffle_loop.simps j case_prod_conv)
  ultimately show ?case
    using 2(1) [OF j [symmetric]] 2(2) mset_swap_at [of "Suc k" ps j] by (simp del: shuffle_loop.simps)
qed simp

lemma shuffleRoleProfiles_mset: "mset (fst (shuffleRoleProfiles ps r)) = mset ps"
  by (cases ps) (simp_all add: shuffleRoleProfiles_def shuffle_loop_mset)

lemma adjacent_equal_sorted: "sorted xs \<Longrightarrow> adjacent_equal xs \<longleftrightarrow> \<not> distinct xs"
proof (induction xs rule: adjacent_equal.induct)
  case (1 x y rest)
  have "x = y" if "x \<in> set rest" using 1(2) that by (auto intro: antisym)
  then show ?case using 1 by auto
qed auto

text \<open>The profile an assignment carries.\<close>

definition assigned_profile :: "Assignment \<Rightarrow> roleProfile" where
  "assigned_profile a = profile (AssignmentRole a) (AssignmentFaction a) (AssignmentAlignment a)"

text \<open>The list the last loop builds from the shuffled profiles.\<close>

definition hand_out :: "roleProfile list \<Rightarrow> PlayerID list \<Rightarrow> Assignment list" where
  "hand_out sel xs = map (\<lambda>(idx, playerID). \<lparr>AssignmentPlayerID = playerID,
      AssignmentRole = ProfileRole (sel ! idx), AssignmentFaction = ProfileFaction (sel ! idx),
      AssignmentAlignment = ProfileAlignment (sel ! idx)\<rparr>) (enumerate 0 xs)"

lemma hand_out_profiles:
  assumes "length sel = length xs"
  shows "map assigned_profile (hand_out sel xs) = sel"
proof (rule nth_equalityI)
  show "length (map assigned_profile (hand_out sel xs)) = length sel"
    using assms by (simp add: hand_out_def)
  fix i assume "i < length (map assigned_profile (hand_out sel xs))"
  then show "map assigned_profile (hand_out sel xs) ! i = sel ! i"
    by (simp add: hand_out_def nth_enumerate_eq assigned_profile_def)
qed

lemma hand_out_players: "map AssignmentPlayerID (hand_out sel xs) = xs"
  by (rule nth_equalityI) (simp_all add: hand_out_def nth_enumerate_eq)

lemma Assign_Inr:
  assumes "Assign ids mid = Inr out"
  shows "ids \<noteq> [] \<and> distinct ids \<and> map AssignmentPlayerID out = sort ids \<and>
    (\<exists>t \<in> set (profilesForCount (length ids)). mset (map assigned_profile out) = mset t)"
proof -
  let ?ps = "profilesForCount (length ids)" and ?seed = "hashSeed mid (sort ids)"
  let ?i = "if length ?ps > 1 then mod_index ?seed (length ?ps) else 0"
  have ne: "ids \<noteq> []" and d: "distinct ids"
    using assms adjacent_equal_sorted [of "sort ids"] by (auto simp: Assign_def Let_def split: if_splits)
  obtain sel r where sel: "shuffleRoleProfiles (?ps ! ?i)
      (newDeterministicRNG (?seed XOR 0x9e3779b97f4a7c15)) = (sel, r)" by force
  then have out: "out = hand_out sel (sort ids)"
    using assms by (auto simp: Assign_def Let_def hand_out_def split: if_splits)
  have "?ps \<noteq> []" using profilesForCount_ok(1) [of "length ids"] ne by simp
  then have "?i < length ?ps" by (cases "length ?ps > 1") auto
  then have t: "?ps ! ?i \<in> set ?ps" by (rule nth_mem)
  have m: "mset sel = mset (?ps ! ?i)"
    using shuffleRoleProfiles_mset [of "?ps ! ?i"] sel by (metis fst_conv)
  have "length (?ps ! ?i) = length ids"
    using t profilesForCount_ok(2) [of "length ids"] ne by (simp add: template_ok_def)
  with mset_eq_length [OF m] have "length sel = length (sort ids)" by simp
  then have "map assigned_profile out = sel" by (simp add: out hand_out_profiles)
  moreover have "map AssignmentPlayerID out = sort ids" by (simp add: out hand_out_players)
  ultimately show ?thesis using ne d t m by metis
qed

lemma Assign_Inl:
  "Assign ids mid = Inl e \<longleftrightarrow>
     ids = [] \<and> e = ErrNoPlayersProvided \<or> ids \<noteq> [] \<and> \<not> distinct ids \<and> e = ErrDuplicatePlayerID"
  using adjacent_equal_sorted [of "sort ids"] by (auto simp: Assign_def Let_def case_prod_beta)

text \<open>How often a role occurs among the assignments.\<close>

lemma count_role_mset:
  "mset (map assigned_profile out) = mset t \<Longrightarrow>
     count_list (map AssignmentRole out) r = count_list (map ProfileRole t) r"
proof -
  assume "mset (map assigned_profile out) = mset t"
  then have "image_mset ProfileRole (mset (map assigned_profile out)) = image_mset ProfileRole (mset t)"
    by simp
  then have "mset (map AssignmentRole out) = mset (map ProfileRole t)"
    by (simp add: assigned_profile_def multiset.map_comp comp_def)
  then show ?thesis by (simp only: count_mset [symmetric])
qed

lemma assignments_by_id_Some:
  assumes "distinct (map AssignmentPlayerID out)" and "a \<in> set out"
  shows "assignments_by_id out (AssignmentPlayerID a) = Some a"
proof -
  have keep: "foldl (\<lambda>m b. m(AssignmentPlayerID b \<mapsto> b)) m xs k = m k"
    if "k \<notin> set (map AssignmentPlayerID xs)" for m xs k
    using that by (induction xs arbitrary: m) auto
  have "distinct (map AssignmentPlayerID xs) \<Longrightarrow> a \<in> set xs \<Longrightarrow>
      foldl (\<lambda>m b. m(AssignmentPlayerID b \<mapsto> b)) m xs (AssignmentPlayerID a) = Some a" for m xs
    by (induction xs arbitrary: m) (auto simp: keep)
  then show ?thesis using assms by (simp add: assignments_by_id_def)
qed

text \<open>The roles written into the state are, as a multiset, the roles of the assignments.\<close>

lemma apply_assignment_roles:
  assumes "distinct (map AssignmentPlayerID out)"
    and "mset (map AssignmentPlayerID out) = mset (map ID ps)"
  shows "mset (map (\<lambda>p. Role (apply_assignment (assignments_by_id out) p)) ps) =
    mset (map AssignmentRole out)"
proof -
  let ?g = "\<lambda>i. AssignmentRole (case assignments_by_id out i of Some a \<Rightarrow> a | None \<Rightarrow> zero_assignment)"
  have "mset (map (\<lambda>p. Role (apply_assignment (assignments_by_id out) p)) ps) =
      image_mset ?g (mset (map ID ps))"
    by (simp add: apply_assignment_def Let_def multiset.map_comp comp_def)
  also have "\<dots> = image_mset ?g (mset (map AssignmentPlayerID out))" by (simp only: assms(2))
  also have "\<dots> = mset (map (\<lambda>a. ?g (AssignmentPlayerID a)) out)"
    by (simp add: multiset.map_comp comp_def)
  also have "map (\<lambda>a. ?g (AssignmentPlayerID a)) out = map AssignmentRole out"
    using assignments_by_id_Some [OF assms(1)] by simp
  finally show ?thesis .
qed

section \<open>Properties\<close>

text \<open>C30. Assignment deals one template: it fails exactly for no players or a repeated player,
  and otherwise gives every player, in the order of the sorted identifiers, one profile each of
  a template of that player count, with exactly one warden and (from three players on) exactly
  one gang leader.\<close>

theorem Assign_deals_template:
  "case Assign ids mid of
     Inl e \<Rightarrow> (if ids = [] then e = ErrNoPlayersProvided
               else e = ErrDuplicatePlayerID \<and> \<not> distinct ids)
   | Inr out \<Rightarrow> distinct ids \<and> map AssignmentPlayerID out = sort ids \<and>
       (\<exists>t. t \<in> set (profilesForCount (length ids)) \<and> mset (map assigned_profile out) = mset t) \<and>
       count_list (map AssignmentRole out) RoleWarden = 1 \<and>
       count_list (map AssignmentRole out) RoleGangLeader = (if length ids \<ge> 3 then 1 else 0)"
proof (cases "Assign ids mid")
  case (Inl e)
  then show ?thesis using Assign_Inl [of ids mid e] by auto
next
  case (Inr out)
  from Assign_Inr [OF this] obtain t where t: "t \<in> set (profilesForCount (length ids))"
    "mset (map assigned_profile out) = mset t" and r: "ids \<noteq> []" "distinct ids"
    "map AssignmentPlayerID out = sort ids" by blast
  have "template_ok (length ids) t" using t(1) profilesForCount_ok(2) [of "length ids"] r(1) by simp
  then show ?thesis using t r count_role_mset [OF t(2)] by (auto simp: Inr template_ok_def)
qed

text \<open>The roles of a match are a function of the match and the set of players: the order in
  which the players are listed does not matter.\<close>

theorem Assign_order_irrelevant:
  assumes "mset ids = mset ids'"
  shows "Assign ids mid = Assign ids' mid"
proof -
  have "sort ids = sort ids'" using assms by (intro properties_for_sort) simp_all
  moreover have "length ids = length ids'" using assms by (rule mset_eq_length)
  ultimately show ?thesis by (simp only: Assign_def)
qed

theorem Assign_order_irrelevant_witness:
  "Assign [PlayerID ''b'', PlayerID ''a''] (MatchID ''m'') =
     Assign [PlayerID ''a'', PlayerID ''b''] (MatchID ''m'')"
  by (rule Assign_order_irrelevant) simp

text \<open>C31. Writing the assignment into the state succeeds for distinct players, touches only the
  role, faction and alignment of each player, and leaves exactly one warden and, from three
  players on, exactly one gang leader in the match.\<close>

theorem ApplyAssignments_one_warden:
  assumes "Players s \<noteq> []" and "distinct (map ID (Players s))"
  shows "\<exists>ps. ApplyAssignments s mid = Inr (s\<lparr>Players := ps\<rparr>) \<and>
    map (\<lambda>p. p\<lparr>Role := RoleNone, Faction := FactionNone, Alignment := AlignmentNone\<rparr>) ps =
      map (\<lambda>p. p\<lparr>Role := RoleNone, Faction := FactionNone, Alignment := AlignmentNone\<rparr>) (Players s) \<and>
    count_list (map Role ps) RoleWarden = 1 \<and>
    count_list (map Role ps) RoleGangLeader = (if length (Players s) \<ge> 3 then 1 else 0)"
proof -
  let ?ids = "map ID (Players s)"
  have "\<not> isl (Assign ?ids mid)" using assms by (auto simp: isl_def Assign_Inl)
  then obtain out where out: "Assign ?ids mid = Inr out" by (cases "Assign ?ids mid") auto
  from Assign_Inr [OF out] obtain t where t: "t \<in> set (profilesForCount (length ?ids))"
    "mset (map assigned_profile out) = mset t" "map AssignmentPlayerID out = sort ?ids" by blast
  let ?ps = "map (apply_assignment (assignments_by_id out)) (Players s)"
  have d: "distinct (map AssignmentPlayerID out)" using t(3) assms(2) by simp
  have "mset (map AssignmentPlayerID out) = mset ?ids" by (simp only: t(3) mset_sort)
  from apply_assignment_roles [OF d this]
  have "mset (map Role ?ps) = mset (map AssignmentRole out)" by (simp add: comp_def)
  then have c: "count_list (map Role ?ps) r = count_list (map ProfileRole t) r" for r
    unfolding count_role_mset [OF t(2), symmetric] by (simp only: count_mset [symmetric])
  have "template_ok (length (Players s)) t"
    using t(1) profilesForCount_ok(2) [of "length ?ids"] assms(1) by simp
  moreover have "ApplyAssignments s mid = Inr (s\<lparr>Players := ?ps\<rparr>)"
    using assms(1) out by (simp add: ApplyAssignments_def)
  ultimately show ?thesis
    using c [of RoleWarden] c [of RoleGangLeader]
    by (intro exI [of _ ?ps]) (simp add: apply_assignment_def Let_def template_ok_def)
qed

definition roles_example :: GameState where
  "roles_example = \<lparr>GameState_MatchID = MatchID ''m1'', TickID = 0, Status = MatchStatusLobby,
     CycleCount = 0, Phase = \<lparr>Current = PhaseDay, StartedTick = 1, EndsTick = 9001\<rparr>,
     Map = \<lparr>PowerOn = True, Alarm = inactive_alarm, BlackMarketRoomID = RoomID '''',
       Doors = [], Cells = [], RestrictedZones = []\<rparr>,
     Players = [zero_player\<lparr>ID := PlayerID ''a''\<rparr>, zero_player\<lparr>ID := PlayerID ''b''\<rparr>],
     Entities = [], GameOver = None\<rparr>"

theorem ApplyAssignments_one_warden_witness:
  "\<exists>ps. ApplyAssignments roles_example (MatchID ''m1'') = Inr (roles_example\<lparr>Players := ps\<rparr>) \<and>
     count_list (map Role ps) RoleWarden = 1"
proof -
  have "Players roles_example \<noteq> []" and "distinct (map ID (Players roles_example))"
    by (simp_all add: roles_example_def)
  from ApplyAssignments_one_warden [OF this] show ?thesis by blast
qed

end
