(* ===== verification/Succession.thy ===== *)
theory Succession
  imports Roles Access
begin

text \<open>
  Gang-leader succession (\<open>src/internal/gamecore/roles/succession.go\<close>) and the projection of a
  snapshot for one viewer (\<open>src/internal/gamecore/roles/visibility.go\<close>). The set \<open>changed\<close> of the
  source is a duplicate-free list here; its keys are sorted before they are returned.
  \<open>sort.Slice\<close> on the eligible players compares identifiers, which are distinct in a match; the
  model sorts stably.
\<close>

section \<open>Succession\<close>

definition living_leader :: "PlayerState \<Rightarrow> bool" where
  "living_leader p \<longleftrightarrow> Role p = RoleGangLeader \<and> Alive p"

definition dead_leader :: "PlayerState \<Rightarrow> bool" where
  "dead_leader p \<longleftrightarrow> Role p = RoleGangLeader \<and> \<not> Alive p"

definition living_member :: "PlayerState \<Rightarrow> bool" where
  "living_member p \<longleftrightarrow> Role p = RoleGangMember \<and> Alive p"

text \<open>The first loop: \<open>aliveLeaderExists\<close>, \<open>deadLeaderIndexes\<close>, \<open>eligibleIndexes\<close>.\<close>

fun scan_gang :: "nat \<Rightarrow> PlayerState list \<Rightarrow> bool \<times> nat list \<times> nat list \<Rightarrow> bool \<times> nat list \<times> nat list" where
  "scan_gang index [] acc = acc"
| "scan_gang index (player # rest) (alive, dead, eligible) =
     scan_gang (Suc index) rest
       (if living_leader player then (True, dead, eligible)
        else if dead_leader player then (alive, dead @ [index], eligible)
        else if living_member player then (alive, dead, eligible @ [index])
        else (alive, dead, eligible))"

definition demote_step :: "PlayerState list \<times> PlayerID list \<Rightarrow> nat \<Rightarrow> PlayerState list \<times> PlayerID list" where
  "demote_step acc index =
     (case acc of (players, changed) \<Rightarrow>
        if Role (players ! index) \<noteq> RoleGangMember
        then (players[index := (players ! index)\<lparr>Role := RoleGangMember\<rparr>],
              List.insert (ID (players ! index)) changed)
        else acc)"

definition deterministicSuccessorIndex ::
  "PlayerState list \<Rightarrow> MatchID \<Rightarrow> uint64 \<Rightarrow> nat list \<Rightarrow> nat" where
  "deterministicSuccessorIndex players matchID tickID eligibleIndexes =
     (if length eligibleIndexes \<le> 1 then 0
      else
        let hasher = fnv_Write fnv_New64a (bytes_of_string (MatchID_str matchID));
            hasher = fnv_Write hasher (le_bytes64 tickID);
            hasher = foldl (\<lambda>h index. fnv_Write (fnv_Write h [0])
                       (bytes_of_string (PlayerID_str (ID (players ! index))))) hasher eligibleIndexes
        in mod_index hasher (length eligibleIndexes))"

text \<open>The three assignments to the successor, each recording the change.\<close>

definition promote_step :: "PlayerState \<times> PlayerID list \<Rightarrow> PlayerState \<times> PlayerID list" where
  "promote_step acc =
     (let (p, changed) = acc;
          (p, changed) = (if Role p \<noteq> RoleGangLeader
             then (p\<lparr>Role := RoleGangLeader\<rparr>, List.insert (ID p) changed) else (p, changed));
          (p, changed) = (if Faction p \<noteq> FactionPrisoner
             then (p\<lparr>Faction := FactionPrisoner\<rparr>, List.insert (ID p) changed) else (p, changed));
          (p, changed) = (if Alignment p \<noteq> AlignmentEvil
             then (p\<lparr>Alignment := AlignmentEvil\<rparr>, List.insert (ID p) changed) else (p, changed))
      in (p, changed))"

definition ApplyGangLeaderSuccession ::
  "GameState \<Rightarrow> MatchID \<Rightarrow> uint64 \<Rightarrow> GameState \<times> PlayerID list" where
  "ApplyGangLeaderSuccession state matchID tickID =
     (if length (Players state) = 0 then (state, [])
      else
        let (aliveLeaderExists, deadLeaderIndexes, eligibleIndexes) =
              scan_gang 0 (Players state) (False, [], [])
        in if aliveLeaderExists \<or> length eligibleIndexes = 0 then (state, [])
           else
             let eligibleIndexes = sort_key (\<lambda>i. ID (Players state ! i)) eligibleIndexes;
                 (players, changed) = foldl demote_step (Players state, []) deadLeaderIndexes;
                 selectedPos = deterministicSuccessorIndex players matchID tickID eligibleIndexes;
                 index = eligibleIndexes ! selectedPos;
                 (successor, changed) = promote_step (players ! index, changed)
             in (state\<lparr>Players := players[index := successor]\<rparr>, sort changed))"

section \<open>Visibility\<close>

text \<open>A deep copy of slices; values are copied, so the copy is the value.\<close>

definition clonePlayerState :: "PlayerState \<Rightarrow> PlayerState" where
  "clonePlayerState player = player\<lparr>Inventory := Inventory player, Cards := Cards player,
     Effects := Effects player\<rparr>"

definition hidePrivatePlayerState :: "PlayerState \<Rightarrow> PlayerState" where
  "hidePrivatePlayerState player =
     player\<lparr>Inventory := [], Cards := [], Effects := [], LastEscapeAttempt := no_escape_attempt,
       Bullets := 0, TempHeartsHalf := 0, StunnedUntilTick := 0, SolitaryUntilTick := 0\<rparr>"

definition projectPlayerForViewer :: "PlayerState \<Rightarrow> PlayerID \<Rightarrow> PlayerState" where
  "projectPlayerForViewer player viewerID =
     (let out = clonePlayerState player
      in if viewerID \<noteq> PlayerID '''' \<and> ID out = viewerID then out
         else
           let out = hidePrivatePlayerState out
           in if Role out = RoleWarden then out\<lparr>Alignment := AlignmentNone\<rparr>
              else out\<lparr>Role := RoleNone, Faction := FactionNone, Alignment := AlignmentNone\<rparr>)"

definition ProjectSnapshotForViewer :: "Snapshot \<Rightarrow> PlayerID \<Rightarrow> Snapshot" where
  "ProjectSnapshotForViewer snapshot viewerID =
     (let out = snapshot;
          out = (case State snapshot of
                   None \<Rightarrow> out
                 | Some st \<Rightarrow> out\<lparr>State := Some (st\<lparr>Players :=
                     map (\<lambda>p. projectPlayerForViewer p viewerID) (Players st)\<rparr>)\<rparr>);
          out = (case Delta snapshot of
                   None \<Rightarrow> out
                 | Some d \<Rightarrow> out\<lparr>Delta := Some (d\<lparr>ChangedPlayers :=
                     map (\<lambda>p. projectPlayerForViewer p viewerID) (ChangedPlayers d)\<rparr>)\<rparr>)
      in out\<lparr>PlayerAcks := PlayerAcks snapshot\<rparr>)"

section \<open>Lemmas on succession\<close>

text \<open>The three kinds exclude each other; the loop collects the indices of each.\<close>

lemma scan_gang_eq:
  "scan_gang k ps (a, d, e) =
     (a \<or> (\<exists>p \<in> set ps. living_leader p),
      d @ filter (\<lambda>i. dead_leader (ps ! (i - k))) [k ..< k + length ps],
      e @ filter (\<lambda>i. living_member (ps ! (i - k))) [k ..< k + length ps])"
proof (induction ps arbitrary: k a d e)
  case (Cons p ps)
  have upt: "[k ..< k + length (p # ps)] = k # [Suc k ..< Suc k + length ps]"
    by (subst upt_conv_Cons) simp_all
  have shift: "filter (\<lambda>i. Q ((p # ps) ! (i - k))) [Suc k ..< Suc k + length ps] =
      filter (\<lambda>i. Q (ps ! (i - Suc k))) [Suc k ..< Suc k + length ps]" for Q
    by (rule filter_cong) (auto simp: nth_Cons' )
  show ?case
    unfolding upt scan_gang.simps Cons.IH filter.simps shift
    by (auto simp: Cons.IH living_leader_def dead_leader_def living_member_def)
qed simp

lemma demote_loop:
  assumes "distinct idxs" and "\<And>i. i \<in> set idxs \<Longrightarrow> i < length ps \<and> Role (ps ! i) = RoleGangLeader"
  shows "foldl demote_step (ps, ch) idxs =
    (map (\<lambda>i. if i \<in> set idxs then (ps ! i)\<lparr>Role := RoleGangMember\<rparr> else ps ! i) [0 ..< length ps],
     foldl (\<lambda>ch i. List.insert (ID (ps ! i)) ch) ch idxs)"
  using assms
proof (induction idxs arbitrary: ps ch)
  case Nil
  then show ?case by (simp add: map_nth)
next
  case (Cons i idxs)
  let ?ps = "ps[i := (ps ! i)\<lparr>Role := RoleGangMember\<rparr>]"
  have i: "i < length ps" "Role (ps ! i) = RoleGangLeader" using Cons.prems(2) by auto
  have "j < length ?ps \<and> Role (?ps ! j) = RoleGangLeader" if "j \<in> set idxs" for j
    using Cons.prems that by (auto simp: nth_list_update)
  note IH = Cons.IH [OF _ this, where ch = "List.insert (ID (ps ! i)) ch"]
  have "foldl (\<lambda>ch j. List.insert (ID (?ps ! j)) ch) ch' idxs =
      foldl (\<lambda>ch j. List.insert (ID (ps ! j)) ch) ch' idxs" for ch'
    using i by (intro foldl_cong) (auto simp: nth_list_update)
  then show ?case
    using IH Cons.prems(1) i by (auto simp: demote_step_def nth_list_update)
qed

lemma set_foldl_insert: "set (foldl (\<lambda>ch i. List.insert (f i) ch) ch idxs) = set ch \<union> f ` set idxs"
  by (induction idxs arbitrary: ch) auto

lemma distinct_foldl_insert:
  "distinct ch \<Longrightarrow> distinct (foldl (\<lambda>ch i. List.insert (f i) ch) ch idxs)"
  by (induction idxs arbitrary: ch) auto

definition promoted :: "PlayerState \<Rightarrow> PlayerState" where
  "promoted p = p\<lparr>Role := RoleGangLeader, Faction := FactionPrisoner, Alignment := AlignmentEvil\<rparr>"

definition demoted :: "PlayerState \<Rightarrow> PlayerState" where
  "demoted p = p\<lparr>Role := RoleGangMember\<rparr>"

lemma promote_step_member:
  "Role p = RoleGangMember \<Longrightarrow> promote_step (p, ch) = (promoted p, List.insert (ID p) ch)"
  by (auto simp: promote_step_def promoted_def Let_def)

lemma deterministicSuccessorIndex_less:
  "eligible \<noteq> [] \<Longrightarrow> deterministicSuccessorIndex ps mid t eligible < length eligible"
  by (cases "length eligible \<le> 1") (auto simp: deterministicSuccessorIndex_def Let_def)

text \<open>The successor the hash picks, as a function of the sorted eligible identifiers.\<close>

definition pick_successor :: "MatchID \<Rightarrow> uint64 \<Rightarrow> PlayerID list \<Rightarrow> PlayerID" where
  "pick_successor mid t ids =
     ids ! (if length ids \<le> 1 then 0
            else mod_index (foldl (\<lambda>h i. fnv_Write (fnv_Write h [0]) (bytes_of_string (PlayerID_str i)))
              (fnv_Write (fnv_Write fnv_New64a (bytes_of_string (MatchID_str mid))) (le_bytes64 t)) ids)
              (length ids))"

lemma pick_successor_eq:
  assumes "eligible \<noteq> []"
  shows "ID (ps ! (eligible ! deterministicSuccessorIndex ps mid t eligible)) =
    pick_successor mid t (map (\<lambda>i. ID (ps ! i)) eligible)"
proof -
  let ?ids = "map (\<lambda>i. ID (ps ! i)) eligible"
  have "deterministicSuccessorIndex ps mid t eligible =
      (if length ?ids \<le> 1 then 0
       else mod_index (foldl (\<lambda>h i. fnv_Write (fnv_Write h [0]) (bytes_of_string (PlayerID_str i)))
              (fnv_Write (fnv_Write fnv_New64a (bytes_of_string (MatchID_str mid))) (le_bytes64 t)) ?ids)
              (length ?ids))"
    by (simp add: deterministicSuccessorIndex_def Let_def foldl_map)
  then show ?thesis
    using deterministicSuccessorIndex_less [OF assms, of ps mid t]
    by (simp add: pick_successor_def)
qed

lemma map_sort_key: "map f (sort_key f xs) = sort (map f xs)"
  by (rule properties_for_sort [symmetric]) (simp_all add: sorted_sort_key)

lemma map_filter_nth: "map (\<lambda>i. f (ps ! i)) (filter (\<lambda>i. P (ps ! i)) [0 ..< length ps]) = map f (filter P ps)"
proof -
  have "filter P (map ((!) ps) [0 ..< length ps]) = map ((!) ps) (filter (\<lambda>i. P (ps ! i)) [0 ..< length ps])"
    by (simp add: filter_map comp_def)
  then show ?thesis by (simp add: map_nth comp_def)
qed

lemma succession_run:
  assumes "Players s \<noteq> []" and "scan_gang 0 (Players s) (False, [], []) = (False, dead, el)"
    and "el \<noteq> []" and "foldl demote_step (Players s, []) dead = (dem, ch)"
    and "i = sort_key (\<lambda>i. ID (Players s ! i)) el !
      deterministicSuccessorIndex dem mid t (sort_key (\<lambda>i. ID (Players s ! i)) el)"
    and "promote_step (dem ! i, ch) = (q, ch')"
  shows "ApplyGangLeaderSuccession s mid t = (s\<lparr>Players := dem[i := q]\<rparr>, sort ch')"
  using assms(1,3,6)
  by (simp add: ApplyGangLeaderSuccession_def Let_def assms(2,4) assms(5) [symmetric])

lemma succession_noop:
  "(\<exists>p \<in> set (Players s). living_leader p) \<or> \<not> (\<exists>p \<in> set (Players s). living_member p) \<Longrightarrow>
     ApplyGangLeaderSuccession s mid t = (s, [])"
  by (auto simp: ApplyGangLeaderSuccession_def scan_gang_eq filter_empty_conv)

lemma filter_unique_index:
  assumes "i < n" and "\<And>j. j < n \<Longrightarrow> P (f j) \<longleftrightarrow> j = i"
  shows "filter P (map f [0 ..< n]) = [f i]"
proof -
  have "filter (\<lambda>j. j = i) [0 ..< n] = [i]" using assms(1) by (induction n) auto
  moreover have "filter (P \<circ> f) [0 ..< n] = filter (\<lambda>j. j = i) [0 ..< n]"
    using assms(2) by (intro filter_cong) auto
  ultimately show ?thesis by (simp add: filter_map)
qed

text \<open>What the succession does when it does something.\<close>

lemma succession_effect:
  assumes "\<not> (\<exists>p \<in> set (Players s). living_leader p)" and "\<exists>p \<in> set (Players s). living_member p"
    and "ApplyGangLeaderSuccession s mid t = (s', out)"
  shows "\<exists>i. i < length (Players s) \<and> living_member (Players s ! i) \<and>
    ID (Players s ! i) = pick_successor mid t (sort (map ID (filter living_member (Players s)))) \<and>
    s' = s\<lparr>Players := map (\<lambda>j. if j = i then promoted (Players s ! j)
       else if dead_leader (Players s ! j) then demoted (Players s ! j) else Players s ! j)
         [0 ..< length (Players s)]\<rparr> \<and>
    sorted out \<and> distinct out \<and>
    set out = insert (ID (Players s ! i)) (ID ` {p \<in> set (Players s). dead_leader p})"
proof -
  let ?ps = "Players s"
  let ?dead = "filter (\<lambda>i. dead_leader (?ps ! i)) [0 ..< length ?ps]"
  let ?el = "filter (\<lambda>i. living_member (?ps ! i)) [0 ..< length ?ps]"
  let ?sorted = "sort_key (\<lambda>i. ID (?ps ! i)) ?el"
  let ?dem = "map (\<lambda>i. if i \<in> set ?dead then (?ps ! i)\<lparr>Role := RoleGangMember\<rparr> else ?ps ! i) [0 ..< length ?ps]"
  let ?ch = "foldl (\<lambda>ch i. List.insert (ID (?ps ! i)) ch) [] ?dead"
  let ?i = "?sorted ! deterministicSuccessorIndex ?dem mid t ?sorted"
  have ne: "?el \<noteq> []" "?ps \<noteq> []"
    using assms(2) by (auto simp: filter_empty_conv in_set_conv_nth Bex_def)
  then have nes: "?sorted \<noteq> []" by (metis set_empty set_sort)
  have "?i \<in> set ?sorted" using deterministicSuccessorIndex_less [OF nes] by (rule nth_mem)
  then have i: "?i < length ?ps" "living_member (?ps ! ?i)" by auto
  then have nd: "\<not> dead_leader (?ps ! ?i)" by (simp add: dead_leader_def living_member_def)
  have dem: "foldl demote_step (?ps, []) ?dead = (?dem, ?ch)"
    by (rule demote_loop) (auto simp: dead_leader_def)
  have "ID (?dem ! j) = ID (?ps ! j)" if "j < length ?ps" for j using that by simp
  then have ids: "map (\<lambda>i. ID (?dem ! i)) ?sorted = map (\<lambda>i. ID (?ps ! i)) ?sorted" by auto
  have pick: "ID (?ps ! ?i) = pick_successor mid t (sort (map ID (filter living_member ?ps)))"
  proof -
    have "ID (?ps ! ?i) = ID (?dem ! ?i)" using i(1) by simp
    also have "\<dots> = pick_successor mid t (map (\<lambda>i. ID (?ps ! i)) ?sorted)"
      unfolding pick_successor_eq [OF nes] ids ..
    finally show ?thesis by (simp only: map_sort_key map_filter_nth)
  qed
  have scan: "scan_gang 0 ?ps (False, [], []) = (False, ?dead, ?el)"
    using assms(1) by (simp add: scan_gang_eq)
  have "?dem ! ?i = ?ps ! ?i" using i nd by simp
  then have prom: "promote_step (?dem ! ?i, ?ch) = (promoted (?ps ! ?i), List.insert (ID (?ps ! ?i)) ?ch)"
    using promote_step_member [of "?ps ! ?i" ?ch] i(2) unfolding living_member_def by metis
  have r: "s' = s\<lparr>Players := ?dem[?i := promoted (?ps ! ?i)]\<rparr>"
    "out = sort (List.insert (ID (?ps ! ?i)) ?ch)"
    using succession_run [OF ne(2) scan ne(1) dem refl prom] assms(3) by (simp_all only: prod.inject)
  have "?dem[?i := promoted (?ps ! ?i)] = map (\<lambda>j. if j = ?i then promoted (?ps ! j)
      else if dead_leader (?ps ! j) then demoted (?ps ! j) else ?ps ! j) [0 ..< length ?ps]"
    by (rule nth_equalityI) (auto simp: nth_list_update demoted_def)
  moreover have "set ?ch = ID ` {p \<in> set ?ps. dead_leader p}"
    by (auto simp: set_foldl_insert in_set_conv_nth image_iff)
  ultimately show ?thesis
    using i pick r distinct_foldl_insert [of "[]" "\<lambda>i. ID (?ps ! i)" ?dead] by (intro exI [of _ ?i]) simp
qed

section \<open>Lemmas on visibility\<close>

text \<open>The fields of another player that a viewer must not learn.\<close>

definition hidden_erased :: "PlayerState \<Rightarrow> PlayerState" where
  "hidden_erased p = p\<lparr>Role := RoleNone, Faction := FactionNone, Alignment := AlignmentNone,
     Inventory := [], Cards := [], Effects := [], LastEscapeAttempt := no_escape_attempt,
     Bullets := 0, TempHeartsHalf := 0, StunnedUntilTick := 0, SolitaryUntilTick := 0\<rparr>"

text \<open>Two states of a player that differ in hidden fields only, seen by a viewer who is not
  that player; neither is the warden, whose role is public.\<close>

definition differ_in_secret :: "PlayerID \<Rightarrow> PlayerState \<Rightarrow> PlayerState \<Rightarrow> bool" where
  "differ_in_secret v p q \<longleftrightarrow>
     p = q \<or>
     (v = PlayerID '''' \<or> ID p \<noteq> v) \<and> Role p \<noteq> RoleWarden \<and> Role q \<noteq> RoleWarden \<and>
     hidden_erased p = hidden_erased q"

lemma project_secret: "differ_in_secret v p q \<Longrightarrow> projectPlayerForViewer p v = projectPlayerForViewer q v"
proof -
  assume a: "differ_in_secret v p q"
  show ?thesis
  proof (cases "p = q")
    case False
    with a have h: "hidden_erased p = hidden_erased q" and r: "Role p \<noteq> RoleWarden" "Role q \<noteq> RoleWarden"
      and v: "v = PlayerID '''' \<or> ID p \<noteq> v" by (auto simp: differ_in_secret_def)
    have "ID p = ID q" using arg_cong [OF h, of ID] by (simp add: hidden_erased_def)
    with v r have "projectPlayerForViewer p v = hidden_erased p" "projectPlayerForViewer q v = hidden_erased q"
      by (auto simp: projectPlayerForViewer_def clonePlayerState_def hidePrivatePlayerState_def
          hidden_erased_def Let_def)
    with h show ?thesis by simp
  qed simp
qed

definition states_differ_in_secret :: "PlayerID \<Rightarrow> GameState \<Rightarrow> GameState \<Rightarrow> bool" where
  "states_differ_in_secret v s t \<longleftrightarrow>
     s\<lparr>Players := []\<rparr> = t\<lparr>Players := []\<rparr> \<and> list_all2 (differ_in_secret v) (Players s) (Players t)"

definition deltas_differ_in_secret :: "PlayerID \<Rightarrow> GameDelta \<Rightarrow> GameDelta \<Rightarrow> bool" where
  "deltas_differ_in_secret v s t \<longleftrightarrow>
     s\<lparr>ChangedPlayers := []\<rparr> = t\<lparr>ChangedPlayers := []\<rparr> \<and>
     list_all2 (differ_in_secret v) (ChangedPlayers s) (ChangedPlayers t)"

lemma project_players:
  "list_all2 (differ_in_secret v) ps qs \<Longrightarrow>
     map (\<lambda>p. projectPlayerForViewer p v) ps = map (\<lambda>p. projectPlayerForViewer p v) qs"
  by (induction rule: list_all2_induct) (auto intro: project_secret)

text \<open>What a viewer can compute from the ability that the projection leaves visible.\<close>

definition inferred_prisoner :: "PlayerState \<Rightarrow> bool" where
  "inferred_prisoner p =
     (case SpecFor (AssignedAbility p) of None \<Rightarrow> False | Some s \<Rightarrow> Scope s = ScopePrisoner)"

section \<open>Properties\<close>

text \<open>C32. Gang-leader succession. With a living leader, or with no living gang member, nothing
  changes. Otherwise exactly one player becomes the leader: the living gang member that the hash
  picks from the sorted identifiers; the dead leaders become members; no other player changes,
  and the result lists exactly the identifiers of the changed players in increasing order.\<close>

theorem succession_spec:
  "case ApplyGangLeaderSuccession s mid t of (s', out) \<Rightarrow>
     (if (\<exists>p. p \<in> set (Players s) \<and> living_leader p) \<or>
         filter living_member (Players s) = []
      then s' = s \<and> out = []
      else \<exists>i. i < length (Players s) \<and> living_member (Players s ! i) \<and>
        ID (Players s ! i) = pick_successor mid t (sort (map ID (filter living_member (Players s)))) \<and>
        s' = s\<lparr>Players := map (\<lambda>j. if j = i then promoted (Players s ! j)
           else if dead_leader (Players s ! j) then demoted (Players s ! j) else Players s ! j)
             [0 ..< length (Players s)]\<rparr> \<and>
        filter (\<lambda>p. Role p = RoleGangLeader) (Players s') = [promoted (Players s ! i)] \<and>
        sorted out \<and> distinct out \<and>
        set out = insert (ID (Players s ! i)) (ID ` {p \<in> set (Players s). dead_leader p}))"
proof -
  obtain s' out where r: "ApplyGangLeaderSuccession s mid t = (s', out)" by force
  show ?thesis
  proof (cases "(\<exists>p. p \<in> set (Players s) \<and> living_leader p) \<or> filter living_member (Players s) = []")
    case True
    then have "ApplyGangLeaderSuccession s mid t = (s, [])"
      by (intro succession_noop) (auto simp: filter_empty_conv)
    with True show ?thesis by auto
  next
    case False
    then have a: "\<not> (\<exists>p \<in> set (Players s). living_leader p)" "\<exists>p \<in> set (Players s). living_member p"
      by (auto simp: filter_empty_conv)
    from succession_effect [OF this r] obtain i where i: "i < length (Players s)"
      "living_member (Players s ! i)"
      "ID (Players s ! i) = pick_successor mid t (sort (map ID (filter living_member (Players s))))"
      "s' = s\<lparr>Players := map (\<lambda>j. if j = i then promoted (Players s ! j)
         else if dead_leader (Players s ! j) then demoted (Players s ! j) else Players s ! j)
           [0 ..< length (Players s)]\<rparr>" "sorted out" "distinct out"
      "set out = insert (ID (Players s ! i)) (ID ` {p \<in> set (Players s). dead_leader p})" by blast
    let ?f = "\<lambda>j. if j = i then promoted (Players s ! j)
         else if dead_leader (Players s ! j) then demoted (Players s ! j) else Players s ! j"
    have "Role (?f j) = RoleGangLeader \<longleftrightarrow> j = i" if "j < length (Players s)" for j
      using a(1) that by (auto simp: promoted_def demoted_def living_leader_def dead_leader_def)
    then have "filter (\<lambda>p. Role p = RoleGangLeader) (map ?f [0 ..< length (Players s)]) = [?f i]"
      by (intro filter_unique_index i(1)) blast
    then have "filter (\<lambda>p. Role p = RoleGangLeader) (Players s') = [promoted (Players s ! i)]"
      by (simp add: i(4))
    with False i r show ?thesis by auto
  qed
qed

text \<open>Succession is stable: once it has run, running it again at any tick changes nothing.\<close>

theorem succession_stable:
  "ApplyGangLeaderSuccession (fst (ApplyGangLeaderSuccession s mid t)) mid' t' =
     (fst (ApplyGangLeaderSuccession s mid t), [])"
proof -
  obtain s' out where r: "ApplyGangLeaderSuccession s mid t = (s', out)" by force
  show ?thesis
  proof (cases "(\<exists>p \<in> set (Players s). living_leader p) \<or> \<not> (\<exists>p \<in> set (Players s). living_member p)")
    case True
    then show ?thesis by (simp add: succession_noop)
  next
    case False
    with succession_effect [OF _ _ r] obtain i where i: "i < length (Players s)" "living_member (Players s ! i)"
      "s' = s\<lparr>Players := map (\<lambda>j. if j = i then promoted (Players s ! j)
         else if dead_leader (Players s ! j) then demoted (Players s ! j) else Players s ! j)
           [0 ..< length (Players s)]\<rparr>" by blast
    then have "promoted (Players s ! i) \<in> set (Players s')" by (auto simp: image_iff)
    moreover have "living_leader (promoted (Players s ! i))"
      using i(2) by (simp add: living_leader_def living_member_def promoted_def)
    ultimately have "\<exists>p \<in> set (Players s'). living_leader p" by blast
    with succession_noop [of s'] r show ?thesis by simp
  qed
qed


definition secret_snapshot :: "RoleType \<Rightarrow> Snapshot" where
  "secret_snapshot r = \<lparr>SnapshotKind_of = SnapshotKindFull, SnapshotTickID = 4, BaseTickID = 0,
     State = Some (roles_example\<lparr>Players := [zero_player\<lparr>ID := PlayerID ''a'', Role := r\<rparr>]\<rparr>),
     Delta = None, PlayerAcks = []\<rparr>"


text \<open>The assigned ability is not hidden, and it gives the side away: for every player whose
  assigned ability he can use and who is not both authority and prisoner, the projection shown to
  any other viewer determines whether he is a prisoner.\<close>

theorem projection_reveals_side:
  assumes "CanPlayerUse p (AssignedAbility p)" and "\<not> (IsAuthorityPlayer p \<and> IsPrisonerPlayer p)"
  shows "inferred_prisoner (projectPlayerForViewer p v) \<longleftrightarrow> IsPrisonerPlayer p"
proof -
  have "AssignedAbility (projectPlayerForViewer p v) = AssignedAbility p"
    by (simp add: projectPlayerForViewer_def clonePlayerState_def hidePrivatePlayerState_def Let_def)
  moreover have "Role p = RoleWarden \<Longrightarrow> IsAuthorityPlayer p" by (simp add: IsAuthorityPlayer_def)
  ultimately show ?thesis
    using assms by (auto simp: inferred_prisoner_def SpecFor_def CanPlayerUse_def split: option.splits
        ScopeType.splits)
qed

theorem projection_reveals_side_witness:
  "inferred_prisoner (projectPlayerForViewer (zero_player\<lparr>ID := PlayerID ''a'', Role := RoleSnitch,
     Faction := FactionPrisoner, AssignedAbility := AbilityHacker\<rparr>) (PlayerID ''b''))"
proof -
  let ?p = "zero_player\<lparr>ID := PlayerID ''a'', Role := RoleSnitch,
     Faction := FactionPrisoner, AssignedAbility := AbilityHacker\<rparr>"
  have "CanPlayerUse ?p (AssignedAbility ?p)" and "\<not> (IsAuthorityPlayer ?p \<and> IsPrisonerPlayer ?p)"
    and "IsPrisonerPlayer ?p" by code_simp+
  then show ?thesis using projection_reveals_side [of ?p "PlayerID ''b''"] by blast
qed

end
