(* ===== verification/WinConditions.thy ===== *)
theory WinConditions
  imports Access
begin

text \<open>
  Deciding that a match is over and who won
  (\<open>src/internal/gamecore/winconditions/evaluator.go\<close>). The three scans over the players are
  written as the loops they are; 
  \<open>over_reason\<close> is the specification of the verdict over the set of players.
\<close>

section \<open>Definitions\<close>

abbreviation "EscapedRoomID \<equiv> RoomID ''escaped''"

record WinConfig =
  WinMaxCycles :: uint8

definition WinDefaultConfig :: WinConfig where
  "WinDefaultConfig = \<lparr>WinMaxCycles = MaxDayNightCycles\<rparr>"

definition win_normalized :: "WinConfig \<Rightarrow> WinConfig" where
  "win_normalized c = (if WinMaxCycles c = 0 then c\<lparr>WinMaxCycles := MaxDayNightCycles\<rparr> else c)"

fun escaped_leader_scan :: "PlayerState list \<Rightarrow> bool" where
  "escaped_leader_scan [] = False"
| "escaped_leader_scan (player # rest) =
     (if Role player \<noteq> RoleGangLeader then escaped_leader_scan rest
      else if Alive player \<and> CurrentRoomID player = EscapedRoomID then True
      else escaped_leader_scan rest)"

definition hasEscapedGangLeader :: "GameState \<Rightarrow> bool" where
  "hasEscapedGangLeader state = escaped_leader_scan (Players state)"

fun dead_warden_scan :: "bool \<Rightarrow> PlayerState list \<Rightarrow> bool" where
  "dead_warden_scan hasWarden [] = hasWarden"
| "dead_warden_scan hasWarden (player # rest) =
     (if Role player \<noteq> RoleWarden then dead_warden_scan hasWarden rest
      else if Alive player then False
      else dead_warden_scan True rest)"

definition hasDeadWarden :: "GameState \<Rightarrow> bool" where
  "hasDeadWarden state = dead_warden_scan False (Players state)"

fun dead_gang_scan :: "bool \<Rightarrow> PlayerState list \<Rightarrow> bool" where
  "dead_gang_scan hasGangRole [] = hasGangRole"
| "dead_gang_scan hasGangRole (player # rest) =
     (if Role player \<noteq> RoleGangLeader \<and> Role player \<noteq> RoleGangMember
      then dead_gang_scan hasGangRole rest
      else if Alive player then False
      else dead_gang_scan True rest)"

definition hasNoAliveGangMembers :: "GameState \<Rightarrow> bool" where
  "hasNoAliveGangMembers state = dead_gang_scan False (Players state)"

definition detectReason :: "GameState \<Rightarrow> WinConfig \<Rightarrow> WinReason" where
  "detectReason state config =
     (if hasEscapedGangLeader state then WinReasonGangLeaderEscaped
      else if hasDeadWarden state then WinReasonWardenDied
      else if hasNoAliveGangMembers state then WinReasonAllGangMembersDead
      else if CycleCount state \<ge> WinMaxCycles config then WinReasonMaxCyclesReached
      else WinReasonNone)"

text \<open>The switch inside the loop of \<open>winnersForReason\<close>: is this living player appended?\<close>

definition wins_for :: "WinReason \<Rightarrow> PlayerState \<Rightarrow> bool" where
  "wins_for reason player =
     (case reason of
        WinReasonGangLeaderEscaped \<Rightarrow>
          if Role player = RoleGangLeader \<or> Role player = RoleGangMember then True
          else Faction player = FactionAuthority \<and> Alignment player = AlignmentEvil
      | WinReasonWardenDied \<Rightarrow> Role player = RoleGangLeader \<or> Role player = RoleGangMember
      | WinReasonAllGangMembersDead \<Rightarrow>
          (Faction player = FactionAuthority \<and> Alignment player = AlignmentGood) \<or>
          Role player = RoleSnitch
      | WinReasonMaxCyclesReached \<Rightarrow>
          (Faction player = FactionAuthority \<and> Alignment player = AlignmentGood) \<or>
          Role player = RoleSnitch
      | WinReasonNoEscapesAtTimeLimit \<Rightarrow>
          (Faction player = FactionAuthority \<and> Alignment player = AlignmentGood) \<or>
          Role player = RoleSnitch
      | WinReasonHitmanTargetEliminated \<Rightarrow> Role player = RoleNeutralPrisoner
      | WinReasonEscapeArtistFirstEscape \<Rightarrow> Role player = RoleNeutralPrisoner
      | WinReasonNone \<Rightarrow> False)"

fun winners_loop :: "WinReason \<Rightarrow> PlayerState list \<Rightarrow> PlayerID list \<Rightarrow> PlayerID list" where
  "winners_loop reason [] winners = winners"
| "winners_loop reason (player # rest) winners =
     (if \<not> Alive player then winners_loop reason rest winners
      else if wins_for reason player then winners_loop reason rest (winners @ [ID player])
      else winners_loop reason rest winners)"

definition winnersForReason :: "GameState \<Rightarrow> WinReason \<Rightarrow> PlayerID list" where
  "winnersForReason state reason = winners_loop reason (Players state) []"

definition ResolveOutcome :: "GameState \<Rightarrow> WinReason \<Rightarrow> uint64 \<Rightarrow> GameOverState" where
  "ResolveOutcome state reason endedTick =
     \<lparr>Reason = reason, EndedTick = endedTick,
      WinnerPlayerIDs = sort (winnersForReason state reason), Notes = ''''\<rparr>"

definition Evaluate :: "GameState \<Rightarrow> WinConfig \<Rightarrow> GameOverState option" where
  "Evaluate state config =
     (let reason = detectReason state (win_normalized config)
      in if reason = WinReasonNone then None
         else Some (ResolveOutcome state reason (TickID state)))"

section \<open>Specification\<close>

text \<open>The conditions, over the set of players.\<close>

definition gang :: "PlayerState \<Rightarrow> bool" where
  "gang p \<longleftrightarrow> Role p = RoleGangLeader \<or> Role p = RoleGangMember"

definition leader_escaped :: "PlayerState set \<Rightarrow> bool" where
  "leader_escaped ps \<longleftrightarrow>
     (\<exists>p \<in> ps. Role p = RoleGangLeader \<and> Alive p \<and> CurrentRoomID p = EscapedRoomID)"

definition all_dead :: "(PlayerState \<Rightarrow> bool) \<Rightarrow> PlayerState set \<Rightarrow> bool" where
  "all_dead side ps \<longleftrightarrow> (\<exists>p \<in> ps. side p) \<and> (\<forall>p \<in> ps. side p \<longrightarrow> \<not> Alive p)"

definition over_reason :: "PlayerState set \<Rightarrow> bool \<Rightarrow> WinReason" where
  "over_reason ps time_up =
     (if leader_escaped ps then WinReasonGangLeaderEscaped
      else if all_dead (\<lambda>p. Role p = RoleWarden) ps then WinReasonWardenDied
      else if all_dead gang ps then WinReasonAllGangMembersDead
      else if time_up then WinReasonMaxCyclesReached else WinReasonNone)"

lemma escaped_leader_scan_iff: "escaped_leader_scan ps \<longleftrightarrow> leader_escaped (set ps)"
  by (induction ps) (auto simp: leader_escaped_def)

lemma dead_warden_scan_iff:
  "dead_warden_scan b ps \<longleftrightarrow>
     (b \<or> (\<exists>p \<in> set ps. Role p = RoleWarden)) \<and> (\<forall>p \<in> set ps. Role p = RoleWarden \<longrightarrow> \<not> Alive p)"
  by (induction b ps rule: dead_warden_scan.induct) auto

lemma dead_gang_scan_iff:
  "dead_gang_scan b ps \<longleftrightarrow> (b \<or> (\<exists>p \<in> set ps. gang p)) \<and> (\<forall>p \<in> set ps. gang p \<longrightarrow> \<not> Alive p)"
  by (induction b ps rule: dead_gang_scan.induct) (auto simp: gang_def)

lemma detectReason_eq:
  "detectReason s c = over_reason (set (Players s)) (CycleCount s \<ge> WinMaxCycles c)"
proof -
  have "hasDeadWarden s \<longleftrightarrow> all_dead (\<lambda>p. Role p = RoleWarden) (set (Players s))"
    by (simp add: hasDeadWarden_def dead_warden_scan_iff all_dead_def)
  moreover have "hasNoAliveGangMembers s \<longleftrightarrow> all_dead gang (set (Players s))"
    by (simp add: hasNoAliveGangMembers_def dead_gang_scan_iff all_dead_def)
  ultimately show ?thesis
    by (simp add: detectReason_def over_reason_def hasEscapedGangLeader_def escaped_leader_scan_iff)
qed

lemma winners_loop_eq:
  "winners_loop reason ps acc =
     acc @ map ID (filter (\<lambda>p. Alive p \<and> wins_for reason p) ps)"
  by (induction reason ps acc rule: winners_loop.induct) auto

section \<open>Properties\<close>


text \<open>The outcome does not depend on the order of the player list.\<close>

theorem Evaluate_order_irrelevant:
  assumes "mset (Players s) = mset (Players s')" and "TickID s = TickID s'"
    and "CycleCount s = CycleCount s'"
  shows "Evaluate s cfg = Evaluate s' cfg"
proof -
  have "set (Players s) = set (Players s')" using assms(1) by (rule mset_eq_setD)
  moreover have "sort (winnersForReason s r) = sort (winnersForReason s' r)" for r
    using assms(1) by (intro properties_for_sort) (simp_all add: winnersForReason_def winners_loop_eq)
  ultimately show ?thesis
    using assms(2,3) by (simp add: Evaluate_def Let_def ResolveOutcome_def detectReason_eq)
qed

definition win_example :: GameState where
  "win_example = \<lparr>GameState_MatchID = MatchID ''m1'', TickID = 75600, Status = MatchStatusRunning,
     CycleCount = 6, Phase = \<lparr>Current = PhaseDay, StartedTick = 75601, EndsTick = 84601\<rparr>,
     Map = \<lparr>PowerOn = True, Alarm = inactive_alarm, BlackMarketRoomID = RoomBlackMarket,
       Doors = [], Cells = [], RestrictedZones = []\<rparr>,
     Players = [zero_player\<lparr>ID := PlayerID ''w'', Alive := True, Role := RoleWarden,
         Faction := FactionAuthority, Alignment := AlignmentGood\<rparr>,
       zero_player\<lparr>ID := PlayerID ''g'', Alive := True, Role := RoleGangLeader\<rparr>],
     Entities = [], GameOver = None\<rparr>"

theorem Evaluate_order_irrelevant_witness:
  "Evaluate win_example WinDefaultConfig =
     Evaluate (win_example\<lparr>Players := rev (Players win_example)\<rparr>) WinDefaultConfig"
  by (rule Evaluate_order_irrelevant) simp_all

end
