(* ===== verification/PhaseClock.thy ===== *)
theory PhaseClock
  imports Access
begin

text \<open>
  The day/night clock (\<open>src/internal/gamecore/phase/manager.go\<close>) and the hooks that the match
  manager installs in it (\<open>managerPhaseHooks\<close> of \<open>src/internal/server/game/manager.go\<close>).
  \<open>Advance\<close> is a loop on 64-bit ticks that calls an interface: it is a \<open>partial_function\<close>, so
  that a run that never leaves the loop is \<open>None\<close>. The locale \<open>phase_hooks\<close> states what the loop
  needs of the hooks; it is interpreted for the manager's hooks and for no hooks.
\<close>

section \<open>Definitions\<close>

record Config =
  DayDurationTicks :: uint64
  NightDurationTicks :: uint64
  MaxCycles :: uint8

record Transition =
  From :: PhaseType
  To :: PhaseType
  StartTick :: uint64
  EndTick :: uint64
  Cycle :: uint8

record Hooks =
  OnDayStart :: "GameState \<Rightarrow> Transition \<Rightarrow> GameState"
  OnNightStart :: "GameState \<Rightarrow> Transition \<Rightarrow> GameState"

text \<open>\<open>HookFuncs\<close> implements the interface with two optional functions.\<close>

definition HookFuncs :: "(GameState \<Rightarrow> Transition \<Rightarrow> GameState) option \<Rightarrow>
    (GameState \<Rightarrow> Transition \<Rightarrow> GameState) option \<Rightarrow> Hooks" where
  "HookFuncs dayStart nightStart =
     \<lparr>OnDayStart = (\<lambda>state transition. case dayStart of None \<Rightarrow> state | Some f \<Rightarrow> f state transition),
      OnNightStart = (\<lambda>state transition. case nightStart of None \<Rightarrow> state | Some f \<Rightarrow> f state transition)\<rparr>"

definition DefaultConfig :: "uint32 \<Rightarrow> Config" where
  "DefaultConfig tickRateHz =
     (let tickRateHz = (if tickRateHz = 0 then ServerTickRateHz else tickRateHz)
      in \<lparr>DayDurationTicks = ucast DayPhaseDurationSeconds * ucast tickRateHz,
          NightDurationTicks = ucast NightPhaseDurationSeconds * ucast tickRateHz,
          MaxCycles = MaxDayNightCycles\<rparr>)"

definition normalized :: "Config \<Rightarrow> Config" where
  "normalized c =
     (let c = (if DayDurationTicks c = 0 then c\<lparr>DayDurationTicks := 1\<rparr> else c);
          c = (if NightDurationTicks c = 0 then c\<lparr>NightDurationTicks := 1\<rparr> else c);
          c = (if MaxCycles c = 0 then c\<lparr>MaxCycles := MaxDayNightCycles\<rparr> else c)
      in c)"

definition InitialPhaseState :: "Config \<Rightarrow> uint64 \<Rightarrow> PhaseState" where
  "InitialPhaseState config startTick =
     (let n = normalized config;
          startTick = (if startTick = 0 then 1 else startTick)
      in \<lparr>Current = PhaseDay, StartedTick = startTick, EndsTick = startTick + DayDurationTicks n\<rparr>)"

definition run_hooks :: "Hooks option \<Rightarrow> PhaseType \<Rightarrow> GameState \<Rightarrow> Transition \<Rightarrow> GameState" where
  "run_hooks hooks nextPhase state transition =
     (case hooks of
        None \<Rightarrow> state
      | Some h \<Rightarrow>
          (case nextPhase of
             PhaseDay \<Rightarrow> OnDayStart h state transition
           | PhaseNight \<Rightarrow> OnNightStart h state transition))"

text \<open>One iteration of the loop, on a normalised configuration.\<close>

definition advance_step :: "Config \<Rightarrow> Hooks option \<Rightarrow> GameState \<Rightarrow> GameState \<times> Transition" where
  "advance_step cfg hooks state =
     (let (nextPhase, duration, state') =
        (if Current (Phase state) = PhaseNight
         then (PhaseDay, DayDurationTicks cfg,
               if CycleCount state < MaxCycles cfg
               then state\<lparr>CycleCount := CycleCount state + 1\<rparr> else state)
         else (PhaseNight, NightDurationTicks cfg, state));
          transition = \<lparr>From = Current (Phase state'), To = nextPhase,
             StartTick = EndsTick (Phase state'), EndTick = EndsTick (Phase state') + duration,
             Cycle = CycleCount state'\<rparr>;
          state'' = state'\<lparr>Phase := \<lparr>Current = nextPhase, StartedTick = StartTick transition,
             EndsTick = EndTick transition\<rparr>\<rparr>
      in (run_hooks hooks nextPhase state'' transition, transition))"

partial_function (option) advance_loop ::
  "Config \<Rightarrow> Hooks option \<Rightarrow> uint64 \<Rightarrow> GameState \<Rightarrow> Transition list \<Rightarrow>
   (GameState \<times> Transition list) option" where
  "advance_loop cfg hooks currentTick state transitions =
     (if currentTick \<ge> EndsTick (Phase state)
      then (case advance_step cfg hooks state of (state', transition) \<Rightarrow>
              advance_loop cfg hooks currentTick state' (transitions @ [transition]))
      else Some (state, transitions))"

declare advance_loop.simps [code]

definition Advance ::
  "GameState \<Rightarrow> uint64 \<Rightarrow> Config \<Rightarrow> Hooks option \<Rightarrow> (GameState \<times> Transition list) option" where
  "Advance state currentTick config hooks =
     advance_loop (normalized config) hooks currentTick state []"

section \<open>The manager's hooks\<close>

definition managerPhaseHooks :: Hooks where
  "managerPhaseHooks =
     \<lparr>OnDayStart = (\<lambda>state _. state\<lparr>Map := (Map state)\<lparr>Alarm := inactive_alarm\<rparr>\<rparr>),
      OnNightStart = (\<lambda>state transition. state\<lparr>Map := (Map state)\<lparr>BlackMarketRoomID :=
         DeterministicNightlyBlackMarketRoom (GameState_MatchID state) (Cycle transition)
           (StartTick transition)\<rparr>\<rparr>)\<rparr>"

section \<open>What the clock promises\<close>

fun other_phase :: "PhaseType \<Rightarrow> PhaseType" where
  "other_phase PhaseDay = PhaseNight"
| "other_phase PhaseNight = PhaseDay"

fun phase_ticks :: "Config \<Rightarrow> PhaseType \<Rightarrow> uint64" where
  "phase_ticks cfg PhaseDay = DayDurationTicks cfg"
| "phase_ticks cfg PhaseNight = NightDurationTicks cfg"

text \<open>A chain of transitions from a phase that ends at a tick: each starts when its
  predecessor ends, goes to the other phase and lasts that phase's duration.\<close>

fun linked :: "Config \<Rightarrow> PhaseType \<Rightarrow> uint64 \<Rightarrow> Transition list \<Rightarrow> bool" where
  "linked cfg ph e [] \<longleftrightarrow> True"
| "linked cfg ph e (tr # trs) \<longleftrightarrow>
     From tr = ph \<and> To tr = other_phase ph \<and> StartTick tr = e \<and>
     EndTick tr = e + phase_ticks cfg (other_phase ph) \<and>
     linked cfg (other_phase ph) (EndTick tr) trs"

text \<open>Day starts among \<open>n\<close> transitions, and the saturating cycle counter.\<close>

definition day_starts :: "PhaseType \<Rightarrow> nat \<Rightarrow> nat" where
  "day_starts ph n = (if ph = PhaseNight then Suc n div 2 else n div 2)"

definition cycles_after :: "nat \<Rightarrow> nat \<Rightarrow> nat \<Rightarrow> nat" where
  "cycles_after limit c days = (if c < limit then min limit (c + days) else c)"

text \<open>The state of the clock after \<open>n\<close> transitions from phase \<open>ph\<close> ending at \<open>e\<close> with cycle
  count \<open>c\<close>: a whole cycle lasts day plus night.\<close>

definition clock_after ::
  "Config \<Rightarrow> PhaseType \<Rightarrow> nat \<Rightarrow> nat \<Rightarrow> nat \<Rightarrow> PhaseType \<times> nat \<times> nat" where
  "clock_after cfg ph e c n =
     (if even n then ph else other_phase ph,
      e + (n div 2) * (unat (DayDurationTicks cfg) + unat (NightDurationTicks cfg)) +
        (if even n then 0 else unat (phase_ticks cfg (other_phase ph))),
      cycles_after (unat (MaxCycles cfg)) c (day_starts ph n))"

definition clock_of :: "GameState \<Rightarrow> PhaseType \<times> nat \<times> nat" where
  "clock_of s = (Current (Phase s), unat (EndsTick (Phase s)), unat (CycleCount s))"

section \<open>Lemmas\<close>

lemma normalized_durations:
  "0 < DayDurationTicks (normalized cfg)" "0 < NightDurationTicks (normalized cfg)"
  "0 < MaxCycles (normalized cfg)"
  by (auto simp: normalized_def Let_def word_gt_0 MaxDayNightCycles_def)

lemma phase_ticks_pos: "0 < phase_ticks (normalized cfg) ph"
  by (cases ph) (simp_all add: normalized_durations)

lemma advance_step_transition:
  assumes "advance_step cfg hooks s = (s', tr)"
  shows "From tr = Current (Phase s) \<and> To tr = other_phase (Current (Phase s)) \<and>
    StartTick tr = EndsTick (Phase s) \<and>
    EndTick tr = EndsTick (Phase s) + phase_ticks cfg (To tr)"
  using assms by (cases "Current (Phase s)") (auto simp: advance_step_def Let_def)

lemma clock_after_Suc:
  "clock_after cfg (other_phase ph) (e + unat (phase_ticks cfg (other_phase ph)))
     (if ph = PhaseNight \<and> c < unat (MaxCycles cfg) then Suc c else c) n =
   clock_after cfg ph e c (Suc n)"
  by (cases ph) (auto simp: clock_after_def cycles_after_def day_starts_def algebra_simps
      elim!: evenE oddE)

locale phase_hooks =
  fixes hooks :: "Hooks option"
  assumes keeps_phase: "Phase (run_hooks hooks ph s tr) = Phase s"
    and keeps_cycle: "CycleCount (run_hooks hooks ph s tr) = CycleCount s"
begin

lemma step_clock:
  assumes "advance_step cfg hooks s = (s', tr)"
    and "unat (EndsTick (Phase s)) + unat (phase_ticks cfg (other_phase (Current (Phase s)))) < 2 ^ 64"
  shows "clock_of s' = (other_phase (Current (Phase s)),
      unat (EndsTick (Phase s)) + unat (phase_ticks cfg (other_phase (Current (Phase s)))),
      if Current (Phase s) = PhaseNight \<and> unat (CycleCount s) < unat (MaxCycles cfg)
      then Suc (unat (CycleCount s)) else unat (CycleCount s))"
    and "StartedTick (Phase s') = EndsTick (Phase s)"
    and "EndsTick (Phase s') = EndTick tr" and "Current (Phase s') = To tr"
proof -
  have c1: "unat (CycleCount s + 1) = Suc (unat (CycleCount s))"
    if "CycleCount s < MaxCycles cfg" for cfg
  proof -
    have "unat (CycleCount s) < unat (MaxCycles cfg)" using that by (simp add: word_less_nat_alt)
    then have "Suc (unat (CycleCount s)) < 256" using unat_uint8_less [of "MaxCycles cfg"] by simp
    then show ?thesis by (simp add: unat_word_ariths)
  qed
  show "clock_of s' = (other_phase (Current (Phase s)),
      unat (EndsTick (Phase s)) + unat (phase_ticks cfg (other_phase (Current (Phase s)))),
      if Current (Phase s) = PhaseNight \<and> unat (CycleCount s) < unat (MaxCycles cfg)
      then Suc (unat (CycleCount s)) else unat (CycleCount s))"
    using assms c1 by (cases "Current (Phase s)")
      (auto simp: advance_step_def Let_def clock_of_def keeps_phase keeps_cycle unat_word_ariths
        word_less_nat_alt [symmetric] split: if_splits)
  show "StartedTick (Phase s') = EndsTick (Phase s)" "EndsTick (Phase s') = EndTick tr"
    "Current (Phase s') = To tr"
    using assms(1) by (auto simp: advance_step_def Let_def keeps_phase split: if_splits)
qed

lemma loop_clock:
  assumes "\<And>ph. 0 < phase_ticks cfg ph"
    and "\<And>ph. unat t + unat (phase_ticks cfg ph) < 2 ^ 64"
  shows "\<exists>s' new. advance_loop cfg hooks t s trs = Some (s', trs @ new) \<and>
    clock_of s' = clock_after cfg (Current (Phase s)) (unat (EndsTick (Phase s)))
      (unat (CycleCount s)) (length new) \<and>
    t < EndsTick (Phase s') \<and>
    (if new = [] then s' = s else StartedTick (Phase s') \<le> t) \<and>
    linked cfg (Current (Phase s)) (EndsTick (Phase s)) new"
proof (induction "Suc (unat t) - unat (EndsTick (Phase s))" arbitrary: s trs rule: less_induct)
  case less
  show ?case
  proof (cases "t \<ge> EndsTick (Phase s)")
    case False
    then have "advance_loop cfg hooks t s trs = Some (s, trs @ [])"
      by (subst advance_loop.simps) simp
    moreover have "clock_of s = clock_after cfg (Current (Phase s)) (unat (EndsTick (Phase s)))
      (unat (CycleCount s)) 0"
      by (simp add: clock_of_def clock_after_def cycles_after_def day_starts_def)
    ultimately show ?thesis
      using False by (intro exI [of _ s] exI [of _ "[]"]) (simp add: not_le)
  next
    case True
    obtain s1 tr where st: "advance_step cfg hooks s = (s1, tr)" by force
    let ?ph = "Current (Phase s)" let ?e = "unat (EndsTick (Phase s))"
    let ?d = "unat (phase_ticks cfg (other_phase ?ph))"
    have le: "?e \<le> unat t" using True by (simp add: word_le_nat_alt)
    then have "?e + ?d < 2 ^ 64" using assms(2) [of "other_phase ?ph"] by linarith
    note sc = step_clock [OF st this]
    have d: "0 < ?d" using assms(1) by (simp add: word_less_nat_alt)
    have e1: "unat (EndsTick (Phase s1)) = ?e + ?d" and p1: "Current (Phase s1) = other_phase ?ph"
      using sc(1) by (auto simp: clock_of_def)
    have "Suc (unat t) - unat (EndsTick (Phase s1)) < Suc (unat t) - ?e" using e1 d le by simp
    from less [OF this, of "trs @ [tr]"] obtain s' new where
      r: "advance_loop cfg hooks t s1 (trs @ [tr]) = Some (s', (trs @ [tr]) @ new)"
      and c: "clock_of s' = clock_after cfg (other_phase ?ph) (?e + ?d) (unat (CycleCount s1)) (length new)"
      and l: "t < EndsTick (Phase s')" "if new = [] then s' = s1 else StartedTick (Phase s') \<le> t"
        "linked cfg (other_phase ?ph) (EndsTick (Phase s1)) new"
      unfolding e1 p1 by blast
    have "advance_loop cfg hooks t s trs = Some (s', trs @ (tr # new))"
      using True st r by (subst advance_loop.simps) simp
    moreover have "clock_of s' = clock_after cfg ?ph ?e (unat (CycleCount s)) (length (tr # new))"
      using c sc(1) clock_after_Suc [of cfg ?ph ?e "unat (CycleCount s)" "length new"]
      by (simp add: clock_of_def)
    moreover have "linked cfg ?ph (EndsTick (Phase s)) (tr # new)"
      using advance_step_transition [OF st] l(3) sc(3) by auto
    moreover have "StartedTick (Phase s') \<le> t" using l(2) sc(2) True by (auto split: if_splits)
    ultimately show ?thesis 
      using l(1) by (intro exI [of _ s'] exI [of _ "tr # new"]) (simp del: linked.simps)
  qed
qed

lemma Advance_clock:
  assumes "\<And>ph. unat t + unat (phase_ticks (normalized cfg) ph) < 2 ^ 64"
  shows "\<exists>s' trs. Advance s t cfg hooks = Some (s', trs) \<and>
    clock_of s' = clock_after (normalized cfg) (Current (Phase s)) (unat (EndsTick (Phase s)))
      (unat (CycleCount s)) (length trs) \<and>
    t < EndsTick (Phase s') \<and>
    (if trs = [] then s' = s else StartedTick (Phase s') \<le> t) \<and>
    linked (normalized cfg) (Current (Phase s)) (EndsTick (Phase s)) trs"
  using loop_clock [OF phase_ticks_pos assms, of s "[]"] by (simp add: Advance_def)

end

interpretation manager_clock: phase_hooks "Some managerPhaseHooks"
  by unfold_locales
    (auto simp: run_hooks_def managerPhaseHooks_def split: PhaseType.splits)

interpretation plain_clock: phase_hooks None
  by unfold_locales (auto simp: run_hooks_def)

section \<open>The hooks' effect on the map\<close>

text \<open>Everything outside the phase, the cycle counter, the alarm and the black-market room is
  left alone by the clock with the manager's hooks.\<close>

definition clock_frame :: "GameState \<Rightarrow> GameState" where
  "clock_frame s = s\<lparr>Phase := \<lparr>Current = PhaseDay, StartedTick = 0, EndsTick = 0\<rparr>, CycleCount := 0,
     Map := (Map s)\<lparr>Alarm := inactive_alarm, BlackMarketRoomID := NoRoom\<rparr>\<rparr>"

definition market_after :: "MatchID \<Rightarrow> RoomID \<Rightarrow> Transition list \<Rightarrow> RoomID" where
  "market_after mid r trs =
     (case filter (\<lambda>tr. To tr = PhaseNight) (rev trs) of
        [] \<Rightarrow> r | tr # _ \<Rightarrow> DeterministicNightlyBlackMarketRoom mid (Cycle tr) (StartTick tr))"

lemma manager_step_map:
  assumes "advance_step cfg (Some managerPhaseHooks) s = (s', tr)"
  shows "clock_frame s' = clock_frame s \<and>
    Alarm (Map s') = (if To tr = PhaseDay then inactive_alarm else Alarm (Map s)) \<and>
    BlackMarketRoomID (Map s') = market_after (GameState_MatchID s) (BlackMarketRoomID (Map s)) [tr]"
  using assms
  by (cases "Current (Phase s)")
    (auto simp: advance_step_def Let_def run_hooks_def managerPhaseHooks_def clock_frame_def
      market_after_def)

lemma clock_frame_MatchID: "clock_frame s' = clock_frame s \<Longrightarrow> GameState_MatchID s' = GameState_MatchID s"
  by (drule arg_cong [of _ _ GameState_MatchID]) (simp add: clock_frame_def)

lemma market_after_append:
  "market_after mid (market_after mid r xs) ys = market_after mid r (xs @ ys)"
  by (auto simp: market_after_def split: list.split)

lemma manager_loop_map:
  assumes "advance_loop cfg hooks t s trs = Some r" and "hooks = Some managerPhaseHooks"
  shows "\<exists>new. snd r = trs @ new \<and> clock_frame (fst r) = clock_frame s \<and>
     Alarm (Map (fst r)) =
       (if \<exists>tr \<in> set new. To tr = PhaseDay then inactive_alarm else Alarm (Map s)) \<and>
     BlackMarketRoomID (Map (fst r)) =
       market_after (GameState_MatchID s) (BlackMarketRoomID (Map s)) new"
  using assms
proof (induct rule: advance_loop.raw_induct [rotated 1, consumes 1])
  case (1 loop cfg hooks t s trs r)
  show ?case
  proof (cases "t \<ge> EndsTick (Phase s)")
    case False
    with 1(2) show ?thesis by (auto simp: market_after_def)
  next
    case True
    obtain s1 tr where st: "advance_step cfg hooks s = (s1, tr)" by force
    with 1(2) True have "loop cfg hooks t s1 (trs @ [tr]) = Some r" by simp
    from 1(1) [OF this 1(3)] obtain new where
      new: "snd r = (trs @ [tr]) @ new" "clock_frame (fst r) = clock_frame s1"
      "Alarm (Map (fst r)) =
         (if \<exists>tr \<in> set new. To tr = PhaseDay then inactive_alarm else Alarm (Map s1))"
      "BlackMarketRoomID (Map (fst r)) =
         market_after (GameState_MatchID s1) (BlackMarketRoomID (Map s1)) new"
      by blast
    note m = manager_step_map [OF st [unfolded 1(3)]]
    then have "GameState_MatchID s1 = GameState_MatchID s" using clock_frame_MatchID by blast
    then have "BlackMarketRoomID (Map (fst r)) =
        market_after (GameState_MatchID s) (BlackMarketRoomID (Map s)) (tr # new)"
      using new(4) m market_after_append
        [of "GameState_MatchID s" "BlackMarketRoomID (Map s)" "[tr]" new] by simp
    with new m show ?thesis by (intro exI [of _ "tr # new"]) auto
  qed
qed

section \<open>Properties\<close>

text \<open>C18. The clock refines its timetable. When the current tick is so far from the end of the
  64-bit range that one more phase fits, \<open>Advance\<close> with the manager's hooks returns; the
  transitions it reports are linked (each starts when the previous one ends, to the other
  phase, for that phase's duration); the new phase contains the current tick; its end and the
  saturating cycle counter are the ones of the arithmetic timetable after that many
  transitions.\<close>

theorem Advance_follows_timetable:
  assumes "unat t + unat (DayDurationTicks (normalized cfg)) < 2 ^ 64"
    and "unat t + unat (NightDurationTicks (normalized cfg)) < 2 ^ 64"
  shows "\<exists>s' trs. Advance s t cfg (Some managerPhaseHooks) = Some (s', trs) \<and>
    clock_of s' = clock_after (normalized cfg) (Current (Phase s)) (unat (EndsTick (Phase s)))
      (unat (CycleCount s)) (length trs) \<and>
    t < EndsTick (Phase s') \<and>
    (if trs = [] then s' = s else StartedTick (Phase s') \<le> t) \<and>
    linked (normalized cfg) (Current (Phase s)) (EndsTick (Phase s)) trs"
proof (rule manager_clock.Advance_clock)
  show "unat t + unat (phase_ticks (normalized cfg) ph) < 2 ^ 64" for ph
    using assms by (cases ph) auto
qed

definition clock_example :: GameState where
  "clock_example = \<lparr>GameState_MatchID = MatchID ''m1'', TickID = 1, Status = MatchStatusRunning,
     CycleCount = 0, Phase = InitialPhaseState (DefaultConfig 30) 1,
     Map = \<lparr>PowerOn = True, Alarm = \<lparr>Active = True, AlarmEndsTick = 9, TriggeredBy = PlayerID ''w''\<rparr>,
       BlackMarketRoomID = RoomBlackMarket, Doors = [], Cells = [], RestrictedZones = []\<rparr>,
     Players = [], Entities = [], GameOver = None\<rparr>"

theorem Advance_follows_timetable_witness:
  "\<exists>s' trs. Advance clock_example 22000 (DefaultConfig 30) (Some managerPhaseHooks) = Some (s', trs) \<and>
     clock_of s' = clock_after (normalized (DefaultConfig 30)) PhaseDay 9001 0 (length trs) \<and>
     22000 < EndsTick (Phase s')"
proof -
  have "unat (22000 :: uint64) + unat (DayDurationTicks (normalized (DefaultConfig 30))) < 2 ^ 64"
    and "unat (22000 :: uint64) + unat (NightDurationTicks (normalized (DefaultConfig 30))) < 2 ^ 64"
    by (simp_all add: normalized_def DefaultConfig_def Let_def constant_defs)
  from Advance_follows_timetable [OF this, of clock_example]
  have "\<exists>s' trs. Advance clock_example 22000 (DefaultConfig 30) (Some managerPhaseHooks) = Some (s', trs) \<and>
     clock_of s' = clock_after (normalized (DefaultConfig 30)) (Current (Phase clock_example))
       (unat (EndsTick (Phase clock_example))) (unat (CycleCount clock_example)) (length trs) \<and>
     22000 < EndsTick (Phase s')" by blast
  moreover have "Current (Phase clock_example) = PhaseDay"
    "unat (EndsTick (Phase clock_example)) = 9001" "unat (CycleCount clock_example) = 0"
    by (simp_all add: clock_example_def InitialPhaseState_def normalized_def DefaultConfig_def
        Let_def constant_defs)
  ultimately show ?thesis by simp
qed

text \<open>Whenever the clock returns, the manager's hooks have cleared the alarm exactly when a
  day started, installed the black market of the last night that started (kept it when none
  did), and changed nothing else of the state outside the clock.\<close>

theorem Advance_hooks_effect:
  assumes "Advance s t cfg (Some managerPhaseHooks) = Some (s', trs)"
  shows "clock_frame s' = clock_frame s \<and>
     Alarm (Map s') =
       (if list_ex (\<lambda>tr. To tr = PhaseDay) trs then inactive_alarm else Alarm (Map s)) \<and>
     BlackMarketRoomID (Map s') =
       market_after (GameState_MatchID s) (BlackMarketRoomID (Map s)) trs"
  using manager_loop_map [OF assms [unfolded Advance_def] refl] by (auto simp: list_ex_iff)

theorem Advance_hooks_effect_witness:
  "\<exists>s' trs. Advance clock_example 12700 (DefaultConfig 30) (Some managerPhaseHooks) = Some (s', trs) \<and>
     Alarm (Map s') = inactive_alarm \<and>
     BlackMarketRoomID (Map s') = DeterministicNightlyBlackMarketRoom (MatchID ''m1'') 0 9001"
proof -
  let ?r = "Advance clock_example 12700 (DefaultConfig 30) (Some managerPhaseHooks)"
  have "map_option (\<lambda>(s', trs). (map To trs, map Cycle trs, map StartTick trs)) ?r =
      Some ([PhaseNight, PhaseDay], [0, 1], [9001, 12601])" by code_simp
  then obtain s' trs where r: "?r = Some (s', trs)"
    and trs: "map To trs = [PhaseNight, PhaseDay]" "map Cycle trs = [0, 1]"
      "map StartTick trs = [9001, 12601]" by auto
  from trs obtain t1 t2 where "trs = [t1, t2]" "To t1 = PhaseNight" "To t2 = PhaseDay"
    "Cycle t1 = 0" "StartTick t1 = 9001" by auto
  moreover have "GameState_MatchID clock_example = MatchID ''m1''" by (simp add: clock_example_def)
  ultimately show ?thesis
    using Advance_hooks_effect [OF r] r by (auto simp: market_after_def)
qed

text \<open>The clock does not return at the last tick of the 64-bit range, from any state: every
  end tick is reached, so the loop never leaves. (The bound of the timetable is needed.)\<close>

theorem Advance_diverges_at_last_tick:
  "Advance s (- 1) cfg hooks = None"
proof (rule ccontr)
  assume "Advance s (- 1) cfg hooks \<noteq> None"
  then obtain r where "advance_loop (normalized cfg) hooks (- 1) s [] = Some r"
    by (auto simp: Advance_def)
  moreover have "t = - 1 \<Longrightarrow> False" if "advance_loop c h t s0 trs = Some r" for c h t s0 trs r
    using that
  proof (induct rule: advance_loop.raw_induct [rotated 1, consumes 1])
    case (1 loop c h t s0 trs r)
    obtain s1 tr where "advance_step c h s0 = (s1, tr)" by force
    with 1(2,3) have "loop c h t s1 (trs @ [tr]) = Some r" by simp
    from 1(1) [OF this 1(3)] show ?case .
  qed
  ultimately show False by blast
qed

end
