(* ===== verification/Determinism.thy ===== *)
theory Determinism
  imports Model Hashing "HOL-Library.Product_Lexorder"
begin

text \<open>
  Deterministic replay (\<open>src/internal/gamecore/determinism\<close>: \<open>replay.go\<close>, \<open>statehash.go\<close>,
  \<open>reconciliation.go\<close>; the streams of \<open>rng.go\<close> are in \<open>Hashing\<close>). The step function of a
  simulation is an argument. The tick loop of \<open>Run\<close> counts with a 64-bit word and is a
  \<open>partial_function\<close>: a run that never ends is \<open>None\<close>. JSON encoding and SHA-256 of
  \<open>HashGameState\<close> are library code and appear as parameters. Copies of slices are copies of
  values.
\<close>

section \<open>Input order\<close>

text \<open>The comparison of \<open>sortInputCommands\<close>, field by field.\<close>

type_synonym cmd_order = "uint64 \<times> PlayerID \<times> uint64 \<times> InputCommandType \<times> string"

definition cmd_rank :: "InputCommand \<Rightarrow> cmd_order" where
  "cmd_rank c = (IngressSeq c, CmdPlayerID c, ClientSeq c, CmdType c, Payload c)"

definition command_before :: "InputCommand \<Rightarrow> InputCommand \<Rightarrow> bool" where
  "command_before left right =
     (if IngressSeq left \<noteq> IngressSeq right then IngressSeq left < IngressSeq right
      else if CmdPlayerID left \<noteq> CmdPlayerID right then CmdPlayerID left < CmdPlayerID right
      else if ClientSeq left \<noteq> ClientSeq right then ClientSeq left < ClientSeq right
      else if CmdType left \<noteq> CmdType right then CmdType left < CmdType right
      else Payload left < Payload right)"

text \<open>\<open>sort.SliceStable\<close> with that comparison.\<close>

definition sortInputCommands :: "InputCommand list \<Rightarrow> InputCommand list" where
  "sortInputCommands commands = sort_key cmd_rank commands"

lemma command_before_rank: "command_before a b \<longleftrightarrow> cmd_rank a < cmd_rank b"
  by (auto simp: command_before_def cmd_rank_def)

section \<open>The input log\<close>

type_synonym inputKey = "PlayerID \<times> uint64"

definition input_key :: "InputCommand \<Rightarrow> inputKey" where
  "input_key c = (CmdPlayerID c, ClientSeq c)"

fun dedup_loop :: "InputCommand list \<Rightarrow> inputKey list \<Rightarrow> InputCommand list \<Rightarrow> InputCommand list" where
  "dedup_loop [] seen deduped = deduped"
| "dedup_loop (cmd # rest) seen deduped =
     (if input_key cmd \<in> set seen then dedup_loop rest seen deduped
      else dedup_loop rest (input_key cmd # seen) (deduped @ [cmd]))"

definition normalizeInputLog :: "InputCommand list \<Rightarrow> InputCommand list" where
  "normalizeInputLog commands =
     (if length commands = 0 then [] else dedup_loop (sortInputCommands commands) [] [])"

definition schedule_tick :: "uint64 \<Rightarrow> InputCommand \<Rightarrow> uint64" where
  "schedule_tick startTick cmd =
     (let targetTick = TargetTick cmd;
          targetTick = (if targetTick = 0 then startTick else targetTick);
          targetTick = (if targetTick < startTick then startTick else targetTick)
      in targetTick)"

text \<open>\<open>byTick\<close>: a missing key reads as the nil slice.\<close>

fun schedule_loop :: "uint64 \<Rightarrow> uint64 \<Rightarrow> InputCommand list \<Rightarrow> (uint64 \<Rightarrow> InputCommand list) \<Rightarrow>
    uint64 \<Rightarrow> InputCommand list" where
  "schedule_loop startTick endTick [] byTick = byTick"
| "schedule_loop startTick endTick (cmd # rest) byTick =
     (let targetTick = schedule_tick startTick cmd
      in if targetTick > endTick then schedule_loop startTick endTick rest byTick
         else schedule_loop startTick endTick rest
                (byTick(targetTick := byTick targetTick @ [cmd\<lparr>TargetTick := targetTick\<rparr>])))"

definition scheduleByTick :: "InputCommand list \<Rightarrow> uint64 \<Rightarrow> uint64 \<Rightarrow> uint64 \<Rightarrow> InputCommand list" where
  "scheduleByTick commands startTick endTick = schedule_loop startTick endTick commands (\<lambda>_. [])"

section \<open>Running a simulation\<close>

record SimulationConfig =
  MatchSeed :: uint64
  SimStartTick :: uint64
  SimEndTick :: uint64

type_synonym StepFunc = "GameState \<Rightarrow> uint64 \<Rightarrow> InputCommand list \<Rightarrow> RNGStreams \<Rightarrow> GameState \<times> RNGStreams"

definition cloneGameState :: "GameState \<Rightarrow> GameState" where
  "cloneGameState state =
     state\<lparr>Players := map (\<lambda>p. p\<lparr>Inventory := Inventory p, Cards := Cards p,
                               NightCardChoices := NightCardChoices p, Effects := Effects p\<rparr>)
                          (Players state),
           Entities := map (\<lambda>e. e\<lparr>Tags := Tags e\<rparr>) (Entities state),
           Map := (Map state)\<lparr>Doors := Doors (Map state),
             Cells := map (\<lambda>c. c\<lparr>OccupantPlayerIDs := OccupantPlayerIDs c, Stash := Stash c\<rparr>)
                        (Cells (Map state)),
             RestrictedZones := RestrictedZones (Map state)\<rparr>,
           GameOver := map_option (\<lambda>g. g\<lparr>WinnerPlayerIDs := WinnerPlayerIDs g\<rparr>) (GameOver state)\<rparr>"

definition run_tick :: "StepFunc option \<Rightarrow> (uint64 \<Rightarrow> InputCommand list) \<Rightarrow> uint64 \<Rightarrow>
    GameState \<times> RNGStreams \<Rightarrow> GameState \<times> RNGStreams" where
  "run_tick step scheduled tick st =
     (let commandsForTick = sortInputCommands (scheduled tick);
          (state, rng) = (case step of
             None \<Rightarrow> st
           | Some f \<Rightarrow> f (fst st) tick commandsForTick (snd st))
      in (state\<lparr>TickID := tick\<rparr>, rng))"

partial_function (option) run_loop ::
  "StepFunc option \<Rightarrow> (uint64 \<Rightarrow> InputCommand list) \<Rightarrow> uint64 \<Rightarrow> uint64 \<Rightarrow> GameState \<times> RNGStreams \<Rightarrow>
   GameState option" where
  "run_loop step scheduled endTick tick st =
     (if tick \<le> endTick
      then run_loop step scheduled endTick (tick + 1) (run_tick step scheduled tick st)
      else Some (fst st))"

declare run_loop.simps [code]

definition Run :: "SimulationConfig \<Rightarrow> GameState \<Rightarrow> InputCommand list \<Rightarrow> StepFunc option \<Rightarrow> GameState option" where
  "Run config initial commands step =
     (let startTick = (if SimStartTick config = 0 then 1 else SimStartTick config)
      in if SimEndTick config < startTick then Some (cloneGameState initial)
         else
           let state = cloneGameState initial;
               rng = NewRNGStreams (MatchSeed config);
               norm = normalizeInputLog commands;
               scheduled = scheduleByTick norm startTick (SimEndTick config)
           in run_loop step scheduled (SimEndTick config) startTick (state, rng))"

section \<open>Reconciliation\<close>

definition DropAckedInputs :: "InputCommand list \<Rightarrow> uint64 \<Rightarrow> InputCommand list" where
  "DropAckedInputs pending lastProcessedClientSeq =
     (if length pending = 0 then []
      else filter (\<lambda>cmd. \<not> ClientSeq cmd \<le> lastProcessedClientSeq) pending)"

section \<open>State hash\<close>

fun EffectType_str :: "EffectType \<Rightarrow> string" where
  "EffectType_str EffectNone = ''''"
| "EffectType_str EffectStunned = ''stunned''"
| "EffectType_str EffectSolitary = ''solitary''"
| "EffectType_str EffectSpeedBoost = ''speed_boost''"
| "EffectType_str EffectArmorPlate = ''armor_plate''"
| "EffectType_str EffectTracked = ''tracked''"
| "EffectType_str EffectDisguised = ''disguised''"
| "EffectType_str EffectChameleon = ''chameleon''"
| "EffectType_str EffectCameraView = ''camera_view''"
| "EffectType_str EffectTrackerView = ''tracker_view''"

definition stack_rank :: "ItemStack \<Rightarrow> ItemType \<times> uint8" where
  "stack_rank s = (Item s, Quantity s)"

definition effect_rank :: "EffectState \<Rightarrow> string \<times> uint64 \<times> PlayerID \<times> uint32 \<times> uint8" where
  "effect_rank e = (EffectType_str (Effect e), EffectEndsTick e, SourcePID e, SourceID e, Stacks e)"

text \<open>\<open>sort.Slice\<close> is not stable; every comparison below either covers all fields of its
  elements or compares identifiers, which are distinct in a state.\<close>

definition normalize_player :: "PlayerState \<Rightarrow> PlayerState" where
  "normalize_player p = p\<lparr>Inventory := sort_key stack_rank (Inventory p), Cards := sort (Cards p),
     Effects := sort_key effect_rank (Effects p)\<rparr>"

definition normalizeState :: "GameState \<Rightarrow> GameState" where
  "normalizeState state =
     state\<lparr>Players := map normalize_player (sort_key ID (Players state)),
       Map := (Map state)\<lparr>Doors := sort_key DoorState_ID (Doors (Map state)),
         Cells := map (\<lambda>c. c\<lparr>OccupantPlayerIDs := sort (OccupantPlayerIDs c)\<rparr>)
                    (sort_key CellState_ID (Cells (Map state))),
         RestrictedZones := sort_key ZoneState_ID (RestrictedZones (Map state))\<rparr>,
       Entities := map (\<lambda>e. e\<lparr>Tags := sort (Tags e)\<rparr>) (sort_key EntityState_ID (Entities state)),
       GameOver := map_option (\<lambda>g. g\<lparr>WinnerPlayerIDs := sort (WinnerPlayerIDs g)\<rparr>) (GameOver state)\<rparr>"

definition HashGameState ::
  "(GameState \<Rightarrow> string option) \<Rightarrow> (string \<Rightarrow> string) \<Rightarrow> GameState \<Rightarrow> string option" where
  "HashGameState marshal sha256_hex state =
     (case marshal (normalizeState (cloneGameState state)) of
        None \<Rightarrow> None
      | Some raw \<Rightarrow> Some (sha256_hex raw))"

section \<open>Lemmas\<close>

lemma cloneGameState_id [simp]: "cloneGameState s = s"
  by (simp add: cloneGameState_def option.map_ident)

text \<open>Sorting by a key that identifies the elements forgets the order.\<close>

lemma sort_key_perm:
  assumes "mset xs = mset ys" and "inj_on f (set xs)"
  shows "sort_key f xs = sort_key f ys"
  by (rule sort_key_inj_key_eq) (simp_all add: assms)

lemma sort_perm: "mset xs = mset ys \<Longrightarrow> sort xs = sort (ys :: 'a::linorder list)"
  by (rule sort_key_perm) simp_all

subsection \<open>The log\<close>

lemma dedup_loop_eq:
  "dedup_loop cs seen acc = acc @ dedup_loop cs seen []"
proof (induction cs arbitrary: seen acc)
  case (Cons c cs)
  show ?case
    using Cons.IH [of seen acc] Cons.IH [of "input_key c # seen" "acc @ [c]"]
      Cons.IH [of "input_key c # seen" "[c]"] by simp
qed simp

text \<open>The loop keeps the first command of every key that was not seen before.\<close>

lemma dedup_loop_Cons:
  "dedup_loop (c # cs) seen [] =
     (if input_key c \<in> set seen then dedup_loop cs seen []
      else c # dedup_loop cs (input_key c # seen) [])"
  using dedup_loop_eq [of cs "input_key c # seen" "[c]"] by simp

declare dedup_loop.simps(2) [simp del]

lemma dedup_keys:
  "distinct (map input_key (dedup_loop cs seen [])) \<and>
   input_key ` set (dedup_loop cs seen []) = input_key ` set cs - set seen"
proof (induction cs arbitrary: seen)
  case (Cons c cs)
  show ?case
    using Cons.IH [of seen] Cons.IH [of "input_key c # seen"] by (auto simp: dedup_loop_Cons)
qed simp

lemma dedup_sublist: "sorted (map f cs) \<Longrightarrow> sorted (map f (dedup_loop cs seen []))"
proof (induction cs arbitrary: seen)
  case (Cons c cs)
  have "set (dedup_loop xs s []) \<subseteq> set xs" for xs s
    by (induction xs arbitrary: s) (auto simp: dedup_loop_Cons)
  then have "\<forall>x \<in> set (dedup_loop cs s []). f c \<le> f x" for s using Cons.prems by fastforce
  then show ?case using Cons by (auto simp: dedup_loop_Cons)
qed simp

lemma dedup_first:
  "d \<in> set (dedup_loop cs seen []) \<Longrightarrow> sorted (map f cs) \<Longrightarrow> c \<in> set cs \<Longrightarrow>
     input_key c = input_key d \<Longrightarrow> d \<in> set cs \<and> f d \<le> f c"
proof (induction cs arbitrary: seen)
  case (Cons b cs)
  show ?case
  proof (cases "d = b \<and> input_key b \<notin> set seen")
    case True
    with Cons.prems show ?thesis by auto
  next
    case False
    let ?seen = "if input_key b \<in> set seen then seen else input_key b # seen"
    have d: "d \<in> set (dedup_loop cs ?seen [])"
      using Cons.prems(1) False by (auto simp: dedup_loop_Cons split: if_splits)
    then have "input_key d \<notin> set ?seen" using dedup_keys [of cs ?seen] by blast
    then have "c \<noteq> b" using Cons.prems(4) by (auto split: if_splits)
    with Cons.IH [OF d] Cons.prems show ?thesis by auto
  qed
qed simp

lemma normalizeInputLog_eq: "normalizeInputLog cs = dedup_loop (sortInputCommands cs) [] []"
  by (simp add: normalizeInputLog_def sortInputCommands_def)

subsection \<open>The schedule\<close>

lemma schedule_loop_eq:
  "schedule_loop s e cs m t = m t @
     (if t \<le> e then map (\<lambda>c. c\<lparr>TargetTick := t\<rparr>) (filter (\<lambda>c. schedule_tick s c = t) cs) else [])"
  by (induction cs arbitrary: m) (auto simp: Let_def not_less)

lemma scheduleByTick_eq:
  "t \<le> e \<Longrightarrow> scheduleByTick cs s e t =
     map (\<lambda>c. c\<lparr>TargetTick := t\<rparr>) (filter (\<lambda>c. schedule_tick s c = t) cs)"
  by (simp add: scheduleByTick_def schedule_loop_eq)

text \<open>A tick's share of a normalised log is already in order.\<close>

lemma scheduled_sorted:
  assumes "t \<le> e"
  shows "sortInputCommands (scheduleByTick (normalizeInputLog cs) s e t) =
    scheduleByTick (normalizeInputLog cs) s e t"
proof -
  have rank: "cmd_rank (c\<lparr>TargetTick := t\<rparr>) = cmd_rank c" for c t by (simp add: cmd_rank_def)
  have "sorted (map cmd_rank (normalizeInputLog cs))"
    unfolding normalizeInputLog_eq by (rule dedup_sublist) (simp add: sortInputCommands_def)
  then have "sorted (map cmd_rank (scheduleByTick (normalizeInputLog cs) s e t))"
    using assms by (simp add: scheduleByTick_eq rank comp_def sorted_filter)
  then show ?thesis by (simp add: sortInputCommands_def sort_key_id_if_sorted)
qed

subsection \<open>The tick loop\<close>

lemma run_loop_eq:
  assumes "endTick \<noteq> - 1"
  shows "run_loop step sch endTick tick st =
    Some (fst (foldl (\<lambda>st t. run_tick step sch t st) st
      (map of_nat [unat tick ..< Suc (unat endTick)])))"
proof (induction "Suc (unat endTick) - unat tick" arbitrary: tick st rule: less_induct)
  case less
  show ?case
  proof (cases "tick \<le> endTick")
    case True
    then have le: "unat tick \<le> unat endTick" by (simp add: word_le_nat_alt)
    have "1 + tick \<noteq> 0"
    proof
      assume "1 + tick = 0"
      then have "tick = - 1" by (simp add: add_eq_0_iff)
      with True assms show False using word_n1_ge [of endTick] by (simp add: antisym)
    qed
    then have s: "unat (tick + 1) = Suc (unat tick)" using unatSuc [of tick] by (simp add: add.commute)
    have "Suc (unat endTick) - unat (tick + 1) < Suc (unat endTick) - unat tick" using s le by simp
    from less [OF this, of "run_tick step sch tick st"]
    have "run_loop step sch endTick tick st =
        Some (fst (foldl (\<lambda>st t. run_tick step sch t st) (run_tick step sch tick st)
          (map of_nat [Suc (unat tick) ..< Suc (unat endTick)])))"
      using True by (subst run_loop.simps) (simp add: s)
    moreover have "[unat tick ..< Suc (unat endTick)] = unat tick # [Suc (unat tick) ..< Suc (unat endTick)]"
      using le by (simp add: upt_conv_Cons)
    ultimately show ?thesis by simp
  next
    case False
    then have "unat endTick < unat tick" by (simp add: word_le_nat_alt)
    with False show ?thesis by (subst run_loop.simps) simp
  qed
qed

lemma run_loop_diverges:
  assumes "run_loop step sch endTick tick st = Some r" and "endTick = - 1"
  shows False
  using assms
proof (induct rule: run_loop.raw_induct [rotated 1, consumes 1])
  case (1 loop step sch endTick tick st r)
  then have "loop step sch endTick (tick + 1) (run_tick step sch tick st) = Some r"
    by (simp add: word_n1_ge)
  from 1(1) [OF this 1(3)] show ?case .
qed

subsection \<open>Hashing\<close>

lemma map_sort_key_comp: "(\<And>x. f (g x) = f x) \<Longrightarrow> map g (sort_key f xs) = sort_key f (map g xs)"
proof -
  assume fg: "\<And>x. f (g x) = f x"
  have "map g (insort_key f x ys) = insort_key f (g x) (map g ys)" for x ys
    by (induction ys) (simp_all add: fg)
  then show ?thesis by (induction xs) (simp_all add: sort_key_def)
qed

lemma normalize_by_id:
  assumes "\<And>x. f (g x) = f x" and "mset (map g xs) = mset (map g ys)" and "distinct (map f xs)"
  shows "map g (sort_key f xs) = map g (sort_key f ys)"
proof -
  have "inj_on f (set xs)" using assms(3) by (simp add: distinct_map)
  then have "inj_on f (set (map g xs))" using assms(1) by (auto simp: inj_on_def)
  from sort_key_perm [OF assms(2) this] show ?thesis
    using map_sort_key_comp [of f g, OF assms(1)] by simp
qed

abbreviation norm_cell :: "CellState \<Rightarrow> CellState" where
  "norm_cell c \<equiv> c\<lparr>OccupantPlayerIDs := sort (OccupantPlayerIDs c)\<rparr>"

abbreviation norm_entity :: "EntityState \<Rightarrow> EntityState" where
  "norm_entity e \<equiv> e\<lparr>Tags := sort (Tags e)\<rparr>"

abbreviation norm_over :: "GameOverState \<Rightarrow> GameOverState" where
  "norm_over g \<equiv> g\<lparr>WinnerPlayerIDs := sort (WinnerPlayerIDs g)\<rparr>"

text \<open>Two copies of a state whose lists agree up to order: players (with the order of their
  stacks, cards and effects), doors, cells (with their occupants), zones, entities (with their
  tags) and winners.\<close>

definition equal_up_to_order :: "GameState \<Rightarrow> GameState \<Rightarrow> bool" where
  "equal_up_to_order s t \<longleftrightarrow>
     mset (map normalize_player (Players s)) = mset (map normalize_player (Players t)) \<and>
     mset (Doors (Map s)) = mset (Doors (Map t)) \<and>
     mset (map norm_cell (Cells (Map s))) = mset (map norm_cell (Cells (Map t))) \<and>
     mset (RestrictedZones (Map s)) = mset (RestrictedZones (Map t)) \<and>
     mset (map norm_entity (Entities s)) = mset (map norm_entity (Entities t)) \<and>
     map_option norm_over (GameOver s) = map_option norm_over (GameOver t) \<and>
     s\<lparr>Players := [], Entities := [], GameOver := None,
       Map := (Map s)\<lparr>Doors := [], Cells := [], RestrictedZones := []\<rparr>\<rparr> =
     t\<lparr>Players := [], Entities := [], GameOver := None,
       Map := (Map t)\<lparr>Doors := [], Cells := [], RestrictedZones := []\<rparr>\<rparr>"

definition distinct_ids :: "GameState \<Rightarrow> bool" where
  "distinct_ids s \<longleftrightarrow> distinct (map ID (Players s)) \<and> distinct (map DoorState_ID (Doors (Map s))) \<and>
     distinct (map CellState_ID (Cells (Map s))) \<and>
     distinct (map ZoneState_ID (RestrictedZones (Map s))) \<and>
     distinct (map EntityState_ID (Entities s))"

definition order_frame :: "GameState \<Rightarrow> GameState" where
  "order_frame s = s\<lparr>Players := [], Entities := [], GameOver := None,
     Map := (Map s)\<lparr>Doors := [], Cells := [], RestrictedZones := []\<rparr>\<rparr>"

lemma normalizeState_frame:
  "normalizeState s = (order_frame s)
     \<lparr>Players := map normalize_player (sort_key ID (Players s)),
      Map := (Map (order_frame s))\<lparr>Doors := sort_key DoorState_ID (Doors (Map s)),
        Cells := map norm_cell (sort_key CellState_ID (Cells (Map s))),
        RestrictedZones := sort_key ZoneState_ID (RestrictedZones (Map s))\<rparr>,
      Entities := map norm_entity (sort_key EntityState_ID (Entities s)),
      GameOver := map_option norm_over (GameOver s)\<rparr>"
  by (simp add: normalizeState_def order_frame_def)

lemma normalizeState_perm:
  assumes "equal_up_to_order s t" and "distinct_ids s"
  shows "normalizeState s = normalizeState t"
proof -
  from assms(2) have d: "distinct (map ID (Players s))" "distinct (map DoorState_ID (Doors (Map s)))"
    "distinct (map CellState_ID (Cells (Map s)))" "distinct (map ZoneState_ID (RestrictedZones (Map s)))"
    "distinct (map EntityState_ID (Entities s))" unfolding distinct_ids_def by blast+
  from assms(1) have e: "mset (map normalize_player (Players s)) = mset (map normalize_player (Players t))"
    "mset (Doors (Map s)) = mset (Doors (Map t))"
    "mset (map norm_cell (Cells (Map s))) = mset (map norm_cell (Cells (Map t)))"
    "mset (RestrictedZones (Map s)) = mset (RestrictedZones (Map t))"
    "mset (map norm_entity (Entities s)) = mset (map norm_entity (Entities t))"
    "map_option norm_over (GameOver s) = map_option norm_over (GameOver t)"
    "order_frame s = order_frame t" unfolding equal_up_to_order_def order_frame_def by blast+
  have 1: "map normalize_player (sort_key ID (Players s)) = map normalize_player (sort_key ID (Players t))"
    by (rule normalize_by_id [OF _ e(1) d(1)]) (simp add: normalize_player_def)
  have 2: "map norm_cell (sort_key CellState_ID (Cells (Map s))) =
      map norm_cell (sort_key CellState_ID (Cells (Map t)))"
    by (rule normalize_by_id [OF _ e(3) d(3)]) simp
  have 3: "map norm_entity (sort_key EntityState_ID (Entities s)) =
      map norm_entity (sort_key EntityState_ID (Entities t))"
    by (rule normalize_by_id [OF _ e(5) d(5)]) simp
  have 4: "sort_key DoorState_ID (Doors (Map s)) = sort_key DoorState_ID (Doors (Map t))"
    using d(2) by (intro sort_key_perm e(2)) (simp add: distinct_map)
  have 5: "sort_key ZoneState_ID (RestrictedZones (Map s)) = sort_key ZoneState_ID (RestrictedZones (Map t))"
    using d(4) by (intro sort_key_perm e(4)) (simp add: distinct_map)
  show ?thesis unfolding normalizeState_frame 1 2 3 4 5 e(6,7) ..
qed

section \<open>Properties\<close>

text \<open>The simulation as a fold over the ticks from start to end: each tick receives, in log order,
  the commands of the normalised log whose tick, clamped to the start, is that tick.\<close>

definition reference_tick :: "StepFunc option \<Rightarrow> InputCommand list \<Rightarrow> uint64 \<Rightarrow>
    GameState \<times> RNGStreams \<Rightarrow> uint64 \<Rightarrow> GameState \<times> RNGStreams" where
  "reference_tick step log startTick st t =
     (case (case step of None \<Rightarrow> st
            | Some f \<Rightarrow> f (fst st) t (map (\<lambda>c. c\<lparr>TargetTick := t\<rparr>)
                (filter (\<lambda>c. max startTick (TargetTick c) = t) log)) (snd st))
      of (state, rng) \<Rightarrow> (state\<lparr>TickID := t\<rparr>, rng))"

lemma schedule_tick_max: "schedule_tick s c = max s (TargetTick c)"
  by (auto simp: schedule_tick_def Let_def max_def)

text \<open>C21. \<open>Run\<close> returns and is the reference fold, for every step function and every end tick but
  the last of the 64-bit range: every command of the normalised log up to the end tick is
  delivered exactly once, at its tick or at the start when it is older, in log order.\<close>

theorem Run_is_reference_fold:
  assumes "SimEndTick cfg \<noteq> - 1"
  shows "Run cfg initial cmds step =
    Some (fst (foldl (reference_tick step (normalizeInputLog cmds) (max 1 (SimStartTick cfg)))
      (initial, NewRNGStreams (MatchSeed cfg))
      (map of_nat [unat (max 1 (SimStartTick cfg)) ..< Suc (unat (SimEndTick cfg))])))"
proof -
  let ?s = "max 1 (SimStartTick cfg)" let ?e = "SimEndTick cfg" let ?log = "normalizeInputLog cmds"
  have s: "(if SimStartTick cfg = 0 then 1 else SimStartTick cfg) = ?s"
    by (auto simp: max_def word_le_nat_alt unat_gt_0 Suc_le_eq dest: order_antisym)
  have tick: "run_tick step (scheduleByTick ?log ?s ?e) t st = reference_tick step ?log ?s st t"
    if "t \<le> ?e" for t st
  proof -
    have "sortInputCommands (scheduleByTick ?log ?s ?e t) =
        map (\<lambda>c. c\<lparr>TargetTick := t\<rparr>) (filter (\<lambda>c. max ?s (TargetTick c) = t) ?log)"
      using scheduled_sorted [OF that, of cmds ?s] scheduleByTick_eq [OF that, of ?log ?s]
      unfolding schedule_tick_max by (rule trans)
    then show ?thesis by (simp only: run_tick_def reference_tick_def Let_def)
  qed
  have "t \<le> ?e" if "t \<in> set (map of_nat [unat ?s ..< Suc (unat ?e)])" for t
    using that by (auto simp: word_le_nat_alt unat_of_nat)
  then have fold: "foldl (\<lambda>st t. run_tick step (scheduleByTick ?log ?s ?e) t st) st
        (map of_nat [unat ?s ..< Suc (unat ?e)]) =
      foldl (reference_tick step ?log ?s) st (map of_nat [unat ?s ..< Suc (unat ?e)])" for st
    using tick by (intro foldl_cong) auto
  show ?thesis
  proof (cases "?e < ?s")
    case True
    then have "[unat ?s ..< Suc (unat ?e)] = []" by (simp add: word_less_nat_alt)
    with True show ?thesis by (simp add: Run_def s Let_def del: upt_Suc)
  next
    case False
    then show ?thesis
      by (simp add: Run_def s run_loop_eq [OF assms] fold Let_def del: upt_Suc)
  qed
qed

definition tick_counter :: StepFunc where
  "tick_counter state tick cmds rng =
     (state\<lparr>CycleCount := CycleCount state + of_nat (length cmds)\<rparr>, rng)"

definition replay_example :: GameState where
  "replay_example = \<lparr>GameState_MatchID = MatchID ''m1'', TickID = 0, Status = MatchStatusRunning,
     CycleCount = 0, Phase = \<lparr>Current = PhaseDay, StartedTick = 1, EndsTick = 9001\<rparr>,
     Map = \<lparr>PowerOn = True, Alarm = inactive_alarm, BlackMarketRoomID = RoomID '''',
       Doors = [], Cells = [], RestrictedZones = []\<rparr>,
     Players = [zero_player\<lparr>ID := PlayerID ''b''\<rparr>, zero_player\<lparr>ID := PlayerID ''a''\<rparr>],
     Entities = [], GameOver = None\<rparr>"

definition example_command :: "uint64 \<Rightarrow> uint64 \<Rightarrow> InputCommand" where
  "example_command seq tick = \<lparr>CmdPlayerID = PlayerID ''a'', ClientSeq = seq, IngressSeq = seq,
     TargetTick = tick, CmdType = CmdReload, Payload = ''''\<rparr>"

theorem Run_is_reference_fold_witness:
  "\<exists>s. Run \<lparr>MatchSeed = 7, SimStartTick = 1, SimEndTick = 3\<rparr> replay_example
     [example_command 2 2, example_command 1 0] (Some tick_counter) = Some s"
  using Run_is_reference_fold [of "\<lparr>MatchSeed = 7, SimStartTick = 1, SimEndTick = 3\<rparr>" replay_example
      "[example_command 2 2, example_command 1 0]" "Some tick_counter"] by auto

text \<open>\<open>Run\<close> does not return when the end tick is the last of the 64-bit range: the tick wraps
  to zero and never exceeds it.\<close>

theorem Run_diverges_at_last_tick:
  "Run (cfg\<lparr>SimEndTick := - 1\<rparr>) initial cmds step = None"
proof -
  have "\<not> (- 1 :: uint64) < t" for t using word_n1_ge [of t] by (simp add: not_less)
  then have "Run (cfg\<lparr>SimEndTick := - 1\<rparr>) initial cmds step = Some r \<Longrightarrow> False" for r
    using run_loop_diverges [OF _ refl] by (auto simp: Run_def Let_def)
  then show ?thesis by (cases "Run (cfg\<lparr>SimEndTick := - 1\<rparr>) initial cmds step") auto
qed

text \<open>The normalised log is in the order of the comparison, has one command for every player
  and client sequence number of the input and none besides, and that command is a least one of
  its key.\<close>

theorem normalizeInputLog_spec:
  "sorted (map cmd_rank (normalizeInputLog cs)) \<and> distinct (map input_key (normalizeInputLog cs)) \<and>
   input_key ` set (normalizeInputLog cs) = input_key ` set cs \<and>
   (\<forall>d c. d \<in> set (normalizeInputLog cs) \<and> c \<in> set cs \<and> input_key c = input_key d \<longrightarrow>
      d \<in> set cs \<and> cmd_rank d \<le> cmd_rank c)"
  unfolding normalizeInputLog_eq
  using dedup_keys [of "sortInputCommands cs" "[]"] dedup_sublist [of cmd_rank "sortInputCommands cs" "[]"]
    dedup_first [of _ "sortInputCommands cs" "[]" cmd_rank]
  by (auto simp: sortInputCommands_def)

theorem normalizeInputLog_spec_witness:
  "cmd_rank (example_command 1 0) \<le> cmd_rank (example_command 1 5) \<and>
   distinct (map input_key (normalizeInputLog [example_command 1 5, example_command 1 0]))"
  using normalizeInputLog_spec [of "[example_command 1 5, example_command 1 0]"]
  by (auto simp: example_command_def cmd_rank_def)

text \<open>C35. Replays are independent of the order in which the log is stored: with distinct ingress
  numbers, any permutation of the commands gives the same run.\<close>

theorem Run_order_irrelevant:
  assumes "mset cmds = mset cmds'" and "distinct (map IngressSeq cmds)"
  shows "Run cfg initial cmds step = Run cfg initial cmds' step"
proof -
  have "inj_on cmd_rank (set cmds)"
    using assms(2) by (auto simp: inj_on_def cmd_rank_def distinct_map)
  from sort_key_perm [OF assms(1) this] have "normalizeInputLog cmds = normalizeInputLog cmds'"
    by (simp add: normalizeInputLog_eq sortInputCommands_def)
  then show ?thesis by (simp only: Run_def)
qed

theorem Run_order_irrelevant_witness:
  "Run \<lparr>MatchSeed = 7, SimStartTick = 1, SimEndTick = 3\<rparr> replay_example
     [example_command 2 2, example_command 1 0] (Some tick_counter) =
   Run \<lparr>MatchSeed = 7, SimStartTick = 1, SimEndTick = 3\<rparr> replay_example
     [example_command 1 0, example_command 2 2] (Some tick_counter)"
  by (rule Run_order_irrelevant) (simp_all add: example_command_def)



text \<open>Named random streams are isolated: the values drawn from one stream in any interleaving
  with other streams are the values it gives when it is drawn alone.\<close>

theorem streams_isolated:
  "map snd (filter (\<lambda>p. fst p = m) (draws (NewRNGStreams seed) names)) =
     map snd (draws (NewRNGStreams seed) (filter (\<lambda>n. n = m) names))"
proof -
  have "filter (\<lambda>p. fst p = m) (draws r ns) = draws r ns" if "\<forall>n \<in> set ns. n = m" for r ns
    using that by (induction r ns rule: draws.induct) (auto split: prod.splits)
  then have "map snd (draws (NewRNGStreams seed) (filter (\<lambda>n. n = m) names)) =
      iterate_stream (stream_state (NewRNGStreams seed) m) (count_list (filter (\<lambda>n. n = m) names) m)"
    using draws_filter_gen [of m "NewRNGStreams seed" "filter (\<lambda>n. n = m) names"] by simp
  also have "count_list (filter (\<lambda>n. n = m) names) m = count_list names m" by (induction names) auto
  finally show ?thesis by (simp add: draws_filter_gen)
qed

end
