(* ===== verification/Search.thy ===== *)
theory Search
  imports Prelude
begin

text \<open>
  Breadth-first search, as \<open>Layout.FindRoomPath\<close> and \<open>Layout.FindPath\<close> of
  \<open>src/internal/gamecore/map/layout.go\<close> both write it: a queue, a set of visited nodes, a parent
  map, a scan of the neighbours that stops at the target, and a walk back along the parents. The
  two functions differ only in the neighbours of a node, which is an argument here. The loops are
  \<open>partial_function\<close>s; the locale \<open>search_graph\<close> states what the search needs of a graph (a
  finite set of nodes closed under the neighbours) and proves that it ends with a shortest path,
  or with no path when there is none.
\<close>

section \<open>Definitions\<close>

text \<open>The scan of the neighbours of \<open>current\<close>. The result is the new queue, the visited set, the
  parent map and whether the target was found (then the queue is emptied).\<close>

fun bfs_visit :: "'a \<Rightarrow> 'a \<Rightarrow> 'a list \<Rightarrow> 'a list \<Rightarrow> 'a set \<Rightarrow> ('a \<rightharpoonup> 'a) \<Rightarrow>
    'a list \<times> 'a set \<times> ('a \<rightharpoonup> 'a) \<times> bool" where
  "bfs_visit target current [] queue visited parent = (queue, visited, parent, False)"
| "bfs_visit target current (neighbor # rest) queue visited parent =
     (if neighbor \<in> visited then bfs_visit target current rest queue visited parent
      else
        let visited = insert neighbor visited;
            parent = parent(neighbor \<mapsto> current)
        in if neighbor = target then ([], visited, parent, True)
           else bfs_visit target current rest (queue @ [neighbor]) visited parent)"

partial_function (option) bfs_loop :: "('a \<Rightarrow> 'a list) \<Rightarrow> 'a \<Rightarrow> 'a list \<Rightarrow> 'a set \<Rightarrow> ('a \<rightharpoonup> 'a) \<Rightarrow> bool \<Rightarrow>
    (('a \<rightharpoonup> 'a) \<times> bool) option" where
  "bfs_loop nbrs target queue visited parent found =
     (case queue of
        [] \<Rightarrow> Some (parent, found)
      | current # rest \<Rightarrow>
          (case bfs_visit target current (nbrs current) rest visited parent of
             (queue', visited', parent', found') \<Rightarrow>
               bfs_loop nbrs target queue' visited' parent' (found \<or> found')))"

declare bfs_loop.simps [code]

text \<open>\<open>for current := to; current != from; { current = parent[current]; path = append(path, current) }\<close>;
  a missing parent reads as the zero value.\<close>

partial_function (option) walk_back :: "'a \<Rightarrow> ('a \<rightharpoonup> 'a) \<Rightarrow> 'a \<Rightarrow> 'a \<Rightarrow> 'a list \<Rightarrow> 'a list option" where
  "walk_back zero parent from current path =
     (if current = from then Some path
      else
        let current' = (case parent current of Some p \<Rightarrow> p | None \<Rightarrow> zero)
        in walk_back zero parent from current' (path @ [current']))"

declare walk_back.simps [code]

text \<open>The whole search from one node to a different one: the outer option is termination, the
  inner one the result.\<close>

definition bfs_path :: "'a \<Rightarrow> ('a \<Rightarrow> 'a list) \<Rightarrow> 'a \<Rightarrow> 'a \<Rightarrow> 'a list option option" where
  "bfs_path zero nbrs from to =
     (case bfs_loop nbrs to [from] {from} Map.empty False of
        None \<Rightarrow> None
      | Some (parent, found) \<Rightarrow>
          if \<not> found then Some None
          else map_option (\<lambda>path. Some (rev path)) (walk_back zero parent from to [to]))"

section \<open>Walks\<close>

fun walk :: "('a \<Rightarrow> 'a list) \<Rightarrow> 'a \<Rightarrow> 'a list \<Rightarrow> 'a \<Rightarrow> bool" where
  "walk nbrs u [] v \<longleftrightarrow> False"
| "walk nbrs u [x] v \<longleftrightarrow> x = u \<and> x = v"
| "walk nbrs u (x # y # xs) v \<longleftrightarrow> x = u \<and> y \<in> set (nbrs x) \<and> walk nbrs y (y # xs) v"

lemma walk_Cons: "walk nbrs u (x # xs) v \<longleftrightarrow>
    x = u \<and> (case xs of [] \<Rightarrow> x = v | y # _ \<Rightarrow> y \<in> set (nbrs x) \<and> walk nbrs y xs v)"
  by (cases xs) auto

lemma walk_snoc: "walk nbrs u xs v \<Longrightarrow> w \<in> set (nbrs v) \<Longrightarrow> walk nbrs u (xs @ [w]) w"
  by (induction nbrs u xs v rule: walk.induct) auto

lemma walk_snocE:
  assumes "walk nbrs u (xs @ [w]) v" and "xs \<noteq> []"
  shows "v = w \<and> w \<in> set (nbrs (last xs)) \<and> walk nbrs u xs (last xs)"
  using assms
proof (induction xs arbitrary: u)
  case (Cons x xs)
  then show ?case by (cases xs) (auto split: list.splits)
qed simp

lemma walk_nonempty: "walk nbrs u xs v \<Longrightarrow> xs \<noteq> []"
  by auto

section \<open>The neighbour scan\<close>

lemma bfs_visit_props:
  assumes "bfs_visit target cur ns q vis par = (q', vis', par', f)" and "target \<notin> vis"
  shows "vis' = vis \<union> (if f then vis' else set ns) \<and> vis \<subseteq> vis' \<and> vis' \<subseteq> vis \<union> set ns \<and>
    (\<forall>n. par' n = (if n \<in> vis' - vis then Some cur else par n)) \<and>
    (f \<longleftrightarrow> target \<in> vis') \<and> (f \<longleftrightarrow> target \<in> set ns) \<and>
    (if f then q' = [] else \<exists>news. q' = q @ news \<and> distinct news \<and> set news = vis' - vis)"
  using assms
proof (induction target cur ns q vis par rule: bfs_visit.induct)
  case (2 target cur n ns q vis par)
  show ?case
  proof (cases "n \<in> vis")
    case True
    with "2.IH"(1) [OF True] "2.prems" show ?thesis by (auto split: if_splits)
  next
    case new: False
    show ?thesis
    proof (cases "n = target")
      case True
      with new "2.prems" show ?thesis by auto
    next
      case False
      with new "2.prems" have r: "bfs_visit target cur ns (q @ [n]) (insert n vis) (par(n \<mapsto> cur)) =
          (q', vis', par', f)" and t: "target \<notin> insert n vis" by auto
      note IH = "2.IH"(2) [OF new refl refl False r t]
      then have p: "\<forall>m. par' m = (if m \<in> vis' - vis then Some cur else par m)"
        using new by (auto split: if_splits)
      have "\<exists>news. q' = q @ news \<and> distinct news \<and> set news = vis' - vis" if nf: "\<not> f"
      proof -
        from IH nf obtain news where "q' = (q @ [n]) @ news" "distinct news" "set news = vis' - insert n vis"
          by auto
        then show ?thesis using IH new by (intro exI [of _ "n # news"]) auto
      qed
      then show ?thesis using IH p new False by (auto split: if_splits)
    qed
  qed
qed auto

section \<open>The search invariant\<close>

text \<open>The parent map is a tree over the visited nodes, with depths.\<close>

definition parent_tree :: "('a \<Rightarrow> 'a list) \<Rightarrow> 'a \<Rightarrow> 'a set \<Rightarrow> ('a \<rightharpoonup> 'a) \<Rightarrow> ('a \<Rightarrow> nat) \<Rightarrow> bool" where
  "parent_tree nbrs from vis par dep \<longleftrightarrow> from \<in> vis \<and> dep from = 0 \<and>
     (\<forall>v \<in> vis - {from}. \<exists>u. par v = Some u \<and> u \<in> vis \<and> v \<in> set (nbrs u) \<and> dep v = Suc (dep u))"

text \<open>At the head of the loop the queue is ordered by depth, every visited node is at most one
  deeper than its head, and the nodes already taken from it have all neighbours visited.\<close>

definition bfs_inv :: "('a \<Rightarrow> 'a list) \<Rightarrow> 'a \<Rightarrow> 'a \<Rightarrow> 'a list \<Rightarrow> 'a set \<Rightarrow> ('a \<rightharpoonup> 'a) \<Rightarrow> ('a \<Rightarrow> nat) \<Rightarrow> bool" where
  "bfs_inv nbrs from target q vis par dep \<longleftrightarrow>
     parent_tree nbrs from vis par dep \<and> target \<notin> vis \<and> set q \<subseteq> vis \<and> distinct q \<and>
     sorted (map dep q) \<and>
     (\<forall>v \<in> vis. q \<noteq> [] \<longrightarrow> dep v \<le> Suc (dep (hd q))) \<and>
     (\<forall>v \<in> vis - set q. set (nbrs v) \<subseteq> vis \<and> (\<forall>n \<in> set (nbrs v). dep n \<le> Suc (dep v)) \<and>
        (\<forall>w \<in> set q. dep v \<le> dep w))"

lemma parent_tree_extend:
  assumes "parent_tree nbrs from vis par dep" and "cur \<in> vis" and "vis \<subseteq> vis'" "vis' \<subseteq> vis \<union> set (nbrs cur)"
    and "\<forall>n. par' n = (if n \<in> vis' - vis then Some cur else par n)"
  shows "parent_tree nbrs from vis' par' (\<lambda>n. if n \<in> vis' - vis then Suc (dep cur) else dep n)"
proof -
  let ?dep = "\<lambda>n. if n \<in> vis' - vis then Suc (dep cur) else dep n"
  from assms(1) have r: "from \<in> vis" "dep from = 0"
    and old: "\<And>v. v \<in> vis - {from} \<Longrightarrow> \<exists>u. par v = Some u \<and> u \<in> vis \<and> v \<in> set (nbrs u) \<and> dep v = Suc (dep u)"
    by (auto simp: parent_tree_def)
  have "\<exists>u. par' v = Some u \<and> u \<in> vis' \<and> v \<in> set (nbrs u) \<and> ?dep v = Suc (?dep u)"
    if "v \<in> vis' - {from}" for v
  proof (cases "v \<in> vis")
    case True
    with that old obtain u where "par v = Some u \<and> u \<in> vis \<and> v \<in> set (nbrs u) \<and> dep v = Suc (dep u)"
      by blast
    with True assms(3,5) show ?thesis by (intro exI [of _ u]) auto
  next
    case False
    with that assms(2-5) show ?thesis by (intro exI [of _ cur]) auto
  qed
  then show ?thesis using r assms(3) by (auto simp: parent_tree_def)
qed

lemma bfs_inv_step:
  assumes inv: "bfs_inv nbrs from target (cur # rest) vis par dep"
    and visit: "bfs_visit target cur (nbrs cur) rest vis par = (q', vis', par', False)"
  shows "bfs_inv nbrs from target q' vis' par' (\<lambda>n. if n \<in> vis' - vis then Suc (dep cur) else dep n)"
proof -
  let ?dep = "\<lambda>n. if n \<in> vis' - vis then Suc (dep cur) else dep n"
  from inv have t: "target \<notin> vis" and cur: "cur \<in> vis" "set rest \<subseteq> vis" "cur \<notin> set rest" "distinct rest"
    and tree: "parent_tree nbrs from vis par dep"
    and srt: "sorted (map dep rest)" "\<forall>w \<in> set rest. dep cur \<le> dep w"
    and near: "\<forall>v \<in> vis. dep v \<le> Suc (dep cur)"
    and old: "\<forall>v \<in> vis - set (cur # rest). set (nbrs v) \<subseteq> vis \<and> (\<forall>n \<in> set (nbrs v). dep n \<le> Suc (dep v)) \<and>
        (\<forall>w \<in> set (cur # rest). dep v \<le> dep w)"
    by (auto simp: bfs_inv_def)
  from bfs_visit_props [OF visit t] obtain news where vis': "vis' = vis \<union> set (nbrs cur)"
    and par': "\<forall>n. par' n = (if n \<in> vis' - vis then Some cur else par n)"
    and nt: "target \<notin> vis'" and q': "q' = rest @ news" "distinct news" "set news = vis' - vis"
    by auto
  have "parent_tree nbrs from vis' par' ?dep"
    by (rule parent_tree_extend [OF tree cur(1) _ _ par']) (auto simp: vis')
  moreover have "set q' \<subseteq> vis'" "distinct q'" using cur q' vis' by auto
  moreover have "sorted (map ?dep q')"
  proof -
    have r: "map ?dep rest = map dep rest" using cur(2) by (intro map_cong) auto
    have n: "map ?dep news = replicate (length news) (Suc (dep cur))"
      using q'(3) by (simp add: map_replicate_const [symmetric])
    show ?thesis
      unfolding q'(1) map_append r n using srt(1) near cur(2) by (auto simp: sorted_append)
  qed
  moreover have "?dep v \<le> Suc (?dep (hd q'))" if "v \<in> vis'" "q' \<noteq> []" for v
  proof -
    have "dep cur \<le> ?dep (hd q')"
      using that(2) q' srt(2) by (cases rest; cases news) auto
    moreover have "?dep v \<le> Suc (dep cur)" using that(1) near by auto
    ultimately show ?thesis by linarith
  qed
  moreover have "set (nbrs v) \<subseteq> vis' \<and> (\<forall>n \<in> set (nbrs v). ?dep n \<le> Suc (?dep v)) \<and>
      (\<forall>w \<in> set q'. ?dep v \<le> ?dep w)" if v: "v \<in> vis' - set q'" for v
  proof (cases "v = cur")
    case True
    then show ?thesis using vis' near srt(2) cur q' by auto
  next
    case False
    with v q' have "v \<in> vis - set (cur # rest)" by auto
    with old have o: "set (nbrs v) \<subseteq> vis" "\<forall>n \<in> set (nbrs v). dep n \<le> Suc (dep v)"
      "\<forall>w \<in> set (cur # rest). dep v \<le> dep w" by auto
    have "?dep v = dep v" using \<open>v \<in> vis - set (cur # rest)\<close> by simp
    moreover have "?dep n = dep n" if "n \<in> set (nbrs v)" for n using o(1) that by auto
    moreover have "dep v \<le> ?dep w" if "w \<in> set q'" for w
      using that o(3) q' cur(2) by auto
    ultimately show ?thesis using o vis' by auto
  qed
  ultimately show ?thesis using nt unfolding bfs_inv_def by blast
qed

text \<open>Every walk reaches a visited node no deeper than its length, or is longer than the depth of
  the head of the queue.\<close>

lemma bfs_inv_walk:
  assumes inv: "bfs_inv nbrs from target q vis par dep"
  shows "walk nbrs from xs v \<Longrightarrow>
    (q \<noteq> [] \<and> dep (hd q) < length xs - 1) \<or> (v \<in> vis \<and> dep v \<le> length xs - 1)"
proof (induction xs arbitrary: v rule: rev_induct)
  case (snoc w xs)
  show ?case
  proof (cases "xs = []")
    case True
    then show ?thesis using snoc.prems inv by (auto simp: bfs_inv_def parent_tree_def)
  next
    case False
    from walk_snocE [OF snoc.prems this] have v: "v = w" "w \<in> set (nbrs (last xs))"
      and wk: "walk nbrs from xs (last xs)" by auto
    let ?u = "last xs"
    have len: "length (xs @ [w]) - 1 = Suc (length xs - 1)" using False by (cases xs) auto
    from snoc.IH [OF wk] show ?thesis
    proof
      assume "q \<noteq> [] \<and> dep (hd q) < length xs - 1"
      then show ?thesis using len by auto
    next
      assume u: "?u \<in> vis \<and> dep ?u \<le> length xs - 1"
      show ?thesis
      proof (cases "?u \<in> set q")
        case True
        then have "q \<noteq> []" and "dep (hd q) \<le> dep ?u"
          using inv by (cases q; auto simp: bfs_inv_def)+
        then show ?thesis using u len by auto
      next
        case False
        then have "w \<in> vis \<and> dep w \<le> Suc (dep ?u)" using inv u v by (auto simp: bfs_inv_def)
        then show ?thesis using u v len by auto
      qed
    qed
  qed
qed simp

lemma walk_back_tree:
  assumes tree: "parent_tree nbrs from vis par dep"
  shows "v \<in> vis \<Longrightarrow> walk nbrs v (rev path) t \<Longrightarrow>
    \<exists>path'. walk_back zero par from v path = Some path' \<and> walk nbrs from (rev path') t \<and>
      length path' = length path + dep v"
proof (induction "dep v" arbitrary: v path)
  case 0
  have "v = from"
  proof (rule ccontr)
    assume "v \<noteq> from"
    with "0.prems"(1) tree have "\<exists>u. dep v = Suc (dep u)" unfolding parent_tree_def by blast
    with 0 show False by auto
  qed
  then show ?case using 0 by (subst walk_back.simps) (auto simp: tree [unfolded parent_tree_def])
next
  case (Suc k)
  then have ne: "v \<noteq> from" using tree by (auto simp: parent_tree_def)
  with Suc.prems(1) tree obtain u where u: "par v = Some u" "u \<in> vis" "v \<in> set (nbrs u)" "dep v = Suc (dep u)"
    by (auto simp: parent_tree_def)
  have "walk nbrs u (rev (path @ [u])) t"
    using Suc.prems(2) u(3) by (cases "rev path") (auto simp: walk_Cons split: list.splits)
  from Suc.hyps(1) [OF _ u(2) this] Suc.hyps(2) u(4) obtain path' where
    "walk_back zero par from u (path @ [u]) = Some path'" "walk nbrs from (rev path') t"
    "length path' = length (path @ [u]) + dep u" by auto
  then show ?case using ne u by (subst walk_back.simps) auto
qed

section \<open>Correctness of the search\<close>

locale search_graph =
  fixes nbrs :: "'a \<Rightarrow> 'a list" and V :: "'a set"
  assumes finite_nodes: "finite V"
    and closed: "v \<in> V \<Longrightarrow> set (nbrs v) \<subseteq> V"
begin

lemma loop_total:
  assumes "bfs_inv nbrs from target q vis par dep" and "vis \<subseteq> V"
  shows "\<exists>par' f. bfs_loop nbrs target q vis par False = Some (par', f) \<and>
    (if f then \<exists>vis' dep'. parent_tree nbrs from vis' par' dep' \<and> target \<in> vis' \<and>
         (\<forall>xs. walk nbrs from xs target \<longrightarrow> dep' target \<le> length xs - 1)
     else \<forall>xs. \<not> walk nbrs from xs target)"
  using assms
proof (induction "card (V - vis) + length q" arbitrary: q vis par dep rule: less_induct)
  case less
  show ?case
  proof (cases q)
    case Nil
    have "\<not> walk nbrs from xs target" for xs
      using bfs_inv_walk [OF less.prems(1), of xs target] less.prems(1) Nil by (auto simp: bfs_inv_def)
    moreover have "bfs_loop nbrs target q vis par False = Some (par, False)"
      using Nil by (subst bfs_loop.simps) simp
    ultimately show ?thesis by (intro exI [of _ par] exI [of _ False]) simp
  next
    case (Cons cur rest)
    obtain q' vis' par' f where visit: "bfs_visit target cur (nbrs cur) rest vis par = (q', vis', par', f)"
      by (metis surj_pair)
    have cur: "cur \<in> vis" "target \<notin> vis" using less.prems(1) Cons by (auto simp: bfs_inv_def)
    note props = bfs_visit_props [OF visit cur(2)]
    have unf: "bfs_loop nbrs target q vis par False = bfs_loop nbrs target q' vis' par' f"
      using visit Cons by (subst bfs_loop.simps) simp
    have sub: "vis' \<subseteq> V" using props closed cur(1) less.prems(2) by blast
    show ?thesis
    proof (cases f)
      case True
      let ?dep = "\<lambda>n. if n \<in> vis' - vis then Suc (dep cur) else dep n"
      from props True have "q' = []" and tv: "target \<in> vis'" by auto
      then have run: "bfs_loop nbrs target q vis par False = Some (par', True)"
        using True unf by (subst (asm) bfs_loop.simps [of _ _ q']) simp
      have tree: "parent_tree nbrs from vis' par' ?dep"
        using less.prems(1) props cur(1) by (intro parent_tree_extend) (auto simp: bfs_inv_def)
      have "?dep target \<le> length xs - 1" if "walk nbrs from xs target" for xs
        using bfs_inv_walk [OF less.prems(1) that] cur(2) tv by (simp add: Cons)
      with run tree tv show ?thesis
        by (intro exI [of _ par'] exI [of _ True] conjI) (simp_all only: if_True, blast)
    next
      case False
      have inv': "bfs_inv nbrs from target q' vis' par' (\<lambda>n. if n \<in> vis' - vis then Suc (dep cur) else dep n)"
        using less.prems(1) visit False by (intro bfs_inv_step) (simp_all add: Cons)
      from props False obtain news where news: "q' = rest @ news" "distinct news" "set news = vis' - vis"
        by auto
      have "card (V - vis) = card (V - vis') + card (vis' - vis)"
      proof -
        have "V - vis = (V - vis') \<union> (vis' - vis)" using sub props by auto
        moreover have "finite (V - vis')" "finite (vis' - vis)"
          using finite_nodes sub finite_subset [OF sub] by auto
        ultimately show ?thesis by (simp add: card_Un_disjoint Int_Diff Diff_Int_distrib2 disjoint_iff)
      qed
      then have "card (V - vis') + length q' < card (V - vis) + length q"
        using news Cons distinct_card [OF news(2)] by simp
      from less.hyps [OF this inv' sub] show ?thesis using unf False by simp
    qed
  qed
qed

text \<open>The search ends; it finds a path exactly when there is a walk, and then a shortest one.\<close>

lemma path_correct:
  assumes "from \<in> V" and "from \<noteq> to"
  shows "\<exists>r. bfs_path zero nbrs from to = Some r \<and>
    (case r of
       None \<Rightarrow> \<forall>xs. \<not> walk nbrs from xs to
     | Some path \<Rightarrow> walk nbrs from path to \<and>
         (\<forall>xs. walk nbrs from xs to \<longrightarrow> length path \<le> length xs))"
proof -
  have "bfs_inv nbrs from to [from] {from} Map.empty (\<lambda>_. 0)"
    using assms(2) by (auto simp: bfs_inv_def parent_tree_def)
  from loop_total [OF this] assms(1) obtain par f where
    l: "bfs_loop nbrs to [from] {from} Map.empty False = Some (par, f)"
    and r: "if f then \<exists>vis dep. parent_tree nbrs from vis par dep \<and> to \<in> vis \<and>
         (\<forall>xs. walk nbrs from xs to \<longrightarrow> dep to \<le> length xs - 1)
       else \<forall>xs. \<not> walk nbrs from xs to" by auto
  show ?thesis
  proof (cases f)
    case False
    then show ?thesis using l r by (simp add: bfs_path_def)
  next
    case True
    with r obtain vis dep where tree: "parent_tree nbrs from vis par dep" "to \<in> vis"
      and short: "\<forall>xs. walk nbrs from xs to \<longrightarrow> dep to \<le> length xs - 1" by auto
    from walk_back_tree [OF tree, of "[to]" to zero] obtain path where
      "walk_back zero par from to [to] = Some path" "walk nbrs from (rev path) to"
      "length path = Suc (dep to)" by auto
    moreover have "length path \<le> length xs" if "walk nbrs from xs to" for xs
      using short that walk_nonempty [OF that] \<open>length path = Suc (dep to)\<close>
      by (cases xs) (auto dest!: spec [of _ xs])
    ultimately show ?thesis using True l by (simp add: bfs_path_def)
  qed
qed

end

end
