(* ===== verification/GameMap.thy ===== *)
theory GameMap
  imports Access Search
begin

text \<open>
  The prison layout (\<open>src/internal/gamecore/map/layout.go\<close>): the builder that carves rooms and
  doors into a tile grid, the layout it produces, lookups, the two path searches and the
  initial map state. Coordinates and tile indices are \<open>int\<close> (they stay far from the 64-bit
  bounds); a write to a tile outside the grid panics in Go, so the builder's operations return an
  \<open>option\<close>. A Go map that is iterated is an association list in insertion order; every
  iteration in the source is followed by a sort. A \<open>Layout\<close> is built only by \<open>build\<close>, whose
  result always has width times height tiles (\<open>layout_ok\<close>); a tile read is in range there.
\<close>

section \<open>Data\<close>

datatype TileKind = TileWall | TileFloor | TileDoor

record Point =
  PX :: int
  PY :: int

abbreviation pt :: "int \<Rightarrow> int \<Rightarrow> Point" where
  "pt x y \<equiv> \<lparr>PX = x, PY = y\<rparr>"

record Tile =
  TileKind_of :: TileKind
  TileRoomID :: RoomID

definition Walkable :: "Tile \<Rightarrow> bool" where
  "Walkable t \<longleftrightarrow> TileKind_of t = TileFloor \<or> TileKind_of t = TileDoor"

record Room =
  Room_ID :: RoomID
  RoomName :: string
  RoomMin :: Point
  RoomMax :: Point
  IsCorridor :: bool

definition Contains :: "Room \<Rightarrow> Point \<Rightarrow> bool" where
  "Contains r point \<longleftrightarrow> PX point \<ge> PX (RoomMin r) \<and> PX point \<le> PX (RoomMax r) \<and>
     PY point \<ge> PY (RoomMin r) \<and> PY point \<le> PY (RoomMax r)"

record RestrictedZone =
  RestrictedZone_ID :: ZoneID
  RestrictedZoneName :: string
  RestrictedZoneRoomID :: RoomID

record DoorLink =
  DoorLink_ID :: DoorID
  DoorLinkRoomA :: RoomID
  DoorLinkRoomB :: RoomID
  DoorLinkPosition :: Point
  DoorLinkLocked :: bool

record Cell =
  Cell_ID :: CellID
  CellRoomID :: RoomID
  Cell_DoorID :: DoorID

record RoomAccessCheck =
  FromRoom :: RoomID
  ToRoom :: RoomID
  Reachable :: bool
  TargetRestricted :: bool
  RoomPath :: "RoomID list"

datatype MapError = ErrRoomNotFound | ErrNoTilePathFound

record Layout =
  width :: int
  height :: int
  tiles :: "Tile list"
  rooms :: "(RoomID \<times> Room) list"
  roomOrder :: "RoomID list"
  corridorRooms :: "RoomID list"
  doors :: "DoorLink list"
  doorByPoint :: "(Point \<times> DoorLink) list"
  cells :: "Cell list"
  restrictedZones :: "RestrictedZone list"
  restrictedByRoom :: "(RoomID \<times> RestrictedZone) list"
  roomGraph :: "(RoomID \<times> RoomID list) list"
  blackMarketRoom :: RoomID

section \<open>The builder\<close>

record layoutBuilder =
  b_width :: int
  b_height :: int
  b_tiles :: "Tile list"
  b_rooms :: "(RoomID \<times> Room) list"
  b_corridorRooms :: "RoomID list"
  b_doors :: "DoorLink list"
  b_cells :: "Cell list"
  b_restrictedByID :: "(ZoneID \<times> RestrictedZone) list"
  b_restrictedByRoom :: "(RoomID \<times> RestrictedZone) list"
  b_roomGraph :: "(RoomID \<times> RoomID list) list"
  b_blackMarketRoom :: RoomID

definition newLayoutBuilder :: "int \<Rightarrow> int \<Rightarrow> layoutBuilder" where
  "newLayoutBuilder w h =
     \<lparr>b_width = w, b_height = h,
      b_tiles = replicate (nat (w * h)) \<lparr>TileKind_of = TileWall, TileRoomID = NoRoom\<rparr>,
      b_rooms = [], b_corridorRooms = [], b_doors = [], b_cells = [], b_restrictedByID = [],
      b_restrictedByRoom = [], b_roomGraph = [], b_blackMarketRoom = NoRoom\<rparr>"

text \<open>\<open>b.tiles[index] = tile\<close> for each index of a list; \<open>None\<close> is the out-of-range panic.\<close>

fun write_tiles :: "Tile \<Rightarrow> int list \<Rightarrow> Tile list \<Rightarrow> Tile list option" where
  "write_tiles t [] ts = Some ts"
| "write_tiles t (index # rest) ts =
     (if 0 \<le> index \<and> index < int (length ts) then write_tiles t rest (ts[nat index := t]) else None)"

definition area_indices :: "int \<Rightarrow> int \<Rightarrow> int \<Rightarrow> int \<Rightarrow> int \<Rightarrow> int list" where
  "area_indices w minX minY maxX maxY =
     concat (map (\<lambda>y. map (\<lambda>x. y * w + x) [minX .. maxX]) [minY .. maxY])"

text \<open>\<open>if _, exists := graph[id]; !exists { graph[id] = {} }\<close>.\<close>

definition ensure_node :: "RoomID \<Rightarrow> (RoomID \<times> RoomID list) list \<Rightarrow> (RoomID \<times> RoomID list) list" where
  "ensure_node roomID graph =
     (if map_of graph roomID = None then AList.update roomID [] graph else graph)"

definition add_edge :: "RoomID \<Rightarrow> RoomID \<Rightarrow> (RoomID \<times> RoomID list) list \<Rightarrow> (RoomID \<times> RoomID list) list" where
  "add_edge a b graph =
     AList.update a (List.insert b (case map_of graph a of Some ns \<Rightarrow> ns | None \<Rightarrow> [])) graph"

definition carveRoom :: "RoomID \<Rightarrow> string \<Rightarrow> int \<Rightarrow> int \<Rightarrow> int \<Rightarrow> int \<Rightarrow> bool \<Rightarrow> layoutBuilder \<Rightarrow> layoutBuilder option" where
  "carveRoom roomID name minX minY maxX maxY isCorridor b =
     (let room = \<lparr>Room_ID = roomID, RoomName = name, RoomMin = pt minX minY, RoomMax = pt maxX maxY,
                  IsCorridor = isCorridor\<rparr>;
          b = b\<lparr>b_rooms := AList.update roomID room (b_rooms b)\<rparr>;
          b = (if isCorridor then b\<lparr>b_corridorRooms := List.insert roomID (b_corridorRooms b)\<rparr> else b);
          b = b\<lparr>b_roomGraph := ensure_node roomID (b_roomGraph b)\<rparr>
      in case write_tiles \<lparr>TileKind_of = TileFloor, TileRoomID = roomID\<rparr>
                (area_indices (b_width b) minX minY maxX maxY) (b_tiles b) of
           None \<Rightarrow> None
         | Some ts \<Rightarrow> Some (b\<lparr>b_tiles := ts\<rparr>))"

definition addDoor :: "DoorID \<Rightarrow> RoomID \<Rightarrow> RoomID \<Rightarrow> Point \<Rightarrow> bool \<Rightarrow> layoutBuilder \<Rightarrow> layoutBuilder option" where
  "addDoor doorID roomA roomB position locked b =
     (let assignedRoomID = (if roomB \<in> set (b_corridorRooms b) then roomB
                            else if roomA \<in> set (b_corridorRooms b) then roomA else roomA)
      in case write_tiles \<lparr>TileKind_of = TileDoor, TileRoomID = assignedRoomID\<rparr>
                [PY position * b_width b + PX position] (b_tiles b) of
           None \<Rightarrow> None
         | Some ts \<Rightarrow>
             let graph = ensure_node roomB (ensure_node roomA (b_roomGraph b));
                 graph = add_edge roomB roomA (add_edge roomA roomB graph)
             in Some (b\<lparr>b_tiles := ts,
                  b_doors := b_doors b @ [\<lparr>DoorLink_ID = doorID, DoorLinkRoomA = roomA,
                     DoorLinkRoomB = roomB, DoorLinkPosition = position, DoorLinkLocked = locked\<rparr>],
                  b_roomGraph := graph\<rparr>))"

definition addRestrictedZone :: "ZoneID \<Rightarrow> RoomID \<Rightarrow> string \<Rightarrow> layoutBuilder \<Rightarrow> layoutBuilder option" where
  "addRestrictedZone zoneID roomID name b =
     (let zone = \<lparr>RestrictedZone_ID = zoneID, RestrictedZoneName = name, RestrictedZoneRoomID = roomID\<rparr>
      in Some (b\<lparr>b_restrictedByID := AList.update zoneID zone (b_restrictedByID b),
                b_restrictedByRoom := AList.update roomID zone (b_restrictedByRoom b)\<rparr>))"

definition addCell :: "CellID \<Rightarrow> RoomID \<Rightarrow> DoorID \<Rightarrow> layoutBuilder \<Rightarrow> layoutBuilder option" where
  "addCell cellID roomID doorID b =
     Some (b\<lparr>b_cells := b_cells b @ [\<lparr>Cell_ID = cellID, CellRoomID = roomID, Cell_DoorID = doorID\<rparr>]\<rparr>)"

definition build :: "layoutBuilder \<Rightarrow> Layout" where
  "build b =
     (let order = sort (map fst (b_rooms b));
          ds = sort_key DoorLink_ID (b_doors b);
          byPoint = foldl (\<lambda>m door. AList.update (DoorLinkPosition door) door m) [] ds;
          cs = sort_key Cell_ID (b_cells b);
          restrictedIDs = sort (map fst (b_restrictedByID b));
          zones = map (\<lambda>zoneID. the (map_of (b_restrictedByID b) zoneID)) restrictedIDs;
          graph = map (\<lambda>(roomID, neighbors). (roomID, sort neighbors)) (b_roomGraph b)
      in \<lparr>width = b_width b, height = b_height b, tiles = b_tiles b, rooms = b_rooms b,
          roomOrder = order, corridorRooms = b_corridorRooms b, doors = ds, doorByPoint = byPoint,
          cells = cs, restrictedZones = zones, restrictedByRoom = b_restrictedByRoom b,
          roomGraph = graph, blackMarketRoom = b_blackMarketRoom b\<rparr>)"

text \<open>Builder calls in sequence; a panic ends the construction.\<close>

fun run_builder :: "(layoutBuilder \<Rightarrow> layoutBuilder option) list \<Rightarrow> layoutBuilder \<Rightarrow> layoutBuilder option" where
  "run_builder [] b = Some b"
| "run_builder (f # fs) b = (case f b of None \<Rightarrow> None | Some b' \<Rightarrow> run_builder fs b')"

definition DefaultPrisonLayout :: "Layout option" where
  "DefaultPrisonLayout =
     map_option (\<lambda>b. build (b\<lparr>b_blackMarketRoom := RoomBlackMarket\<rparr>))
       (run_builder
         [carveRoom RoomCorridorMain ''Main Corridor'' 1 19 74 24 True,
          carveRoom RoomWardenHQ ''Warden HQ'' 1 2 13 17 False,
          carveRoom RoomCameraRoom ''Camera Room'' 16 2 28 17 False,
          carveRoom RoomPowerRoom ''Power Room'' 31 2 43 17 False,
          carveRoom RoomAmmoRoom ''Ammunition Room'' 46 2 58 17 False,
          carveRoom RoomMailRoom ''Mail Room'' 61 2 73 17 False,
          carveRoom RoomCellBlockA ''Cell Block A'' 1 26 13 41 False,
          carveRoom RoomCafeteria ''Cafeteria'' 16 26 28 41 False,
          carveRoom RoomCourtyard ''Courtyard'' 31 26 43 41 False,
          carveRoom RoomBlackMarket ''Black Market'' 46 26 58 41 False,
          carveRoom RoomRoofLookout ''Roof Lookout'' 61 26 73 41 False,
          addDoor 1 RoomWardenHQ RoomCorridorMain (pt 7 18) False,
          addDoor 2 RoomCameraRoom RoomCorridorMain (pt 22 18) False,
          addDoor 3 RoomPowerRoom RoomCorridorMain (pt 37 18) False,
          addDoor 4 RoomAmmoRoom RoomCorridorMain (pt 52 18) False,
          addDoor 5 RoomMailRoom RoomCorridorMain (pt 67 18) False,
          addDoor 6 RoomCellBlockA RoomCorridorMain (pt 7 25) False,
          addDoor 7 RoomCafeteria RoomCorridorMain (pt 22 25) False,
          addDoor 8 RoomCourtyard RoomCorridorMain (pt 37 25) False,
          addDoor 9 RoomBlackMarket RoomCorridorMain (pt 52 25) False,
          addDoor 10 RoomRoofLookout RoomCorridorMain (pt 67 25) False,
          addRestrictedZone 1 RoomWardenHQ ''Warden HQ'',
          addRestrictedZone 2 RoomCameraRoom ''Camera Room'',
          addRestrictedZone 3 RoomAmmoRoom ''Ammunition Room'',
          addRestrictedZone 4 RoomPowerRoom ''Power Room'',
          addCell 1 RoomCellBlockA 201, addCell 2 RoomCellBlockA 202, addCell 3 RoomCellBlockA 203,
          addCell 4 RoomCellBlockA 204, addCell 5 RoomCellBlockA 205, addCell 6 RoomCellBlockA 206,
          addCell 7 RoomCellBlockA 207, addCell 8 RoomCellBlockA 208, addCell 9 RoomCellBlockA 209,
          addCell 10 RoomCellBlockA 210, addCell 11 RoomCellBlockA 211, addCell 12 RoomCellBlockA 212]
         (newLayoutBuilder 76 44))"

section \<open>Lookups\<close>

definition InBounds :: "Layout \<Rightarrow> Point \<Rightarrow> bool" where
  "InBounds l point \<longleftrightarrow> PX point \<ge> 0 \<and> PY point \<ge> 0 \<and> PX point < width l \<and> PY point < height l"

definition index :: "Layout \<Rightarrow> Point \<Rightarrow> int option" where
  "index l point = (if \<not> InBounds l point then None else Some (PY point * width l + PX point))"

definition pointForIndex :: "Layout \<Rightarrow> int \<Rightarrow> Point" where
  "pointForIndex l i = pt (i mod width l) (i div width l)"

definition TileAt :: "Layout \<Rightarrow> Point \<Rightarrow> Tile option" where
  "TileAt l point = (case index l point of None \<Rightarrow> None | Some i \<Rightarrow> Some (tiles l ! nat i))"

definition IsWalkable :: "Layout \<Rightarrow> Point \<Rightarrow> bool" where
  "IsWalkable l point = (case TileAt l point of None \<Rightarrow> False | Some tile \<Rightarrow> Walkable tile)"

definition RoomAt :: "Layout \<Rightarrow> Point \<Rightarrow> RoomID option" where
  "RoomAt l point =
     (case TileAt l point of
        None \<Rightarrow> None
      | Some tile \<Rightarrow> if TileRoomID tile = NoRoom then None else Some (TileRoomID tile))"

definition HasRoom :: "Layout \<Rightarrow> RoomID \<Rightarrow> bool" where
  "HasRoom l roomID \<longleftrightarrow> map_of (rooms l) roomID \<noteq> None"

definition Layout_Room :: "Layout \<Rightarrow> RoomID \<Rightarrow> Room option" where
  "Layout_Room l roomID = map_of (rooms l) roomID"

definition Rooms :: "Layout \<Rightarrow> Room list" where
  "Rooms l = map (\<lambda>roomID. the (map_of (rooms l) roomID)) (roomOrder l)"

definition IsCorridorRoom :: "Layout \<Rightarrow> RoomID \<Rightarrow> bool" where
  "IsCorridorRoom l roomID \<longleftrightarrow> roomID \<in> set (corridorRooms l)"

definition DoorLinkAt :: "Layout \<Rightarrow> Point \<Rightarrow> DoorLink option" where
  "DoorLinkAt l point = map_of (doorByPoint l) point"

definition IsRoomRestricted :: "Layout \<Rightarrow> RoomID \<Rightarrow> bool" where
  "IsRoomRestricted l roomID \<longleftrightarrow> map_of (restrictedByRoom l) roomID \<noteq> None"

section \<open>Path search\<close>

text \<open>\<open>l.roomGraph[current]\<close>; a missing key reads as nil.\<close>

definition room_neighbors :: "Layout \<Rightarrow> RoomID \<Rightarrow> RoomID list" where
  "room_neighbors l current = (case map_of (roomGraph l) current of Some ns \<Rightarrow> ns | None \<Rightarrow> [])"

definition FindRoomPath :: "Layout \<Rightarrow> RoomID \<Rightarrow> RoomID \<Rightarrow> RoomID list option option" where
  "FindRoomPath l fromRoom toRoom =
     (if \<not> HasRoom l fromRoom \<or> \<not> HasRoom l toRoom then Some None
      else if fromRoom = toRoom then Some (Some [fromRoom])
      else bfs_path NoRoom (room_neighbors l) fromRoom toRoom)"

definition AreRoomsConnected :: "Layout \<Rightarrow> RoomID \<Rightarrow> RoomID \<Rightarrow> bool option" where
  "AreRoomsConnected l fromRoom toRoom = map_option (\<lambda>r. r \<noteq> None) (FindRoomPath l fromRoom toRoom)"

definition CheckRoomAccess :: "Layout \<Rightarrow> RoomID \<Rightarrow> RoomID \<Rightarrow> (MapError + RoomAccessCheck) option" where
  "CheckRoomAccess l fromRoom toRoom =
     (if \<not> HasRoom l fromRoom \<or> \<not> HasRoom l toRoom then Some (Inl ErrRoomNotFound)
      else map_option (\<lambda>r. Inr \<lparr>FromRoom = fromRoom, ToRoom = toRoom, Reachable = (r \<noteq> None),
             TargetRestricted = IsRoomRestricted l toRoom,
             RoomPath = (case r of Some p \<Rightarrow> p | None \<Rightarrow> [])\<rparr>) (FindRoomPath l fromRoom toRoom))"

definition directions :: "Point list" where
  "directions = [pt 0 (- 1), pt (- 1) 0, pt 1 0, pt 0 1]"

text \<open>The neighbours of a tile index: in bounds and walkable, in the order of the directions.\<close>

definition tile_neighbors :: "Layout \<Rightarrow> int \<Rightarrow> int list" where
  "tile_neighbors l current =
     (let currentPoint = pointForIndex l current
      in List.map_filter (\<lambda>d.
           case index l (pt (PX currentPoint + PX d) (PY currentPoint + PY d)) of
             None \<Rightarrow> None
           | Some nextIndex \<Rightarrow> if Walkable (tiles l ! nat nextIndex) then Some nextIndex else None)
         directions)"

definition FindPath :: "Layout \<Rightarrow> Point \<Rightarrow> Point \<Rightarrow> (MapError + Point list) option" where
  "FindPath l start end1 =
     (case index l start of
        None \<Rightarrow> Some (Inl ErrNoTilePathFound)
      | Some startIndex \<Rightarrow>
          if \<not> Walkable (tiles l ! nat startIndex) then Some (Inl ErrNoTilePathFound)
          else case index l end1 of
                 None \<Rightarrow> Some (Inl ErrNoTilePathFound)
               | Some endIndex \<Rightarrow>
                   if \<not> Walkable (tiles l ! nat endIndex) then Some (Inl ErrNoTilePathFound)
                   else if startIndex = endIndex then Some (Inr [start])
                   else map_option (\<lambda>r. case r of
                            None \<Rightarrow> Inl ErrNoTilePathFound
                          | Some path \<Rightarrow> Inr (butlast (map (pointForIndex l) path) @ [end1]))
                          (bfs_path 0 (tile_neighbors l) startIndex endIndex))"

section \<open>Initial map state\<close>

text \<open>\<open>fmt.Sprintf("cell_a_%03d", id)\<close>: decimal, padded with zeros to three digits.\<close>

definition pad3 :: "nat \<Rightarrow> string" where
  "pad3 n = (let d = Itoa n in replicate (3 - length d) (CHR ''0'') @ d)"

definition cellInteriorRoomID :: "CellID \<Rightarrow> RoomID" where
  "cellInteriorRoomID cellID = RoomID (''cell_a_'' @ pad3 (unat cellID))"

definition ToMapState :: "Layout \<Rightarrow> MapState" where
  "ToMapState l =
     (let ds = map (\<lambda>door. \<lparr>DoorState_ID = DoorLink_ID door, RoomA = DoorLinkRoomA door,
                 RoomB = DoorLinkRoomB door, Open = True, Locked = DoorLinkLocked door,
                 CanClose = True, BlockedUntilTick = 0, LockedByPlayerID = PlayerID ''''\<rparr>) (doors l);
          ds = ds @ map (\<lambda>cell. \<lparr>DoorState_ID = Cell_DoorID cell, RoomA = RoomCellBlockA,
                 RoomB = cellInteriorRoomID (Cell_ID cell), Open = False, Locked = False,
                 CanClose = True, BlockedUntilTick = 0, LockedByPlayerID = PlayerID ''''\<rparr>) (cells l);
          cs = map (\<lambda>cell. \<lparr>CellState_ID = Cell_ID cell, OwnerPlayerID = PlayerID '''',
                 CellDoorID = Cell_DoorID cell, OccupantPlayerIDs = [], Stash = []\<rparr>) (cells l);
          zs = map (\<lambda>zone. \<lparr>ZoneState_ID = RestrictedZone_ID zone,
                 ZoneRoomID = RestrictedZoneRoomID zone, Restricted = True,
                 ZoneName = RestrictedZoneName zone\<rparr>) (restrictedZones l)
      in \<lparr>PowerOn = True, Alarm = inactive_alarm, BlackMarketRoomID = blackMarketRoom l,
          Doors = sort_key DoorState_ID ds, Cells = sort_key CellState_ID cs,
          RestrictedZones = sort_key ZoneState_ID zs\<rparr>)"

section \<open>Room paths\<close>

definition room_nodes :: "Layout \<Rightarrow> RoomID set" where
  "room_nodes l = fst ` set (rooms l) \<union> (\<Union>e \<in> set (roomGraph l). set (snd e))"

interpretation room_search: search_graph "room_neighbors l" "room_nodes l" for l :: Layout
proof
  show "finite (room_nodes l)" by (simp add: room_nodes_def)
  show "set (room_neighbors l v) \<subseteq> room_nodes l" if "v \<in> room_nodes l" for v
  proof (cases "map_of (roomGraph l) v")
    case (Some ns)
    from map_of_SomeD [OF this] have "set ns \<subseteq> room_nodes l" by (force simp: room_nodes_def)
    with Some show ?thesis by (simp add: room_neighbors_def)
  qed (simp add: room_neighbors_def)
qed

lemma HasRoom_node: "HasRoom l r \<Longrightarrow> r \<in> room_nodes l"
  by (auto simp: HasRoom_def room_nodes_def dest!: map_of_SomeD) force

section \<open>Tile paths\<close>

definition point_neighbors :: "Layout \<Rightarrow> Point \<Rightarrow> Point list" where
  "point_neighbors l p =
     filter (IsWalkable l) (map (\<lambda>d. pt (PX p + PX d) (PY p + PY d)) directions)"

definition point_index :: "Layout \<Rightarrow> Point \<Rightarrow> int" where
  "point_index l p = PY p * width l + PX p"

lemma index_eq: "index l p = (if InBounds l p then Some (point_index l p) else None)"
  by (simp add: index_def point_index_def)

lemma index_range:
  assumes "InBounds l p"
  shows "0 \<le> point_index l p" and "point_index l p < width l * height l"
proof -
  from assms have b: "0 \<le> PX p" "PX p < width l" "0 \<le> PY p" "PY p + 1 \<le> height l"
    by (auto simp: InBounds_def)
  show "0 \<le> point_index l p" using b by (simp add: point_index_def)
  have "(PY p + 1) * width l \<le> height l * width l" using b by (intro mult_right_mono) auto
  then show "point_index l p < width l * height l"
    using b by (simp add: point_index_def algebra_simps)
qed

lemma pointForIndex_index [simp]:
  assumes "InBounds l p"
  shows "pointForIndex l (point_index l p) = p"
proof -
  have "0 \<le> PX p" "PX p < width l" using assms by (auto simp: InBounds_def)
  then show ?thesis by (cases p) (simp add: pointForIndex_def point_index_def)
qed

lemma IsWalkable_iff:
  "IsWalkable l p \<longleftrightarrow> InBounds l p \<and> Walkable (tiles l ! nat (point_index l p))"
  by (simp add: IsWalkable_def TileAt_def index_eq)

lemma tile_neighbors_eq:
  "tile_neighbors l i = map (point_index l) (point_neighbors l (pointForIndex l i))"
  by (auto simp: tile_neighbors_def point_neighbors_def directions_def List.map_filter_def index_eq
      IsWalkable_iff Let_def)

lemma point_neighbors_bounds: "q \<in> set (point_neighbors l p) \<Longrightarrow> InBounds l q"
  by (auto simp: point_neighbors_def IsWalkable_iff)

interpretation tile_search: search_graph "tile_neighbors l" "{0 ..< width l * height l}" for l :: Layout
proof
  show "finite {0 ..< width l * height l}" by simp
  show "set (tile_neighbors l v) \<subseteq> {0 ..< width l * height l}" for v
    using index_range point_neighbors_bounds by (force simp: tile_neighbors_eq)
qed

text \<open>Walks over indices are walks over points.\<close>

lemma walk_to_points:
  "walk (tile_neighbors l) i xs j \<Longrightarrow> InBounds l p \<Longrightarrow> i = point_index l p \<Longrightarrow>
     walk (point_neighbors l) p (map (pointForIndex l) xs) (pointForIndex l j)"
proof (induction "tile_neighbors l" i xs j arbitrary: p rule: walk.induct)
  case (3 u x y xs v)
  then have u: "x = point_index l p" "y \<in> set (tile_neighbors l x)" "walk (tile_neighbors l) y (y # xs) v"
    by auto
  from u obtain q where q: "q \<in> set (point_neighbors l p)" "y = point_index l q"
    using 3(3) by (auto simp: tile_neighbors_eq)
  then have "walk (point_neighbors l) q (map (pointForIndex l) (y # xs)) (pointForIndex l v)"
    using 3(1) [OF u(3)] point_neighbors_bounds by blast
  moreover have "pointForIndex l y = q" using q point_neighbors_bounds by simp
  ultimately show ?case using u(1) q(1) 3(3) by simp
qed auto

lemma walk_to_indices:
  "walk (point_neighbors l) p ps q \<Longrightarrow> InBounds l p \<Longrightarrow>
     walk (tile_neighbors l) (point_index l p) (map (point_index l) ps) (point_index l q)"
proof (induction "point_neighbors l" p ps q rule: walk.induct)
  case (3 u x y xs v)
  then have y: "InBounds l y" using point_neighbors_bounds by auto
  then have "walk (tile_neighbors l) (point_index l y) (map (point_index l) (y # xs)) (point_index l v)"
    using 3 by auto
  moreover have "point_index l y \<in> set (tile_neighbors l (point_index l x))"
    using 3(2,3) by (auto simp: tile_neighbors_eq)
  ultimately show ?case using 3(2) by simp
qed auto

lemma walk_last: "walk nbrs u xs v \<Longrightarrow> xs \<noteq> [] \<and> last xs = v"
  by (induction nbrs u xs v rule: walk.induct) auto

lemma FindPath_search:
  assumes "IsWalkable l s" and "IsWalkable l e" and "s \<noteq> e"
  shows "\<exists>r. bfs_path 0 (tile_neighbors l) (point_index l s) (point_index l e) = Some r \<and>
    (case r of
       None \<Rightarrow> \<forall>ps. \<not> walk (point_neighbors l) s ps e
     | Some path \<Rightarrow> walk (point_neighbors l) s (butlast (map (pointForIndex l) path) @ [e]) e \<and>
         (\<forall>ps. walk (point_neighbors l) s ps e \<longrightarrow>
            length (butlast (map (pointForIndex l) path) @ [e]) \<le> length ps))"
proof -
  have b: "InBounds l s" "InBounds l e" using assms by (simp_all add: IsWalkable_iff)
  have ne: "point_index l s \<noteq> point_index l e" using assms(3) b pointForIndex_index by metis
  have "point_index l s \<in> {0 ..< width l * height l}" using index_range [OF b(1)] by simp
  from tile_search.path_correct [OF this ne, of 0] obtain r where
    r: "bfs_path 0 (tile_neighbors l) (point_index l s) (point_index l e) = Some r"
    and c: "case r of None \<Rightarrow> \<forall>xs. \<not> walk (tile_neighbors l) (point_index l s) xs (point_index l e)
      | Some path \<Rightarrow> walk (tile_neighbors l) (point_index l s) path (point_index l e) \<and>
          (\<forall>xs. walk (tile_neighbors l) (point_index l s) xs (point_index l e) \<longrightarrow> length path \<le> length xs)"
    by blast
  show ?thesis
  proof (cases r)
    case None
    then show ?thesis using r c walk_to_indices b by fastforce
  next
    case (Some path)
    with c have w: "walk (tile_neighbors l) (point_index l s) path (point_index l e)"
      and short: "\<And>xs. walk (tile_neighbors l) (point_index l s) xs (point_index l e) \<Longrightarrow> length path \<le> length xs"
      by auto
    have wp: "walk (point_neighbors l) s (map (pointForIndex l) path) e"
      using walk_to_points [OF w b(1) refl] b(2) by simp
    then have "butlast (map (pointForIndex l) path) @ [e] = map (pointForIndex l) path"
      using walk_last by (metis append_butlast_last_id)
    moreover have "length path \<le> length ps" if "walk (point_neighbors l) s ps e" for ps
      using short [OF walk_to_indices [OF that b(1)]] by simp
    ultimately show ?thesis using r Some wp by simp
  qed
qed

section \<open>The default layout\<close>

text \<open>Painting a list of tile indices over a tile function.\<close>

definition paint :: "Tile \<Rightarrow> int list \<Rightarrow> (nat \<Rightarrow> Tile) \<Rightarrow> nat \<Rightarrow> Tile" where
  "paint t is f = (\<lambda>k. if int k \<in> set is then t else f k)"

definition in_grid :: "int list \<Rightarrow> nat \<Rightarrow> bool" where
  "in_grid is n \<longleftrightarrow> (\<forall>i \<in> set is. 0 \<le> i \<and> i < int n)"

lemma write_tiles_paint:
  "in_grid is n \<Longrightarrow> write_tiles t is (map f [0 ..< n]) = Some (map (paint t is f) [0 ..< n])"
proof (induction "is" arbitrary: f)
  case (Cons i "is")
  have "0 \<le> i" "i < int n" using Cons.prems by (auto simp: in_grid_def)
  then have "(map f [0 ..< n])[nat i := t] = map (paint t [i] f) [0 ..< n]"
    by (intro nth_equalityI) (auto simp: paint_def nth_list_update)
  moreover have "paint t is (paint t [i] f) = paint t (i # is) f" by (auto simp: paint_def)
  moreover have "in_grid is n" using Cons.prems by (simp add: in_grid_def)
  ultimately show ?case
    using Cons.IH [of "paint t [i] f"] \<open>0 \<le> i\<close> \<open>i < int n\<close> by (simp del: map_upt_eqI)
qed (simp add: paint_def)

lemma area_set:
  "i \<in> set (area_indices w a b c d) \<longleftrightarrow> (\<exists>x y. a \<le> x \<and> x \<le> c \<and> b \<le> y \<and> y \<le> d \<and> i = y * w + x)"
proof
  assume "i \<in> set (area_indices w a b c d)"
  then obtain y where "b \<le> y" "y \<le> d" "a + y * w \<le> i" "i \<le> c + y * w"
    by (auto simp: area_indices_def)
  then show "\<exists>x y. a \<le> x \<and> x \<le> c \<and> b \<le> y \<and> y \<le> d \<and> i = y * w + x"
    by (intro exI [of _ "i - y * w"] exI [of _ y]) auto
qed (force simp: area_indices_def)

lemma area_in_grid:
  assumes "0 \<le> a" "0 \<le> b" "c < w" "(d + 1) * w \<le> int n"
  shows "in_grid (area_indices w a b c d) n"
proof -
  have "0 \<le> y * w + x \<and> y * w + x < int n" if "a \<le> x" "x \<le> c" "b \<le> y" "y \<le> d" for x y
  proof -
    have "0 \<le> w" using that assms by linarith
    then have "0 \<le> y * w" and "(y + 1) * w \<le> (d + 1) * w"
      using that assms by (auto intro: mult_right_mono)
    moreover have "(y + 1) * w = y * w + w" by (simp add: algebra_simps)
    ultimately show ?thesis using that assms by linarith
  qed
  then show ?thesis by (auto simp: in_grid_def area_set)
qed

lemma area_member:
  assumes "0 \<le> x" "x < w" "0 \<le> a" "c < w"
  shows "y * w + x \<in> set (area_indices w a b c d) \<longleftrightarrow> a \<le> x \<and> x \<le> c \<and> b \<le> y \<and> y \<le> d"
proof -
  have "x = x' \<and> y = y'" if "y * w + x = y' * w + x'" "0 \<le> x'" "x' < w" for x' y'
  proof -
    have "(y * w + x) mod w = x" "(y * w + x) div w = y" using assms by auto
    moreover have "(y' * w + x') mod w = x'" "(y' * w + x') div w = y'" using that by auto
    ultimately show ?thesis using that(1) by simp
  qed
  then show ?thesis
    unfolding area_set using assms by (metis order.trans order.strict_trans1)
qed

definition carve_meta :: "RoomID \<Rightarrow> string \<Rightarrow> int \<Rightarrow> int \<Rightarrow> int \<Rightarrow> int \<Rightarrow> bool \<Rightarrow> layoutBuilder \<Rightarrow> layoutBuilder" where
  "carve_meta roomID name minX minY maxX maxY isCorridor b =
     b\<lparr>b_rooms := AList.update roomID \<lparr>Room_ID = roomID, RoomName = name, RoomMin = pt minX minY,
          RoomMax = pt maxX maxY, IsCorridor = isCorridor\<rparr> (b_rooms b),
       b_corridorRooms := (if isCorridor then List.insert roomID (b_corridorRooms b) else b_corridorRooms b),
       b_roomGraph := ensure_node roomID (b_roomGraph b)\<rparr>"

lemma carve_step:
  assumes "b_tiles b = map f [0 ..< n]" and "in_grid (area_indices (b_width b) a e c d) n"
  shows "carveRoom r name a e c d cor b = Some ((carve_meta r name a e c d cor b)
    \<lparr>b_tiles := map (paint \<lparr>TileKind_of = TileFloor, TileRoomID = r\<rparr> (area_indices (b_width b) a e c d) f) [0 ..< n]\<rparr>)"
  using assms by (simp add: carveRoom_def carve_meta_def Let_def write_tiles_paint)

definition door_meta :: "DoorID \<Rightarrow> RoomID \<Rightarrow> RoomID \<Rightarrow> Point \<Rightarrow> bool \<Rightarrow> layoutBuilder \<Rightarrow> layoutBuilder" where
  "door_meta doorID roomA roomB position locked b =
     b\<lparr>b_doors := b_doors b @ [\<lparr>DoorLink_ID = doorID, DoorLinkRoomA = roomA, DoorLinkRoomB = roomB,
          DoorLinkPosition = position, DoorLinkLocked = locked\<rparr>],
       b_roomGraph := add_edge roomB roomA (add_edge roomA roomB
          (ensure_node roomB (ensure_node roomA (b_roomGraph b))))\<rparr>"

lemma door_step:
  assumes "b_tiles b = map f [0 ..< n]" and "in_grid [PY p * b_width b + PX p] n"
    and "roomB \<in> set (b_corridorRooms b)"
  shows "addDoor i roomA roomB p lk b = Some ((door_meta i roomA roomB p lk b)
    \<lparr>b_tiles := map (paint \<lparr>TileKind_of = TileDoor, TileRoomID = roomB\<rparr> [PY p * b_width b + PX p] f) [0 ..< n]\<rparr>)"
  using assms by (simp add: addDoor_def door_meta_def Let_def write_tiles_paint del: write_tiles.simps)

lemmas builder_steps = carve_step door_step addRestrictedZone_def addCell_def

definition default_tile :: "nat \<Rightarrow> Tile" where
  "default_tile =
     (let floor = (\<lambda>r. \<lparr>TileKind_of = TileFloor, TileRoomID = r\<rparr>);
          door = \<lparr>TileKind_of = TileDoor, TileRoomID = RoomCorridorMain\<rparr>
      in paint door [1967] (paint door [1952] (paint door [1937] (paint door [1922] (paint door [1907]
        (paint door [1435] (paint door [1420] (paint door [1405] (paint door [1390] (paint door [1375]
        (paint (floor RoomRoofLookout) (area_indices 76 61 26 73 41)
        (paint (floor RoomBlackMarket) (area_indices 76 46 26 58 41)
        (paint (floor RoomCourtyard) (area_indices 76 31 26 43 41)
        (paint (floor RoomCafeteria) (area_indices 76 16 26 28 41)
        (paint (floor RoomCellBlockA) (area_indices 76 1 26 13 41)
        (paint (floor RoomMailRoom) (area_indices 76 61 2 73 17)
        (paint (floor RoomAmmoRoom) (area_indices 76 46 2 58 17)
        (paint (floor RoomPowerRoom) (area_indices 76 31 2 43 17)
        (paint (floor RoomCameraRoom) (area_indices 76 16 2 28 17)
        (paint (floor RoomWardenHQ) (area_indices 76 1 2 13 17)
        (paint (floor RoomCorridorMain) (area_indices 76 1 19 74 24)
          (\<lambda>_. \<lparr>TileKind_of = TileWall, TileRoomID = NoRoom\<rparr>))))))))))))))))))))))"

lemma single_in_grid: "in_grid [i] n \<longleftrightarrow> 0 \<le> i \<and> i < int n"
  by (simp add: in_grid_def)

definition default_rooms :: "RoomID list" where
  "default_rooms = [RoomCorridorMain, RoomWardenHQ, RoomCameraRoom, RoomPowerRoom, RoomAmmoRoom,
     RoomMailRoom, RoomCellBlockA, RoomCafeteria, RoomCourtyard, RoomBlackMarket, RoomRoofLookout]"

definition default_graph :: "(RoomID \<times> RoomID list) list" where
  "default_graph = (RoomCorridorMain, [RoomAmmoRoom, RoomBlackMarket, RoomCafeteria, RoomCameraRoom,
      RoomCellBlockA, RoomCourtyard, RoomMailRoom, RoomPowerRoom, RoomRoofLookout, RoomWardenHQ]) #
     map (\<lambda>r. (r, [RoomCorridorMain])) (tl default_rooms)"

lemma default_layout_built:
  "\<exists>l. DefaultPrisonLayout = Some l \<and> width l = 76 \<and> height l = 44 \<and>
     tiles l = map default_tile [0 ..< 3344] \<and> map fst (rooms l) = default_rooms \<and>
     roomGraph l = default_graph \<and> map DoorLink_ID (doors l) = [1, 2, 3, 4, 5, 6, 7, 8, 9, 10] \<and>
     map Cell_ID (cells l) = [1, 2, 3, 4, 5, 6, 7, 8, 9, 10, 11, 12] \<and>
     map Cell_DoorID (cells l) = [201, 202, 203, 204, 205, 206, 207, 208, 209, 210, 211, 212] \<and>
     map RestrictedZone_ID (restrictedZones l) = [1, 2, 3, 4] \<and>
     map RestrictedZoneRoomID (restrictedZones l) = [RoomWardenHQ, RoomCameraRoom, RoomAmmoRoom, RoomPowerRoom]"
proof -
  have "b_tiles (newLayoutBuilder 76 44) =
      map (\<lambda>_. \<lparr>TileKind_of = TileWall, TileRoomID = NoRoom\<rparr>) [0 ..< 3344]"
    by (simp add: newLayoutBuilder_def map_replicate_const)
  then show ?thesis
    by (simp add: DefaultPrisonLayout_def builder_steps carve_meta_def door_meta_def area_in_grid
        single_in_grid newLayoutBuilder_def build_def Let_def default_tile_def default_rooms_def
        default_graph_def ensure_node_def add_edge_def less_eq_RoomID_def del: upt_Suc)
qed

text \<open>The plan of the prison: ten doors in two rows on the corridor, and eleven rooms. The
  tile at a point is the one of the first area that contains it, a wall when none does.\<close>

abbreviation door_at :: "int \<Rightarrow> int \<Rightarrow> Tile \<times> int \<times> int \<times> int \<times> int" where
  "door_at x y \<equiv> (\<lparr>TileKind_of = TileDoor, TileRoomID = RoomCorridorMain\<rparr>, x, y, x, y)"

abbreviation room_at :: "RoomID \<Rightarrow> int \<Rightarrow> int \<Rightarrow> int \<Rightarrow> int \<Rightarrow> Tile \<times> int \<times> int \<times> int \<times> int" where
  "room_at r a b c d \<equiv> (\<lparr>TileKind_of = TileFloor, TileRoomID = r\<rparr>, a, b, c, d)"

definition prison_plan :: "(Tile \<times> int \<times> int \<times> int \<times> int) list" where
  "prison_plan =
     [door_at 67 25, door_at 52 25, door_at 37 25, door_at 22 25, door_at 7 25, door_at 67 18,
      door_at 52 18, door_at 37 18, door_at 22 18, door_at 7 18,
      room_at RoomRoofLookout 61 26 73 41, room_at RoomBlackMarket 46 26 58 41,
      room_at RoomCourtyard 31 26 43 41, room_at RoomCafeteria 16 26 28 41,
      room_at RoomCellBlockA 1 26 13 41, room_at RoomMailRoom 61 2 73 17,
      room_at RoomAmmoRoom 46 2 58 17, room_at RoomPowerRoom 31 2 43 17,
      room_at RoomCameraRoom 16 2 28 17, room_at RoomWardenHQ 1 2 13 17,
      room_at RoomCorridorMain 1 19 74 24]"

fun first_area :: "(Tile \<times> int \<times> int \<times> int \<times> int) list \<Rightarrow> int \<Rightarrow> int \<Rightarrow> Tile" where
  "first_area [] x y = \<lparr>TileKind_of = TileWall, TileRoomID = NoRoom\<rparr>"
| "first_area ((t, a, b, c, d) # rest) x y =
     (if a \<le> x \<and> x \<le> c \<and> b \<le> y \<and> y \<le> d then t else first_area rest x y)"

definition planned_tile :: "Point \<Rightarrow> Tile" where
  "planned_tile p = first_area prison_plan (PX p) (PY p)"

lemma index_is: "0 \<le> x \<Longrightarrow> x < 76 \<Longrightarrow> y * 76 + x = c \<longleftrightarrow> x = c mod 76 \<and> y = c div (76 :: int)"
  by auto

lemma paint_point:
  assumes "0 \<le> x" "x < 76" "0 \<le> y"
  shows "paint t [c] f (nat (y * 76 + x)) = (if c mod 76 \<le> x \<and> x \<le> c mod 76 \<and> c div 76 \<le> y \<and> y \<le> c div 76
       then t else f (nat (y * 76 + x)))"
    and "0 \<le> a \<Longrightarrow> c < 76 \<Longrightarrow> paint t (area_indices 76 a b c d) f (nat (y * 76 + x)) =
      (if a \<le> x \<and> x \<le> c \<and> b \<le> y \<and> y \<le> d then t else f (nat (y * 76 + x)))"
proof -
  have i: "int (nat (y * 76 + x)) = y * 76 + x" using assms by simp
  show "paint t [c] f (nat (y * 76 + x)) = (if c mod 76 \<le> x \<and> x \<le> c mod 76 \<and> c div 76 \<le> y \<and> y \<le> c div 76
       then t else f (nat (y * 76 + x)))"
    unfolding paint_def i using index_is [OF assms(1,2), of y c] by (auto intro: antisym)
  show "0 \<le> a \<Longrightarrow> c < 76 \<Longrightarrow> paint t (area_indices 76 a b c d) f (nat (y * 76 + x)) =
      (if a \<le> x \<and> x \<le> c \<and> b \<le> y \<and> y \<le> d then t else f (nat (y * 76 + x)))"
    unfolding paint_def i using area_member [OF assms(1,2)] by simp
qed

lemma default_tile_planned:
  assumes "0 \<le> x" "x < 76" "0 \<le> y"
  shows "default_tile (nat (y * 76 + x)) = planned_tile (pt x y)"
  by (simp add: default_tile_def Let_def paint_point [OF assms] planned_tile_def prison_plan_def
      cong: if_cong split del: if_split)

lemma default_rooms_linked:
  assumes "roomGraph l = default_graph" "map fst (rooms l) = default_rooms" "HasRoom l a" "HasRoom l b" "a \<noteq> b"
  shows "\<exists>xs. walk (room_neighbors l) a xs b \<and> length xs \<le> 3"
proof -
  have mem: "r \<in> set default_rooms" if "HasRoom l r" for r
    using that assms(2) by (metis HasRoom_def map_of_eq_None_iff list.set_map)
  have spoke: "room_neighbors l r = [RoomCorridorMain]" if "r \<in> set default_rooms" "r \<noteq> RoomCorridorMain" for r
    using that assms(1) by (auto simp: room_neighbors_def default_graph_def default_rooms_def)
  have hub: "r \<in> set (room_neighbors l RoomCorridorMain)" if "r \<in> set default_rooms" "r \<noteq> RoomCorridorMain" for r
    using that assms(1) by (auto simp: room_neighbors_def default_graph_def default_rooms_def)
  consider "a = RoomCorridorMain" | "b = RoomCorridorMain" "a \<noteq> RoomCorridorMain"
    | "a \<noteq> RoomCorridorMain" "b \<noteq> RoomCorridorMain" by blast
  then show ?thesis
  proof cases
    case 1
    then show ?thesis using hub [OF mem [OF assms(4)]] assms(5) by (intro exI [of _ "[a, b]"]) auto
  next
    case 2
    then show ?thesis using spoke [OF mem [OF assms(3)]] by (intro exI [of _ "[a, b]"]) auto
  next
    case 3
    then show ?thesis using hub [OF mem [OF assms(4)]] spoke [OF mem [OF assms(3)]]
      by (intro exI [of _ "[a, RoomCorridorMain, b]"]) auto
  qed
qed

lemma default_TileAt:
  assumes "width l = 76" "height l = 44" "tiles l = map default_tile [0 ..< 3344]"
  shows "TileAt l p = (if InBounds l p then Some (planned_tile p) else None)"
proof (cases "InBounds l p")
  case True
  then have b: "0 \<le> PX p" "PX p < 76" "0 \<le> PY p" "nat (point_index l p) < 3344"
    using index_range [OF True] assms(1,2) by (auto simp: InBounds_def)
  then have "tiles l ! nat (point_index l p) = default_tile (nat (PY p * 76 + PX p))"
    by (simp add: assms(1,3) point_index_def)
  also have "\<dots> = planned_tile (pt (PX p) (PY p))" using b by (intro default_tile_planned) auto
  finally show ?thesis using True by (cases p) (simp add: TileAt_def index_eq)
qed (simp add: TileAt_def index_eq)

lemma default_room_path:
  assumes "roomGraph l = default_graph" "map fst (rooms l) = default_rooms" "HasRoom l a" "HasRoom l b"
  shows "\<exists>path. FindRoomPath l a b = Some (Some path) \<and> length path \<le> 3"
proof (cases "a = b")
  case True
  with assms show ?thesis by (simp add: FindRoomPath_def)
next
  case False
  with default_rooms_linked [OF assms] obtain xs where
    xs: "walk (room_neighbors l) a xs b" "length xs \<le> 3" by blast
  from assms(3,4) False room_search.path_correct [of a l b NoRoom] HasRoom_node obtain r where
    "FindRoomPath l a b = Some r" "case r of None \<Rightarrow> \<forall>xs. \<not> walk (room_neighbors l) a xs b
     | Some path \<Rightarrow> walk (room_neighbors l) a path b \<and>
         (\<forall>xs. walk (room_neighbors l) a xs b \<longrightarrow> length path \<le> length xs)"
    by (auto simp: FindRoomPath_def)
  with xs show ?thesis by (cases r) (auto intro: order.trans)
qed

lemma ToMapState_ids:
  "mset (map DoorState_ID (Doors (ToMapState l))) = mset (map DoorLink_ID (doors l) @ map Cell_DoorID (cells l))"
  "mset (map CellState_ID (Cells (ToMapState l))) = mset (map Cell_ID (cells l))"
  "mset (map ZoneState_ID (RestrictedZones (ToMapState l))) = mset (map RestrictedZone_ID (restrictedZones l))"
  by (simp_all add: ToMapState_def Let_def comp_def multiset.map_comp)

lemma distinct_length_mset:
  "mset (map f xs) = mset ys \<Longrightarrow> distinct ys \<Longrightarrow> length ys = n \<Longrightarrow> distinct (map f xs) \<and> length xs = n"
  by (metis length_map mset_eq_imp_distinct_iff mset_eq_length)

section \<open>Properties\<close>

text \<open>C36. Room search: between two rooms of any layout the search ends; it finds no path exactly
  when the door graph has none, and otherwise a path of doors with the fewest rooms.\<close>

theorem FindRoomPath_shortest:
  assumes "HasRoom l a" and "HasRoom l b"
  shows "\<exists>r. FindRoomPath l a b = Some r \<and>
    (case r of
       None \<Rightarrow> \<forall>xs. \<not> walk (room_neighbors l) a xs b
     | Some path \<Rightarrow> walk (room_neighbors l) a path b \<and>
         (\<forall>xs. walk (room_neighbors l) a xs b \<longrightarrow> length path \<le> length xs))"
proof (cases "a = b")
  case True
  have "1 \<le> length xs" if "walk (room_neighbors l) b xs b" for xs
    using walk_nonempty [OF that] by (cases xs) auto
  then show ?thesis using assms True by (auto simp: FindRoomPath_def)
next
  case False
  with assms room_search.path_correct [OF HasRoom_node [OF assms(1)] False, of NoRoom] show ?thesis
    by (simp add: FindRoomPath_def)
qed

text \<open>C19. Tile search: it ends on every layout and every pair of points. It fails exactly when an
  end is not walkable or no walk over walkable neighbouring tiles connects them; otherwise it
  returns such a walk, from the start to the end, with the fewest tiles.\<close>

theorem FindPath_shortest:
  "\<exists>r. FindPath l s e = Some r \<and>
    (case r of
       Inl err \<Rightarrow> err = ErrNoTilePathFound \<and>
         (IsWalkable l s \<and> IsWalkable l e \<longrightarrow> (\<forall>ps. \<not> walk (point_neighbors l) s ps e))
     | Inr path \<Rightarrow> IsWalkable l s \<and> IsWalkable l e \<and> walk (point_neighbors l) s path e \<and>
         (\<forall>ps. walk (point_neighbors l) s ps e \<longrightarrow> length path \<le> length ps))"
proof (cases "IsWalkable l s \<and> IsWalkable l e")
  case False
  then show ?thesis by (auto simp: FindPath_def index_eq IsWalkable_iff)
next
  case True
  then have u: "index l s = Some (point_index l s)" "index l e = Some (point_index l e)"
    "Walkable (tiles l ! nat (point_index l s))" "Walkable (tiles l ! nat (point_index l e))"
    by (auto simp: index_eq IsWalkable_iff)
  show ?thesis
  proof (cases "s = e")
    case eq: True
    have "1 \<le> length ps" if "walk (point_neighbors l) e ps e" for ps
      using walk_nonempty [OF that] by (cases ps) auto
    then show ?thesis using u eq True by (auto simp: FindPath_def)
  next
    case False
    have "point_index l s \<noteq> point_index l e"
      using True False pointForIndex_index by (metis IsWalkable_iff)
    then have "FindPath l s e = map_option (\<lambda>r. case r of None \<Rightarrow> Inl ErrNoTilePathFound
        | Some path \<Rightarrow> Inr (butlast (map (pointForIndex l) path) @ [e]))
        (bfs_path 0 (tile_neighbors l) (point_index l s) (point_index l e))"
      using u by (simp add: FindPath_def)
    moreover from FindPath_search [of l s e] True False obtain r where
      "bfs_path 0 (tile_neighbors l) (point_index l s) (point_index l e) = Some r"
      "case r of None \<Rightarrow> \<forall>ps. \<not> walk (point_neighbors l) s ps e
       | Some path \<Rightarrow> walk (point_neighbors l) s (butlast (map (pointForIndex l) path) @ [e]) e \<and>
           (\<forall>ps. walk (point_neighbors l) s ps e \<longrightarrow>
              length (butlast (map (pointForIndex l) path) @ [e]) \<le> length ps)" by blast
    ultimately show ?thesis using True by (cases r) auto
  qed
qed

definition mini_layout :: Layout where
  "mini_layout =
     build (case run_builder [carveRoom RoomCorridorMain ''Main Corridor'' 0 0 0 0 True,
         carveRoom RoomWardenHQ ''Warden HQ'' 2 0 2 0 False,
         addDoor 1 RoomWardenHQ RoomCorridorMain (pt 1 0) False] (newLayoutBuilder 3 1) of
       Some b \<Rightarrow> b | None \<Rightarrow> newLayoutBuilder 0 0)"

theorem FindRoomPath_shortest_witness:
  "\<exists>path. FindRoomPath mini_layout RoomCorridorMain RoomWardenHQ = Some (Some path) \<and> length path \<le> 2"
proof -
  have "HasRoom mini_layout RoomCorridorMain" "HasRoom mini_layout RoomWardenHQ" by code_simp+
  from FindRoomPath_shortest [OF this] obtain r where
    r: "FindRoomPath mini_layout RoomCorridorMain RoomWardenHQ = Some r"
    "case r of None \<Rightarrow> \<forall>xs. \<not> walk (room_neighbors mini_layout) RoomCorridorMain xs RoomWardenHQ
     | Some path \<Rightarrow> walk (room_neighbors mini_layout) RoomCorridorMain path RoomWardenHQ \<and>
         (\<forall>xs. walk (room_neighbors mini_layout) RoomCorridorMain xs RoomWardenHQ \<longrightarrow> length path \<le> length xs)"
    by blast
  have w: "walk (room_neighbors mini_layout) RoomCorridorMain [RoomCorridorMain, RoomWardenHQ] RoomWardenHQ"
    by code_simp
  show ?thesis
  proof (cases r)
    case None
    show ?thesis using r(2) w unfolding None option.case by blast
  next
    case (Some path)
    have "length path \<le> length [RoomCorridorMain, RoomWardenHQ]"
      using r(2) w unfolding Some option.case by blast
    then show ?thesis using r(1) Some by simp
  qed
qed

theorem FindPath_shortest_witness:
  "\<exists>path. FindPath mini_layout (pt 0 0) (pt 2 0) = Some (Inr path) \<and> length path \<le> 3"
proof -
  obtain r where r: "FindPath mini_layout (pt 0 0) (pt 2 0) = Some r"
    "case r of Inl err \<Rightarrow> err = ErrNoTilePathFound \<and> (IsWalkable mini_layout (pt 0 0) \<and>
        IsWalkable mini_layout (pt 2 0) \<longrightarrow> (\<forall>ps. \<not> walk (point_neighbors mini_layout) (pt 0 0) ps (pt 2 0)))
     | Inr path \<Rightarrow> IsWalkable mini_layout (pt 0 0) \<and> IsWalkable mini_layout (pt 2 0) \<and>
         walk (point_neighbors mini_layout) (pt 0 0) path (pt 2 0) \<and>
         (\<forall>ps. walk (point_neighbors mini_layout) (pt 0 0) ps (pt 2 0) \<longrightarrow> length path \<le> length ps)"
    using FindPath_shortest [of mini_layout "pt 0 0" "pt 2 0"] by blast
  have w: "IsWalkable mini_layout (pt 0 0)" "IsWalkable mini_layout (pt 2 0)"
    "walk (point_neighbors mini_layout) (pt 0 0) [pt 0 0, pt 1 0, pt 2 0] (pt 2 0)" by code_simp+
  show ?thesis
  proof (cases r)
    case (Inl err)
    show ?thesis using r(2) w unfolding Inl sum.case by blast
  next
    case (Inr path)
    have "length path \<le> length [pt 0 0, pt 1 0, pt 2 0]"
      using r(2) w unfolding Inr sum.case by blast
    then show ?thesis using r(1) Inr by simp
  qed
qed

text \<open>C20. The default prison is built without an out-of-range write, on a 76 by 44 grid of exactly
  that many tiles; every tile is the planned one (ten corridor doors, eleven rooms, walls
  elsewhere); any two rooms are connected by a path of at most three rooms; and its map state
  has 22 doors, 12 cells and 4 restricted zones, each with distinct identifiers.\<close>

theorem default_layout_planned:
  "\<exists>l. DefaultPrisonLayout = Some l \<and> width l = 76 \<and> height l = 44 \<and>
     int (length (tiles l)) = width l * height l \<and>
     (\<forall>p. TileAt l p = (if InBounds l p then Some (planned_tile p) else None)) \<and>
     (\<forall>a b. HasRoom l a \<and> HasRoom l b \<longrightarrow> (\<exists>path. FindRoomPath l a b = Some (Some path) \<and> length path \<le> 3)) \<and>
     length (Doors (ToMapState l)) = 22 \<and> distinct (map DoorState_ID (Doors (ToMapState l))) \<and>
     length (Cells (ToMapState l)) = 12 \<and> distinct (map CellState_ID (Cells (ToMapState l))) \<and>
     length (RestrictedZones (ToMapState l)) = 4 \<and>
     distinct (map ZoneState_ID (RestrictedZones (ToMapState l)))"
proof -
  obtain l where l: "DefaultPrisonLayout = Some l" "width l = 76" "height l = 44"
    "tiles l = map default_tile [0 ..< 3344]" "map fst (rooms l) = default_rooms" "roomGraph l = default_graph"
    "map DoorLink_ID (doors l) = [1, 2, 3, 4, 5, 6, 7, 8, 9, 10]"
    "map Cell_ID (cells l) = [1, 2, 3, 4, 5, 6, 7, 8, 9, 10, 11, 12]"
    "map Cell_DoorID (cells l) = [201, 202, 203, 204, 205, 206, 207, 208, 209, 210, 211, 212]"
    "map RestrictedZone_ID (restrictedZones l) = [1, 2, 3, 4]" using default_layout_built by (elim exE conjE)
  have "distinct (map DoorState_ID (Doors (ToMapState l))) \<and> length (Doors (ToMapState l)) = 22"
    by (rule distinct_length_mset [OF ToMapState_ids(1)]) (simp_all add: l(7,9) del: length_map)
  moreover have "distinct (map CellState_ID (Cells (ToMapState l))) \<and> length (Cells (ToMapState l)) = 12"
    by (rule distinct_length_mset [OF ToMapState_ids(2)]) (simp_all add: l(8) del: length_map)
  moreover have "distinct (map ZoneState_ID (RestrictedZones (ToMapState l))) \<and>
      length (RestrictedZones (ToMapState l)) = 4"
    by (rule distinct_length_mset [OF ToMapState_ids(3)]) (simp_all add: l(10) del: length_map)
  moreover note default_TileAt [OF l(2-4)] default_room_path [OF l(6,5)]
  ultimately show ?thesis using l(1-4) by (intro exI [of _ l]) simp
qed

theorem default_layout_planned_witness:
  "\<exists>l. DefaultPrisonLayout = Some l \<and>
     TileAt l (pt 7 18) = Some \<lparr>TileKind_of = TileDoor, TileRoomID = RoomCorridorMain\<rparr>"
proof -
  obtain l where l: "DefaultPrisonLayout = Some l" "width l = 76" "height l = 44"
    "\<forall>p. TileAt l p = (if InBounds l p then Some (planned_tile p) else None)"
    using default_layout_planned by (elim exE conjE)
  have "InBounds l (pt 7 18)" using l(2,3) by (simp add: InBounds_def)
  moreover have "planned_tile (pt 7 18) = \<lparr>TileKind_of = TileDoor, TileRoomID = RoomCorridorMain\<rparr>" by code_simp
  ultimately have "TileAt l (pt 7 18) = Some \<lparr>TileKind_of = TileDoor, TileRoomID = RoomCorridorMain\<rparr>"
    using l(4) by simp
  with l(1) show ?thesis by blast
qed

end
