(* ===== verification/Session.thy ===== *)
theory Session
  imports PhaseClock Determinism Combat Cards Escape
begin

text \<open>
  The server-side state of a match (\<open>src/internal/server/game\<close>: \<open>errors.go\<close>, \<open>config.go\<close>, the
  types of \<open>manager.go\<close> and \<open>replay.go\<close>).

  A Go map whose entries the code ranges over is an association list (with distinct keys, an
  invariant of the theories that use it); a map that is only read and written by key is a
  function to \<open>option\<close>. The fields of \<open>matchSession\<close> keep their names with the prefix \<open>s_\<close>,
  those of \<open>Manager\<close> with \<open>m_\<close>. An instant of time is an integer; the zero instant is 0. The
  mutex of the manager makes every exported method one atomic step, so a method is a function
  from manager to manager; reading the wall clock is an argument. The persistence store is an
  interface implemented elsewhere whose results are ignored: the calls made to it are recorded.
\<close>

section \<open>Errors (errors.go)\<close>

datatype GameError = ErrMatchNotFound | ErrMatchFull | ErrMatchNotJoinable
  | ErrPlayerAlreadyInMatch | ErrInvalidPlayerID | ErrInvalidPlayerName | ErrPlayerNotFound
  | ErrNotEnoughPlayers | ErrMatchAlreadyRunning | ErrMatchAlreadyEnded | ErrMatchNotRunning
  | ErrInvalidInputCommand | ErrInvalidInputPayload | ErrDuplicateInput | ErrInputRateLimited
  | ErrInputTooLateDropped | ErrInputPlayerMismatch

section \<open>Configuration (config.go)\<close>

record ServerConfig =
  MinPlayers :: uint8
  MaxPlayers :: uint8
  TickRateHz :: uint32
  DaySeconds :: uint16
  NightSeconds :: uint16
  ServerMaxCycles :: uint8
  MatchIDPrefix :: string

definition ServerDefaultConfig :: ServerConfig where
  "ServerDefaultConfig = \<lparr>MinPlayers = MinPlayersDefault, MaxPlayers = MaxPlayersDefault,
     TickRateHz = ServerTickRateHz, DaySeconds = DayPhaseDurationSeconds,
     NightSeconds = NightPhaseDurationSeconds, ServerMaxCycles = MaxDayNightCycles,
     MatchIDPrefix = ''match''\<rparr>"

definition server_normalized :: "ServerConfig \<Rightarrow> ServerConfig" where
  "server_normalized c =
     (let c = (if MinPlayers c = 0 then c\<lparr>MinPlayers := MinPlayersDefault\<rparr> else c);
          c = (if MaxPlayers c = 0 then c\<lparr>MaxPlayers := MaxPlayersDefault\<rparr> else c);
          c = (if MinPlayers c > MaxPlayers c then c\<lparr>MinPlayers := MaxPlayers c\<rparr> else c);
          c = (if TickRateHz c = 0 then c\<lparr>TickRateHz := ServerTickRateHz\<rparr> else c);
          c = (if DaySeconds c = 0 then c\<lparr>DaySeconds := DayPhaseDurationSeconds\<rparr> else c);
          c = (if NightSeconds c = 0 then c\<lparr>NightSeconds := NightPhaseDurationSeconds\<rparr> else c);
          c = (if ServerMaxCycles c = 0 then c\<lparr>ServerMaxCycles := MaxDayNightCycles\<rparr> else c);
          c = c\<lparr>MatchIDPrefix := TrimSpace (MatchIDPrefix c)\<rparr>
      in if MatchIDPrefix c = '''' then c\<lparr>MatchIDPrefix := ''match''\<rparr> else c)"

text \<open>\<open>time.Duration\<close> is a signed count of nanoseconds; both operands of the division are positive.\<close>

definition TickInterval :: "ServerConfig \<Rightarrow> int" where
  "TickInterval c =
     (let n = server_normalized c
      in if TickRateHz n = 0 then 1000000000
         else let interval = 1000000000 div uint (TickRateHz n)
              in if interval \<le> 0 then 1 else interval)"

definition phaseConfig :: "ServerConfig \<Rightarrow> Config" where
  "phaseConfig c =
     (let n = server_normalized c
      in \<lparr>DayDurationTicks = ucast (DaySeconds n) * ucast (TickRateHz n),
          NightDurationTicks = ucast (NightSeconds n) * ucast (TickRateHz n),
          MaxCycles = ServerMaxCycles n\<rparr>)"

section \<open>Payload decoding\<close>

text \<open>
  \<open>json.Unmarshal\<close> into each payload type, on a non-empty payload; \<open>None\<close> is a decoding error.
  The decoder is library code: the definitions that decode take it as an argument.
\<close>

record Decoders =
  decode_movement :: "string \<Rightarrow> MovementInputPayload option"
  decode_aim :: "string \<Rightarrow> AimInputPayload option"
  decode_interact :: "string \<Rightarrow> InteractPayload option"
  decode_ability :: "string \<Rightarrow> AbilityUsePayload option"
  decode_card :: "string \<Rightarrow> CardUsePayload option"
  decode_item :: "string \<Rightarrow> ItemUsePayload option"
  decode_purchase :: "string \<Rightarrow> BlackMarketPurchasePayload option"
  decode_fire :: "string \<Rightarrow> FireWeaponPayload option"
  decode_equip :: "string \<Rightarrow> EquipItemPayload option"
  decode_craft :: "string \<Rightarrow> CraftItemPayload option"
  decode_drop :: "string \<Rightarrow> DropItemPayload option"

section \<open>Sessions and the manager (manager.go, replay.go)\<close>

type_synonym Time = int

record PlayerSession =
  PS_PlayerID :: PlayerID
  PS_Name :: string
  JoinedAt :: Time

record ReplayEntry =
  AcceptedTick :: uint64
  ReplayIngressSeq :: uint64
  AcceptedAt :: Time
  Command :: InputCommand

record lockSnapDoorRestoreState =
  RestoreTick :: uint64
  RestoreLocked :: bool
  RestoreOpen :: bool

record npcPrisonerBribeState =
  BribeOfferItem :: ItemType
  BribeOfferCost :: uint8
  BribeStock :: uint8
  PayerID :: PlayerID
  PaidCards :: uint8

record dailyAbilityUsage =
  UsageDayStartTick :: uint64
  UseCount :: uint8

datatype npcTaskType = npcTaskNone | npcTaskVisitRoom | npcTaskHoldItem

record npcTaskState =
  TaskDayStartTick :: uint64
  TaskType :: npcTaskType
  TaskRoomID :: RoomID
  TaskItem :: ItemType
  RewardCards :: uint8
  AssignedBy :: EntityID

record matchSession =
  s_matchID :: MatchID
  s_status :: MatchStatus
  s_tickRateHz :: uint32
  s_createdAt :: Time
  s_startedAt :: "Time option"
  s_endedAt :: "Time option"
  s_endedReason :: string
  s_tickID :: uint64
  s_players :: "(PlayerID \<times> PlayerSession) list"
  s_nextIngressSeq :: uint64
  s_nextEntityID :: EntityID
  s_blackMarketGoldenBulletSold :: bool
  s_alarmUsedDayStartTick :: uint64
  s_scheduledInputs :: "uint64 \<rightharpoonup> InputCommand list"
  s_seenClientSeq :: "PlayerID \<rightharpoonup> uint64 set"
  s_acceptedByTick :: "uint64 \<rightharpoonup> (PlayerID \<rightharpoonup> uint8)"
  s_lastProcessedClientSeq :: "PlayerID \<rightharpoonup> uint64"
  s_guardEntityByRoom :: "RoomID \<rightharpoonup> EntityID"
  s_guardLastShotTick :: "PlayerID \<rightharpoonup> uint64"
  s_abilityCooldownUntil :: "PlayerID \<rightharpoonup> (AbilityType \<rightharpoonup> uint64)"
  s_abilityUsedDayStart :: "PlayerID \<rightharpoonup> (AbilityType \<rightharpoonup> uint64)"
  s_abilityDailyUsage :: "PlayerID \<rightharpoonup> (AbilityType \<rightharpoonup> dailyAbilityUsage)"
  s_prisonerUnlockedRooms :: "RoomID set"
  s_lockSnapDoorRestores :: "(DoorID \<times> lockSnapDoorRestoreState) list"
  s_npcPrisonerBribeState :: "EntityID \<rightharpoonup> npcPrisonerBribeState"
  s_npcTaskByPlayer :: "PlayerID \<rightharpoonup> npcTaskState"
  s_chameleonPendingUntil :: "PlayerID \<rightharpoonup> uint64"
  s_lastMoveIntentTick :: "PlayerID \<rightharpoonup> uint64"
  s_ammoRestockUntil :: "PlayerID \<rightharpoonup> uint64"
  s_projectileExpireTick :: "(EntityID \<times> uint64) list"
  s_replayEntries :: "ReplayEntry list"
  s_gameState :: GameState
  s_snapshotHistory :: "(uint64 \<times> Snapshot) list"
  s_loopCancel :: bool
  s_loopDone :: bool

text \<open>\<open>loopCancel\<close> and \<open>loopDone\<close> are kept as whether they are set.\<close>

datatype LifecycleEventType = LifecycleEventMatchCreated | LifecycleEventPlayerJoined
  | LifecycleEventMatchStarted | LifecycleEventTick | LifecycleEventMatchEnded
  | LifecycleEventShutdown

record LifecycleEvent =
  EventType :: LifecycleEventType
  EventMatchID :: MatchID
  EventPlayerID :: PlayerID
  EventTickID :: uint64
  EventAt :: Time
  EventNote :: string

datatype PersistenceCall = UpsertAccount PlayerID string Time | RecordMatch GameState Time

record Manager =
  m_config :: ServerConfig
  m_nextMatchSequence :: uint64
  m_matches :: "(MatchID \<times> matchSession) list"
  m_playerToMatch :: "PlayerID \<rightharpoonup> MatchID"
  m_events :: "LifecycleEvent list"
  m_persistence :: "PersistenceCall list option"

record MatchSnapshot =
  MS_MatchID :: MatchID
  MS_Status :: MatchStatus
  MS_CreatedAt :: Time
  MS_StartedAt :: "Time option"
  MS_EndedAt :: "Time option"
  MS_EndedReason :: string
  MS_TickID :: uint64
  MS_Players :: "PlayerSession list"

section \<open>Updating one match\<close>

text \<open>Writing a session back through its pointer in \<open>m.matches\<close>.\<close>

definition put_session :: "MatchID \<Rightarrow> matchSession \<Rightarrow> Manager \<Rightarrow> Manager" where
  "put_session mid s m = m\<lparr>m_matches := AList.update mid s (m_matches m)\<rparr>"

definition session_of :: "Manager \<Rightarrow> MatchID \<rightharpoonup> matchSession" where
  "session_of m = map_of (m_matches m)"

lemma session_of_put [simp]: "session_of (put_session mid s m) = (session_of m)(mid \<mapsto> s)"
  by (simp add: session_of_def put_session_def AList.update_conv')

lemma put_session_frame [simp]:
  "m_config (put_session mid s m) = m_config m"
  "m_nextMatchSequence (put_session mid s m) = m_nextMatchSequence m"
  "m_playerToMatch (put_session mid s m) = m_playerToMatch m"
  "m_events (put_session mid s m) = m_events m"
  "m_persistence (put_session mid s m) = m_persistence m"
  by (simp_all add: put_session_def)

lemma put_session_matches [simp]:
  "session_of m mid = Some s \<Longrightarrow> fst ` set (m_matches (put_session mid t m)) = fst ` set (m_matches m)"
  by (auto simp: put_session_def session_of_def update_conv' dom_map_of_conv_image_fst [symmetric])

section \<open>Configuration lemmas\<close>

lemma server_normalized_ok:
  "0 < MinPlayers (server_normalized c)"
  "MinPlayers (server_normalized c) \<le> MaxPlayers (server_normalized c)"
  "0 < TickRateHz (server_normalized c)" "0 < DaySeconds (server_normalized c)"
  "0 < NightSeconds (server_normalized c)" "0 < ServerMaxCycles (server_normalized c)"
  "MatchIDPrefix (server_normalized c) \<noteq> ''''"
  by (auto simp: server_normalized_def Let_def constant_defs word_neq_0_conv [symmetric] not_less)

end
