(* ===== verification/InputQueue.thy ===== *)
theory InputQueue
  imports Session
begin

text \<open>
  Command ingress of a running match (\<open>src/internal/server/game/input_queue.go\<close>), the replay log
  it writes (\<open>replay.go\<close>) and the part of the tick that takes the commands of the new tick
  (\<open>runMatchLoop\<close> of \<open>manager.go\<close>). \<open>SubmitInput\<close> is split where it takes the lock's session:
  \<open>submit_session\<close> is the rest of its body. The JSON decoder is an argument.

  The lemmas show that the replay log is a faithful record: in every interleaving of submissions
  and ticks, the commands delivered at a tick are the ones the log has for that tick, in ingress
  order, and the deterministic replayer schedules exactly these.
\<close>

section \<open>Payload validation\<close>

text \<open>\<open>strings.ToLower\<close> on ASCII letters and on the two other runes with an ASCII lower case
  (U+0130 and U+212A). Other runes stay outside ASCII, which is all that a comparison with an
  ASCII literal sees.\<close>

definition lower_char :: "char \<Rightarrow> char" where
  "lower_char c = (let k = of_char c :: nat in if 65 \<le> k \<and> k \<le> 90 then char_of (k + 32) else c)"

fun ToLower :: "string \<Rightarrow> string" where
  "ToLower [] = []"
| "ToLower (c # cs) =
     (if HasPrefix (c # cs) [CHR 0xC4, CHR 0xB0] then CHR ''i'' # ToLower (drop 1 cs)
      else if HasPrefix (c # cs) [CHR 0xE2, CHR 0x84, CHR 0xAA] then CHR ''k'' # ToLower (drop 2 cs)
      else lower_char c # ToLower cs)"

text \<open>The local closure \<open>decode\<close>.\<close>

definition decode_payload :: "(string \<Rightarrow> 'a option) \<Rightarrow> string \<Rightarrow> GameError + 'a" where
  "decode_payload unmarshal payload =
     (if length payload = 0 then Inl ErrInvalidInputPayload
      else case unmarshal payload of None \<Rightarrow> Inl ErrInvalidInputPayload | Some msg \<Rightarrow> Inr msg)"

text \<open>Decode, then test the message: nil or the first failing test's error.\<close>

definition check_payload :: "(string \<Rightarrow> 'a option) \<Rightarrow> string \<Rightarrow> ('a \<Rightarrow> bool) \<Rightarrow> GameError option" where
  "check_payload unmarshal payload ok =
     (case decode_payload unmarshal payload of
        Inl e \<Rightarrow> Some e
      | Inr msg \<Rightarrow> if ok msg then None else Some ErrInvalidInputPayload)"

definition validateAbilityUsePayload :: "AbilityUsePayload \<Rightarrow> bool" where
  "validateAbilityUsePayload payload \<longleftrightarrow> TrimSpace (AbilityType_str (Ability payload)) \<noteq> ''''"

definition validateCardUsePayload :: "CardUsePayload \<Rightarrow> bool" where
  "validateCardUsePayload payload =
     (if CardTargetItem payload \<noteq> NoItem \<and> \<not> IsKnownItem (CardTargetItem payload) then False
      else if Card payload = CardLockSnap \<or> Card payload = CardDoorStop
      then CardTargetDoorID payload \<noteq> 0
      else if Card payload = CardItemSteal \<or> Card payload = CardItemGrab
      then TrimSpace (PlayerID_str (CardTargetPlayerID payload)) \<noteq> ''''
      else True)"

definition interact_ok :: "InteractPayload \<Rightarrow> bool" where
  "interact_ok msg =
     (if EscapeRoute msg \<noteq> EscapeRouteType '''' \<and> \<not> IsKnownRoute (EscapeRoute msg) then False
      else if MarketRoomID msg \<noteq> RoomID '''' \<and> \<not> IsNightlyBlackMarketCandidate (MarketRoomID msg)
      then False
      else if NightCardChoice msg \<noteq> CardType '''' \<and> \<not> IsKnownCard (NightCardChoice msg) then False
      else if StashAction msg \<noteq> '''' then
        (let action = ToLower (TrimSpace (StashAction msg))
         in if action \<noteq> ''deposit'' \<and> action \<noteq> ''withdraw'' then False
            else \<not> (StashItem msg = NoItem \<or> \<not> IsKnownItem (StashItem msg)))
      else True)"

definition named_item_ok :: "(ItemType \<Rightarrow> bool) \<Rightarrow> ItemType \<Rightarrow> bool" where
  "named_item_ok ok item = (if TrimSpace (ItemType_str item) = '''' then False else ok item)"

definition validateInputPayload :: "Decoders \<Rightarrow> InputCommandType \<Rightarrow> string \<Rightarrow> GameError option" where
  "validateInputPayload dec commandType payload =
     (if commandType = CmdMoveIntent then check_payload (decode_movement dec) payload (\<lambda>_. True)
      else if commandType = CmdAimIntent then check_payload (decode_aim dec) payload (\<lambda>_. True)
      else if commandType = CmdInteract then check_payload (decode_interact dec) payload interact_ok
      else if commandType = CmdUseAbility then check_payload (decode_ability dec) payload
        (\<lambda>msg. if TrimSpace (AbilityType_str (Ability msg)) = '''' then False
               else if \<not> IsKnownAbility (Ability msg) then False
               else validateAbilityUsePayload msg)
      else if commandType = CmdUseCard then check_payload (decode_card dec) payload
        (\<lambda>msg. if TrimSpace (CardType_str (Card msg)) = '''' then False
               else if \<not> IsKnownCard (Card msg) then False
               else validateCardUsePayload msg)
      else if commandType = CmdUseItem
      then check_payload (decode_item dec) payload (\<lambda>msg. named_item_ok IsKnownItem (UseItem msg))
      else if commandType = CmdBlackMarketBuy
      then check_payload (decode_purchase dec) payload
             (\<lambda>msg. named_item_ok (\<lambda>i. BlackMarketOfferForItem i \<noteq> None) (PurchaseItem msg))
      else if commandType = CmdFireWeapon
      then check_payload (decode_fire dec) payload (\<lambda>msg. named_item_ok IsSupportedWeapon (Weapon msg))
      else if commandType = CmdEquipItem
      then check_payload (decode_equip dec) payload (\<lambda>msg. named_item_ok IsSupportedWeapon (EquipItem msg))
      else if commandType = CmdDropItem
      then check_payload (decode_drop dec) payload (\<lambda>msg. named_item_ok IsKnownItem (DropItem msg))
      else if commandType = CmdCraftItem
      then check_payload (decode_craft dec) payload
             (\<lambda>msg. named_item_ok (\<lambda>i. RecipeFor i \<noteq> None) (CraftItem msg))
      else if commandType = CmdReload then None
      else Some ErrInvalidInputCommand)"

definition isSupportedInputCommand :: "InputCommandType \<Rightarrow> bool" where
  "isSupportedInputCommand commandType \<longleftrightarrow> List.member
     [CmdMoveIntent, CmdAimIntent, CmdInteract, CmdUseAbility, CmdUseCard, CmdUseItem,
      CmdBlackMarketBuy, CmdFireWeapon, CmdEquipItem, CmdReload, CmdDropItem, CmdCraftItem]
     commandType"

definition isContinuousInput :: "InputCommandType \<Rightarrow> bool" where
  "isContinuousInput commandType \<longleftrightarrow> commandType = CmdMoveIntent \<or> commandType = CmdAimIntent"

section \<open>Submission\<close>

definition computeScheduledTick :: "uint64 \<Rightarrow> uint64 \<Rightarrow> InputCommandType \<Rightarrow> GameError + uint64" where
  "computeScheduledTick currentTick requestedTick commandType =
     (let earliest = currentTick + 1; latest = currentTick + 2
      in if requestedTick = 0 then Inr earliest
         else if requestedTick < currentTick
         then (if isContinuousInput commandType then Inr earliest else Inl ErrInputTooLateDropped)
         else if requestedTick < earliest then Inr earliest
         else if requestedTick > latest then Inr latest
         else Inr requestedTick)"

definition pruneRateWindows :: "matchSession \<Rightarrow> uint64 \<Rightarrow> matchSession" where
  "pruneRateWindows session currentTick =
     (if currentTick \<le> 3 then session
      else let cutoff = currentTick - 3
           in session\<lparr>s_acceptedByTick :=
                (\<lambda>tickID. if tickID < cutoff then None else s_acceptedByTick session tickID)\<rparr>)"

record InputSubmitResult =
  ResultMatchID :: MatchID
  ResultPlayerID :: PlayerID
  ResultClientSeq :: uint64
  ResultIngressSeq :: uint64
  ScheduledTick :: uint64

definition cloneInputCommand :: "InputCommand \<Rightarrow> InputCommand" where
  "cloneInputCommand c = c\<lparr>Payload := Payload c\<rparr>"

text \<open>A missing entry of a Go map reads as the zero value.\<close>

definition zero_if_none :: "'a::zero option \<Rightarrow> 'a" where
  "zero_if_none x = (case x of None \<Rightarrow> 0 | Some y \<Rightarrow> y)"

definition submit_session ::
  "Time \<Rightarrow> MatchID \<Rightarrow> PlayerID \<Rightarrow> InputCommand \<Rightarrow> matchSession \<Rightarrow>
   matchSession \<times> (GameError + InputSubmitResult)" where
  "submit_session now matchID playerID command session =
     (if s_status session \<noteq> MatchStatusRunning then (session, Inl ErrMatchNotRunning)
      else if map_of (s_players session) playerID = None then (session, Inl ErrInputPlayerMismatch)
      else
        let seenForPlayer = (case s_seenClientSeq session playerID of None \<Rightarrow> {} | Some seen \<Rightarrow> seen);
            session = session\<lparr>s_seenClientSeq := (s_seenClientSeq session)(playerID \<mapsto> seenForPlayer)\<rparr>
        in if ClientSeq command \<in> seenForPlayer then (session, Inl ErrDuplicateInput)
        else
        let currentTick = s_tickID session;
            windowCounters = (case s_acceptedByTick session currentTick of
               None \<Rightarrow> Map.empty | Some counters \<Rightarrow> counters);
            session = session\<lparr>s_acceptedByTick :=
               (s_acceptedByTick session)(currentTick \<mapsto> windowCounters)\<rparr>;
            used = zero_if_none (windowCounters playerID)
        in if used \<ge> MaxAcceptedCommandsPerPlayerPerTick then (session, Inl ErrInputRateLimited)
        else case computeScheduledTick currentTick (TargetTick command) (CmdType command) of
          Inl scheduleErr \<Rightarrow> (session, Inl scheduleErr)
        | Inr scheduledTick \<Rightarrow>
            let session = session\<lparr>s_nextIngressSeq := s_nextIngressSeq session + 1\<rparr>;
                command = command\<lparr>CmdPlayerID := playerID, IngressSeq := s_nextIngressSeq session,
                  TargetTick := scheduledTick\<rparr>;
                queued = (case s_scheduledInputs session scheduledTick of None \<Rightarrow> [] | Some cs \<Rightarrow> cs);
                session = session\<lparr>
                  s_scheduledInputs := (s_scheduledInputs session)(scheduledTick \<mapsto> queued @ [command]),
                  s_replayEntries := s_replayEntries session @
                    [\<lparr>AcceptedTick = scheduledTick, ReplayIngressSeq = IngressSeq command,
                      AcceptedAt = now, Command = cloneInputCommand command\<rparr>],
                  s_seenClientSeq := (s_seenClientSeq session)
                    (playerID \<mapsto> insert (ClientSeq command) seenForPlayer),
                  s_acceptedByTick := (s_acceptedByTick session)
                    (currentTick \<mapsto> windowCounters(playerID \<mapsto> used + 1))\<rparr>
            in (pruneRateWindows session currentTick,
                Inr \<lparr>ResultMatchID = matchID, ResultPlayerID = playerID,
                  ResultClientSeq = ClientSeq command, ResultIngressSeq = IngressSeq command,
                  ScheduledTick = scheduledTick\<rparr>))"

definition SubmitInput ::
  "Decoders \<Rightarrow> Time \<Rightarrow> Manager \<Rightarrow> MatchID \<Rightarrow> InputCommand \<Rightarrow>
   Manager \<times> (GameError + InputSubmitResult)" where
  "SubmitInput dec now m matchID command =
     (let playerID = PlayerID (TrimSpace (PlayerID_str (CmdPlayerID command)))
      in if playerID = PlayerID '''' \<or> ClientSeq command = 0 \<or> CmdType command = InputCommandType ''''
         then (m, Inl ErrInvalidInputCommand)
         else if \<not> isSupportedInputCommand (CmdType command) then (m, Inl ErrInvalidInputCommand)
         else case validateInputPayload dec (CmdType command) (Payload command) of
           Some err \<Rightarrow> (m, Inl err)
         | None \<Rightarrow>
             (case session_of m matchID of
                None \<Rightarrow> (m, Inl ErrMatchNotFound)
              | Some session \<Rightarrow>
                  (case submit_session now matchID playerID command session of (session', r) \<Rightarrow>
                     (put_session matchID session' m, r))))"

section \<open>Consumption\<close>

definition ConsumeScheduledInputs :: "Manager \<Rightarrow> MatchID \<Rightarrow> uint64 \<Rightarrow> Manager \<times> (GameError + InputCommand list)" where
  "ConsumeScheduledInputs m matchID tickID =
     (case session_of m matchID of
        None \<Rightarrow> (m, Inl ErrMatchNotFound)
      | Some session \<Rightarrow>
          let scheduled = (case s_scheduledInputs session tickID of None \<Rightarrow> [] | Some cs \<Rightarrow> cs)
          in (put_session matchID
                (session\<lparr>s_scheduledInputs := (s_scheduledInputs session)(tickID := None)\<rparr>) m,
              Inr (sortInputCommands scheduled)))"

definition PendingInputCounts :: "Manager \<Rightarrow> MatchID \<Rightarrow> GameError + (uint64 \<rightharpoonup> nat)" where
  "PendingInputCounts m matchID =
     (case session_of m matchID of
        None \<Rightarrow> Inl ErrMatchNotFound
      | Some session \<Rightarrow> Inr (\<lambda>tickID. map_option length (s_scheduledInputs session tickID)))"

text \<open>The start of a tick: count it, take and sort its commands.\<close>

definition begin_tick :: "matchSession \<Rightarrow> matchSession \<times> InputCommand list" where
  "begin_tick session =
     (let session = session\<lparr>s_tickID := s_tickID session + 1\<rparr>;
          session = session\<lparr>s_gameState := (s_gameState session)\<lparr>TickID := s_tickID session\<rparr>\<rparr>;
          commands = (case s_scheduledInputs session (s_tickID session) of None \<Rightarrow> [] | Some cs \<Rightarrow> cs)
      in (session\<lparr>s_scheduledInputs := (s_scheduledInputs session)(s_tickID session := None)\<rparr>,
          sortInputCommands commands))"

section \<open>The replay log (replay.go)\<close>

record MatchReplay =
  MR_MatchID :: MatchID
  MR_Status :: MatchStatus
  MR_TickRateHz :: uint32
  MR_CreatedAt :: Time
  MR_StartedAt :: "Time option"
  MR_EndedAt :: "Time option"
  MR_EndedReason :: string
  Entries :: "ReplayEntry list"

definition ReplayLog :: "Manager \<Rightarrow> MatchID \<Rightarrow> GameError + MatchReplay" where
  "ReplayLog m matchID =
     (case session_of m matchID of
        None \<Rightarrow> Inl ErrMatchNotFound
      | Some session \<Rightarrow>
          Inr \<lparr>MR_MatchID = s_matchID session, MR_Status = s_status session,
            MR_TickRateHz = s_tickRateHz session, MR_CreatedAt = s_createdAt session,
            MR_StartedAt = s_startedAt session, MR_EndedAt = s_endedAt session,
            MR_EndedReason = s_endedReason session,
            Entries = map (\<lambda>e. e\<lparr>Command := cloneInputCommand (Command e)\<rparr>) (s_replayEntries session)\<rparr>)"

section \<open>Views of the queue\<close>

definition pending :: "matchSession \<Rightarrow> uint64 \<Rightarrow> InputCommand list" where
  "pending s t = (case s_scheduledInputs s t of None \<Rightarrow> [] | Some cs \<Rightarrow> cs)"

definition seen_by :: "matchSession \<Rightarrow> PlayerID \<Rightarrow> uint64 set" where
  "seen_by s p = (case s_seenClientSeq s p of None \<Rightarrow> {} | Some seen \<Rightarrow> seen)"

text \<open>What a player has used of the current tick's budget.\<close>

definition used_by :: "matchSession \<Rightarrow> PlayerID \<Rightarrow> uint8" where
  "used_by s p = (case s_acceptedByTick s (s_tickID s) of None \<Rightarrow> 0 | Some c \<Rightarrow> zero_if_none (c p))"

definition log_at :: "matchSession \<Rightarrow> uint64 \<Rightarrow> InputCommand list" where
  "log_at s t = map Command (filter (\<lambda>e. AcceptedTick e = t) (s_replayEntries s))"

abbreviation known_player :: "matchSession \<Rightarrow> PlayerID \<Rightarrow> bool" where
  "known_player s p \<equiv> map_of (s_players s) p \<noteq> None"

text \<open>The part of a session that ingress reads or writes.\<close>

definition queue_view :: "matchSession \<Rightarrow> matchSession" where
  "queue_view s = s\<lparr>s_scheduledInputs := Map.empty, s_seenClientSeq := Map.empty,
     s_acceptedByTick := Map.empty, s_replayEntries := [], s_nextIngressSeq := 0\<rparr>"

lemmas view_defs = pending_def seen_by_def used_by_def zero_if_none_def

lemma cloneInputCommand_id [simp]: "cloneInputCommand c = c"
  by (simp add: cloneInputCommand_def)

lemma computeScheduledTick_bounds:
  assumes "computeScheduledTick cur rt ty = Inr t" and "unat cur + 2 < 2 ^ 64"
  shows "unat t = unat cur + 1 \<or> unat t = unat cur + 2"
proof -
  have 1: "unat (cur + 1) = unat cur + 1" and 2: "unat (cur + 2) = unat cur + 2"
    using assms(2) by (simp_all add: unat_word_ariths)
  from assms(1) consider "t = cur + 1" | "t = cur + 2" | "t = rt" "\<not> rt < cur + 1" "\<not> rt > cur + 2"
    by (auto simp: computeScheduledTick_def Let_def split: if_splits)
  then show ?thesis
  proof cases
    case 3
    then show ?thesis using 1 2 unfolding word_less_nat_alt by simp linarith
  qed (simp_all add: 1 2)
qed

lemma computeScheduledTick_late:
  "(\<exists>e. computeScheduledTick cur rt ty = Inl e) \<longleftrightarrow>
     rt \<noteq> 0 \<and> rt < cur \<and> ty \<noteq> CmdMoveIntent \<and> ty \<noteq> CmdAimIntent"
  by (auto simp: computeScheduledTick_def isContinuousInput_def Let_def)

text \<open>The command that is queued and logged for an accepted submission.\<close>

definition queued_command :: "matchSession \<Rightarrow> PlayerID \<Rightarrow> uint64 \<Rightarrow> InputCommand \<Rightarrow> InputCommand" where
  "queued_command s p t c = c\<lparr>CmdPlayerID := p, IngressSeq := s_nextIngressSeq s + 1, TargetTick := t\<rparr>"

definition accepts :: "matchSession \<Rightarrow> PlayerID \<Rightarrow> InputCommand \<Rightarrow> bool" where
  "accepts s p c \<longleftrightarrow> s_status s = MatchStatusRunning \<and> known_player s p \<and> ClientSeq c \<notin> seen_by s p \<and>
     used_by s p < 8 \<and>
     (TargetTick c = 0 \<or> s_tickID s \<le> TargetTick c \<or> CmdType c = CmdMoveIntent \<or> CmdType c = CmdAimIntent)"

lemma prune_view [simp]:
  "pending (pruneRateWindows s t) = pending s" "seen_by (pruneRateWindows s t) = seen_by s"
  "queue_view (pruneRateWindows s t) = queue_view s"
  "s_replayEntries (pruneRateWindows s t) = s_replayEntries s"
  "s_nextIngressSeq (pruneRateWindows s t) = s_nextIngressSeq s"
  "s_tickID (pruneRateWindows s t) = s_tickID s"
  by (auto simp: pruneRateWindows_def view_defs queue_view_def Let_def fun_eq_iff)

lemma prune_window:
  assumes "cur \<le> u"
  shows "s_acceptedByTick (pruneRateWindows s cur) u = s_acceptedByTick s u"
proof (cases "cur \<le> 3")
  case False
  then have "unat (cur - 3) \<le> unat cur" by (simp add: unat_sub not_le order_less_imp_le)
  with assms have "\<not> u < cur - 3" by (simp add: word_less_nat_alt word_le_nat_alt)
  then show ?thesis by (simp add: pruneRateWindows_def Let_def)
qed (simp add: pruneRateWindows_def)

lemma prune_used: "used_by (pruneRateWindows s (s_tickID s)) = used_by s"
  by (rule ext) (simp add: used_by_def prune_window)

lemma used_limit: "used_by s p < 8 \<longleftrightarrow> unat (used_by s p) < 8"
  by (simp add: word_less_nat_alt)

text \<open>An accepted submission, in terms of the views.\<close>

lemma submit_accepted:
  assumes "submit_session now mid p c s = (s', Inr res)"
  shows "accepts s p c \<and>
    (\<exists>t. computeScheduledTick (s_tickID s) (TargetTick c) (CmdType c) = Inr t \<and>
      res = \<lparr>ResultMatchID = mid, ResultPlayerID = p, ResultClientSeq = ClientSeq c,
        ResultIngressSeq = s_nextIngressSeq s + 1, ScheduledTick = t\<rparr> \<and>
      pending s' = (pending s)(t := pending s t @ [queued_command s p t c]) \<and>
      s_replayEntries s' = s_replayEntries s @ [\<lparr>AcceptedTick = t,
        ReplayIngressSeq = s_nextIngressSeq s + 1, AcceptedAt = now, Command = queued_command s p t c\<rparr>])"
    (is "?A \<and> (\<exists>t. ?B t)")
    and "queue_view s' = queue_view s" and "s_nextIngressSeq s' = s_nextIngressSeq s + 1"
    and "seen_by s' = (seen_by s)(p := insert (ClientSeq c) (seen_by s p))"
    and "used_by s' = (used_by s)(p := used_by s p + 1)"
    and "\<And>u. s_tickID s < u \<Longrightarrow> s_acceptedByTick s' u = s_acceptedByTick s u"
proof -
  let ?seen = "seen_by s p" let ?tick = "s_tickID s"
  let ?win = "case s_acceptedByTick s ?tick of None \<Rightarrow> Map.empty | Some counters \<Rightarrow> counters"
  have used: "used_by s = (\<lambda>p. zero_if_none (?win p))"
    by (auto simp: view_defs fun_eq_iff split: option.splits)
  from assms obtain t where run: "s_status s = MatchStatusRunning" and kp: "known_player s p"
    and fresh: "ClientSeq c \<notin> ?seen" and lim: "\<not> 8 \<le> used_by s p"
    and t: "computeScheduledTick ?tick (TargetTick c) (CmdType c) = Inr t"
    and s': "s' = pruneRateWindows (s\<lparr>s_nextIngressSeq := s_nextIngressSeq s + 1,
        s_scheduledInputs := (s_scheduledInputs s)(t \<mapsto> pending s t @ [queued_command s p t c]),
        s_replayEntries := s_replayEntries s @ [\<lparr>AcceptedTick = t,
          ReplayIngressSeq = s_nextIngressSeq s + 1, AcceptedAt = now, Command = queued_command s p t c\<rparr>],
        s_seenClientSeq := (s_seenClientSeq s)(p \<mapsto> insert (ClientSeq c) ?seen),
        s_acceptedByTick := (s_acceptedByTick s)(?tick \<mapsto> ?win(p \<mapsto> used_by s p + 1))\<rparr>) ?tick"
    and res: "res = \<lparr>ResultMatchID = mid, ResultPlayerID = p, ResultClientSeq = ClientSeq c,
        ResultIngressSeq = s_nextIngressSeq s + 1, ScheduledTick = t\<rparr>"
    unfolding submit_session_def Let_def seen_by_def [symmetric] used
    by (auto simp: pending_def queued_command_def MaxAcceptedCommandsPerPlayerPerTick_def
        split: if_splits sum.splits)
  have "TargetTick c = 0 \<or> ?tick \<le> TargetTick c \<or> CmdType c = CmdMoveIntent \<or> CmdType c = CmdAimIntent"
    using computeScheduledTick_late [of ?tick "TargetTick c" "CmdType c"] t by (simp add: not_less)
  then show "?A \<and> (\<exists>t. ?B t)"
    using run kp fresh lim t res
    by (auto simp: accepts_def s' not_le pending_def fun_eq_iff)
  show "queue_view s' = queue_view s" by (simp add: s') (simp add: queue_view_def)
  show "s_nextIngressSeq s' = s_nextIngressSeq s + 1" by (simp add: s')
  show "seen_by s' = (seen_by s)(p := insert (ClientSeq c) (seen_by s p))"
    by (simp add: s') (simp add: seen_by_def fun_eq_iff)
  show "used_by s' = (used_by s)(p := used_by s p + 1)"
    by (auto simp: s' used_by_def prune_window zero_if_none_def fun_eq_iff split: option.splits)
  show "s_acceptedByTick s' u = s_acceptedByTick s u" if "s_tickID s < u" for u
    using that by (auto simp: s' prune_window order_less_imp_le)
qed

text \<open>A rejected submission leaves no trace in the views.\<close>

lemma submit_rejected:
  assumes "submit_session now mid p c s = (s', Inl e)"
  shows "\<not> accepts s p c" and "queue_view s' = queue_view s" and "pending s' = pending s"
    and "s_replayEntries s' = s_replayEntries s" and "s_nextIngressSeq s' = s_nextIngressSeq s"
    and "seen_by s' = seen_by s" and "used_by s' = used_by s"
    and "\<And>u. s_tickID s < u \<Longrightarrow> s_acceptedByTick s' u = s_acceptedByTick s u"
proof -
  let ?tick = "s_tickID s"
  let ?win = "case s_acceptedByTick s ?tick of None \<Rightarrow> Map.empty | Some counters \<Rightarrow> counters"
  let ?s1 = "s\<lparr>s_seenClientSeq := (s_seenClientSeq s)(p \<mapsto> seen_by s p)\<rparr>"
  let ?s2 = "?s1\<lparr>s_acceptedByTick := (s_acceptedByTick s)(?tick \<mapsto> ?win)\<rparr>"
  have used: "used_by s = (\<lambda>p. zero_if_none (?win p))"
    by (auto simp: view_defs fun_eq_iff split: option.splits)
  have cases: "(s' = s \<or> s' = ?s1 \<or> s' = ?s2) \<and> \<not> accepts s p c"
  proof (cases "computeScheduledTick ?tick (TargetTick c) (CmdType c)")
    case (Inl err)
    then have "\<not> accepts s p c" using computeScheduledTick_late [of ?tick "TargetTick c" "CmdType c"]
      by (auto simp: accepts_def)
    with Inl assms show ?thesis
      unfolding submit_session_def Let_def seen_by_def [symmetric] used [symmetric]
      by (auto split: if_splits)
  next
    case (Inr t)
    with assms show ?thesis
      unfolding submit_session_def Let_def seen_by_def [symmetric] used
      by (auto simp: accepts_def MaxAcceptedCommandsPerPlayerPerTick_def used split: if_splits)
  qed
  then show "\<not> accepts s p c" ..
  have v: "seen_by ?s1 = seen_by s" "used_by ?s2 = used_by s"
    by (auto simp: view_defs fun_eq_iff split: option.splits)
  from cases show "queue_view s' = queue_view s" "pending s' = pending s"
    "s_replayEntries s' = s_replayEntries s" "s_nextIngressSeq s' = s_nextIngressSeq s"
    by (auto simp: queue_view_def pending_def fun_eq_iff)
  from cases v(1) show "seen_by s' = seen_by s" by (auto simp: seen_by_def fun_eq_iff)
  from cases v(2) show "used_by s' = used_by s" by (auto simp: used_by_def fun_eq_iff)
  show "s_acceptedByTick s' u = s_acceptedByTick s u" if "s_tickID s < u" for u
    using cases that by auto
qed

section \<open>Runs of a live session\<close>

text \<open>The log is a record of the queue: ingress numbers count up from one, no player and client
  sequence occurs twice, what has been seen is what has been logged, and the pending commands are
  the logged ones of the ticks to come.\<close>

definition log_ok :: "matchSession \<Rightarrow> bool" where
  "log_ok s \<longleftrightarrow>
     length (s_replayEntries s) < 2 ^ 64 \<and>
     s_nextIngressSeq s = of_nat (length (s_replayEntries s)) \<and>
     map ReplayIngressSeq (s_replayEntries s) = map (\<lambda>i. of_nat (Suc i)) [0 ..< length (s_replayEntries s)] \<and>
     (\<forall>e \<in> set (s_replayEntries s). IngressSeq (Command e) = ReplayIngressSeq e \<and>
        TargetTick (Command e) = AcceptedTick e \<and> 0 < unat (AcceptedTick e) \<and>
        unat (AcceptedTick e) \<le> unat (s_tickID s) + 2 \<and> known_player s (CmdPlayerID (Command e))) \<and>
     distinct (map (input_key \<circ> Command) (s_replayEntries s)) \<and>
     (\<forall>p. seen_by s p = ClientSeq ` Command ` {e \<in> set (s_replayEntries s). CmdPlayerID (Command e) = p}) \<and>
     (\<forall>t. pending s t = (if t \<le> s_tickID s then [] else log_at s t))"

text \<open>How many logged commands a player has at a tick, and the rate limit in these terms.\<close>

definition share :: "matchSession \<Rightarrow> PlayerID \<Rightarrow> nat \<Rightarrow> nat" where
  "share s p n = length (filter (\<lambda>e. CmdPlayerID (Command e) = p \<and> unat (AcceptedTick e) = n)
     (s_replayEntries s))"

definition rate_ok :: "matchSession \<Rightarrow> bool" where
  "rate_ok s \<longleftrightarrow>
     (\<forall>u. s_tickID s < u \<longrightarrow> s_acceptedByTick s u = None) \<and>
     (\<forall>p. unat (used_by s p) \<le> 8 \<and> share s p (unat (s_tickID s) + 2) \<le> unat (used_by s p) \<and>
        share s p (unat (s_tickID s) + 1) + share s p (unat (s_tickID s) + 2) \<le> 8 + unat (used_by s p) \<and>
        (\<forall>n \<le> unat (s_tickID s). share s p n \<le> 16))"

text \<open>A session at the start of its match.\<close>

definition fresh_queue :: "matchSession \<Rightarrow> bool" where
  "fresh_queue s \<longleftrightarrow> s_tickID s = 0 \<and> s_nextIngressSeq s = 0 \<and> s_scheduledInputs s = Map.empty \<and>
     s_seenClientSeq s = Map.empty \<and> s_acceptedByTick s = Map.empty \<and> s_replayEntries s = []"

text \<open>Runs: submissions and ticks in any order, with any changes to the rest of the session in
  between, and the list of the batches that the ticks delivered. The counters stay below the end
  of their range.\<close>

definition same_queue :: "matchSession \<Rightarrow> matchSession \<Rightarrow> bool" where
  "same_queue s s' \<longleftrightarrow> s_tickID s' = s_tickID s \<and> s_nextIngressSeq s' = s_nextIngressSeq s \<and>
     s_scheduledInputs s' = s_scheduledInputs s \<and> s_seenClientSeq s' = s_seenClientSeq s \<and>
     s_acceptedByTick s' = s_acceptedByTick s \<and> s_replayEntries s' = s_replayEntries s \<and>
     known_player s' = known_player s"

inductive live :: "matchSession \<Rightarrow> (uint64 \<times> InputCommand list) list \<Rightarrow> bool" where
  live_start: "fresh_queue s \<Longrightarrow> live s []"
| live_submit: "live s h \<Longrightarrow> submit_session now mid p c s = (s', r) \<Longrightarrow>
    unat (s_tickID s) + 3 < 2 ^ 64 \<Longrightarrow> Suc (length (s_replayEntries s)) < 2 ^ 64 \<Longrightarrow> live s' h"
| live_tick: "live s h \<Longrightarrow> begin_tick s = (s', cs) \<Longrightarrow>
    unat (s_tickID s) + 3 < 2 ^ 64 \<Longrightarrow> live s' (h @ [(s_tickID s', cs)])"
| live_other: "live s h \<Longrightarrow> same_queue s s' \<Longrightarrow> live s' h"

inductive_cases live_NilE: "live s []"

text \<open>Strictly increasing ingress numbers are sorted for the comparison of the tick.\<close>

lemma ranked_if_ingress: "sorted_wrt (<) (map IngressSeq cs) \<Longrightarrow> sorted (map cmd_rank cs)"
  by (induction cs) (auto simp: cmd_rank_def)

lemma log_ingress_sorted:
  assumes "log_ok s"
  shows "sorted_wrt (<) (map IngressSeq (map Command (s_replayEntries s)))"
proof -
  let ?R = "s_replayEntries s"
  have eq: "map IngressSeq (map Command ?R) = map (\<lambda>i. of_nat (Suc i) :: uint64) [0 ..< length ?R]"
    using assms by (simp add: log_ok_def comp_def cong: map_cong)
  have "of_nat (Suc i) < (of_nat (Suc j) :: uint64)" if "i < j" "j < length ?R" for i j
  proof -
    have "Suc j < 2 ^ LENGTH(64)" using that(2) assms by (simp add: log_ok_def)
    moreover from this that(1) have "Suc i < 2 ^ LENGTH(64)" by linarith
    ultimately show ?thesis using that(1) by (simp only: word_less_nat_alt unat_of_nat mod_less Suc_less_eq)
  qed
  then show ?thesis unfolding eq by (simp add: sorted_wrt_map sorted_wrt_iff_nth_less)
qed

lemma log_at_sorted: "log_ok s \<Longrightarrow> sortInputCommands (log_at s t) = log_at s t"
proof -
  assume "log_ok s"
  from log_ingress_sorted [OF this] have "sorted_wrt (<) (map IngressSeq (log_at s t))"
    by (simp add: log_at_def sorted_wrt_map sorted_wrt_filter)
  then show ?thesis
    by (simp add: sortInputCommands_def sort_key_id_if_sorted ranked_if_ingress)
qed

lemma same_queue_views:
  assumes "same_queue s s'"
  shows "log_ok s' = log_ok s" and "rate_ok s' = rate_ok s" and "log_at s' = log_at s"
proof -
  have v: "pending s' = pending s" "seen_by s' = seen_by s" "used_by s' = used_by s"
    "log_at s' = log_at s" "share s' = share s"
    using assms by (auto simp: same_queue_def view_defs log_at_def share_def fun_eq_iff)
  have q: "s_tickID s' = s_tickID s" "s_nextIngressSeq s' = s_nextIngressSeq s"
    "s_replayEntries s' = s_replayEntries s" "s_acceptedByTick s' = s_acceptedByTick s"
    "\<And>p. known_player s' p = known_player s p"
    using assms fun_cong [of "known_player s'" "known_player s"] unfolding same_queue_def by blast+
  show "log_ok s' = log_ok s" unfolding log_ok_def v q ..
  show "rate_ok s' = rate_ok s" unfolding rate_ok_def v q ..
  show "log_at s' = log_at s" by (rule v)
qed

lemma fresh_ok: "fresh_queue s \<Longrightarrow> log_ok s \<and> rate_ok s"
  by (simp add: fresh_queue_def log_ok_def rate_ok_def view_defs log_at_def share_def)

subsection \<open>A tick\<close>

lemma begin_tick_views:
  assumes "begin_tick s = (s', cs)" and "unat (s_tickID s) + 3 < 2 ^ 64"
  shows "unat (s_tickID s') = unat (s_tickID s) + 1"
    and "s_replayEntries s' = s_replayEntries s" and "s_nextIngressSeq s' = s_nextIngressSeq s"
    and "s_players s' = s_players s" and "seen_by s' = seen_by s"
    and "s_acceptedByTick s' = s_acceptedByTick s" and "log_at s' = log_at s" and "share s' = share s"
    and "pending s' = (pending s)(s_tickID s' := [])"
    and "cs = sortInputCommands (pending s (s_tickID s'))"
    and "s_status s' = s_status s"
  using assms
  by (auto simp: begin_tick_def Let_def view_defs log_at_def share_def fun_eq_iff unat_word_ariths)

lemma tick_log_ok:
  assumes "begin_tick s = (s', cs)" and "unat (s_tickID s) + 3 < 2 ^ 64" and "log_ok s"
  shows "log_ok s'" and "cs = log_at s' (s_tickID s')"
proof -
  note v = begin_tick_views [OF assms(1,2)]
  have later: "t \<le> s_tickID s' \<longleftrightarrow> t \<le> s_tickID s \<or> t = s_tickID s'" for t
    using v(1) by (auto simp: word_le_nat_alt word_unat_eq_iff)
  show "log_ok s'" using assms(3) later unfolding log_ok_def v(2-9) v(1) by fastforce
  have "\<not> s_tickID s' \<le> s_tickID s" using v(1) by (simp add: word_le_nat_alt)
  then show "cs = log_at s' (s_tickID s')"
    using assms(3) log_at_sorted [OF assms(3)] unfolding v(10) v(7) by (simp add: log_ok_def)
qed

lemma tick_rate_ok:
  assumes "begin_tick s = (s', cs)" and "unat (s_tickID s) + 3 < 2 ^ 64" and "log_ok s" and "rate_ok s"
  shows "rate_ok s'"
proof -
  note v = begin_tick_views [OF assms(1,2)]
  have lt: "s_tickID s < s_tickID s'" using v(1) by (simp add: word_less_nat_alt)
  then have none: "s_acceptedByTick s u = None" if "s_tickID s' \<le> u" for u
    using assms(4) that unfolding rate_ok_def by (meson order_less_le_trans)
  then have used: "used_by s' p = 0" for p by (simp add: used_by_def v(6))
  have far: "share s p (unat (s_tickID s) + 3) = 0" for p
    using assms(3) by (auto simp: share_def log_ok_def filter_empty_conv)
  have "share s p n \<le> 16" if "n \<le> unat (s_tickID s')" for p n
  proof (cases "n \<le> unat (s_tickID s)")
    case False
    with that v(1) have "n = unat (s_tickID s) + 1" by simp
    moreover have "share s p (unat (s_tickID s) + 1) + share s p (unat (s_tickID s) + 2) \<le> 8 + unat (used_by s p)"
      "unat (used_by s p) \<le> 8" using assms(4) unfolding rate_ok_def by blast+
    ultimately show ?thesis by simp
  qed (use assms(4) in \<open>simp add: rate_ok_def\<close>)
  moreover have "share s p (unat (s_tickID s) + 2) \<le> 8" for p
    using assms(4) unfolding rate_ok_def by (meson order_trans)
  ultimately show ?thesis
    unfolding rate_ok_def v(6,8) using none far by (auto simp: v(1) used eval_nat_numeral)
qed

subsection \<open>A submission\<close>

lemma queue_view_fields:
  "queue_view s' = queue_view s \<Longrightarrow> s_tickID s' = s_tickID s \<and> s_players s' = s_players s \<and>
     s_status s' = s_status s"
  by (drule_tac f = "\<lambda>s. (s_tickID s, s_players s, s_status s)" in arg_cong) (simp add: queue_view_def)

lemma rejected_ok:
  assumes "submit_session now mid p c s = (s', Inl e)"
  shows "log_ok s' = log_ok s" and "rate_ok s' = rate_ok s" and "log_at s' = log_at s"
proof -
  note v = submit_rejected [OF assms]
  note f = queue_view_fields [OF v(2)]
  have sh: "share s' = share s" and lg: "log_at s' = log_at s"
    by (simp_all add: share_def log_at_def fun_eq_iff v(4))
  from f have f': "s_tickID s' = s_tickID s" "s_players s' = s_players s" by simp_all
  show "log_ok s' = log_ok s" unfolding log_ok_def v(3-7) f' lg ..
  show "rate_ok s' = rate_ok s" using v(8) unfolding rate_ok_def v(3-7) f' sh by simp
  show "log_at s' = log_at s" by (rule lg)
qed

lemma unseen_new:
  assumes "log_ok s" and "ClientSeq c \<notin> seen_by s p"
  shows "(p, ClientSeq c) \<notin> set (map (input_key \<circ> Command) (s_replayEntries s))"
proof
  assume "(p, ClientSeq c) \<in> set (map (input_key \<circ> Command) (s_replayEntries s))"
  then have "ClientSeq c \<in> seen_by s p" using assms(1) unfolding log_ok_def by (force simp: input_key_def)
  with assms(2) show False by simp
qed

lemma seen_append:
  assumes "log_ok s"
  shows "ClientSeq ` Command ` {e \<in> set (s_replayEntries s @ [x]). CmdPlayerID (Command e) = q} =
    (if CmdPlayerID (Command x) = q then insert (ClientSeq (Command x)) (seen_by s q) else seen_by s q)"
proof -
  have "seen_by s q = ClientSeq ` Command ` {e \<in> set (s_replayEntries s). CmdPlayerID (Command e) = q}"
    using assms unfolding log_ok_def by blast
  moreover have "{e \<in> set (R @ [x]). P e} = (if P x then insert x {e \<in> set R. P e} else {e \<in> set R. P e})"
    for R P by auto
  ultimately show ?thesis by simp
qed

lemma accepted_log_ok:
  assumes sub: "submit_session now mid p c s = (s', Inr res)" and ok: "log_ok s"
    and tick: "unat (s_tickID s) + 3 < 2 ^ 64" and len: "Suc (length (s_replayEntries s)) < 2 ^ 64"
  shows "log_ok s'"
proof -
  note v = submit_accepted [OF sub]
  from v(1) obtain t where acc: "accepts s p c"
    and t: "computeScheduledTick (s_tickID s) (TargetTick c) (CmdType c) = Inr t"
    and pend: "pending s' = (pending s)(t := pending s t @ [queued_command s p t c])"
    and rep: "s_replayEntries s' = s_replayEntries s @ [\<lparr>AcceptedTick = t,
        ReplayIngressSeq = s_nextIngressSeq s + 1, AcceptedAt = now, Command = queued_command s p t c\<rparr>]"
    by blast
  from queue_view_fields [OF v(2)] have f: "s_tickID s' = s_tickID s" "s_players s' = s_players s" by simp_all
  have t12: "unat t = unat (s_tickID s) + 1 \<or> unat t = unat (s_tickID s) + 2"
    using computeScheduledTick_bounds [OF t] tick by simp
  then have later: "\<not> t \<le> s_tickID s" by (auto simp: word_le_nat_alt)
  let ?R = "s_replayEntries s"
  have new: "(p, ClientSeq c) \<notin> set (map (input_key \<circ> Command) ?R)"
    by (rule unseen_new [OF ok]) (use acc in \<open>simp add: accepts_def\<close>)
  have "map ReplayIngressSeq (s_replayEntries s') = map (\<lambda>i. of_nat (Suc i)) [0 ..< length (s_replayEntries s')]"
    "s_nextIngressSeq s' = of_nat (length (s_replayEntries s'))" "length (s_replayEntries s') < 2 ^ 64"
    using ok len unfolding log_ok_def rep v(3) by (simp_all add: add.commute)
  moreover have "distinct (map (input_key \<circ> Command) (s_replayEntries s'))"
    using ok new unfolding log_ok_def rep by (simp add: input_key_def queued_command_def)
  moreover have "\<forall>q. seen_by s' q = ClientSeq ` Command ` {e \<in> set (s_replayEntries s'). CmdPlayerID (Command e) = q}"
    unfolding rep v(4) using seen_append [OF ok] by (auto simp: queued_command_def)
  moreover have "\<forall>u. pending s' u = (if u \<le> s_tickID s' then [] else log_at s' u)"
    using ok later unfolding log_ok_def pend f by (simp add: log_at_def rep)
  moreover have "\<forall>e \<in> set (s_replayEntries s'). IngressSeq (Command e) = ReplayIngressSeq e \<and>
        TargetTick (Command e) = AcceptedTick e \<and> 0 < unat (AcceptedTick e) \<and>
        unat (AcceptedTick e) \<le> unat (s_tickID s') + 2 \<and> known_player s' (CmdPlayerID (Command e))"
    using ok t12 acc unfolding log_ok_def rep f by (auto simp: queued_command_def accepts_def)
  ultimately show ?thesis unfolding log_ok_def by blast
qed

lemma accepted_rate_ok:
  assumes sub: "submit_session now mid p c s = (s', Inr res)" and ok: "rate_ok s"
    and tick: "unat (s_tickID s) + 3 < 2 ^ 64"
  shows "rate_ok s'"
proof -
  note v = submit_accepted [OF sub]
  from v(1) obtain t where acc: "accepts s p c"
    and t: "computeScheduledTick (s_tickID s) (TargetTick c) (CmdType c) = Inr t"
    and rep: "s_replayEntries s' = s_replayEntries s @ [\<lparr>AcceptedTick = t,
        ReplayIngressSeq = s_nextIngressSeq s + 1, AcceptedAt = now, Command = queued_command s p t c\<rparr>]"
    by blast
  from queue_view_fields [OF v(2)] have f: "s_tickID s' = s_tickID s" by simp
  have t12: "unat t = unat (s_tickID s) + 1 \<or> unat t = unat (s_tickID s) + 2"
    using computeScheduledTick_bounds [OF t] tick by simp
  have sh: "share s' q n = share s q n + (if q = p \<and> n = unat t then 1 else 0)" for q n
    by (simp add: share_def rep queued_command_def)
  have lt: "unat (used_by s p) < 8" using acc by (simp add: accepts_def used_limit)
  then have "unat (used_by s p + 1) = unat (used_by s p) + 1" by (simp add: unat_word_ariths)
  then have used: "unat (used_by s' q) = unat (used_by s q) + (if q = p then 1 else 0)" for q
    by (simp add: v(5))
  have "unat (used_by s' q) \<le> 8 \<and> share s' q (unat (s_tickID s) + 2) \<le> unat (used_by s' q) \<and>
      share s' q (unat (s_tickID s) + 1) + share s' q (unat (s_tickID s) + 2) \<le> 8 + unat (used_by s' q) \<and>
      (\<forall>n \<le> unat (s_tickID s). share s' q n \<le> 16)" for q
  proof -
    have "unat (used_by s q) \<le> 8 \<and> share s q (unat (s_tickID s) + 2) \<le> unat (used_by s q) \<and>
        share s q (unat (s_tickID s) + 1) + share s q (unat (s_tickID s) + 2) \<le> 8 + unat (used_by s q)"
      and old: "\<forall>n \<le> unat (s_tickID s). share s q n \<le> 16" using ok unfolding rate_ok_def by blast+
    moreover have "\<forall>n \<le> unat (s_tickID s). share s' q n \<le> 16" using old t12 by (simp add: sh) linarith
    ultimately show ?thesis using t12 lt unfolding sh used by (cases "q = p") (elim disjE; simp)+
  qed
  moreover have "\<forall>u. s_tickID s < u \<longrightarrow> s_acceptedByTick s' u = None" using ok v(6) by (simp add: rate_ok_def)
  ultimately show ?thesis unfolding rate_ok_def f by blast
qed

lemma live_ok: "live s h \<Longrightarrow> log_ok s \<and> rate_ok s"
proof (induction rule: live.induct)
  case (live_submit s h now mid p c s' r)
  then show ?case
    using rejected_ok [of now mid p c s s'] accepted_log_ok [of now mid p c s s']
      accepted_rate_ok [of now mid p c s s']
    by (cases r) auto
next
  case (live_tick s h s' cs)
  then show ?case using tick_log_ok(1) tick_rate_ok by blast
qed (simp_all add: fresh_ok same_queue_views)

text \<open>The log of a delivered tick does not change any more.\<close>

lemma delivered_in_past: "live s h \<Longrightarrow> (t, cs) \<in> set h \<Longrightarrow> t \<le> s_tickID s"
proof (induction arbitrary: t cs rule: live.induct)
  case (live_submit s h now mid p c s' r)
  then have "s_tickID s' = s_tickID s"
    using queue_view_fields [OF submit_rejected(2)] queue_view_fields [OF submit_accepted(2)]
    by (cases r) blast+
  with live_submit show ?case by simp
next
  case (live_tick s h s' cs')
  then have "s_tickID s \<le> s_tickID s'" using begin_tick_views(1) [OF live_tick(2,3)]
    by (simp add: word_le_nat_alt)
  with live_tick show ?case by fastforce
qed (simp_all add: same_queue_def)

lemma delivered_logged: "live s h \<Longrightarrow> (t, cs) \<in> set h \<Longrightarrow> cs = log_at s t"
proof (induction arbitrary: t cs rule: live.induct)
  case (live_submit s h now mid p c s' r)
  show ?case
  proof (cases r)
    case (Inl e)
    with live_submit show ?thesis using rejected_ok(3) by metis
  next
    case (Inr res)
    with live_submit obtain u where "computeScheduledTick (s_tickID s) (TargetTick c) (CmdType c) = Inr u"
      and rep: "s_replayEntries s' = s_replayEntries s @ [\<lparr>AcceptedTick = u,
        ReplayIngressSeq = s_nextIngressSeq s + 1, AcceptedAt = now, Command = queued_command s p u c\<rparr>]"
      using submit_accepted(1) by blast
    with live_submit(3) have "unat (s_tickID s) < unat u"
      using computeScheduledTick_bounds [of "s_tickID s"] by fastforce
    moreover have "t \<le> s_tickID s" by (rule delivered_in_past [OF live_submit(1,6)])
    ultimately have "u \<noteq> t" by (auto simp: word_le_nat_alt)
    then have "log_at s' t = log_at s t" by (simp add: log_at_def rep)
    with live_submit show ?thesis by simp
  qed
next
  case (live_tick s h s' cs')
  show ?case
  proof (cases "(t, cs) \<in> set h")
    case True
    with live_tick show ?thesis using begin_tick_views(7) by metis
  next
    case False
    with live_tick show ?thesis
      using tick_log_ok(2) [OF live_tick(2,3)] live_ok by auto
  qed
next
  case (live_other s h s')
  then show ?case using same_queue_views(3) by metis
qed simp

lemma dedup_distinct:
  "distinct (map input_key cs) \<Longrightarrow> input_key ` set cs \<inter> set seen = {} \<Longrightarrow> dedup_loop cs seen [] = cs"
  by (induction cs arbitrary: seen) (auto simp: dedup_loop_Cons)

text \<open>The replayer schedules the log of a live session as the session did.\<close>

lemma replay_schedules_log:
  assumes "log_ok s" and "t \<le> endTick"
  shows "sortInputCommands (scheduleByTick (normalizeInputLog (map Command (s_replayEntries s))) 1 endTick t) =
    log_at s t"
proof -
  let ?C = "map Command (s_replayEntries s)"
  have "sortInputCommands ?C = ?C"
    using ranked_if_ingress [OF log_ingress_sorted [OF assms(1)]]
    by (simp add: sortInputCommands_def sort_key_id_if_sorted del: map_map)
  moreover have "distinct (map input_key ?C)" using assms(1) by (simp add: log_ok_def)
  ultimately have norm: "normalizeInputLog ?C = ?C"
    by (simp add: normalizeInputLog_eq dedup_distinct del: map_map)
  have "schedule_tick 1 (Command e) = AcceptedTick e \<and> TargetTick (Command e) = AcceptedTick e"
    if "e \<in> set (s_replayEntries s)" for e
  proof -
    from that assms(1) have "TargetTick (Command e) = AcceptedTick e" "0 < unat (AcceptedTick e)"
      unfolding log_ok_def by blast+
    then show ?thesis by (simp add: schedule_tick_max max_def word_le_nat_alt Suc_le_eq)
  qed
  then have "scheduleByTick ?C 1 endTick t = log_at s t"
    unfolding scheduleByTick_eq [OF assms(2)] log_at_def
    by (auto simp: filter_map comp_def intro!: map_cong filter_cong)
  then show ?thesis unfolding norm by (simp add: log_at_sorted [OF assms(1)])
qed

text \<open>The batches of a run are the log's share of the ticks one to now, in order.\<close>

lemma history_ticks: "live s h \<Longrightarrow> map (unat \<circ> fst) h = [1 ..< Suc (unat (s_tickID s))]"
proof (induction rule: live.induct)
  case (live_submit s h now mid p c s' r)
  then have "s_tickID s' = s_tickID s"
    using queue_view_fields [OF submit_rejected(2)] queue_view_fields [OF submit_accepted(2)]
    by (cases r) blast+
  with live_submit show ?case by simp
next
  case (live_tick s h s' cs)
  then show ?case using begin_tick_views(1) [OF live_tick(2,3)] by simp
qed (simp_all add: fresh_queue_def same_queue_def)

definition log_upto :: "matchSession \<Rightarrow> nat \<Rightarrow> InputCommand list" where
  "log_upto s n = map Command (filter (\<lambda>e. unat (AcceptedTick e) \<le> n) (s_replayEntries s))"

lemma log_upto_Suc:
  assumes "unat t = Suc n"
  shows "mset (log_upto s (Suc n)) = mset (log_upto s n) + mset (log_at s t)"
proof -
  have "mset (filter (\<lambda>e. unat (AcceptedTick e) \<le> Suc n) R) =
      mset (filter (\<lambda>e. unat (AcceptedTick e) \<le> n) R) + mset (filter (\<lambda>e. AcceptedTick e = t) R)" for R
    using assms by (induction R) (auto simp: le_Suc_eq word_unat_eq_iff)
  from this [of "s_replayEntries s"] show ?thesis
    unfolding log_upto_def log_at_def mset_map image_mset_union [symmetric] by (rule arg_cong)
qed

lemma history_exactly_once: "live s h \<Longrightarrow> mset (concat (map snd h)) = mset (log_upto s (unat (s_tickID s)))"
proof -
  assume l: "live s h"
  have logged: "\<forall>b \<in> set h. snd b = log_at s (fst b)" using delivered_logged [OF l] by auto
  have zero: "log_upto s 0 = []"
    using live_ok [OF l] by (auto simp: log_upto_def log_ok_def filter_empty_conv)
  have "mset (concat (map snd g)) = mset (log_upto s n)"
    if "map (unat \<circ> fst) g = [1 ..< Suc n]" "\<forall>b \<in> set g. snd b = log_at s (fst b)" for g n
    using that
  proof (induction n arbitrary: g)
    case (Suc n)
    then obtain g' b where g: "g = g' @ [b]" by (cases g rule: rev_cases) auto
    have "[1 ..< Suc (Suc n)] = [1 ..< Suc n] @ [Suc n]" by simp
    with Suc.prems(1) g have a: "map (unat \<circ> fst) g' = [1 ..< Suc n]" and b: "unat (fst b) = Suc n"
      by (simp_all only: map_append list.map append1_eq_conv comp_def)
    have "mset (concat (map snd g')) = mset (log_upto s n)"
      by (rule Suc.IH [OF a]) (use Suc.prems(2) g in simp)
    with Suc.prems(2) g show ?case using log_upto_Suc [OF b, of s] by simp
  qed (simp add: zero)
  from this [OF history_ticks [OF l] logged] show ?thesis .
qed

section \<open>Properties\<close>

text \<open>C23. The replay log of a match is faithful: in every run, the batch that a tick delivered to
  the simulation is exactly what the deterministic replayer schedules for that tick from the log,
  for any end tick not before it; and it is the log's share of that tick.\<close>

theorem replay_log_faithful:
  assumes "live s h" and "(t, cs) \<in> set h" and "t \<le> endTick"
  shows "sortInputCommands (scheduleByTick (normalizeInputLog (map Command (s_replayEntries s))) 1 endTick t) = cs \<and>
    cs = log_at s t"
  using replay_schedules_log [OF _ assms(3)] delivered_logged [OF assms(1,2)] live_ok [OF assms(1)] by simp

text \<open>C22. Delivery is exactly once and bounded: in every run the delivered batches together are,
  up to order, the logged commands of the ticks so far; no player and client sequence is delivered
  twice; and at one tick a player has at most 16 commands, twice the limit of a rate window.\<close>

theorem delivery_exactly_once:
  assumes "live s h"
  shows "mset (concat (map snd h)) = mset (log_upto s (unat (s_tickID s))) \<and>
    distinct (map input_key (concat (map snd h))) \<and>
    (\<forall>t cs p. (t, cs) \<in> set h \<longrightarrow> length (filter (\<lambda>c. CmdPlayerID c = p) cs) \<le> 16)"
proof (intro conjI allI impI)
  note ok = live_ok [OF assms]
  show m: "mset (concat (map snd h)) = mset (log_upto s (unat (s_tickID s)))"
    by (rule history_exactly_once [OF assms])
  have "distinct (map input_key (log_upto s n))" for n
    using ok by (simp add: log_ok_def log_upto_def distinct_map inj_on_def comp_def)
  moreover have "mset (map input_key (concat (map snd h))) = mset (map input_key (log_upto s (unat (s_tickID s))))"
    using m by (metis mset_map)
  ultimately show "distinct (map input_key (concat (map snd h)))"
    by (metis mset_eq_imp_distinct_iff)
  fix t cs p assume b: "(t, cs) \<in> set h"
  have "share s p (unat t) \<le> 16"
    using ok delivered_in_past [OF assms b] by (auto simp: rate_ok_def word_le_nat_alt)
  moreover have "share s p (unat t) = length (filter (\<lambda>c. CmdPlayerID c = p) (log_at s t))"
    by (simp add: share_def log_at_def filter_map comp_def conj_commute word_unat_eq_iff)
  ultimately show "length (filter (\<lambda>c. CmdPlayerID c = p) cs) \<le> 16"
    using delivered_logged [OF assms b] by simp
qed

text \<open>Two sessions with the same ingress state.\<close>

definition same_inputs :: "matchSession \<Rightarrow> matchSession \<Rightarrow> bool" where
  "same_inputs s s' \<longleftrightarrow> queue_view s' = queue_view s \<and> pending s' = pending s \<and>
     s_replayEntries s' = s_replayEntries s \<and> s_nextIngressSeq s' = s_nextIngressSeq s \<and>
     seen_by s' = seen_by s \<and> used_by s' = used_by s"

text \<open>C24. Submission on every branch: a command is accepted exactly when it names a player, has a
  sequence number, a supported type and a valid payload, the match runs, the player is in it, the
  sequence number is new, the player has budget left in this tick, and the command is not late
  (unless it is a movement or aim). Accepted, it is queued and logged once, with the next ingress
  number and the reported tick; rejected, every match keeps its ingress state.\<close>

theorem SubmitInput_exact:
  "case SubmitInput dec now m mid c of (m', r) \<Rightarrow>
     let p = PlayerID (TrimSpace (PlayerID_str (CmdPlayerID c))) in
     ((\<exists>res. r = Inr res) \<longleftrightarrow>
        p \<noteq> PlayerID '''' \<and> ClientSeq c \<noteq> 0 \<and> isSupportedInputCommand (CmdType c) \<and>
        validateInputPayload dec (CmdType c) (Payload c) = None \<and>
        (\<exists>s. session_of m mid = Some s \<and> accepts s p c)) \<and>
     (case r of
        Inl e \<Rightarrow> (\<forall>k. rel_option same_inputs (session_of m k) (session_of m' k))
      | Inr res \<Rightarrow> (\<exists>s s'. session_of m mid = Some s \<and> session_of m' = (session_of m)(mid \<mapsto> s') \<and>
          ResultIngressSeq res = s_nextIngressSeq s + 1 \<and> s_nextIngressSeq s' = s_nextIngressSeq s + 1 \<and>
          pending s' = (pending s)(ScheduledTick res := pending s (ScheduledTick res) @
            [queued_command s p (ScheduledTick res) c]) \<and>
          s_replayEntries s' = s_replayEntries s @ [\<lparr>AcceptedTick = ScheduledTick res,
            ReplayIngressSeq = ResultIngressSeq res, AcceptedAt = now,
            Command = queued_command s p (ScheduledTick res) c\<rparr>]))"
proof -
  let ?p = "PlayerID (TrimSpace (PlayerID_str (CmdPlayerID c)))"
  have refl: "rel_option same_inputs x x" for x by (cases x) (simp_all add: same_inputs_def)
  have sup: "\<not> isSupportedInputCommand (InputCommandType '''')" by code_simp
  show ?thesis
  proof (cases "?p \<noteq> PlayerID '''' \<and> ClientSeq c \<noteq> 0 \<and> isSupportedInputCommand (CmdType c) \<and>
      validateInputPayload dec (CmdType c) (Payload c) = None \<and> session_of m mid \<noteq> None")
    case False
    then show ?thesis by (auto simp: SubmitInput_def Let_def refl split: option.splits)
  next
    case True
    then obtain s where s: "session_of m mid = Some s" by blast
    obtain s' r where sub: "submit_session now mid ?p c s = (s', r)" by fastforce
    have eq: "SubmitInput dec now m mid c = (put_session mid s' m, r)"
      using True s sup sub unfolding SubmitInput_def Let_def by auto
    show ?thesis
    proof (cases r)
      case (Inl e)
      note v = submit_rejected [OF sub [unfolded Inl]]
      have "same_inputs s s'" using v by (simp add: same_inputs_def)
      then show ?thesis using v(1) s by (simp add: eq Inl refl)
    next
      case (Inr res)
      note v = submit_accepted [OF sub [unfolded Inr]]
      from v(1) obtain t where t: "accepts s ?p c" "ResultIngressSeq res = s_nextIngressSeq s + 1"
        "ScheduledTick res = t" "pending s' = (pending s)(t := pending s t @ [queued_command s ?p t c])"
        "s_replayEntries s' = s_replayEntries s @ [\<lparr>AcceptedTick = t,
           ReplayIngressSeq = s_nextIngressSeq s + 1, AcceptedAt = now, Command = queued_command s ?p t c\<rparr>]"
        by auto
      show ?thesis unfolding eq Inr Let_def prod.case sum.case
        by (intro conjI exI [of _ s] exI [of _ s']) (use True s t v(3) in auto)
    qed
  qed
qed

text \<open>A small run: two commands of one player, then a tick.\<close>

definition demo_session :: matchSession where
  "demo_session = \<lparr>s_matchID = MatchID ''m'', s_status = MatchStatusRunning, s_tickRateHz = 30,
     s_createdAt = 0, s_startedAt = Some 0, s_endedAt = None, s_endedReason = '''', s_tickID = 0,
     s_players = [(PlayerID ''a'', \<lparr>PS_PlayerID = PlayerID ''a'', PS_Name = ''A'', JoinedAt = 0\<rparr>)],
     s_nextIngressSeq = 0, s_nextEntityID = 0, s_blackMarketGoldenBulletSold = False,
     s_alarmUsedDayStartTick = 0, s_scheduledInputs = Map.empty, s_seenClientSeq = Map.empty,
     s_acceptedByTick = Map.empty, s_lastProcessedClientSeq = Map.empty,
     s_guardEntityByRoom = Map.empty, s_guardLastShotTick = Map.empty,
     s_abilityCooldownUntil = Map.empty, s_abilityUsedDayStart = Map.empty,
     s_abilityDailyUsage = Map.empty, s_prisonerUnlockedRooms = {}, s_lockSnapDoorRestores = [],
     s_npcPrisonerBribeState = Map.empty, s_npcTaskByPlayer = Map.empty,
     s_chameleonPendingUntil = Map.empty, s_lastMoveIntentTick = Map.empty,
     s_ammoRestockUntil = Map.empty, s_projectileExpireTick = [], s_replayEntries = [],
     s_gameState = \<lparr>GameState_MatchID = MatchID ''m'', TickID = 0, Status = MatchStatusRunning,
       CycleCount = 0, Phase = \<lparr>Current = PhaseDay, StartedTick = 1, EndsTick = 9001\<rparr>,
       Map = \<lparr>PowerOn = True, Alarm = inactive_alarm, BlackMarketRoomID = RoomID '''', Doors = [],
         Cells = [], RestrictedZones = []\<rparr>, Players = [], Entities = [], GameOver = None\<rparr>,
     s_snapshotHistory = [], s_loopCancel = True, s_loopDone = True\<rparr>"

definition demo_command :: "uint64 \<Rightarrow> InputCommand" where
  "demo_command n = \<lparr>CmdPlayerID = PlayerID ''a'', ClientSeq = n, IngressSeq = 0, TargetTick = 0,
     CmdType = CmdReload, Payload = ''''\<rparr>"

definition demo_submit :: "uint64 \<Rightarrow> matchSession \<Rightarrow> matchSession" where
  "demo_submit n s = fst (submit_session 5 (MatchID ''m'') (PlayerID ''a'') (demo_command n) s)"

definition demo_run :: matchSession where
  "demo_run = fst (begin_tick (demo_submit 2 (demo_submit 1 demo_session)))"

definition demo_batch :: "InputCommand list" where
  "demo_batch = map (\<lambda>n. (demo_command n)\<lparr>IngressSeq := n, TargetTick := 1\<rparr>) [1, 2]"

lemma demo_live: "live demo_run [(1, demo_batch)]"
proof -
  have 0: "live demo_session []" by (rule live_start) (simp add: fresh_queue_def demo_session_def)
  have 1: "live (demo_submit 1 demo_session) []"
    unfolding demo_submit_def
    by (rule live_submit [OF 0 surjective_pairing]) (simp_all add: demo_session_def)
  have f: "s_tickID (demo_submit 1 demo_session) = 0" "length (s_replayEntries (demo_submit 1 demo_session)) = 1"
    by code_simp+
  have 2: "live (demo_submit 2 (demo_submit 1 demo_session)) []"
    unfolding demo_submit_def [of 2] by (rule live_submit [OF 1 surjective_pairing]) (simp_all add: f)
  have t: "s_tickID (demo_submit 2 (demo_submit 1 demo_session)) = 0" by code_simp
  have "live demo_run ([] @ [(s_tickID demo_run, snd (begin_tick (demo_submit 2 (demo_submit 1 demo_session))))])"
    unfolding demo_run_def by (rule live_tick [OF 2 surjective_pairing]) (simp add: t)
  moreover have "s_tickID demo_run = 1" by code_simp
  moreover have "snd (begin_tick (demo_submit 2 (demo_submit 1 demo_session))) = demo_batch" by code_simp
  ultimately show ?thesis by simp
qed

theorem replay_log_faithful_witness:
  "sortInputCommands (scheduleByTick (normalizeInputLog (map Command (s_replayEntries demo_run))) 1 7 1) =
     demo_batch \<and> demo_batch = log_at demo_run 1"
  using replay_log_faithful [OF demo_live, of 1 demo_batch 7] by simp

theorem delivery_exactly_once_witness:
  "length demo_batch = 2 \<and>
   mset (concat (map snd [(1 :: uint64, demo_batch)])) = mset (log_upto demo_run (unat (s_tickID demo_run)))"
proof -
  have "length demo_batch = 2" by code_simp
  then show ?thesis using delivery_exactly_once [OF demo_live] by simp
qed

end
