(* ===== verification/Float32.thy ===== *)
theory Float32
  imports Complex_Main Prelude "HOL-Library.Product_Lexorder"
begin

text \<open>
  Go's floating-point arithmetic, as the sources use it: IEEE 754 binary32 values stored as bit
  patterns (\<open>float32\<close>), arithmetic rounded to nearest with ties to even, and binary64 as the
  intermediate format of \<open>math.Sqrt\<close> and \<open>math.Floor\<close>. A finite number is a sign, a mantissa and a
  power of two; exact results are integers with an exponent and a flag for a discarded rest, and
  \<open>rnd\<close> rounds them once. Products and sums are rounded separately (no fused operations), and a
  conversion to \<open>int\<close> that does not fit gives the smallest integer, as on amd64.
\<close>

section \<open>Numbers and rounding\<close>

datatype flt = NaN | Inf bool | Fin bool int int

text \<open>\<open>Fin s m e\<close> is \<open>m * 2 ^ e\<close>, negative when \<open>s\<close>, with \<open>0 \<le> m\<close>.\<close>

function bit_length :: "int \<Rightarrow> nat" where
  "bit_length k = (if k \<le> 0 then 0 else Suc (bit_length (k div 2)))"
  by pat_completeness auto
termination by (relation "measure nat") auto

declare bit_length.simps [simp del]

record format =
  precision :: nat
  min_exp :: int
  max_exp :: int

definition binary32 :: format where
  "binary32 = \<lparr>precision = 24, min_exp = - 149, max_exp = 104\<rparr>"

definition binary64 :: format where
  "binary64 = \<lparr>precision = 53, min_exp = - 1074, max_exp = 971\<rparr>"

definition finish :: "format \<Rightarrow> bool \<Rightarrow> int \<Rightarrow> int \<Rightarrow> flt" where
  "finish fmt s m e =
     (let (m, e) = (if m = 2 ^ precision fmt then (m div 2, e + 1) else (m, e))
      in if m = 0 then Fin s 0 (min_exp fmt)
         else if e > max_exp fmt then Inf s
         else Fin s m e)"

text \<open>Round \<open>q * 2 ^ e\<close>, or a number strictly between it and the next multiple of \<open>2 ^ e\<close> when
  \<open>rest\<close> is set (then \<open>q\<close> has at least two bits more than the precision), to nearest, ties to even.\<close>

definition rnd :: "format \<Rightarrow> bool \<Rightarrow> int \<Rightarrow> bool \<Rightarrow> int \<Rightarrow> flt" where
  "rnd fmt s q rest e =
     (let shift = max (int (bit_length q) - int (precision fmt)) (min_exp fmt - e)
      in if shift \<le> 0 then finish fmt s (q * 2 ^ nat (- shift)) (e + shift)
         else
           let h = q div 2 ^ nat shift;
               r = q mod 2 ^ nat shift;
               half = 2 ^ nat (shift - 1);
               up = (r > half \<or> (r = half \<and> (rest \<or> odd h)))
           in finish fmt s (if up then h + 1 else h) (e + shift))"

section \<open>Bit patterns\<close>

definition f32 :: "float32 \<Rightarrow> flt" where
  "f32 w =
     (let s = bit w 31;
          ex = uint (drop_bit 23 w AND 0xFF);
          m = uint (w AND 0x7FFFFF)
      in if ex = 255 then (if m = 0 then Inf s else NaN)
         else if ex = 0 then Fin s m (- 149)
         else Fin s (2 ^ 23 + m) (ex - 150))"

text \<open>The pattern of a number of the format; the quiet NaN of amd64 for \<open>NaN\<close>.\<close>

definition pattern :: "bool \<Rightarrow> int \<Rightarrow> int \<Rightarrow> float32" where
  "pattern s ex m = (if s then 0x80000000 else 0) + word_of_int (ex * 2 ^ 23 + m)"

fun to_f32 :: "flt \<Rightarrow> float32" where
  "to_f32 NaN = 0x7FC00000"
| "to_f32 (Inf s) = pattern s 255 0"
| "to_f32 (Fin s m e) =
     (if m < 2 ^ 23 then pattern s 0 m else pattern s (e + 150) (m - 2 ^ 23))"

section \<open>Operations\<close>

text \<open>Conversion between formats rounds once.\<close>

fun convert :: "format \<Rightarrow> flt \<Rightarrow> flt" where
  "convert fmt NaN = NaN"
| "convert fmt (Inf s) = Inf s"
| "convert fmt (Fin s m e) = rnd fmt s m False e"

fun fl_neg :: "flt \<Rightarrow> flt" where
  "fl_neg NaN = NaN"
| "fl_neg (Inf s) = Inf (\<not> s)"
| "fl_neg (Fin s m e) = Fin (\<not> s) m e"

definition signed :: "bool \<Rightarrow> int \<Rightarrow> int" where
  "signed s m = (if s then - m else m)"

fun fl_add :: "format \<Rightarrow> flt \<Rightarrow> flt \<Rightarrow> flt" where
  "fl_add fmt (Fin s m e) (Fin t n f) =
     (let g = min e f;
          k = signed s (m * 2 ^ nat (e - g)) + signed t (n * 2 ^ nat (f - g))
      in if k = 0 then Fin (s \<and> t) 0 (min_exp fmt)
         else rnd fmt (k < 0) \<bar>k\<bar> False g)"
| "fl_add fmt (Inf s) (Inf t) = (if s = t then Inf s else NaN)"
| "fl_add fmt (Inf s) (Fin t n f) = Inf s"
| "fl_add fmt (Fin s m e) (Inf t) = Inf t"
| "fl_add fmt NaN y = NaN"
| "fl_add fmt x NaN = NaN"

fun fl_mul :: "format \<Rightarrow> flt \<Rightarrow> flt \<Rightarrow> flt" where
  "fl_mul fmt (Fin s m e) (Fin t n f) = rnd fmt (s \<noteq> t) (m * n) False (e + f)"
| "fl_mul fmt (Inf s) (Inf t) = Inf (s \<noteq> t)"
| "fl_mul fmt (Inf s) (Fin t n f) = (if n = 0 then NaN else Inf (s \<noteq> t))"
| "fl_mul fmt (Fin s m e) (Inf t) = (if m = 0 then NaN else Inf (s \<noteq> t))"
| "fl_mul fmt NaN y = NaN"
| "fl_mul fmt x NaN = NaN"

text \<open>Enough extra bits that the quotient of two mantissas keeps two more than the precision.\<close>

fun fl_div :: "format \<Rightarrow> flt \<Rightarrow> flt \<Rightarrow> flt" where
  "fl_div fmt (Fin s m e) (Fin t n f) =
     (if n = 0 then (if m = 0 then NaN else Inf (s \<noteq> t))
      else let k = 2 * precision fmt + 2;
               q = m * 2 ^ k div n
           in rnd fmt (s \<noteq> t) q (m * 2 ^ k mod n \<noteq> 0) (e - f - int k))"
| "fl_div fmt (Inf s) (Inf t) = NaN"
| "fl_div fmt (Inf s) (Fin t n f) = Inf (s \<noteq> t)"
| "fl_div fmt (Fin s m e) (Inf t) = Fin (s \<noteq> t) 0 (min_exp fmt)"
| "fl_div fmt NaN y = NaN"
| "fl_div fmt x NaN = NaN"

text \<open>The integer square root, bit by bit from bit \<open>k\<close> down.\<close>

fun isqrt_bits :: "nat \<Rightarrow> int \<Rightarrow> int \<Rightarrow> int" where
  "isqrt_bits 0 n r = (if (r + 1) * (r + 1) \<le> n then r + 1 else r)"
| "isqrt_bits (Suc k) n r =
     (let r' = r + 2 ^ Suc k in isqrt_bits k n (if r' * r' \<le> n then r' else r))"

definition isqrt :: "int \<Rightarrow> int" where
  "isqrt n = isqrt_bits (Suc (bit_length n div 2)) n 0"

fun fl_sqrt :: "format \<Rightarrow> flt \<Rightarrow> flt" where
  "fl_sqrt fmt (Fin s m e) =
     (if m = 0 then Fin s 0 (min_exp fmt)
      else if s then NaN
      else let k = 2 * (precision fmt + 2);
               (n, f) = (if even e then (m, e) else (2 * m, e - 1));
               n' = n * 2 ^ k;
               q = isqrt n'
           in rnd fmt False q (q * q \<noteq> n') ((f - int k) div 2))"
| "fl_sqrt fmt (Inf s) = (if s then NaN else Inf False)"
| "fl_sqrt fmt NaN = NaN"

fun fl_floor :: "flt \<Rightarrow> flt" where
  "fl_floor (Fin s m e) =
     (if e \<ge> 0 then Fin s m e
      else let k = signed s m div 2 ^ nat (- e)
           in if m = 0 then Fin s m e else Fin (k < 0 \<or> (k = 0 \<and> s)) \<bar>k\<bar> 0)"
| "fl_floor (Inf s) = Inf s"
| "fl_floor NaN = NaN"

text \<open>Conversion to \<open>int\<close> truncates.\<close>

fun fl_int :: "flt \<Rightarrow> int" where
  "fl_int (Fin s m e) =
     (let k = (if e \<ge> 0 then signed s (m * 2 ^ nat e) else signed s (m div 2 ^ nat (- e)))
      in if - (2 ^ 63) \<le> k \<and> k < 2 ^ 63 then k else - (2 ^ 63))"
| "fl_int (Inf s) = - (2 ^ 63)"
| "fl_int NaN = - (2 ^ 63)"

text \<open>Comparisons are false on \<open>NaN\<close>; the two zeros are equal.\<close>

definition cmp_key :: "int \<Rightarrow> bool \<Rightarrow> int \<Rightarrow> int \<Rightarrow> int" where
  "cmp_key g s m e = signed s (m * 2 ^ nat (e - g))"

fun fl_less :: "flt \<Rightarrow> flt \<Rightarrow> bool" where
  "fl_less (Fin s m e) (Fin t n f) \<longleftrightarrow> cmp_key (min e f) s m e < cmp_key (min e f) t n f"
| "fl_less (Inf s) (Inf t) \<longleftrightarrow> s \<and> \<not> t"
| "fl_less (Inf s) (Fin t n f) \<longleftrightarrow> s"
| "fl_less (Fin s m e) (Inf t) \<longleftrightarrow> \<not> t"
| "fl_less NaN y \<longleftrightarrow> False"
| "fl_less x NaN \<longleftrightarrow> False"

fun fl_eq :: "flt \<Rightarrow> flt \<Rightarrow> bool" where
  "fl_eq (Fin s m e) (Fin t n f) \<longleftrightarrow> cmp_key (min e f) s m e = cmp_key (min e f) t n f"
| "fl_eq (Inf s) (Inf t) \<longleftrightarrow> s = t"
| "fl_eq (Inf s) (Fin t n f) \<longleftrightarrow> False"
| "fl_eq (Fin s m e) (Inf t) \<longleftrightarrow> False"
| "fl_eq NaN y \<longleftrightarrow> False"
| "fl_eq x NaN \<longleftrightarrow> False"

section \<open>The operators of float32\<close>

definition f_add :: "float32 \<Rightarrow> float32 \<Rightarrow> float32" where
  "f_add x y = to_f32 (fl_add binary32 (f32 x) (f32 y))"

definition f_sub :: "float32 \<Rightarrow> float32 \<Rightarrow> float32" where
  "f_sub x y = to_f32 (fl_add binary32 (f32 x) (fl_neg (f32 y)))"

definition f_mul :: "float32 \<Rightarrow> float32 \<Rightarrow> float32" where
  "f_mul x y = to_f32 (fl_mul binary32 (f32 x) (f32 y))"

definition f_div :: "float32 \<Rightarrow> float32 \<Rightarrow> float32" where
  "f_div x y = to_f32 (fl_div binary32 (f32 x) (f32 y))"

definition f_less :: "float32 \<Rightarrow> float32 \<Rightarrow> bool" where
  "f_less x y \<longleftrightarrow> fl_less (f32 x) (f32 y)"

definition f_eq :: "float32 \<Rightarrow> float32 \<Rightarrow> bool" where
  "f_eq x y \<longleftrightarrow> fl_eq (f32 x) (f32 y)"

definition f_le :: "float32 \<Rightarrow> float32 \<Rightarrow> bool" where
  "f_le x y \<longleftrightarrow> f_less x y \<or> f_eq x y"

text \<open>\<open>float32(k)\<close> for an \<open>int\<close>, and \<open>int(x)\<close>.\<close>

definition f_of_int :: "int \<Rightarrow> float32" where
  "f_of_int k = to_f32 (rnd binary32 (k < 0) \<bar>k\<bar> False 0)"

definition f_int :: "float32 \<Rightarrow> int" where
  "f_int x = fl_int (f32 x)"

text \<open>\<open>float32(math.Sqrt(float64(x)))\<close> and \<open>int(math.Floor(float64(x) + 0.5))\<close>.\<close>

definition f_sqrt64 :: "float32 \<Rightarrow> float32" where
  "f_sqrt64 x = to_f32 (convert binary32 (fl_sqrt binary64 (f32 x)))"

definition roundedInt :: "float32 \<Rightarrow> int" where
  "roundedInt x = fl_int (fl_floor (fl_add binary64 (f32 x) (Fin False 1 (- 1))))"

section \<open>Comparison as an order\<close>

text \<open>The rational value of a finite number, and a rank for all numbers: negative infinity, the
  finite ones by value, positive infinity.\<close>

definition fl_value :: "bool \<Rightarrow> int \<Rightarrow> int \<Rightarrow> rat" where
  "fl_value s m e = of_int (signed s m) * 2 powi e"

fun fl_rank :: "flt \<Rightarrow> int \<times> rat" where
  "fl_rank NaN = (0, 0)"
| "fl_rank (Inf s) = (if s then - 1 else 1, 0)"
| "fl_rank (Fin s m e) = (0, fl_value s m e)"

lemma cmp_key_value:
  assumes "g \<le> e"
  shows "fl_value s m e = of_int (cmp_key g s m e) * 2 powi g"
proof -
  have "(2 :: rat) powi e = 2 powi (e - g) * 2 powi g" by (simp flip: power_int_add)
  moreover have "(2 :: rat) powi (e - g) = of_int (2 ^ nat (e - g))"
    using assms by (simp add: power_int_def)
  moreover have "signed s (m * 2 ^ nat (e - g)) = signed s m * 2 ^ nat (e - g)"
    by (simp add: signed_def)
  ultimately show ?thesis by (simp add: fl_value_def cmp_key_def)
qed

lemma cmp_key_less:
  "cmp_key (min e f) s m e < cmp_key (min e f) t n f \<longleftrightarrow> fl_value s m e < fl_value t n f"
  "cmp_key (min e f) s m e = cmp_key (min e f) t n f \<longleftrightarrow> fl_value s m e = fl_value t n f"
  using cmp_key_value [of "min e f" e s m] cmp_key_value [of "min e f" f t n] by simp_all

lemma fl_less_rank: "fl_less x y \<longleftrightarrow> x \<noteq> NaN \<and> y \<noteq> NaN \<and> fl_rank x < fl_rank y"
  by (cases x; cases y) (auto simp: cmp_key_less)

lemma fl_eq_rank: "fl_eq x y \<longleftrightarrow> x \<noteq> NaN \<and> y \<noteq> NaN \<and> fl_rank x = fl_rank y"
  by (cases x; cases y) (auto simp: cmp_key_less)

definition f_nan :: "float32 \<Rightarrow> bool" where
  "f_nan x \<longleftrightarrow> f32 x = NaN"

definition f_rank :: "float32 \<Rightarrow> int \<times> rat" where
  "f_rank x = fl_rank (f32 x)"

lemma f_less_rank: "f_less x y \<longleftrightarrow> \<not> f_nan x \<and> \<not> f_nan y \<and> f_rank x < f_rank y"
  by (simp add: f_less_def fl_less_rank f_nan_def f_rank_def)

lemma f_eq_rank: "f_eq x y \<longleftrightarrow> \<not> f_nan x \<and> \<not> f_nan y \<and> f_rank x = f_rank y"
  by (simp add: f_eq_def fl_eq_rank f_nan_def f_rank_def)

lemma f_le_rank: "f_le x y \<longleftrightarrow> \<not> f_nan x \<and> \<not> f_nan y \<and> f_rank x \<le> f_rank y"
  by (auto simp: f_le_def f_less_rank f_eq_rank)

end
