(* ===== verification/Physics.thy ===== *)
theory Physics
  imports GameMap Float32 Combat
begin

text \<open>
  Motion and collision (\<open>src/internal/engine/physics/motion.go\<close>) and the geometry of combat
  (\<open>SelectTarget\<close>, \<open>BatonImpulse\<close>, \<open>distanceSquared\<close> of \<open>src/internal/gamecore/combat/engine.go\<close>),
  on the binary32 arithmetic of \<open>Float32\<close>. The map of occupied tiles is shared and written by the
  code: the definitions return it. A nil map is \<open>None\<close>.
\<close>

section \<open>Definitions\<close>

definition BaseMoveStepPerTick :: float32 where "BaseMoveStepPerTick = 0x3E99999A"
definition SprintMoveStepPerTick :: float32 where "SprintMoveStepPerTick = 0x3ED9999A"
definition MaxKnockbackStepPerTick :: float32 where "MaxKnockbackStepPerTick = 0x3FC00000"

text \<open>The constants are 0.30, 0.425 and 1.50 in binary32.\<close>

record MotionResult =
  MotionPosition :: Vector2
  MotionVelocity :: Vector2
  Moved :: bool
  BlockedByStun :: bool
  BlockedByMap :: bool
  BlockedByDoorID :: DoorID
  BlockedByPlayerID :: PlayerID
  MotionStunnedUntilTick :: uint64

definition motion_at :: "Vector2 \<Rightarrow> MotionResult" where
  "motion_at position = \<lparr>MotionPosition = position, MotionVelocity = zero_vector, Moved = False,
     BlockedByStun = False, BlockedByMap = False, BlockedByDoorID = 0,
     BlockedByPlayerID = PlayerID '''', MotionStunnedUntilTick = 0\<rparr>"

type_synonym occupancy = "(Point \<rightharpoonup> PlayerID) option"

definition TileFromPosition :: "Vector2 \<Rightarrow> Point" where
  "TileFromPosition position = pt (roundedInt (X position)) (roundedInt (Y position))"

fun occupy_loop :: "PlayerState list \<Rightarrow> (Point \<rightharpoonup> PlayerID) \<Rightarrow> (Point \<rightharpoonup> PlayerID)" where
  "occupy_loop [] occupied = occupied"
| "occupy_loop (player # rest) occupied =
     (let tile = TileFromPosition (Position player)
      in occupy_loop rest
           (case occupied tile of
              None \<Rightarrow> occupied(tile \<mapsto> ID player)
            | Some existing \<Rightarrow> if ID player < existing then occupied(tile \<mapsto> ID player) else occupied))"

definition BuildOccupiedTiles :: "PlayerState list \<Rightarrow> (Point \<rightharpoonup> PlayerID)" where
  "BuildOccupiedTiles ps = occupy_loop ps Map.empty"

definition hasActiveEffect :: "PlayerState \<Rightarrow> EffectType \<Rightarrow> uint64 \<Rightarrow> bool" where
  "hasActiveEffect player effect currentTick \<longleftrightarrow>
     list_ex (\<lambda>candidate. Effect candidate = effect \<and>
       \<not> (EffectEndsTick candidate \<noteq> 0 \<and> currentTick > EffectEndsTick candidate)) (Effects player)"

definition clampVectorMagnitude :: "Vector2 \<Rightarrow> float32 \<Rightarrow> Vector2" where
  "clampVectorMagnitude vector maxMagnitude =
     (if f_le maxMagnitude 0 then zero_vector
      else
        let squared = f_add (f_mul (X vector) (X vector)) (f_mul (Y vector) (Y vector))
        in if f_eq squared 0 then vector
           else
             let magnitude = f_sqrt64 squared
             in if f_le magnitude maxMagnitude then vector
                else let scale = f_div maxMagnitude magnitude
                     in \<lparr>X = f_mul (X vector) scale, Y = f_mul (Y vector) scale\<rparr>)"

definition isDoorOpen :: "MapState \<Rightarrow> DoorID \<Rightarrow> bool" where
  "isDoorOpen mapState doorID =
     (case List.find (\<lambda>door. DoorState_ID door = doorID) (Doors mapState) of
        None \<Rightarrow> True
      | Some door \<Rightarrow> Open door)"

definition connectsRooms :: "DoorLink \<Rightarrow> RoomID \<Rightarrow> RoomID \<Rightarrow> bool" where
  "connectsRooms link roomA roomB =
     (if DoorLinkRoomA link = roomA \<and> DoorLinkRoomB link = roomB then True
      else if DoorLinkRoomA link = roomB \<and> DoorLinkRoomB link = roomA then True
      else False)"

definition link_between :: "DoorLink option \<Rightarrow> RoomID \<Rightarrow> RoomID \<Rightarrow> DoorID option" where
  "link_between found fromRoomID toRoomID =
     (case found of
        None \<Rightarrow> None
      | Some link \<Rightarrow> if connectsRooms link fromRoomID toRoomID then Some (DoorLink_ID link) else None)"

definition doorwayBetweenRooms :: "Layout \<Rightarrow> Point \<Rightarrow> Point \<Rightarrow> RoomID \<Rightarrow> RoomID \<Rightarrow> DoorID option" where
  "doorwayBetweenRooms layout fromPoint toPoint fromRoomID toRoomID =
     (case link_between (DoorLinkAt layout fromPoint) fromRoomID toRoomID of
        Some d \<Rightarrow> Some d
      | None \<Rightarrow> link_between (DoorLinkAt layout toPoint) fromRoomID toRoomID)"

text \<open>The checks of \<open>canOccupyPosition\<close> in their order; each early return writes one field of the
  result.\<close>

definition room_change_check ::
  "PlayerState \<Rightarrow> Point \<Rightarrow> RoomID \<Rightarrow> Point \<Rightarrow> RoomID \<Rightarrow> Layout \<Rightarrow> MapState \<Rightarrow> MotionResult \<Rightarrow>
   bool \<times> MotionResult" where
  "room_change_check player currentTilePoint currentRoomID tilePoint targetRoomID layout mapState result =
     (if targetRoomID \<noteq> NoRoom \<and> currentRoomID \<noteq> NoRoom \<and> targetRoomID \<noteq> currentRoomID then
        (let closed = (case doorwayBetweenRooms layout currentTilePoint tilePoint currentRoomID targetRoomID of
               Some doorID \<Rightarrow> if \<not> isDoorOpen mapState doorID then Some doorID else None
             | None \<Rightarrow> None)
         in case closed of
              Some doorID \<Rightarrow> (False, result\<lparr>BlockedByDoorID := doorID\<rparr>)
            | None \<Rightarrow>
                if \<not> CanEnterRoom player targetRoomID mapState
                then (False, result\<lparr>BlockedByMap := True\<rparr>)
                else (True, result))
      else (True, result))"

definition door_tile_check :: "Layout \<Rightarrow> MapState \<Rightarrow> Point \<Rightarrow> MotionResult \<Rightarrow> bool \<times> MotionResult" where
  "door_tile_check layout mapState tilePoint result =
     (case DoorLinkAt layout tilePoint of
        Some doorLink \<Rightarrow>
          if \<not> isDoorOpen mapState (DoorLink_ID doorLink)
          then (False, result\<lparr>BlockedByDoorID := DoorLink_ID doorLink\<rparr>)
          else (True, result)
      | None \<Rightarrow> (True, result))"

definition occupancy_check :: "PlayerState \<Rightarrow> occupancy \<Rightarrow> Point \<Rightarrow> MotionResult \<Rightarrow> bool \<times> MotionResult" where
  "occupancy_check player occupied tilePoint result =
     (case occupied of
        None \<Rightarrow> (True, result)
      | Some occ \<Rightarrow>
          (case occ tilePoint of
             None \<Rightarrow> (True, result)
           | Some occupant \<Rightarrow>
               if occupant \<noteq> PlayerID '''' \<and> occupant \<noteq> ID player
               then (False, result\<lparr>BlockedByPlayerID := occupant\<rparr>)
               else (True, result)))"

definition canOccupyPosition ::
  "PlayerState \<Rightarrow> Vector2 \<Rightarrow> RoomID \<Rightarrow> Vector2 \<Rightarrow> Layout \<Rightarrow> MapState \<Rightarrow> occupancy \<Rightarrow> MotionResult \<Rightarrow>
   bool \<times> MotionResult" where
  "canOccupyPosition player currentPosition currentRoomID position layout mapState occupied result =
     (let currentTilePoint = TileFromPosition currentPosition;
          tilePoint = TileFromPosition position
      in if \<not> InBounds layout tilePoint then (False, result\<lparr>BlockedByMap := True\<rparr>)
         else case TileAt layout tilePoint of
           None \<Rightarrow> (False, result\<lparr>BlockedByMap := True\<rparr>)
         | Some tile \<Rightarrow>
             if \<not> Walkable tile then (False, result\<lparr>BlockedByMap := True\<rparr>)
             else case room_change_check player currentTilePoint currentRoomID tilePoint
                    (TileRoomID tile) layout mapState result of
               (False, result') \<Rightarrow> (False, result')
             | (True, result') \<Rightarrow>
                 (case door_tile_check layout mapState tilePoint result' of
                    (False, result'') \<Rightarrow> (False, result'')
                  | (True, result'') \<Rightarrow> occupancy_check player occupied tilePoint result''))"

text \<open>One axis of a motion: the candidate is taken over when it can be occupied, and the room
  follows the tile.\<close>

record motion_state =
  mo_current :: Vector2
  mo_room :: RoomID
  mo_applied :: Vector2
  mo_result :: MotionResult

definition axis_step ::
  "PlayerState \<Rightarrow> Layout \<Rightarrow> MapState \<Rightarrow> occupancy \<Rightarrow> Vector2 \<Rightarrow> (Vector2 \<Rightarrow> Vector2) \<Rightarrow>
   motion_state \<Rightarrow> motion_state" where
  "axis_step player layout mapState occupied candidate apply st =
     (case canOccupyPosition player (mo_current st) (mo_room st) candidate layout mapState occupied
             (mo_result st) of
        (False, result) \<Rightarrow> st\<lparr>mo_result := result\<rparr>
      | (True, result) \<Rightarrow>
          st\<lparr>mo_result := result, mo_applied := apply (mo_applied st), mo_current := candidate,
             mo_room := (case RoomAt layout (TileFromPosition candidate) of
                           None \<Rightarrow> mo_room st | Some roomID \<Rightarrow> roomID)\<rparr>)"

definition resolveVectorMotion ::
  "PlayerState \<Rightarrow> Vector2 \<Rightarrow> Layout \<Rightarrow> MapState \<Rightarrow> occupancy \<Rightarrow> MotionResult \<times> occupancy" where
  "resolveVectorMotion player desired layout mapState occupied =
     (let result = motion_at (Position player)
      in if f_eq (X desired) 0 \<and> f_eq (Y desired) 0 then (result, occupied)
         else
           let current = Position player;
               originalTile = TileFromPosition current;
               currentRoomID = (if CurrentRoomID player = NoRoom
                  then (case RoomAt layout originalTile of None \<Rightarrow> NoRoom | Some roomID \<Rightarrow> roomID)
                  else CurrentRoomID player);
               occupied = map_option (\<lambda>occ. occ(originalTile := None)) occupied;
               st = \<lparr>mo_current = current, mo_room = currentRoomID, mo_applied = zero_vector,
                     mo_result = result\<rparr>;
               st = (if f_eq (X desired) 0 then st
                     else axis_step player layout mapState occupied
                            ((mo_current st)\<lparr>X := f_add (X (mo_current st)) (X desired)\<rparr>)
                            (\<lambda>applied. applied\<lparr>X := X desired\<rparr>) st);
               st = (if f_eq (Y desired) 0 then st
                     else axis_step player layout mapState occupied
                            ((mo_current st)\<lparr>Y := f_add (Y (mo_current st)) (Y desired)\<rparr>)
                            (\<lambda>applied. applied\<lparr>Y := Y desired\<rparr>) st);
               occupied = map_option (\<lambda>occ. occ(TileFromPosition (mo_current st) \<mapsto> ID player)) occupied
           in ((mo_result st)\<lparr>MotionPosition := mo_current st, MotionVelocity := mo_applied st,
                 Moved := (\<not> f_eq (X (mo_applied st)) 0 \<or> \<not> f_eq (Y (mo_applied st)) 0)\<rparr>,
               occupied))"

definition move_step_limit :: "PlayerState \<Rightarrow> bool \<Rightarrow> uint64 \<Rightarrow> float32" where
  "move_step_limit player sprint currentTick =
     (let maxStep = BaseMoveStepPerTick;
          maxStep = (if hasActiveEffect player EffectSpeedBoost currentTick
                     then SprintMoveStepPerTick else maxStep)
      in if sprint \<and> f_less maxStep SprintMoveStepPerTick then SprintMoveStepPerTick else maxStep)"

definition ResolveMoveIntent ::
  "PlayerState \<Rightarrow> MovementInputPayload \<Rightarrow> Layout \<Rightarrow> MapState \<Rightarrow> occupancy \<Rightarrow> uint64 \<Rightarrow>
   MotionResult \<times> occupancy" where
  "ResolveMoveIntent player input layout mapState occupied currentTick =
     (if SolitaryUntilTick player \<noteq> 0 \<and> currentTick \<le> SolitaryUntilTick player
      then ((motion_at (Position player))\<lparr>BlockedByStun := True\<rparr>, occupied)
      else if StunnedUntilTick player \<noteq> 0 \<and> currentTick \<le> StunnedUntilTick player
      then ((motion_at (Position player))\<lparr>BlockedByStun := True\<rparr>, occupied)
      else
        let desired = clampVectorMagnitude \<lparr>X = MoveX input, Y = MoveY input\<rparr>
              (move_step_limit player (Sprint input) currentTick)
        in resolveVectorMotion player desired layout mapState occupied)"

definition ApplyKnockback ::
  "PlayerState \<Rightarrow> Vector2 \<Rightarrow> Layout \<Rightarrow> MapState \<Rightarrow> occupancy \<Rightarrow> uint64 \<Rightarrow> uint64 \<Rightarrow>
   PlayerState \<times> MotionResult \<times> occupancy" where
  "ApplyKnockback player impulse layout mapState occupied currentTick stunDurationTicks =
     (let desired = clampVectorMagnitude impulse MaxKnockbackStepPerTick;
          (motion, occupied) = resolveVectorMotion player desired layout mapState occupied;
          next = player\<lparr>Position := MotionPosition motion, Velocity := MotionVelocity motion\<rparr>;
          next = (if stunDurationTicks > 0
                  then (let stunnedUntil = currentTick + stunDurationTicks
                        in if stunnedUntil > StunnedUntilTick next
                           then next\<lparr>StunnedUntilTick := stunnedUntil\<rparr> else next)
                  else next)
      in (next, motion\<lparr>MotionStunnedUntilTick := StunnedUntilTick next\<rparr>, occupied))"

section \<open>Geometry of combat\<close>

definition AimAssistRadiusTiles :: float32 where "AimAssistRadiusTiles = 0x3FA00000"
definition BatonKnockbackMagnitude :: float32 where "BatonKnockbackMagnitude = 0x3FC00000"
definition MaxFloat32 :: float32 where "MaxFloat32 = 0x7F7FFFFF"

definition distanceSquared :: "Vector2 \<Rightarrow> Vector2 \<Rightarrow> float32" where
  "distanceSquared a b =
     (let dx = f_sub (X a) (X b); dy = f_sub (Y a) (Y b)
      in f_add (f_mul dx dx) (f_mul dy dy))"

fun target_loop ::
  "PlayerState list \<Rightarrow> PlayerID \<Rightarrow> Vector2 \<Rightarrow> Vector2 \<Rightarrow> float32 \<Rightarrow> float32 \<Rightarrow> PlayerID \<Rightarrow> float32 \<Rightarrow> PlayerID" where
  "target_loop [] shooterID shooterPos aim maxRangeSquared maxAimSquared bestTargetID bestAimDistance =
     bestTargetID"
| "target_loop (candidate # rest) shooterID shooterPos aim maxRangeSquared maxAimSquared bestTargetID
     bestAimDistance =
     (let continue = target_loop rest shooterID shooterPos aim maxRangeSquared maxAimSquared;
          shooterDistanceSquared = distanceSquared shooterPos (Position candidate);
          aimDistanceSquared = distanceSquared aim (Position candidate)
      in if ID candidate = shooterID \<or> \<not> Alive candidate then continue bestTargetID bestAimDistance
         else if f_less maxRangeSquared shooterDistanceSquared then continue bestTargetID bestAimDistance
         else if f_less maxAimSquared aimDistanceSquared then continue bestTargetID bestAimDistance
         else if f_less aimDistanceSquared bestAimDistance
         then continue (ID candidate) aimDistanceSquared
         else if f_eq aimDistanceSquared bestAimDistance \<and>
                 (bestTargetID = PlayerID '''' \<or> ID candidate < bestTargetID)
         then continue (ID candidate) bestAimDistance
         else continue bestTargetID bestAimDistance)"

definition SelectTarget ::
  "PlayerState list \<Rightarrow> PlayerID \<Rightarrow> Vector2 \<Rightarrow> float32 \<Rightarrow> float32 \<Rightarrow> PlayerID option" where
  "SelectTarget ps shooterID aim maxRangeTiles aimAssistRadiusTiles =
     (if length ps = 0 \<or> shooterID = PlayerID '''' \<or> f_le maxRangeTiles 0 \<or> f_le aimAssistRadiusTiles 0
      then None
      else case find_index (\<lambda>p. ID p = shooterID) ps of
        None \<Rightarrow> None
      | Some shooterIndex \<Rightarrow>
          if \<not> Alive (ps ! shooterIndex) then None
          else
            let shooterPos = Position (ps ! shooterIndex);
                maxRangeSquared = f_mul maxRangeTiles maxRangeTiles;
                maxAimSquared = f_mul aimAssistRadiusTiles aimAssistRadiusTiles;
                bestTargetID = target_loop ps shooterID shooterPos aim maxRangeSquared maxAimSquared
                  (PlayerID '''') MaxFloat32
            in if bestTargetID = PlayerID '''' then None else Some bestTargetID)"

definition BatonImpulse :: "PlayerState \<Rightarrow> PlayerState \<Rightarrow> Vector2" where
  "BatonImpulse attacker target =
     (let x = f_sub (X (Position target)) (X (Position attacker));
          y = f_sub (Y (Position target)) (Y (Position attacker));
          (x, y) = (if f_eq x 0 \<and> f_eq y 0 then (X (Facing attacker), Y (Facing attacker)) else (x, y));
          x = (if f_eq x 0 \<and> f_eq y 0 then 0x3F800000 else x);
          magnitude = f_sqrt64 (f_add (f_mul x x) (f_mul y y))
      in if f_eq magnitude 0 then \<lparr>X = BatonKnockbackMagnitude, Y = 0\<rparr>
         else let scale = f_div BatonKnockbackMagnitude magnitude
              in \<lparr>X = f_mul x scale, Y = f_mul y scale\<rparr>)"

section \<open>Where a motion may land\<close>

definition landing_ok ::
  "PlayerState \<Rightarrow> Layout \<Rightarrow> MapState \<Rightarrow> occupancy \<Rightarrow> RoomID \<Rightarrow> Point \<Rightarrow> bool" where
  "landing_ok player layout mapState occupied home tp \<longleftrightarrow>
     IsWalkable layout tp \<and>
     (\<forall>link. DoorLinkAt layout tp = Some link \<longrightarrow> isDoorOpen mapState (DoorLink_ID link)) \<and>
     (\<forall>occ q. occupied = Some occ \<and> occ tp = Some q \<longrightarrow> q = PlayerID '''' \<or> q = ID player) \<and>
     (\<forall>r. RoomAt layout tp = Some r \<longrightarrow> r = home \<or> CanEnterRoom player r mapState)"

lemmas check_defs = room_change_check_def door_tile_check_def occupancy_check_def

lemma canOccupy_landing:
  assumes "canOccupyPosition player cur room cand layout mapState occupied res = (True, res')"
    and "room \<noteq> NoRoom"
  shows "landing_ok player layout mapState occupied room (TileFromPosition cand)"
proof -
  let ?tp = "TileFromPosition cand"
  from assms(1) obtain tile where tile: "TileAt layout ?tp = Some tile" "Walkable tile"
    by (auto simp: canOccupyPosition_def Let_def split: if_splits option.splits)
  obtain b1 r1 where 1: "room_change_check player (TileFromPosition cur) room ?tp (TileRoomID tile)
      layout mapState res = (b1, r1)" by fastforce
  obtain b2 r2 where 2: "door_tile_check layout mapState ?tp r1 = (b2, r2)" by fastforce
  have b: "b1" "b2" "occupancy_check player occupied ?tp r2 = (True, res')"
    using assms(1) tile 1 2
    by (auto simp: canOccupyPosition_def Let_def split: if_splits bool.splits)
  have "TileRoomID tile = NoRoom \<or> TileRoomID tile = room \<or> CanEnterRoom player (TileRoomID tile) mapState"
    using 1 b(1) assms(2) by (auto simp: room_change_check_def Let_def split: if_splits option.splits)
  then have "\<forall>r. RoomAt layout ?tp = Some r \<longrightarrow> r = room \<or> CanEnterRoom player r mapState"
    using tile by (auto simp: RoomAt_def split: if_splits)
  moreover have "\<forall>link. DoorLinkAt layout ?tp = Some link \<longrightarrow> isDoorOpen mapState (DoorLink_ID link)"
    using 2 b(2) by (auto simp: door_tile_check_def split: if_splits option.splits)
  moreover have "\<forall>occ q. occupied = Some occ \<and> occ ?tp = Some q \<longrightarrow> q = PlayerID '''' \<or> q = ID player"
    using b(3) by (auto simp: occupancy_check_def split: if_splits option.splits)
  moreover have "IsWalkable layout ?tp" using tile by (simp add: IsWalkable_def)
  ultimately show ?thesis unfolding landing_ok_def by blast
qed

text \<open>The invariant of the two axis steps.\<close>

definition motion_ok ::
  "PlayerState \<Rightarrow> Layout \<Rightarrow> MapState \<Rightarrow> occupancy \<Rightarrow> RoomID \<Rightarrow> motion_state \<Rightarrow> bool" where
  "motion_ok player layout mapState occupied home st \<longleftrightarrow>
     mo_room st \<noteq> NoRoom \<and> (mo_room st = home \<or> CanEnterRoom player (mo_room st) mapState) \<and>
     (mo_current st = Position player \<or>
      landing_ok player layout mapState occupied home (TileFromPosition (mo_current st)))"

lemma axis_step_ok:
  assumes "motion_ok player layout mapState occupied home st"
  shows "motion_ok player layout mapState occupied home
    (axis_step player layout mapState occupied cand f st)"
proof (cases "canOccupyPosition player (mo_current st) (mo_room st) cand layout mapState occupied (mo_result st)")
  case (Pair b res)
  show ?thesis
  proof (cases b)
    case True
    have land: "landing_ok player layout mapState occupied (mo_room st) (TileFromPosition cand)"
      using Pair True assms canOccupy_landing by (simp add: motion_ok_def)
    have "landing_ok player layout mapState occupied home (TileFromPosition cand)"
      using land assms unfolding landing_ok_def motion_ok_def by blast
    moreover have "RoomAt layout (TileFromPosition cand) \<noteq> Some NoRoom"
      by (auto simp: RoomAt_def split: option.splits)
    ultimately show ?thesis using assms Pair True
      by (auto simp: axis_step_def motion_ok_def landing_ok_def split: option.splits)
  next
    case False
    then show ?thesis using assms Pair by (simp add: axis_step_def motion_ok_def)
  qed
qed

lemma resolveVectorMotion_lands:
  assumes "CurrentRoomID player \<noteq> NoRoom"
    and "resolveVectorMotion player desired layout mapState occupied = (res, occupied')"
  shows "MotionPosition res = Position player \<or>
    landing_ok player layout mapState
      (map_option (\<lambda>occ. occ(TileFromPosition (Position player) := None)) occupied)
      (CurrentRoomID player) (TileFromPosition (MotionPosition res))"
proof (cases "f_eq (X desired) 0 \<and> f_eq (Y desired) 0")
  case True
  then show ?thesis using assms(2) by (auto simp: resolveVectorMotion_def motion_at_def)
next
  case False
  let ?occ = "map_option (\<lambda>occ. occ(TileFromPosition (Position player) := None)) occupied"
  let ?ok = "motion_ok player layout mapState ?occ (CurrentRoomID player)"
  let ?st0 = "\<lparr>mo_current = Position player, mo_room = CurrentRoomID player, mo_applied = zero_vector,
     mo_result = motion_at (Position player)\<rparr>"
  have 0: "?ok ?st0" using assms(1) by (simp add: motion_ok_def)
  define st1 where "st1 = (if f_eq (X desired) 0 then ?st0 else axis_step player layout mapState ?occ
    ((Position player)\<lparr>X := f_add (X (Position player)) (X desired)\<rparr>) (\<lambda>a. a\<lparr>X := X desired\<rparr>) ?st0)"
  define st2 where "st2 = (if f_eq (Y desired) 0 then st1 else axis_step player layout mapState ?occ
    ((mo_current st1)\<lparr>Y := f_add (Y (mo_current st1)) (Y desired)\<rparr>) (\<lambda>a. a\<lparr>Y := Y desired\<rparr>) st1)"
  have "?ok st1" unfolding st1_def using axis_step_ok [OF 0] 0 by simp
  then have "?ok st2" unfolding st2_def using axis_step_ok by simp
  moreover have "MotionPosition res = mo_current st2"
    using assms False unfolding resolveVectorMotion_def Let_def st2_def st1_def by auto
  ultimately show ?thesis by (simp add: motion_ok_def)
qed

text \<open>The occupancy after a motion: the player's new tile is his, his old one is free, and no other
  entry changes; a motion of zero leaves it alone.\<close>

lemma resolveVectorMotion_occupied:
  assumes "resolveVectorMotion player desired layout mapState (Some occ) = (res, occupied')"
  shows "\<exists>occ'. occupied' = Some occ' \<and>
    (occ' = occ \<and> MotionPosition res = Position player \<or>
     occ' = occ(TileFromPosition (Position player) := None,
                TileFromPosition (MotionPosition res) \<mapsto> ID player))"
  using assms unfolding resolveVectorMotion_def Let_def
  by (auto simp: motion_at_def split: if_splits)

subsection \<open>Occupied tiles\<close>

definition on_tile :: "PlayerState list \<Rightarrow> Point \<Rightarrow> PlayerID set" where
  "on_tile ps tp = ID ` {p \<in> set ps. TileFromPosition (Position p) = tp}"

lemma occupy_loop_eq:
  "occupy_loop ps occ tp =
     (case occ tp of
        None \<Rightarrow> if on_tile ps tp = {} then None else Some (Min (on_tile ps tp))
      | Some q \<Rightarrow> Some (Min (insert q (on_tile ps tp))))"
proof (induction ps arbitrary: occ)
  case (Cons p ps)
  have fin: "finite (on_tile ps t)" for t by (simp add: on_tile_def)
  have cons: "on_tile (p # ps) t = (if TileFromPosition (Position p) = t
      then insert (ID p) (on_tile ps t) else on_tile ps t)" for t
    by (auto simp: on_tile_def)
  have m: "Min (insert (min a b) S) = Min (insert a (insert b S))" if "finite S" for a b :: PlayerID and S
    using that by (cases "S = {}") (simp_all add: min.assoc)
  show ?case
    using fin m [OF fin [of tp], of "ID p"]
    by (auto simp: Let_def Cons.IH cons min_def not_less insert_commute split: option.splits if_splits)
qed (simp add: on_tile_def split: option.split)

section \<open>Choosing a target\<close>

text \<open>A candidate of the aim: another living player whose distance is not above the range and
  whose distance from the aim is a number, not above the radius.\<close>

definition in_reach :: "PlayerID \<Rightarrow> Vector2 \<Rightarrow> Vector2 \<Rightarrow> float32 \<Rightarrow> float32 \<Rightarrow> PlayerState \<Rightarrow> bool" where
  "in_reach shooterID pos aim range2 aim2 c \<longleftrightarrow>
     ID c \<noteq> shooterID \<and> Alive c \<and> \<not> f_less range2 (distanceSquared pos (Position c)) \<and>
     \<not> f_less aim2 (distanceSquared aim (Position c)) \<and> \<not> f_nan (distanceSquared aim (Position c))"

text \<open>Candidates are compared by distance from the aim, then by identifier.\<close>

definition aim_key :: "Vector2 \<Rightarrow> PlayerState \<Rightarrow> (int \<times> rat) \<times> PlayerID" where
  "aim_key aim c = (f_rank (distanceSquared aim (Position c)), ID c)"

definition least_of :: "'k::linorder set \<Rightarrow> 'k \<Rightarrow> 'k \<Rightarrow> bool" where
  "least_of R k0 k \<longleftrightarrow> k \<le> k0 \<and> (k = k0 \<or> k \<in> R) \<and> (\<forall>x \<in> R. k \<le> x)"

lemma least_of_better: "least_of R x k \<Longrightarrow> x < k0 \<Longrightarrow> least_of (insert x R) k0 k"
  by (auto simp: least_of_def)

lemma least_of_worse: "least_of R k0 k \<Longrightarrow> \<not> x < k0 \<Longrightarrow> least_of (insert x R) k0 k"
  by (auto simp: least_of_def not_less)

abbreviation reach_keys :: "PlayerState list \<Rightarrow> PlayerID \<Rightarrow> Vector2 \<Rightarrow> Vector2 \<Rightarrow> float32 \<Rightarrow> float32 \<Rightarrow>
    ((int \<times> rat) \<times> PlayerID) set" where
  "reach_keys cs sh pos aim r2 a2 \<equiv> aim_key aim ` {c \<in> set cs. in_reach sh pos aim r2 a2 c}"

lemma reach_keys_Cons:
  "reach_keys (c # cs) sh pos aim r2 a2 =
     (if in_reach sh pos aim r2 a2 c then insert (aim_key aim c) (reach_keys cs sh pos aim r2 a2)
      else reach_keys cs sh pos aim r2 a2)"
  by auto

text \<open>One step of the loop: a candidate that beats the best so far replaces it.\<close>

lemma target_loop_take:
  assumes "in_reach sh pos aim r2 a2 c" and "\<not> f_nan D"
    and "b = PlayerID '''' \<and> f_rank (distanceSquared aim (Position c)) \<le> f_rank D \<or>
         aim_key aim c < (f_rank D, b)"
  shows "\<exists>D'. \<not> f_nan D' \<and> (f_rank D', ID c) = aim_key aim c \<and>
    target_loop (c # cs) sh pos aim r2 a2 b D = target_loop cs sh pos aim r2 a2 (ID c) D'"
  using assms
  by (intro exI [of _ "if f_rank (distanceSquared aim (Position c)) < f_rank D
        then distanceSquared aim (Position c) else D"])
    (auto simp: in_reach_def aim_key_def f_less_rank f_eq_rank Let_def)

lemma target_loop_skip:
  assumes "\<not> in_reach sh pos aim r2 a2 c \<or> b \<noteq> PlayerID '''' \<and> \<not> aim_key aim c < (f_rank D, b)"
    and "\<not> f_nan D"
  shows "target_loop (c # cs) sh pos aim r2 a2 b D = target_loop cs sh pos aim r2 a2 b D"
  using assms by (auto simp: in_reach_def aim_key_def f_less_rank f_eq_rank Let_def)

declare target_loop.simps(2) [simp del]

lemma target_loop_best:
  assumes "\<not> f_nan D" and "b \<noteq> PlayerID ''''" and "\<forall>c \<in> set cs. ID c \<noteq> PlayerID ''''"
  shows "\<exists>K. target_loop cs sh pos aim r2 a2 b D = snd K \<and>
    least_of (reach_keys cs sh pos aim r2 a2) (f_rank D, b) K"
  using assms
proof (induction cs arbitrary: b D)
  case Nil
  show ?case by (intro exI [of _ "(f_rank D, b)"]) (simp add: least_of_def)
next
  case (Cons c cs)
  show ?case
  proof (cases "in_reach sh pos aim r2 a2 c \<and> aim_key aim c < (f_rank D, b)")
    case True
    then obtain D' where D': "\<not> f_nan D'" "(f_rank D', ID c) = aim_key aim c"
      "target_loop (c # cs) sh pos aim r2 a2 b D = target_loop cs sh pos aim r2 a2 (ID c) D'"
      using target_loop_take Cons.prems(1) by metis
    have "ID c \<noteq> PlayerID ''''" "\<forall>c \<in> set cs. ID c \<noteq> PlayerID ''''" using Cons.prems(3) by simp_all
    from Cons.IH [OF D'(1) this] obtain K where K: "target_loop cs sh pos aim r2 a2 (ID c) D' = snd K"
      "least_of (reach_keys cs sh pos aim r2 a2) (aim_key aim c) K" unfolding D'(2) by (elim exE conjE)
    from True have t: "aim_key aim c < (f_rank D, b)" and r: "in_reach sh pos aim r2 a2 c" by simp_all
    show ?thesis unfolding D'(3) K(1) reach_keys_Cons if_P [OF r]
      by (intro exI conjI, rule refl, rule least_of_better [OF K(2) t])
  next
    case False
    then have "target_loop (c # cs) sh pos aim r2 a2 b D = target_loop cs sh pos aim r2 a2 b D"
      using Cons.prems by (intro target_loop_skip) auto
    moreover have "\<forall>c \<in> set cs. ID c \<noteq> PlayerID ''''" using Cons.prems(3) by simp
    from Cons.IH [OF Cons.prems(1,2) this] obtain K where "target_loop cs sh pos aim r2 a2 b D = snd K"
      "least_of (reach_keys cs sh pos aim r2 a2) (f_rank D, b) K" by (elim exE conjE)
    ultimately show ?thesis using False least_of_worse [of _ "(f_rank D, b)" K "aim_key aim c"]
      unfolding reach_keys_Cons by (intro exI [of _ K]) simp
  qed
qed

lemma target_loop_start:
  assumes "\<not> f_nan D" and "\<forall>c \<in> set cs. ID c \<noteq> PlayerID ''''"
    and "\<forall>c \<in> set cs. in_reach sh pos aim r2 a2 c \<longrightarrow> f_rank (distanceSquared aim (Position c)) \<le> f_rank D"
  shows "reach_keys cs sh pos aim r2 a2 = {} \<and>
      target_loop cs sh pos aim r2 a2 (PlayerID '''') D = PlayerID '''' \<or>
    (\<exists>K \<in> reach_keys cs sh pos aim r2 a2. target_loop cs sh pos aim r2 a2 (PlayerID '''') D = snd K \<and>
      (\<forall>x \<in> reach_keys cs sh pos aim r2 a2. K \<le> x))"
  using assms(2,3)
proof (induction cs)
  case (Cons c cs)
  show ?case
  proof (cases "in_reach sh pos aim r2 a2 c")
    case True
    then obtain D' where D': "\<not> f_nan D'" "(f_rank D', ID c) = aim_key aim c"
      "target_loop (c # cs) sh pos aim r2 a2 (PlayerID '''') D = target_loop cs sh pos aim r2 a2 (ID c) D'"
      using target_loop_take [OF True assms(1), of "PlayerID ''''" cs] Cons.prems(2) by auto
    have "ID c \<noteq> PlayerID ''''" "\<forall>c \<in> set cs. ID c \<noteq> PlayerID ''''" using Cons.prems(1) by simp_all
    from target_loop_best [OF D'(1) this, of sh pos aim r2 a2] obtain K where
      "target_loop cs sh pos aim r2 a2 (ID c) D' = snd K"
      "least_of (reach_keys cs sh pos aim r2 a2) (aim_key aim c) K" unfolding D'(2) by (elim exE conjE)
    with True show ?thesis unfolding D'(3) reach_keys_Cons
      by (intro disjI2 bexI [of _ K]) (simp_all add: least_of_def)
  next
    case False
    with target_loop_skip [of sh pos aim r2 a2 c "PlayerID ''''" D cs] Cons assms(1)
    show ?thesis unfolding reach_keys_Cons by simp
  qed
qed simp

section \<open>Properties\<close>

text \<open>The occupancy map holds, for every tile, the least identifier of the players on it.\<close>

lemma BuildOccupiedTiles_spec:
  "BuildOccupiedTiles ps tp = (if on_tile ps tp = {} then None else Some (Min (on_tile ps tp)))"
  by (simp add: BuildOccupiedTiles_def occupy_loop_eq)

text \<open>C25. A move lands legally: a player in a room either stays where he is or ends on a walkable
  tile of the map, with every door on it open, not occupied by another player, and in the room he
  was in or one he may enter; in the shared occupancy map only his own tiles change.\<close>

theorem ResolveMoveIntent_lands:
  assumes "CurrentRoomID player \<noteq> NoRoom"
    and "ResolveMoveIntent player input layout mapState (Some occ) tick = (res, occupied')"
  shows "(MotionPosition res = Position player \<or>
     landing_ok player layout mapState (Some (occ(TileFromPosition (Position player) := None)))
       (CurrentRoomID player) (TileFromPosition (MotionPosition res))) \<and>
    (\<exists>occ'. occupied' = Some occ' \<and>
       (\<forall>tp. tp \<noteq> TileFromPosition (Position player) \<longrightarrow> tp \<noteq> TileFromPosition (MotionPosition res) \<longrightarrow>
          occ' tp = occ tp))"
proof (cases "SolitaryUntilTick player \<noteq> 0 \<and> tick \<le> SolitaryUntilTick player \<or>
    StunnedUntilTick player \<noteq> 0 \<and> tick \<le> StunnedUntilTick player")
  case True
  then have "(res, occupied') = ((motion_at (Position player))\<lparr>BlockedByStun := True\<rparr>, Some occ)"
    using assms(2) unfolding ResolveMoveIntent_def by (simp split: if_splits)
  then show ?thesis by (simp add: motion_at_def)
next
  case False
  let ?d = "clampVectorMagnitude \<lparr>X = MoveX input, Y = MoveY input\<rparr>
    (move_step_limit player (Sprint input) tick)"
  have res: "resolveVectorMotion player ?d layout mapState (Some occ) = (res, occupied')"
    using assms(2) False unfolding ResolveMoveIntent_def Let_def by (simp split: if_splits)
  show ?thesis
    using resolveVectorMotion_lands [OF assms(1) res] resolveVectorMotion_occupied [OF res] by auto
qed

definition walker :: PlayerState where
  "walker = zero_player\<lparr>ID := PlayerID ''w'', Alive := True, CurrentRoomID := RoomCorridorMain\<rparr>"

definition open_map :: MapState where
  "open_map = \<lparr>PowerOn = True, Alarm = inactive_alarm, BlackMarketRoomID = NoRoom,
     Doors = [\<lparr>DoorState_ID = 1, RoomA = RoomWardenHQ, RoomB = RoomCorridorMain, Open = True,
       Locked = False, CanClose = True, BlockedUntilTick = 0, LockedByPlayerID = PlayerID ''''\<rparr>],
     Cells = [], RestrictedZones = []\<rparr>"

text \<open>A walker 0.425 tiles right of the origin sprints right and reaches the door tile.\<close>

definition sprint_right :: MovementInputPayload where
  "sprint_right = \<lparr>MoveX = 0x3F800000, MoveY = 0, Sprint = True\<rparr>"

definition halfway :: PlayerState where
  "halfway = walker\<lparr>Position := \<lparr>X = 0x3ED9999A, Y = 0\<rparr>\<rparr>"

theorem ResolveMoveIntent_lands_witness:
  "\<exists>res occupied'. ResolveMoveIntent halfway sprint_right mini_layout open_map (Some Map.empty) 5 =
     (res, occupied') \<and> TileFromPosition (MotionPosition res) = pt 1 0 \<and>
     landing_ok halfway mini_layout open_map (Some Map.empty) RoomCorridorMain (pt 1 0)"
proof -
  obtain res occupied' where r: "ResolveMoveIntent halfway sprint_right mini_layout open_map
      (Some Map.empty) 5 = (res, occupied')" by fastforce
  have t: "TileFromPosition (MotionPosition (fst (ResolveMoveIntent halfway sprint_right mini_layout
      open_map (Some Map.empty) 5))) = pt 1 0" by code_simp
  have "TileFromPosition (Position halfway) = pt 0 0" by code_simp
  then have "MotionPosition res \<noteq> Position halfway" using t r by auto
  moreover have c: "CurrentRoomID halfway \<noteq> NoRoom" "CurrentRoomID halfway = RoomCorridorMain"
    by (simp_all add: halfway_def walker_def)
  ultimately show ?thesis using ResolveMoveIntent_lands [OF c(1) r] t r by (simp add: c(2))
qed

text \<open>C26. The target of a shot is the nearest one: for a living shooter with a positive range and
  aim radius, no target is chosen exactly when nobody is in reach; otherwise the chosen player is in
  reach and no player in reach is nearer to the aim, nor as near with a smaller identifier.\<close>

theorem SelectTarget_nearest:
  assumes "\<forall>c \<in> set ps. ID c \<noteq> PlayerID ''''" and "find_index (\<lambda>p. ID p = sh) ps = Some i"
    and "Alive (ps ! i)" and "f_less 0 reachTiles" and "f_less 0 radius"
    and "f_le (f_mul radius radius) MaxFloat32"
  shows "let reach = in_reach sh (Position (ps ! i)) aim (f_mul reachTiles reachTiles) (f_mul radius radius) in
    case SelectTarget ps sh aim reachTiles radius of
      None \<Rightarrow> (\<forall>c \<in> set ps. \<not> reach c)
    | Some t \<Rightarrow> (\<exists>c \<in> set ps. ID c = t \<and> reach c \<and>
        (\<forall>c' \<in> set ps. reach c' \<longrightarrow> aim_key aim c \<le> aim_key aim c'))"
proof -
  let ?pos = "Position (ps ! i)" let ?r2 = "f_mul reachTiles reachTiles" let ?a2 = "f_mul radius radius"
  let ?best = "target_loop ps sh ?pos aim ?r2 ?a2 (PlayerID '''') MaxFloat32"
  from assms(2) have i: "i < length ps" "ID (ps ! i) = sh" by (auto simp: find_index_Some)
  then have "sh \<noteq> PlayerID ''''" using assms(1) nth_mem by blast
  moreover have "\<not> f_le reachTiles 0" "\<not> f_le radius 0"
    using assms(4,5) by (auto simp: f_le_rank f_less_rank)
  ultimately have sel: "SelectTarget ps sh aim reachTiles radius = (if ?best = PlayerID '''' then None else Some ?best)"
    using i assms(2,3) by (auto simp: SelectTarget_def Let_def)
  have "\<forall>c \<in> set ps. in_reach sh ?pos aim ?r2 ?a2 c \<longrightarrow>
      f_rank (distanceSquared aim (Position c)) \<le> f_rank MaxFloat32"
    using assms(6) by (auto simp: in_reach_def f_less_rank f_le_rank)
  from target_loop_start [OF _ assms(1) this]
  have "reach_keys ps sh ?pos aim ?r2 ?a2 = {} \<and> ?best = PlayerID '''' \<or>
    (\<exists>K \<in> reach_keys ps sh ?pos aim ?r2 ?a2. ?best = snd K \<and> (\<forall>x \<in> reach_keys ps sh ?pos aim ?r2 ?a2. K \<le> x))"
    using assms(6) by (simp add: f_le_rank)
  then show ?thesis
  proof (elim disjE conjE bexE)
    fix K assume K: "K \<in> reach_keys ps sh ?pos aim ?r2 ?a2" "?best = snd K"
      "\<forall>x \<in> reach_keys ps sh ?pos aim ?r2 ?a2. K \<le> x"
    then obtain c where c: "c \<in> set ps" "in_reach sh ?pos aim ?r2 ?a2 c" "K = aim_key aim c" by auto
    then have b: "?best = ID c" "ID c \<noteq> PlayerID ''''" using K(2) assms(1) by (simp_all add: aim_key_def)
    show ?thesis unfolding sel Let_def using b c K(3) by auto
  next
    assume e: "reach_keys ps sh ?pos aim ?r2 ?a2 = {}" "?best = PlayerID ''''"
    show ?thesis unfolding sel Let_def using e by auto
  qed
qed

definition firing_line :: "PlayerState list" where
  "firing_line =
     [zero_player\<lparr>ID := PlayerID ''a'', Alive := True\<rparr>,
      zero_player\<lparr>ID := PlayerID ''c'', Alive := True, Position := \<lparr>X = 0x40400000, Y = 0\<rparr>\<rparr>,
      zero_player\<lparr>ID := PlayerID ''b'', Alive := True, Position := \<lparr>X = 0x40000000, Y = 0\<rparr>\<rparr>]"

definition aim_point :: Vector2 where
  "aim_point = \<lparr>X = 0x40200000, Y = 0\<rparr>"

theorem SelectTarget_nearest_witness:
  "\<exists>c \<in> set firing_line. ID c = PlayerID ''b'' \<and>
     (\<forall>c' \<in> set firing_line. in_reach (PlayerID ''a'') (Position (firing_line ! 0)) aim_point
        (f_mul PistolRangeTiles PistolRangeTiles) (f_mul AimAssistRadiusTiles AimAssistRadiusTiles) c' \<longrightarrow>
        aim_key aim_point c \<le> aim_key aim_point c')"
proof -
  have 1: "\<forall>c \<in> set firing_line. ID c \<noteq> PlayerID ''''" by (simp add: firing_line_def)
  have 2: "find_index (\<lambda>p. ID p = PlayerID ''a'') firing_line = Some 0" "Alive (firing_line ! 0)"
    by (simp_all add: firing_line_def)
  have 3: "f_less 0 PistolRangeTiles" "f_less 0 AimAssistRadiusTiles"
    "f_le (f_mul AimAssistRadiusTiles AimAssistRadiusTiles) MaxFloat32" by code_simp+
  have "SelectTarget firing_line (PlayerID ''a'') aim_point PistolRangeTiles AimAssistRadiusTiles =
      Some (PlayerID ''b'')" by code_simp
  then show ?thesis using SelectTarget_nearest [OF 1 2 3, of aim_point] unfolding Let_def by auto
qed

end
