(* ===== verification/Spawn.thy ===== *)
theory Spawn
  imports InputQueue Physics Roles "HOL-Library.Signed_Division"
begin

text \<open>
  Setting up a match (\<open>src/internal/server/game/manager.go\<close>): the initial game state, the player
  list, assigned abilities, cells and spawn positions, loadouts, and the NPC prisoners with their
  bribe offers. A loop that writes through pointers into \<open>gameState.Players\<close> is a recursion over the
  indices in the order of the loop.
\<close>

section \<open>The layout of all matches\<close>

text \<open>The package variable \<open>defaultMatchLayout\<close>; its construction succeeds (\<open>default_layout_built\<close>).\<close>

definition defaultMatchLayout :: Layout where
  "defaultMatchLayout =
     (case DefaultPrisonLayout of Some l \<Rightarrow> l | None \<Rightarrow> build (newLayoutBuilder 0 0))"

definition newInitialGameState :: "MatchID \<Rightarrow> MatchStatus \<Rightarrow> ServerConfig \<Rightarrow> GameState" where
  "newInitialGameState matchID status config =
     (let mapState = ToMapState defaultMatchLayout;
          mapState = mapState\<lparr>PowerOn := True\<rparr>;
          mapState = mapState\<lparr>Alarm := inactive_alarm\<rparr>
      in \<lparr>GameState_MatchID = matchID, TickID = 0, Status = status, CycleCount = 0,
          Phase = InitialPhaseState (phaseConfig config) 1, Map = mapState, Players = [],
          Entities = [], GameOver = None\<rparr>)"

section \<open>The player list\<close>

text \<open>\<open>existing\<close> as a map: a later player of the list with the same identifier wins.\<close>

definition existing_players :: "PlayerState list \<Rightarrow> PlayerID \<rightharpoonup> PlayerState" where
  "existing_players ps = map_of (rev (map (\<lambda>p. (ID p, p)) ps))"

definition synced_player :: "(PlayerID \<rightharpoonup> PlayerState) \<Rightarrow> PlayerID \<Rightarrow> PlayerSession \<Rightarrow> PlayerState" where
  "synced_player existing playerID playerSession =
     (let state = (case existing playerID of
            Some state \<Rightarrow> state
          | None \<Rightarrow> zero_player\<lparr>ID := playerID, Name := PS_Name playerSession, Connected := True,
              Alive := True, HeartsHalf := 6, LivesRemaining := DefaultPlayerLives,
              Facing := \<lparr>X = 0x3F800000, Y = 0\<rparr>\<rparr>)
      in state\<lparr>ID := playerID, Name := PS_Name playerSession\<rparr>)"

definition syncGameStatePlayersLocked :: "matchSession \<Rightarrow> matchSession" where
  "syncGameStatePlayersLocked session =
     (let existing = existing_players (Players (s_gameState session));
          entries = sort_key fst (s_players session)
      in session\<lparr>s_gameState := (s_gameState session)\<lparr>Players :=
           map (\<lambda>(playerID, playerSession). synced_player existing playerID playerSession) entries\<rparr>\<rparr>)"

definition setPlayerConnectedLocked :: "matchSession \<Rightarrow> PlayerID \<Rightarrow> bool \<Rightarrow> matchSession \<times> bool" where
  "setPlayerConnectedLocked session playerID isConnected =
     (if playerID = PlayerID '''' then (session, False)
      else case find_index (\<lambda>p. ID p = playerID) (Players (s_gameState session)) of
        None \<Rightarrow> (session, False)
      | Some i \<Rightarrow>
          let player = (Players (s_gameState session) ! i)\<lparr>Connected := isConnected\<rparr>;
              player = (if \<not> isConnected then player\<lparr>Velocity := zero_vector\<rparr> else player)
          in (session\<lparr>s_gameState := (s_gameState session)\<lparr>Players :=
                (Players (s_gameState session))[i := player]\<rparr>\<rparr>, True))"

section \<open>Abilities\<close>

definition deterministicAssignedAbility :: "MatchID \<Rightarrow> PlayerState \<Rightarrow> AbilityType" where
  "deterministicAssignedAbility matchID player =
     (let eligible = AbilitiesForPlayer player
      in if length eligible = 0 then AbilityType ''''
         else
           let h = fnv_Write fnv_New64a (bytes_of_string (MatchID_str matchID));
               h = fnv_Write h (bytes_of_string (PlayerID_str (ID player)));
               h = fnv_Write h (bytes_of_string (RoleType_str (Role player)))
           in eligible ! mod_index h (length eligible))"

definition assignRandomAbilitiesLocked :: "matchSession \<Rightarrow> matchSession" where
  "assignRandomAbilitiesLocked session =
     session\<lparr>s_gameState := (s_gameState session)\<lparr>Players :=
       map (\<lambda>p. p\<lparr>AssignedAbility := deterministicAssignedAbility (s_matchID session) p\<rparr>)
         (Players (s_gameState session))\<rparr>\<rparr>"

section \<open>Spawn positions\<close>

definition clamp_fraction :: "float32 \<Rightarrow> float32" where
  "clamp_fraction f =
     (let f = (if f_less f 0 then 0 else f)
      in if f_less 0x3F800000 f then 0x3F800000 else f)"

definition fraction_coordinate :: "int \<Rightarrow> int \<Rightarrow> float32 \<Rightarrow> int" where
  "fraction_coordinate lo hi fraction =
     (let x = lo + f_int (f_add (f_mul (f_of_int (hi - lo)) fraction) 0x3F000000);
          x = (if x < lo then lo else x)
      in if x > hi then hi else x)"

definition spawnPositionAtRoomFraction :: "Room \<Rightarrow> float32 \<Rightarrow> float32 \<Rightarrow> Vector2" where
  "spawnPositionAtRoomFraction room fractionX fractionY =
     (let x = fraction_coordinate (PX (RoomMin room)) (PX (RoomMax room)) (clamp_fraction fractionX);
          y = fraction_coordinate (PY (RoomMin room)) (PY (RoomMax room)) (clamp_fraction fractionY)
      in \<lparr>X = f_of_int x, Y = f_of_int y\<rparr>)"

definition spawnPositionForPlayerIndex :: "int \<Rightarrow> Vector2" where
  "spawnPositionForPlayerIndex k =
     (case Layout_Room defaultMatchLayout RoomCellBlockA of
        None \<Rightarrow> \<lparr>X = 0x40000000, Y = 0x41500000\<rparr>
      | Some room \<Rightarrow>
          let minX = PX (RoomMin room); minY = PY (RoomMin room);
              maxX = PX (RoomMax room); maxY = PY (RoomMax room);
              w = (maxX - minX) + 1
          in if w \<le> 0 then \<lparr>X = f_of_int minX, Y = f_of_int minY\<rparr>
             else
               let column = k smod w;
                   row = k sdiv w;
                   y = minY + row;
                   y = (if y > maxY then maxY else y)
               in \<lparr>X = f_of_int (minX + column), Y = f_of_int y\<rparr>)"

text \<open>The fractions 0.22, 0.78, 0.50, 0.38 and 0.62 in binary32.\<close>

definition ammo_spawns :: "(float32 \<times> float32) list" where
  "ammo_spawns = [(0x3E6147AE, 0x3E6147AE), (0x3F47AE14, 0x3E6147AE), (0x3E6147AE, 0x3F47AE14),
     (0x3F47AE14, 0x3F47AE14), (0x3F000000, 0x3EC28F5C), (0x3F000000, 0x3F1EB852)]"

definition spawnPositionInRoom :: "RoomID \<Rightarrow> int \<Rightarrow> Vector2" where
  "spawnPositionInRoom roomID k =
     (let k = (if k < 0 then 0 else k)
      in case Layout_Room defaultMatchLayout roomID of
           None \<Rightarrow> spawnPositionForPlayerIndex k
         | Some room \<Rightarrow>
             if roomID = RoomWardenHQ then spawnPositionAtRoomFraction room 0x3F000000 0x3F000000
             else if roomID = RoomAmmoRoom
             then (case ammo_spawns ! nat (k mod int (length ammo_spawns)) of
                     (fx, fy) \<Rightarrow> spawnPositionAtRoomFraction room fx fy)
             else spawnPositionForPlayerIndex k)"

section \<open>Cells\<close>

record cell_state =
  cs_players :: "PlayerState list"
  cs_cells :: "CellState list"
  cs_prisonerSpawnIndex :: int
  cs_deputySpawnIndex :: int

text \<open>The role switch, the same with and without a cell.\<close>

definition place_player :: "nat \<Rightarrow> cell_state \<Rightarrow> cell_state" where
  "place_player i st =
     (let player = cs_players st ! i
      in if Role player = RoleWarden
         then st\<lparr>cs_players := (cs_players st)[i := player\<lparr>CurrentRoomID := RoomWardenHQ,
                Position := spawnPositionInRoom RoomWardenHQ 0\<rparr>]\<rparr>
         else if Role player = RoleDeputy
         then st\<lparr>cs_players := (cs_players st)[i := player\<lparr>CurrentRoomID := RoomAmmoRoom,
                Position := spawnPositionInRoom RoomAmmoRoom (cs_deputySpawnIndex st)\<rparr>],
                cs_deputySpawnIndex := cs_deputySpawnIndex st + 1\<rparr>
         else st\<lparr>cs_players := (cs_players st)[i := player\<lparr>CurrentRoomID := RoomCellBlockA,
                Position := spawnPositionForPlayerIndex (cs_prisonerSpawnIndex st)\<rparr>],
                cs_prisonerSpawnIndex := cs_prisonerSpawnIndex st + 1\<rparr>)"

fun cell_loop :: "nat \<Rightarrow> nat list \<Rightarrow> cell_state \<Rightarrow> cell_state" where
  "cell_loop idx [] st = st"
| "cell_loop idx (i # rest) st =
     (let player = (cs_players st ! i)\<lparr>LockedInCell := 0, Velocity := zero_vector, AssignedCell := 0\<rparr>;
          st = st\<lparr>cs_players := (cs_players st)[i := player]\<rparr>;
          st = (if idx \<ge> length (cs_cells st) then st
                else
                  let cell = (cs_cells st ! idx)\<lparr>OwnerPlayerID := ID player, OccupantPlayerIDs := [ID player]\<rparr>
                  in st\<lparr>cs_cells := (cs_cells st)[idx := cell],
                        cs_players := (cs_players st)[i := player\<lparr>AssignedCell := CellState_ID cell\<rparr>]\<rparr>)
      in cell_loop (Suc idx) rest (place_player i st))"

text \<open>\<open>sort.Slice\<close> of the player pointers by identifier.\<close>

definition order_by_id :: "PlayerState list \<Rightarrow> nat list" where
  "order_by_id ps = sort_key (\<lambda>i. ID (ps ! i)) [0 ..< length ps]"

definition assignCellsLocked :: "matchSession \<Rightarrow> matchSession" where
  "assignCellsLocked session =
     (let gs = s_gameState session
      in if length (Players gs) = 0 \<or> length (Cells (Map gs)) = 0 then session
         else
           let cs = map (\<lambda>c. c\<lparr>OwnerPlayerID := PlayerID '''', OccupantPlayerIDs := []\<rparr>) (Cells (Map gs));
               st = cell_loop 0 (order_by_id (Players gs))
                 \<lparr>cs_players = Players gs, cs_cells = cs, cs_prisonerSpawnIndex = 0, cs_deputySpawnIndex = 0\<rparr>
           in session\<lparr>s_gameState := gs\<lparr>Players := cs_players st,
                Map := (Map gs)\<lparr>Cells := cs_cells st\<rparr>\<rparr>\<rparr>)"

section \<open>Inventories\<close>

definition playerInventorySlotCount :: uint8 where "playerInventorySlotCount = 3"
definition authorityAmmoMax :: uint8 where "authorityAmmoMax = 3"

text \<open>An operation that reports success by a boolean and leaves the player alone when it fails.\<close>

definition attempt :: "PlayerState \<Rightarrow> PlayerState option \<Rightarrow> PlayerState \<times> bool" where
  "attempt p r = (case r of None \<Rightarrow> (p, False) | Some p' \<Rightarrow> (p', True))"

definition inventoryItemQuantity :: "ItemStack list \<Rightarrow> ItemType \<Rightarrow> uint8" where
  "inventoryItemQuantity inventory item =
     (case List.find (\<lambda>s. Item s = item) inventory of None \<Rightarrow> 0 | Some s \<Rightarrow> Quantity s)"

definition syncAuthorityBulletStackLocked :: "PlayerState \<Rightarrow> PlayerState \<times> bool" where
  "syncAuthorityBulletStackLocked player =
     (if \<not> IsAuthorityPlayer player then (player, False)
      else
        let (player, changed) = (if Bullets player > authorityAmmoMax
              then (player\<lparr>Bullets := authorityAmmoMax\<rparr>, True) else (player, False));
            current = inventoryItemQuantity (Inventory player) ItemBullet;
            (player, removed) = (if current > 0 then attempt player (RemoveItem player ItemBullet current)
                                 else (player, False));
            (player, added) = (if Bullets player > 0
               then attempt player (AddItem player ItemBullet (Bullets player)) else (player, False))
        in (player, changed \<or> removed \<or> added))"

definition preferredEquippedWeapon :: "PlayerState \<Rightarrow> ItemType" where
  "preferredEquippedWeapon player =
     (case List.find (\<lambda>weapon. CanUseWeapon player weapon)
             [ItemPistol, ItemHuntingRifle, ItemBaton, ItemShiv] of
        None \<Rightarrow> NoItem | Some weapon \<Rightarrow> weapon)"

definition ensureEquippedItemForPlayerLocked :: "PlayerState \<Rightarrow> PlayerState \<times> bool" where
  "ensureEquippedItemForPlayerLocked player =
     (if EquippedItem player \<noteq> NoItem \<and> CanUseWeapon player (EquippedItem player) then (player, False)
      else
        let next = preferredEquippedWeapon player
        in if EquippedItem player = next then (player, False)
           else (player\<lparr>EquippedItem := next\<rparr>, True))"

fun rebuild_inventory :: "ItemStack list \<Rightarrow> PlayerState \<Rightarrow> PlayerState" where
  "rebuild_inventory [] rebuilt = rebuilt"
| "rebuild_inventory (s # rest) rebuilt =
     (if Item s = NoItem \<or> Quantity s = 0 \<or> \<not> IsKnownItem (Item s) then rebuild_inventory rest rebuilt
      else rebuild_inventory rest (fst (attempt rebuilt (AddItem rebuilt (Item s) (Quantity s)))))"

definition normalizeInventoryToPlayerSlotsLocked :: "PlayerState \<Rightarrow> PlayerState" where
  "normalizeInventoryToPlayerSlotsLocked player =
     (let canon = sort_key Item (Inventory player);
          rebuilt = zero_player\<lparr>InventorySlots := InventorySlots player\<rparr>
      in player\<lparr>Inventory := Inventory (rebuild_inventory canon rebuilt)\<rparr>)"

definition inventory_loadout :: "PlayerState \<Rightarrow> PlayerState" where
  "inventory_loadout player =
     (let player = player\<lparr>InventorySlots := playerInventorySlotCount\<rparr>
      in if IsAuthorityPlayer player then
           let player = player\<lparr>Inventory := []\<rparr>;
               player = fst (attempt player (AddItem player ItemBaton 1));
               player = fst (attempt player (AddItem player ItemPistol 1));
               player = (if Bullets player = 0 then player\<lparr>Bullets := authorityAmmoMax\<rparr> else player);
               player = (if Bullets player > authorityAmmoMax
                         then player\<lparr>Bullets := authorityAmmoMax\<rparr> else player);
               player = fst (syncAuthorityBulletStackLocked player)
           in player\<lparr>EquippedItem := ItemPistol\<rparr>
         else fst (ensureEquippedItemForPlayerLocked (normalizeInventoryToPlayerSlotsLocked player)))"

definition applyInventoryLoadoutsLocked :: "GameState \<Rightarrow> GameState" where
  "applyInventoryLoadoutsLocked state = state\<lparr>Players := map inventory_loadout (Players state)\<rparr>"

section \<open>NPC prisoners\<close>

definition npcPrisonerSpawnCount :: nat where "npcPrisonerSpawnCount = 3"

definition spawn_probe :: PlayerState where
  "spawn_probe = zero_player\<lparr>ID := PlayerID ''npc_spawn_probe'', Role := RoleGangMember,
     Faction := FactionPrisoner\<rparr>"

definition npcPrisonerSpawnRoomCandidates :: "MapState \<Rightarrow> RoomID list" where
  "npcPrisonerSpawnRoomCandidates mapState =
     sort (map Room_ID (filter (\<lambda>room. Room_ID room \<noteq> NoRoom \<and>
       (IsCorridor room \<or> CanEnterRoom spawn_probe (Room_ID room) mapState)) (Rooms defaultMatchLayout)))"

definition npcPrisonerTaskVisitRooms :: "RoomID list" where
  "npcPrisonerTaskVisitRooms = npcPrisonerSpawnRoomCandidates (ToMapState defaultMatchLayout)"

definition spawn_score :: "MatchID \<Rightarrow> RoomID \<Rightarrow> uint64" where
  "spawn_score matchID roomID =
     (let h = fnv_Write fnv_New64a (bytes_of_string (MatchID_str matchID));
          h = fnv_Write h [0]
      in fnv_Write h (bytes_of_string (RoomID_str roomID)))"

definition deterministicNPCPrisonerSpawnRooms :: "MatchID \<Rightarrow> MapState \<Rightarrow> nat \<Rightarrow> RoomID list" where
  "deterministicNPCPrisonerSpawnRooms matchID mapState n =
     (if n = 0 then []
      else
        let scored = sort_key (\<lambda>r. (spawn_score matchID r, r)) (npcPrisonerSpawnRoomCandidates mapState)
        in take n scored)"

definition deterministicNPCPrisonerOffer ::
  "MatchID \<Rightarrow> RoomID \<Rightarrow> EntityID \<Rightarrow> uint8 \<Rightarrow> (ItemType \<times> uint8) option" where
  "deterministicNPCPrisonerOffer matchID roomID entityID cycle =
     (let eligible = filter (\<lambda>ofr. \<not> (OfferQuantity ofr = 0 \<or> MoneyCardCost ofr = 0) \<and>
            \<not> (OfferItem ofr = ItemGoldenBullet \<or> OfferItem ofr = ItemPistol \<or>
               OfferItem ofr = ItemHuntingRifle)) BlackMarketCatalog
      in if length eligible = 0 then None
         else
           let eligible = sort_key OfferItem eligible;
               h = fnv_Write fnv_New64a (bytes_of_string (MatchID_str matchID));
               h = fnv_Write h (bytes_of_string (RoomID_str roomID));
               h = fnv_Write h (bytes_of_string (Itoa (unat entityID)));
               h = fnv_Write h [cycle];
               selected = eligible ! mod_index h (length eligible)
           in Some (OfferItem selected, MoneyCardCost selected))"

definition npcPrisonerTags :: "npcPrisonerBribeState \<Rightarrow> string list" where
  "npcPrisonerTags state =
     (let tags = [''npc_prisoner'',
            ''offer_item:'' @ ItemType_str (BribeOfferItem state),
            ''offer_cost:'' @ Itoa (unat (BribeOfferCost state)),
            ''stock:'' @ Itoa (unat (BribeStock state))];
          tags = (if PayerID state \<noteq> PlayerID '''' then tags @ [''payer:'' @ PlayerID_str (PayerID state)] else tags);
          tags = (if PaidCards state > 0 then tags @ [''paid:'' @ Itoa (unat (PaidCards state))] else tags)
      in sort tags)"

definition fresh_offer :: "ItemType \<Rightarrow> uint8 \<Rightarrow> npcPrisonerBribeState" where
  "fresh_offer item cost = \<lparr>BribeOfferItem = item, BribeOfferCost = cost, BribeStock = 1,
     PayerID = PlayerID '''', PaidCards = 0\<rparr>"

definition room_centre :: "RoomID \<Rightarrow> Vector2" where
  "room_centre roomID =
     (case Layout_Room defaultMatchLayout roomID of
        None \<Rightarrow> zero_vector
      | Some room \<Rightarrow>
          \<lparr>X = f_div (f_of_int (PX (RoomMin room) + PX (RoomMax room))) 0x40000000,
           Y = f_div (f_of_int (PY (RoomMin room) + PY (RoomMax room))) 0x40000000\<rparr>)"

fun npc_spawn_loop :: "RoomID list \<Rightarrow> matchSession \<Rightarrow> matchSession" where
  "npc_spawn_loop [] session = session"
| "npc_spawn_loop (roomID # rest) session =
     (let session = session\<lparr>s_nextEntityID := s_nextEntityID session + 1\<rparr>;
          entityID = s_nextEntityID session
      in npc_spawn_loop rest
           (case deterministicNPCPrisonerOffer (s_matchID session) roomID entityID 0 of
              None \<Rightarrow> session
            | Some (offerItem, offerCost) \<Rightarrow>
                let state = fresh_offer offerItem offerCost
                in session\<lparr>s_npcPrisonerBribeState := (s_npcPrisonerBribeState session)(entityID \<mapsto> state),
                     s_gameState := (s_gameState session)\<lparr>Entities := Entities (s_gameState session) @
                       [\<lparr>EntityState_ID = entityID, Kind = EntityKindNPCPrisoner,
                         EntityOwnerPlayerID = PlayerID '''', EntityPosition = room_centre roomID,
                         EntityVelocity = zero_vector, EntityHeartsHalf = 0, EntityActive = True,
                         EntityRoomID = roomID, Tags = npcPrisonerTags state\<rparr>]\<rparr>\<rparr>))"

definition spawnNPCPrisonersLocked :: "matchSession \<Rightarrow> matchSession" where
  "spawnNPCPrisonersLocked session =
     (let spawnRooms = deterministicNPCPrisonerSpawnRooms (s_matchID session)
            (Map (s_gameState session)) npcPrisonerSpawnCount;
          spawnRooms = (if length spawnRooms = 0 then npcPrisonerTaskVisitRooms else spawnRooms);
          spawnRooms = (if length spawnRooms = 0 then [RoomCorridorMain] else spawnRooms)
      in npc_spawn_loop spawnRooms session)"

end
