(* ===== verification/Feedback.thy ===== *)
theory Feedback
  imports Spawn Prison Escape
begin

text \<open>
  Functions of the match manager on one player (\<open>src/internal/server/game/manager.go\<close>): feedback
  messages, timed effects, the loss of a life and the respawn, cards in hand, and the labels that
  the messages use. A Go function that writes through a pointer to a player and reports whether it
  changed something is a function to the new player and that flag.
\<close>

section \<open>Feedback\<close>

definition applyActionFeedbackLocked ::
  "PlayerState \<Rightarrow> ActionFeedbackKind \<Rightarrow> ActionFeedbackLevel \<Rightarrow> string \<Rightarrow> uint64 \<Rightarrow> PlayerState \<times> bool" where
  "applyActionFeedbackLocked player kind level message tickID =
     (if kind = ActionFeedbackKindNone then (player, False)
      else
        let trimmedMessage = TrimSpace message
        in if trimmedMessage = '''' then (player, False)
           else
             let level = (if level = ActionFeedbackLevelNone then ActionFeedbackLevelInfo else level);
                 next = \<lparr>FeedbackKind = kind, FeedbackLevel = level, FeedbackMessage = trimmedMessage,
                         FeedbackTickID = tickID\<rparr>
             in if LastActionFeedback player = next then (player, False)
                else (player\<lparr>LastActionFeedback := next\<rparr>, True))"

definition applyEscapeFeedbackLocked ::
  "PlayerState \<Rightarrow> EscapeRouteType \<Rightarrow> bool \<Rightarrow> string \<Rightarrow> uint64 \<Rightarrow> PlayerState \<times> bool" where
  "applyEscapeFeedbackLocked player route success reason tickID =
     (if route = EscapeRouteType '''' then (player, False)
      else
        let status = (if success then EscapeAttemptStatusSuccess else EscapeAttemptStatusFailed);
            next = \<lparr>Route = route, AttemptStatus = status, AttemptReason = TrimSpace reason,
                    AttemptTickID = tickID\<rparr>
        in if LastEscapeAttempt player = next then (player, False)
           else (player\<lparr>LastEscapeAttempt := next\<rparr>, True))"

definition doorOpenLabel :: "bool \<Rightarrow> string" where
  "doorOpenLabel isOpen = (if isOpen then ''opened'' else ''closed'')"

definition formatHalfHearts :: "uint8 \<Rightarrow> string" where
  "formatHalfHearts halfHearts =
     (let whole = halfHearts div 2
      in if halfHearts mod 2 = 0 then Itoa (unat whole) else Itoa (unat whole) @ ''.5'')"

definition roomLabelForFeedback :: "RoomID \<Rightarrow> string" where
  "roomLabelForFeedback roomID =
     (if roomID = RoomCorridorMain then ''Main Corridor''
      else if roomID = RoomCellBlockA then ''Cell Block A''
      else if roomID = RoomWardenHQ then ''Warden HQ''
      else if roomID = RoomCameraRoom then ''Camera Room''
      else if roomID = RoomPowerRoom then ''Power Room''
      else if roomID = RoomAmmoRoom then ''Ammo Room''
      else if roomID = RoomBlackMarket then ''Black Market''
      else if roomID = RoomCafeteria then ''Cafeteria''
      else if roomID = RoomMailRoom then ''Mail Room''
      else if roomID = RoomCourtyard then ''Courtyard''
      else if roomID = RoomRoofLookout then ''Roof Lookout''
      else map (\<lambda>c. if c = CHR ''_'' then CHR '' '' else c) (RoomID_str roomID))"

text \<open>\<open>strings.Join\<close>.\<close>

fun Join :: "string list \<Rightarrow> string \<Rightarrow> string" where
  "Join [] sep = ''''"
| "Join [x] sep = x"
| "Join (x # y # rest) sep = x @ sep @ Join (y # rest) sep"

definition stack_label :: "ItemStack \<Rightarrow> string" where
  "stack_label s = ItemType_str (Item s) @ '' x'' @ Itoa (unat (Quantity s))"

definition summarizeInventoryForFeedback :: "ItemStack list \<Rightarrow> string" where
  "summarizeInventoryForFeedback inventory =
     (if length inventory = 0 then ''empty''
      else
        let parts = map stack_label (filter (\<lambda>s. \<not> (Item s = NoItem \<or> Quantity s = 0)) inventory)
        in if length parts = 0 then ''empty'' else Join (sort parts) '', '')"

section \<open>Effects\<close>

definition refresh_effect :: "EffectState \<Rightarrow> uint64 \<Rightarrow> PlayerID \<Rightarrow> EntityID \<Rightarrow> uint8 \<Rightarrow> EffectState \<times> bool" where
  "refresh_effect e endsTick sourcePID sourceID stacks =
     (let (e, changed) = (if endsTick > EffectEndsTick e then (e\<lparr>EffectEndsTick := endsTick\<rparr>, True)
                          else (e, False));
          (e, changed) = (if sourcePID \<noteq> PlayerID '''' \<and> SourcePID e \<noteq> sourcePID
                          then (e\<lparr>SourcePID := sourcePID\<rparr>, True) else (e, changed));
          (e, changed) = (if sourceID \<noteq> 0 \<and> SourceID e \<noteq> sourceID
                          then (e\<lparr>SourceID := sourceID\<rparr>, True) else (e, changed))
      in if stacks > Stacks e then (e\<lparr>Stacks := stacks\<rparr>, True) else (e, changed))"

definition upsertEffectLocked ::
  "PlayerState \<Rightarrow> EffectType \<Rightarrow> uint64 \<Rightarrow> PlayerID \<Rightarrow> EntityID \<Rightarrow> uint8 \<Rightarrow> PlayerState \<times> bool" where
  "upsertEffectLocked player effect endsTick sourcePID sourceID stacks =
     (if effect = EffectNone then (player, False)
      else
        let stacks = (if stacks = 0 then 1 else stacks)
        in case find_index (\<lambda>e. Effect e = effect) (Effects player) of
             Some i \<Rightarrow>
               let (e, changed) = refresh_effect (Effects player ! i) endsTick sourcePID sourceID stacks
               in (player\<lparr>Effects := (Effects player)[i := e]\<rparr>, changed)
           | None \<Rightarrow>
               (player\<lparr>Effects := Effects player @ [\<lparr>Effect = effect, EffectEndsTick = endsTick,
                  Stacks = stacks, SourceID = sourceID, SourcePID = sourcePID\<rparr>]\<rparr>, True))"

definition removeEffectLocked :: "PlayerState \<Rightarrow> EffectType \<Rightarrow> PlayerState \<times> bool" where
  "removeEffectLocked player effect =
     (if effect = EffectNone \<or> length (Effects player) = 0 then (player, False)
      else
        let next = filter (\<lambda>existing. Effect existing \<noteq> effect) (Effects player);
            removed = list_ex (\<lambda>existing. Effect existing = effect) (Effects player)
        in if \<not> removed then (player, False) else (player\<lparr>Effects := next\<rparr>, True))"

section \<open>Losing a life\<close>

definition deterministicRespawnIndex :: "PlayerID \<Rightarrow> int \<Rightarrow> int" where
  "deterministicRespawnIndex playerID modulus =
     (if modulus \<le> 1 \<or> playerID = PlayerID '''' then 0
      else int (mod_index (fnv_Write fnv_New64a (bytes_of_string (PlayerID_str playerID))) (nat modulus)))"

definition respawnLocationForPlayer :: "PlayerState \<Rightarrow> RoomID \<times> Vector2" where
  "respawnLocationForPlayer player =
     (if Role player = RoleWarden then (RoomWardenHQ, spawnPositionInRoom RoomWardenHQ 0)
      else if Role player = RoleDeputy
      then (RoomAmmoRoom, spawnPositionInRoom RoomAmmoRoom (deterministicRespawnIndex (ID player) 6))
      else
        let spawnIndex = (if AssignedCell player > 0 then uint (AssignedCell player - 1) else 0)
        in (RoomCellBlockA, spawnPositionForPlayerIndex spawnIndex))"

text \<open>The result is the pair \<open>lifeLost, permanentlyEliminated\<close>.\<close>

definition consumeLifeAndRespawnIfAvailableLocked :: "PlayerState \<Rightarrow> PlayerState \<times> bool \<times> bool" where
  "consumeLifeAndRespawnIfAvailableLocked player =
     (let player = (if LivesRemaining player = 0 then player\<lparr>LivesRemaining := DefaultPlayerLives\<rparr>
                    else player);
          player = (if LivesRemaining player > 0
                    then player\<lparr>LivesRemaining := LivesRemaining player - 1\<rparr> else player)
      in if LivesRemaining player = 0 then (player, True, True)
         else
           let player = player\<lparr>Alive := True, HeartsHalf := MaxHeartsHalfForRole (Role player),
                 TempHeartsHalf := 0, StunnedUntilTick := 0, SolitaryUntilTick := 0,
                 LockedInCell := 0, Velocity := zero_vector, Effects := []\<rparr>;
               (roomID, position) = respawnLocationForPlayer player
           in (player\<lparr>CurrentRoomID := roomID, Position := position\<rparr>, True, False))"

text \<open>A hit followed by the loss of a life when it kills, as guards and shooters deal it.\<close>

definition hit_player :: "PlayerState \<Rightarrow> uint8 \<Rightarrow> PlayerState \<times> DamageResult \<times> bool" where
  "hit_player target damageHalf =
     (let (target, result) = ApplyDamage target damageHalf
      in if Eliminated result
         then (case consumeLifeAndRespawnIfAvailableLocked target of
                 (target, _, permanentlyEliminated) \<Rightarrow> (target, result, permanentlyEliminated))
         else (target, result, False))"

section \<open>Cards in hand\<close>

definition countPlayerCards :: "PlayerState \<Rightarrow> CardType \<Rightarrow> nat" where
  "countPlayerCards player target =
     (if target = CardType '''' \<or> length (Cards player) = 0 then 0
      else length (filter (\<lambda>c. c = target) (Cards player)))"

text \<open>The inner loop of \<open>consumePlayerCards\<close> returns the cards taken so far.\<close>

fun return_cards :: "nat \<Rightarrow> PlayerState \<Rightarrow> CardType \<Rightarrow> PlayerState" where
  "return_cards 0 player target = player"
| "return_cards (Suc n) player target =
     return_cards n (fst (attempt player (AddCard player target))) target"

fun consume_cards :: "nat \<Rightarrow> nat \<Rightarrow> PlayerState \<Rightarrow> CardType \<Rightarrow> PlayerState \<times> bool" where
  "consume_cards 0 removed player target = (player, True)"
| "consume_cards (Suc n) removed player target =
     (case RemoveCard player target of
        None \<Rightarrow> (return_cards removed player target, False)
      | Some player \<Rightarrow> consume_cards n (Suc removed) player target)"

definition consumePlayerCards :: "PlayerState \<Rightarrow> CardType \<Rightarrow> uint8 \<Rightarrow> PlayerState \<times> bool" where
  "consumePlayerCards player target quantity =
     (if target = CardType '''' then (player, False)
      else if quantity = 0 then (player, True)
      else consume_cards (unat quantity) 0 player target)"

section \<open>Items of a player\<close>

definition firstInventoryItem :: "ItemStack list \<Rightarrow> ItemType" where
  "firstInventoryItem inventory =
     foldl (\<lambda>first s. if Quantity s = 0 then first
                      else if first = NoItem \<or> Item s < first then Item s else first) NoItem inventory"

definition transferFirstStackQuantityLocked ::
  "PlayerState \<Rightarrow> PlayerState \<Rightarrow> uint8 \<Rightarrow> (PlayerState \<times> PlayerState) option" where
  "transferFirstStackQuantityLocked source dest quantity =
     (if quantity = 0 \<or> length (Inventory source) = 0 then None
      else
        let choice = firstInventoryItem (Inventory source)
        in if choice = NoItem then None else TransferItem source dest choice quantity)"

definition evict_first :: "(ItemStack \<Rightarrow> bool) \<Rightarrow> PlayerState \<Rightarrow> PlayerState option" where
  "evict_first allowed player =
     (case List.find (\<lambda>s. allowed s \<and> RemoveItem player (Item s) (Quantity s) \<noteq> None) (Inventory player) of
        None \<Rightarrow> None
      | Some s \<Rightarrow> RemoveItem player (Item s) (Quantity s))"

definition evictAuthorityOverflowItemForSidearmLocked :: "PlayerState \<Rightarrow> PlayerState \<times> bool" where
  "evictAuthorityOverflowItemForSidearmLocked player =
     (if length (Inventory player) = 0 then (player, False)
      else case evict_first (\<lambda>s. \<not> (Item s = ItemBaton \<or> Item s = ItemPistol \<or> Item s = ItemBullet)) player of
        Some player \<Rightarrow> (player, True)
      | None \<Rightarrow>
          (case List.find (\<lambda>s. Item s = ItemBullet \<and> Quantity s > 0) (Inventory player) of
             None \<Rightarrow> (player, False)
           | Some s \<Rightarrow> attempt player (RemoveItem player (Item s) (Quantity s))))"

definition restore_sidearms :: "PlayerState \<Rightarrow> PlayerState \<times> bool" where
  "restore_sidearms player =
     (let player = player\<lparr>InventorySlots := playerInventorySlotCount\<rparr>;
          player = normalizeInventoryToPlayerSlotsLocked player;
          (player, updated) = (if \<not> HasItem player ItemBaton 1
                               then attempt player (AddItem player ItemBaton 1) else (player, False));
          (player, updated) = (if \<not> HasItem player ItemPistol 1
             then (case AddItem player ItemPistol 1 of
                     Some player \<Rightarrow> (player, True)
                   | None \<Rightarrow>
                       (case evictAuthorityOverflowItemForSidearmLocked player of
                          (player, True) \<Rightarrow>
                            (case attempt player (AddItem player ItemPistol 1) of
                               (player, added) \<Rightarrow> (player, added \<or> updated))
                        | (player, False) \<Rightarrow> (player, updated)))
             else (player, updated));
          (player, synced) = syncAuthorityBulletStackLocked player;
          (player, equipped) = ensureEquippedItemForPlayerLocked player
      in (player, updated \<or> synced \<or> equipped))"

text \<open>Loops over all players that report the identifiers of the players they changed.\<close>

definition sweep_players :: "(PlayerState \<Rightarrow> PlayerState \<times> bool) \<Rightarrow> matchSession \<Rightarrow> matchSession \<times> PlayerID list" where
  "sweep_players f session =
     (let results = map (\<lambda>p. (ID p, f p)) (Players (s_gameState session))
      in (session\<lparr>s_gameState := (s_gameState session)\<lparr>Players := map (\<lambda>(_, p, _). p) results\<rparr>\<rparr>,
          List.map_filter (\<lambda>(playerID, _, changed). if changed then Some playerID else None) results))"

definition restoreAuthoritySidearmsForNewDayLocked :: "matchSession \<Rightarrow> matchSession \<times> PlayerID list" where
  "restoreAuthoritySidearmsForNewDayLocked session =
     sweep_players (\<lambda>p. if \<not> IsAuthorityPlayer p then (p, False) else restore_sidearms p) session"

definition clearNightCardChoicesLocked :: "matchSession \<Rightarrow> matchSession \<times> PlayerID list" where
  "clearNightCardChoicesLocked session =
     sweep_players (\<lambda>p. if length (NightCardChoices p) = 0 then (p, False)
                        else (p\<lparr>NightCardChoices := []\<rparr>, True)) session"

end
