(* ===== verification/Snapshots.thy ===== *)
theory Snapshots
  imports Spawn Succession
begin

text \<open>
  Deltas and snapshots of a match (\<open>src/internal/server/game/manager.go\<close>, from
  \<open>collectChangedPlayers\<close> to \<open>snapshotFromSession\<close>). A set of changed identifiers is a list without
  duplicates. Deep copies of slices are copies of values: \<open>cloneSnapshot\<close>, \<open>cloneGameDelta\<close> and
  \<open>cloneGameState\<close> are written out and shown to be the identity.
\<close>

section \<open>Collecting changes\<close>

text \<open>\<open>None\<close> is the panic of an index out of range (a changed player when there are none).\<close>

definition collectChangedPlayers :: "matchSession \<Rightarrow> (PlayerID \<rightharpoonup> nat) \<Rightarrow> PlayerID list \<Rightarrow> PlayerState list option" where
  "collectChangedPlayers session playerIndex changed =
     (let idxs = map (\<lambda>playerID. case playerIndex playerID of None \<Rightarrow> 0 | Some i \<Rightarrow> i) (sort changed)
      in if list_all (\<lambda>i. i < length (Players (s_gameState session))) idxs
         then Some (map (\<lambda>i. Players (s_gameState session) ! i) idxs)
         else None)"

definition first_with_id :: "('a \<Rightarrow> 'b) \<Rightarrow> 'a list \<Rightarrow> 'b \<Rightarrow> 'a option" where
  "first_with_id key xs k = List.find (\<lambda>x. key x = k) xs"

definition collect_by_id :: "('a \<Rightarrow> 'b::linorder) \<Rightarrow> 'a list \<Rightarrow> 'b list \<Rightarrow> 'a list" where
  "collect_by_id key xs changed = List.map_filter (first_with_id key xs) (sort changed)"

definition collectChangedDoors :: "matchSession \<Rightarrow> DoorID list \<Rightarrow> DoorState list" where
  "collectChangedDoors session changed =
     (if length changed = 0 then [] else collect_by_id DoorState_ID (Doors (Map (s_gameState session))) changed)"

definition collectChangedCells :: "matchSession \<Rightarrow> CellID list \<Rightarrow> CellState list" where
  "collectChangedCells session changed =
     (if length changed = 0 then [] else collect_by_id CellState_ID (Cells (Map (s_gameState session))) changed)"

definition collectChangedEntities :: "matchSession \<Rightarrow> EntityID list \<Rightarrow> EntityState list" where
  "collectChangedEntities session changed =
     (if length changed = 0 then [] else collect_by_id EntityState_ID (Entities (s_gameState session)) changed)"

definition collectRemovedEntityIDs :: "EntityID list \<Rightarrow> EntityID list" where
  "collectRemovedEntityIDs removed = sort removed"

text \<open>A map filled in order (later entries win), read out by increasing key.\<close>

definition by_id_sorted :: "('a \<Rightarrow> 'b::linorder) \<Rightarrow> 'a list \<Rightarrow> 'a list" where
  "by_id_sorted key xs = map snd (sort_key fst (fold (\<lambda>x. AList.update (key x) x) xs []))"

definition mergeChangedPlayersByIDLocked ::
  "matchSession \<Rightarrow> PlayerState list \<Rightarrow> PlayerID list \<Rightarrow> PlayerState list" where
  "mergeChangedPlayersByIDLocked session baseline extraIDs =
     (if length extraIDs = 0 then baseline
      else by_id_sorted ID
        (baseline @ filter (\<lambda>p. ID p \<in> set extraIDs) (Players (s_gameState session))))"

definition mergeChangedEntityStates :: "EntityState list \<Rightarrow> EntityState list \<Rightarrow> EntityState list" where
  "mergeChangedEntityStates first second =
     (if length first = 0 \<and> length second = 0 then [] else by_id_sorted EntityState_ID (first @ second))"

section \<open>Snapshots\<close>

definition buildPlayerAcksLocked :: "matchSession \<Rightarrow> PlayerAck list" where
  "buildPlayerAcksLocked session =
     map (\<lambda>playerID. \<lparr>AckPlayerID = playerID,
            LastProcessedClientSeq = zero_if_none (s_lastProcessedClientSeq session playerID)\<rparr>)
       (sort (map fst (s_players session)))"

definition copyPlayerState :: "PlayerState \<Rightarrow> PlayerState" where
  "copyPlayerState p = p\<lparr>Inventory := Inventory p, Cards := Cards p,
     NightCardChoices := NightCardChoices p, Effects := Effects p\<rparr>"

definition copy_cell :: "CellState \<Rightarrow> CellState" where
  "copy_cell c = c\<lparr>OccupantPlayerIDs := OccupantPlayerIDs c, Stash := Stash c\<rparr>"

definition copy_entity :: "EntityState \<Rightarrow> EntityState" where
  "copy_entity e = e\<lparr>Tags := Tags e\<rparr>"

definition copy_game_over :: "GameOverState \<Rightarrow> GameOverState" where
  "copy_game_over g = g\<lparr>WinnerPlayerIDs := WinnerPlayerIDs g\<rparr>"

definition copyGameState :: "GameState \<Rightarrow> GameState" where
  "copyGameState s = s\<lparr>Players := map copyPlayerState (Players s), Entities := map copy_entity (Entities s),
     Map := (Map s)\<lparr>Doors := Doors (Map s), Cells := map copy_cell (Cells (Map s)),
       RestrictedZones := RestrictedZones (Map s)\<rparr>,
     GameOver := map_option copy_game_over (GameOver s)\<rparr>"

definition cloneGameDelta :: "GameDelta \<Rightarrow> GameDelta" where
  "cloneGameDelta d = d\<lparr>ChangedPlayers := map copyPlayerState (ChangedPlayers d),
     RemovedPlayerIDs := RemovedPlayerIDs d, ChangedEntities := map copy_entity (ChangedEntities d),
     RemovedEntityIDs := RemovedEntityIDs d, ChangedDoors := ChangedDoors d,
     ChangedCells := map copy_cell (ChangedCells d), ChangedZones := ChangedZones d,
     DeltaPhase := DeltaPhase d, DeltaStatus := DeltaStatus d, DeltaCycleCount := DeltaCycleCount d,
     DeltaPowerOn := DeltaPowerOn d, DeltaAlarm := DeltaAlarm d,
     DeltaBlackMarketRoomID := DeltaBlackMarketRoomID d,
     DeltaGameOver := map_option copy_game_over (DeltaGameOver d)\<rparr>"

definition cloneSnapshot :: "Snapshot \<Rightarrow> Snapshot" where
  "cloneSnapshot s = s\<lparr>State := map_option copyGameState (State s),
     Delta := map_option cloneGameDelta (Delta s), PlayerAcks := PlayerAcks s\<rparr>"

definition makeFullSnapshotLocked :: "matchSession \<Rightarrow> Snapshot" where
  "makeFullSnapshotLocked session =
     \<lparr>SnapshotKind_of = SnapshotKindFull, SnapshotTickID = s_tickID session, BaseTickID = 0,
      State = Some (copyGameState (s_gameState session)), Delta = None,
      PlayerAcks = buildPlayerAcksLocked session\<rparr>"

definition historyLimit :: uint64 where "historyLimit = 256"

definition storeSnapshotLocked :: "matchSession \<Rightarrow> Snapshot \<Rightarrow> matchSession" where
  "storeSnapshotLocked session snapshot =
     (let session = session\<lparr>s_snapshotHistory :=
            AList.update (SnapshotTickID snapshot) (cloneSnapshot snapshot) (s_snapshotHistory session)\<rparr>
      in if SnapshotTickID snapshot \<le> historyLimit then session
         else
           let cutoff = SnapshotTickID snapshot - historyLimit
           in session\<lparr>s_snapshotHistory :=
                filter (\<lambda>(tickID, _). \<not> tickID < cutoff) (s_snapshotHistory session)\<rparr>)"

definition snapshotFromSession :: "matchSession \<Rightarrow> MatchSnapshot" where
  "snapshotFromSession session =
     \<lparr>MS_MatchID = s_matchID session, MS_Status = s_status session, MS_CreatedAt = s_createdAt session,
      MS_StartedAt = s_startedAt session, MS_EndedAt = s_endedAt session,
      MS_EndedReason = s_endedReason session, MS_TickID = s_tickID session,
      MS_Players = sort_key PS_PlayerID (map snd (s_players session))\<rparr>"

section \<open>Reading snapshots\<close>

definition FullSnapshot :: "Manager \<Rightarrow> MatchID \<Rightarrow> GameError + Snapshot" where
  "FullSnapshot m matchID =
     (case session_of m matchID of
        None \<Rightarrow> Inl ErrMatchNotFound
      | Some session \<Rightarrow> Inr (cloneSnapshot (makeFullSnapshotLocked session)))"

definition SnapshotsSince :: "Manager \<Rightarrow> MatchID \<Rightarrow> uint64 \<Rightarrow> GameError + Snapshot list" where
  "SnapshotsSince m matchID afterTick =
     (case session_of m matchID of
        None \<Rightarrow> Inl ErrMatchNotFound
      | Some session \<Rightarrow>
          let ticks = sort (filter (\<lambda>t. t > afterTick) (map fst (s_snapshotHistory session)))
          in Inr (map (\<lambda>t. cloneSnapshot (the (map_of (s_snapshotHistory session) t))) ticks))"

section \<open>Copies are the values\<close>

lemma copy_parts [simp]:
  "copyPlayerState = (\<lambda>p. p)" "copy_cell = (\<lambda>c. c)" "copy_entity = (\<lambda>e. e)" "copy_game_over = (\<lambda>g. g)"
  by (simp_all add: copyPlayerState_def copy_cell_def copy_entity_def copy_game_over_def fun_eq_iff)

lemma copy_states [simp]: "copyGameState = (\<lambda>s. s)" "cloneGameDelta = (\<lambda>d. d)"
  by (simp_all add: copyGameState_def cloneGameDelta_def option.map_ident fun_eq_iff)

lemma cloneSnapshot_id [simp]: "cloneSnapshot n = n"
  by (simp add: cloneSnapshot_def option.map_ident)

end
