(* ===== verification/Steps.thy ===== *)
theory Steps
  imports Feedback Snapshots WinConditions "HOL-Library.State_Monad"
begin

text \<open>
  The state that the command handlers of a tick share (\<open>applyInputsToGameStateLocked\<close> in
  \<open>src/internal/server/game/manager.go\<close>): the session and the sets of changed players, doors,
  cells and entities, of removed entities, the index of the players and the occupied tiles. A
  handler is a computation in the state monad over it, in the order of the code. A pointer into
  \<open>gameState.Players\<close> is its index; reading and writing go through the index, so two pointers to
  the same player alias as they do in Go. The sets are lists without duplicates.
\<close>

record tick_state =
  t_session :: matchSession
  changedPlayers :: "PlayerID list"
  changedDoors :: "DoorID list"
  changedCells :: "CellID list"
  changedEntities :: "EntityID list"
  removedEntities :: "EntityID list"
  occupiedTiles :: "Point \<rightharpoonup> PlayerID"
  playerIndex :: "PlayerID \<rightharpoonup> nat"

type_synonym 'a step = "(tick_state, 'a) state"

abbreviation ret :: "'a \<Rightarrow> 'a step" where "ret \<equiv> State_Monad.return"

section \<open>Reading and writing\<close>

definition asks :: "(matchSession \<Rightarrow> 'a) \<Rightarrow> 'a step" where
  "asks f = State (\<lambda>w. (f (t_session w), w))"

definition change :: "(matchSession \<Rightarrow> matchSession) \<Rightarrow> unit step" where
  "change f = State (\<lambda>w. ((), w\<lparr>t_session := f (t_session w)\<rparr>))"

definition session_players :: "matchSession \<Rightarrow> PlayerState list" where
  "session_players s = Players (s_gameState s)"

definition session_map :: "matchSession \<Rightarrow> MapState" where
  "session_map s = Map (s_gameState s)"

definition with_players :: "(PlayerState list \<Rightarrow> PlayerState list) \<Rightarrow> matchSession \<Rightarrow> matchSession" where
  "with_players f s = s\<lparr>s_gameState := (s_gameState s)\<lparr>Players := f (Players (s_gameState s))\<rparr>\<rparr>"

definition with_entities :: "(EntityState list \<Rightarrow> EntityState list) \<Rightarrow> matchSession \<Rightarrow> matchSession" where
  "with_entities f s = s\<lparr>s_gameState := (s_gameState s)\<lparr>Entities := f (Entities (s_gameState s))\<rparr>\<rparr>"

definition with_map :: "(MapState \<Rightarrow> MapState) \<Rightarrow> matchSession \<Rightarrow> matchSession" where
  "with_map f s = s\<lparr>s_gameState := (s_gameState s)\<lparr>Map := f (Map (s_gameState s))\<rparr>\<rparr>"

definition player_at :: "nat \<Rightarrow> PlayerState step" where
  "player_at i = asks (\<lambda>s. session_players s ! i)"

definition set_player :: "nat \<Rightarrow> PlayerState \<Rightarrow> unit step" where
  "set_player i p = change (with_players (\<lambda>ps. ps[i := p]))"

text \<open>A call through the pointer of a player.\<close>

definition on_player :: "nat \<Rightarrow> (PlayerState \<Rightarrow> PlayerState \<times> 'a) \<Rightarrow> 'a step" where
  "on_player i f = do { p \<leftarrow> player_at i; case f p of (q, r) \<Rightarrow> do { set_player i q; ret r } }"

definition edit_player :: "nat \<Rightarrow> (PlayerState \<Rightarrow> PlayerState) \<Rightarrow> unit step" where
  "edit_player i f = on_player i (\<lambda>p. (f p, ()))"

definition set_door :: "nat \<Rightarrow> DoorState \<Rightarrow> unit step" where
  "set_door k d = change (with_map (\<lambda>m. m\<lparr>Doors := (Doors m)[k := d]\<rparr>))"

definition whenever :: "bool \<Rightarrow> unit step \<Rightarrow> unit step" where
  "whenever b m = (if b then m else ret ())"

text \<open>Entering an identifier into a set of changes.\<close>

definition mark_player :: "PlayerID \<Rightarrow> unit step" where
  "mark_player k = State (\<lambda>w. ((), w\<lparr>changedPlayers := List.insert k (changedPlayers w)\<rparr>))"

definition mark_door :: "DoorID \<Rightarrow> unit step" where
  "mark_door k = State (\<lambda>w. ((), w\<lparr>changedDoors := List.insert k (changedDoors w)\<rparr>))"

definition mark_all_doors :: "unit step" where
  "mark_all_doors = State (\<lambda>w. ((), w\<lparr>changedDoors :=
     fold List.insert (map DoorState_ID (Doors (session_map (t_session w)))) (changedDoors w)\<rparr>))"

definition mark_cell :: "CellID \<Rightarrow> unit step" where
  "mark_cell k = State (\<lambda>w. ((), w\<lparr>changedCells := List.insert k (changedCells w)\<rparr>))"

definition mark_entity :: "EntityID \<Rightarrow> unit step" where
  "mark_entity k = State (\<lambda>w. ((), w\<lparr>changedEntities := List.insert k (changedEntities w)\<rparr>))"

text \<open>\<open>delete(changedEntities, id); removedEntities[id] = struct{}{}\<close>.\<close>

definition mark_removed :: "EntityID \<Rightarrow> unit step" where
  "mark_removed k = State (\<lambda>w. ((), w\<lparr>changedEntities := remove1 k (changedEntities w),
     removedEntities := List.insert k (removedEntities w)\<rparr>))"

definition index_of :: "PlayerID \<Rightarrow> nat option step" where
  "index_of k = State (\<lambda>w. (playerIndex w k, w))"

definition feedback :: "nat \<Rightarrow> ActionFeedbackKind \<Rightarrow> ActionFeedbackLevel \<Rightarrow> string \<Rightarrow> bool step" where
  "feedback i kind level message = do {
     tick \<leftarrow> asks s_tickID;
     on_player i (\<lambda>p. applyActionFeedbackLocked p kind level message tick) }"

text \<open>Feedback that marks its player when it changed something.\<close>

definition tell :: "nat \<Rightarrow> ActionFeedbackKind \<Rightarrow> ActionFeedbackLevel \<Rightarrow> string \<Rightarrow> unit step" where
  "tell i kind level message = do {
     p \<leftarrow> player_at i;
     c \<leftarrow> feedback i kind level message;
     whenever c (mark_player (ID p)) }"

definition reequip :: "nat \<Rightarrow> unit step" where
  "reequip i = do {
     p \<leftarrow> player_at i;
     c \<leftarrow> on_player i ensureEquippedItemForPlayerLocked;
     whenever c (mark_player (ID p)) }"

definition new_entity_id :: "EntityID step" where
  "new_entity_id = do {
     change (\<lambda>s. s\<lparr>s_nextEntityID := s_nextEntityID s + 1\<rparr>);
     asks s_nextEntityID }"

definition findEntityIndexByID :: "EntityState list \<Rightarrow> EntityID \<Rightarrow> nat option" where
  "findEntityIndexByID entities entityID = find_index (\<lambda>e. EntityState_ID e = entityID) entities"

definition maxTickRate :: "uint32 \<Rightarrow> uint32" where
  "maxTickRate rate = (if rate = 0 then 1 else rate)"

definition vec_eq :: "Vector2 \<Rightarrow> Vector2 \<Rightarrow> bool" where
  "vec_eq a b \<longleftrightarrow> f_eq (X a) (X b) \<and> f_eq (Y a) (Y b)"

end
