(* ===== verification/Economy.thy ===== *)
theory Economy
  imports Steps
begin

text \<open>
  The economy of a match (\<open>src/internal/server/game/manager.go\<close>): equipment and ammunition, the
  nightly black market, NPC prisoners with their bribes and tasks, the nightly choice of cards,
  the stash of a cell, and dropped items.
\<close>

section \<open>Equipment and ammunition\<close>

definition authorityRestockSeconds :: uint64 where "authorityRestockSeconds = 10"

definition isAmmoRestockInProgressLocked :: "matchSession \<Rightarrow> PlayerID \<Rightarrow> bool" where
  "isAmmoRestockInProgressLocked session playerID =
     (if playerID = PlayerID '''' then False
      else let until = zero_if_none (s_ammoRestockUntil session playerID)
           in if until = 0 then False else s_tickID session < until)"

definition applyReloadCommandLocked :: "nat \<Rightarrow> bool step" where
  "applyReloadCommandLocked i = do {
     session \<leftarrow> asks id;
     player \<leftarrow> player_at i;
     if \<not> Alive player then ret False
     else if \<not> IsAuthorityPlayer player then
       feedback i ActionFeedbackKindSystem ActionFeedbackLevelWarning
         ''Only guards and the warden can restock ammo.''
     else if CurrentRoomID player \<noteq> RoomAmmoRoom then
       feedback i ActionFeedbackKindSystem ActionFeedbackLevelWarning ''Go to the ammo room to restock.''
     else if Bullets player \<ge> authorityAmmoMax then
       feedback i ActionFeedbackKindSystem ActionFeedbackLevelInfo ''Ammo already full.''
     else if isAmmoRestockInProgressLocked session (ID player) then
       (let remaining = zero_if_none (s_ammoRestockUntil session (ID player)) - s_tickID session;
            rate = ucast (maxTickRate (s_tickRateHz session)) :: uint64;
            seconds = (remaining + rate - 1) div rate
        in feedback i ActionFeedbackKindSystem ActionFeedbackLevelInfo
             (''Ammo restock in progress ('' @ Itoa (unat seconds) @ ''s left).''))
     else do {
       let durationTicks = ucast (maxTickRate (s_tickRateHz session)) * authorityRestockSeconds;
       let durationTicks = (if durationTicks = 0 then authorityRestockSeconds else durationTicks);
       change (\<lambda>s. s\<lparr>s_ammoRestockUntil :=
         (s_ammoRestockUntil s)(ID player \<mapsto> s_tickID s + durationTicks)\<rparr>);
       edit_player i (\<lambda>p. p\<lparr>Velocity := zero_vector\<rparr>);
       feedback i ActionFeedbackKindSystem ActionFeedbackLevelInfo
         (''Restocking ammo (10s). Hold position in '' @ roomLabelForFeedback RoomAmmoRoom @ ''.'')
     }
   }"

text \<open>The completion of restocks ranges over a Go map. An entry touches only its own player and its
  own key, so the order does not matter: the entries of players of the match are visited in the
  order of the players, and every other completed entry is deleted.\<close>

definition restock_player :: "nat \<Rightarrow> unit step" where
  "restock_player i = do {
     player \<leftarrow> player_at i;
     untilTick \<leftarrow> asks (\<lambda>s. zero_if_none (s_ammoRestockUntil s (ID player)));
     tick \<leftarrow> asks s_tickID;
     whenever (\<not> (untilTick = 0 \<or> tick < untilTick)) (do {
       change (\<lambda>s. s\<lparr>s_ammoRestockUntil := (s_ammoRestockUntil s)(ID player := None)\<rparr>);
       whenever (\<not> (\<not> Alive player \<or> \<not> IsAuthorityPlayer player)) (do {
         whenever (Bullets player \<noteq> authorityAmmoMax) (do {
           edit_player i (\<lambda>p. p\<lparr>Bullets := authorityAmmoMax\<rparr>);
           mark_player (ID player) });
         synced \<leftarrow> on_player i syncAuthorityBulletStackLocked;
         whenever synced (mark_player (ID player));
         tell i ActionFeedbackKindSystem ActionFeedbackLevelSuccess ''Ammo restocked to full.''
       })
     })
   }"

definition drop_completed :: "matchSession \<Rightarrow> matchSession" where
  "drop_completed s = s\<lparr>s_ammoRestockUntil := (\<lambda>playerID.
     case s_ammoRestockUntil s playerID of
       None \<Rightarrow> None
     | Some untilTick \<Rightarrow> if untilTick = 0 \<or> s_tickID s < untilTick then Some untilTick else None)\<rparr>"

text \<open>A loop over the indices of the players.\<close>

fun for_each :: "('b \<Rightarrow> unit step) \<Rightarrow> 'b list \<Rightarrow> unit step" where
  "for_each body [] = ret ()"
| "for_each body (x # xs) = do { body x; for_each body xs }"

definition all_players :: "(nat \<Rightarrow> unit step) \<Rightarrow> unit step" where
  "all_players body = do {
     n \<leftarrow> asks (\<lambda>s. length (session_players s));
     for_each body [0..<n] }"

definition resolveAmmoRestockCompletionsLocked :: "unit step" where
  "resolveAmmoRestockCompletionsLocked = do { all_players restock_player; change drop_completed }"

definition applyEquipItemCommandLocked :: "nat \<Rightarrow> EquipItemPayload \<Rightarrow> bool step" where
  "applyEquipItemCommandLocked i payload = do {
     player \<leftarrow> player_at i;
     if \<not> IsSupportedWeapon (EquipItem payload) then ret False
     else if \<not> CanUseWeapon player (EquipItem payload) then
       feedback i ActionFeedbackKindSystem ActionFeedbackLevelWarning
         (''Cannot equip '' @ ItemType_str (EquipItem payload) @ ''; not in inventory.'')
     else if EquippedItem player = EquipItem payload then ret False
     else do {
       edit_player i (\<lambda>p. p\<lparr>EquippedItem := EquipItem payload\<rparr>);
       _ \<leftarrow> feedback i ActionFeedbackKindSystem ActionFeedbackLevelInfo
         (''Equipped '' @ ItemType_str (EquipItem payload) @ ''.'');
       ret True
     }
   }"

section \<open>The nightly black market\<close>

definition trySetNightlyBlackMarketLocked :: "PlayerState \<Rightarrow> RoomID \<Rightarrow> bool step" where
  "trySetNightlyBlackMarketLocked player targetRoomID = do {
     session \<leftarrow> asks id;
     if targetRoomID = NoRoom \<or> \<not> Alive player \<or> Role player \<noteq> RoleGangLeader \<or>
        Current (Phase (s_gameState session)) \<noteq> PhaseNight then ret False
     else if \<not> IsNightlyBlackMarketCandidate targetRoomID then ret False
     else if BlackMarketRoomID (session_map session) = targetRoomID then ret False
     else do { change (with_map (\<lambda>m. m\<lparr>BlackMarketRoomID := targetRoomID\<rparr>)); ret True }
   }"

definition matchContainsGoldenBulletLocked :: "matchSession \<Rightarrow> bool" where
  "matchContainsGoldenBulletLocked session \<longleftrightarrow>
     list_ex (\<lambda>p. HasItem p ItemGoldenBullet 1) (session_players session) \<or>
     list_ex (\<lambda>e. case ParseDroppedItem e of
                    None \<Rightarrow> False
                  | Some (item, quantity) \<Rightarrow> if quantity = 0 then False else item = ItemGoldenBullet)
       (Entities (s_gameState session))"

text \<open>The checks before the payment, in their order: the message and level of the refusal.\<close>

definition purchase_refusal ::
  "matchSession \<Rightarrow> PlayerState \<Rightarrow> BlackMarketOffer option \<Rightarrow> (string \<times> ActionFeedbackLevel) option" where
  "purchase_refusal session player found =
     (case found of
        None \<Rightarrow> Some (''Offer unavailable.'', ActionFeedbackLevelError)
      | Some ofr \<Rightarrow>
          let marketRoomID = BlackMarketRoomID (session_map session)
          in if OfferQuantity ofr = 0 \<or> MoneyCardCost ofr = 0
             then Some (''Offer unavailable.'', ActionFeedbackLevelError)
             else if \<not> Alive player \<or> \<not> IsPrisonerPlayer player
             then Some (''Only living prisoners can buy.'', ActionFeedbackLevelWarning)
             else if Current (Phase (s_gameState session)) \<noteq> PhaseNight
             then Some (''Market opens at night.'', ActionFeedbackLevelWarning)
             else if marketRoomID = NoRoom \<or> CurrentRoomID player = NoRoom \<or>
                     CurrentRoomID player \<noteq> marketRoomID
             then (if marketRoomID = NoRoom
                   then Some (''Market room is not set.'', ActionFeedbackLevelWarning)
                   else Some (''Go to '' @ RoomID_str marketRoomID @ '' to buy.'', ActionFeedbackLevelWarning))
             else if OfferItem ofr = ItemGoldenBullet \<and>
                     (s_blackMarketGoldenBulletSold session \<or> matchContainsGoldenBulletLocked session)
             then Some (''Golden bullet already sold this match.'', ActionFeedbackLevelWarning)
             else if int (countPlayerCards player CardMoney) < uint (MoneyCardCost ofr)
             then Some (''Need '' @ Itoa (unat (MoneyCardCost ofr)) @ '' money cards.'', ActionFeedbackLevelWarning)
             else None)"

definition applyBlackMarketPurchaseLocked ::
  "nat \<Rightarrow> BlackMarketPurchasePayload \<Rightarrow> (bool \<times> string \<times> ActionFeedbackLevel) step" where
  "applyBlackMarketPurchaseLocked i payload = do {
     session \<leftarrow> asks id;
     player \<leftarrow> player_at i;
     let found = BlackMarketOfferForItem (PurchaseItem payload);
     case purchase_refusal session player found of
       Some (message, level) \<Rightarrow> ret (False, message, level)
     | None \<Rightarrow> do {
         let ofr = the found;
         added \<leftarrow> on_player i (\<lambda>p. attempt p (AddItem p (OfferItem ofr) (OfferQuantity ofr)));
         if \<not> added then ret (False, ''Inventory full; purchase cancelled.'', ActionFeedbackLevelWarning)
         else do {
           paid \<leftarrow> on_player i (\<lambda>p. consumePlayerCards p CardMoney (MoneyCardCost ofr));
           if \<not> paid then do {
             _ \<leftarrow> on_player i (\<lambda>p. attempt p (RemoveItem p (OfferItem ofr) (OfferQuantity ofr)));
             ret (False, ''Payment failed; purchase cancelled.'', ActionFeedbackLevelError)
           }
           else do {
             _ \<leftarrow> on_player i ensureEquippedItemForPlayerLocked;
             whenever (OfferItem ofr = ItemGoldenBullet)
               (change (\<lambda>s. s\<lparr>s_blackMarketGoldenBulletSold := True\<rparr>));
             ret (True, ''Purchased '' @ ItemType_str (OfferItem ofr) @ '' x'' @ Itoa (unat (OfferQuantity ofr)) @
                    '' for '' @ Itoa (unat (MoneyCardCost ofr)) @ '' money card(s).'', ActionFeedbackLevelSuccess)
           }
         }
       }
   }"

section \<open>NPC prisoners: bribes\<close>

definition zero_bribe :: npcPrisonerBribeState where
  "zero_bribe = \<lparr>BribeOfferItem = NoItem, BribeOfferCost = 0, BribeStock = 0,
     PayerID = PlayerID '''', PaidCards = 0\<rparr>"

text \<open>The new state of an NPC prisoner and its new tags.\<close>

definition put_bribe :: "nat \<Rightarrow> EntityID \<Rightarrow> npcPrisonerBribeState \<Rightarrow> unit step" where
  "put_bribe k entityID state = do {
     change (\<lambda>s. s\<lparr>s_npcPrisonerBribeState := (s_npcPrisonerBribeState s)(entityID \<mapsto> state)\<rparr>);
     change (with_entities (\<lambda>es. es[k := (es ! k)\<lparr>Tags := npcPrisonerTags state\<rparr>]));
     mark_entity entityID
   }"

definition bribe_refusal :: "matchSession \<Rightarrow> PlayerState \<Rightarrow> EntityID \<Rightarrow> string option" where
  "bribe_refusal session player entityID =
     (if entityID = 0 then Some ''Select a valid NPC prisoner.''
      else if \<not> Alive player \<or> \<not> IsPrisonerPlayer player
      then Some ''Only living prisoners can bribe NPC prisoners.''
      else if Current (Phase (s_gameState session)) \<noteq> PhaseNight
      then Some ''NPC deals only happen at night.''
      else case findEntityIndexByID (Entities (s_gameState session)) entityID of
        None \<Rightarrow> Some ''NPC prisoner not available.''
      | Some k \<Rightarrow>
          let entity = Entities (s_gameState session) ! k
          in if \<not> EntityActive entity \<or> Kind entity \<noteq> EntityKindNPCPrisoner
             then Some ''NPC prisoner not available.''
             else if EntityRoomID entity = NoRoom \<or> CurrentRoomID player = NoRoom \<or>
                     EntityRoomID entity \<noteq> CurrentRoomID player
             then Some ''Move into the same room to bribe.''
             else case s_npcPrisonerBribeState session entityID of
               None \<Rightarrow> Some ''NPC offer unavailable.''
             | Some state \<Rightarrow>
                 if BribeOfferItem state = NoItem \<or> BribeOfferCost state = 0 \<or> BribeStock state = 0
                 then (if BribeStock state = 0 then Some ''NPC offer sold out.''
                       else Some ''NPC offer unavailable.'')
                 else None)"

definition tryBribeNPCPrisonerWithMoneyCardLocked ::
  "nat \<Rightarrow> EntityID \<Rightarrow> (bool \<times> string \<times> ActionFeedbackLevel) step" where
  "tryBribeNPCPrisonerWithMoneyCardLocked i entityID = do {
     session \<leftarrow> asks id;
     player \<leftarrow> player_at i;
     case bribe_refusal session player entityID of
       Some message \<Rightarrow> ret (False, message, ActionFeedbackLevelWarning)
     | None \<Rightarrow> do {
         let k = the (findEntityIndexByID (Entities (s_gameState session)) entityID);
         let state = the (s_npcPrisonerBribeState session entityID);
         let state = (if PayerID state = PlayerID '''' \<or> PayerID state \<noteq> ID player
                      then state\<lparr>PayerID := ID player, PaidCards := 0\<rparr> else state);
         if PaidCards state + 1 < BribeOfferCost state then do {
           let state = state\<lparr>PaidCards := PaidCards state + 1\<rparr>;
           put_bribe k entityID state;
           ret (True, ''Bribe progress '' @ Itoa (unat (PaidCards state)) @ ''/'' @
                  Itoa (unat (BribeOfferCost state)) @ '' for '' @ ItemType_str (BribeOfferItem state) @ ''.'',
                ActionFeedbackLevelInfo)
         }
         else do {
           added \<leftarrow> on_player i (\<lambda>p. attempt p (AddItem p (BribeOfferItem state) 1));
           if \<not> added then ret (False, ''Inventory full; NPC deal cancelled.'', ActionFeedbackLevelWarning)
           else do {
             put_bribe k entityID (state\<lparr>BribeStock := BribeStock state - 1, PayerID := PlayerID '''', PaidCards := 0\<rparr>);
             ret (True, ''NPC deal complete: received '' @ ItemType_str (BribeOfferItem state) @ ''.'',
                  ActionFeedbackLevelSuccess)
           }
         }
       }
   }"

text \<open>The offers of a new night: one entity of the loop, then the loop.\<close>

definition refresh_offer ::
  "uint8 \<Rightarrow> EntityState \<Rightarrow> matchSession \<times> EntityID list \<Rightarrow> EntityState \<times> matchSession \<times> EntityID list" where
  "refresh_offer cycle entity acc =
     (let (session, changed) = acc
      in if Kind entity \<noteq> EntityKindNPCPrisoner then (entity, acc)
         else case deterministicNPCPrisonerOffer (s_matchID session) (EntityRoomID entity)
                     (EntityState_ID entity) cycle of
           None \<Rightarrow> (entity, acc)
         | Some (offerItem, offerCost) \<Rightarrow>
             let state = (case s_npcPrisonerBribeState session (EntityState_ID entity) of
                            None \<Rightarrow> zero_bribe | Some state \<Rightarrow> state);
                 next = fresh_offer offerItem offerCost
             in if state = next then (entity, acc)
                else (entity\<lparr>Tags := npcPrisonerTags next\<rparr>,
                      session\<lparr>s_npcPrisonerBribeState :=
                        (s_npcPrisonerBribeState session)(EntityState_ID entity \<mapsto> next)\<rparr>,
                      List.insert (EntityState_ID entity) changed))"

fun refresh_loop ::
  "uint8 \<Rightarrow> EntityState list \<Rightarrow> matchSession \<times> EntityID list \<Rightarrow> EntityState list \<times> matchSession \<times> EntityID list" where
  "refresh_loop cycle [] acc = ([], acc)"
| "refresh_loop cycle (entity # rest) acc =
     (let (entity', acc') = refresh_offer cycle entity acc;
          (rest', acc'') = refresh_loop cycle rest acc'
      in (entity' # rest', acc''))"

definition refreshNPCPrisonerOffersForNightLocked ::
  "matchSession \<Rightarrow> uint8 \<Rightarrow> matchSession \<times> EntityState list" where
  "refreshNPCPrisonerOffersForNightLocked session cycle =
     (if length (Entities (s_gameState session)) = 0 then (session, [])
      else
        let (entities, session, changed) = refresh_loop cycle (Entities (s_gameState session)) (session, []);
            session = with_entities (\<lambda>_. entities) session
        in (session, collectChangedEntities session changed))"

section \<open>NPC prisoners: tasks\<close>

definition le_bytes32 :: "uint32 \<Rightarrow> uint8 list" where
  "le_bytes32 w = [ucast w, ucast (drop_bit 8 w), ucast (drop_bit 16 w), ucast (drop_bit 24 w)]"

definition deterministicNPCTaskForDay :: "MatchID \<Rightarrow> PlayerID \<Rightarrow> uint64 \<Rightarrow> EntityID \<Rightarrow> npcTaskState" where
  "deterministicNPCTaskForDay matchID playerID dayStartTick entityID =
     (let visitRooms = npcPrisonerTaskVisitRooms;
          visitRooms = (if length visitRooms = 0 then [RoomCorridorMain] else visitRooms);
          holdItems = [ItemWood, ItemMetalSlab, ItemLockPick];
          h = fnv_Write fnv_New64a (bytes_of_string (MatchID_str matchID));
          h = fnv_Write h [0];
          h = fnv_Write h (bytes_of_string (PlayerID_str playerID));
          h = fnv_Write h (le_bytes64 dayStartTick);
          seed = fnv_Write h (le_bytes32 entityID);
          task = \<lparr>TaskDayStartTick = 0, TaskType = npcTaskNone, TaskRoomID = NoRoom, TaskItem = NoItem,
                  RewardCards = 1, AssignedBy = 0\<rparr>
      in if seed mod 10 < 7
         then task\<lparr>TaskType := npcTaskVisitRoom, TaskRoomID := visitRooms ! mod_index seed (length visitRooms)\<rparr>
         else task\<lparr>TaskType := npcTaskHoldItem, TaskItem := holdItems ! mod_index seed (length holdItems)\<rparr>)"

definition npcTaskDescription :: "npcTaskState \<Rightarrow> string" where
  "npcTaskDescription task =
     (case TaskType task of
        npcTaskVisitRoom \<Rightarrow>
          if TaskRoomID task = NoRoom then ''Visit the requested location.''
          else ''Go to '' @ roomLabelForFeedback (TaskRoomID task) @
                 '', then interact with an NPC prisoner for reward.''
      | npcTaskHoldItem \<Rightarrow>
          if TaskItem task = NoItem then ''Bring a requested item.''
          else ''Bring '' @ ItemType_str (TaskItem task) @ '' in inventory, then interact with an NPC prisoner.''
      | npcTaskNone \<Rightarrow> ''No active task.'')"

definition npcTaskProgress :: "npcTaskState \<Rightarrow> PlayerState \<Rightarrow> string" where
  "npcTaskProgress task player =
     (case TaskType task of
        npcTaskVisitRoom \<Rightarrow>
          if TaskRoomID task = NoRoom then ''Visit the assigned room.''
          else if CurrentRoomID player = TaskRoomID task then ''Return to an NPC prisoner to claim reward.''
          else ''Go to '' @ roomLabelForFeedback (TaskRoomID task) @ ''.''
      | npcTaskHoldItem \<Rightarrow>
          if TaskItem task = NoItem then ''Hold the requested item.''
          else if HasItem player (TaskItem task) 1 then ''Return to an NPC prisoner to claim reward.''
          else ''Carry '' @ ItemType_str (TaskItem task) @ '' x1 in inventory.''
      | npcTaskNone \<Rightarrow> ''No active task.'')"

definition isNPCTaskComplete :: "npcTaskState \<Rightarrow> PlayerState \<Rightarrow> bool" where
  "isNPCTaskComplete task player =
     (case TaskType task of
        npcTaskVisitRoom \<Rightarrow> TaskRoomID task \<noteq> NoRoom \<and> CurrentRoomID player = TaskRoomID task
      | npcTaskHoldItem \<Rightarrow> TaskItem task \<noteq> NoItem \<and> HasItem player (TaskItem task) 1
      | npcTaskNone \<Rightarrow> False)"

text \<open>The reward loop: at most \<open>n\<close> money cards, until the hand is full.\<close>

fun reward_cards :: "nat \<Rightarrow> PlayerState \<Rightarrow> uint8 \<Rightarrow> PlayerState \<times> uint8" where
  "reward_cards 0 player added = (player, added)"
| "reward_cards (Suc n) player added =
     (case AddCard player CardMoney of
        None \<Rightarrow> (player, added)
      | Some player \<Rightarrow> reward_cards n player (added + 1))"

definition npc_for_player :: "matchSession \<Rightarrow> PlayerState \<Rightarrow> EntityID \<Rightarrow> EntityState option" where
  "npc_for_player session player entityID =
     (if entityID = 0 then None
      else if \<not> Alive player \<or> \<not> IsPrisonerPlayer player then None
      else case findEntityIndexByID (Entities (s_gameState session)) entityID of
        None \<Rightarrow> None
      | Some k \<Rightarrow>
          let entity = Entities (s_gameState session) ! k
          in if \<not> EntityActive entity \<or> Kind entity \<noteq> EntityKindNPCPrisoner then None
             else if EntityRoomID entity = NoRoom \<or> CurrentRoomID player = NoRoom \<or>
                     EntityRoomID entity \<noteq> CurrentRoomID player then None
             else Some entity)"

definition put_task :: "PlayerID \<Rightarrow> npcTaskState \<Rightarrow> unit step" where
  "put_task playerID task =
     change (\<lambda>s. s\<lparr>s_npcTaskByPlayer := (s_npcTaskByPlayer s)(playerID \<mapsto> task)\<rparr>)"

definition assign_task :: "matchSession \<Rightarrow> PlayerID \<Rightarrow> uint64 \<Rightarrow> EntityID \<Rightarrow> npcTaskState" where
  "assign_task session playerID dayStart entityID =
     (let task = deterministicNPCTaskForDay (s_matchID session) playerID dayStart entityID;
          task = task\<lparr>TaskDayStartTick := dayStart, AssignedBy := entityID\<rparr>
      in if RewardCards task = 0 then task\<lparr>RewardCards := 1\<rparr> else task)"

text \<open>\<open>None\<close> is an interaction that was not for a task; otherwise whether the player changed, and the
  message and level of the feedback.\<close>

definition tryHandleNPCPrisonerTaskInteractLocked ::
  "nat \<Rightarrow> EntityID \<Rightarrow> (bool \<times> string \<times> ActionFeedbackLevel) option step" where
  "tryHandleNPCPrisonerTaskInteractLocked i entityID = do {
     session \<leftarrow> asks id;
     player \<leftarrow> player_at i;
     let dayStart = StartedTick (Phase (s_gameState session));
     case npc_for_player session player entityID of
       None \<Rightarrow> ret None
     | Some entity \<Rightarrow>
         if Current (Phase (s_gameState session)) \<noteq> PhaseDay
         then ret (Some (False, ''NPC tasks can only be managed during day phase.'', ActionFeedbackLevelWarning))
         else if dayStart = 0
         then ret (Some (False, ''Task board unavailable until day starts.'', ActionFeedbackLevelWarning))
         else (case (case s_npcTaskByPlayer session (ID player) of
                       Some task \<Rightarrow> if TaskDayStartTick task \<noteq> dayStart then None else Some task
                     | None \<Rightarrow> None) of
           None \<Rightarrow> do {
             let task = assign_task session (ID player) dayStart (EntityState_ID entity);
             put_task (ID player) task;
             ret (Some (False, ''Task assigned: '' @ npcTaskDescription task, ActionFeedbackLevelInfo))
           }
         | Some task \<Rightarrow>
             if TaskType task = npcTaskNone
             then ret (Some (False, ''No task assigned this day.'', ActionFeedbackLevelInfo))
             else if \<not> isNPCTaskComplete task player
             then ret (Some (False, ''Task in progress: '' @ npcTaskProgress task player, ActionFeedbackLevelInfo))
             else do {
               added \<leftarrow> on_player i (\<lambda>p. reward_cards (unat (RewardCards task)) p 0);
               put_task (ID player) (task\<lparr>TaskType := npcTaskNone, TaskRoomID := NoRoom, TaskItem := NoItem,
                 RewardCards := 0\<rparr>);
               if added = 0
               then ret (Some (False, ''Task complete, but card slots are full. Spend cards and retry.'',
                 ActionFeedbackLevelWarning))
               else ret (Some (True, ''Task complete. Earned '' @ Itoa (unat added) @ '' money card(s).'',
                 ActionFeedbackLevelSuccess))
             })
   }"

section \<open>Night cards\<close>

definition next_choice_seed :: "uint64 \<Rightarrow> uint64" where
  "next_choice_seed seed = (seed * 1099511628211) XOR 1469598103934665603"

text \<open>The loop draws until it has enough different cards; it is not evident that it ends. The set
  \<open>picked\<close> of the code holds the elements of \<open>out\<close>.\<close>

partial_function (option) night_card_loop :: "uint64 \<Rightarrow> CardType list \<Rightarrow> nat \<Rightarrow> CardType list option" where
  "night_card_loop seed out choiceCount =
     (if length out < choiceCount
      then (let candidate = KnownCards ! mod_index seed (length KnownCards);
                seed = next_choice_seed seed
            in if List.member out candidate then night_card_loop seed out choiceCount
               else night_card_loop seed (out @ [candidate]) choiceCount)
      else Some out)"

definition deterministicNightCardChoices ::
  "MatchID \<Rightarrow> PlayerID \<Rightarrow> uint8 \<Rightarrow> int \<Rightarrow> CardType list option" where
  "deterministicNightCardChoices matchID playerID cycle choiceCount =
     (if choiceCount \<le> 0 then Some []
      else if length KnownCards = 0 then Some []
      else
        let choiceCount = (if nat choiceCount > length KnownCards then length KnownCards else nat choiceCount);
            h = fnv_Write fnv_New64a (bytes_of_string (MatchID_str matchID));
            h = fnv_Write h [0];
            h = fnv_Write h (bytes_of_string (PlayerID_str playerID));
            seed = fnv_Write h [cycle]
        in map_option sort (night_card_loop seed [] choiceCount))"

definition equalCardSlices :: "CardType list \<Rightarrow> CardType list \<Rightarrow> bool" where
  "equalCardSlices left right \<longleftrightarrow> length left = length right \<and> list_all2 (\<lambda>a b. a = b) left right"

definition no_offer :: "PlayerState \<Rightarrow> PlayerState \<times> bool" where
  "no_offer player = (if length (NightCardChoices player) > 0
     then (player\<lparr>NightCardChoices := []\<rparr>, True) else (player, False))"

definition night_offer :: "MatchID \<Rightarrow> uint8 \<Rightarrow> PlayerState \<Rightarrow> (PlayerState \<times> bool) option" where
  "night_offer matchID cycle player =
     (if \<not> Alive player then Some (no_offer player)
      else if length (Cards player) \<ge> MaxCardsHeld then Some (no_offer player)
      else map_option (\<lambda>next. if equalCardSlices (NightCardChoices player) next then (player, False)
                              else (player\<lparr>NightCardChoices := next\<rparr>, True))
             (deterministicNightCardChoices matchID (ID player) cycle 3))"

definition assignNightCardOffersForCycleLocked ::
  "matchSession \<Rightarrow> uint8 \<Rightarrow> (matchSession \<times> PlayerID list) option" where
  "assignNightCardOffersForCycleLocked session cycle =
     map_option (\<lambda>results.
         (with_players (\<lambda>_. map fst results) session,
          List.map_filter (\<lambda>(p, changed). if changed then Some (ID p) else None) results))
       (those (map (night_offer (s_matchID session) cycle) (session_players session)))"

definition trySelectNightCardLocked :: "PlayerState \<Rightarrow> CardType \<Rightarrow> PlayerState \<times> bool \<times> string" where
  "trySelectNightCardLocked player choice =
     (if \<not> IsKnownCard choice then (player, False, ''Night card selection failed.'')
      else if length (NightCardChoices player) = 0
      then (player, False, ''No night card selection is pending.'')
      else if \<not> list_ex (\<lambda>candidate. candidate = choice) (NightCardChoices player)
      then (player, False, ''Selected card is not in your night options.'')
      else if length (Cards player) \<ge> MaxCardsHeld
      then (player, False, ''Card slots are full ('' @ Itoa (length (Cards player)) @ ''/'' @ Itoa MaxCardsHeld @ '').'')
      else case AddCard player choice of
        None \<Rightarrow> (player, False, ''Failed to add selected card.'')
      | Some player \<Rightarrow>
          (player\<lparr>NightCardChoices := []\<rparr>, True, ''Night card selected: '' @ CardType_str choice @ ''.''))"

section \<open>The stash of a cell\<close>

text \<open>Refusals before the action; \<open>player\<close> is the copy that the caller passes.\<close>

definition stash_refusal :: "matchSession \<Rightarrow> PlayerState \<Rightarrow> InteractPayload \<Rightarrow> string option" where
  "stash_refusal session player payload =
     (let action = ToLower (TrimSpace (StashAction payload))
      in if action \<noteq> ''deposit'' \<and> action \<noteq> ''withdraw'' then Some ''Unknown stash action.''
         else if StashItem payload = NoItem then Some ''Select an item for stash action.''
         else if AssignedCell player = 0 then Some ''No assigned cell stash.''
         else if CurrentRoomID player \<noteq> RoomCellBlockA then Some ''Go to your cell block to use stash.''
         else case find_index (\<lambda>c. CellState_ID c = AssignedCell player) (Cells (session_map session)) of
           None \<Rightarrow> Some ''Assigned cell was not found.''
         | Some k \<Rightarrow>
             if OwnerPlayerID (Cells (session_map session) ! k) \<noteq> ID player
             then Some ''Only the cell owner can use this stash.''
             else if find_index (\<lambda>p. ID p = ID player) (session_players session) = None
             then Some ''Player state unavailable.''
             else None)"

text \<open>The two actions on the player and the stash: the new player and, on success, the new stash,
  or the refusal.\<close>

definition stash_deposit ::
  "PlayerState \<Rightarrow> ItemStack list \<Rightarrow> ItemType \<Rightarrow> uint8 \<Rightarrow> PlayerState \<times> (string + ItemStack list)" where
  "stash_deposit livePlayer stash item amount =
     (case RemoveItem livePlayer item amount of
        None \<Rightarrow> (livePlayer, Inl (''Not enough '' @ ItemType_str item @ '' to stash.''))
      | Some livePlayer \<Rightarrow>
          (case AddItem (zero_player\<lparr>Inventory := stash\<rparr>) item amount of
             None \<Rightarrow> (fst (attempt livePlayer (AddItem livePlayer item amount)), Inl ''Cell stash is full.'')
           | Some stashCarrier \<Rightarrow>
               (fst (ensureEquippedItemForPlayerLocked livePlayer), Inr (Inventory stashCarrier))))"

definition stash_withdraw ::
  "PlayerState \<Rightarrow> ItemStack list \<Rightarrow> ItemType \<Rightarrow> uint8 \<Rightarrow> PlayerState \<times> (string + ItemStack list)" where
  "stash_withdraw livePlayer stash item amount =
     (case RemoveItem (zero_player\<lparr>Inventory := stash\<rparr>) item amount of
        None \<Rightarrow> (livePlayer, Inl (''No '' @ ItemType_str item @ '' in cell stash.''))
      | Some stashCarrier \<Rightarrow>
          (case AddItem livePlayer item amount of
             None \<Rightarrow> (livePlayer, Inl ''Inventory full; cannot withdraw.'')
           | Some livePlayer \<Rightarrow>
               (fst (ensureEquippedItemForPlayerLocked livePlayer), Inr (Inventory stashCarrier))))"

definition applyCellStashInteractLocked ::
  "PlayerState \<Rightarrow> InteractPayload \<Rightarrow> (bool \<times> string \<times> ActionFeedbackLevel \<times> CellID) step" where
  "applyCellStashInteractLocked player payload = do {
     session \<leftarrow> asks id;
     case stash_refusal session player payload of
       Some message \<Rightarrow> ret (False, message, ActionFeedbackLevelWarning, 0)
     | None \<Rightarrow> do {
         let k = the (find_index (\<lambda>c. CellState_ID c = AssignedCell player) (Cells (session_map session)));
         let cell = Cells (session_map session) ! k;
         let j = the (find_index (\<lambda>p. ID p = ID player) (session_players session));
         let amount = (if StashAmount payload = 0 then 1 else StashAmount payload);
         let deposit = (ToLower (TrimSpace (StashAction payload)) = ''deposit'');
         result \<leftarrow> on_player j (\<lambda>p. if deposit then stash_deposit p (Stash cell) (StashItem payload) amount
                                   else stash_withdraw p (Stash cell) (StashItem payload) amount);
         case result of
           Inl message \<Rightarrow> ret (False, message, ActionFeedbackLevelWarning, 0)
         | Inr stash \<Rightarrow> do {
             change (with_map (\<lambda>m. m\<lparr>Cells := (Cells m)[k := cell\<lparr>Stash := stash\<rparr>]\<rparr>));
             ret (True, (if deposit then ''Stashed '' else ''Withdrew '') @ ItemType_str (StashItem payload) @
                    '' x'' @ Itoa (unat amount) @ ''.'', ActionFeedbackLevelSuccess, CellState_ID cell)
           }
       }
   }"

section \<open>Items between players and on the floor\<close>

text \<open>Writing the two players of a transfer back through their pointers.\<close>

definition transfer_at ::
  "nat \<Rightarrow> nat \<Rightarrow> (PlayerState \<Rightarrow> PlayerState \<Rightarrow> (PlayerState \<times> PlayerState) option) \<Rightarrow> bool step" where
  "transfer_at i j f = do {
     source \<leftarrow> player_at i;
     dest \<leftarrow> player_at j;
     case f source dest of
       None \<Rightarrow> ret False
     | Some (source, dest) \<Rightarrow> do { set_player i source; set_player j dest; ret True }
   }"

definition tryTransferItemBetweenPlayersLocked ::
  "PlayerID \<Rightarrow> PlayerID \<Rightarrow> ItemType \<Rightarrow> uint8 \<Rightarrow> bool step" where
  "tryTransferItemBetweenPlayersLocked fromPlayerID toPlayerID item amount = do {
     sourceIndex \<leftarrow> index_of fromPlayerID;
     targetIndex \<leftarrow> index_of toPlayerID;
     if fromPlayerID = PlayerID '''' \<or> toPlayerID = PlayerID '''' \<or> fromPlayerID = toPlayerID \<or> amount = 0
     then ret False
     else case (sourceIndex, targetIndex) of
       (Some i, Some j) \<Rightarrow> do {
         source \<leftarrow> player_at i;
         target \<leftarrow> player_at j;
         if \<not> Alive source \<or> \<not> Alive target then ret False
         else if CurrentRoomID source = NoRoom \<or> CurrentRoomID source \<noteq> CurrentRoomID target then ret False
         else transfer_at i j (\<lambda>a b. TransferItem a b item amount)
       }
     | _ \<Rightarrow> ret False
   }"

definition newDroppedItemEntityLocked :: "PlayerState \<Rightarrow> ItemType \<Rightarrow> uint8 \<Rightarrow> EntityState step" where
  "newDroppedItemEntityLocked owner item quantity = do {
     entityID \<leftarrow> new_entity_id;
     ret \<lparr>EntityState_ID = entityID, Kind = EntityKindDroppedItem, EntityOwnerPlayerID = ID owner,
          EntityPosition = Position owner, EntityVelocity = zero_vector, EntityHeartsHalf = 0,
          EntityActive = True, EntityRoomID = CurrentRoomID owner, Tags = BuildDroppedItemTags item quantity\<rparr>
   }"

definition tryPickupDroppedEntityLocked :: "nat \<Rightarrow> EntityID \<Rightarrow> bool step" where
  "tryPickupDroppedEntityLocked i entityID = do {
     player \<leftarrow> player_at i;
     entities \<leftarrow> asks (\<lambda>s. Entities (s_gameState s));
     if entityID = 0 then ret False
     else case find_index (\<lambda>e. EntityState_ID e = entityID) entities of
       None \<Rightarrow> ret False
     | Some k \<Rightarrow>
         let entity = entities ! k
         in if \<not> EntityActive entity \<or> EntityRoomID entity = NoRoom \<or> CurrentRoomID player = NoRoom \<or>
               EntityRoomID entity \<noteq> CurrentRoomID player then ret False
            else case ParseDroppedItem entity of
              None \<Rightarrow> ret False
            | Some (item, quantity) \<Rightarrow>
                if quantity = 0 then ret False
                else do {
                  added \<leftarrow> on_player i (\<lambda>p. attempt p (AddItem p item quantity));
                  if \<not> added then ret False
                  else do {
                    change (with_entities (remove_at k));
                    mark_removed entityID;
                    ret True
                  }
                }
   }"

end
