(* ===== verification/Interact.thy ===== *)
theory Interact
  imports Economy
begin

text \<open>
  Rooms, doors and the power switch, and the interact command
  (\<open>src/internal/server/game/manager.go\<close>, \<open>applyInteractCommandLocked\<close> and the functions it calls).
\<close>

section \<open>Rooms\<close>

definition canPlayerEnterRoomLocked :: "matchSession \<Rightarrow> PlayerState \<Rightarrow> RoomID \<Rightarrow> MapState \<Rightarrow> bool" where
  "canPlayerEnterRoomLocked session player targetRoomID mapState =
     (let decision = EvaluateRoomEntry player targetRoomID mapState
      in if EntryAllowed decision then True
         else if \<not> IsPrisonerPlayer player then False
         else if targetRoomID \<notin> s_prisonerUnlockedRooms session then False
         else EntryVerdict decision = AccessDenyPowerRoomAuthorityOnly \<or>
              EntryVerdict decision = AccessDenyAmmoAuthorityOnly)"

definition isPrisonerRestrictedRoom :: "RoomID \<Rightarrow> bool" where
  "isPrisonerRestrictedRoom roomID \<longleftrightarrow> roomID = RoomPowerRoom \<or> roomID = RoomAmmoRoom"

definition adjacentTargetRoomForDoor :: "RoomID \<Rightarrow> DoorState \<Rightarrow> RoomID option" where
  "adjacentTargetRoomForDoor currentRoomID door =
     (if currentRoomID = RoomA door then Some (RoomB door)
      else if currentRoomID = RoomB door then Some (RoomA door)
      else None)"

definition cellStateForDoorID :: "CellState list \<Rightarrow> DoorID \<Rightarrow> CellState option" where
  "cellStateForDoorID cs doorID =
     (if doorID = 0 then None else List.find (\<lambda>c. CellDoorID c = doorID) cs)"

definition canPlayerTargetDoorLocked ::
  "matchSession \<Rightarrow> PlayerState \<Rightarrow> DoorState \<Rightarrow> MapState \<Rightarrow> bool \<Rightarrow> bool" where
  "canPlayerTargetDoorLocked session player door mapState allowRestrictedPrisonerTarget =
     (let room_ok = (if CurrentRoomID player = NoRoom then True
            else case adjacentTargetRoomForDoor (CurrentRoomID player) door of
              None \<Rightarrow> False
            | Some targetRoomID \<Rightarrow>
                if targetRoomID \<noteq> NoRoom \<and> \<not> canPlayerEnterRoomLocked session player targetRoomID mapState
                then \<not> (\<not> allowRestrictedPrisonerTarget \<or> \<not> isPrisonerRestrictedRoom targetRoomID \<or>
                        \<not> IsPrisonerPlayer player)
                else True)
      in if \<not> room_ok then False
         else case cellStateForDoorID (Cells mapState) (DoorState_ID door) of
           None \<Rightarrow> True
         | Some cell \<Rightarrow> CanOperateCellDoor player cell)"

definition firstReachableDoorForPlayerLocked ::
  "matchSession \<Rightarrow> PlayerState \<Rightarrow> MapState \<Rightarrow> bool \<Rightarrow> DoorID" where
  "firstReachableDoorForPlayerLocked session player mapState allowRestrictedPrisonerTarget =
     foldl (\<lambda>bestDoorID door.
       if DoorState_ID door = 0 then bestDoorID
       else if \<not> canPlayerTargetDoorLocked session player door mapState allowRestrictedPrisonerTarget
       then bestDoorID
       else if bestDoorID = 0 \<or> DoorState_ID door < bestDoorID then DoorState_ID door
       else bestDoorID) 0 (Doors mapState)"

definition unlocked_room :: "DoorState \<Rightarrow> RoomID option" where
  "unlocked_room door =
     (if RoomA door = RoomPowerRoom \<or> RoomB door = RoomPowerRoom then Some RoomPowerRoom
      else if RoomA door = RoomAmmoRoom \<or> RoomB door = RoomAmmoRoom then Some RoomAmmoRoom
      else None)"

definition unlockRoomForPrisonersFromDoorLocked :: "DoorState \<Rightarrow> (RoomID \<times> bool) step" where
  "unlockRoomForPrisonersFromDoorLocked door = do {
     unlocked \<leftarrow> asks s_prisonerUnlockedRooms;
     case unlocked_room door of
       None \<Rightarrow> ret (NoRoom, False)
     | Some roomID \<Rightarrow>
         if roomID \<in> unlocked then ret (roomID, False)
         else do {
           change (\<lambda>s. s\<lparr>s_prisonerUnlockedRooms := insert roomID (s_prisonerUnlockedRooms s)\<rparr>);
           ret (roomID, True)
         }
   }"

text \<open>\<open>CheckRoomAccess\<close> searches the rooms of the layout; the search ends on the layout of the matches
  (\<open>FindRoomPath_shortest\<close>), so the outer option of its result is never \<open>None\<close> here.\<close>

definition room_reachable :: "RoomID \<Rightarrow> RoomID \<Rightarrow> bool" where
  "room_reachable fromRoomID targetRoomID =
     (case CheckRoomAccess defaultMatchLayout fromRoomID targetRoomID of
        Some (Inr access) \<Rightarrow> Reachable access
      | _ \<Rightarrow> False)"

definition tryMovePlayerToRoomLocked :: "nat \<Rightarrow> RoomID \<Rightarrow> bool step" where
  "tryMovePlayerToRoomLocked i targetRoomID = do {
     session \<leftarrow> asks id;
     player \<leftarrow> player_at i;
     let fromRoomID = (if CurrentRoomID player = NoRoom then RoomCellBlockA else CurrentRoomID player);
     if \<not> room_reachable fromRoomID targetRoomID then ret False
     else if \<not> canPlayerEnterRoomLocked session player targetRoomID (session_map session) then ret False
     else if CurrentRoomID player = targetRoomID then ret False
     else do { edit_player i (\<lambda>p. p\<lparr>CurrentRoomID := targetRoomID\<rparr>); ret True }
   }"

section \<open>Doors and power\<close>

definition doorStateForIDLocked :: "DoorState list \<Rightarrow> DoorID \<Rightarrow> DoorState option" where
  "doorStateForIDLocked ds doorID = List.find (\<lambda>d. DoorState_ID d = doorID) ds"

definition tryToggleDoorForPlayerLocked :: "PlayerState \<Rightarrow> DoorID \<Rightarrow> bool step" where
  "tryToggleDoorForPlayerLocked player doorID = do {
     session \<leftarrow> asks id;
     let m = session_map session;
     if list_ex (\<lambda>c. CellDoorID c = doorID \<and> \<not> CanOperateCellDoor player c) (Cells m) then ret False
     else case find_index (\<lambda>d. DoorState_ID d = doorID) (Doors m) of
       None \<Rightarrow> ret False
     | Some k \<Rightarrow>
         let door = Doors m ! k
         in if BlockedUntilTick door \<noteq> 0 \<and> s_tickID session \<le> BlockedUntilTick door then ret False
            else if \<not> PowerOn m then
              (if \<not> Open door then do {
                 set_door k (door\<lparr>Open := True\<rparr>); mark_door (DoorState_ID door); ret True }
               else ret False)
            else do {
              set_door k (door\<lparr>Open := \<not> Open door\<rparr>); mark_door (DoorState_ID door); ret True }
   }"

definition tryToggleCellDoorLocked :: "PlayerState \<Rightarrow> CellID \<Rightarrow> bool step" where
  "tryToggleCellDoorLocked player cellID = do {
     cs \<leftarrow> asks (\<lambda>s. Cells (session_map s));
     case find_index (\<lambda>c. CellState_ID c = cellID) cs of
       None \<Rightarrow> ret False
     | Some k \<Rightarrow>
         let cell = cs ! k
         in if \<not> CanOperateCellDoor player cell then ret False
            else do {
              doorChanged \<leftarrow> tryToggleDoorForPlayerLocked player (CellDoorID cell);
              whenever doorChanged (mark_cell (CellState_ID cell));
              ret doorChanged
            }
   }"

definition switch_power :: "bool \<Rightarrow> bool step" where
  "switch_power on = do {
     m \<leftarrow> asks session_map;
     case ApplyPowerState m on of (m', changed) \<Rightarrow> do { change (with_map (\<lambda>_. m')); ret changed }
   }"

definition tryTogglePowerIfEligibleLocked :: "nat \<Rightarrow> bool step" where
  "tryTogglePowerIfEligibleLocked i = do {
     player \<leftarrow> player_at i;
     power \<leftarrow> asks (\<lambda>s. PowerOn (session_map s));
     if CurrentRoomID player \<noteq> RoomPowerRoom then ret False
     else do {
       changed \<leftarrow> switch_power (\<not> power);
       if \<not> changed then ret False else do { mark_all_doors; ret True }
     }
   }"

section \<open>Escape\<close>

definition tryEscapeRouteLocked :: "matchSession \<Rightarrow> EscapeRouteType \<Rightarrow> PlayerState \<Rightarrow> PlayerState \<times> bool \<times> string" where
  "tryEscapeRouteLocked session route player =
     (if route = EscapeRouteType '''' then (player, False, ''Escape attempt failed.'')
      else if CurrentRoomID player = EscapedRoomID then (player, False, ''Already escaped.'')
      else
        let evaluation = EvaluateRoute route player (session_map session)
        in if \<not> CanAttempt evaluation
           then (player, False, if FailureReason evaluation = '''' then ''Escape requirements not met.''
                                else FailureReason evaluation)
           else (player\<lparr>CurrentRoomID := EscapedRoomID, Velocity := zero_vector\<rparr>, True,
                 ''Escape route successful.''))"

section \<open>The interact command\<close>

text \<open>One definition per block of \<open>applyInteractCommandLocked\<close>, in its order; each returns whether
  it sets \<open>changed\<close>.\<close>

definition interact_nothing_named :: "InteractPayload \<Rightarrow> bool" where
  "interact_nothing_named payload \<longleftrightarrow>
     InteractRoomID payload = NoRoom \<and> InteractCellID payload = 0 \<and> InteractDoorID payload = 0 \<and>
     InteractEntityID payload = 0 \<and> EscapeRoute payload = EscapeRouteType '''' \<and>
     MarketRoomID payload = NoRoom \<and> NightCardChoice payload = CardType '''' \<and>
     StashAction payload = '''' \<and> StashItem payload = NoItem"

definition interact_power :: "nat \<Rightarrow> InteractPayload \<Rightarrow> bool step" where
  "interact_power i payload =
     (if \<not> interact_nothing_named payload then ret False
      else do {
        toggled \<leftarrow> tryTogglePowerIfEligibleLocked i;
        if \<not> toggled then ret False
        else do {
          power \<leftarrow> asks (\<lambda>s. PowerOn (session_map s));
          _ \<leftarrow> feedback i ActionFeedbackKindDoor ActionFeedbackLevelInfo
            (''Power switched '' @ (if power then ''ON'' else ''OFF'') @ ''.'');
          ret True
        }
      })"

definition interact_night_card :: "nat \<Rightarrow> InteractPayload \<Rightarrow> bool step" where
  "interact_night_card i payload =
     (if NightCardChoice payload = CardType '''' then ret False
      else do {
        (selected, reason) \<leftarrow> on_player i (\<lambda>p. trySelectNightCardLocked p (NightCardChoice payload));
        told \<leftarrow> feedback i ActionFeedbackKindSystem
          (if selected then ActionFeedbackLevelSuccess else ActionFeedbackLevelWarning) reason;
        ret (told \<or> selected)
      })"

definition interact_stash :: "nat \<Rightarrow> InteractPayload \<Rightarrow> bool step" where
  "interact_stash i payload =
     (if StashAction payload = '''' \<or> StashItem payload = NoItem then ret False
      else do {
        player \<leftarrow> player_at i;
        (applied, reason, level, changedCellID) \<leftarrow> applyCellStashInteractLocked player payload;
        whenever (changedCellID \<noteq> 0) (mark_cell changedCellID);
        told \<leftarrow> feedback i ActionFeedbackKindSystem level reason;
        ret (told \<or> applied)
      })"

definition interact_escape :: "nat \<Rightarrow> InteractPayload \<Rightarrow> bool step" where
  "interact_escape i payload =
     (if EscapeRoute payload = EscapeRouteType '''' then ret False
      else do {
        session \<leftarrow> asks id;
        (escaped, reason) \<leftarrow> on_player i (tryEscapeRouteLocked session (EscapeRoute payload));
        noted \<leftarrow> on_player i (\<lambda>p. applyEscapeFeedbackLocked p (EscapeRoute payload) escaped reason (s_tickID session));
        told \<leftarrow> feedback i ActionFeedbackKindEscape
          (if escaped then ActionFeedbackLevelSuccess else ActionFeedbackLevelWarning)
          (EscapeRouteType_str (EscapeRoute payload) @ '': '' @ TrimSpace reason);
        ret (noted \<or> told \<or> escaped)
      })"

definition interact_room :: "nat \<Rightarrow> InteractPayload \<Rightarrow> bool step" where
  "interact_room i payload =
     (if InteractRoomID payload = NoRoom then ret False
      else tryMovePlayerToRoomLocked i (InteractRoomID payload))"

definition cell_door_message :: "MapState \<Rightarrow> CellID \<Rightarrow> string" where
  "cell_door_message m cellID =
     (let doorID = (case List.find (\<lambda>c. CellState_ID c = cellID) (Cells m) of
                      None \<Rightarrow> 0 | Some cell \<Rightarrow> CellDoorID cell)
      in if doorID = 0 then ''Cell door toggled.''
         else case doorStateForIDLocked (Doors m) doorID of
           None \<Rightarrow> ''Cell door toggled.''
         | Some door \<Rightarrow> ''Cell door '' @ Itoa (unat doorID) @ '' '' @ doorOpenLabel (Open door) @ ''.'')"

definition interact_cell :: "nat \<Rightarrow> InteractPayload \<Rightarrow> bool step" where
  "interact_cell i payload =
     (if InteractCellID payload = 0 then ret False
      else do {
        player \<leftarrow> player_at i;
        toggled \<leftarrow> tryToggleCellDoorLocked player (InteractCellID payload);
        if toggled then do {
          m \<leftarrow> asks session_map;
          _ \<leftarrow> feedback i ActionFeedbackKindDoor ActionFeedbackLevelInfo
            (cell_door_message m (InteractCellID payload));
          ret True
        }
        else feedback i ActionFeedbackKindDoor ActionFeedbackLevelWarning ''Cell door action denied.''
      })"

definition door_message :: "MapState \<Rightarrow> DoorID \<Rightarrow> string" where
  "door_message m doorID =
     (case doorStateForIDLocked (Doors m) doorID of
        None \<Rightarrow> ''Door '' @ Itoa (unat doorID) @ '' toggled.''
      | Some door \<Rightarrow> ''Door '' @ Itoa (unat doorID) @ '' '' @ doorOpenLabel (Open door) @ ''.'')"

definition interact_door :: "nat \<Rightarrow> InteractPayload \<Rightarrow> bool step" where
  "interact_door i payload =
     (if InteractDoorID payload = 0 then ret False
      else do {
        player \<leftarrow> player_at i;
        toggled \<leftarrow> tryToggleDoorForPlayerLocked player (InteractDoorID payload);
        if toggled then do {
          m \<leftarrow> asks session_map;
          _ \<leftarrow> feedback i ActionFeedbackKindDoor ActionFeedbackLevelInfo (door_message m (InteractDoorID payload));
          ret True
        }
        else feedback i ActionFeedbackKindDoor ActionFeedbackLevelWarning
          (''Door '' @ Itoa (unat (InteractDoorID payload)) @ '' action denied.'')
      })"

definition interact_entity :: "nat \<Rightarrow> InteractPayload \<Rightarrow> bool step" where
  "interact_entity i payload =
     (if InteractEntityID payload = 0 then ret False
      else do {
        handled \<leftarrow> tryHandleNPCPrisonerTaskInteractLocked i (InteractEntityID payload);
        case handled of
          Some (taskChanged, message, level) \<Rightarrow> do {
            told \<leftarrow> feedback i ActionFeedbackKindSystem level message;
            ret (taskChanged \<or> told)
          }
        | None \<Rightarrow> do {
            picked \<leftarrow> tryPickupDroppedEntityLocked i (InteractEntityID payload);
            if \<not> picked then ret False
            else do {
              _ \<leftarrow> on_player i ensureEquippedItemForPlayerLocked;
              _ \<leftarrow> feedback i ActionFeedbackKindSystem ActionFeedbackLevelSuccess ''Picked up dropped item.'';
              ret True
            }
          }
      })"

definition interact_market :: "nat \<Rightarrow> InteractPayload \<Rightarrow> bool step" where
  "interact_market i payload =
     (if MarketRoomID payload = NoRoom then ret False
      else do {
        player \<leftarrow> player_at i;
        moved \<leftarrow> trySetNightlyBlackMarketLocked player (MarketRoomID payload);
        if moved then do {
          _ \<leftarrow> feedback i ActionFeedbackKindPurchase ActionFeedbackLevelSuccess
            (''Nightly market moved to '' @ RoomID_str (MarketRoomID payload) @ ''.'');
          ret True
        }
        else feedback i ActionFeedbackKindPurchase ActionFeedbackLevelWarning ''Market move denied.''
      })"

definition applyInteractCommandLocked :: "nat \<Rightarrow> InteractPayload \<Rightarrow> bool step" where
  "applyInteractCommandLocked i payload = do {
     c1 \<leftarrow> interact_power i payload;
     c2 \<leftarrow> interact_night_card i payload;
     c3 \<leftarrow> interact_stash i payload;
     c4 \<leftarrow> interact_escape i payload;
     c5 \<leftarrow> interact_room i payload;
     c6 \<leftarrow> interact_cell i payload;
     c7 \<leftarrow> interact_door i payload;
     c8 \<leftarrow> interact_entity i payload;
     c9 \<leftarrow> interact_market i payload;
     ret (c1 \<or> c2 \<or> c3 \<or> c4 \<or> c5 \<or> c6 \<or> c7 \<or> c8 \<or> c9)
   }"

end
