(* ===== verification/AbilityUse.thy ===== *)
theory AbilityUse
  imports Interact
begin

text \<open>
  The use-ability command (\<open>src/internal/server/game/manager.go\<close>, \<open>applyAbilityCommandLocked\<close> and
  the functions it calls): eligibility, cooldowns and daily limits, the choice of targets, and one
  definition per ability.
\<close>

section \<open>Cooldowns and daily limits\<close>

definition abilityCooldownMapLocked :: "matchSession \<Rightarrow> PlayerID \<Rightarrow> (AbilityType \<rightharpoonup> uint64)" where
  "abilityCooldownMapLocked session playerID =
     (case s_abilityCooldownUntil session playerID of None \<Rightarrow> Map.empty | Some perPlayer \<Rightarrow> perPlayer)"

definition abilityDailyUsageMapLocked :: "matchSession \<Rightarrow> PlayerID \<Rightarrow> (AbilityType \<rightharpoonup> dailyAbilityUsage)" where
  "abilityDailyUsageMapLocked session playerID =
     (case s_abilityDailyUsage session playerID of None \<Rightarrow> Map.empty | Some perPlayer \<Rightarrow> perPlayer)"

definition usage_record :: "matchSession \<Rightarrow> PlayerID \<Rightarrow> AbilityType \<Rightarrow> dailyAbilityUsage" where
  "usage_record session playerID ability =
     (case abilityDailyUsageMapLocked session playerID ability of
        None \<Rightarrow> \<lparr>UsageDayStartTick = 0, UseCount = 0\<rparr>
      | Some r \<Rightarrow> r)"

text \<open>\<open>None\<close> is allowed; otherwise the reason of the refusal.\<close>

definition canUseAbilityAtCurrentTick :: "matchSession \<Rightarrow> PlayerState \<Rightarrow> AbilityType \<Rightarrow> string option" where
  "canUseAbilityAtCurrentTick session player ability =
     (let cooldownUntil = zero_if_none (abilityCooldownMapLocked session (ID player) ability);
          dailyLimit = DailyUseLimit ability;
          phase = Phase (s_gameState session);
          r = usage_record session (ID player) ability
      in if cooldownUntil \<noteq> 0 \<and> s_tickID session < cooldownUntil
         then Some (AbilityType_str ability @ '' is on cooldown for '' @
                Itoa (unat (cooldownUntil - s_tickID session)) @ ''t'')
         else if dailyLimit = 0 then None
         else if Current phase \<noteq> PhaseDay then Some ''this ability is only available during day phase''
         else if StartedTick phase = 0 then Some ''day phase has not started yet''
         else if UsageDayStartTick r \<noteq> StartedTick phase then None
         else if UseCount r \<ge> dailyLimit then
           (if dailyLimit = 1 then Some ''you already used this ability today''
            else Some (''you already used this ability '' @ Itoa (unat (UseCount r)) @ ''/'' @
                   Itoa (unat dailyLimit) @ '' times today''))
         else None)"

definition register_cooldown :: "PlayerID \<Rightarrow> AbilityType \<Rightarrow> matchSession \<Rightarrow> matchSession" where
  "register_cooldown playerID ability s =
     (let cooldownTicks = CooldownTicks ability (s_tickRateHz s)
      in if cooldownTicks > 0
         then s\<lparr>s_abilityCooldownUntil := (s_abilityCooldownUntil s)(playerID \<mapsto>
                (abilityCooldownMapLocked s playerID)(ability \<mapsto> s_tickID s + cooldownTicks))\<rparr>
         else s)"

definition register_daily :: "PlayerID \<Rightarrow> AbilityType \<Rightarrow> matchSession \<Rightarrow> matchSession" where
  "register_daily playerID ability s =
     (if DailyUseLimit ability > 0 \<and> Current (Phase (s_gameState s)) = PhaseDay
      then (let started = StartedTick (Phase (s_gameState s));
                r = usage_record s playerID ability;
                r = (if UsageDayStartTick r \<noteq> started then \<lparr>UsageDayStartTick = started, UseCount = 0\<rparr> else r);
                r = r\<lparr>UseCount := UseCount r + 1\<rparr>
            in s\<lparr>s_abilityDailyUsage := (s_abilityDailyUsage s)(playerID \<mapsto>
                 (abilityDailyUsageMapLocked s playerID)(ability \<mapsto> r))\<rparr>)
      else s)"

definition registerAbilityUseLocked :: "PlayerID \<Rightarrow> AbilityType \<Rightarrow> matchSession \<Rightarrow> matchSession" where
  "registerAbilityUseLocked playerID ability s = register_daily playerID ability (register_cooldown playerID ability s)"

section \<open>Refusal and targets\<close>

definition denyAbilityUseLocked :: "nat \<Rightarrow> string \<Rightarrow> bool step" where
  "denyAbilityUseLocked i reason = do {
     player \<leftarrow> player_at i;
     let trimmed = TrimSpace reason;
     let trimmed = (if trimmed = '''' then ''that action is unavailable right now'' else trimmed);
     let message = ''can't use that here: '' @ trimmed;
     let message = (if last message = CHR ''.'' then message else message @ ''.'');
     told \<leftarrow> feedback i ActionFeedbackKindSystem ActionFeedbackLevelWarning message;
     if told then do { mark_player (ID player); ret True } else ret False
   }"

text \<open>One candidate of the search for the nearest player.\<close>

definition nearest_step :: "PlayerState \<Rightarrow> bool \<Rightarrow> PlayerID \<times> float32 \<Rightarrow> PlayerState \<Rightarrow> PlayerID \<times> float32" where
  "nearest_step actor requireSameRoom best candidate =
     (let (bestID, bestDistance) = best;
          dx = f_sub (X (Position candidate)) (X (Position actor));
          dy = f_sub (Y (Position candidate)) (Y (Position actor));
          dist = f_add (f_mul dx dx) (f_mul dy dy)
      in if ID candidate = PlayerID '''' \<or> ID candidate = ID actor \<or> \<not> Alive candidate then best
         else if requireSameRoom \<and> (CurrentRoomID actor = NoRoom \<or> CurrentRoomID candidate \<noteq> CurrentRoomID actor)
         then best
         else if bestID = PlayerID '''' \<or> f_less dist bestDistance \<or>
                 (f_eq dist bestDistance \<and> ID candidate < bestID)
         then (ID candidate, dist) else best)"

definition nearestPlayerTargetLocked :: "PlayerState \<Rightarrow> PlayerState list \<Rightarrow> bool \<Rightarrow> PlayerID" where
  "nearestPlayerTargetLocked actor ps requireSameRoom =
     fst (foldl (nearest_step actor requireSameRoom) (PlayerID '''', 0) ps)"

definition resolveAbilityTargetsForContextLocked ::
  "matchSession \<Rightarrow> PlayerState \<Rightarrow> AbilityUsePayload \<Rightarrow> AbilityUsePayload" where
  "resolveAbilityTargetsForContextLocked session player payload =
     (if Ability payload = AbilitySearch \<or> Ability payload = AbilityDetainer \<or> Ability payload = AbilityPickPocket then
        (if AbilityTargetPlayerID payload = PlayerID ''''
         then payload\<lparr>AbilityTargetPlayerID := nearestPlayerTargetLocked player (session_players session) True\<rparr>
         else payload)
      else if Ability payload = AbilityTracker then
        (if AbilityTargetPlayerID payload = PlayerID ''''
         then payload\<lparr>AbilityTargetPlayerID := nearestPlayerTargetLocked player (session_players session) False\<rparr>
         else payload)
      else if Ability payload = AbilityLocksmith then
        (if AbilityTargetDoorID payload = 0
         then payload\<lparr>AbilityTargetDoorID :=
                firstReachableDoorForPlayerLocked session player (session_map session) True\<rparr>
         else payload)
      else payload)"

section \<open>The abilities\<close>

text \<open>What an ability did: a refusal with its reason, or the kind, level and message of the feedback.\<close>

datatype ability_result = Denied string | Applied ActionFeedbackKind ActionFeedbackLevel string

definition ability_alarm :: "nat \<Rightarrow> ability_result step" where
  "ability_alarm i = do {
     session \<leftarrow> asks id;
     player \<leftarrow> player_at i;
     let durationTicks = AlarmDurationTicks (s_tickRateHz session);
     if durationTicks = 0 then ret (Denied ''alarm duration is unavailable'')
     else do {
       change (with_map (\<lambda>m. m\<lparr>Alarm := \<lparr>Active = True, AlarmEndsTick = s_tickID session + durationTicks,
         TriggeredBy = ID player\<rparr>\<rparr>));
       ret (Applied ActionFeedbackKindAlarm ActionFeedbackLevelSuccess
         (''Alarm triggered ('' @ Itoa (unat durationTicks) @ ''t).''))
     }
   }"

text \<open>The checks on a target player that three abilities share: the index, or the refusal.\<close>

definition ability_target ::
  "nat \<Rightarrow> PlayerID \<Rightarrow> string \<Rightarrow> string \<Rightarrow> string \<Rightarrow> (string + nat) step" where
  "ability_target i targetID missing self elsewhere = do {
     player \<leftarrow> player_at i;
     found \<leftarrow> index_of targetID;
     case found of
       None \<Rightarrow> ret (Inl missing)
     | Some j \<Rightarrow>
         if targetID = PlayerID '''' then ret (Inl missing)
         else if targetID = ID player then ret (Inl self)
         else do {
           target \<leftarrow> player_at j;
           if \<not> Alive target then ret (Inl ''target is already down'')
           else if CurrentRoomID target = NoRoom \<or> CurrentRoomID target \<noteq> CurrentRoomID player
           then ret (Inl elsewhere)
           else ret (Inr j)
         }
   }"

text \<open>The loop that confiscates the contraband stacks of a target.\<close>

fun confiscate :: "ItemStack list \<Rightarrow> PlayerState \<Rightarrow> string list \<Rightarrow> PlayerState \<times> string list" where
  "confiscate [] target seized = (target, seized)"
| "confiscate (s # rest) target seized =
     (case RemoveItem target (Item s) (Quantity s) of
        None \<Rightarrow> confiscate rest target seized
      | Some target \<Rightarrow> confiscate rest target (seized @ [stack_label s]))"

definition ability_search :: "nat \<Rightarrow> AbilityUsePayload \<Rightarrow> ability_result step" where
  "ability_search i payload = do {
     player \<leftarrow> player_at i;
     checked \<leftarrow> ability_target i (AbilityTargetPlayerID payload)
       ''stand in the same room as a living target to search'' ''you cannot search yourself''
       ''search requires target in your current room'';
     case checked of
       Inl reason \<Rightarrow> ret (Denied reason)
     | Inr j \<Rightarrow> do {
         target \<leftarrow> player_at j;
         let inventorySummary = summarizeInventoryForFeedback (Inventory target);
         confiscated \<leftarrow> on_player j (\<lambda>p. confiscate (ContrabandStacks p) p []);
         if length confiscated > 0 then do {
           reequip j;
           mark_player (ID target);
           tell j ActionFeedbackKindSystem ActionFeedbackLevelWarning
             (''Searched by '' @ Name player @ ''; contraband confiscated.'');
           ret (Applied ActionFeedbackKindSystem ActionFeedbackLevelInfo
             (''Search report on '' @ Name target @ '': inv='' @ inventorySummary @ '' | confiscated='' @
              Join confiscated '', '' @ ''.''))
         }
         else do {
           tell j ActionFeedbackKindSystem ActionFeedbackLevelInfo (''Searched by '' @ Name player @ ''.'');
           ret (Applied ActionFeedbackKindSystem ActionFeedbackLevelInfo
             (''Search report on '' @ Name target @ '': inv='' @ inventorySummary @ ''.''))
         }
       }
   }"

text \<open>An ability that puts an effect on its user for a number of ticks.\<close>

definition effect_ability ::
  "nat \<Rightarrow> EffectType \<Rightarrow> AbilityType \<Rightarrow> string \<Rightarrow> string \<Rightarrow> string \<Rightarrow> ability_result step" where
  "effect_ability i effect ability unavailable label already = do {
     session \<leftarrow> asks id;
     player \<leftarrow> player_at i;
     let duration = EffectDurationTicks ability (s_tickRateHz session);
     if duration = 0 then ret (Denied unavailable)
     else do {
       changed \<leftarrow> on_player i (\<lambda>p. upsertEffectLocked p effect (s_tickID session + duration) (ID player) 0 1);
       if changed then ret (Applied ActionFeedbackKindSystem ActionFeedbackLevelInfo
         (label @ '' active for '' @ Itoa (unat duration) @ ''t.''))
       else ret (Denied already)
     }
   }"

definition ability_camera :: "nat \<Rightarrow> ability_result step" where
  "ability_camera i = do {
     player \<leftarrow> player_at i;
     power \<leftarrow> asks (\<lambda>s. PowerOn (session_map s));
     if CurrentRoomID player \<noteq> RoomCameraRoom then ret (Denied ''go to the camera room'')
     else if \<not> power then ret (Denied ''restore power before using cameras'')
     else effect_ability i EffectCameraView AbilityCameraMan ''camera system cooldown is unavailable''
       ''Camera feed'' ''camera feed is already active''
   }"

definition detain :: "uint64 \<Rightarrow> PlayerState \<Rightarrow> PlayerState \<times> bool" where
  "detain untilTick target =
     (let (target, changed) = (if untilTick > SolitaryUntilTick target
            then (target\<lparr>SolitaryUntilTick := untilTick\<rparr>, True) else (target, False))
      in if AssignedCell target \<noteq> 0 \<and> LockedInCell target \<noteq> AssignedCell target
         then (target\<lparr>LockedInCell := AssignedCell target\<rparr>, True) else (target, changed))"

definition ability_detainer :: "nat \<Rightarrow> AbilityUsePayload \<Rightarrow> ability_result step" where
  "ability_detainer i payload = do {
     session \<leftarrow> asks id;
     player \<leftarrow> player_at i;
     checked \<leftarrow> ability_target i (AbilityTargetPlayerID payload)
       ''stand in the same room as a living target to detain'' ''you cannot detain yourself''
       ''detainer requires target in your current room'';
     case checked of
       Inl reason \<Rightarrow> ret (Denied reason)
     | Inr j \<Rightarrow> do {
         target \<leftarrow> player_at j;
         let duration = EffectDurationTicks AbilityDetainer (s_tickRateHz session);
         if duration = 0 then ret (Denied ''detainer duration is unavailable'')
         else do {
           let untilTick = s_tickID session + duration;
           changed \<leftarrow> on_player j (detain untilTick);
           if \<not> changed then ret (Denied ''target is already fully detained'')
           else do {
             mark_player (ID target);
             tell j ActionFeedbackKindStun ActionFeedbackLevelWarning
               (''Detained by '' @ Name player @ '' until tick '' @ Itoa (unat untilTick) @ ''.'');
             ret (Applied ActionFeedbackKindStun ActionFeedbackLevelInfo
               (''Detainer applied to '' @ Name target @ ''.''))
           }
         }
       }
   }"

definition ability_tracker :: "nat \<Rightarrow> ability_result step" where
  "ability_tracker i = effect_ability i EffectTrackerView AbilityTracker ''tracker duration is unavailable''
     ''Tracker view'' ''tracker view is already active''"

definition ability_disguise :: "nat \<Rightarrow> ability_result step" where
  "ability_disguise i = effect_ability i EffectDisguised AbilityDisguise ''disguise duration is unavailable''
     ''Disguise'' ''disguise is already active''"

text \<open>Taking an item from a target: both players are equipped again and the target is marked.\<close>

definition steal ::
  "nat \<Rightarrow> nat \<Rightarrow> (PlayerState \<Rightarrow> PlayerState \<Rightarrow> (PlayerState \<times> PlayerState) option) \<Rightarrow> bool step" where
  "steal j i f = do {
     target \<leftarrow> player_at j;
     moved \<leftarrow> transfer_at j i f;
     if \<not> moved then ret False
     else do { reequip j; reequip i; mark_player (ID target); ret True }
   }"

definition ability_pickpocket :: "nat \<Rightarrow> AbilityUsePayload \<Rightarrow> ability_result step" where
  "ability_pickpocket i payload = do {
     tick \<leftarrow> asks s_tickID;
     player \<leftarrow> player_at i;
     checked \<leftarrow> ability_target i (AbilityTargetPlayerID payload)
       ''stand in the same room as a living target to pick-pocket'' ''you cannot pick-pocket yourself''
       ''pick-pocket requires target in your current room'';
     case checked of
       Inl reason \<Rightarrow> ret (Denied reason)
     | Inr j \<Rightarrow> do {
         target \<leftarrow> player_at j;
         let item = DeterministicGrabFromInventory (ID player) (ID target) tick (Inventory target);
         if item = NoItem then ret (Denied ''target has no stealable items'')
         else do {
           stolen \<leftarrow> steal j i (\<lambda>a b. TransferItem a b item 1);
           if \<not> stolen then ret (Denied ''pick-pocket failed'')
           else do {
             tell j ActionFeedbackKindSystem ActionFeedbackLevelWarning
               (''An item was stolen by '' @ Name player @ ''.'');
             ret (Applied ActionFeedbackKindSystem ActionFeedbackLevelInfo
               (''Pick-pocket stole '' @ ItemType_str item @ '' from '' @ Name target @ ''.''))
           }
         }
       }
   }"

definition ability_hacker :: "ability_result step" where
  "ability_hacker = do {
     power \<leftarrow> asks (\<lambda>s. PowerOn (session_map s));
     if \<not> power then ret (Denied ''power is already off'')
     else do {
       changed \<leftarrow> switch_power False;
       if \<not> changed then ret (Denied ''power controls are unavailable'')
       else do {
         mark_all_doors;
         ret (Applied ActionFeedbackKindDoor ActionFeedbackLevelInfo ''Hacker cut power OFF.'')
       }
     }
   }"

definition ability_locksmith :: "AbilityUsePayload \<Rightarrow> ability_result step" where
  "ability_locksmith payload = do {
     m \<leftarrow> asks session_map;
     if \<not> PowerOn m then ret (Denied ''power must be on to use locksmith'')
     else if AbilityTargetDoorID payload = 0 then ret (Denied ''stand by an accessible door'')
     else case find_index (\<lambda>d. DoorState_ID d = AbilityTargetDoorID payload) (Doors m) of
       None \<Rightarrow> ret (Denied ''target door no longer exists'')
     | Some k \<Rightarrow> do {
         let door = Doors m ! k;
         let changed = (Locked door \<or> \<not> Open door);
         let door = door\<lparr>Locked := False, Open := True\<rparr>;
         set_door k door;
         (unlockedRoomID, unlockedRoom) \<leftarrow> unlockRoomForPrisonersFromDoorLocked door;
         if changed \<or> unlockedRoom then do {
           whenever changed (mark_door (DoorState_ID door));
           let roomLabel = (if unlockedRoomID = RoomPowerRoom then ''Power Room''
                            else if unlockedRoomID = RoomAmmoRoom then ''Ammunition Room''
                            else ''restricted room'');
           ret (Applied ActionFeedbackKindDoor ActionFeedbackLevelInfo
             (if unlockedRoom then ''Locksmith unlocked '' @ roomLabel @ '' access for prisoners.''
              else ''Locksmith opened door '' @ Itoa (unat (DoorState_ID door)) @ ''.''))
         }
         else ret (Denied ''target door is already unlocked and open'')
       }
   }"

definition ability_chameleon :: "nat \<Rightarrow> ability_result step" where
  "ability_chameleon i = do {
     session \<leftarrow> asks id;
     player \<leftarrow> player_at i;
     let pendingTick = zero_if_none (s_chameleonPendingUntil session (ID player));
     let pendingTicks = (ucast (s_tickRateHz session) :: uint64) * 5;
     let pendingTicks = (if pendingTicks = 0 then 5 else pendingTicks);
     if hasActiveEffect player EffectChameleon (s_tickID session)
     then ret (Denied ''you are already hidden; move to reveal'')
     else if pendingTick \<noteq> 0 \<and> s_tickID session < pendingTick
     then ret (Denied ''chameleon is already primed'')
     else do {
       change (\<lambda>s. s\<lparr>s_chameleonPendingUntil :=
         (s_chameleonPendingUntil s)(ID player \<mapsto> s_tickID s + pendingTicks)\<rparr>);
       ret (Applied ActionFeedbackKindSystem ActionFeedbackLevelInfo
         ''Stay still for 5s to trigger chameleon invisibility.'')
     }
   }"

definition use_ability :: "nat \<Rightarrow> AbilityUsePayload \<Rightarrow> ability_result step" where
  "use_ability i payload =
     (if Ability payload = AbilityAlarm then ability_alarm i
      else if Ability payload = AbilitySearch then ability_search i payload
      else if Ability payload = AbilityCameraMan then ability_camera i
      else if Ability payload = AbilityDetainer then ability_detainer i payload
      else if Ability payload = AbilityTracker then ability_tracker i
      else if Ability payload = AbilityPickPocket then ability_pickpocket i payload
      else if Ability payload = AbilityHacker then ability_hacker
      else if Ability payload = AbilityDisguise then ability_disguise i
      else if Ability payload = AbilityLocksmith then ability_locksmith payload
      else if Ability payload = AbilityChameleon then ability_chameleon i
      else ret (Denied ''ability is not implemented''))"

definition applyAbilityCommandLocked :: "nat \<Rightarrow> AbilityUsePayload \<Rightarrow> bool step" where
  "applyAbilityCommandLocked i payload = do {
     session \<leftarrow> asks id;
     player \<leftarrow> player_at i;
     if \<not> IsKnownAbility (Ability payload) then denyAbilityUseLocked i ''unknown ability''
     else if AssignedAbility player \<noteq> AbilityType '''' \<and> Ability payload \<noteq> AssignedAbility player
     then denyAbilityUseLocked i
       (''you are assigned '' @ AbilityType_str (AssignedAbility player) @ '' this match'')
     else if \<not> CanPlayerUse player (Ability payload)
     then denyAbilityUseLocked i ''your role cannot use this ability''
     else case canUseAbilityAtCurrentTick session player (Ability payload) of
       Some reason \<Rightarrow> denyAbilityUseLocked i reason
     | None \<Rightarrow> do {
         result \<leftarrow> use_ability i (resolveAbilityTargetsForContextLocked session player payload);
         case result of
           Denied reason \<Rightarrow> denyAbilityUseLocked i reason
         | Applied kind level message \<Rightarrow> do {
             change (registerAbilityUseLocked (ID player) (Ability payload));
             tell i kind level message;
             ret True
           }
       }
   }"

end
