(* ===== verification/CardUse.thy ===== *)
theory CardUse
  imports AbilityUse
begin

text \<open>
  The use-card command (\<open>src/internal/server/game/manager.go\<close>, \<open>applyCardCommandLocked\<close>): the card
  leaves the hand, one definition per card says whether it applied, and a card that did not apply
  returns to the hand.
\<close>

definition card_morphine :: "PlayerState \<Rightarrow> PlayerState \<times> bool" where
  "card_morphine player =
     (let maxHearts = MaxHeartsHalfForRole (Role player);
          maxHearts = (if maxHearts = 0 then 6 else maxHearts);
          before = HeartsHalf player
      in if before < maxHearts
         then (let heal = 2; space = maxHearts - before; heal = (if heal > space then space else heal)
               in (player\<lparr>HeartsHalf := HeartsHalf player + heal\<rparr>, heal > 0))
         else (player, False))"

definition card_bullet :: "nat \<Rightarrow> bool step" where
  "card_bullet i = do {
     player \<leftarrow> player_at i;
     let maxBullets = (if IsAuthorityPlayer player then authorityAmmoMax else 255);
     if Bullets player < maxBullets then do {
       edit_player i (\<lambda>p. p\<lparr>Bullets := Bullets p + 1\<rparr>);
       synced \<leftarrow> on_player i syncAuthorityBulletStackLocked;
       whenever synced (mark_player (ID player));
       ret True
     }
     else ret False
   }"

definition card_speed :: "nat \<Rightarrow> bool step" where
  "card_speed i = do {
     session \<leftarrow> asks id;
     player \<leftarrow> player_at i;
     let duration = SpeedDurationTicks (s_tickRateHz session);
     if duration > 0
     then on_player i (\<lambda>p. upsertEffectLocked p EffectSpeedBoost (s_tickID session + duration) (ID player) 0 1)
     else ret False
   }"

text \<open>The end of the current phase, or one second from now when it is over.\<close>

definition phase_end_tick :: "matchSession \<Rightarrow> uint64" where
  "phase_end_tick session =
     (let endTick = EndsTick (Phase (s_gameState session))
      in if endTick = 0 \<or> endTick \<le> s_tickID session
         then s_tickID session + ucast (s_tickRateHz session) else endTick)"

definition card_armor :: "nat \<Rightarrow> bool step" where
  "card_armor i = do {
     session \<leftarrow> asks id;
     player \<leftarrow> player_at i;
     let low = (TempHeartsHalf player < 2);
     whenever low (edit_player i (\<lambda>p. p\<lparr>TempHeartsHalf := 2\<rparr>));
     put \<leftarrow> on_player i (\<lambda>p. upsertEffectLocked p EffectArmorPlate (phase_end_tick session) (ID player) 0 1);
     ret (low \<or> put)
   }"

definition card_lock_snap :: "CardUsePayload \<Rightarrow> bool step" where
  "card_lock_snap payload = do {
     session \<leftarrow> asks id;
     let ds = Doors (session_map session);
     if CardTargetDoorID payload = 0 then ret False
     else case find_index (\<lambda>d. DoorState_ID d = CardTargetDoorID payload) ds of
       None \<Rightarrow> ret False
     | Some k \<Rightarrow> do {
         let door = ds ! k;
         if \<not> Locked door then ret False
         else do {
           let restoreTick = phase_end_tick session;
           let restoreTick = (if restoreTick \<le> s_tickID session then s_tickID session + 1 else restoreTick);
           change (\<lambda>s. s\<lparr>s_lockSnapDoorRestores := AList.update (DoorState_ID door)
             \<lparr>RestoreTick = restoreTick, RestoreLocked = Locked door, RestoreOpen = Open door\<rparr>
             (s_lockSnapDoorRestores s)\<rparr>);
           set_door k (door\<lparr>Locked := False, Open := True\<rparr>);
           mark_door (DoorState_ID door);
           ret True
         }
       }
   }"

text \<open>The target of a card that takes an item, when the checks pass.\<close>

definition card_target :: "nat \<Rightarrow> PlayerID \<Rightarrow> nat option step" where
  "card_target i targetID = do {
     player \<leftarrow> player_at i;
     found \<leftarrow> index_of targetID;
     case found of
       None \<Rightarrow> ret None
     | Some j \<Rightarrow>
         if targetID = PlayerID '''' \<or> targetID = ID player then ret None
         else do {
           target \<leftarrow> player_at j;
           if \<not> Alive target \<or> CurrentRoomID target = NoRoom \<or> CurrentRoomID target \<noteq> CurrentRoomID player
           then ret None else ret (Some j)
         }
   }"

definition card_item_steal :: "nat \<Rightarrow> CardUsePayload \<Rightarrow> bool step" where
  "card_item_steal i payload = do {
     checked \<leftarrow> card_target i (CardTargetPlayerID payload);
     case checked of
       None \<Rightarrow> ret False
     | Some j \<Rightarrow>
         steal j i (\<lambda>a b. if CardTargetItem payload \<noteq> NoItem then TransferItem a b (CardTargetItem payload) 1
                         else transferFirstStackQuantityLocked a b 1)
   }"

definition card_item_grab :: "nat \<Rightarrow> CardUsePayload \<Rightarrow> bool step" where
  "card_item_grab i payload = do {
     tick \<leftarrow> asks s_tickID;
     player \<leftarrow> player_at i;
     checked \<leftarrow> card_target i (CardTargetPlayerID payload);
     case checked of
       None \<Rightarrow> ret False
     | Some j \<Rightarrow> do {
         target \<leftarrow> player_at j;
         let item = DeterministicGrabFromInventory (ID player) (ID target) tick (Inventory target);
         if item = NoItem then ret False else steal j i (\<lambda>a b. TransferItem a b item 1)
       }
   }"

definition card_scrap_bundle :: "nat \<Rightarrow> bool step" where
  "card_scrap_bundle i = do {
     addedWood \<leftarrow> on_player i (\<lambda>p. attempt p (AddItem p ItemWood 1));
     addedMetal \<leftarrow> on_player i (\<lambda>p. attempt p (AddItem p ItemMetalSlab 1));
     whenever (addedWood \<or> addedMetal) (reequip i);
     ret (addedWood \<or> addedMetal)
   }"

definition stop_door :: "PlayerID \<Rightarrow> uint64 \<Rightarrow> DoorState \<Rightarrow> DoorState \<times> bool" where
  "stop_door playerID blockUntil door =
     (let (door, changed) = (if Open door then (door\<lparr>Open := False\<rparr>, True) else (door, False));
          (door, changed) = (if blockUntil > BlockedUntilTick door
                             then (door\<lparr>BlockedUntilTick := blockUntil\<rparr>, True) else (door, changed))
      in if LockedByPlayerID door \<noteq> playerID then (door\<lparr>LockedByPlayerID := playerID\<rparr>, True)
         else (door, changed))"

definition card_door_stop :: "nat \<Rightarrow> CardUsePayload \<Rightarrow> bool step" where
  "card_door_stop i payload = do {
     session \<leftarrow> asks id;
     player \<leftarrow> player_at i;
     let duration = DoorStopDurationTicks (s_tickRateHz session);
     let ds = Doors (session_map session);
     if CardTargetDoorID payload = 0 \<or> \<not> PowerOn (session_map session) then ret False
     else if duration = 0 then ret False
     else case find_index (\<lambda>d. DoorState_ID d = CardTargetDoorID payload) ds of
       None \<Rightarrow> ret False
     | Some k \<Rightarrow>
         (case stop_door (ID player) (s_tickID session + duration) (ds ! k) of
            (door, changed) \<Rightarrow> do {
              set_door k door;
              whenever changed (mark_door (DoorState_ID door));
              ret changed
            })
   }"

definition card_get_out :: "PlayerState \<Rightarrow> PlayerState \<times> bool" where
  "card_get_out player =
     (if SolitaryUntilTick player \<noteq> 0 \<or> LockedInCell player \<noteq> 0
      then (player\<lparr>SolitaryUntilTick := 0, LockedInCell := 0\<rparr>, True) else (player, False))"

text \<open>The switch over the cards: whether the card applied, and the feedback.\<close>

definition quietly :: "bool step \<Rightarrow> (bool \<times> ActionFeedbackKind \<times> ActionFeedbackLevel \<times> string) step" where
  "quietly m = do {
     applied \<leftarrow> m;
     ret (applied, ActionFeedbackKindSystem, ActionFeedbackLevelInfo, '''') }"

definition use_card ::
  "nat \<Rightarrow> CardUsePayload \<Rightarrow> (bool \<times> ActionFeedbackKind \<times> ActionFeedbackLevel \<times> string) step" where
  "use_card i payload =
     (if Card payload = CardMorphine then quietly (on_player i card_morphine)
      else if Card payload = CardBullet then quietly (card_bullet i)
      else if Card payload = CardMoney then do {
        (applied, message, level) \<leftarrow> tryBribeNPCPrisonerWithMoneyCardLocked i (CardTargetEntityID payload);
        ret (applied, ActionFeedbackKindPurchase, level, message)
      }
      else if Card payload = CardSpeed then quietly (card_speed i)
      else if Card payload = CardArmorPlate then quietly (card_armor i)
      else if Card payload = CardLockSnap then quietly (card_lock_snap payload)
      else if Card payload = CardItemSteal then quietly (card_item_steal i payload)
      else if Card payload = CardItemGrab then quietly (card_item_grab i payload)
      else if Card payload = CardScrapBundle then quietly (card_scrap_bundle i)
      else if Card payload = CardDoorStop then quietly (card_door_stop i payload)
      else if Card payload = CardGetOutOfJailFree then quietly (on_player i card_get_out)
      else quietly (ret False))"

definition applyCardCommandLocked :: "nat \<Rightarrow> CardUsePayload \<Rightarrow> bool step" where
  "applyCardCommandLocked i payload = do {
     player \<leftarrow> player_at i;
     if \<not> IsKnownCard (Card payload) then ret False
     else do {
       removed \<leftarrow> on_player i (\<lambda>p. attempt p (RemoveCard p (Card payload)));
       if \<not> removed then ret False
       else do {
         (applied, kind, level, message) \<leftarrow> use_card i payload;
         if \<not> applied then do {
           _ \<leftarrow> on_player i (\<lambda>p. attempt p (AddCard p (Card payload)));
           told \<leftarrow> feedback i kind level message;
           if told then do { mark_player (ID player); ret True } else ret False
         }
         else do { tell i kind level message; ret True }
       }
     }
   }"

end
