(* ===== verification/PlayerLaws.thy ===== *)
theory PlayerLaws
  imports CardUse
begin

text \<open>
  The laws of one player that every handler of a tick keeps: the invariant \<open>player_ok\<close> (a sorted
  hand of at most three known cards, a canonical inventory, hearts, temporary hearts, lives and
  authority ammunition within their limits, a living player has hearts and lives, a dead one has
  no lives left) and the identity of the player. \<open>player_step\<close> is the step relation of a player;
  \<open>honest\<close> is a function that reports truthfully whether it changed the player.
\<close>

definition player_ok :: "PlayerState \<Rightarrow> bool" where
  "player_ok p \<longleftrightarrow> hand_ok (Cards p) \<and> canonical (Inventory p) \<and>
     HeartsHalf p \<le> MaxHeartsHalfForRole (Role p) \<and> TempHeartsHalf p \<le> 2 \<and>
     LivesRemaining p \<le> DefaultPlayerLives \<and> (IsAuthorityPlayer p \<longrightarrow> Bullets p \<le> authorityAmmoMax) \<and>
     InventorySlots p = playerInventorySlotCount \<and>
     (if Alive p then HeartsHalf p \<noteq> 0 \<and> LivesRemaining p \<noteq> 0 else LivesRemaining p = 0)"

definition player_step :: "PlayerState \<Rightarrow> PlayerState \<Rightarrow> bool" where
  "player_step p q \<longleftrightarrow> ID q = ID p \<and> Name q = Name p \<and> Connected q = Connected p \<and>
     LastActionFeedback q = LastActionFeedback p \<and> (player_ok p \<longrightarrow> player_ok q)"

text \<open>The message of an action carries the tick of the action.\<close>

definition player_stamp :: "uint64 \<Rightarrow> PlayerState \<Rightarrow> PlayerState \<Rightarrow> bool" where
  "player_stamp tick p q \<longleftrightarrow> ID q = ID p \<and> Name q = Name p \<and> Connected q = Connected p \<and>
     (LastActionFeedback q = LastActionFeedback p \<or> FeedbackTickID (LastActionFeedback q) = tick) \<and>
     (player_ok p \<longrightarrow> player_ok q)"

definition honest :: "(PlayerState \<Rightarrow> PlayerState \<times> bool) \<Rightarrow> bool" where
  "honest f \<longleftrightarrow> (\<forall>p. player_step p (fst (f p)) \<and> (\<not> snd (f p) \<longrightarrow> fst (f p) = p))"

named_theorems player_laws \<open>steps of one player\<close>

lemma player_step_refl [simp]: "player_step p p"
  by (simp add: player_step_def)

lemma player_step_trans: "player_step p q \<Longrightarrow> player_step q r \<Longrightarrow> player_step p r"
  by (simp add: player_step_def)

lemma player_step_stamp: "player_step p q \<Longrightarrow> player_stamp tick p q"
  by (simp add: player_step_def player_stamp_def)

lemma player_stamp_trans: "player_stamp tick p q \<Longrightarrow> player_stamp tick q r \<Longrightarrow> player_stamp tick p r"
  by (auto simp: player_stamp_def)

lemma player_stamp_refl [simp]: "player_stamp tick p p"
  by (simp add: player_stamp_def)

lemma honestI:
  assumes "\<And>p. player_step p (fst (f p))" and "\<And>p. \<not> snd (f p) \<Longrightarrow> fst (f p) = p"
  shows "honest f"
  using assms by (simp add: honest_def)

text \<open>Fields that the laws do not mention can be written freely.\<close>

lemma IsAuthorityPlayer_update [simp]:
  "IsAuthorityPlayer (p\<lparr>Inventory := a\<rparr>) = IsAuthorityPlayer p"
  "IsAuthorityPlayer (p\<lparr>Cards := b\<rparr>) = IsAuthorityPlayer p"
  "IsAuthorityPlayer (p\<lparr>Bullets := c\<rparr>) = IsAuthorityPlayer p"
  "IsAuthorityPlayer (p\<lparr>EquippedItem := d\<rparr>) = IsAuthorityPlayer p"
  "IsAuthorityPlayer (p\<lparr>Velocity := v\<rparr>) = IsAuthorityPlayer p"
  "IsAuthorityPlayer (p\<lparr>Position := v\<rparr>) = IsAuthorityPlayer p"
  "IsAuthorityPlayer (p\<lparr>Facing := v\<rparr>) = IsAuthorityPlayer p"
  "IsAuthorityPlayer (p\<lparr>CurrentRoomID := r\<rparr>) = IsAuthorityPlayer p"
  "IsAuthorityPlayer (p\<lparr>LastActionFeedback := fb\<rparr>) = IsAuthorityPlayer p"
  "IsAuthorityPlayer (p\<lparr>LastEscapeAttempt := ea\<rparr>) = IsAuthorityPlayer p"
  "IsAuthorityPlayer (p\<lparr>Effects := es\<rparr>) = IsAuthorityPlayer p"
  "IsAuthorityPlayer (p\<lparr>NightCardChoices := b\<rparr>) = IsAuthorityPlayer p"
  "IsAuthorityPlayer (p\<lparr>HeartsHalf := c\<rparr>) = IsAuthorityPlayer p"
  "IsAuthorityPlayer (p\<lparr>TempHeartsHalf := c\<rparr>) = IsAuthorityPlayer p"
  "IsAuthorityPlayer (p\<lparr>LivesRemaining := c\<rparr>) = IsAuthorityPlayer p"
  "IsAuthorityPlayer (p\<lparr>Alive := al\<rparr>) = IsAuthorityPlayer p"
  "IsAuthorityPlayer (p\<lparr>InventorySlots := c\<rparr>) = IsAuthorityPlayer p"
  "IsAuthorityPlayer (p\<lparr>StunnedUntilTick := t\<rparr>) = IsAuthorityPlayer p"
  "IsAuthorityPlayer (p\<lparr>SolitaryUntilTick := t\<rparr>) = IsAuthorityPlayer p"
  "IsAuthorityPlayer (p\<lparr>LockedInCell := cell\<rparr>) = IsAuthorityPlayer p"
  by (simp_all add: IsAuthorityPlayer_def)

lemmas step_defs = player_step_def player_ok_def

lemma free_field_steps [simp]:
  "player_step p (p\<lparr>Velocity := v\<rparr>)" "player_step p (p\<lparr>Position := v\<rparr>)" "player_step p (p\<lparr>Facing := v\<rparr>)"
  "player_step p (p\<lparr>CurrentRoomID := r\<rparr>)" "player_step p (p\<lparr>EquippedItem := item\<rparr>)"
  "player_step p (p\<lparr>StunnedUntilTick := t\<rparr>)" "player_step p (p\<lparr>NightCardChoices := cs\<rparr>)"
  "player_step p (p\<lparr>InventorySlots := playerInventorySlotCount\<rparr>)" "player_step p (p\<lparr>SolitaryUntilTick := t\<rparr>)"
  "player_step p (p\<lparr>LockedInCell := cell\<rparr>)" "player_step p (p\<lparr>Effects := es\<rparr>)"
  "player_step p (p\<lparr>LastEscapeAttempt := ea\<rparr>)"
  by (simp_all add: step_defs)

lemma free_pair_steps [simp]:
  "player_step p (p\<lparr>Position := v, Velocity := u\<rparr>)" "player_step p (p\<lparr>CurrentRoomID := r, Velocity := u\<rparr>)"
  "player_step p (p\<lparr>SolitaryUntilTick := t, LockedInCell := cell\<rparr>)"
  by (simp_all add: step_defs)

section \<open>Items and equipment\<close>

lemma AddItem_step [player_laws]: "player_step p (fst (attempt p (AddItem p item n)))"
  by (auto simp: attempt_def step_defs AddItem_Some_iff split: option.splits)

lemma RemoveItem_step [player_laws]: "player_step p (fst (attempt p (RemoveItem p item n)))"
  by (auto simp: attempt_def step_defs RemoveItem_Some_iff split: option.splits)

lemma attempt_honest: "(\<And>p. player_step p (fst (attempt p (f p)))) \<Longrightarrow> honest (\<lambda>p. attempt p (f p))"
  by (rule honestI) (auto simp: attempt_def split: option.splits)

lemma AddItem_honest [player_laws]: "honest (\<lambda>p. attempt p (AddItem p item n))"
  by (intro attempt_honest AddItem_step)

lemma RemoveItem_honest [player_laws]: "honest (\<lambda>p. attempt p (RemoveItem p item n))"
  by (intro attempt_honest RemoveItem_step)

lemma Craft_honest [player_laws]: "honest (\<lambda>p. attempt p (Craft p item))"
  by (rule attempt_honest) (auto simp: attempt_def step_defs Craft_Some_iff split: option.splits)

lemma ensureEquipped_honest [player_laws]: "honest ensureEquippedItemForPlayerLocked"
  by (simp add: honest_def ensureEquippedItemForPlayerLocked_def Let_def)

lemma step_inventory: "canonical inventory' \<Longrightarrow> player_step p (p\<lparr>Inventory := inventory'\<rparr>)"
  by (simp add: step_defs)

lemma TransferItem_steps:
  assumes "TransferItem a b item n = Some (a', b')"
  shows "player_step a a' \<and> player_step b b'"
proof -
  from assms obtain ia ib where "a' = a\<lparr>Inventory := ia\<rparr>" "b' = b\<lparr>Inventory := ib\<rparr>"
    and r: "removeFromInventory (normalizeInventory (Inventory a)) item n = Some ia"
    and s: "addToInventory (normalizeInventory (Inventory b)) item n (baseStackLimitForPlayer b) = Some ib"
    unfolding TransferItem_Some_iff by blast
  moreover have "canonical ia" using r by (simp add: removeFromInventory_Some_iff)
  moreover have "canonical ib" using s by (simp add: addToInventory_Some_iff)
  ultimately show ?thesis by (simp add: step_inventory)
qed

lemma transferFirst_steps:
  "transferFirstStackQuantityLocked a b n = Some (a', b') \<Longrightarrow> player_step a a' \<and> player_step b b'"
  by (simp add: transferFirstStackQuantityLocked_def Let_def TransferItem_steps split: if_splits)


text \<open>Steps that report nothing can be composed.\<close>

lemma step_fst_attempt: "player_step p q \<Longrightarrow> (\<And>q. player_step q (fst (attempt q (f q)))) \<Longrightarrow>
  player_step p (fst (attempt q (f q)))"
  using player_step_trans by blast

lemma cap_bullets_step: "player_step p (p\<lparr>Bullets := authorityAmmoMax\<rparr>)"
  by (simp add: step_defs)

lemma syncAuthority_honest [player_laws]: "honest syncAuthorityBulletStackLocked"
proof (rule honestI)
  fix p :: PlayerState
  define p1 where "p1 = (if Bullets p > authorityAmmoMax then p\<lparr>Bullets := authorityAmmoMax\<rparr> else p)"
  define n where "n = inventoryItemQuantity (Inventory p1) ItemBullet"
  define r2 where "r2 = (if n > 0 then attempt p1 (RemoveItem p1 ItemBullet n) else (p1, False))"
  define p2 where "p2 = fst r2"
  define r3 where "r3 = (if Bullets p2 > 0 then attempt p2 (AddItem p2 ItemBullet (Bullets p2)) else (p2, False))"
  have s1: "player_step p p1" by (simp add: p1_def cap_bullets_step)
  have s2: "player_step p1 p2" by (simp add: p2_def r2_def RemoveItem_step)
  have s3: "player_step p2 (fst r3)" by (simp add: r3_def AddItem_step)
  have u1: "\<not> Bullets p > authorityAmmoMax \<Longrightarrow> p1 = p" by (simp add: p1_def)
  have u2: "\<not> snd r2 \<Longrightarrow> p2 = p1" by (auto simp: p2_def r2_def attempt_def split: option.splits)
  have u3: "\<not> snd r3 \<Longrightarrow> fst r3 = p2" by (auto simp: r3_def attempt_def split: option.splits)
  have e: "IsAuthorityPlayer p \<Longrightarrow> syncAuthorityBulletStackLocked p =
      (fst r3, Bullets p > authorityAmmoMax \<or> snd r2 \<or> snd r3)"
    by (auto simp: syncAuthorityBulletStackLocked_def r3_def p2_def r2_def n_def p1_def Let_def
        split: prod.splits)
  have n: "\<not> IsAuthorityPlayer p \<Longrightarrow> syncAuthorityBulletStackLocked p = (p, False)"
    by (simp add: syncAuthorityBulletStackLocked_def)
  show "player_step p (fst (syncAuthorityBulletStackLocked p))"
    using e n player_step_trans [OF s1 player_step_trans [OF s2 s3]]
    by (cases "IsAuthorityPlayer p") simp_all
  show "fst (syncAuthorityBulletStackLocked p) = p" if "\<not> snd (syncAuthorityBulletStackLocked p)"
    using that e n u1 u2 u3 by (cases "IsAuthorityPlayer p") simp_all
qed

section \<open>Feedback, effects and rooms\<close>

lemma feedback_stamp: "player_stamp tick p (fst (applyActionFeedbackLocked p kind level message tick))"
  by (simp add: player_stamp_def player_ok_def applyActionFeedbackLocked_def Let_def)

lemma feedback_unreported [rule_format]:
  "\<not> snd (applyActionFeedbackLocked p kind level message tick) \<longrightarrow>
   fst (applyActionFeedbackLocked p kind level message tick) = p"
  by (simp add: applyActionFeedbackLocked_def Let_def)

lemma escape_feedback_honest [player_laws]: "honest (\<lambda>p. applyEscapeFeedbackLocked p route success reason tick)"
  by (simp add: honest_def applyEscapeFeedbackLocked_def Let_def)

lemma refresh_effect_same: "\<not> snd (refresh_effect e t k x n) \<Longrightarrow> fst (refresh_effect e t k x n) = e"
  by (auto simp: refresh_effect_def Let_def split: if_splits)

lemma upsertEffect_honest [player_laws]: "honest (\<lambda>p. upsertEffectLocked p effect t k x n)"
  by (simp add: honest_def upsertEffectLocked_def Let_def case_prod_beta' refresh_effect_same
      split: option.split)

lemma removeEffect_honest [player_laws]: "honest (\<lambda>p. removeEffectLocked p effect)"
  by (simp add: honest_def removeEffectLocked_def Let_def)

lemma escape_step [player_laws]: "player_step p (fst (tryEscapeRouteLocked s route p))"
  by (simp add: tryEscapeRouteLocked_def Let_def)

lemma escape_same: "\<not> fst (snd (tryEscapeRouteLocked s route p)) \<longrightarrow> fst (tryEscapeRouteLocked s route p) = p"
  by (simp add: tryEscapeRouteLocked_def Let_def)

lemma detain_honest [player_laws]: "honest (detain t)"
  by (simp add: honest_def detain_def Let_def)

lemma penalty_honest [player_laws]: "honest (\<lambda>p. ApplyUnjustShotPenalty p phase tick)"
  by (simp add: honest_def ApplyUnjustShotPenalty_def Let_def)

lemma get_out_honest [player_laws]: "honest card_get_out"
  by (simp add: honest_def card_get_out_def Let_def)

section \<open>Damage and lives\<close>

lemma taken_le: "pool - taken d pool \<le> pool" "taken d pool \<le> d"
  by (simp_all add: word_le_nat_alt take_from_pool)

lemma ApplyDamage_alive:
  assumes "d \<noteq> 0" and "Alive p"
  defines "tc \<equiv> taken d (TempHeartsHalf p)"
  defines "hc \<equiv> taken (d - tc) (HeartsHalf p)"
  defines "q \<equiv> p\<lparr>TempHeartsHalf := TempHeartsHalf p - tc, HeartsHalf := HeartsHalf p - hc\<rparr>"
  defines "r \<equiv> no_damage\<lparr>TempConsumedHalf := tc, HealthConsumedHalf := hc, AppliedHalf := tc + hc\<rparr>"
  shows "ApplyDamage p d = (if HeartsHalf p - hc = 0
    then (q\<lparr>Alive := False, Velocity := zero_vector, StunnedUntilTick := 0\<rparr>, r\<lparr>Eliminated := True\<rparr>) else (q, r))"
  using assms by (simp add: ApplyDamage_def absorb_temp_eq absorb_health_eq Let_def no_damage_def)

text \<open>The player after a hit, by cases; \<open>t\<close> and \<open>h\<close> are the temporary hearts and hearts left.\<close>

definition hit_form :: "PlayerState \<Rightarrow> uint8 \<Rightarrow> uint8 \<Rightarrow> uint8 \<Rightarrow> bool" where
  "hit_form p d t h \<longleftrightarrow> t \<le> TempHeartsHalf p \<and> h \<le> HeartsHalf p \<and>
     (if Eliminated (snd (ApplyDamage p d))
      then Alive p \<and> fst (ApplyDamage p d) = p\<lparr>TempHeartsHalf := t, HeartsHalf := h, Alive := False,
        Velocity := zero_vector, StunnedUntilTick := 0\<rparr>
      else fst (ApplyDamage p d) = p\<lparr>TempHeartsHalf := t, HeartsHalf := h\<rparr> \<and>
        (Alive p \<longrightarrow> HeartsHalf p \<noteq> 0 \<longrightarrow> h \<noteq> 0))"

lemma hit_form_exists: "\<exists>t h. hit_form p d t h"
proof (cases "d = 0 \<or> \<not> Alive p")
  case True
  then have "ApplyDamage p d = (p, no_damage)" unfolding ApplyDamage_def by (rule if_P)
  then have "hit_form p d (TempHeartsHalf p) (HeartsHalf p)" by (simp add: hit_form_def no_damage_def)
  then show ?thesis by blast
next
  case False
  then have "hit_form p d (TempHeartsHalf p - taken d (TempHeartsHalf p))
      (HeartsHalf p - taken (d - taken d (TempHeartsHalf p)) (HeartsHalf p))"
    by (simp add: hit_form_def ApplyDamage_alive taken_le no_damage_def)
  then show ?thesis by blast
qed

lemma consumeLife_step:
  assumes "\<not> Alive p" and "LivesRemaining p \<noteq> 0" and "hand_ok (Cards p)" and "canonical (Inventory p)"
    and "HeartsHalf p \<le> MaxHeartsHalfForRole (Role p)" and "TempHeartsHalf p \<le> 2"
    and "LivesRemaining p \<le> DefaultPlayerLives" and "IsAuthorityPlayer p \<longrightarrow> Bullets p \<le> authorityAmmoMax"
    and "InventorySlots p = playerInventorySlotCount"
  shows "player_ok (fst (consumeLifeAndRespawnIfAvailableLocked p))"
proof -
  have l: "LivesRemaining p - 1 \<le> DefaultPlayerLives"
    using assms(2,7) by (simp add: word_le_nat_alt unat_pred unat_gt_0 DefaultPlayerLives_def)
  have h: "MaxHeartsHalfForRole r \<noteq> 0" for r
    by (simp add: MaxHeartsHalfForRole_def loadoutForRole_def split: RoleType.split)
  show ?thesis
  proof (cases "LivesRemaining p - 1 = 0")
    case True
    then show ?thesis using assms
      by (simp add: consumeLifeAndRespawnIfAvailableLocked_def Let_def player_ok_def word_neq_0_conv)
  next
    case False
    moreover have "LivesRemaining p = 0 \<longleftrightarrow> False" using assms(2) by simp
    ultimately show ?thesis using assms l h
      by (simp add: consumeLifeAndRespawnIfAvailableLocked_def Let_def player_ok_def
          case_prod_beta' IsAuthorityPlayer_def flip: word_neq_0_conv)
  qed
qed

lemma consumeLife_identity:
  "ID (fst (consumeLifeAndRespawnIfAvailableLocked p)) = ID p"
  "Name (fst (consumeLifeAndRespawnIfAvailableLocked p)) = Name p"
  "Connected (fst (consumeLifeAndRespawnIfAvailableLocked p)) = Connected p"
  "LastActionFeedback (fst (consumeLifeAndRespawnIfAvailableLocked p)) = LastActionFeedback p"
  by (simp_all add: consumeLifeAndRespawnIfAvailableLocked_def Let_def case_prod_beta')

lemma fst_hit_player:
  "fst (hit_player p d) = (if Eliminated (snd (ApplyDamage p d))
     then fst (consumeLifeAndRespawnIfAvailableLocked (fst (ApplyDamage p d))) else fst (ApplyDamage p d))"
  "fst (snd (hit_player p d)) = snd (ApplyDamage p d)"
  by (simp_all add: hit_player_def Let_def case_prod_beta')

lemma hit_step [player_laws]: "player_step p (fst (hit_player p d))"
proof -
  obtain t h where f: "hit_form p d t h" using hit_form_exists by blast
  then have th: "t \<le> TempHeartsHalf p" "h \<le> HeartsHalf p" by (simp_all add: hit_form_def)
  note le = order_trans [OF th(1)] order_trans [OF th(2)]
  show ?thesis
  proof (cases "Eliminated (snd (ApplyDamage p d))")
    case False
    then show ?thesis using f by (simp add: hit_form_def fst_hit_player step_defs le)
  next
    case True
    define q where "q = fst (ApplyDamage p d)"
    have q: "q = p\<lparr>TempHeartsHalf := t, HeartsHalf := h, Alive := False, Velocity := zero_vector,
        StunnedUntilTick := 0\<rparr>" "Alive p" using f True by (simp_all add: hit_form_def q_def)
    have "player_ok (fst (consumeLifeAndRespawnIfAvailableLocked q))" if "player_ok p"
      using that q le by (intro consumeLife_step) (simp_all add: player_ok_def)
    moreover have "ID q = ID p" "Name q = Name p" "Connected q = Connected p"
      "LastActionFeedback q = LastActionFeedback p" by (simp_all add: q(1))
    ultimately show ?thesis using True
      by (simp add: fst_hit_player player_step_def consumeLife_identity flip: q_def)
  qed
qed

lemma applied_zero:
  assumes "AppliedHalf (snd (ApplyDamage p d)) = 0" and "player_ok p"
  shows "ApplyDamage p d = (p, no_damage)"
proof (cases "d = 0 \<or> \<not> Alive p")
  case True
  then show ?thesis unfolding ApplyDamage_def by (rule if_P)
next
  case False
  define tc where "tc = taken d (TempHeartsHalf p)"
  define hc where "hc = taken (d - tc) (HeartsHalf p)"
  have "AppliedHalf (snd (ApplyDamage p d)) = tc + hc"
    using False by (simp add: ApplyDamage_alive tc_def hc_def)
  moreover have "unat tc + unat hc < 256"
    using unat_uint8_less [of d] take_from_pool(1,3) [of d "TempHeartsHalf p"]
      take_from_pool(1) [of "d - tc" "HeartsHalf p"]
    unfolding tc_def hc_def by linarith
  then have "unat (tc + hc) = unat tc + unat hc" by (simp add: unat_plus_if_size word_size)
  ultimately have "unat tc + unat hc = 0" using assms(1) by simp
  moreover have "unat (HeartsHalf p) \<noteq> 0" "unat d \<noteq> 0"
    using False assms(2) by (simp_all add: player_ok_def unat_eq_zero)
  ultimately have False
    using take_from_pool [of d "TempHeartsHalf p"] take_from_pool(1) [of "d - tc" "HeartsHalf p"]
    by (simp add: tc_def hc_def)
  then show ?thesis ..
qed

lemma hit_same: "AppliedHalf (fst (snd (hit_player p d))) = 0 \<Longrightarrow> player_ok p \<Longrightarrow> fst (hit_player p d) = p"
  by (simp add: fst_hit_player applied_zero no_damage_def)

section \<open>Cards, stash and loadouts\<close>

lemma AddCard_step [player_laws]: "player_step p (fst (attempt p (AddCard p crd)))"
  by (simp add: attempt_def AddCard_def step_defs hand_ok_def)

lemma remove_at_subset: "set (remove_at i xs) \<subseteq> set xs"
  by (auto simp: remove_at_def dest: in_set_takeD in_set_dropD)

lemma length_remove_at_le: "length (remove_at i xs) \<le> length xs"
  by (simp add: remove_at_def)

lemma RemoveCard_step [player_laws]: "player_step p (fst (attempt p (RemoveCard p crd)))"
proof (cases "RemoveCard p crd")
  case (Some q)
  then obtain i where "q = p\<lparr>Cards := remove_at i (Cards p)\<rparr>" unfolding RemoveCard_Some by blast
  moreover have "hand_ok (Cards p) \<Longrightarrow> hand_ok (remove_at i (Cards p))"
    using remove_at_subset [of i "Cards p"] length_remove_at_le [of i "Cards p"]
    by (auto simp: hand_ok_def sorted_remove_at)
  ultimately show ?thesis using Some by (simp add: attempt_def step_defs)
qed (simp add: attempt_def)

lemma AddCard_honest [player_laws]: "honest (\<lambda>p. attempt p (AddCard p crd))"
  by (intro attempt_honest AddCard_step)

lemma RemoveCard_honest [player_laws]: "honest (\<lambda>p. attempt p (RemoveCard p crd))"
  by (intro attempt_honest RemoveCard_step)

text \<open>Taking a card out and putting it back is no change.\<close>

lemma card_back:
  assumes "RemoveCard p crd = Some q" and "player_ok p"
  shows "AddCard q crd = Some p"
proof -
  from assms(1) obtain i where k: "IsKnownCard crd" and i: "find_index (\<lambda>c. c = crd) (Cards p) = Some i"
    and q: "q = p\<lparr>Cards := remove_at i (Cards p)\<rparr>" unfolding RemoveCard_Some by blast
  from i have n: "i < length (Cards p)" "Cards p ! i = crd" by (auto simp: find_index_Some)
  have "mset (remove_at i (Cards p) @ [crd]) = mset (Cards p)"
    using n by (simp add: mset_remove_at) (metis insert_DiffM nth_mem set_mset_mset)
  then have "sort (remove_at i (Cards p) @ [crd]) = Cards p"
    using assms(2) by (intro properties_for_sort) (simp_all add: player_ok_def hand_ok_def)
  moreover have "length (remove_at i (Cards p)) < MaxCardsHeld"
    using assms(2) n by (auto simp: player_ok_def hand_ok_def remove_at_def)
  ultimately show ?thesis using k by (simp add: AddCard_def q)
qed

lemma reward_step [player_laws]: "player_step p (fst (reward_cards n p k))"
proof (induction n arbitrary: p k)
  case (Suc n)
  show ?case
  proof (cases "AddCard p CardMoney")
    case (Some q)
    then have "player_step p q" using AddCard_step [of p CardMoney] by (simp add: attempt_def)
    with Some show ?thesis using Suc.IH player_step_trans by fastforce
  qed simp
qed simp

lemma return_step: "player_step p (return_cards n p crd)"
  by (induction n arbitrary: p) (auto intro: player_step_trans AddCard_step)

lemma consume_step [player_laws]: "player_step p (fst (consumePlayerCards p crd n))"
proof -
  have "player_step p (fst (consume_cards m r p crd))" for m r
  proof (induction m arbitrary: p r)
    case (Suc m)
    show ?case
    proof (cases "RemoveCard p crd")
      case (Some q)
      then have "player_step p q" using RemoveCard_step [of p crd] by (simp add: attempt_def)
      with Some show ?thesis using Suc.IH player_step_trans by fastforce
    qed (simp add: return_step)
  qed simp
  then show ?thesis by (simp add: consumePlayerCards_def)
qed

lemma select_night_card_step [player_laws]: "player_step p (fst (trySelectNightCardLocked p crd))"
proof (cases "AddCard p crd")
  case (Some q)
  then have "player_step p q" using AddCard_step [of p crd] by (simp add: attempt_def)
  then have "player_step p (q\<lparr>NightCardChoices := []\<rparr>)" by (rule player_step_trans) simp
  with Some show ?thesis by (simp add: trySelectNightCardLocked_def)
qed (simp add: trySelectNightCardLocked_def)

lemma select_night_card_same:
  "\<not> fst (snd (trySelectNightCardLocked p crd)) \<longrightarrow> fst (trySelectNightCardLocked p crd) = p"
  by (simp add: trySelectNightCardLocked_def split: option.split)

end
