(* ===== verification/Fire.thy ===== *)
theory Fire
  imports CardUse
begin

text \<open>
  Shooting (\<open>src/internal/server/game/manager.go\<close>, \<open>applyFireWeaponCommandLocked\<close>): the choice of
  the weapon, the target, the cost, the projectile, the baton, the damage and the penalty of an
  unjust shot; and the flight of projectiles.
\<close>

section \<open>Projectiles\<close>

definition projectile_unit :: "PlayerState \<Rightarrow> float32 \<Rightarrow> float32 \<Rightarrow> float32 \<times> float32" where
  "projectile_unit shooter targetX targetY =
     (let aimX = f_sub targetX (X (Position shooter));
          aimY = f_sub targetY (Y (Position shooter));
          len = f_add (f_mul aimX aimX) (f_mul aimY aimY);
          (aimX, aimY, len) = (if f_le len 0
            then (X (Facing shooter), Y (Facing shooter),
                  f_add (f_mul (X (Facing shooter)) (X (Facing shooter)))
                        (f_mul (Y (Facing shooter)) (Y (Facing shooter))))
            else (aimX, aimY, len));
          (aimX, aimY, len) = (if f_le len 0 then (0x3F800000, 0, 0x3F800000) else (aimX, aimY, len));
          magnitude = (if f_less 0x3F800000 len then f_div 0x3F800000 (f_sqrt64 len) else 0x3F800000)
      in (f_mul aimX magnitude, f_mul aimY magnitude))"

definition spawnProjectileEntityLocked :: "PlayerState \<Rightarrow> float32 \<Rightarrow> float32 \<Rightarrow> unit step" where
  "spawnProjectileEntityLocked shooter targetX targetY = do {
     let (unitX, unitY) = projectile_unit shooter targetX targetY;
     entityID \<leftarrow> new_entity_id;
     let entity = \<lparr>EntityState_ID = entityID, Kind = EntityKindProjectile, EntityOwnerPlayerID = ID shooter,
       EntityPosition = \<lparr>X = f_add (X (Position shooter)) (f_mul unitX 0x3ECCCCCD),
                         Y = f_add (Y (Position shooter)) (f_mul unitY 0x3ECCCCCD)\<rparr>,
       EntityVelocity = \<lparr>X = f_mul unitX 0x3FE66666, Y = f_mul unitY 0x3FE66666\<rparr>,
       EntityHeartsHalf = 0, EntityActive = True, EntityRoomID = CurrentRoomID shooter, Tags = []\<rparr>;
     change (\<lambda>s.
       let lifetimeTicks = (ucast (maxTickRate (s_tickRateHz s) div 5) :: uint64);
           lifetimeTicks = (if lifetimeTicks = 0 then 1 else lifetimeTicks)
       in s\<lparr>s_projectileExpireTick := AList.update entityID (s_tickID s + lifetimeTicks) (s_projectileExpireTick s)\<rparr>);
     change (with_entities (\<lambda>es. es @ [entity]));
     mark_entity entityID
   }"

text \<open>One entity of the loop of \<open>expireProjectileEntitiesLocked\<close>: whether it stays.\<close>

definition fly :: "EntityState \<Rightarrow> EntityState option step" where
  "fly entity = do {
     session \<leftarrow> asks id;
     let expireTick = zero_if_none (map_of (s_projectileExpireTick session) (EntityState_ID entity));
     if Kind entity = EntityKindProjectile \<and> expireTick \<noteq> 0 \<and> s_tickID session \<ge> expireTick then do {
       change (\<lambda>s. s\<lparr>s_projectileExpireTick := AList.delete (EntityState_ID entity) (s_projectileExpireTick s)\<rparr>);
       mark_removed (EntityState_ID entity);
       ret None
     }
     else if Kind entity = EntityKindProjectile then do {
       mark_entity (EntityState_ID entity);
       ret (Some (entity\<lparr>EntityPosition :=
         \<lparr>X = f_add (X (EntityPosition entity)) (X (EntityVelocity entity)),
          Y = f_add (Y (EntityPosition entity)) (Y (EntityVelocity entity))\<rparr>\<rparr>))
     }
     else ret (Some entity)
   }"

fun fly_all :: "EntityState list \<Rightarrow> EntityState list step" where
  "fly_all [] = ret []"
| "fly_all (entity # rest) = do {
     kept \<leftarrow> fly entity;
     others \<leftarrow> fly_all rest;
     ret (case kept of None \<Rightarrow> others | Some e \<Rightarrow> e # others)
   }"

definition expireProjectileEntitiesLocked :: "unit step" where
  "expireProjectileEntitiesLocked = do {
     session \<leftarrow> asks id;
     if length (s_projectileExpireTick session) = 0 then ret ()
     else do {
       kept \<leftarrow> fly_all (Entities (s_gameState session));
       change (with_entities (\<lambda>_. kept))
     }
   }"

section \<open>The shot\<close>

text \<open>The weapon of a shot: the one asked for, else the equipped one; \<open>None\<close> when neither is a weapon.\<close>

definition requested_weapon :: "PlayerState \<Rightarrow> ItemType \<Rightarrow> ItemType option" where
  "requested_weapon shooter asked =
     (let weapon = (if \<not> IsSupportedWeapon asked then EquippedItem shooter else asked)
      in if \<not> IsSupportedWeapon weapon then None
         else if \<not> CanUseWeapon shooter weapon \<and> weapon \<noteq> EquippedItem shooter \<and>
                 IsSupportedWeapon (EquippedItem shooter) \<and> CanUseWeapon shooter (EquippedItem shooter)
         then Some (EquippedItem shooter)
         else Some weapon)"

definition player_label :: "PlayerState \<Rightarrow> string" where
  "player_label p = (if Name p = '''' then PlayerID_str (ID p) else Name p)"

definition fire_baton :: "nat \<Rightarrow> nat \<Rightarrow> string \<Rightarrow> string \<Rightarrow> unit step" where
  "fire_baton i j shooterLabel targetLabel = do {
     session \<leftarrow> asks id;
     shooter \<leftarrow> player_at i;
     target \<leftarrow> player_at j;
     occupied \<leftarrow> State (\<lambda>w. (occupiedTiles w, w));
     let (nextTarget, _, occupied') = ApplyKnockback target (BatonImpulse shooter target) defaultMatchLayout
       (session_map session) (Some occupied) (s_tickID session) (BatonStunDurationTicks (s_tickRateHz session));
     State (\<lambda>w. ((), w\<lparr>occupiedTiles := the occupied'\<rparr>));
     let nextTarget = (case RoomAt defaultMatchLayout (TileFromPosition (Position nextTarget)) of
                         None \<Rightarrow> nextTarget | Some roomID \<Rightarrow> nextTarget\<lparr>CurrentRoomID := roomID\<rparr>);
     set_player j nextTarget;
     mark_player (ID target);
     tell i ActionFeedbackKindStun ActionFeedbackLevelSuccess (''Baton stunned '' @ targetLabel @ ''.'');
     tell j ActionFeedbackKindStun ActionFeedbackLevelWarning (''Stunned by '' @ shooterLabel @ ''.'')
   }"

definition target_hit_feedback ::
  "DamageResult \<Rightarrow> bool \<Rightarrow> string \<Rightarrow> uint8 \<Rightarrow> ActionFeedbackLevel \<times> string" where
  "target_hit_feedback result permanentlyEliminated shooterLabel lives =
     (if Eliminated result then
        (if permanentlyEliminated
         then (ActionFeedbackLevelError, ''Eliminated by '' @ shooterLabel @ ''.'')
         else (ActionFeedbackLevelWarning, ''Life lost to '' @ shooterLabel @ ''. '' @ Itoa (unat lives) @
                 '' lives remaining.''))
      else (ActionFeedbackLevelWarning, ''Hit by '' @ shooterLabel @ '' for '' @
              formatHalfHearts (AppliedHalf result) @ '' heart(s).''))"

definition fire_penalty :: "nat \<Rightarrow> ItemType \<Rightarrow> PlayerState \<Rightarrow> unit step" where
  "fire_penalty i weapon targetBefore = do {
     session \<leftarrow> asks id;
     shooter \<leftarrow> player_at i;
     whenever (IsAuthorityPlayer shooter \<and> IsFirearm weapon \<and>
         IsUnjustAuthorityShot targetBefore (session_map session)) (do {
       penalised \<leftarrow> on_player i (\<lambda>p. ApplyUnjustShotPenalty p (Phase (s_gameState session)) (s_tickID session));
       whenever penalised (do {
         mark_player (ID shooter);
         shooter \<leftarrow> player_at i;
         tell i ActionFeedbackKindCombat ActionFeedbackLevelError
           (''Unjust shot penalty applied until tick '' @ Itoa (unat (SolitaryUntilTick shooter)) @ ''.'')
       })
     })
   }"

definition fire_damage :: "nat \<Rightarrow> nat \<Rightarrow> ItemType \<Rightarrow> uint8 \<Rightarrow> string \<Rightarrow> string \<Rightarrow> unit step" where
  "fire_damage i j weapon damageHalf shooterLabel targetLabel = do {
     targetBefore \<leftarrow> player_at j;
     (result, permanentlyEliminated) \<leftarrow> on_player j (\<lambda>p. hit_player p damageHalf);
     target \<leftarrow> player_at j;
     if AppliedHalf result = 0 then do {
       tell i ActionFeedbackKindCombat ActionFeedbackLevelInfo (''Shot on '' @ targetLabel @ '' was absorbed.'');
       tell j ActionFeedbackKindCombat ActionFeedbackLevelInfo (''Absorbed shot from '' @ shooterLabel @ ''.'')
     }
     else do {
       mark_player (ID target);
       tell i ActionFeedbackKindCombat ActionFeedbackLevelSuccess (''Hit '' @ targetLabel @ '' for '' @
         formatHalfHearts (AppliedHalf result) @ '' heart(s).'');
       let (level, message) = target_hit_feedback result permanentlyEliminated shooterLabel (LivesRemaining target);
       tell j ActionFeedbackKindCombat level message;
       fire_penalty i weapon targetBefore
     }
   }"

text \<open>From the target on: the cost is paid, then the projectile, the baton or the damage.\<close>

definition fire_at :: "nat \<Rightarrow> nat \<Rightarrow> ItemType \<Rightarrow> FireWeaponPayload \<Rightarrow> bool step" where
  "fire_at i j weapon payload = do {
     shooter \<leftarrow> player_at i;
     target \<leftarrow> player_at j;
     let shooterLabel = player_label shooter;
     let targetLabel = player_label target;
     cost \<leftarrow> on_player i (\<lambda>p. case ConsumeShotCostAndResolveDamage p weapon (UseGoldenRound payload) of
                            None \<Rightarrow> (p, None) | Some (q, damageHalf) \<Rightarrow> (q, Some damageHalf));
     case cost of
       None \<Rightarrow> ret False
     | Some damageHalf \<Rightarrow> do {
         mark_player (ID shooter);
         synced \<leftarrow> on_player i syncAuthorityBulletStackLocked;
         whenever synced (mark_player (ID shooter));
         shooter \<leftarrow> player_at i;
         whenever (IsFirearm weapon) (spawnProjectileEntityLocked shooter (TargetX payload) (TargetY payload));
         if weapon = WeaponBaton then do { fire_baton i j shooterLabel targetLabel; ret True }
         else if damageHalf = 0 then ret True
         else do { fire_damage i j weapon damageHalf shooterLabel targetLabel; ret True }
       }
   }"

definition fire_with :: "nat \<Rightarrow> PlayerID \<Rightarrow> ItemType \<Rightarrow> FireWeaponPayload \<Rightarrow> bool step" where
  "fire_with i shooterID weapon payload = do {
     shooter \<leftarrow> player_at i;
     whenever (EquippedItem shooter \<noteq> weapon) (do {
       edit_player i (\<lambda>p. p\<lparr>EquippedItem := weapon\<rparr>);
       mark_player (ID shooter) });
     ps \<leftarrow> asks session_players;
     case SelectTarget ps shooterID \<lparr>X = TargetX payload, Y = TargetY payload\<rparr>
            (WeaponRangeTiles weapon) AimAssistRadiusTiles of
       None \<Rightarrow> ret False
     | Some targetID \<Rightarrow> do {
         found \<leftarrow> index_of targetID;
         case found of
           None \<Rightarrow> ret False
         | Some j \<Rightarrow> do {
             target \<leftarrow> player_at j;
             if \<not> Alive target then ret False else fire_at i j weapon payload
           }
       }
   }"

definition applyFireWeaponCommandLocked :: "PlayerID \<Rightarrow> FireWeaponPayload \<Rightarrow> bool step" where
  "applyFireWeaponCommandLocked shooterID payload = do {
     found \<leftarrow> index_of shooterID;
     case found of
       None \<Rightarrow> ret False
     | Some i \<Rightarrow> do {
         shooter \<leftarrow> player_at i;
         case requested_weapon shooter (Weapon payload) of
           None \<Rightarrow> ret False
         | Some weapon \<Rightarrow>
             if \<not> CanUseWeapon shooter weapon then do { reequip i; ret False }
             else fire_with i shooterID weapon payload
       }
   }"

end
