(* ===== verification/Guards.thy ===== *)
theory Guards
  imports Fire
begin

text \<open>
  The end of a tick's inputs (\<open>src/internal/server/game/manager.go\<close>): timed states that expire
  (\<open>expireTimedStatesLocked\<close>) and the alarm with its guards (\<open>applyAlarmAndGuardSystemLocked\<close>).
\<close>

section \<open>Timed states\<close>

definition expire_door :: "nat \<Rightarrow> unit step" where
  "expire_door k = do {
     session \<leftarrow> asks id;
     let door = Doors (session_map session) ! k;
     whenever (\<not> (BlockedUntilTick door = 0 \<or> s_tickID session \<le> BlockedUntilTick door)) (do {
       set_door k (door\<lparr>BlockedUntilTick := 0, LockedByPlayerID := PlayerID ''''\<rparr>);
       mark_door (DoorState_ID door) })
   }"

definition restored_door :: "bool \<Rightarrow> lockSnapDoorRestoreState \<Rightarrow> DoorState \<Rightarrow> DoorState \<times> bool" where
  "restored_door powerOn restore door =
     (let (door, changed) = (if Locked door \<noteq> RestoreLocked restore
            then (door\<lparr>Locked := RestoreLocked restore\<rparr>, True) else (door, False))
      in if powerOn \<and> Open door \<noteq> RestoreOpen restore
         then (door\<lparr>Open := RestoreOpen restore\<rparr>, True) else (door, changed))"

text \<open>The restores range over a Go map; entries have different doors, so their order does not matter.\<close>

definition restore_lock :: "DoorID \<times> lockSnapDoorRestoreState \<Rightarrow> unit step" where
  "restore_lock entry = do {
     session \<leftarrow> asks id;
     let (doorID, restore) = entry;
     whenever (\<not> (RestoreTick restore = 0 \<or> s_tickID session \<le> RestoreTick restore)) (do {
       (case find_index (\<lambda>d. DoorState_ID d = doorID) (Doors (session_map session)) of
          None \<Rightarrow> ret ()
        | Some k \<Rightarrow>
            (case restored_door (PowerOn (session_map session)) restore (Doors (session_map session) ! k) of
               (door, changed) \<Rightarrow> do {
                 set_door k door;
                 whenever changed (mark_door (DoorState_ID door)) }));
       change (\<lambda>s. s\<lparr>s_lockSnapDoorRestores := AList.delete doorID (s_lockSnapDoorRestores s)\<rparr>)
     })
   }"

definition effect_over :: "uint64 \<Rightarrow> EffectState \<Rightarrow> bool" where
  "effect_over tick e \<longleftrightarrow> EffectEndsTick e \<noteq> 0 \<and> tick > EffectEndsTick e"

definition expired_effects :: "uint64 \<Rightarrow> PlayerState \<Rightarrow> PlayerState \<times> bool" where
  "expired_effects tick player =
     (if length (Effects player) = 0 then (player, False)
      else
        let nextEffects = filter (\<lambda>e. \<not> effect_over tick e) (Effects player);
            removedAny = list_ex (effect_over tick) (Effects player);
            armorActive = list_ex (\<lambda>e. Effect e = EffectArmorPlate) nextEffects
        in if removedAny
           then (let player = player\<lparr>Effects := nextEffects\<rparr>
                 in if \<not> armorActive \<and> TempHeartsHalf player > 0
                    then (player\<lparr>TempHeartsHalf := 0\<rparr>, True) else (player, True))
           else (player, False))"

definition expire_effects :: "nat \<Rightarrow> unit step" where
  "expire_effects i = do {
     tick \<leftarrow> asks s_tickID;
     player \<leftarrow> player_at i;
     changed \<leftarrow> on_player i (expired_effects tick);
     whenever changed (mark_player (ID player))
   }"

definition settle_chameleon :: "nat \<Rightarrow> unit step" where
  "settle_chameleon i = do {
     session \<leftarrow> asks id;
     player \<leftarrow> player_at i;
     let pendingUntil = zero_if_none (s_chameleonPendingUntil session (ID player));
     let lastMoveTick = zero_if_none (s_lastMoveIntentTick session (ID player));
     let forget = change (\<lambda>s. s\<lparr>s_chameleonPendingUntil := (s_chameleonPendingUntil s)(ID player := None)\<rparr>);
     if pendingUntil = 0 \<or> s_tickID session < pendingUntil then ret ()
     else if lastMoveTick \<ge> pendingUntil then forget
     else if hasActiveEffect player EffectChameleon (s_tickID session) then forget
     else do {
       changed \<leftarrow> on_player i (\<lambda>p. upsertEffectLocked p EffectChameleon 0 (ID player) 0 1);
       whenever changed (do {
         mark_player (ID player);
         tell i ActionFeedbackKindSystem ActionFeedbackLevelSuccess ''Chameleon active: hidden until you move.''
       });
       forget
     }
   }"

definition expireTimedStatesLocked :: "unit step" where
  "expireTimedStatesLocked = do {
     n \<leftarrow> asks (\<lambda>s. length (Doors (session_map s)));
     for_each expire_door [0..<n];
     restores \<leftarrow> asks s_lockSnapDoorRestores;
     for_each restore_lock restores;
     all_players expire_effects;
     all_players settle_chameleon;
     all_players reequip
   }"

section \<open>The alarm\<close>

definition clearAlarmGuardEntitiesLocked :: "unit step" where
  "clearAlarmGuardEntitiesLocked = do {
     entities \<leftarrow> asks (\<lambda>s. Entities (s_gameState s));
     for_each (\<lambda>entity. mark_removed (EntityState_ID entity))
       (filter (\<lambda>entity. Kind entity = EntityKindNPCGuard) entities);
     change (with_entities (filter (\<lambda>entity. Kind entity \<noteq> EntityKindNPCGuard)));
     change (\<lambda>s. s\<lparr>s_guardEntityByRoom := Map.empty, s_guardLastShotTick := Map.empty\<rparr>)
   }"

definition newAlarmGuardEntityLocked :: "RoomID \<Rightarrow> EntityState step" where
  "newAlarmGuardEntityLocked roomID = do {
     entityID \<leftarrow> new_entity_id;
     ret \<lparr>EntityState_ID = entityID, Kind = EntityKindNPCGuard, EntityOwnerPlayerID = PlayerID '''',
          EntityPosition = room_centre roomID, EntityVelocity = zero_vector, EntityHeartsHalf = 0,
          EntityActive = True, EntityRoomID = roomID, Tags = [''alarm_guard'', ''restricted_zone'']\<rparr>
   }"

definition ensure_guard :: "ZoneState \<Rightarrow> unit step" where
  "ensure_guard zone = do {
     session \<leftarrow> asks id;
     let existing = (case s_guardEntityByRoom session (ZoneRoomID zone) of
           None \<Rightarrow> False
         | Some existingID \<Rightarrow> findEntityIndexByID (Entities (s_gameState session)) existingID \<noteq> None);
     if \<not> Restricted zone \<or> ZoneRoomID zone = NoRoom then ret ()
     else if existing then ret ()
     else do {
       guard \<leftarrow> newAlarmGuardEntityLocked (ZoneRoomID zone);
       change (with_entities (\<lambda>es. es @ [guard]));
       change (\<lambda>s. s\<lparr>s_guardEntityByRoom := (s_guardEntityByRoom s)(ZoneRoomID zone \<mapsto> EntityState_ID guard)\<rparr>);
       mark_entity (EntityState_ID guard)
     }
   }"

definition ensureAlarmGuardEntitiesLocked :: "unit step" where
  "ensureAlarmGuardEntitiesLocked = do {
     zones \<leftarrow> asks (\<lambda>s. RestrictedZones (session_map s));
     for_each ensure_guard zones }"

definition guard_feedback :: "DamageResult \<Rightarrow> bool \<Rightarrow> uint8 \<Rightarrow> ActionFeedbackLevel \<times> string" where
  "guard_feedback result permanentlyEliminated lives =
     (if Eliminated result then
        (if permanentlyEliminated
         then (ActionFeedbackLevelError, ''Alarm guards eliminated you in a restricted zone.'')
         else (ActionFeedbackLevelWarning, ''Alarm guards took a life. '' @ Itoa (unat lives) @ '' lives remaining.''))
      else (ActionFeedbackLevelWarning,
            ''Alarm guard hit you for '' @ formatHalfHearts (AppliedHalf result) @ '' heart(s).''))"

definition guard_shot :: "PlayerID \<Rightarrow> unit step" where
  "guard_shot targetID = do {
     found \<leftarrow> index_of targetID;
     case found of
       None \<Rightarrow> ret ()
     | Some j \<Rightarrow> do {
         session \<leftarrow> asks id;
         target \<leftarrow> player_at j;
         let guardInterval = GuardShotIntervalTicks (s_tickRateHz session);
         let guardInterval = (if guardInterval = 0 then 1 else guardInterval);
         let lastShotTick = zero_if_none (s_guardLastShotTick session targetID);
         if \<not> Alive target \<or> \<not> IsRestrictedRoom (CurrentRoomID target) (session_map session) \<or>
            \<not> IsPrisonerPlayer target then ret ()
         else if lastShotTick \<noteq> 0 \<and> s_tickID session < lastShotTick + guardInterval then ret ()
         else do {
           (result, permanentlyEliminated) \<leftarrow> on_player j (\<lambda>p. hit_player p GuardShotDamageHalf);
           target \<leftarrow> player_at j;
           if AppliedHalf result = 0 then ret ()
           else do {
             change (\<lambda>s. s\<lparr>s_guardLastShotTick := (s_guardLastShotTick s)(targetID \<mapsto> s_tickID s)\<rparr>);
             mark_player targetID;
             let (level, message) = guard_feedback result permanentlyEliminated (LivesRemaining target);
             told \<leftarrow> feedback j ActionFeedbackKindAlarm level message;
             whenever told (mark_player targetID)
           }
         }
       }
   }"

definition stand_down :: "unit step" where
  "stand_down = do {
     change (with_map (\<lambda>m. m\<lparr>Alarm := inactive_alarm\<rparr>));
     clearAlarmGuardEntitiesLocked }"

definition applyAlarmAndGuardSystemLocked :: "unit step" where
  "applyAlarmAndGuardSystemLocked = do {
     session \<leftarrow> asks id;
     let alarm = Alarm (session_map session);
     let targetIDs = RestrictedPrisonerIDs (session_players session) (session_map session);
     if \<not> Active alarm then clearAlarmGuardEntitiesLocked
     else if AlarmEndsTick alarm \<noteq> 0 \<and> s_tickID session \<ge> AlarmEndsTick alarm then stand_down
     else if length targetIDs = 0 then stand_down
     else do {
       ensureAlarmGuardEntitiesLocked;
       for_each guard_shot targetIDs
     }
   }"

end
