(* ===== verification/Lifecycle.thy ===== *)
theory Lifecycle
  imports Snapshots
begin

text \<open>
  The match manager (\<open>src/internal/server/game/manager.go\<close>): creating, joining, resuming, starting
  and ending matches, and its queries. Every method runs under the manager's mutex and is one
  function of the manager; \<open>now\<close> is the instant it reads. The goroutine of a running match is
  started and cancelled through the flags \<open>s_loopCancel\<close> and \<open>s_loopDone\<close>; its body is the tick.
\<close>

section \<open>Creation\<close>

text \<open>\<open>%06d\<close>.\<close>

definition pad6 :: "nat \<Rightarrow> string" where
  "pad6 n = (let d = Itoa n in replicate (6 - length d) (CHR ''0'') @ d)"

definition nextMatchIDLocked :: "Manager \<Rightarrow> MatchID \<times> Manager" where
  "nextMatchIDLocked m =
     (let m = m\<lparr>m_nextMatchSequence := m_nextMatchSequence m + 1\<rparr>
      in (MatchID (MatchIDPrefix (m_config m) @ ''-'' @ pad6 (unat (m_nextMatchSequence m))), m))"

definition appendEventLocked :: "LifecycleEvent \<Rightarrow> Manager \<Rightarrow> Manager" where
  "appendEventLocked event m = m\<lparr>m_events := m_events m @ [event]\<rparr>"

definition lifecycle_event :: "LifecycleEventType \<Rightarrow> MatchID \<Rightarrow> Time \<Rightarrow> LifecycleEvent" where
  "lifecycle_event ty mid instant = \<lparr>EventType = ty, EventMatchID = mid, EventPlayerID = PlayerID '''',
     EventTickID = 0, EventAt = instant, EventNote = ''''\<rparr>"

definition NewManager :: "ServerConfig \<Rightarrow> Manager" where
  "NewManager config = \<lparr>m_config = server_normalized config, m_nextMatchSequence = 0, m_matches = [],
     m_playerToMatch = Map.empty, m_events = [], m_persistence = None\<rparr>"

text \<open>The literal of \<open>CreateMatch\<close>; fields it leaves out are zero (a nil map reads as empty).\<close>

definition new_session :: "Manager \<Rightarrow> MatchID \<Rightarrow> Time \<Rightarrow> matchSession" where
  "new_session m matchID createdAt =
     \<lparr>s_matchID = matchID, s_status = MatchStatusLobby, s_tickRateHz = TickRateHz (m_config m),
      s_createdAt = createdAt, s_startedAt = None, s_endedAt = None, s_endedReason = '''', s_tickID = 0,
      s_players = [], s_nextIngressSeq = 0, s_nextEntityID = 0, s_blackMarketGoldenBulletSold = False,
      s_alarmUsedDayStartTick = 0, s_scheduledInputs = Map.empty, s_seenClientSeq = Map.empty,
      s_acceptedByTick = Map.empty, s_lastProcessedClientSeq = Map.empty,
      s_guardEntityByRoom = Map.empty, s_guardLastShotTick = Map.empty,
      s_abilityCooldownUntil = Map.empty, s_abilityUsedDayStart = Map.empty,
      s_abilityDailyUsage = Map.empty, s_prisonerUnlockedRooms = {}, s_lockSnapDoorRestores = [],
      s_npcPrisonerBribeState = Map.empty, s_npcTaskByPlayer = Map.empty,
      s_chameleonPendingUntil = Map.empty, s_lastMoveIntentTick = Map.empty,
      s_ammoRestockUntil = Map.empty, s_projectileExpireTick = [], s_replayEntries = [],
      s_gameState = newInitialGameState matchID MatchStatusLobby (m_config m),
      s_snapshotHistory = [], s_loopCancel = False, s_loopDone = False\<rparr>"

definition CreateMatch :: "Time \<Rightarrow> Manager \<Rightarrow> Manager \<times> MatchSnapshot" where
  "CreateMatch now m =
     (let (matchID, m) = nextMatchIDLocked m;
          session = new_session m matchID now;
          m = put_session matchID session m;
          m = appendEventLocked (lifecycle_event LifecycleEventMatchCreated matchID now) m
      in (m, snapshotFromSession session))"

section \<open>Players\<close>

definition upsert_account :: "PlayerID \<Rightarrow> string \<Rightarrow> Time \<Rightarrow> Manager \<Rightarrow> Manager" where
  "upsert_account playerID name instant m =
     m\<lparr>m_persistence := map_option (\<lambda>calls. calls @ [UpsertAccount playerID name instant]) (m_persistence m)\<rparr>"

definition ensure_ack :: "PlayerID \<Rightarrow> matchSession \<Rightarrow> matchSession" where
  "ensure_ack playerID session =
     (case s_lastProcessedClientSeq session playerID of
        None \<Rightarrow> session\<lparr>s_lastProcessedClientSeq := (s_lastProcessedClientSeq session)(playerID \<mapsto> 0)\<rparr>
      | Some _ \<Rightarrow> session)"

definition JoinMatch ::
  "Time \<Rightarrow> Manager \<Rightarrow> MatchID \<Rightarrow> PlayerID \<Rightarrow> string \<Rightarrow> Manager \<times> (GameError + MatchSnapshot)" where
  "JoinMatch now m matchID playerID playerName =
     (if TrimSpace (PlayerID_str playerID) = '''' then (m, Inl ErrInvalidPlayerID)
      else
        let trimmedName = TrimSpace playerName
        in if trimmedName = '''' then (m, Inl ErrInvalidPlayerName)
           else if m_playerToMatch m playerID \<noteq> None then (m, Inl ErrPlayerAlreadyInMatch)
           else case session_of m matchID of
             None \<Rightarrow> (m, Inl ErrMatchNotFound)
           | Some session \<Rightarrow>
               if s_status session \<noteq> MatchStatusLobby then (m, Inl ErrMatchNotJoinable)
               else if length (s_players session) \<ge> unat (MaxPlayers (m_config m)) then (m, Inl ErrMatchFull)
               else
                 let session = session\<lparr>s_players := AList.update playerID
                       \<lparr>PS_PlayerID = playerID, PS_Name = trimmedName, JoinedAt = now\<rparr> (s_players session)\<rparr>;
                     m = m\<lparr>m_playerToMatch := (m_playerToMatch m)(playerID \<mapsto> matchID)\<rparr>;
                     session = syncGameStatePlayersLocked (ensure_ack playerID session);
                     m = upsert_account playerID trimmedName now m;
                     m = put_session matchID session m;
                     m = appendEventLocked
                       ((lifecycle_event LifecycleEventPlayerJoined matchID now)\<lparr>EventPlayerID := playerID\<rparr>) m
                 in (m, Inr (snapshotFromSession session)))"

definition MatchIDForPlayer :: "Manager \<Rightarrow> PlayerID \<Rightarrow> MatchID option" where
  "MatchIDForPlayer m playerID =
     (let trimmedID = TrimSpace (PlayerID_str playerID)
      in if trimmedID = '''' then None else m_playerToMatch m (PlayerID trimmedID))"

definition ResumePlayer ::
  "Time \<Rightarrow> Manager \<Rightarrow> MatchID \<Rightarrow> PlayerID \<Rightarrow> string \<Rightarrow> Manager \<times> (GameError + MatchSnapshot)" where
  "ResumePlayer now m matchID playerID playerName =
     (let trimmedID = TrimSpace (PlayerID_str playerID)
      in if trimmedID = '''' then (m, Inl ErrInvalidPlayerID)
         else
           let playerID = PlayerID trimmedID;
               trimmedName = TrimSpace playerName
           in case session_of m matchID of
                None \<Rightarrow> (m, Inl ErrMatchNotFound)
              | Some session \<Rightarrow>
                  if s_status session = MatchStatusGameOver then (m, Inl ErrMatchNotJoinable)
                  else if m_playerToMatch m playerID \<notin> {None, Some matchID} then (m, Inl ErrPlayerAlreadyInMatch)
                  else case map_of (s_players session) playerID of
                    None \<Rightarrow> (m, Inl ErrPlayerNotFound)
                  | Some playerSession \<Rightarrow>
                      let (playerSession, session) = (if trimmedName \<noteq> ''''
                            then (let playerSession = playerSession\<lparr>PS_Name := trimmedName\<rparr>
                                  in (playerSession, session\<lparr>s_players :=
                                        AList.update playerID playerSession (s_players session)\<rparr>))
                            else (playerSession, session));
                          m = m\<lparr>m_playerToMatch := (m_playerToMatch m)(playerID \<mapsto> matchID)\<rparr>;
                          session = syncGameStatePlayersLocked (ensure_ack playerID session);
                          session = fst (setPlayerConnectedLocked session playerID True);
                          m = upsert_account playerID
                                (if trimmedName \<noteq> '''' then trimmedName else PS_Name playerSession) now m;
                          m = put_session matchID session m
                      in (m, Inr (snapshotFromSession session)))"

definition SetPlayerConnected :: "Manager \<Rightarrow> MatchID \<Rightarrow> PlayerID \<Rightarrow> bool \<Rightarrow> Manager \<times> GameError option" where
  "SetPlayerConnected m matchID playerID isConnected =
     (let trimmedID = TrimSpace (PlayerID_str playerID)
      in if trimmedID = '''' then (m, Some ErrInvalidPlayerID)
         else
           let playerID = PlayerID trimmedID
           in case session_of m matchID of
                None \<Rightarrow> (m, Some ErrMatchNotFound)
              | Some session \<Rightarrow>
                  if map_of (s_players session) playerID = None then (m, Some ErrPlayerNotFound)
                  else
                    let session = ensure_ack playerID session
                    in case setPlayerConnectedLocked session playerID isConnected of
                         (session', True) \<Rightarrow> (put_session matchID session' m, None)
                       | (_, False) \<Rightarrow>
                           let session = syncGameStatePlayersLocked session
                           in case setPlayerConnectedLocked session playerID isConnected of
                                (session', ok) \<Rightarrow> (put_session matchID session' m,
                                  if \<not> ok then Some ErrPlayerNotFound else None))"

section \<open>Start and end\<close>

text \<open>The reset of the session at the start, before the players are dealt their roles.\<close>

definition reset_session :: "Manager \<Rightarrow> Time \<Rightarrow> matchSession \<Rightarrow> matchSession" where
  "reset_session m startedAt session =
     (let gs = s_gameState session
      in session\<lparr>s_status := MatchStatusRunning, s_startedAt := Some startedAt, s_tickID := 0,
           s_gameState := gs\<lparr>Status := MatchStatusRunning, TickID := 0, CycleCount := 0,
             Phase := InitialPhaseState (phaseConfig (m_config m)) 1,
             Map := (Map gs)\<lparr>PowerOn := True, Alarm := inactive_alarm\<rparr>, Entities := []\<rparr>,
           s_nextEntityID := 0, s_blackMarketGoldenBulletSold := False, s_alarmUsedDayStartTick := 0,
           s_guardEntityByRoom := Map.empty, s_guardLastShotTick := Map.empty,
           s_abilityCooldownUntil := Map.empty, s_abilityUsedDayStart := Map.empty,
           s_prisonerUnlockedRooms := {}, s_lockSnapDoorRestores := [],
           s_npcPrisonerBribeState := Map.empty, s_ammoRestockUntil := Map.empty,
           s_projectileExpireTick := [], s_replayEntries := []\<rparr>)"

definition assign_roles :: "matchSession \<Rightarrow> matchSession" where
  "assign_roles session =
     (case ApplyAssignments (s_gameState session) (s_matchID session) of
        Inl _ \<Rightarrow> session
      | Inr gs \<Rightarrow> session\<lparr>s_gameState := gs\<rparr>)"

definition deal_players :: "matchSession \<Rightarrow> matchSession" where
  "deal_players session =
     (let session = syncGameStatePlayersLocked session;
          session = assign_roles session;
          session = assignRandomAbilitiesLocked session;
          session = assignCellsLocked session;
          session = session\<lparr>s_gameState := ApplyRoleLoadouts (s_gameState session)\<rparr>;
          session = session\<lparr>s_gameState := applyInventoryLoadoutsLocked (s_gameState session)\<rparr>
      in spawnNPCPrisonersLocked session)"

definition clear_queues :: "matchSession \<Rightarrow> matchSession" where
  "clear_queues session = session\<lparr>s_scheduledInputs := Map.empty, s_acceptedByTick := Map.empty,
     s_seenClientSeq := Map.empty\<rparr>"

definition start_session :: "Manager \<Rightarrow> Time \<Rightarrow> matchSession \<Rightarrow> matchSession" where
  "start_session m startedAt session =
     (let session = deal_players (reset_session m startedAt session);
          session = clear_queues session;
          session = session\<lparr>s_lastProcessedClientSeq :=
            (\<lambda>playerID. if map_of (s_players session) playerID \<noteq> None then Some 0 else None),
            s_snapshotHistory := []\<rparr>;
          session = storeSnapshotLocked session (makeFullSnapshotLocked session)
      in session\<lparr>s_loopCancel := True, s_loopDone := True\<rparr>)"

definition StartMatch :: "Time \<Rightarrow> Manager \<Rightarrow> MatchID \<Rightarrow> Manager \<times> (GameError + MatchSnapshot)" where
  "StartMatch now m matchID =
     (case session_of m matchID of
        None \<Rightarrow> (m, Inl ErrMatchNotFound)
      | Some session \<Rightarrow>
          if s_status session = MatchStatusRunning then (m, Inl ErrMatchAlreadyRunning)
          else if s_status session = MatchStatusGameOver then (m, Inl ErrMatchAlreadyEnded)
          else if length (s_players session) < unat (MinPlayers (m_config m)) then (m, Inl ErrNotEnoughPlayers)
          else
            let session = start_session m now session;
                m = put_session matchID session m;
                m = appendEventLocked (lifecycle_event LifecycleEventMatchStarted matchID now) m
            in (m, Inr (snapshotFromSession session)))"

definition forget_players :: "matchSession \<Rightarrow> Manager \<Rightarrow> Manager" where
  "forget_players session m = m\<lparr>m_playerToMatch :=
     (\<lambda>playerID. if map_of (s_players session) playerID \<noteq> None then None else m_playerToMatch m playerID)\<rparr>"

definition EndMatch :: "Time \<Rightarrow> Manager \<Rightarrow> MatchID \<Rightarrow> string \<Rightarrow> Manager \<times> (GameError + MatchSnapshot)" where
  "EndMatch now m matchID reason =
     (let trimmedReason = TrimSpace reason;
          trimmedReason = (if trimmedReason = '''' then ''manual_end'' else trimmedReason)
      in case session_of m matchID of
           None \<Rightarrow> (m, Inl ErrMatchNotFound)
         | Some session \<Rightarrow>
             if s_status session = MatchStatusGameOver then (m, Inl ErrMatchAlreadyEnded)
             else
               let session = session\<lparr>s_status := MatchStatusGameOver, s_endedAt := Some now,
                     s_endedReason := trimmedReason,
                     s_gameState := (s_gameState session)\<lparr>Status := MatchStatusGameOver,
                       TickID := s_tickID session\<rparr>\<rparr>;
                   session = clear_queues session;
                   m = forget_players session m;
                   session = (if s_loopCancel session
                              then session\<lparr>s_loopCancel := False, s_loopDone := False\<rparr> else session);
                   m = put_session matchID session m;
                   m = appendEventLocked ((lifecycle_event LifecycleEventMatchEnded matchID now)
                         \<lparr>EventNote := trimmedReason\<rparr>) m
               in (m, Inr (snapshotFromSession session)))"

text \<open>\<open>Close\<close> ranges over the matches in an order that Go does not fix, and reads the
  clock for each: \<open>order\<close> lists their keys and \<open>now\<close> gives the instants.\<close>

definition close_match :: "Time \<Rightarrow> MatchID \<Rightarrow> Manager \<Rightarrow> Manager" where
  "close_match now matchID m =
     (case session_of m matchID of
        None \<Rightarrow> m
      | Some session \<Rightarrow>
          let m = forget_players session m;
              (session, m) = (if s_status session = MatchStatusRunning
                then (let session = session\<lparr>s_status := MatchStatusGameOver, s_endedAt := Some now,
                            s_gameState := (s_gameState session)\<lparr>Status := MatchStatusGameOver,
                              TickID := s_tickID session\<rparr>\<rparr>;
                          session = (if TrimSpace (s_endedReason session) = ''''
                                     then session\<lparr>s_endedReason := ''server_shutdown''\<rparr> else session)
                      in (session, appendEventLocked ((lifecycle_event LifecycleEventShutdown matchID now)
                            \<lparr>EventNote := s_endedReason session\<rparr>) m))
                else (session, m));
              session = (clear_queues session)\<lparr>s_loopCancel := False, s_loopDone := False\<rparr>
          in put_session matchID session m)"

definition Close :: "(MatchID \<Rightarrow> Time) \<Rightarrow> MatchID list \<Rightarrow> Manager \<Rightarrow> Manager" where
  "Close now order m = fold (\<lambda>matchID. close_match (now matchID) matchID) order m"

definition BindPersistence :: "Manager \<Rightarrow> Manager" where
  "BindPersistence m = m\<lparr>m_persistence := Some []\<rparr>"

section \<open>Knockback\<close>

definition ManagerApplyKnockback ::
  "Manager \<Rightarrow> MatchID \<Rightarrow> PlayerID \<Rightarrow> Vector2 \<Rightarrow> uint64 \<Rightarrow> Manager \<times> (GameError + PlayerState)" where
  "ManagerApplyKnockback m matchID playerID impulse stunDurationTicks =
     (case session_of m matchID of
        None \<Rightarrow> (m, Inl ErrMatchNotFound)
      | Some session \<Rightarrow>
          if s_status session \<noteq> MatchStatusRunning then (m, Inl ErrMatchNotRunning)
          else
            let gs = s_gameState session
            in case find_index (\<lambda>p. ID p = playerID) (Players gs) of
                 None \<Rightarrow> (m, Inl ErrPlayerNotFound)
               | Some playerIndex \<Rightarrow>
                   let occupied = BuildOccupiedTiles (Players gs);
                       next = fst (ApplyKnockback (Players gs ! playerIndex) impulse defaultMatchLayout
                                (Map gs) (Some occupied) (s_tickID session) stunDurationTicks);
                       next = (case RoomAt defaultMatchLayout (TileFromPosition (Position next)) of
                                 None \<Rightarrow> next | Some roomID \<Rightarrow> next\<lparr>CurrentRoomID := roomID\<rparr>);
                       session = session\<lparr>s_gameState := gs\<lparr>Players := (Players gs)[playerIndex := next]\<rparr>\<rparr>
                   in (put_session matchID session m, Inr (copyPlayerState next)))"

section \<open>Queries\<close>

definition GetMatchSnapshot :: "Manager \<Rightarrow> MatchID \<Rightarrow> MatchSnapshot option" where
  "GetMatchSnapshot m matchID = map_option snapshotFromSession (session_of m matchID)"

definition MatchConstraints :: "Manager \<Rightarrow> uint8 \<times> uint8" where
  "MatchConstraints m = (MinPlayers (m_config m), MaxPlayers (m_config m))"

definition ManagerTickRateHz :: "Manager \<Rightarrow> uint32" where
  "ManagerTickRateHz m = TickRateHz (m_config m)"

definition ListMatchSnapshots :: "Manager \<Rightarrow> MatchSnapshot list" where
  "ListMatchSnapshots m = sort_key MS_MatchID (map (\<lambda>(_, session). snapshotFromSession session) (m_matches m))"

definition LifecycleEvents :: "Manager \<Rightarrow> MatchID \<Rightarrow> LifecycleEvent list" where
  "LifecycleEvents m matchID =
     filter (\<lambda>event. \<not> (matchID \<noteq> MatchID '''' \<and> EventMatchID event \<noteq> matchID)) (m_events m)"

end
