(* ===== verification/Tick.thy ===== *)
theory Tick
  imports Guards Lifecycle
begin

text \<open>
  One tick of a running match (\<open>src/internal/server/game/manager.go\<close>): the application of the
  scheduled commands (\<open>applyInputsToGameStateLocked\<close>) and the body of the loop of
  \<open>runMatchLoop\<close>. The option is \<open>None\<close> when the Go code would panic or not return.
\<close>

section \<open>Commands\<close>

definition unmarshal :: "(string \<Rightarrow> 'a option) \<Rightarrow> string \<Rightarrow> 'a option" where
  "unmarshal decode payload = (if length payload = 0 then None else decode payload)"

definition break_chameleon :: "nat \<Rightarrow> PlayerID \<Rightarrow> unit step" where
  "break_chameleon i playerID = do {
     player \<leftarrow> player_at i;
     change (\<lambda>s. s\<lparr>s_lastMoveIntentTick := (s_lastMoveIntentTick s)(ID player \<mapsto> s_tickID s)\<rparr>);
     change (\<lambda>s. s\<lparr>s_chameleonPendingUntil := (s_chameleonPendingUntil s)(ID player := None)\<rparr>);
     broken \<leftarrow> on_player i (\<lambda>p. removeEffectLocked p EffectChameleon);
     whenever broken (do {
       mark_player playerID;
       told \<leftarrow> feedback i ActionFeedbackKindSystem ActionFeedbackLevelInfo ''Chameleon broken by movement.'';
       whenever told (mark_player playerID) })
   }"

definition cmd_move :: "nat \<Rightarrow> PlayerID \<Rightarrow> MovementInputPayload \<Rightarrow> unit step" where
  "cmd_move i playerID payload = do {
     session \<leftarrow> asks id;
     player \<leftarrow> player_at i;
     if isAmmoRestockInProgressLocked session (ID player) then
       whenever (\<not> vec_eq (Velocity player) zero_vector) (do {
         edit_player i (\<lambda>p. p\<lparr>Velocity := zero_vector\<rparr>);
         mark_player playerID })
     else do {
       whenever (\<not> f_eq (MoveX payload) 0 \<or> \<not> f_eq (MoveY payload) 0) (break_chameleon i playerID);
       player \<leftarrow> player_at i;
       occupied \<leftarrow> State (\<lambda>w. (occupiedTiles w, w));
       let (motion, occupied') = ResolveMoveIntent player payload defaultMatchLayout (session_map session)
         (Some occupied) (s_tickID session);
       State (\<lambda>w. ((), w\<lparr>occupiedTiles := the occupied'\<rparr>));
       let next = player\<lparr>Position := MotionPosition motion, Velocity := MotionVelocity motion\<rparr>;
       let next = (case RoomAt defaultMatchLayout (TileFromPosition (Position next)) of
                     None \<Rightarrow> next | Some roomID \<Rightarrow> next\<lparr>CurrentRoomID := roomID\<rparr>);
       set_player i next;
       whenever (\<not> vec_eq (Position next) (Position player) \<or> \<not> vec_eq (Velocity next) (Velocity player) \<or>
           CurrentRoomID next \<noteq> CurrentRoomID player) (mark_player playerID)
     }
   }"

definition cmd_use_item :: "PlayerID \<Rightarrow> ItemUsePayload \<Rightarrow> unit step" where
  "cmd_use_item playerID payload = do {
     let amount = (if UseAmount payload = 0 then 1 else UseAmount payload);
     if ItemTargetPlayerID payload = PlayerID '''' then ret ()
     else do {
       given \<leftarrow> tryTransferItemBetweenPlayersLocked playerID (ItemTargetPlayerID payload) (UseItem payload) amount;
       whenever given (do {
         source \<leftarrow> index_of playerID;
         dest \<leftarrow> index_of (ItemTargetPlayerID payload);
         c \<leftarrow> on_player (the source) ensureEquippedItemForPlayerLocked;
         whenever c (mark_player playerID);
         c \<leftarrow> on_player (the dest) ensureEquippedItemForPlayerLocked;
         whenever c (mark_player (ItemTargetPlayerID payload));
         mark_player playerID;
         mark_player (ItemTargetPlayerID payload) })
     }
   }"

definition cmd_purchase :: "nat \<Rightarrow> PlayerID \<Rightarrow> BlackMarketPurchasePayload \<Rightarrow> unit step" where
  "cmd_purchase i playerID payload = do {
     (purchased, feedbackMessage, feedbackLevel) \<leftarrow> applyBlackMarketPurchaseLocked i payload;
     told \<leftarrow> feedback i ActionFeedbackKindPurchase feedbackLevel feedbackMessage;
     whenever told (mark_player playerID);
     whenever purchased (mark_player playerID)
   }"

definition cmd_drop :: "nat \<Rightarrow> PlayerID \<Rightarrow> DropItemPayload \<Rightarrow> unit step" where
  "cmd_drop i playerID payload = do {
     let amount = (if DropAmount payload = 0 then 1 else DropAmount payload);
     removed \<leftarrow> on_player i (\<lambda>p. attempt p (RemoveItem p (DropItem payload) amount));
     whenever removed (do {
       player \<leftarrow> player_at i;
       droppedEntity \<leftarrow> newDroppedItemEntityLocked player (DropItem payload) amount;
       change (with_entities (\<lambda>es. es @ [droppedEntity]));
       c \<leftarrow> on_player i ensureEquippedItemForPlayerLocked;
       whenever c (mark_player playerID);
       mark_player playerID;
       mark_entity (EntityState_ID droppedEntity) })
   }"

definition cmd_craft :: "nat \<Rightarrow> PlayerID \<Rightarrow> CraftItemPayload \<Rightarrow> unit step" where
  "cmd_craft i playerID payload = do {
     crafted \<leftarrow> on_player i (\<lambda>p. attempt p (Craft p (CraftItem payload)));
     whenever crafted (do {
       c \<leftarrow> on_player i ensureEquippedItemForPlayerLocked;
       whenever c (mark_player playerID);
       mark_player playerID })
   }"

text \<open>A payload that does not decode skips the command.\<close>

definition decoded :: "'a option \<Rightarrow> ('a \<Rightarrow> unit step) \<Rightarrow> unit step" where
  "decoded r body = (case r of None \<Rightarrow> ret () | Some payload \<Rightarrow> body payload)"

text \<open>A handler whose result says whether the player of the command changed.\<close>

definition marking :: "PlayerID \<Rightarrow> bool step \<Rightarrow> unit step" where
  "marking playerID handler = do { changed \<leftarrow> handler; whenever changed (mark_player playerID) }"

definition dispatch :: "Decoders \<Rightarrow> nat \<Rightarrow> InputCommand \<Rightarrow> unit step" where
  "dispatch dec i command =
     (let playerID = CmdPlayerID command; raw = Payload command
      in if CmdType command = CmdMoveIntent then
           decoded (unmarshal (decode_movement dec) raw) (cmd_move i playerID)
         else if CmdType command = CmdAimIntent then
           decoded (unmarshal (decode_aim dec) raw) (\<lambda>payload. do {
             edit_player i (\<lambda>p. p\<lparr>Facing := \<lparr>X = AimX payload, Y = AimY payload\<rparr>\<rparr>);
             mark_player playerID })
         else if CmdType command = CmdReload then marking playerID (applyReloadCommandLocked i)
         else if CmdType command = CmdEquipItem then
           decoded (unmarshal (decode_equip dec) raw)
             (\<lambda>payload. marking playerID (applyEquipItemCommandLocked i payload))
         else if CmdType command = CmdFireWeapon then
           decoded (unmarshal (decode_fire dec) raw)
             (\<lambda>payload. do { _ \<leftarrow> applyFireWeaponCommandLocked playerID payload; ret () })
         else if CmdType command = CmdInteract then
           decoded (unmarshal (decode_interact dec) raw)
             (\<lambda>payload. marking playerID (applyInteractCommandLocked i payload))
         else if CmdType command = CmdUseAbility then
           decoded (unmarshal (decode_ability dec) raw)
             (\<lambda>payload. marking playerID (applyAbilityCommandLocked i payload))
         else if CmdType command = CmdUseCard then
           decoded (unmarshal (decode_card dec) raw)
             (\<lambda>payload. marking playerID (applyCardCommandLocked i payload))
         else if CmdType command = CmdUseItem then
           decoded (unmarshal (decode_item dec) raw) (cmd_use_item playerID)
         else if CmdType command = CmdBlackMarketBuy then
           decoded (unmarshal (decode_purchase dec) raw) (cmd_purchase i playerID)
         else if CmdType command = CmdDropItem then
           decoded (unmarshal (decode_drop dec) raw) (cmd_drop i playerID)
         else if CmdType command = CmdCraftItem then
           decoded (unmarshal (decode_craft dec) raw) (cmd_craft i playerID)
         else ret ())"

definition acknowledge :: "InputCommand \<Rightarrow> matchSession \<Rightarrow> matchSession" where
  "acknowledge command s =
     (if ClientSeq command > zero_if_none (s_lastProcessedClientSeq s (CmdPlayerID command))
      then s\<lparr>s_lastProcessedClientSeq :=
             (s_lastProcessedClientSeq s)(CmdPlayerID command \<mapsto> ClientSeq command)\<rparr>
      else s)"

definition apply_command :: "Decoders \<Rightarrow> InputCommand \<Rightarrow> unit step" where
  "apply_command dec command = do {
     found \<leftarrow> index_of (CmdPlayerID command);
     case found of
       None \<Rightarrow> ret ()
     | Some i \<Rightarrow> do {
         change (acknowledge command);
         player \<leftarrow> player_at i;
         tick \<leftarrow> asks s_tickID;
         if IsActionBlocked player tick \<and> CmdType command \<noteq> CmdAimIntent \<and> CmdType command \<noteq> CmdUseCard
         then ret ()
         else dispatch dec i command
       }
   }"

definition run_succession :: "unit step" where
  "run_succession = do {
     session \<leftarrow> asks id;
     let (gs, promoted) = ApplyGangLeaderSuccession (s_gameState session) (s_matchID session) (s_tickID session);
     change (\<lambda>s. s\<lparr>s_gameState := gs\<rparr>);
     for_each mark_player promoted
   }"

text \<open>\<open>playerIndex\<close>: a later player of the list with the same identifier wins.\<close>

definition index_players :: "PlayerState list \<Rightarrow> PlayerID \<rightharpoonup> nat" where
  "index_players ps = map_of (rev (zip (map ID ps) [0..<length ps]))"

definition start_work :: "matchSession \<Rightarrow> tick_state" where
  "start_work session = \<lparr>t_session = session, changedPlayers = [], changedDoors = [], changedCells = [],
     changedEntities = [], removedEntities = [], occupiedTiles = Map.empty,
     playerIndex = index_players (session_players session)\<rparr>"

definition run_inputs :: "Decoders \<Rightarrow> InputCommand list \<Rightarrow> unit step" where
  "run_inputs dec commands = do {
     resolveAmmoRestockCompletionsLocked;
     expireProjectileEntitiesLocked;
     State (\<lambda>w. ((), w\<lparr>occupiedTiles := BuildOccupiedTiles (session_players (t_session w))\<rparr>));
     for_each (apply_command dec) commands;
     run_succession;
     expireTimedStatesLocked;
     applyAlarmAndGuardSystemLocked
   }"

record tickMutations =
  mut_players :: "PlayerState list"
  mut_doors :: "DoorState list"
  mut_cells :: "CellState list"
  mut_entities :: "EntityState list"
  mut_removedEntityIDs :: "EntityID list"

definition applyInputsToGameStateLocked ::
  "Decoders \<Rightarrow> matchSession \<Rightarrow> InputCommand list \<Rightarrow> (matchSession \<times> tickMutations) option" where
  "applyInputsToGameStateLocked dec session commands =
     (let w = snd (run_state (run_inputs dec commands) (start_work session));
          session = t_session w
      in map_option (\<lambda>ps. (session, \<lparr>mut_players = ps,
             mut_doors = collectChangedDoors session (changedDoors w),
             mut_cells = collectChangedCells session (changedCells w),
             mut_entities = collectChangedEntities session (changedEntities w),
             mut_removedEntityIDs = collectRemovedEntityIDs (removedEntities w)\<rparr>))
           (collectChangedPlayers session (playerIndex w) (changedPlayers w)))"

section \<open>The tick\<close>

fun WinReason_str :: "WinReason \<Rightarrow> string" where
  "WinReason_str WinReasonNone = ''''"
| "WinReason_str WinReasonMaxCyclesReached = ''max_cycles_reached''"
| "WinReason_str WinReasonWardenDied = ''warden_died''"
| "WinReason_str WinReasonGangLeaderEscaped = ''gang_leader_escaped''"
| "WinReason_str WinReasonAllGangMembersDead = ''all_gang_members_dead''"
| "WinReason_str WinReasonNoEscapesAtTimeLimit = ''no_escapes_at_time_limit''"
| "WinReason_str WinReasonHitmanTargetEliminated = ''hitman_target_eliminated''"
| "WinReason_str WinReasonEscapeArtistFirstEscape = ''escape_artist_first_escape''"

text \<open>What the phase transitions of a tick change: the session, the entity states with new offers
  and the changed players.\<close>

record phase_work =
  pw_session :: matchSession
  pw_entities :: "EntityState list"
  pw_players :: "PlayerID list"

definition day_work :: "phase_work \<Rightarrow> phase_work" where
  "day_work pw =
     (let (session, cleared) = clearNightCardChoicesLocked (pw_session pw);
          (session, armed) = restoreAuthoritySidearmsForNewDayLocked session
      in pw\<lparr>pw_session := session,
            pw_players := fold List.insert armed (fold List.insert cleared (pw_players pw))\<rparr>)"

definition night_work :: "uint8 \<Rightarrow> phase_work \<Rightarrow> phase_work option" where
  "night_work cycle pw =
     (let (session, refreshed) = refreshNPCPrisonerOffersForNightLocked (pw_session pw) cycle;
          entities = mergeChangedEntityStates (pw_entities pw) refreshed
      in map_option (\<lambda>(session, offered). pw\<lparr>pw_session := session, pw_entities := entities,
             pw_players := fold List.insert offered (pw_players pw)\<rparr>)
           (assignNightCardOffersForCycleLocked session cycle))"

fun transitions_work :: "Transition list \<Rightarrow> phase_work \<Rightarrow> phase_work option" where
  "transitions_work [] pw = Some pw"
| "transitions_work (transition # rest) pw =
     (if To transition \<noteq> PhaseNight
      then transitions_work rest (if To transition = PhaseDay then day_work pw else pw)
      else case night_work (Cycle transition) pw of
             None \<Rightarrow> None
           | Some pw \<Rightarrow> transitions_work rest pw)"

definition differs :: "'a \<Rightarrow> 'a \<Rightarrow> 'a option" where
  "differs new old = (if new \<noteq> old then Some new else None)"

text \<open>The delta of a tick from the state before and after it and the collected changes.\<close>

definition tick_delta ::
  "GameState \<Rightarrow> GameState \<Rightarrow> tickMutations \<Rightarrow> PlayerState list \<Rightarrow> EntityState list \<Rightarrow> bool \<Rightarrow> GameDelta" where
  "tick_delta before after mutations changed_players changed_entities transitioned =
     \<lparr>ChangedPlayers = changed_players, RemovedPlayerIDs = [], ChangedEntities = changed_entities,
      RemovedEntityIDs = mut_removedEntityIDs mutations, ChangedDoors = mut_doors mutations,
      ChangedCells = mut_cells mutations, ChangedZones = [],
      DeltaPhase = (if transitioned then Some (Phase after) else None),
      DeltaStatus = differs (Status after) (Status before),
      DeltaCycleCount = differs (CycleCount after) (CycleCount before),
      DeltaPowerOn = differs (PowerOn (Map after)) (PowerOn (Map before)),
      DeltaAlarm = differs (Alarm (Map after)) (Alarm (Map before)),
      DeltaBlackMarketRoomID = differs (BlackMarketRoomID (Map after)) (BlackMarketRoomID (Map before)),
      DeltaGameOver = (if GameOver before = None then GameOver after else None)\<rparr>"

text \<open>The part of a tick before the outcome is evaluated.\<close>

definition tick_world ::
  "Decoders \<Rightarrow> ServerConfig \<Rightarrow> matchSession \<Rightarrow> (phase_work \<times> tickMutations \<times> Transition list) option" where
  "tick_world dec config session =
     (let (session, commands) = begin_tick session
      in case applyInputsToGameStateLocked dec session commands of
           None \<Rightarrow> None
         | Some (session, mutations) \<Rightarrow>
             (case Advance (s_gameState session) (s_tickID session) (phaseConfig config) (Some managerPhaseHooks) of
                None \<Rightarrow> None
              | Some (gs, transitions) \<Rightarrow>
                  map_option (\<lambda>pw. (pw, mutations, transitions))
                    (transitions_work transitions
                       \<lparr>pw_session = session\<lparr>s_gameState := gs\<rparr>, pw_entities = [], pw_players = []\<rparr>)))"

definition finish_session :: "Time \<Rightarrow> GameOverState \<Rightarrow> matchSession \<Rightarrow> matchSession" where
  "finish_session timestamp outcome session =
     clear_queues (session\<lparr>s_status := MatchStatusGameOver, s_endedAt := Some timestamp,
       s_endedReason := WinReason_str (Reason outcome),
       s_gameState := (s_gameState session)\<lparr>Status := MatchStatusGameOver, GameOver := Some outcome\<rparr>\<rparr>)"

definition record_match :: "GameState \<Rightarrow> Time \<Rightarrow> Manager \<Rightarrow> Manager" where
  "record_match state endedAt m =
     m\<lparr>m_persistence := map_option (\<lambda>calls. calls @ [RecordMatch state endedAt]) (m_persistence m)\<rparr>"

definition delta_snapshot :: "matchSession \<Rightarrow> GameDelta \<Rightarrow> Snapshot" where
  "delta_snapshot session delta =
     \<lparr>SnapshotKind_of = SnapshotKindDelta, SnapshotTickID = s_tickID session,
      BaseTickID = s_tickID session - 1, State = None, Delta = Some delta,
      PlayerAcks = buildPlayerAcksLocked session\<rparr>"

text \<open>The body for a running session: the manager afterwards.\<close>

definition tick_session ::
  "Decoders \<Rightarrow> Time \<Rightarrow> MatchID \<Rightarrow> matchSession \<Rightarrow> Manager \<Rightarrow> Manager option" where
  "tick_session dec timestamp matchID session m =
     map_option (\<lambda>(pw, mutations, transitions).
         let before = s_gameState session;
             session = pw_session pw;
             (session, m) = (case Evaluate (s_gameState session) \<lparr>WinMaxCycles = ServerMaxCycles (m_config m)\<rparr> of
                 None \<Rightarrow> (session, m)
               | Some outcome \<Rightarrow>
                   let session = finish_session timestamp outcome session;
                       m = record_match (s_gameState session) timestamp (forget_players session m)
                   in (session, appendEventLocked ((lifecycle_event LifecycleEventMatchEnded matchID timestamp)
                         \<lparr>EventNote := s_endedReason session\<rparr>) m));
             delta = tick_delta before (s_gameState session) mutations
               (mergeChangedPlayersByIDLocked session (mut_players mutations) (pw_players pw))
               (mergeChangedEntityStates (mut_entities mutations) (pw_entities pw)) (length transitions > 0);
             session = storeSnapshotLocked session (delta_snapshot session delta)
         in appendEventLocked ((lifecycle_event LifecycleEventTick matchID timestamp)
              \<lparr>EventTickID := s_tickID session\<rparr>) (put_session matchID session m))
       (tick_world dec (m_config m) session)"

text \<open>One turn of the loop when the ticker fires at \<open>tickAt\<close>: whether the loop goes on.\<close>

definition tick_match ::
  "Decoders \<Rightarrow> Time \<Rightarrow> Time \<Rightarrow> MatchID \<Rightarrow> Manager \<Rightarrow> (Manager \<times> bool) option" where
  "tick_match dec now tickAt matchID m =
     (case session_of m matchID of
        None \<Rightarrow> Some (m, False)
      | Some session \<Rightarrow>
          if s_status session \<noteq> MatchStatusRunning then Some (m, False)
          else
            let timestamp = (if tickAt = 0 then now else tickAt)
            in map_option (\<lambda>m. (m, True)) (tick_session dec timestamp matchID session m))"

end
