(* ===== verification/Tracking.thy ===== *)
theory Tracking
  imports PlayerLaws Tick
begin

text \<open>
  What the sets of changes of a tick track. \<open>tracked s0 A n w\<close> relates the session \<open>s0\<close> at the start
  of a tick to the work state \<open>w\<close>: every player, door, cell and entity that is not entered in a set
  of changes is as it was, except for those in \<open>A\<close>, the changes still to be entered; the players
  made only steps of \<open>player_step\<close>; the fields of the game state outside the delta are unchanged;
  and \<open>n\<close> more entity identifiers can be given out. \<open>wp\<close> is the weakest precondition of a
  computation; there is one rule for every operation of \<open>Steps\<close>, and each rule of a handler follows
  from them.
\<close>

section \<open>Lists with keys\<close>

definition strict :: "('a \<Rightarrow> 'b::linorder) \<Rightarrow> 'a list \<Rightarrow> bool" where
  "strict key xs \<longleftrightarrow> sorted_wrt (<) (map key xs)"

text \<open>The list keeps its keys, and the elements outside \<open>M\<close> are related to what they were.\<close>

definition kept :: "('a \<Rightarrow> 'b) \<Rightarrow> ('a \<Rightarrow> 'a \<Rightarrow> bool) \<Rightarrow> 'b set \<Rightarrow> 'a list \<Rightarrow> 'a list \<Rightarrow> bool" where
  "kept key R M xs ys \<longleftrightarrow> map key ys = map key xs \<and>
     (\<forall>i < length xs. key (xs ! i) \<notin> M \<longrightarrow> R (xs ! i) (ys ! i))"

lemma kept_refl: "(\<And>x. R x x) \<Longrightarrow> kept key R M xs xs"
  by (simp add: kept_def)

lemma kept_mono: "kept key R M xs ys \<Longrightarrow> M \<subseteq> N \<Longrightarrow> kept key R N xs ys"
  by (auto simp: kept_def)

lemma kept_length: "kept key R M xs ys \<Longrightarrow> length ys = length xs"
  unfolding kept_def by (metis length_map)

lemma kept_key: "kept key R M xs ys \<Longrightarrow> i < length xs \<Longrightarrow> key (ys ! i) = key (xs ! i)"
  using kept_length [of key R M xs ys] unfolding kept_def by (metis nth_map)

lemma kept_update:
  assumes "kept key R M xs ys" and "i < length xs" and "key v = key (xs ! i)"
    and "key v \<notin> M \<Longrightarrow> R (xs ! i) v"
  shows "kept key R M xs (ys[i := v])"
proof -
  have "map key (ys[i := v]) = (map key ys)[i := key v]" by (simp add: map_update)
  also have "\<dots> = map key xs"
    using assms(1,2,3) kept_length [OF assms(1)] by (simp add: kept_def list_update_same_conv)
  finally show ?thesis using assms kept_length [OF assms(1)]
    by (auto simp: kept_def nth_list_update)
qed

section \<open>Players up to the sign of zero\<close>

text \<open>A move is reported when a coordinate differs as a number; minus zero equals zero.\<close>

definition same_num :: "float32 \<Rightarrow> float32 \<Rightarrow> bool" where
  "same_num a b \<longleftrightarrow> a = b \<or> f_eq a b"

definition same_vec :: "Vector2 \<Rightarrow> Vector2 \<Rightarrow> bool" where
  "same_vec a b \<longleftrightarrow> same_num (X a) (X b) \<and> same_num (Y a) (Y b)"

definition same_player :: "PlayerState \<Rightarrow> PlayerState \<Rightarrow> bool" where
  "same_player p q \<longleftrightarrow> (\<exists>u v. q = p\<lparr>Position := u, Velocity := v\<rparr> \<and>
     same_vec (Position p) u \<and> same_vec (Velocity p) v)"

lemma same_num_refl [simp]: "same_num a a"
  by (simp add: same_num_def)

lemma same_num_trans: "same_num a b \<Longrightarrow> same_num b c \<Longrightarrow> same_num a c"
  by (auto simp: same_num_def f_eq_rank)

lemma same_vec_refl [simp]: "same_vec a a"
  by (simp add: same_vec_def)

lemma same_vec_trans: "same_vec a b \<Longrightarrow> same_vec b c \<Longrightarrow> same_vec a c"
  by (auto simp: same_vec_def elim: same_num_trans)

lemma same_player_refl [simp]: "same_player p p"
  unfolding same_player_def by (intro exI [of _ "Position p"] exI [of _ "Velocity p"]) simp

lemma same_playerI:
  "same_vec (Position p) u \<Longrightarrow> same_vec (Velocity p) v \<Longrightarrow> same_player p (p\<lparr>Position := u, Velocity := v\<rparr>)"
  unfolding same_player_def by blast

lemma same_player_trans:
  assumes "same_player p q" and "same_player q r"
  shows "same_player p r"
proof -
  obtain u v where q: "q = p\<lparr>Position := u, Velocity := v\<rparr>"
    and uv: "same_vec (Position p) u" "same_vec (Velocity p) v" using assms(1) unfolding same_player_def by blast
  obtain u' v' where r: "r = q\<lparr>Position := u', Velocity := v'\<rparr>"
    and uv': "same_vec (Position q) u'" "same_vec (Velocity q) v'" using assms(2) unfolding same_player_def by blast
  have "r = p\<lparr>Position := u', Velocity := v'\<rparr>" by (simp add: r q)
  moreover have "same_vec (Position p) u'" "same_vec (Velocity p) v'"
    using uv uv' same_vec_trans by (simp_all add: q)
  ultimately show ?thesis by (simp add: same_playerI)
qed

lemma same_player_feedback: "same_player p q \<Longrightarrow> LastActionFeedback q = LastActionFeedback p"
  unfolding same_player_def by (elim exE conjE) simp

lemma same_player_ID: "same_player p q \<Longrightarrow> ID q = ID p"
  unfolding same_player_def by (elim exE conjE) simp

section \<open>The tracking invariant\<close>

datatype pending = Dirty_player PlayerID | Fresh_player PlayerID | Dirty_door DoorID
  | Dirty_cell CellID | Dirty_entity EntityID

text \<open>A fresh player was changed and has not got a feedback message in this tick.\<close>

abbreviation players_of :: "matchSession \<Rightarrow> PlayerState list" where
  "players_of s \<equiv> Players (s_gameState s)"

abbreviation entities_of :: "matchSession \<Rightarrow> EntityState list" where
  "entities_of s \<equiv> Entities (s_gameState s)"

text \<open>The session at the start of a tick.\<close>

definition start_ok :: "matchSession \<Rightarrow> bool" where
  "start_ok s \<longleftrightarrow> strict ID (players_of s) \<and> strict DoorState_ID (Doors (session_map s)) \<and>
     strict CellState_ID (Cells (session_map s)) \<and> strict EntityState_ID (entities_of s) \<and>
     list_all (\<lambda>e. EntityState_ID e \<le> s_nextEntityID s) (entities_of s) \<and>
     list_all (\<lambda>p. player_ok p \<and> FeedbackTickID (LastActionFeedback p) \<noteq> s_tickID s) (players_of s)"

definition players_tracked :: "matchSession \<Rightarrow> pending set \<Rightarrow> tick_state \<Rightarrow> bool" where
  "players_tracked s0 A w \<longleftrightarrow>
     list_all2 (player_stamp (s_tickID s0)) (players_of s0) (players_of (t_session w)) \<and>
     kept ID same_player {k. k \<in> set (changedPlayers w) \<or> Dirty_player k \<in> A \<or> Fresh_player k \<in> A}
       (players_of s0) (players_of (t_session w)) \<and>
     kept ID (\<lambda>p q. LastActionFeedback q = LastActionFeedback p)
       {k. k \<in> set (changedPlayers w) \<or> Dirty_player k \<in> A} (players_of s0) (players_of (t_session w)) \<and>
     set (changedPlayers w) \<subseteq> ID ` set (players_of s0) \<and> distinct (changedPlayers w) \<and>
     playerIndex w = index_players (players_of s0)"

definition map_tracked :: "matchSession \<Rightarrow> pending set \<Rightarrow> tick_state \<Rightarrow> bool" where
  "map_tracked s0 A w \<longleftrightarrow>
     kept DoorState_ID (=) {k. k \<in> set (changedDoors w) \<or> Dirty_door k \<in> A}
       (Doors (session_map s0)) (Doors (session_map (t_session w))) \<and>
     kept CellState_ID (=) {k. k \<in> set (changedCells w) \<or> Dirty_cell k \<in> A}
       (Cells (session_map s0)) (Cells (session_map (t_session w))) \<and>
     RestrictedZones (session_map (t_session w)) = RestrictedZones (session_map s0)"

definition entities_tracked :: "matchSession \<Rightarrow> pending set \<Rightarrow> nat \<Rightarrow> tick_state \<Rightarrow> bool" where
  "entities_tracked s0 A n w \<longleftrightarrow>
     (let now = entities_of (t_session w); next = s_nextEntityID (t_session w)
      in strict EntityState_ID now \<and> unat next + n < 2 ^ 32 \<and>
         (\<forall>k \<in> EntityState_ID ` set now \<union> set (removedEntities w). k \<le> next) \<and>
         EntityState_ID ` set (entities_of s0) \<subseteq> EntityState_ID ` set now \<union> set (removedEntities w) \<and>
         EntityState_ID ` set now \<inter> set (removedEntities w) = {} \<and>
         (\<forall>k. k \<notin> set (changedEntities w) \<longrightarrow> k \<notin> set (removedEntities w) \<longrightarrow> Dirty_entity k \<notin> A \<longrightarrow>
            first_with_id EntityState_ID now k = first_with_id EntityState_ID (entities_of s0) k))"

definition frame_kept :: "matchSession \<Rightarrow> matchSession \<Rightarrow> bool" where
  "frame_kept s0 s \<longleftrightarrow> s_tickID s = s_tickID s0 \<and> s_matchID s = s_matchID s0 \<and> s_status s = s_status s0 \<and>
     s_players s = s_players s0 \<and> s_snapshotHistory s = s_snapshotHistory s0 \<and>
     GameState_MatchID (s_gameState s) = GameState_MatchID (s_gameState s0) \<and>
     TickID (s_gameState s) = TickID (s_gameState s0) \<and> Status (s_gameState s) = Status (s_gameState s0) \<and>
     CycleCount (s_gameState s) = CycleCount (s_gameState s0) \<and> Phase (s_gameState s) = Phase (s_gameState s0) \<and>
     GameOver (s_gameState s) = GameOver (s_gameState s0)"

definition tracked :: "matchSession \<Rightarrow> pending set \<Rightarrow> nat \<Rightarrow> tick_state \<Rightarrow> bool" where
  "tracked s0 A n w \<longleftrightarrow> start_ok s0 \<and> players_tracked s0 A w \<and> map_tracked s0 A w \<and>
     entities_tracked s0 A n w \<and> frame_kept s0 (t_session w)"

lemma tracked_mono: "tracked s0 A n w \<Longrightarrow> A \<subseteq> B \<Longrightarrow> m \<le> n \<Longrightarrow> tracked s0 B m w"
  unfolding tracked_def players_tracked_def map_tracked_def entities_tracked_def Let_def
  by (elim conjE, intro conjI) (auto elim: kept_mono)

section \<open>Weakest preconditions\<close>

definition wp :: "'a step \<Rightarrow> ('a \<Rightarrow> tick_state \<Rightarrow> bool) \<Rightarrow> tick_state \<Rightarrow> bool" where
  "wp m Q w = (case run_state m w of (r, w') \<Rightarrow> Q r w')"

lemma wp_ret [simp]: "wp (ret x) Q w = Q x w"
  by (simp add: wp_def)

lemma wp_bind [simp]: "wp (State_Monad.bind m f) Q w = wp m (\<lambda>r. wp (f r) Q) w"
  by (simp add: wp_def case_prod_beta' bind_def)

lemma wp_asks [simp]: "wp (asks g) Q w = Q (g (t_session w)) w"
  by (simp add: wp_def asks_def)

lemma wp_player_at [simp]: "wp (player_at i) Q w = Q (players_of (t_session w) ! i) w"
  by (simp add: player_at_def session_players_def)

lemma wp_index_of [simp]: "wp (index_of k) Q w = Q (playerIndex w k) w"
  by (simp add: wp_def index_of_def)

lemma wp_State: "wp (State h) Q w = Q (fst (h w)) (snd (h w))"
  by (simp add: wp_def case_prod_beta')

lemma wp_mono: "wp m P w \<Longrightarrow> (\<And>r w'. P r w' \<Longrightarrow> Q r w') \<Longrightarrow> wp m Q w"
  by (simp add: wp_def case_prod_beta')

named_theorems wp_rules \<open>rules for weakest preconditions under the tracking invariant\<close>

lemma wp_if [wp_rules]:
  "(b \<Longrightarrow> wp m Q w) \<Longrightarrow> (\<not> b \<Longrightarrow> wp m' Q w) \<Longrightarrow> wp (if b then m else m') Q w"
  by simp

lemma wp_whenever [wp_rules]:
  "(b \<Longrightarrow> wp m Q w) \<Longrightarrow> (\<not> b \<Longrightarrow> Q () w) \<Longrightarrow> wp (whenever b m) Q w"
  by (simp add: whenever_def)

lemma wp_option [wp_rules]:
  "(r = None \<Longrightarrow> wp m Q w) \<Longrightarrow> (\<And>x. r = Some x \<Longrightarrow> wp (f x) Q w) \<Longrightarrow>
   wp (case r of None \<Rightarrow> m | Some x \<Rightarrow> f x) Q w"
  by (cases r) simp_all

lemma wp_sum [wp_rules]:
  "(\<And>x. r = Inl x \<Longrightarrow> wp (f x) Q w) \<Longrightarrow> (\<And>x. r = Inr x \<Longrightarrow> wp (g x) Q w) \<Longrightarrow>
   wp (case r of Inl x \<Rightarrow> f x | Inr x \<Rightarrow> g x) Q w"
  by (cases r) simp_all

lemma wp_prod [wp_rules]: "(\<And>x y. r = (x, y) \<Longrightarrow> wp (f x y) Q w) \<Longrightarrow> wp (case r of (x, y) \<Rightarrow> f x y) Q w"
  by (cases r) simp

lemma wp_let [wp_rules]: "(\<And>x. x = r \<Longrightarrow> wp (f x) Q w) \<Longrightarrow> wp (let x = r in f x) Q w"
  by simp

section \<open>Updates of the work state\<close>

text \<open>What an update keeps, part by part.\<close>

lemma frame_with:
  "frame_kept s0 s \<Longrightarrow> frame_kept s0 (with_players f s)" "frame_kept s0 s \<Longrightarrow> frame_kept s0 (with_entities g s)"
  "frame_kept s0 s \<Longrightarrow> frame_kept s0 (with_map h s)"
  by (simp_all add: frame_kept_def with_players_def with_entities_def with_map_def)

lemma with_parts [simp]:
  "players_of (with_players f s) = f (players_of s)" "players_of (with_entities g s) = players_of s"
  "players_of (with_map h s) = players_of s"
  "entities_of (with_players f s) = entities_of s" "entities_of (with_entities g s) = g (entities_of s)"
  "entities_of (with_map h s) = entities_of s"
  "session_map (with_players f s) = session_map s" "session_map (with_entities g s) = session_map s"
  "session_map (with_map h s) = h (session_map s)"
  "s_nextEntityID (with_players f s) = s_nextEntityID s" "s_nextEntityID (with_entities g s) = s_nextEntityID s"
  "s_nextEntityID (with_map h s) = s_nextEntityID s"
  "s_tickID (with_players f s) = s_tickID s" "s_tickID (with_entities g s) = s_tickID s"
  "s_tickID (with_map h s) = s_tickID s"
  by (simp_all add: with_players_def with_entities_def with_map_def session_map_def)

lemma tracked_length: "tracked s0 A n w \<Longrightarrow> length (players_of (t_session w)) = length (players_of s0)"
  by (auto simp: tracked_def players_tracked_def dest: kept_length)

lemma tracked_ID:
  "tracked s0 A n w \<Longrightarrow> i < length (players_of s0) \<Longrightarrow> ID (players_of (t_session w) ! i) = ID (players_of s0 ! i)"
  by (auto simp: tracked_def players_tracked_def dest: kept_key)

lemma tracked_tick: "tracked s0 A n w \<Longrightarrow> s_tickID (t_session w) = s_tickID s0"
  by (simp add: tracked_def frame_kept_def)

lemma tracked_step:
  "tracked s0 A n w \<Longrightarrow> i < length (players_of s0) \<Longrightarrow>
   player_stamp (s_tickID s0) (players_of s0 ! i) (players_of (t_session w) ! i)"
  by (simp add: tracked_def players_tracked_def list_all2_conv_all_nth)

lemma tracked_ok: "tracked s0 A n w \<Longrightarrow> i < length (players_of s0) \<Longrightarrow> player_ok (players_of (t_session w) ! i)"
  using tracked_step [of s0 A n w i]
  by (simp add: tracked_def start_ok_def list_all_length player_stamp_def)

text \<open>Writing a player: a dirty one, a fresh one, or one that is the same.\<close>

abbreviation put_player :: "nat \<Rightarrow> PlayerState \<Rightarrow> tick_state \<Rightarrow> tick_state" where
  "put_player i q w \<equiv> w\<lparr>t_session := with_players (\<lambda>ps. ps[i := q]) (t_session w)\<rparr>"

lemma put_player_parts:
  "players_of (t_session (put_player i q w)) = (players_of (t_session w))[i := q]"
  "changedPlayers (put_player i q w) = changedPlayers w"
  by simp_all

lemma tracked_stamp:
  assumes t: "tracked s0 A n w" and i: "i < length (players_of s0)" and "A \<subseteq> B"
    and step: "player_stamp (s_tickID s0) (players_of (t_session w) ! i) q"
    and d: "Dirty_player (ID q) \<notin> B \<Longrightarrow> LastActionFeedback q = LastActionFeedback (players_of (t_session w) ! i)"
    and f: "Dirty_player (ID q) \<notin> B \<Longrightarrow> Fresh_player (ID q) \<notin> B \<Longrightarrow> same_player (players_of (t_session w) ! i) q"
  shows "tracked s0 B n (put_player i q w)"
proof -
  note b = tracked_mono [OF t \<open>A \<subseteq> B\<close> order_refl]
  have q: "ID q = ID (players_of s0 ! i)" using step tracked_ID [OF t i] by (simp add: player_stamp_def)
  have "players_tracked s0 B (put_player i q w)"
    unfolding players_tracked_def
  proof (intro conjI)
    have "player_stamp (s_tickID s0) (players_of s0 ! i) q"
      using tracked_step [OF t i] step player_stamp_trans by blast
    then show "list_all2 (player_stamp (s_tickID s0)) (players_of s0) (players_of (t_session (put_player i q w)))"
      using t i tracked_length [OF t]
      by (auto simp: tracked_def players_tracked_def list_all2_conv_all_nth nth_list_update)
    have k: "kept ID same_player {k. k \<in> set (changedPlayers w) \<or> Dirty_player k \<in> B \<or> Fresh_player k \<in> B}
        (players_of s0) (players_of (t_session w))" using b by (simp add: tracked_def players_tracked_def)
    show "kept ID same_player {k. k \<in> set (changedPlayers (put_player i q w)) \<or> Dirty_player k \<in> B \<or> Fresh_player k \<in> B}
        (players_of s0) (players_of (t_session (put_player i q w)))"
      using same_player_trans k i q f unfolding put_player_parts
      by (intro kept_update [OF k i q]) (auto simp: kept_def)
    have k: "kept ID (\<lambda>p q. LastActionFeedback q = LastActionFeedback p)
        {k. k \<in> set (changedPlayers w) \<or> Dirty_player k \<in> B} (players_of s0) (players_of (t_session w))"
      using b by (simp add: tracked_def players_tracked_def)
    show "kept ID (\<lambda>p q. LastActionFeedback q = LastActionFeedback p)
        {k. k \<in> set (changedPlayers (put_player i q w)) \<or> Dirty_player k \<in> B}
        (players_of s0) (players_of (t_session (put_player i q w)))"
      using k i q d unfolding put_player_parts
      by (intro kept_update [OF k i q]) (auto simp: kept_def)
  qed (use t in \<open>simp_all add: tracked_def players_tracked_def\<close>)
  then show ?thesis using b
    by (simp add: tracked_def map_tracked_def entities_tracked_def frame_with)
qed

lemma tracked_put:
  assumes "tracked s0 A n w" and "i < length (players_of s0)" and "A \<subseteq> B"
    and "player_step (players_of (t_session w) ! i) q"
    and "Dirty_player (ID q) \<notin> B \<Longrightarrow> LastActionFeedback q = LastActionFeedback (players_of (t_session w) ! i)"
    and "Dirty_player (ID q) \<notin> B \<Longrightarrow> Fresh_player (ID q) \<notin> B \<Longrightarrow> same_player (players_of (t_session w) ! i) q"
  shows "tracked s0 B n (put_player i q w)"
  by (rule tracked_stamp [OF assms(1,2,3) player_step_stamp [OF assms(4)]]) (use assms(5,6) in auto)

section \<open>Rules for players\<close>

text \<open>A call through a pointer whose result tells when the player is unchanged.\<close>

definition truthful :: "('a \<Rightarrow> bool) \<Rightarrow> (PlayerState \<Rightarrow> PlayerState \<times> 'a) \<Rightarrow> bool" where
  "truthful c f \<longleftrightarrow> (\<forall>p. player_step p (fst (f p)) \<and> (player_ok p \<longrightarrow> \<not> c (snd (f p)) \<longrightarrow> fst (f p) = p))"

abbreviation player_id :: "matchSession \<Rightarrow> nat \<Rightarrow> PlayerID" where
  "player_id s i \<equiv> ID (players_of s ! i)"

abbreviation players_count :: "matchSession \<Rightarrow> nat" where
  "players_count s \<equiv> length (players_of s)"

lemma wp_on_player_eq: "wp (on_player i f) Q w =
  Q (snd (f (players_of (t_session w) ! i))) (put_player i (fst (f (players_of (t_session w) ! i))) w)"
  by (simp add: on_player_def set_player_def change_def wp_State case_prod_beta')

lemma wp_on_player:
  assumes "tracked s0 A n w" "i < players_count s0" and "\<And>p. player_step p (fst (f p))"
    and "\<And>w'. tracked s0 (insert (Dirty_player (player_id s0 i)) A) n w' \<Longrightarrow>
           Q (snd (f (players_of (t_session w) ! i))) w'"
  shows "wp (on_player i f) Q w"
  unfolding wp_on_player_eq
  by (rule assms(4), rule tracked_put [OF assms(1,2) _ assms(3)])
    (use assms(3) tracked_ID [OF assms(1,2)] in \<open>auto simp: player_step_def\<close>)

lemma wp_truthful [wp_rules]:
  assumes "tracked s0 A n w" "i < players_count s0" and "truthful c f"
    and "\<And>r w'. tracked s0 (if c r then insert (Dirty_player (player_id s0 i)) A else A) n w' \<Longrightarrow> Q r w'"
  shows "wp (on_player i f) Q w"
  unfolding wp_on_player_eq
proof (rule assms(4), rule tracked_put [OF assms(1,2)])
  let ?p = "players_of (t_session w) ! i"
  show "player_step ?p (fst (f ?p))" using assms(3) by (simp add: truthful_def)
  then show "LastActionFeedback (fst (f ?p)) = LastActionFeedback ?p" "same_player ?p (fst (f ?p))"
    if "Dirty_player (ID (fst (f ?p))) \<notin> (if c (snd (f ?p)) then insert (Dirty_player (player_id s0 i)) A else A)"
    using that assms(3) tracked_ID [OF assms(1,2)] tracked_ok [OF assms(1,2)]
    by (auto simp: truthful_def player_step_def split: if_splits)
qed auto

lemma honest_truthful [player_laws]: "honest f \<Longrightarrow> truthful (\<lambda>b. b) f"
  by (simp add: honest_def truthful_def)

lemma wp_edit_player:
  assumes "tracked s0 A n w" "i < players_count s0" and "\<And>p. player_step p (f p)"
    and "\<And>w'. tracked s0 (insert (Dirty_player (player_id s0 i)) A) n w' \<Longrightarrow> Q () w'"
  shows "wp (edit_player i f) Q w"
  unfolding edit_player_def by (rule wp_on_player [OF assms(1,2)]) (use assms(3,4) in auto)

text \<open>An edit that leaves the feedback of the player.\<close>

lemma wp_on_fresh:
  assumes "tracked s0 A n w" "i < players_count s0" and "\<And>p. player_step p (fst (f p))"
    and "\<And>p. LastActionFeedback (fst (f p)) = LastActionFeedback p"
    and "\<And>w'. tracked s0 (insert (Fresh_player (player_id s0 i)) A) n w' \<Longrightarrow>
           Q (snd (f (players_of (t_session w) ! i))) w'"
  shows "wp (on_player i f) Q w"
  unfolding wp_on_player_eq
  by (rule assms(5), rule tracked_put [OF assms(1,2) _ assms(3)])
    (use assms(3,4) tracked_ID [OF assms(1,2)] in \<open>auto simp: player_step_def\<close>)

section \<open>Rules for the sets of changes\<close>

lemma tracked_at: "tracked s0 A n w \<Longrightarrow> i < players_count s0 \<Longrightarrow> player_id s0 i \<in> ID ` set (players_of s0)"
  by simp

lemma wp_mark_player [wp_rules]:
  assumes "tracked s0 A n w" "k = player_id s0 i" "i < players_count s0"
    and "\<And>w'. tracked s0 (A - {Dirty_player (player_id s0 i), Fresh_player (player_id s0 i)}) n w' \<Longrightarrow>
           t_session w' = t_session w \<Longrightarrow> Q () w'"
  shows "wp (mark_player k) Q w"
proof -
  have "tracked s0 (A - {Dirty_player k, Fresh_player k}) n (w\<lparr>changedPlayers := List.insert k (changedPlayers w)\<rparr>)"
    using assms(1,2,3) unfolding tracked_def players_tracked_def map_tracked_def entities_tracked_def Let_def
    by (auto simp: in_set_insert intro: kept_mono elim!: kept_mono)
  then show ?thesis using assms(2,4) by (simp add: mark_player_def wp_State)
qed

lemma wp_mark_door [wp_rules]:
  assumes "tracked s0 A n w"
    and "\<And>w'. tracked s0 (A - {Dirty_door k}) n w' \<Longrightarrow> t_session w' = t_session w \<Longrightarrow> Q () w'"
  shows "wp (mark_door k) Q w"
proof -
  have "tracked s0 (A - {Dirty_door k}) n (w\<lparr>changedDoors := List.insert k (changedDoors w)\<rparr>)"
    using assms(1) unfolding tracked_def players_tracked_def map_tracked_def entities_tracked_def Let_def
    by (auto elim!: kept_mono)
  then show ?thesis using assms(2) by (simp add: mark_door_def wp_State)
qed

lemma wp_mark_cell [wp_rules]:
  assumes "tracked s0 A n w"
    and "\<And>w'. tracked s0 (A - {Dirty_cell k}) n w' \<Longrightarrow> t_session w' = t_session w \<Longrightarrow> Q () w'"
  shows "wp (mark_cell k) Q w"
proof -
  have "tracked s0 (A - {Dirty_cell k}) n (w\<lparr>changedCells := List.insert k (changedCells w)\<rparr>)"
    using assms(1) unfolding tracked_def players_tracked_def map_tracked_def entities_tracked_def Let_def
    by (auto elim!: kept_mono)
  then show ?thesis using assms(2) by (simp add: mark_cell_def wp_State)
qed

lemma wp_mark_entity [wp_rules]:
  assumes "tracked s0 A n w"
    and "\<And>w'. tracked s0 (A - {Dirty_entity k}) n w' \<Longrightarrow> t_session w' = t_session w \<Longrightarrow> Q () w'"
  shows "wp (mark_entity k) Q w"
proof -
  have "tracked s0 (A - {Dirty_entity k}) n (w\<lparr>changedEntities := List.insert k (changedEntities w)\<rparr>)"
    using assms(1) unfolding tracked_def players_tracked_def map_tracked_def entities_tracked_def Let_def
    by (auto elim!: kept_mono)
  then show ?thesis using assms(2) by (simp add: mark_entity_def wp_State)
qed

lemma wp_mark_all_doors [wp_rules]:
  assumes "tracked s0 A n w"
    and "\<And>w'. tracked s0 (A - range Dirty_door) n w' \<Longrightarrow> t_session w' = t_session w \<Longrightarrow> Q () w'"
  shows "wp mark_all_doors Q w"
proof -
  let ?d = "fold List.insert (map DoorState_ID (Doors (session_map (t_session w)))) (changedDoors w)"
  have s: "set (fold List.insert ks ds) = set ks \<union> set ds" for ks ds :: "DoorID list"
    by (induction ks arbitrary: ds) auto
  have "map DoorState_ID (Doors (session_map (t_session w))) = map DoorState_ID (Doors (session_map s0))"
    using assms(1) by (simp add: tracked_def map_tracked_def kept_def)
  then have "tracked s0 (A - range Dirty_door) n (w\<lparr>changedDoors := ?d\<rparr>)"
    using assms(1) unfolding tracked_def players_tracked_def map_tracked_def entities_tracked_def Let_def
    by (auto simp: s kept_def image_iff)
  then show ?thesis using assms(2) by (simp add: mark_all_doors_def wp_State)
qed

section \<open>Rules for feedback and equipment\<close>

lemma tracked_feedback:
  fixes kind level message w i
  defines "f \<equiv> applyActionFeedbackLocked (players_of (t_session w) ! i) kind level message (s_tickID (t_session w))"
  assumes "tracked s0 A n w" "i < players_count s0"
  shows "tracked s0 (if snd f then insert (Dirty_player (player_id s0 i)) A else A) n (put_player i (fst f) w)"
proof (rule tracked_stamp [OF assms(2,3)])
  show st: "player_stamp (s_tickID s0) (players_of (t_session w) ! i) (fst f)"
    using feedback_stamp tracked_tick [OF assms(2)] by (simp add: f_def)
  have "ID (fst f) = player_id s0 i" using st tracked_ID [OF assms(2,3)] by (simp add: player_stamp_def)
  then show "LastActionFeedback (fst f) = LastActionFeedback (players_of (t_session w) ! i)"
    "same_player (players_of (t_session w) ! i) (fst f)"
    if "Dirty_player (ID (fst f)) \<notin> (if snd f then insert (Dirty_player (player_id s0 i)) A else A)"
    using that feedback_unreported by (auto simp: f_def split: if_splits)
qed auto

lemma wp_feedback [wp_rules]:
  assumes "tracked s0 A n w" "i < players_count s0"
    and "\<And>r w'. tracked s0 (if r then insert (Dirty_player (player_id s0 i)) A else A) n w' \<Longrightarrow> Q r w'"
  shows "wp (feedback i kind level message) Q w"
  unfolding feedback_def wp_bind wp_asks wp_on_player_eq
  by (rule assms(3), rule tracked_feedback [OF assms(1,2)])

lemma wp_tell [wp_rules]:
  assumes "tracked s0 A n w" "i < players_count s0"
    and "\<And>w'. tracked s0 A n w' \<Longrightarrow> Q () w'"
  shows "wp (tell i kind level message) Q w"
  unfolding tell_def wp_bind wp_player_at
  by (rule wp_feedback [OF assms(1,2)], rule wp_whenever, rule wp_mark_player, assumption,
      rule tracked_ID [OF assms(1,2)], rule assms(2))
    (auto intro!: assms(3) elim: tracked_mono)

lemma wp_reequip [wp_rules]:
  assumes "tracked s0 A n w" "i < players_count s0"
    and "\<And>w'. tracked s0 A n w' \<Longrightarrow> Q () w'"
  shows "wp (reequip i) Q w"
  unfolding reequip_def wp_bind wp_player_at
  by (rule wp_truthful [OF assms(1,2) honest_truthful [OF ensureEquipped_honest]], rule wp_whenever,
      rule wp_mark_player, assumption, rule tracked_ID [OF assms(1,2)], rule assms(2))
    (auto intro!: assms(3) elim: tracked_mono)

text \<open>Feedback to a fresh player always reports a change, unless the player is already reported.\<close>

lemma stale_feedback:
  assumes "tracked s0 A n w" "i < players_count s0"
    and "FeedbackTickID (LastActionFeedback (players_of (t_session w) ! i)) = s_tickID s0"
  shows "tracked s0 (A - {Fresh_player (player_id s0 i)}) n w"
proof -
  have "FeedbackTickID (LastActionFeedback (players_of s0 ! i)) \<noteq> s_tickID s0"
    using assms(1,2) by (simp add: tracked_def start_ok_def list_all_length)
  then have "player_id s0 i \<in> set (changedPlayers w) \<or> Dirty_player (player_id s0 i) \<in> A"
    using assms by (auto simp: tracked_def players_tracked_def kept_def)
  then show ?thesis
    using assms(1) unfolding tracked_def players_tracked_def map_tracked_def entities_tracked_def Let_def
    by (auto elim!: kept_mono)
qed

lemma tracked_dirty_fresh:
  assumes "tracked s0 (insert (Dirty_player k) A) n w"
  shows "tracked s0 (insert (Dirty_player k) (A - {Fresh_player k})) n w"
  using assms unfolding tracked_def players_tracked_def map_tracked_def entities_tracked_def Let_def
  by (auto elim!: kept_mono)

lemma wp_feedback_fresh:
  assumes "tracked s0 A n w" "i < players_count s0" and "kind \<noteq> ActionFeedbackKindNone" "TrimSpace message \<noteq> ''''"
    and "\<And>r w'. tracked s0 (if r then insert (Dirty_player (player_id s0 i)) (A - {Fresh_player (player_id s0 i)})
           else A - {Fresh_player (player_id s0 i)}) n w' \<Longrightarrow> Q r w'"
  shows "wp (feedback i kind level message) Q w"
proof -
  let ?p = "players_of (t_session w) ! i"
  let ?f = "applyActionFeedbackLocked ?p kind level message (s_tickID (t_session w))"
  have "tracked s0 (if snd ?f then insert (Dirty_player (player_id s0 i)) (A - {Fresh_player (player_id s0 i)})
           else A - {Fresh_player (player_id s0 i)}) n (put_player i (fst ?f) w)"
  proof (cases "snd ?f")
    case True
    have "tracked s0 (insert (Dirty_player (player_id s0 i)) A) n (put_player i (fst ?f) w)"
      using tracked_feedback [OF assms(1,2), of kind level message] True by simp
    with True show ?thesis by (simp add: tracked_dirty_fresh)
  next
    case False
    then have "fst ?f = ?p" by (rule feedback_unreported)
    moreover have "FeedbackTickID (LastActionFeedback ?p) = s_tickID s0"
      using False assms(3,4) tracked_tick [OF assms(1)]
      by (auto simp: applyActionFeedbackLocked_def Let_def split: if_splits)
    then have "tracked s0 (A - {Fresh_player (player_id s0 i)}) n w" by (rule stale_feedback [OF assms(1,2)])
    then have "tracked s0 (A - {Fresh_player (player_id s0 i)}) n (put_player i ?p w)"
      by (rule tracked_put [OF _ assms(2)]) simp_all
    ultimately show ?thesis using False by simp
  qed
  then show ?thesis using assms(5) by (simp add: feedback_def wp_on_player_eq)
qed

section \<open>Rules for the session and the map\<close>

text \<open>A change of the session that none of the tracked parts sees.\<close>

definition inert :: "(matchSession \<Rightarrow> matchSession) \<Rightarrow> bool" where
  "inert f \<longleftrightarrow> (\<forall>s. s_gameState (f s) = s_gameState s \<and> s_tickID (f s) = s_tickID s \<and>
     s_matchID (f s) = s_matchID s \<and> s_nextEntityID (f s) = s_nextEntityID s \<and> s_status (f s) = s_status s \<and>
     s_players (f s) = s_players s \<and> s_snapshotHistory (f s) = s_snapshotHistory s)"

named_theorems inert_laws \<open>changes of the session outside the tracked parts\<close>

lemma inert_updates [inert_laws]:
  "inert (\<lambda>s. s\<lparr>s_ammoRestockUntil := f1 s\<rparr>)" "inert (\<lambda>s. s\<lparr>s_blackMarketGoldenBulletSold := f2 s\<rparr>)"
  "inert (\<lambda>s. s\<lparr>s_npcPrisonerBribeState := f3 s\<rparr>)" "inert (\<lambda>s. s\<lparr>s_npcTaskByPlayer := f4 s\<rparr>)"
  "inert (\<lambda>s. s\<lparr>s_prisonerUnlockedRooms := f5 s\<rparr>)" "inert (\<lambda>s. s\<lparr>s_chameleonPendingUntil := f6 s\<rparr>)"
  "inert (\<lambda>s. s\<lparr>s_lockSnapDoorRestores := f7 s\<rparr>)" "inert (\<lambda>s. s\<lparr>s_projectileExpireTick := f8 s\<rparr>)"
  "inert (\<lambda>s. s\<lparr>s_guardEntityByRoom := f9 s\<rparr>)" "inert (\<lambda>s. s\<lparr>s_guardLastShotTick := f10 s\<rparr>)"
  "inert (\<lambda>s. s\<lparr>s_guardEntityByRoom := f9 s, s_guardLastShotTick := f10 s\<rparr>)"
  "inert (\<lambda>s. s\<lparr>s_lastMoveIntentTick := f11 s\<rparr>)" "inert drop_completed"
  "inert (registerAbilityUseLocked playerID ability)" "inert (acknowledge command)"
  by (simp_all add: inert_def drop_completed_def registerAbilityUseLocked_def register_daily_def
      register_cooldown_def acknowledge_def Let_def)

lemma tracked_inert:
  assumes "tracked s0 A n w" and "inert f"
  shows "tracked s0 A n (w\<lparr>t_session := f (t_session w)\<rparr>)"
  using assms unfolding tracked_def players_tracked_def map_tracked_def entities_tracked_def frame_kept_def
    session_map_def by (simp add: inert_def)

lemma wp_inert [wp_rules]:
  assumes "tracked s0 A n w" and "inert f" and "\<And>w'. tracked s0 A n w' \<Longrightarrow> Q () w'"
  shows "wp (change f) Q w"
  using assms(3) [OF tracked_inert [OF assms(1,2)]] by (simp add: change_def wp_State)

lemma wp_with_map:
  assumes "tracked s0 A n w" and "\<And>m. Doors (f m) = Doors m \<and> Cells (f m) = Cells m \<and> RestrictedZones (f m) = RestrictedZones m"
    and "\<And>w'. tracked s0 A n w' \<Longrightarrow> Q () w'"
  shows "wp (change (with_map f)) Q w"
proof -
  have "tracked s0 A n (w\<lparr>t_session := with_map f (t_session w)\<rparr>)"
    using assms(1,2) by (simp add: tracked_def players_tracked_def map_tracked_def entities_tracked_def frame_with)
  then show ?thesis using assms(3) by (simp add: change_def wp_State)
qed

lemma wp_set_door:
  assumes "tracked s0 A n w" "k < length (Doors (session_map (t_session w)))"
    and "DoorState_ID d = DoorState_ID (Doors (session_map (t_session w)) ! k)"
    and "d \<noteq> Doors (session_map (t_session w)) ! k \<Longrightarrow> c"
    and "\<And>w'. tracked s0 (if c then insert (Dirty_door (DoorState_ID d)) A else A) n w' \<Longrightarrow> Q () w'"
  shows "wp (set_door k d) Q w"
proof -
  let ?A = "if c then insert (Dirty_door (DoorState_ID d)) A else A"
  have t: "tracked s0 ?A n w" by (rule tracked_mono [OF assms(1)]) auto
  then have m: "kept DoorState_ID (=) {k. k \<in> set (changedDoors w) \<or> Dirty_door k \<in> ?A}
      (Doors (session_map s0)) (Doors (session_map (t_session w)))" by (simp add: tracked_def map_tracked_def)
  have k: "k < length (Doors (session_map s0))" using assms(2) kept_length [OF m] by simp
  have "kept DoorState_ID (=) {k. k \<in> set (changedDoors w) \<or> Dirty_door k \<in> ?A}
      (Doors (session_map s0)) ((Doors (session_map (t_session w)))[k := d])"
  proof (rule kept_update [OF m k])
    show i: "DoorState_ID d = DoorState_ID (Doors (session_map s0) ! k)" using assms(3) kept_key [OF m k] by simp
    show "Doors (session_map s0) ! k = d"
      if "DoorState_ID d \<notin> {k. k \<in> set (changedDoors w) \<or> Dirty_door k \<in> ?A}"
    proof -
      have "d = Doors (session_map (t_session w)) ! k" using that assms(4) by (cases c) auto
      moreover have "Doors (session_map s0) ! k = Doors (session_map (t_session w)) ! k"
        using m k that unfolding kept_def i by blast
      ultimately show ?thesis by simp
    qed
  qed
  then have "tracked s0 ?A n (w\<lparr>t_session := with_map (\<lambda>m. m\<lparr>Doors := (Doors m)[k := d]\<rparr>) (t_session w)\<rparr>)"
    using t by (simp add: tracked_def players_tracked_def map_tracked_def entities_tracked_def frame_with)
  then show ?thesis using assms(5) by (simp add: set_door_def change_def wp_State)
qed

section \<open>Rules for entities\<close>

lemma strict_distinct: "strict key xs \<Longrightarrow> distinct (map key xs)"
  by (simp add: strict_def strict_sorted_iff)

lemma first_with_id_Some:
  assumes "distinct (map key xs)"
  shows "first_with_id key xs k = Some x \<longleftrightarrow> x \<in> set xs \<and> key x = k"
  using assms by (induction xs) (auto simp: first_with_id_def image_iff)

lemma first_with_id_None: "first_with_id key xs k = None \<longleftrightarrow> k \<notin> key ` set xs"
  by (auto simp: first_with_id_def find_None_iff)

lemma first_with_id_cong:
  assumes "distinct (map key xs)" "distinct (map key ys)"
    and "\<And>x. key x = k \<Longrightarrow> x \<in> set xs \<longleftrightarrow> x \<in> set ys"
  shows "first_with_id key xs k = first_with_id key ys k"
proof (cases "first_with_id key ys k")
  case None
  then have "first_with_id key xs k = None" using assms(3) by (auto simp: first_with_id_None image_iff)
  with None show ?thesis by simp
next
  case (Some y)
  moreover from this have "first_with_id key xs k = Some y" using assms by (simp add: first_with_id_Some)
  ultimately show ?thesis by simp
qed

lemma tracked_entities:
  assumes "tracked s0 A n w"
  shows "strict EntityState_ID (entities_of (t_session w))" "distinct (map EntityState_ID (entities_of (t_session w)))"
  using assms strict_distinct by (auto simp: tracked_def entities_tracked_def Let_def)

lemma findEntity_Some:
  "findEntityIndexByID es k = Some i \<Longrightarrow> i < length es \<and> EntityState_ID (es ! i) = k"
  by (auto simp: findEntityIndexByID_def find_index_Some)

lemma tracked_new_entities:
  assumes t: "tracked s0 A n w" and e: "entities_tracked s0 B m w'" and "A \<subseteq> B"
    and "players_of (t_session w') = players_of (t_session w)" "session_map (t_session w') = session_map (t_session w)"
      "frame_kept s0 (t_session w) \<Longrightarrow> frame_kept s0 (t_session w')" "changedPlayers w' = changedPlayers w"
      "changedDoors w' = changedDoors w" "changedCells w' = changedCells w" "playerIndex w' = playerIndex w"
  shows "tracked s0 B m w'"
proof -
  have "tracked s0 B n w" by (rule tracked_mono [OF t \<open>A \<subseteq> B\<close> order_refl])
  then show ?thesis using assms(2,4-) by (simp add: tracked_def players_tracked_def map_tracked_def)
qed

text \<open>Rewriting one entity in place.\<close>

lemma wp_update_entity:
  assumes t: "tracked s0 A n w" and i: "i < length (entities_of (t_session w))"
    and k: "\<And>e. EntityState_ID (f e) = EntityState_ID e" "EntityState_ID (entities_of (t_session w) ! i) = k"
    and Q: "\<And>w'. tracked s0 (insert (Dirty_entity k) A) n w' \<Longrightarrow> Q () w'"
  shows "wp (change (with_entities (\<lambda>es. es[i := f (es ! i)]))) Q w"
proof -
  let ?es = "entities_of (t_session w)"
  let ?fs = "?es[i := f (?es ! i)]"
  have ids: "map EntityState_ID ?fs = map EntityState_ID ?es"
    using i k by (simp add: map_update list_update_same_conv)
  then have sets: "EntityState_ID ` set ?fs = EntityState_ID ` set ?es" by (metis set_map)
  let ?w = "w\<lparr>t_session := with_entities (\<lambda>es. es[i := f (es ! i)]) (t_session w)\<rparr>"
  have "first_with_id EntityState_ID ?fs j = first_with_id EntityState_ID ?es j" if "j \<noteq> k" for j
    using that tracked_entities(2) [OF t] i k
    by (intro first_with_id_cong) (auto simp: ids set_update_distinct distinct_map)
  moreover have "entities_tracked s0 A n w" using t by (simp add: tracked_def)
  ultimately have "entities_tracked s0 (insert (Dirty_entity k) A) n ?w"
    by (simp add: entities_tracked_def Let_def strict_def ids sets)
  then have "tracked s0 (insert (Dirty_entity k) A) n ?w"
    by (rule tracked_new_entities [OF t]) (auto simp: frame_with)
  then show ?thesis using Q by (simp add: change_def wp_State)
qed

text \<open>A new entity at the end of the list, under the next identifier.\<close>

lemma tracked_append:
  assumes t: "tracked s0 A (Suc n) w" and e: "EntityState_ID e = s_nextEntityID (t_session w) + 1"
    and f: "inert f"
  shows "tracked s0 (insert (Dirty_entity (EntityState_ID e)) A) n
    (w\<lparr>t_session := with_entities (\<lambda>es. es @ [e]) (f (t_session w\<lparr>s_nextEntityID := s_nextEntityID (t_session w) + 1\<rparr>))\<rparr>)"
    (is "tracked _ _ _ ?w")
proof -
  let ?next = "s_nextEntityID (t_session w)" and ?es = "entities_of (t_session w)"
  have "unat ?next + Suc n < 2 ^ 32" using t by (simp add: tracked_def entities_tracked_def Let_def)
  then have u: "unat (?next + 1) = Suc (unat ?next)" by (simp add: unat_plus_if_size word_size)
  have le: "k \<le> ?next" if "k \<in> EntityState_ID ` set ?es \<union> set (removedEntities w)" for k
    using t that by (auto simp: tracked_def entities_tracked_def Let_def)
  then have lt: "k < ?next + 1" if "k \<in> EntityState_ID ` set ?es \<union> set (removedEntities w)" for k
    using that u by (force simp: word_less_nat_alt word_le_nat_alt)
  have s: "strict EntityState_ID (?es @ [e])"
    using tracked_entities(1) [OF t] lt e by (auto simp: strict_def sorted_wrt_append)
  have "first_with_id EntityState_ID (?es @ [e]) j = first_with_id EntityState_ID ?es j" if "j \<noteq> EntityState_ID e" for j
    using that by (intro first_with_id_cong strict_distinct s tracked_entities(1) [OF t]) auto
  moreover have "EntityState_ID e \<notin> set (removedEntities w)" using lt e by auto
  moreover have "k \<le> ?next + 1" if "k \<in> EntityState_ID ` set ?es \<union> set (removedEntities w)" for k
    using lt [OF that] by simp
  moreover have "entities_tracked s0 A (Suc n) w" using t by (simp add: tracked_def)
  ultimately have "entities_tracked s0 (insert (Dirty_entity (EntityState_ID e)) A) n ?w"
    using s u f unfolding entities_tracked_def Let_def by (auto simp: e inert_def)
  then show ?thesis
    by (rule tracked_new_entities [OF t])
      (use f in \<open>auto simp: with_entities_def inert_def session_map_def frame_kept_def\<close>)
qed

text \<open>Any rewriting of the list that drops only removed entities and marks what it changes.\<close>

lemma entities_rewritten:
  assumes e: "entities_tracked s0 A n w" and nx: "s_nextEntityID (t_session w') = s_nextEntityID (t_session w)"
    and st: "strict EntityState_ID (entities_of (t_session w'))"
    and sub: "EntityState_ID ` set (entities_of (t_session w')) \<subseteq> EntityState_ID ` set (entities_of (t_session w))"
    and rm: "set (removedEntities w') = set (removedEntities w) \<union>
      (EntityState_ID ` set (entities_of (t_session w)) - EntityState_ID ` set (entities_of (t_session w')))"
    and ch: "set (changedEntities w) \<subseteq> set (changedEntities w') \<union> set (removedEntities w')"
    and same: "\<And>x. x \<in> set (entities_of (t_session w')) \<Longrightarrow> EntityState_ID x \<notin> set (changedEntities w') \<Longrightarrow>
      x \<in> set (entities_of (t_session w))"
  shows "entities_tracked s0 A n w'"
proof -
  let ?es = "entities_of (t_session w)" and ?fs = "entities_of (t_session w')"
  have s: "strict EntityState_ID ?es" and d: "EntityState_ID ` set ?es \<inter> set (removedEntities w) = {}"
    and le: "\<forall>k\<in>EntityState_ID ` set ?es \<union> set (removedEntities w). k \<le> s_nextEntityID (t_session w)"
    and all: "EntityState_ID ` set (entities_of s0) \<subseteq> EntityState_ID ` set ?es \<union> set (removedEntities w)"
    and lim: "unat (s_nextEntityID (t_session w)) + n < 2 ^ 32"
    and old: "\<And>k. k \<notin> set (changedEntities w) \<Longrightarrow> k \<notin> set (removedEntities w) \<Longrightarrow> Dirty_entity k \<notin> A \<Longrightarrow>
      first_with_id EntityState_ID ?es k = first_with_id EntityState_ID (entities_of s0) k"
    using e unfolding entities_tracked_def Let_def by (elim conjE; blast)+
  have fe: "first_with_id EntityState_ID ?fs k = first_with_id EntityState_ID ?es k"
    if k: "k \<notin> set (changedEntities w')" "k \<notin> set (removedEntities w')" for k
  proof (rule first_with_id_cong [OF strict_distinct [OF st] strict_distinct [OF s]])
    fix x :: EntityState assume x: "EntityState_ID x = k"
    show "x \<in> set ?fs \<longleftrightarrow> x \<in> set ?es"
    proof
      show "x \<in> set ?fs \<Longrightarrow> x \<in> set ?es" using same x k by blast
      assume a: "x \<in> set ?es"
      then obtain y where y: "y \<in> set ?fs" "EntityState_ID y = k" using k x rm by (auto simp: image_iff)
      then have "y \<in> set ?es" using same k by blast
      then have "y = x" using a x y strict_distinct [OF s] by (auto simp: distinct_map inj_on_def)
      then show "x \<in> set ?fs" using y by simp
    qed
  qed
  show ?thesis unfolding entities_tracked_def Let_def nx
  proof (intro conjI st lim allI impI)
    show "\<forall>k\<in>EntityState_ID ` set ?fs \<union> set (removedEntities w'). k \<le> s_nextEntityID (t_session w)"
      using le sub unfolding rm by blast
    show "EntityState_ID ` set (entities_of s0) \<subseteq> EntityState_ID ` set ?fs \<union> set (removedEntities w')"
      using all unfolding rm by blast
    show "EntityState_ID ` set ?fs \<inter> set (removedEntities w') = {}" using sub d unfolding rm by blast
    fix k assume k: "k \<notin> set (changedEntities w')" "k \<notin> set (removedEntities w')" "Dirty_entity k \<notin> A"
    then have "k \<notin> set (changedEntities w)" "k \<notin> set (removedEntities w)" using ch rm by auto
    then show "first_with_id EntityState_ID ?fs k = first_with_id EntityState_ID (entities_of s0) k"
      unfolding fe [OF k(1,2)] using k(3) by (rule old)
  qed
qed

lemma set_remove_at: "distinct xs \<Longrightarrow> i < length xs \<Longrightarrow> set (remove_at i xs) = set xs - {xs ! i}"
  by (induction xs arbitrary: i) (auto simp: remove_at_def nth_Cons split: nat.splits)

lemma sorted_wrt_remove_at: "sorted_wrt P xs \<Longrightarrow> sorted_wrt P (remove_at i xs)"
  by (induction xs arbitrary: i)
    (auto simp: remove_at_def take_Cons drop_Cons split: nat.splits dest: in_set_takeD in_set_dropD)

lemma wp_remove_entity:
  assumes t: "tracked s0 A n w" and i: "find_index (\<lambda>e. EntityState_ID e = k) (entities_of (t_session w)) = Some i"
    and Q: "\<And>w'. tracked s0 A n w' \<Longrightarrow> Q () w'"
  shows "wp (change (with_entities (remove_at i)) \<bind> (\<lambda>_. mark_removed k)) Q w"
proof -
  let ?es = "entities_of (t_session w)"
  let ?w = "w\<lparr>t_session := with_entities (remove_at i) (t_session w),
    changedEntities := remove1 k (changedEntities w), removedEntities := List.insert k (removedEntities w)\<rparr>"
  have i: "i < length ?es" "EntityState_ID (?es ! i) = k" using i by (auto simp: find_index_Some)
  note d = tracked_entities(2) [OF t]
  have m: "map EntityState_ID (remove_at i ?es) = remove_at i (map EntityState_ID ?es)"
    by (simp add: remove_at_def take_map drop_map)
  have ids: "EntityState_ID ` set (remove_at i ?es) = EntityState_ID ` set ?es - {k}"
    using set_remove_at [OF d, of i] i unfolding m [symmetric] by simp
  have "entities_tracked s0 A n ?w"
  proof (rule entities_rewritten)
    show "entities_tracked s0 A n w" using t by (simp add: tracked_def)
    have "strict EntityState_ID (remove_at i ?es)"
      using tracked_entities(1) [OF t] unfolding strict_def m by (rule sorted_wrt_remove_at)
    then show "strict EntityState_ID (entities_of (t_session ?w))" by simp
    show "EntityState_ID ` set (entities_of (t_session ?w)) \<subseteq> EntityState_ID ` set ?es" by (simp add: ids)
    have "k \<in> EntityState_ID ` set ?es" using i by auto
    then show "set (removedEntities ?w) = set (removedEntities w) \<union>
        (EntityState_ID ` set ?es - EntityState_ID ` set (entities_of (t_session ?w)))" by (auto simp: ids)
    show "set (changedEntities w) \<subseteq> set (changedEntities ?w) \<union> set (removedEntities ?w)"
      by (auto simp: in_set_remove1)
    show "x \<in> set ?es" if "x \<in> set (entities_of (t_session ?w))" for x
      using that remove_at_subset [of i ?es] by auto
  qed simp
  then have "tracked s0 A n ?w" by (rule tracked_new_entities [OF t]) (auto simp: frame_with)
  then show ?thesis using Q by (simp add: change_def mark_removed_def wp_State)
qed

section \<open>Rules for indices and loops\<close>

lemma index_players_Some:
  assumes "distinct (map ID ps)"
  shows "index_players ps k = Some i \<longleftrightarrow> i < length ps \<and> ID (ps ! i) = k"
proof -
  let ?z = "zip (map ID ps) [0..<length ps]"
  have "distinct (map fst (rev ?z))" using assms unfolding rev_map [symmetric] by simp
  then show ?thesis
    by (auto simp: index_players_def map_of_eq_Some_iff in_set_zip intro!: exI [of _ i])
qed

lemma tracked_index:
  assumes "tracked s0 A n w" and "playerIndex w k = Some i"
  shows "i < players_count s0" "k = player_id s0 i"
proof -
  have "distinct (map ID (players_of s0))" "playerIndex w = index_players (players_of s0)"
    using assms(1) strict_distinct by (auto simp: tracked_def start_ok_def players_tracked_def)
  then show "i < players_count s0" "k = player_id s0 i" using assms(2) by (auto simp: index_players_Some)
qed

text \<open>A loop whose body gives out at most \<open>c\<close> identifiers.\<close>

lemma wp_for_each:
  assumes "\<And>x m w Q. x \<in> set xs \<Longrightarrow> tracked s0 A (m + c) w \<Longrightarrow> (\<And>w'. tracked s0 A m w' \<Longrightarrow> Q () w') \<Longrightarrow>
      wp (body x) Q w"
    and "tracked s0 A (n + c * length xs) w" and "\<And>w'. tracked s0 A n w' \<Longrightarrow> Q () w'"
  shows "wp (for_each body xs) Q w"
  using assms
proof (induction xs arbitrary: w)
  case Nil
  then show ?case by simp
next
  case (Cons x xs)
  have t: "tracked s0 A ((n + c * length xs) + c) w" using Cons.prems(2) by (simp add: algebra_simps)
  show ?case unfolding for_each.simps wp_bind
    by (rule Cons.prems(1) [OF _ t], simp, rule Cons.IH, rule Cons.prems(1)) (use Cons.prems(3) in auto)
qed

lemma wp_all_players:
  assumes "\<And>i m w Q. i < players_count s0 \<Longrightarrow> tracked s0 A m w \<Longrightarrow> (\<And>w'. tracked s0 A m w' \<Longrightarrow> Q () w') \<Longrightarrow>
      wp (body i) Q w"
    and "tracked s0 A n w" and "\<And>w'. tracked s0 A n w' \<Longrightarrow> Q () w'"
  shows "wp (all_players body) Q w"
  unfolding all_players_def wp_bind wp_asks session_players_def
  by (rule wp_for_each [where c = 0 and A = A]) (use assms tracked_length [OF assms(2)] in auto)

section \<open>Messages that are not blank\<close>

lemma trim_front_keeps:
  "c \<in> set s \<Longrightarrow> \<forall>p \<in> set tab. c \<notin> set p \<Longrightarrow> c \<in> set (trim_front tab s)"
proof (induction tab s rule: trim_front.induct)
  case (1 tab s)
  show ?case
  proof (cases "leading_space tab s")
    case None
    then show ?thesis using 1 by (simp add: trim_front.simps)
  next
    case (Some p)
    then have p: "p \<in> set tab" "take (length p) s = p"
      by (auto simp: leading_space_def HasPrefix_def find_Some_iff)
    then have "c \<in> set (drop (length p) s)" using 1(2,3) by (metis Un_iff append_take_drop_id set_append)
    then show ?thesis using 1(1) [OF Some] 1(3) Some by (simp add: trim_front.simps [of tab s])
  qed
qed

lemma TrimSpace_dot: "CHR ''.'' \<in> set s \<Longrightarrow> TrimSpace s \<noteq> ''''"
proof -
  assume "CHR ''.'' \<in> set s"
  then have "CHR ''.'' \<in> set (trim_front go_spaces s)" by (rule trim_front_keeps) (simp add: go_spaces_def)
  then have "CHR ''.'' \<in> set (trim_front (map rev go_spaces) (rev (trim_front go_spaces s)))"
    by (intro trim_front_keeps) (simp_all add: go_spaces_def)
  then show ?thesis unfolding TrimSpace_def by (metis empty_iff empty_set rev_is_Nil_conv)
qed

lemma wp_edit_feedback:
  assumes "tracked s0 A n w" "i < players_count s0" and "\<And>p. player_step p (f p)"
    and "\<And>p. LastActionFeedback (f p) = LastActionFeedback p"
    and "kind \<noteq> ActionFeedbackKindNone" "CHR ''.'' \<in> set message"
    and "\<And>r w'. tracked s0 (if r then insert (Dirty_player (player_id s0 i)) A else A) n w' \<Longrightarrow> Q r w'"
  shows "wp (edit_player i f \<bind> (\<lambda>_. feedback i kind level message)) Q w"
  unfolding edit_player_def wp_bind
  by (rule wp_on_fresh [OF assms(1,2)], simp add: assms(3), simp add: assms(4),
      rule wp_feedback_fresh [OF _ assms(2,5) TrimSpace_dot [OF assms(6)]], assumption, rule assms(7),
      erule tracked_mono) auto

end
