(* ===== verification/Handlers.thy ===== *)
theory Handlers
  imports Tracking
begin

text \<open>
  The tracking invariant through every command handler. A handler that returns whether the player of
  the command changed is \<open>flagged\<close>: after \<open>True\<close> that player may be changed and not yet entered;
  after \<open>False\<close> nothing is pending. A handler without a result is \<open>silent\<close>: nothing is pending after it.
\<close>

lemma wp_retI [wp_rules]: "Q x w \<Longrightarrow> wp (ret x) Q w"
  by simp

lemma wp_player_atI [wp_rules]: "Q (players_of (t_session w) ! i) w \<Longrightarrow> wp (player_at i) Q w"
  by simp

lemma wp_bindI [wp_rules]: "wp m (\<lambda>r. wp (f r) Q) w \<Longrightarrow> wp (State_Monad.bind m f) Q w"
  by simp

lemma wp_asksI [wp_rules]: "Q (g (t_session w)) w \<Longrightarrow> wp (asks g) Q w"
  by simp

definition dirty_if :: "bool \<Rightarrow> matchSession \<Rightarrow> nat \<Rightarrow> pending set \<Rightarrow> pending set" where
  "dirty_if r s0 i A = (if r then insert (Dirty_player (player_id s0 i)) A else A)"

definition flagged :: "matchSession \<Rightarrow> nat \<Rightarrow> bool step \<Rightarrow> bool" where
  "flagged s0 i m \<longleftrightarrow> (\<forall>A n w. tracked s0 A n w \<longrightarrow> wp m (\<lambda>r. tracked s0 (dirty_if r s0 i A) n) w)"

definition silent :: "matchSession \<Rightarrow> nat \<Rightarrow> unit step \<Rightarrow> bool" where
  "silent s0 c m \<longleftrightarrow> (\<forall>A n w. tracked s0 A (n + c) w \<longrightarrow> wp m (\<lambda>_. tracked s0 A n) w)"

named_theorems handler_laws \<open>handlers that keep the tracking invariant\<close>

lemma flaggedI:
  "(\<And>A n w. tracked s0 A n w \<Longrightarrow> wp m (\<lambda>r. tracked s0 (dirty_if r s0 i A) n) w) \<Longrightarrow> flagged s0 i m"
  by (simp add: flagged_def)

lemma silentI: "(\<And>A n w. tracked s0 A (n + c) w \<Longrightarrow> wp m (\<lambda>_. tracked s0 A n) w) \<Longrightarrow> silent s0 c m"
  by (simp add: silent_def)

lemma wp_flagged:
  "tracked s0 A n w \<Longrightarrow> flagged s0 i m \<Longrightarrow> (\<And>r w'. tracked s0 (dirty_if r s0 i A) n w' \<Longrightarrow> Q r w') \<Longrightarrow> wp m Q w"
  unfolding flagged_def by (blast intro: wp_mono)

lemma wp_silent:
  "tracked s0 A (n + c) w \<Longrightarrow> silent s0 c m \<Longrightarrow> (\<And>w'. tracked s0 A n w' \<Longrightarrow> Q () w') \<Longrightarrow> wp m Q w"
  unfolding silent_def by (rule wp_mono [of m "\<lambda>_. tracked s0 A n"]) auto

lemma tracked_close: "tracked s0 A n w \<Longrightarrow> A \<subseteq> B \<Longrightarrow> tracked s0 B n w"
  by (rule tracked_mono [OF _ _ order_refl])

lemma marking_silent [handler_laws]:
  assumes "i < players_count s0" "flagged s0 i m"
  shows "silent s0 0 (marking (player_id s0 i) m)"
  unfolding marking_def
  by (rule silentI, rule wp_bindI, rule wp_flagged, simp, rule assms(2), rule wp_whenever, rule wp_mark_player, assumption,
      rule refl, rule assms(1))
    (auto simp: dirty_if_def elim: tracked_close)

section \<open>Laws of the functions on one player\<close>

lemma hit_truthful [player_laws]: "truthful (\<lambda>r. AppliedHalf (fst r) \<noteq> 0) (\<lambda>p. hit_player p d)"
  by (simp add: truthful_def hit_step hit_same)

lemma escape_truthful [player_laws]: "truthful fst (tryEscapeRouteLocked s route)"
  by (simp add: truthful_def escape_step escape_same)

lemma night_card_truthful [player_laws]: "truthful fst (\<lambda>p. trySelectNightCardLocked p crd)"
  by (simp add: truthful_def select_night_card_step select_night_card_same)

lemma reward_count: "n + unat k < 256 \<Longrightarrow> unat k \<le> unat (snd (reward_cards n p k)) \<and>
  (snd (reward_cards n p k) = k \<longrightarrow> fst (reward_cards n p k) = p)"
proof (induction n arbitrary: p k)
  case (Suc n)
  have u: "unat (k + 1) = unat k + 1" using Suc.prems by (simp add: unat_plus_if_size word_size)
  show ?case
  proof (cases "AddCard p CardMoney")
    case (Some q)
    have "unat (k + 1) \<le> unat (snd (reward_cards n q (k + 1)))" using Suc.IH [of "k + 1" q] Suc.prems u by simp
    then show ?thesis using Some u by auto
  qed simp
qed simp

lemma reward_truthful [player_laws]: "truthful (\<lambda>added. added \<noteq> 0) (\<lambda>p. reward_cards (unat m) p 0)"
  for m :: uint8
  using reward_count [of "unat m" 0] unat_uint8_less [of m] by (simp add: truthful_def reward_step)

lemma shot_cost_truthful [player_laws]: "truthful (\<lambda>r. r \<noteq> None)
  (\<lambda>p. case ConsumeShotCostAndResolveDamage p weapon golden of None \<Rightarrow> (p, None) | Some (q, d) \<Rightarrow> (q, Some d))"
  unfolding truthful_def
proof (intro allI conjI impI)
  fix p :: PlayerState
  have golden: "RemoveItem p ItemGoldenBullet 1 = Some q \<Longrightarrow> player_step p q" for q
    using RemoveItem_step [of p ItemGoldenBullet 1] by (simp add: attempt_def)
  have "Bullets p \<noteq> 0 \<Longrightarrow> Bullets p - 1 \<le> Bullets p" by (simp add: word_le_nat_alt unat_pred)
  then have round: "Bullets p \<noteq> 0 \<Longrightarrow> player_step p (p\<lparr>Bullets := Bullets p - 1\<rparr>)"
    using order_trans by (fastforce simp: step_defs)
  show "player_step p (fst (case ConsumeShotCostAndResolveDamage p weapon golden of
      None \<Rightarrow> (p, None) | Some (q, d) \<Rightarrow> (q, Some d)))"
    by (simp add: ConsumeShotCostAndResolveDamage_def golden round split: option.split)
qed (simp split: option.splits prod.splits)

declare player_laws [wp_rules] inert_laws [wp_rules] tracked_ID [wp_rules] free_field_steps [wp_rules]

section \<open>Equipment and ammunition\<close>

lemma equip_flagged [handler_laws]:
  assumes i: "i < players_count s0"
  shows "flagged s0 i (applyEquipItemCommandLocked i payload)"
  unfolding applyEquipItemCommandLocked_def
  by (rule flaggedI) (assumption | rule wp_rules i wp_edit_player
      | (erule tracked_close, force simp: dirty_if_def split: if_splits) | (simp; fail))+

lemma reload_flagged [handler_laws]:
  assumes i: "i < players_count s0"
  shows "flagged s0 i (applyReloadCommandLocked i)"
  unfolding applyReloadCommandLocked_def
  by (rule flaggedI) (assumption | rule wp_edit_feedback wp_rules i
      | (erule tracked_close, force simp: dirty_if_def split: if_splits) | (simp; fail))+

lemma restock_silent [handler_laws]:
  assumes i: "i < players_count s0"
  shows "silent s0 0 (restock_player i)"
  unfolding restock_player_def
  by (rule silentI) (simp only: add_0_right | assumption | rule wp_rules i wp_edit_player cap_bullets_step
      | (erule tracked_close, force simp: dirty_if_def split: if_splits) | (simp; fail))+

section \<open>The market and NPC prisoners\<close>

text \<open>A handler that changes no player.\<close>

definition unflagged :: "matchSession \<Rightarrow> 'a step \<Rightarrow> bool" where
  "unflagged s0 m \<longleftrightarrow> (\<forall>A n w. tracked s0 A n w \<longrightarrow> wp m (\<lambda>_. tracked s0 A n) w)"

lemma unflaggedI: "(\<And>A n w. tracked s0 A n w \<Longrightarrow> wp m (\<lambda>_. tracked s0 A n) w) \<Longrightarrow> unflagged s0 m"
  by (simp add: unflagged_def)

lemma wp_unflagged:
  "tracked s0 A n w \<Longrightarrow> unflagged s0 m \<Longrightarrow> (\<And>r w'. tracked s0 A n w' \<Longrightarrow> Q r w') \<Longrightarrow> wp m Q w"
  unfolding unflagged_def by (blast intro: wp_mono)

lemma market_unflagged [handler_laws]: "unflagged s0 (trySetNightlyBlackMarketLocked p room)"
  unfolding trySetNightlyBlackMarketLocked_def
  by (rule unflaggedI) (assumption | rule wp_with_map wp_rules | (simp; fail))+

lemma count_remove_at: "find_index (\<lambda>c. c = crd) xs = Some i \<Longrightarrow>
  Suc (length (filter (\<lambda>c. c = crd) (remove_at i xs))) = length (filter (\<lambda>c. c = crd) xs)"
  by (induction xs arbitrary: i) (auto simp: remove_at_def split: if_splits)

lemma find_index_filter: "filter (\<lambda>c. c = crd) xs \<noteq> [] \<Longrightarrow> \<exists>i. find_index (\<lambda>c. c = crd) xs = Some i"
  by (induction xs) auto

text \<open>Enough cards pay the price.\<close>

lemma consume_enough:
  assumes "IsKnownCard crd"
  shows "n \<le> length (filter (\<lambda>c. c = crd) (Cards p)) \<Longrightarrow> snd (consume_cards n r p crd)"
proof (induction n arbitrary: p r)
  case (Suc n)
  from Suc.prems have "0 < length (filter (\<lambda>c. c = crd) (Cards p))" by linarith
  then have "filter (\<lambda>c. c = crd) (Cards p) \<noteq> []" by (simp only: length_greater_0_conv not_False_eq_True)
  then obtain i where i: "find_index (\<lambda>c. c = crd) (Cards p) = Some i" using find_index_filter [of crd "Cards p"] by blast
  then have "RemoveCard p crd = Some (p\<lparr>Cards := remove_at i (Cards p)\<rparr>)"
    using assms by (auto simp: RemoveCard_Some)
  moreover have "n \<le> length (filter (\<lambda>c. c = crd) (remove_at i (Cards p)))"
    using Suc.prems count_remove_at [OF i] by simp
  ultimately show ?case using Suc.IH by simp
qed simp

lemma purchase_paid:
  assumes "purchase_refusal s p (Some ofr) = None" and "AddItem p item m = Some q"
  shows "snd (consumePlayerCards q CardMoney (MoneyCardCost ofr))"
proof -
  have "Cards q = Cards p" using assms(2) by (auto simp: AddItem_Some_iff)
  moreover have "countPlayerCards p CardMoney \<le> length (filter (\<lambda>c. c = CardMoney) (Cards p))"
    by (simp add: countPlayerCards_def)
  moreover have "\<not> int (countPlayerCards p CardMoney) < uint (MoneyCardCost ofr)"
    using assms(1) unfolding purchase_refusal_def Let_def option.case by (metis option.distinct(1))
  ultimately have "unat (MoneyCardCost ofr) \<le> length (filter (\<lambda>c. c = CardMoney) (Cards q))"
    unfolding unat_eq_nat_uint nat_le_iff by simp
  moreover have "IsKnownCard CardMoney" by (simp add: IsKnownCard_def knownCards_def)
  ultimately show ?thesis using consume_enough by (simp add: consumePlayerCards_def)
qed

lemma wp_change: "wp (change f) Q w = Q () (w\<lparr>t_session := f (t_session w)\<rparr>)"
  by (simp add: change_def wp_State)

lemma purchase_flagged:
  assumes t: "tracked s0 A n w" and i: "i < players_count s0"
    and Q: "\<And>r m l w'. tracked s0 (dirty_if r s0 i A) n w' \<Longrightarrow> Q (r, m, l) w'"
  shows "wp (applyBlackMarketPurchaseLocked i payload) Q w"
proof -
  let ?p = "players_of (t_session w) ! i" and ?f = "BlackMarketOfferForItem (PurchaseItem payload)"
  have l: "i < length (players_of (t_session w))" using i tracked_length [OF t] by simp
  have no: "tracked s0 (dirty_if False s0 i A) n (put_player i ?p w)" "tracked s0 (dirty_if False s0 i A) n w"
    using tracked_put [OF t i] t by (simp_all add: dirty_if_def)
  show ?thesis
  proof (cases "purchase_refusal (t_session w) ?p ?f")
    case None
    then obtain ofr where o: "?f = Some ofr" by (cases ?f) (simp_all add: purchase_refusal_def)
    show ?thesis
    proof (cases "AddItem ?p (OfferItem ofr) (OfferQuantity ofr)")
      case None: None
      then show ?thesis using \<open>purchase_refusal (t_session w) ?p ?f = None\<close> o no
        by (simp add: applyBlackMarketPurchaseLocked_def wp_on_player_eq attempt_def Q)
    next
      case (Some q)
      define q2 where "q2 = fst (consumePlayerCards q CardMoney (MoneyCardCost ofr))"
      have "consumePlayerCards q CardMoney (MoneyCardCost ofr) = (q2, True)"
        using purchase_paid [OF _ Some] None o by (simp add: q2_def prod_eq_iff)
      moreover have st: "player_step ?p q2"
        using AddItem_step [of ?p] consume_step [of q] Some player_step_trans unfolding q2_def attempt_def
        by (metis fst_conv option.case(2))
      have "ID q2 = player_id s0 i" using st tracked_ID [OF t i] by (simp add: player_step_def)
      then have "tracked s0 (insert (Dirty_player (player_id s0 i)) A) n (put_player i q2 w)"
        using st by (intro tracked_put [OF t i]) auto
      then have "wp (on_player i ensureEquippedItemForPlayerLocked \<bind> (\<lambda>_.
          whenever (OfferItem ofr = ItemGoldenBullet) (change (\<lambda>s. s\<lparr>s_blackMarketGoldenBulletSold := True\<rparr>)) \<bind>
          (\<lambda>_. ret (True, m, ActionFeedbackLevelSuccess)))) Q (put_player i q2 w)" for m
        by - (assumption | rule wp_rules i Q | (erule tracked_close, force simp: dirty_if_def split: if_splits))+
      ultimately show ?thesis using None o Some l
        by (simp add: applyBlackMarketPurchaseLocked_def wp_on_player_eq attempt_def with_players_def)
    qed
  next
    case (Some ml)
    moreover obtain m l where "ml = (m, l)" by (cases ml)
    ultimately show ?thesis using no by (simp add: applyBlackMarketPurchaseLocked_def Q)
  qed
qed

lemma put_bribe_unflagged:
  assumes "tracked s0 A n w" "findEntityIndexByID (entities_of (t_session w)) k = Some j"
    and "\<And>w'. tracked s0 A n w' \<Longrightarrow> Q () w'"
  shows "wp (put_bribe j k state) Q w"
  unfolding put_bribe_def wp_bind wp_change [of "\<lambda>s. s\<lparr>s_npcPrisonerBribeState := f s\<rparr>" for f]
proof (rule wp_update_entity)
  show "tracked s0 A n (w\<lparr>t_session := (t_session w)\<lparr>s_npcPrisonerBribeState :=
      (s_npcPrisonerBribeState (t_session w))(k \<mapsto> state)\<rparr>\<rparr>)"
    by (rule tracked_inert [OF assms(1), of "\<lambda>s. s\<lparr>s_npcPrisonerBribeState := (s_npcPrisonerBribeState s)(k \<mapsto> state)\<rparr>"])
      (rule inert_laws)
  show "wp (mark_entity k) Q w'" if "tracked s0 (insert (Dirty_entity k) A) n w'" for w'
    using that by (rule wp_mark_entity) (auto intro!: assms(3) elim: tracked_close)
qed (use findEntity_Some [OF assms(2)] in auto)

text \<open>The rule for a truthful call, with the entities it leaves alone.\<close>

lemma wp_truthful_entities:
  assumes "tracked s0 A n w" "i < players_count s0" and "truthful c f"
    and "\<And>r w'. tracked s0 (if c r then insert (Dirty_player (player_id s0 i)) A else A) n w' \<Longrightarrow>
      entities_of (t_session w') = entities_of (t_session w) \<Longrightarrow> Q r w'"
  shows "wp (on_player i f) Q w"
proof -
  have "wp (on_player i f) (\<lambda>r w'. tracked s0 (if c r then insert (Dirty_player (player_id s0 i)) A else A) n w') w"
    by (rule wp_truthful [OF assms(1,2,3)])
  then show ?thesis using assms(4) by (simp add: wp_on_player_eq)
qed

lemma bribe_flagged:
  assumes t: "tracked s0 A n w" and i: "i < players_count s0"
    and Q: "\<And>r m l w'. tracked s0 (dirty_if r s0 i A) n w' \<Longrightarrow> Q (r, m, l) w'"
  shows "wp (tryBribeNPCPrisonerWithMoneyCardLocked i k) Q w"
proof (cases "bribe_refusal (t_session w) (players_of (t_session w) ! i) k")
  case None
  then obtain j where j: "findEntityIndexByID (entities_of (t_session w)) k = Some j"
    by (auto simp: bribe_refusal_def split: if_splits option.splits)
  show ?thesis
    unfolding tryBribeNPCPrisonerWithMoneyCardLocked_def
    by ((rule wp_bindI wp_asksI wp_player_atI)+, simp only: None option.case j option.sel id_apply Let_def)
      (assumption | rule wp_truthful_entities [OF t i] put_bribe_unflagged [OF t j] put_bribe_unflagged wp_rules Q
        | (simp only: j) | (erule tracked_close, force simp: dirty_if_def split: if_splits)
        | (rule tracked_close [OF t], force simp: dirty_if_def))+
next
  case (Some m)
  then show ?thesis using t by (simp add: tryBribeNPCPrisonerWithMoneyCardLocked_def Q dirty_if_def)
qed

lemma put_task_silent [wp_rules]:
  assumes "tracked s0 A n w" and "\<And>w'. tracked s0 A n w' \<Longrightarrow> Q () w'"
  shows "wp (put_task k task) Q w"
  unfolding put_task_def by (rule wp_inert [OF assms(1)]) (rule inert_laws, rule assms(2))

text \<open>A task that is done rewards the player; every other answer leaves the players alone.\<close>

lemma task_flagged:
  assumes t: "tracked s0 A n w" and i: "i < players_count s0"
    and Q: "\<And>r w'. tracked s0 (case r of None \<Rightarrow> A | Some (c, _, _) \<Rightarrow> dirty_if c s0 i A) n w' \<Longrightarrow> Q r w'"
  shows "wp (tryHandleNPCPrisonerTaskInteractLocked i k) Q w"
  unfolding tryHandleNPCPrisonerTaskInteractLocked_def using t
  by - (assumption | rule wp_rules i | (rule Q, simp add: dirty_if_def; fail)
      | (rule Q, erule tracked_close, force simp: dirty_if_def split: if_splits))+

section \<open>The stash, transfers and dropped items\<close>

lemma attempt_feedback: "LastActionFeedback (fst (attempt p (AddItem p item n))) = LastActionFeedback p"
  "RemoveItem p item n = Some q \<Longrightarrow> LastActionFeedback q = LastActionFeedback p"
  "AddItem p item n = Some q \<Longrightarrow> LastActionFeedback q = LastActionFeedback p"
  by (auto simp: attempt_def AddItem_Some_iff RemoveItem_Some_iff split: option.splits)

lemma ensureEquipped_feedback: "LastActionFeedback (fst (ensureEquippedItemForPlayerLocked p)) = LastActionFeedback p"
  by (simp add: ensureEquippedItemForPlayerLocked_def Let_def)

lemma RemoveItem_SomeD: "RemoveItem p item n = Some q \<Longrightarrow> player_step p q"
  using RemoveItem_step [of p item n] by (simp add: attempt_def)

lemma AddItem_SomeD: "AddItem p item n = Some q \<Longrightarrow> player_step p q"
  using AddItem_step [of p item n] by (simp add: attempt_def)

lemma ensureEquipped_step: "player_step p (fst (ensureEquippedItemForPlayerLocked p))"
  using ensureEquipped_honest by (simp add: honest_def)

lemma stash_deposit_step:
  "player_step p (fst (stash_deposit p stash item n)) \<and>
   LastActionFeedback (fst (stash_deposit p stash item n)) = LastActionFeedback p"
proof (cases "RemoveItem p item n")
  case (Some q)
  note q = RemoveItem_SomeD [OF Some] attempt_feedback(2) [OF Some]
  have "player_step p (fst (attempt q (AddItem q item n)))" "player_step p (fst (ensureEquippedItemForPlayerLocked q))"
    using q(1) AddItem_step ensureEquipped_step player_step_trans by blast+
  then show ?thesis using Some q(2)
    by (simp add: stash_deposit_def attempt_feedback ensureEquipped_feedback split: option.split)
qed (simp add: stash_deposit_def)

lemma stash_withdraw_step:
  "player_step p (fst (stash_withdraw p stash item n)) \<and>
   LastActionFeedback (fst (stash_withdraw p stash item n)) = LastActionFeedback p"
proof (cases "AddItem p item n")
  case (Some q)
  note q = AddItem_SomeD [OF Some] attempt_feedback(3) [OF Some]
  have "player_step p (fst (ensureEquippedItemForPlayerLocked q))"
    using q(1) ensureEquipped_step player_step_trans by blast
  then show ?thesis using Some q(2)
    by (simp add: stash_withdraw_def ensureEquipped_feedback split: option.split)
qed (simp add: stash_withdraw_def split: option.split)

lemma wp_set_cell:
  assumes "tracked s0 A n w" "k < length (Cells (session_map (t_session w)))"
    and "CellState_ID c = CellState_ID (Cells (session_map (t_session w)) ! k)"
    and "\<And>w'. tracked s0 (insert (Dirty_cell (CellState_ID c)) A) n w' \<Longrightarrow> Q () w'"
  shows "wp (change (with_map (\<lambda>m. m\<lparr>Cells := (Cells m)[k := c]\<rparr>))) Q w"
proof -
  let ?A = "insert (Dirty_cell (CellState_ID c)) A"
  have t: "tracked s0 ?A n w" by (rule tracked_mono [OF assms(1)]) auto
  then have m: "kept CellState_ID (=) {k. k \<in> set (changedCells w) \<or> Dirty_cell k \<in> ?A}
      (Cells (session_map s0)) (Cells (session_map (t_session w)))" by (simp add: tracked_def map_tracked_def)
  have k: "k < length (Cells (session_map s0))" using assms(2) kept_length [OF m] by simp
  have "kept CellState_ID (=) {k. k \<in> set (changedCells w) \<or> Dirty_cell k \<in> ?A}
      (Cells (session_map s0)) ((Cells (session_map (t_session w)))[k := c])"
    by (rule kept_update [OF m k]) (use assms(3) kept_key [OF m k] in auto)
  then have "tracked s0 ?A n (w\<lparr>t_session := with_map (\<lambda>m. m\<lparr>Cells := (Cells m)[k := c]\<rparr>) (t_session w)\<rparr>)"
    using t by (simp add: tracked_def players_tracked_def map_tracked_def entities_tracked_def frame_with)
  then show ?thesis using assms(4) by (simp add: wp_change)
qed

lemma tracked_find_player:
  assumes t: "tracked s0 A n w" and i: "i < players_count s0"
    and j: "find_index (\<lambda>p. ID p = player_id s0 i) (players_of (t_session w)) = Some j"
  shows "j = i"
proof -
  have "distinct (map ID (players_of (t_session w)))"
    using t strict_distinct by (auto simp: tracked_def start_ok_def players_tracked_def kept_def)
  moreover have "j < length (players_of (t_session w))" "ID (players_of (t_session w) ! j) = player_id s0 i"
    using j by (auto simp: find_index_Some)
  moreover have "i < length (players_of (t_session w))" "ID (players_of (t_session w) ! i) = player_id s0 i"
    using i tracked_length [OF t] tracked_ID [OF t i] by auto
  ultimately show ?thesis by (metis length_map nth_eq_iff_index_eq nth_map)
qed

lemma wp_transfer_at:
  assumes t: "tracked s0 A n w" and ij: "i < players_count s0" "j < players_count s0" "i \<noteq> j"
    and f: "\<And>a b a' b'. f a b = Some (a', b') \<Longrightarrow> player_step a a' \<and> player_step b b'"
    and Q: "\<And>r w'. tracked s0 (dirty_if r s0 i (dirty_if r s0 j A)) n w' \<Longrightarrow> Q r w'"
  shows "wp (transfer_at i j f) Q w"
proof (cases "f (players_of (t_session w) ! i) (players_of (t_session w) ! j)")
  case None
  then show ?thesis using Q [of False w] t by (simp add: transfer_at_def dirty_if_def)
next
  case (Some ab)
  obtain a b where ab: "ab = (a, b)" by (cases ab)
  have s: "player_step (players_of (t_session w) ! i) a" "player_step (players_of (t_session w) ! j) b"
    using f Some ab by auto
  then have id: "ID a = player_id s0 i" "ID b = player_id s0 j"
    using tracked_ID [OF t ij(1)] tracked_ID [OF t ij(2)] by (auto simp: player_step_def)
  let ?B = "dirty_if True s0 i (dirty_if True s0 j A)"
  have a: "tracked s0 ?B n (put_player i a w)" using s id by (intro tracked_put [OF t ij(1)]) (auto simp: dirty_if_def)
  have "tracked s0 ?B n (put_player j b (put_player i a w))"
    using s id ij by (intro tracked_put [OF a ij(2)]) (auto simp: dirty_if_def)
  from Q [OF this] show ?thesis using Some ab
    by (simp add: transfer_at_def set_player_def wp_change)
qed

text \<open>The stash: a success changes the owner and the cell, a refusal may leave a fresh player.\<close>

lemma stash_refusal_None:
  assumes "stash_refusal s p payload = None"
  shows "AssignedCell p \<noteq> 0"
    "\<exists>k. find_index (\<lambda>c. CellState_ID c = AssignedCell p) (Cells (session_map s)) = Some k"
    "\<exists>j. find_index (\<lambda>q. ID q = ID p) (session_players s) = Some j"
  using assms by (auto simp: stash_refusal_def Let_def split: if_splits option.splits)

lemma stash_refusal_dot: "stash_refusal s p payload = Some m \<Longrightarrow> CHR ''.'' \<in> set m"
  by (auto simp: stash_refusal_def Let_def split: if_splits option.splits)

lemma stash_message_dot:
  "snd (stash_deposit p stash item n) = Inl m \<Longrightarrow> CHR ''.'' \<in> set m"
  "snd (stash_withdraw p stash item n) = Inl m \<Longrightarrow> CHR ''.'' \<in> set m"
  by (auto simp: stash_deposit_def stash_withdraw_def split: option.splits)

definition stash_pending :: "CellID \<Rightarrow> matchSession \<Rightarrow> nat \<Rightarrow> pending set \<Rightarrow> pending set" where
  "stash_pending k s0 i A = insert (Fresh_player (player_id s0 i)) (if k = 0 then A else insert (Dirty_cell k) A)"

lemma stash_interact:
  assumes t: "tracked s0 A n w" and i: "i < players_count s0"
    and Q: "\<And>r m l k w'. tracked s0 (stash_pending k s0 i A) n w' \<Longrightarrow> CHR ''.'' \<in> set m \<Longrightarrow> Q (r, m, l, k) w'"
  shows "wp (applyCellStashInteractLocked (players_of (t_session w) ! i) payload) Q w"
proof (cases "stash_refusal (t_session w) (players_of (t_session w) ! i) payload")
  case (Some m)
  have "tracked s0 (stash_pending 0 s0 i A) n w" by (rule tracked_close [OF t]) (auto simp: stash_pending_def)
  then show ?thesis using Some Q stash_refusal_dot [OF Some] by (simp add: applyCellStashInteractLocked_def)
next
  case None
  let ?p = "players_of (t_session w) ! i" and ?m = "session_map (t_session w)"
  let ?amount = "if StashAmount payload = 0 then 1 else StashAmount payload"
  obtain k where k: "find_index (\<lambda>c. CellState_ID c = AssignedCell ?p) (Cells ?m) = Some k"
    using stash_refusal_None(2) [OF None] by blast
  then have kc: "k < length (Cells ?m)" "CellState_ID (Cells ?m ! k) = AssignedCell ?p" by (auto simp: find_index_Some)
  obtain j where j: "find_index (\<lambda>q. ID q = ID ?p) (players_of (t_session w)) = Some j"
    using stash_refusal_None(3) [OF None] by (auto simp: session_players_def)
  then have ji: "j = i" using tracked_find_player [OF t i] tracked_ID [OF t i] by simp
  define f where "f = (\<lambda>p. if ToLower (TrimSpace (StashAction payload)) = ''deposit''
    then stash_deposit p (Stash (Cells ?m ! k)) (StashItem payload) ?amount
    else stash_withdraw p (Stash (Cells ?m ! k)) (StashItem payload) ?amount)"
  have f: "player_step p (fst (f p))" "LastActionFeedback (fst (f p)) = LastActionFeedback p" for p
    by (simp_all add: f_def stash_deposit_step stash_withdraw_step)
  have dot: "snd (f ?p) = Inl m \<Longrightarrow> CHR ''.'' \<in> set m" for m
    by (simp add: f_def stash_message_dot split: if_splits)
  let ?w = "put_player i (fst (f ?p)) w"
  have fresh: "tracked s0 (stash_pending 0 s0 i A) n ?w"
    using tracked_put [OF t i _ f(1)] f tracked_ID [OF t i] by (auto simp: stash_pending_def player_step_def)
  show ?thesis
  proof (cases "snd (f ?p)")
    case (Inl m)
    then show ?thesis using None k j ji Q [OF fresh dot]
      by (simp add: applyCellStashInteractLocked_def session_players_def wp_on_player_eq Let_def flip: f_def)
  next
    case (Inr stash)
    let ?c = "(Cells ?m ! k)\<lparr>Stash := stash\<rparr>"
    have "wp (change (with_map (\<lambda>m. m\<lparr>Cells := (Cells m)[k := ?c]\<rparr>)))
        (\<lambda>_. tracked s0 (stash_pending (AssignedCell ?p) s0 i A) n) ?w"
      using kc stash_refusal_None(1) [OF None]
      by (intro wp_set_cell [OF fresh]) (auto simp: stash_pending_def insert_commute)
    then show ?thesis using None k j ji Inr kc Q
      by (simp add: applyCellStashInteractLocked_def session_players_def wp_on_player_eq wp_change Let_def flip: f_def)
  qed
qed

lemma transfer_between:
  assumes t: "tracked s0 A n w"
    and Q: "\<And>w'. tracked s0 A n w' \<Longrightarrow> Q False w'"
    and Q': "\<And>i j w'. i < players_count s0 \<Longrightarrow> j < players_count s0 \<Longrightarrow> a = player_id s0 i \<Longrightarrow> b = player_id s0 j \<Longrightarrow>
      tracked s0 (dirty_if True s0 i (dirty_if True s0 j A)) n w' \<Longrightarrow> playerIndex w' = playerIndex w \<Longrightarrow>
      playerIndex w a = Some i \<Longrightarrow> playerIndex w b = Some j \<Longrightarrow> Q True w'"
  shows "wp (tryTransferItemBetweenPlayersLocked a b item m) Q w"
proof -
  have pi: "playerIndex w' = playerIndex w" if "tracked s0 B n w'" for B w'
    using t that by (simp add: tracked_def players_tracked_def)
  have go: "wp (transfer_at i j (\<lambda>x y. TransferItem x y item m)) Q w"
    if "playerIndex w a = Some i" "playerIndex w b = Some j" "a \<noteq> b" for i j
  proof (rule wp_transfer_at [OF t])
    note ij = tracked_index [OF t that(1)] tracked_index [OF t that(2)]
    show "i < players_count s0" "j < players_count s0" "i \<noteq> j" using ij that(3) by auto
    show "Q r w'" if "tracked s0 (dirty_if r s0 i (dirty_if r s0 j A)) n w'" for r w'
      using that Q Q' [OF ij(1,3,2,4)] pi [OF that] \<open>playerIndex w a = Some i\<close> \<open>playerIndex w b = Some j\<close>
      by (cases r) (auto simp: dirty_if_def)
  qed (rule TransferItem_steps)
  show ?thesis
    unfolding tryTransferItemBetweenPlayersLocked_def wp_bind wp_index_of
    using Q [OF t] by (auto split: option.split intro!: go)
qed

end
