(* ===== verification/CommandLaws.thy ===== *)
theory CommandLaws
  imports Handlers
begin

text \<open>
  The tracking invariant through the interact, ability, card and fire commands, the passage of time,
  the alarm, and the whole application of the inputs of a tick (\<open>applyInputsToGameStateLocked\<close>).
\<close>

section \<open>Doors, power and dropped items\<close>

lemma wp_remove_then:
  assumes "tracked s0 A n w" "find_index (\<lambda>e. EntityState_ID e = k) (entities_of (t_session w)) = Some j"
    and "\<And>w'. tracked s0 A n w' \<Longrightarrow> wp (f ()) Q w'"
  shows "wp (change (with_entities (remove_at j))) (\<lambda>_. wp (State_Monad.bind (mark_removed k) f) Q) w"
  using wp_remove_entity [OF assms(1,2), of "\<lambda>r. wp (f r) Q"] assms(3) by (simp add: wp_change)

lemma pickup_flagged [handler_laws]:
  assumes i: "i < players_count s0"
  shows "flagged s0 i (tryPickupDroppedEntityLocked i k)"
  unfolding tryPickupDroppedEntityLocked_def Let_def
  by (rule flaggedI) (assumption | rule wp_truthful_entities wp_remove_then wp_rules i | (simp only:; fail)
      | (erule tracked_close, force simp: dirty_if_def split: if_splits))+

lemma wp_switch_power:
  assumes "tracked s0 A n w"
    and "\<And>r w'. tracked s0 (if r then A \<union> range Dirty_door else A) n w' \<Longrightarrow> Q r w'"
  shows "wp (switch_power on) Q w"
proof -
  let ?m = "session_map (t_session w)"
  have k: "map DoorState_ID (Doors (fst (ApplyPowerState ?m on))) = map DoorState_ID (Doors ?m)"
    "Cells (fst (ApplyPowerState ?m on)) = Cells ?m"
    "RestrictedZones (fst (ApplyPowerState ?m on)) = RestrictedZones ?m"
    "\<not> snd (ApplyPowerState ?m on) \<Longrightarrow> fst (ApplyPowerState ?m on) = ?m"
    by (simp_all add: ApplyPowerState_eq powered_def)
  let ?A = "if snd (ApplyPowerState ?m on) then A \<union> range Dirty_door else A"
  have "tracked s0 ?A n (w\<lparr>t_session := with_map (\<lambda>_. fst (ApplyPowerState ?m on)) (t_session w)\<rparr>)"
    using assms(1) tracked_mono [OF assms(1), of ?A n] k
    by (auto simp: tracked_def players_tracked_def map_tracked_def entities_tracked_def frame_with kept_def)
  then show ?thesis using assms(2) by (simp add: switch_power_def wp_change case_prod_beta')
qed

lemma toggle_power_flagged [handler_laws]: "flagged s0 i (tryTogglePowerIfEligibleLocked i)"
  unfolding tryTogglePowerIfEligibleLocked_def
  by (rule flaggedI) (assumption | rule wp_switch_power wp_rules
      | (erule tracked_close, force simp: dirty_if_def split: if_splits))+

lemma toggle_door_unflagged [handler_laws]: "unflagged s0 (tryToggleDoorForPlayerLocked p k)"
  unfolding tryToggleDoorForPlayerLocked_def
  by (rule unflaggedI) (assumption | rule wp_set_door [where c = True] wp_rules
    | (simp add: find_index_Some; fail)
      | (erule tracked_close, force simp: dirty_if_def split: if_splits))+

lemma toggle_cell_unflagged [handler_laws]: "unflagged s0 (tryToggleCellDoorLocked p k)"
  unfolding tryToggleCellDoorLocked_def
  by (rule unflaggedI) (assumption | rule wp_rules | (rule wp_unflagged, assumption, rule toggle_door_unflagged)
      | (erule tracked_close, force simp: dirty_if_def split: if_splits))+

section \<open>The interact command\<close>

text \<open>Rules for calls of handlers, by their laws.\<close>

lemmas wp_calls = wp_flagged [OF _ pickup_flagged] wp_flagged [OF _ toggle_power_flagged]
  wp_unflagged [OF _ toggle_door_unflagged] wp_unflagged [OF _ toggle_cell_unflagged]
  wp_unflagged [OF _ market_unflagged]

lemma interact_power_flagged:
  assumes i: "i < players_count s0"
  shows "flagged s0 i (interact_power i payload)"
  unfolding interact_power_def
  by (rule flaggedI) (assumption | rule wp_calls wp_rules i
      | (erule tracked_close, force simp: dirty_if_def split: if_splits))+

lemma interact_night_card_flagged:
  assumes i: "i < players_count s0"
  shows "flagged s0 i (interact_night_card i payload)"
  unfolding interact_night_card_def
  by (rule flaggedI) (assumption | rule wp_rules i
      | (erule tracked_close, force simp: dirty_if_def split: if_splits))+

lemma interact_stash_flagged:
  assumes i: "i < players_count s0"
  shows "flagged s0 i (interact_stash i payload)"
  unfolding interact_stash_def
proof (rule flaggedI, rule wp_if, simp add: dirty_if_def, (rule wp_bindI wp_player_atI)+)
  fix A n w
  assume t: "tracked s0 A n w"
  have fb: "wp (feedback i ActionFeedbackKindSystem l m \<bind> (\<lambda>told. ret (told \<or> r)))
      (\<lambda>r. tracked s0 (dirty_if r s0 i A) n) w'"
    if "tracked s0 (insert (Fresh_player (player_id s0 i)) A) n w'" "CHR ''.'' \<in> set m" for w' l m r
    by (rule wp_bindI, rule wp_feedback_fresh [OF that(1) i _ TrimSpace_dot [OF that(2)]], simp, rule wp_retI,
        erule tracked_close) (auto simp: dirty_if_def)
  show "wp (applyCellStashInteractLocked (players_of (t_session w) ! i) payload)
      (\<lambda>r. wp (case r of (applied, reason, level, changedCellID) \<Rightarrow>
         whenever (changedCellID \<noteq> 0) (mark_cell changedCellID) \<bind> (\<lambda>_.
           feedback i ActionFeedbackKindSystem level reason \<bind> (\<lambda>told. ret (told \<or> applied))))
       (\<lambda>r. tracked s0 (dirty_if r s0 i A) n)) w"
    by (rule stash_interact [OF t i], simp only: prod.case, rule wp_bindI, rule wp_whenever)
      (rule wp_mark_cell fb | assumption | (erule tracked_close, force simp: stash_pending_def split: if_splits))+
qed

lemma interact_escape_flagged:
  assumes i: "i < players_count s0"
  shows "flagged s0 i (interact_escape i payload)"
  unfolding interact_escape_def
  by (rule flaggedI) (assumption | rule wp_rules i
      | (erule tracked_close, force simp: dirty_if_def split: if_splits))+

lemma interact_room_flagged:
  assumes i: "i < players_count s0"
  shows "flagged s0 i (interact_room i payload)"
  unfolding interact_room_def tryMovePlayerToRoomLocked_def
  by (rule flaggedI) (assumption | rule wp_rules i wp_edit_player
      | (erule tracked_close, force simp: dirty_if_def split: if_splits))+

lemma interact_cell_flagged:
  assumes i: "i < players_count s0"
  shows "flagged s0 i (interact_cell i payload)"
  unfolding interact_cell_def
  by (rule flaggedI) (assumption | rule wp_calls wp_rules i
      | (erule tracked_close, force simp: dirty_if_def split: if_splits))+

lemma interact_door_flagged:
  assumes i: "i < players_count s0"
  shows "flagged s0 i (interact_door i payload)"
  unfolding interact_door_def
  by (rule flaggedI) (assumption | rule wp_calls wp_rules i
      | (erule tracked_close, force simp: dirty_if_def split: if_splits))+

lemma interact_entity_flagged:
  assumes i: "i < players_count s0"
  shows "flagged s0 i (interact_entity i payload)"
  unfolding interact_entity_def
  by (rule flaggedI) (assumption | rule wp_calls task_flagged wp_rules i
      | (erule tracked_close, force simp: dirty_if_def split: if_splits))+

lemma interact_market_flagged:
  assumes i: "i < players_count s0"
  shows "flagged s0 i (interact_market i payload)"
  unfolding interact_market_def
  by (rule flaggedI) (assumption | rule wp_calls wp_rules i
      | (erule tracked_close, force simp: dirty_if_def split: if_splits))+

lemmas interact_laws = interact_power_flagged interact_night_card_flagged interact_stash_flagged
  interact_escape_flagged interact_room_flagged interact_cell_flagged interact_door_flagged
  interact_entity_flagged interact_market_flagged

lemma dirty_if_or: "dirty_if a s0 i (dirty_if b s0 i A) = dirty_if (a \<or> b) s0 i A"
  by (simp add: dirty_if_def)

lemma interact_flagged [handler_laws]:
  assumes i: "i < players_count s0"
  shows "flagged s0 i (applyInteractCommandLocked i payload)"
  unfolding applyInteractCommandLocked_def
  by (rule flaggedI) (assumption | rule wp_bindI wp_retI interact_laws i | (rule wp_flagged, assumption, rule interact_laws)
      | (simp only: dirty_if_or disj_ac; fail))+

section \<open>Abilities\<close>

fun was_applied :: "ability_result \<Rightarrow> bool" where
  "was_applied (Denied reason) = False"
| "was_applied (Applied kind level message) = True"

definition ability_law :: "matchSession \<Rightarrow> nat \<Rightarrow> ability_result step \<Rightarrow> bool" where
  "ability_law s0 i m \<longleftrightarrow> (\<forall>A n w. tracked s0 A n w \<longrightarrow> wp m (\<lambda>r. tracked s0 (dirty_if (was_applied r) s0 i A) n) w)"

lemma ability_lawI:
  "(\<And>A n w. tracked s0 A n w \<Longrightarrow> wp m (\<lambda>r. tracked s0 (dirty_if (was_applied r) s0 i A) n) w) \<Longrightarrow> ability_law s0 i m"
  by (simp add: ability_law_def)

lemma deny_flagged:
  assumes i: "i < players_count s0"
  shows "flagged s0 i (denyAbilityUseLocked i reason)"
  unfolding denyAbilityUseLocked_def
  by (rule flaggedI) (assumption | rule wp_rules i
      | (erule tracked_close, force simp: dirty_if_def split: if_splits))+

lemma wp_target:
  assumes t: "tracked s0 A n w" and i: "i < players_count s0" and "\<And>e. Q (Inl e) w"
    and "\<And>j. j < players_count s0 \<Longrightarrow> j \<noteq> i \<Longrightarrow> Q (Inr j) w"
  shows "wp (ability_target i k missing self elsewhere) Q w"
  unfolding ability_target_def wp_bind wp_player_at wp_index_of
  using assms(3) tracked_index [OF t, of k] tracked_ID [OF t i] by (auto split: option.split intro!: assms(4))

lemma confiscate_step: "player_step p (fst (confiscate ss p seized))"
proof (induction ss arbitrary: p seized)
  case (Cons s ss)
  show ?case
  proof (cases "RemoveItem p (Item s) (Quantity s)")
    case (Some q)
    then show ?thesis using RemoveItem_SomeD [OF Some] Cons.IH player_step_trans by fastforce
  qed (simp add: Cons.IH)
qed simp

lemma confiscate_count: "length seized \<le> length (snd (confiscate ss p seized)) \<and>
  (length (snd (confiscate ss p seized)) = length seized \<longrightarrow> fst (confiscate ss p seized) = p)"
proof (induction ss arbitrary: p seized)
  case (Cons s ss)
  show ?case
  proof (cases "RemoveItem p (Item s) (Quantity s)")
    case (Some q)
    have "length seized + 1 \<le> length (snd (confiscate ss q (seized @ [stack_label s])))"
      using Cons.IH [of "seized @ [stack_label s]" q] by simp
    then show ?thesis using Some by simp
  qed (simp add: Cons.IH)
qed simp

lemma confiscate_truthful [player_laws, wp_rules]:
  "truthful (\<lambda>r. length r > 0) (\<lambda>p. confiscate (ContrabandStacks p) p [])"
  unfolding truthful_def using confiscate_step confiscate_count [of "[]"] by simp

lemma steal_flagged:
  assumes t: "tracked s0 A n w" and ij: "i < players_count s0" "j < players_count s0" "j \<noteq> i"
    and f: "\<And>a b a' b'. f a b = Some (a', b') \<Longrightarrow> player_step a a' \<and> player_step b b'"
    and Q: "\<And>r w'. tracked s0 (dirty_if r s0 i A) n w' \<Longrightarrow> Q r w'"
  shows "wp (steal j i f) Q w"
  unfolding steal_def
  by (rule wp_bindI, rule wp_player_atI, rule wp_bindI, rule wp_transfer_at [OF t ij(2,1,3) f], assumption)
    (assumption | rule wp_rules ij tracked_ID [OF t] Q
      | (erule tracked_close, force simp: dirty_if_def split: if_splits))+

lemma ability_alarm_law:
  assumes i: "i < players_count s0"
  shows "ability_law s0 i (ability_alarm i)"
  unfolding ability_alarm_def
  by (rule ability_lawI) (assumption | rule wp_with_map wp_rules i | (simp; fail)
      | (erule tracked_close, force simp: dirty_if_def split: if_splits))+

lemma ability_search_law:
  assumes i: "i < players_count s0"
  shows "ability_law s0 i (ability_search i payload)"
  unfolding ability_search_def
  by (rule ability_lawI) (assumption | rule wp_target wp_rules i
      | (erule tracked_close, force simp: dirty_if_def split: if_splits) | (simp; fail))+

lemma effect_ability_law:
  assumes i: "i < players_count s0"
  shows "ability_law s0 i (effect_ability i effect ability unavailable label already)"
  unfolding effect_ability_def
  by (rule ability_lawI) (assumption | rule wp_rules i
      | (erule tracked_close, force simp: dirty_if_def split: if_splits))+

lemma ability_camera_law:
  assumes i: "i < players_count s0"
  shows "ability_law s0 i (ability_camera i)"
  unfolding ability_camera_def
  by (rule ability_lawI) (assumption | rule wp_rules i effect_ability_law [OF i, unfolded ability_law_def, rule_format]
      | (erule tracked_close, force simp: dirty_if_def split: if_splits))+

lemma ability_detainer_law:
  assumes i: "i < players_count s0"
  shows "ability_law s0 i (ability_detainer i payload)"
  unfolding ability_detainer_def
  by (rule ability_lawI) (assumption | rule wp_target wp_rules i
      | (erule tracked_close, force simp: dirty_if_def split: if_splits) | (simp; fail))+

lemma ability_pickpocket_law:
  assumes i: "i < players_count s0"
  shows "ability_law s0 i (ability_pickpocket i payload)"
  unfolding ability_pickpocket_def
  by (rule ability_lawI) (assumption | rule wp_target steal_flagged TransferItem_steps wp_rules i
      | (erule tracked_close, force simp: dirty_if_def split: if_splits) | (simp; fail))+

lemma ability_hacker_law: "ability_law s0 i ability_hacker"
  unfolding ability_hacker_def
  by (rule ability_lawI) (assumption | rule wp_switch_power wp_rules
      | (erule tracked_close, force simp: dirty_if_def split: if_splits))+

lemma ability_chameleon_law:
  assumes i: "i < players_count s0"
  shows "ability_law s0 i (ability_chameleon i)"
  unfolding ability_chameleon_def
  by (rule ability_lawI) (assumption | rule wp_rules i
      | (erule tracked_close, force simp: dirty_if_def split: if_splits))+

lemma open_door_same: "\<not> Locked d \<Longrightarrow> Open d \<Longrightarrow> d\<lparr>Locked := False, Open := True\<rparr> = d"
  by (cases d) simp

lemma unlock_room_unflagged: "unflagged s0 (unlockRoomForPrisonersFromDoorLocked door)"
  unfolding unlockRoomForPrisonersFromDoorLocked_def
  by (rule unflaggedI) (assumption | rule wp_rules)+

lemma wp_open_door:
  assumes t: "tracked s0 A n w" and k: "find_index P (Doors (session_map (t_session w))) = Some k"
    and d: "d = Doors (session_map (t_session w)) ! k"
    and "\<And>w'. tracked s0 (if Locked d \<or> \<not> Open d then insert (Dirty_door (DoorState_ID d)) A else A) n w' \<Longrightarrow> Q () w'"
  shows "wp (set_door k (d\<lparr>Locked := False, Open := True\<rparr>)) Q w"
proof (rule wp_set_door [OF t, where c = "Locked d \<or> \<not> Open d"])
  show "Q () w'" if "tracked s0 (if Locked d \<or> \<not> Open d
      then insert (Dirty_door (DoorState_ID (d\<lparr>Locked := False, Open := True\<rparr>))) A else A) n w'" for w'
    using that by (intro assms(4)) (cases "Locked d \<or> \<not> Open d"; simp)
qed (use k d open_door_same in \<open>auto simp: find_index_Some\<close>)

lemma ability_locksmith_law: "ability_law s0 i (ability_locksmith payload)"
  unfolding ability_locksmith_def Let_def
  by (rule ability_lawI) (assumption | rule wp_open_door wp_unflagged [OF _ unlock_room_unflagged] wp_rules refl
    | (erule tracked_close, force simp: dirty_if_def split: if_splits))+

lemma use_ability_law:
  assumes i: "i < players_count s0"
  shows "ability_law s0 i (use_ability i payload)"
  unfolding use_ability_def ability_tracker_def ability_disguise_def
  by (simp add: ability_alarm_law ability_search_law ability_camera_law ability_detainer_law effect_ability_law
      ability_pickpocket_law ability_hacker_law ability_locksmith_law ability_chameleon_law i)
    (simp add: ability_law_def dirty_if_def)

lemma wp_ability:
  "tracked s0 A n w \<Longrightarrow> ability_law s0 i m \<Longrightarrow>
   (\<And>r w'. tracked s0 (dirty_if (was_applied r) s0 i A) n w' \<Longrightarrow> Q r w') \<Longrightarrow> wp m Q w"
  unfolding ability_law_def by (blast intro: wp_mono)

lemma wp_ability_result:
  "(\<And>x. r = Denied x \<Longrightarrow> wp (f x) Q w) \<Longrightarrow> (\<And>x y z. r = Applied x y z \<Longrightarrow> wp (g x y z) Q w) \<Longrightarrow>
   wp (case r of Denied x \<Rightarrow> f x | Applied x y z \<Rightarrow> g x y z) Q w"
  by (cases r) simp_all

lemma ability_flagged [handler_laws]:
  assumes i: "i < players_count s0"
  shows "flagged s0 i (applyAbilityCommandLocked i payload)"
  unfolding applyAbilityCommandLocked_def
  by (rule flaggedI) (assumption | rule wp_flagged [OF _ deny_flagged [OF i]] wp_ability [OF _ use_ability_law [OF i]]
        wp_ability_result wp_rules i
      | (erule tracked_close, force simp: dirty_if_def split: if_splits))+

section \<open>Cards\<close>

lemma put_same [simp]: "put_player i (players_of (t_session w) ! i) w = w"
  by (simp add: with_players_def)

text \<open>A card that does not apply changes nothing at all.\<close>

definition steady :: "bool step \<Rightarrow> bool" where
  "steady m \<longleftrightarrow> (\<forall>w. wp m (\<lambda>r w'. \<not> r \<longrightarrow> w' = w) w)"

lemma steady_on_player: "honest f \<Longrightarrow> steady (on_player i f)"
  by (simp add: steady_def wp_on_player_eq honest_def)

lemma wp_True: "(\<And>r w'. Q r w') \<Longrightarrow> wp m Q w"
  by (simp add: wp_def case_prod_beta')

lemma steady_always: "(\<And>w. wp m (\<lambda>r _. r) w) \<Longrightarrow> steady m"
  unfolding steady_def by (blast intro: wp_mono)

lemma wp_edit_at:
  assumes "tracked s0 A n w" "i < players_count s0"
    and "player_step (players_of (t_session w) ! i) (f (players_of (t_session w) ! i))"
    and "\<And>w'. tracked s0 (insert (Dirty_player (player_id s0 i)) A) n w' \<Longrightarrow> Q () w'"
  shows "wp (edit_player i f) Q w"
  unfolding edit_player_def wp_on_player_eq
  by (simp, rule assms(4), rule tracked_put [OF assms(1,2) _ assms(3)])
    (use assms(3) tracked_ID [OF assms(1,2)] in \<open>auto simp: player_step_def\<close>)

lemma heal_within:
  fixes b m :: uint8
  assumes "b < m"
  defines "h \<equiv> if 2 > m - b then m - b else 2"
  shows "b + h \<le> m" "b + h \<noteq> 0" "h > 0"
proof -
  have s: "unat (m - b) = unat m - unat b" using assms(1) by (simp add: unat_sub)
  have lt: "unat b < unat m" using assms(1) by (simp add: word_less_nat_alt)
  have h: "unat h = min 2 (unat m - unat b)" using s by (auto simp: h_def word_less_nat_alt)
  then have "unat (b + h) = unat b + unat h"
    using lt unat_uint8_less [of m] by (auto simp: unat_plus_if_size word_size)
  then have "unat (b + h) \<le> unat m" "unat (b + h) \<noteq> 0" "unat h \<noteq> 0" using h lt by auto
  then show "b + h \<le> m" "b + h \<noteq> 0" "h > 0"
    by (simp_all only: word_le_nat_alt word_less_nat_alt unat_0 neq0_conv [symmetric]) auto
qed

lemma morphine_honest: "honest card_morphine"
proof (rule honestI)
  fix p :: PlayerState
  let ?m = "MaxHeartsHalfForRole (Role p)"
  have m: "?m \<noteq> 0" by (simp add: MaxHeartsHalfForRole_def loadoutForRole_def split: RoleType.split)
  show "player_step p (fst (card_morphine p))"
    using heal_within [of "HeartsHalf p" ?m] m by (simp add: card_morphine_def Let_def step_defs)
  show "fst (card_morphine p) = p" if "\<not> snd (card_morphine p)"
    using that heal_within(3) [of "HeartsHalf p" ?m] m
    by (cases "HeartsHalf p < ?m") (simp_all add: card_morphine_def Let_def)
qed

lemma morphine_flagged:
  assumes i: "i < players_count s0"
  shows "flagged s0 i (on_player i card_morphine)"
  by (rule flaggedI) (rule wp_truthful [OF _ i honest_truthful [OF morphine_honest]], assumption, simp add: dirty_if_def)

lemma add_bullet_step:
  assumes "Bullets p < (if IsAuthorityPlayer p then authorityAmmoMax else 255)"
  shows "player_step p (p\<lparr>Bullets := Bullets p + 1\<rparr>)"
proof -
  have "Bullets p + 1 \<le> authorityAmmoMax" if "IsAuthorityPlayer p"
    using assms that by (simp add: inc_le)
  then show ?thesis by (simp add: step_defs)
qed

lemma card_bullet_flagged:
  assumes i: "i < players_count s0"
  shows "flagged s0 i (card_bullet i)"
  unfolding card_bullet_def
  by (rule flaggedI) (assumption | rule wp_edit_at wp_rules i | (rule add_bullet_step, simp; fail)
      | (erule tracked_close, force simp: dirty_if_def split: if_splits))+

lemma card_speed_flagged:
  assumes i: "i < players_count s0"
  shows "flagged s0 i (card_speed i)"
  unfolding card_speed_def
  by (rule flaggedI) (assumption | rule wp_rules i
      | (erule tracked_close, force simp: dirty_if_def split: if_splits))+

lemma armor_step: "player_step p (p\<lparr>TempHeartsHalf := 2\<rparr>)"
  by (simp add: step_defs)

lemma card_armor_flagged:
  assumes i: "i < players_count s0"
  shows "flagged s0 i (card_armor i)"
  unfolding card_armor_def
  by (rule flaggedI) (assumption | rule wp_edit_player armor_step wp_rules i
      | (erule tracked_close, force simp: dirty_if_def split: if_splits))+

lemma wp_inert_state:
  assumes "tracked s0 A n w" and "inert f"
    and "\<And>w'. tracked s0 A n w' \<Longrightarrow> s_gameState (t_session w') = s_gameState (t_session w) \<Longrightarrow> Q () w'"
  shows "wp (change f) Q w"
  using assms(3) [OF tracked_inert [OF assms(1,2)]] assms(2) by (simp add: wp_change inert_def)

lemma card_lock_snap_flagged: "flagged s0 i (card_lock_snap payload)"
  unfolding card_lock_snap_def Let_def
  by (rule flaggedI) (assumption | rule wp_inert_state wp_set_door [where c = True] wp_rules
      | (simp add: find_index_Some session_map_def; fail)
      | (erule tracked_close, force simp: dirty_if_def split: if_splits))+

lemma wp_card_target:
  assumes t: "tracked s0 A n w" and i: "i < players_count s0" and "Q None w"
    and "\<And>j. j < players_count s0 \<Longrightarrow> j \<noteq> i \<Longrightarrow> Q (Some j) w"
  shows "wp (card_target i k) Q w"
  unfolding card_target_def wp_bind wp_player_at wp_index_of
  using assms(3) tracked_index [OF t, of k] tracked_ID [OF t i] by (auto split: option.split intro!: assms(4))

lemma card_item_steal_flagged:
  assumes i: "i < players_count s0"
  shows "flagged s0 i (card_item_steal i payload)"
  unfolding card_item_steal_def
  by (rule flaggedI) (assumption | rule wp_card_target steal_flagged wp_rules i
      | (simp add: TransferItem_steps transferFirst_steps split: if_splits; fail)
      | (erule tracked_close, force simp: dirty_if_def split: if_splits))+

lemma card_item_grab_flagged:
  assumes i: "i < players_count s0"
  shows "flagged s0 i (card_item_grab i payload)"
  unfolding card_item_grab_def
  by (rule flaggedI) (assumption | rule wp_card_target steal_flagged TransferItem_steps wp_rules i
      | (erule tracked_close, force simp: dirty_if_def split: if_splits) | (simp; fail))+

lemma card_scrap_flagged:
  assumes i: "i < players_count s0"
  shows "flagged s0 i (card_scrap_bundle i)"
  unfolding card_scrap_bundle_def
  by (rule flaggedI) (assumption | rule wp_rules i
      | (erule tracked_close, force simp: dirty_if_def split: if_splits))+

lemma stop_door_changed:
  "\<not> snd (stop_door k t d) \<Longrightarrow> fst (stop_door k t d) = d" "DoorState_ID (fst (stop_door k t d)) = DoorState_ID d"
  by (auto simp: stop_door_def Let_def split: if_splits)

lemma wp_stop_door:
  assumes t: "tracked s0 A n w" and k: "find_index P (Doors (session_map (t_session w))) = Some k"
    and d: "stop_door p u (Doors (session_map (t_session w)) ! k) = (door, changed)"
    and Q: "\<And>w'. tracked s0 (if changed then insert (Dirty_door (DoorState_ID door)) A else A) n w' \<Longrightarrow> Q () w'"
  shows "wp (set_door k door) Q w"
proof (rule wp_set_door [OF t, where c = changed])
  show "k < length (Doors (session_map (t_session w)))" using k by (simp add: find_index_Some)
  show "DoorState_ID door = DoorState_ID (Doors (session_map (t_session w)) ! k)"
    using stop_door_changed(2) [of p u] d by (metis fst_conv)
  show "changed" if "door \<noteq> Doors (session_map (t_session w)) ! k"
    using that stop_door_changed(1) [of p u] d by (metis fst_conv snd_conv)
qed (rule Q)

lemma card_door_stop_flagged: "flagged s0 i (card_door_stop i payload)"
  unfolding card_door_stop_def Let_def id_def
  by (rule flaggedI) (assumption | rule wp_stop_door wp_rules
      | (erule tracked_close, force simp: dirty_if_def split: if_splits))+

lemma get_out_flagged:
  assumes i: "i < players_count s0"
  shows "flagged s0 i (on_player i card_get_out)"
  by (rule flaggedI) (rule wp_truthful [OF _ i honest_truthful [OF get_out_honest]], assumption, simp add: dirty_if_def)

text \<open>Rules for steadiness: a refusal keeps the state, anything may happen before a success.\<close>

lemma wp_on_steady: "honest f \<Longrightarrow> Q False w \<Longrightarrow> (\<And>w'. Q True w') \<Longrightarrow> wp (on_player i f) Q w"
  unfolding wp_on_player_eq honest_def by (cases "snd (f (players_of (t_session w) ! i))") simp_all

lemma wp_index_ofI: "Q (playerIndex w k) w \<Longrightarrow> wp (index_of k) Q w"
  by simp

lemmas steady_rules = wp_bindI wp_asksI wp_player_atI wp_index_ofI wp_if wp_option wp_sum wp_prod wp_let wp_retI
  wp_whenever wp_on_steady

lemma bribe_steady: "wp (tryBribeNPCPrisonerWithMoneyCardLocked i k) (\<lambda>(r, m, l) w'. \<not> r \<longrightarrow> w' = w) w"
  unfolding tryBribeNPCPrisonerWithMoneyCardLocked_def
  by (rule steady_rules AddItem_honest | (simp; fail) | rule wp_True)+

lemma steal_steady: "wp (steal j i f) (\<lambda>r w'. \<not> r \<longrightarrow> w' = w) w"
  unfolding steal_def transfer_at_def
  by (rule steady_rules | (simp; fail) | rule wp_True)+

lemma cards_steady:
  "steady (card_bullet i)" "steady (card_speed i)" "steady (card_armor i)" "steady (card_lock_snap payload)"
  "steady (card_item_steal i payload)" "steady (card_item_grab i payload)" "steady (card_scrap_bundle i)"
  unfolding steady_def card_bullet_def card_speed_def card_armor_def card_lock_snap_def card_item_steal_def
    card_item_grab_def card_scrap_bundle_def card_target_def
  by (rule allI, (rule steady_rules steal_steady player_laws | (simp; fail) | rule wp_True)+)+

lemma wp_set_door_steady:
  assumes "stop_door p u (Doors (session_map (t_session w)) ! k) = (d, c)"
    and "\<not> c \<Longrightarrow> Q () w" and "\<And>w'. c \<Longrightarrow> Q () w'"
  shows "wp (set_door k d) Q w"
proof (cases c)
  case False
  then have "d = Doors (session_map (t_session w)) ! k" using stop_door_changed(1) [of p u] assms(1) by (metis fst_conv snd_conv)
  then have "w\<lparr>t_session := with_map (\<lambda>m. m\<lparr>Doors := (Doors m)[k := d]\<rparr>) (t_session w)\<rparr> = w"
    by (simp add: with_map_def session_map_def)
  then show ?thesis using assms(2) False by (simp add: set_door_def wp_change)
qed (use assms(3) in \<open>simp add: set_door_def wp_change\<close>)

lemma door_stop_steady: "steady (card_door_stop i payload)"
  unfolding steady_def card_door_stop_def Let_def id_def
  by (rule allI, (rule steady_rules wp_set_door_steady | assumption | (simp; fail) | rule wp_True)+)

text \<open>The card command.\<close>

lemma use_card_flagged:
  assumes t: "tracked s0 A n w" and i: "i < players_count s0"
    and Q: "\<And>r w'. tracked s0 (dirty_if (fst r) s0 i A) n w' \<Longrightarrow> (\<not> fst r \<longrightarrow> w' = w) \<Longrightarrow> Q r w'"
  shows "wp (use_card i payload) Q w"
proof -
  have quiet: "wp (quietly m) Q w" if "flagged s0 i m" "steady m" for m
  proof -
    have "wp m (\<lambda>r w'. tracked s0 (dirty_if r s0 i A) n w' \<and> (\<not> r \<longrightarrow> w' = w)) w"
      using that t by (simp add: flagged_def steady_def wp_def case_prod_beta')
    then show ?thesis unfolding quietly_def wp_bind wp_ret by (rule wp_mono) (auto intro: Q)
  qed
  have bribe: "wp (tryBribeNPCPrisonerWithMoneyCardLocked i k)
      (\<lambda>r w'. tracked s0 (dirty_if (fst r) s0 i A) n w' \<and> (\<not> fst r \<longrightarrow> w' = w)) w" for k
    using bribe_flagged [OF t i, of "\<lambda>r w'. tracked s0 (dirty_if (fst r) s0 i A) n w'" k] bribe_steady [of i k w]
    by (simp add: wp_def case_prod_beta')
  have "flagged s0 i (ret False)" "steady (ret False)" by (simp_all add: flagged_def steady_def dirty_if_def)
  then show ?thesis unfolding use_card_def using i
    by (simp add: quiet morphine_flagged card_bullet_flagged card_speed_flagged card_armor_flagged
        card_lock_snap_flagged card_item_steal_flagged card_item_grab_flagged card_scrap_flagged
        card_door_stop_flagged get_out_flagged cards_steady door_stop_steady steady_on_player
        morphine_honest get_out_honest)
      (auto intro!: wp_mono [OF bribe] Q simp: case_prod_beta')
qed

lemma card_flagged [handler_laws]:
  assumes i: "i < players_count s0"
  shows "flagged s0 i (applyCardCommandLocked i payload)"
proof (rule flaggedI)
  fix A n w
  assume t: "tracked s0 A n w"
  let ?p = "players_of (t_session w) ! i"
  have l: "i < length (players_of (t_session w))" using i tracked_length [OF t] by simp
  show "wp (applyCardCommandLocked i payload) (\<lambda>r. tracked s0 (dirty_if r s0 i A) n) w"
  proof (cases "IsKnownCard (Card payload) \<and> RemoveCard ?p (Card payload) \<noteq> None")
    case False
    then show ?thesis using t by (auto simp: applyCardCommandLocked_def wp_on_player_eq attempt_def dirty_if_def)
  next
    case True
    then obtain q where q: "RemoveCard ?p (Card payload) = Some q" by blast
    let ?w = "put_player i q w"
    have step: "player_step ?p q" using RemoveCard_step [of ?p "Card payload"] q by (simp add: attempt_def)
    then have "ID q = player_id s0 i" using tracked_ID [OF t i] by (simp add: player_step_def)
    then have d: "tracked s0 (insert (Dirty_player (player_id s0 i)) A) n ?w"
      using step by (intro tracked_put [OF t i]) auto
    have undo: "put_player i (fst (attempt q (AddCard q (Card payload)))) ?w = w"
      using card_back [OF q tracked_ok [OF t i]] l by (simp add: attempt_def with_players_def)
    let ?rest = "\<lambda>(applied, kind, level, message). if \<not> applied
      then on_player i (\<lambda>p. attempt p (AddCard p (Card payload))) \<bind> (\<lambda>_. feedback i kind level message \<bind>
        (\<lambda>told. if told then mark_player (ID ?p) \<bind> (\<lambda>_. ret True) else ret False))
      else tell i kind level message \<bind> (\<lambda>_. ret True)"
    have "wp (use_card i payload) (\<lambda>r. wp (?rest r) (\<lambda>r. tracked s0 (dirty_if r s0 i A) n)) ?w"
    proof (rule use_card_flagged [OF d i])
      fix r :: "bool \<times> ActionFeedbackKind \<times> ActionFeedbackLevel \<times> string" and w'
      assume w': "tracked s0 (dirty_if (fst r) s0 i (insert (Dirty_player (player_id s0 i)) A)) n w'"
        and no: "\<not> fst r \<longrightarrow> w' = ?w"
      obtain a k lv m where r: "r = (a, k, lv, m)" by (cases r)
      have fb: "wp (feedback i k lv m \<bind> (\<lambda>told. if told then mark_player (ID ?p) \<bind> (\<lambda>_. ret True) else ret False))
          (\<lambda>r. tracked s0 (dirty_if r s0 i A) n) w"
        using t by - (assumption | rule wp_rules i tracked_ID [OF t]
          | (erule tracked_close, force simp: dirty_if_def split: if_splits))+
      have tl: "wp (tell i k lv m \<bind> (\<lambda>_. ret True)) (\<lambda>r. tracked s0 (dirty_if r s0 i A) n) w'"
        using w' by - (assumption | rule wp_rules i | (erule tracked_close, force simp: dirty_if_def split: if_splits))+
      show "wp (?rest r) (\<lambda>r. tracked s0 (dirty_if r s0 i A) n) w'"
      proof (cases a)
        case False
        then have "w' = ?w" using no r by simp
        then show ?thesis using False fb undo l unfolding r by (simp add: wp_on_player_eq)
      qed (use tl r in simp)
    qed
    then show ?thesis using True q unfolding applyCardCommandLocked_def by (simp add: wp_on_player_eq attempt_def)
  qed
qed

end
