(* ===== verification/TickLaws.thy ===== *)
theory TickLaws
  imports CommandLaws
begin

text \<open>
  The tracking invariant through shots, projectiles, guards, timed states and succession, and through
  the application of all inputs of a tick.
\<close>

section \<open>New entities\<close>

lemma wp_append:
  assumes t: "tracked s0 A (Suc n) w" and e: "EntityState_ID e = s_nextEntityID (t_session w) + 1" and f: "inert f"
    and Q: "\<And>w'. tracked s0 A n w' \<Longrightarrow> Q () w'"
  shows "wp (mark_entity (EntityState_ID e)) Q (w\<lparr>t_session := with_entities (\<lambda>es. es @ [e])
    (f (t_session w\<lparr>s_nextEntityID := s_nextEntityID (t_session w) + 1\<rparr>))\<rparr>)"
  by (rule wp_mark_entity [OF tracked_append [OF t e f]]) (auto intro!: Q elim: tracked_close)

lemma spawn_law:
  assumes t: "tracked s0 A (Suc n) w" and Q: "\<And>w'. tracked s0 A n w' \<Longrightarrow> Q () w'"
  shows "wp (spawnProjectileEntityLocked shooter x y) Q w"
proof -
  obtain ux uy where u: "projectile_unit shooter x y = (ux, uy)" by (cases "projectile_unit shooter x y")
  let ?k = "s_nextEntityID (t_session w) + 1"
  define e where "e = \<lparr>EntityState_ID = ?k, Kind = EntityKindProjectile, EntityOwnerPlayerID = ID shooter,
       EntityPosition = \<lparr>X = f_add (X (Position shooter)) (f_mul ux 0x3ECCCCCD),
                         Y = f_add (Y (Position shooter)) (f_mul uy 0x3ECCCCCD)\<rparr>,
       EntityVelocity = \<lparr>X = f_mul ux 0x3FE66666, Y = f_mul uy 0x3FE66666\<rparr>,
       EntityHeartsHalf = 0, EntityActive = True, EntityRoomID = CurrentRoomID shooter, Tags = []\<rparr>"
  define f where "f = (\<lambda>s :: matchSession. let lifetimeTicks = (ucast (maxTickRate (s_tickRateHz s) div 5) :: uint64);
           lifetimeTicks = (if lifetimeTicks = 0 then 1 else lifetimeTicks)
       in s\<lparr>s_projectileExpireTick := AList.update ?k (s_tickID s + lifetimeTicks) (s_projectileExpireTick s)\<rparr>)"
  have "EntityState_ID e = ?k" "inert f" by (simp_all add: e_def f_def inert_def Let_def)
  from wp_append [where Q = Q, OF t this] show ?thesis using Q
    by (simp add: spawnProjectileEntityLocked_def new_entity_id_def wp_change u Let_def e_def f_def cong: if_cong split del: if_split)
qed

lemma spawn_if:
  assumes t: "tracked s0 A (Suc n) w" and Q: "\<And>w'. tracked s0 A n w' \<Longrightarrow> Q () w'"
  shows "wp (whenever b (spawnProjectileEntityLocked shooter x y)) Q w"
  using t by - (rule wp_whenever, rule spawn_law, assumption, rule Q, assumption, rule Q, erule tracked_mono, auto)

section \<open>Shots\<close>

lemma wp_occupied:
  "(\<And>occ. Q occ w) \<Longrightarrow> wp (State (\<lambda>w. (occupiedTiles w, w))) Q w"
  by (simp add: wp_State)

lemma wp_set_occupied:
  assumes "tracked s0 A n w" and "\<And>w'. tracked s0 A n w' \<Longrightarrow> t_session w' = t_session w \<Longrightarrow> Q () w'"
  shows "wp (State (\<lambda>w. ((), w\<lparr>occupiedTiles := f w\<rparr>))) Q w"
proof -
  have "tracked s0 A n (w\<lparr>occupiedTiles := f w\<rparr>)"
    using assms(1) by (simp add: tracked_def players_tracked_def map_tracked_def entities_tracked_def Let_def)
  then show ?thesis using assms(2) by (simp add: wp_State)
qed

lemma wp_set_player:
  assumes "tracked s0 A n w" "i < players_count s0" and "player_step (players_of (t_session w) ! i) q"
    and "\<And>w'. tracked s0 (insert (Dirty_player (player_id s0 i)) A) n w' \<Longrightarrow> Q () w'"
  shows "wp (set_player i q) Q w"
proof -
  have "tracked s0 (insert (Dirty_player (player_id s0 i)) A) n (put_player i q w)"
    by (rule tracked_put [OF assms(1,2) _ assms(3)])
      (use assms(3) tracked_ID [OF assms(1,2)] in \<open>auto simp: player_step_def\<close>)
  then show ?thesis using assms(4) by (simp add: set_player_def wp_change)
qed

lemma knockback_step: "player_step p (fst (ApplyKnockback p impulse layout m occ t d))"
  by (simp add: ApplyKnockback_def Let_def case_prod_beta' step_defs)

lemma knocked_step:
  assumes "x = ApplyKnockback (players_of (t_session w) ! j) imp lay m occ u d" "x = (q, y)"
    and "t_session w' = t_session w" "q' = (case r of None \<Rightarrow> q | Some room \<Rightarrow> q\<lparr>CurrentRoomID := room\<rparr>)"
  shows "player_step (players_of (t_session w') ! j) q'"
proof -
  have "player_step (players_of (t_session w) ! j) q" using knockback_step assms(1,2) by (metis fst_conv)
  then show ?thesis using player_step_trans by (auto simp: assms(3,4) split: option.split)
qed

lemma fire_baton_law:
  assumes ij: "i < players_count s0" "j < players_count s0"
    and t: "tracked s0 A n w" and Q: "\<And>w'. tracked s0 A n w' \<Longrightarrow> Q () w'"
  shows "wp (fire_baton i j shooterLabel targetLabel) Q w"
  unfolding fire_baton_def using t
  by - (assumption | rule wp_occupied wp_set_occupied wp_set_player knocked_step wp_rules ij tracked_ID [OF t] Q
      | (erule tracked_close, force))+


lemma fire_penalty_law:
  assumes i: "i < players_count s0" and t: "tracked s0 A n w" and Q: "\<And>w'. tracked s0 A n w' \<Longrightarrow> Q () w'"
  shows "wp (fire_penalty i weapon before) Q w"
  unfolding fire_penalty_def using t
  by - (assumption | rule wp_rules i Q | (erule tracked_close, force split: if_splits))+

lemma fire_damage_law:
  assumes ij: "i < players_count s0" "j < players_count s0"
    and t: "tracked s0 A n w" and Q: "\<And>w'. tracked s0 A n w' \<Longrightarrow> Q () w'"
  shows "wp (fire_damage i j weapon d shooterLabel targetLabel) Q w"
  unfolding fire_damage_def using t
  by - (assumption | rule fire_penalty_law [OF ij(1)] wp_rules ij Q | (erule tracked_close, force split: if_splits))+

text \<open>A shot gives out at most one identifier.\<close>

lemma fire_at_law:
  assumes ij: "i < players_count s0" "j < players_count s0"
    and t: "tracked s0 A (Suc n) w" and Q: "\<And>r w'. tracked s0 A n w' \<Longrightarrow> Q r w'"
  shows "wp (fire_at i j weapon payload) Q w"
  unfolding fire_at_def using t
  by - (assumption | rule spawn_if fire_baton_law [OF ij] fire_damage_law [OF ij] wp_rules ij tracked_ID [OF t]
      | (rule Q, assumption) | (rule Q, erule tracked_mono, force split: if_splits, simp)
      | (erule tracked_mono, force split: if_splits, simp))+

lemma wp_index_case:
  assumes t: "tracked s0 A n w" and "wp m Q w"
    and "\<And>j. j < players_count s0 \<Longrightarrow> k = player_id s0 j \<Longrightarrow> wp (f j) Q w"
  shows "wp (index_of k) (\<lambda>r. wp (case r of None \<Rightarrow> m | Some x \<Rightarrow> f x) Q) w"
  using assms(2,3) tracked_index [OF t, of k] by (simp split: option.split)

lemma fire_with_law:
  assumes i: "i < players_count s0"
    and t: "tracked s0 A (Suc n) w" and Q: "\<And>r w'. tracked s0 A n w' \<Longrightarrow> Q r w'"
  shows "wp (fire_with i k weapon payload) Q w"
  unfolding fire_with_def using t
  by - (assumption | rule wp_index_case fire_at_law [OF i] wp_edit_player wp_rules i tracked_ID [OF t]
      | (rule Q, assumption) | (rule Q, erule tracked_mono, force split: if_splits, simp)
      | (erule tracked_mono, force split: if_splits, simp))+

lemma fire_law:
  assumes t: "tracked s0 A (Suc n) w" and Q: "\<And>r w'. tracked s0 A n w' \<Longrightarrow> Q r w'"
  shows "wp (applyFireWeaponCommandLocked k payload) Q w"
  unfolding applyFireWeaponCommandLocked_def using t
  by - (assumption | rule wp_index_case fire_with_law wp_rules
      | (rule Q, assumption) | (rule Q, erule tracked_mono, force split: if_splits, simp))+

section \<open>Other commands\<close>

lemma break_chameleon_law:
  assumes i: "i < players_count s0" and t: "tracked s0 A n w" and Q: "\<And>w'. tracked s0 A n w' \<Longrightarrow> Q () w'"
  shows "wp (break_chameleon i (player_id s0 i)) Q w"
  unfolding break_chameleon_def using t
  by - (assumption | rule wp_rules i refl Q | (erule tracked_close, force split: if_splits))+

lemma purchase_law:
  assumes i: "i < players_count s0" and t: "tracked s0 A n w" and Q: "\<And>w'. tracked s0 A n w' \<Longrightarrow> Q () w'"
  shows "wp (cmd_purchase i (player_id s0 i) payload) Q w"
  unfolding cmd_purchase_def using t
  by - (assumption | rule purchase_flagged wp_rules i refl Q | (erule tracked_close, force simp: dirty_if_def split: if_splits))+

lemma craft_law:
  assumes i: "i < players_count s0" and t: "tracked s0 A n w" and Q: "\<And>w'. tracked s0 A n w' \<Longrightarrow> Q () w'"
  shows "wp (cmd_craft i (player_id s0 i) payload) Q w"
  unfolding cmd_craft_def using t
  by - (assumption | rule wp_rules i refl Q | (erule tracked_close, force split: if_splits))+

lemma use_item_law:
  assumes t: "tracked s0 A n w" and Q: "\<And>w'. tracked s0 A n w' \<Longrightarrow> Q () w'"
  shows "wp (cmd_use_item k payload) Q w"
  unfolding cmd_use_item_def
proof (rule wp_let, rule wp_if, simp add: Q t, rule wp_bindI, rule transfer_between [OF t])
  fix amount i j w'
  assume ij: "i < players_count s0" "j < players_count s0" "k = player_id s0 i" "ItemTargetPlayerID payload = player_id s0 j"
    and t': "tracked s0 (dirty_if True s0 i (dirty_if True s0 j A)) n w'" and p: "playerIndex w' = playerIndex w"
    and pi: "playerIndex w k = Some i" "playerIndex w (ItemTargetPlayerID payload) = Some j"
  let ?again = "on_player i ensureEquippedItemForPlayerLocked \<bind> (\<lambda>c. whenever c (mark_player k) \<bind> (\<lambda>_.
    on_player j ensureEquippedItemForPlayerLocked \<bind> (\<lambda>c. whenever c (mark_player (ItemTargetPlayerID payload)) \<bind> (\<lambda>_.
    mark_player k \<bind> (\<lambda>_. mark_player (ItemTargetPlayerID payload))))))"
  have "wp ?again Q w'" using t'
    by - (assumption | rule wp_rules ij Q | (erule tracked_close, force simp: dirty_if_def split: if_splits))+
  then show "wp (whenever True (index_of k \<bind> (\<lambda>source. index_of (ItemTargetPlayerID payload) \<bind> (\<lambda>dest.
      on_player (the source) ensureEquippedItemForPlayerLocked \<bind> (\<lambda>c. whenever c (mark_player k) \<bind> (\<lambda>_.
      on_player (the dest) ensureEquippedItemForPlayerLocked \<bind> (\<lambda>c. whenever c (mark_player (ItemTargetPlayerID payload)) \<bind> (\<lambda>_.
      mark_player k \<bind> (\<lambda>_. mark_player (ItemTargetPlayerID payload))))))))))  Q w'"
    by (simp add: whenever_def p pi)
qed (simp add: whenever_def Q)

lemma wp_set_player_if:
  assumes "tracked s0 A n w" "i < players_count s0" and "player_step (players_of (t_session w) ! i) q"
    and "\<not> c \<Longrightarrow> same_player (players_of (t_session w) ! i) q"
    and "\<And>w'. tracked s0 (dirty_if c s0 i A) n w' \<Longrightarrow> Q () w'"
  shows "wp (set_player i q) Q w"
proof -
  have "tracked s0 (dirty_if c s0 i A) n (put_player i q w)"
    by (rule tracked_put [OF assms(1,2) _ assms(3)])
      (use assms(3,4) tracked_ID [OF assms(1,2)] same_player_feedback in \<open>auto simp: player_step_def dirty_if_def split: if_splits\<close>)
  then show ?thesis using assms(5) by (simp add: set_player_def wp_change)
qed

lemma vec_eq_same: "vec_eq u v \<Longrightarrow> same_vec v u"
  by (auto simp: vec_eq_def same_vec_def same_num_def f_eq_rank)

text \<open>A move that the code does not report changes at most the sign of a zero.\<close>

definition moved :: "PlayerState \<Rightarrow> Vector2 \<Rightarrow> Vector2 \<Rightarrow> RoomID option \<Rightarrow> PlayerState" where
  "moved p u v r = (case r of None \<Rightarrow> p\<lparr>Position := u, Velocity := v\<rparr>
     | Some room \<Rightarrow> p\<lparr>Position := u, Velocity := v, CurrentRoomID := room\<rparr>)"

lemma moved_step: "player_step p (moved p u v r)"
  by (simp add: moved_def step_defs split: option.split)

lemma moved_same:
  assumes "vec_eq (Position (moved p u v r)) (Position p)" "vec_eq (Velocity (moved p u v r)) (Velocity p)"
    and "CurrentRoomID (moved p u v r) = CurrentRoomID p"
  shows "same_player p (moved p u v r)"
proof -
  have "moved p u v r = p\<lparr>Position := u, Velocity := v\<rparr>" using assms(3) by (cases r) (auto simp: moved_def)
  then show ?thesis using assms(1,2) by (simp add: same_playerI vec_eq_same)
qed

lemma moved_eq:
  "q = p\<lparr>Position := u, Velocity := v\<rparr> \<Longrightarrow> q' = (case r of None \<Rightarrow> q | Some x \<Rightarrow> q\<lparr>CurrentRoomID := x\<rparr>) \<Longrightarrow>
   q' = moved p u v r"
  by (cases r) (simp_all add: moved_def)

lemma wp_walk:
  assumes t: "tracked s0 A n w" and i: "i < players_count s0" and q: "q = moved p u v r"
    and p: "p = players_of (t_session w) ! i" and Q: "\<And>w'. tracked s0 A n w' \<Longrightarrow> Q () w'"
  shows "wp (set_player i q) (\<lambda>_. wp (whenever (\<not> vec_eq (Position q) (Position p) \<or>
    \<not> vec_eq (Velocity q) (Velocity p) \<or> CurrentRoomID q \<noteq> CurrentRoomID p) (mark_player (player_id s0 i))) Q) w"
    (is "wp _ (\<lambda>_. wp (whenever ?c _) Q) w")
proof (rule wp_set_player_if [OF t i, where c = ?c])
  show "player_step (players_of (t_session w) ! i) q" by (simp add: q p moved_step)
  show "same_player (players_of (t_session w) ! i) q" if "\<not> ?c" using that moved_same by (simp add: q p)
  show "wp (whenever ?c (mark_player (player_id s0 i))) Q w'" if "tracked s0 (dirty_if ?c s0 i A) n w'" for w'
  proof (rule wp_whenever)
    show "wp (mark_player (player_id s0 i)) Q w'" if ?c
      by (rule wp_mark_player [OF \<open>tracked s0 (dirty_if ?c s0 i A) n w'\<close> refl i])
        (rule Q, erule tracked_close, auto simp: dirty_if_def split: if_splits)
  qed (use that Q in \<open>simp add: dirty_if_def\<close>)
qed

lemma move_law:
  assumes i: "i < players_count s0" and t: "tracked s0 A n w" and Q: "\<And>w'. tracked s0 A n w' \<Longrightarrow> Q () w'"
  shows "wp (cmd_move i (player_id s0 i) payload) Q w"
  unfolding cmd_move_def using t
  by - (assumption | rule wp_occupied wp_set_occupied wp_walk moved_eq break_chameleon_law wp_edit_player wp_rules i refl Q
    | (simp; fail) | (erule tracked_close, force split: if_splits))+

lemma wp_new_dropped:
  assumes t: "tracked s0 A (Suc n) w"
    and Q: "\<And>e w'. tracked s0 (insert (Dirty_entity (EntityState_ID e)) A) n w' \<Longrightarrow> wp (f e ()) Q w'"
  shows "wp (newDroppedItemEntityLocked p item m)
    (\<lambda>e. wp (State_Monad.bind (change (with_entities (\<lambda>es. es @ [e]))) (f e)) Q) w"
proof -
  let ?k = "s_nextEntityID (t_session w) + 1"
  define e where "e = \<lparr>EntityState_ID = ?k, Kind = EntityKindDroppedItem, EntityOwnerPlayerID = ID p,
          EntityPosition = Position p, EntityVelocity = zero_vector, EntityHeartsHalf = 0,
          EntityActive = True, EntityRoomID = CurrentRoomID p, Tags = BuildDroppedItemTags item m\<rparr>"
  have e: "EntityState_ID e = ?k" and f: "inert (\<lambda>s. s)" by (simp_all add: e_def inert_def)
  from Q [OF tracked_append [OF t e f]] show ?thesis
    by (simp add: newDroppedItemEntityLocked_def new_entity_id_def wp_change e_def)
qed

lemma drop_law:
  assumes i: "i < players_count s0" and t: "tracked s0 A (Suc n) w" and Q: "\<And>w'. tracked s0 A n w' \<Longrightarrow> Q () w'"
  shows "wp (cmd_drop i (player_id s0 i) payload) Q w"
  unfolding cmd_drop_def using t
  by - (assumption | rule wp_new_dropped wp_rules i refl Q
    | (erule tracked_mono, force split: if_splits, simp))+

lemma decoded_law:
  assumes t: "tracked s0 A (Suc n) w" and Q: "\<And>w'. tracked s0 A n w' \<Longrightarrow> Q () w'"
    and "\<And>payload. wp (f payload) Q w"
  shows "wp (decoded r f) Q w"
  using assms(3) Q tracked_mono [OF t, of A n] by (simp add: decoded_def split: option.split)

lemma marking_law:
  assumes "tracked s0 A (Suc n) w" "i < players_count s0" "flagged s0 i m" and Q: "\<And>w'. tracked s0 A n w' \<Longrightarrow> Q () w'"
  shows "wp (marking (player_id s0 i) m) Q w"
  by (rule wp_silent [where c = 0 and n = n, OF _ marking_silent [OF assms(2,3)]], rule tracked_mono [OF assms(1)]) (auto intro: Q)

lemma aim_law:
  assumes i: "i < players_count s0" and t: "tracked s0 A (Suc n) w" and Q: "\<And>w'. tracked s0 A n w' \<Longrightarrow> Q () w'"
  shows "wp (edit_player i (\<lambda>p. p\<lparr>Facing := v\<rparr>) \<bind> (\<lambda>_. mark_player (player_id s0 i))) Q w"
  using t by - (assumption | rule wp_edit_player wp_rules i refl Q | (erule tracked_mono, force split: if_splits, simp))+

text \<open>Every command, for the player it names.\<close>

lemma dispatch_law:
  assumes i: "i < players_count s0" and k: "CmdPlayerID command = player_id s0 i"
    and t: "tracked s0 A (Suc n) w" and Q: "\<And>w'. tracked s0 A n w' \<Longrightarrow> Q () w'"
  shows "wp (dispatch dec i command) Q w"
proof -
  have n: "tracked s0 A n w" by (rule tracked_mono [OF t]) auto
  show ?thesis unfolding dispatch_def Let_def k
    by (intro wp_if decoded_law [OF t] marking_law [OF t i] aim_law [OF i t] move_law [OF i n]
        purchase_law [OF i n] craft_law [OF i n] use_item_law [OF n] drop_law [OF i t]
        reload_flagged equip_flagged interact_flagged ability_flagged card_flagged i)
      (auto intro!: Q n wp_bindI fire_law [OF t])
qed

lemma apply_command_law:
  assumes t: "tracked s0 A (Suc n) w" and Q: "\<And>w'. tracked s0 A n w' \<Longrightarrow> Q () w'"
  shows "wp (apply_command dec command) Q w"
  unfolding apply_command_def using t
  by - (assumption | rule wp_index_case dispatch_law wp_rules Q | (erule tracked_mono, force, simp))+

section \<open>Projectiles\<close>

text \<open>What one pass over the entities does to them and to the marks.\<close>

definition same_rest :: "tick_state \<Rightarrow> tick_state \<Rightarrow> bool" where
  "same_rest w w' \<longleftrightarrow> s_gameState (t_session w') = s_gameState (t_session w) \<and>
     s_tickID (t_session w') = s_tickID (t_session w) \<and> s_matchID (t_session w') = s_matchID (t_session w) \<and>
     s_status (t_session w') = s_status (t_session w) \<and> s_players (t_session w') = s_players (t_session w) \<and>
     s_snapshotHistory (t_session w') = s_snapshotHistory (t_session w) \<and>
     s_nextEntityID (t_session w') = s_nextEntityID (t_session w) \<and> changedPlayers w' = changedPlayers w \<and>
     changedDoors w' = changedDoors w \<and> changedCells w' = changedCells w \<and> playerIndex w' = playerIndex w"

definition flown :: "EntityState list \<Rightarrow> EntityState list \<Rightarrow> tick_state \<Rightarrow> tick_state \<Rightarrow> bool" where
  "flown es fs w w' \<longleftrightarrow> (\<exists>K. map EntityState_ID fs = filter K (map EntityState_ID es)) \<and>
     set (removedEntities w') = set (removedEntities w) \<union> (EntityState_ID ` set es - EntityState_ID ` set fs) \<and>
     set (changedEntities w) \<subseteq> set (changedEntities w') \<union> (EntityState_ID ` set es - EntityState_ID ` set fs) \<and>
     (\<forall>e \<in> set fs. e \<in> set es \<or> EntityState_ID e \<in> set (changedEntities w')) \<and> same_rest w w'"

lemma flown_ids: "flown es fs w w' \<Longrightarrow> EntityState_ID ` set fs \<subseteq> EntityState_ID ` set es"
  unfolding flown_def by (elim conjE exE) (metis filter_is_subset set_map)

lemma flown_keep:
  assumes f: "flown es fs w1 w'" and d: "EntityState_ID e \<notin> EntityState_ID ` set es" and e: "EntityState_ID e' = EntityState_ID e"
    and w1: "e' = e \<or> EntityState_ID e \<in> set (changedEntities w1)" "set (changedEntities w) \<subseteq> set (changedEntities w1)"
      "set (removedEntities w1) = set (removedEntities w)" "same_rest w w1"
  shows "flown (e # es) (e' # fs) w w'"
proof -
  obtain K where "map EntityState_ID fs = filter K (map EntityState_ID es)" using f unfolding flown_def by blast
  moreover have "filter K (map EntityState_ID es) = filter (K(EntityState_ID e := True)) (map EntityState_ID es)"
    using d by (intro filter_cong) (auto simp: image_iff)
  ultimately have "map EntityState_ID (e' # fs) = filter (K(EntityState_ID e := True)) (map EntityState_ID (e # es))"
    using e by simp
  moreover have "EntityState_ID e \<notin> EntityState_ID ` set fs" using d flown_ids [OF f] by blast
  ultimately show ?thesis using f e d w1 unfolding flown_def same_rest_def
    by (intro conjI exI [of _ "K(EntityState_ID e := True)"]) (auto simp: subset_iff)
qed

lemma cover_insert: "A' \<subseteq> B \<union> (C - D) \<Longrightarrow> A \<subseteq> insert e A' \<Longrightarrow> e \<notin> D \<Longrightarrow> A \<subseteq> B \<union> (insert e C - D)"
  by blast

lemma flown_drop:
  assumes f: "flown es fs w1 w'" and d: "EntityState_ID e \<notin> EntityState_ID ` set es"
    and w1: "set (changedEntities w) \<subseteq> insert (EntityState_ID e) (set (changedEntities w1))"
      "set (removedEntities w1) = insert (EntityState_ID e) (set (removedEntities w))" "same_rest w w1"
  shows "flown (e # es) fs w w'"
proof -
  obtain K where "map EntityState_ID fs = filter K (map EntityState_ID es)" using f unfolding flown_def by blast
  moreover have "filter K (map EntityState_ID es) = filter (K(EntityState_ID e := False)) (map EntityState_ID es)"
    using d by (intro filter_cong) (auto simp: image_iff)
  ultimately have K: "map EntityState_ID fs = filter (K(EntityState_ID e := False)) (map EntityState_ID (e # es))" by simp
  have n: "EntityState_ID e \<notin> EntityState_ID ` set fs" using d flown_ids [OF f] by blast
  have rm: "set (removedEntities w') = set (removedEntities w1) \<union> (EntityState_ID ` set es - EntityState_ID ` set fs)"
    and ch: "set (changedEntities w1) \<subseteq> set (changedEntities w') \<union> (EntityState_ID ` set es - EntityState_ID ` set fs)"
    and same: "\<forall>e \<in> set fs. e \<in> set es \<or> EntityState_ID e \<in> set (changedEntities w')" and rest: "same_rest w1 w'"
    using f unfolding flown_def by blast+
  show ?thesis unfolding flown_def
  proof (intro conjI)
    show "\<exists>K. map EntityState_ID fs = filter K (map EntityState_ID (e # es))" using K by blast
    show "set (removedEntities w') = set (removedEntities w) \<union> (EntityState_ID ` set (e # es) - EntityState_ID ` set fs)"
      using rm w1(2) n by auto
    show "set (changedEntities w) \<subseteq> set (changedEntities w') \<union> (EntityState_ID ` set (e # es) - EntityState_ID ` set fs)"
      using cover_insert [OF ch w1(1) n] by simp
    show "\<forall>e'\<in>set fs. e' \<in> set (e # es) \<or> EntityState_ID e' \<in> set (changedEntities w')" using same by auto
    show "same_rest w w'" using rest w1(3) by (simp add: same_rest_def)
  qed
qed

text \<open>What one entity does: it stays as it is, it moves and is marked, or it is removed.\<close>

lemma wp_fly:
  assumes "Q (Some e) w"
    and "\<And>e'. EntityState_ID e' = EntityState_ID e \<Longrightarrow>
      Q (Some e') (w\<lparr>changedEntities := List.insert (EntityState_ID e) (changedEntities w)\<rparr>)"
    and "\<And>x. Q None (w\<lparr>t_session := (t_session w)\<lparr>s_projectileExpireTick := x\<rparr>,
      changedEntities := remove1 (EntityState_ID e) (changedEntities w),
      removedEntities := List.insert (EntityState_ID e) (removedEntities w)\<rparr>)"
  shows "wp (fly e) Q w"
  unfolding fly_def wp_bind wp_asks Let_def
  by (intro wp_if) (simp_all add: assms wp_change mark_removed_def mark_entity_def wp_State)

lemma remove1_cover: "set xs \<subseteq> insert k (set (remove1 k xs))"
  by (induction xs) auto

lemma wp_fly_all: "distinct (map EntityState_ID es) \<Longrightarrow> wp (fly_all es) (\<lambda>fs w'. flown es fs w w') w"
proof (induction es arbitrary: w)
  case Nil
  show ?case by (simp add: flown_def same_rest_def)
next
  case (Cons e es)
  then have d: "EntityState_ID e \<notin> EntityState_ID ` set es" and IH: "\<And>w. wp (fly_all es) (\<lambda>fs w'. flown es fs w w') w"
    by auto
  show ?case unfolding fly_all.simps wp_bind
  proof (rule wp_fly)
    show "wp (fly_all es) (\<lambda>r. wp (ret (case Some e of None \<Rightarrow> r | Some e \<Rightarrow> e # r)) (\<lambda>fs w'. flown (e # es) fs w w')) w"
      by (rule wp_mono [OF IH]) (auto intro!: flown_keep [OF _ d] simp: same_rest_def)
    show "wp (fly_all es) (\<lambda>r. wp (ret (case Some e' of None \<Rightarrow> r | Some e \<Rightarrow> e # r)) (\<lambda>fs w'. flown (e # es) fs w w'))
        (w\<lparr>changedEntities := List.insert (EntityState_ID e) (changedEntities w)\<rparr>)"
      if "EntityState_ID e' = EntityState_ID e" for e'
      by (rule wp_mono [OF IH]) (auto intro!: flown_keep [OF _ d that] simp: same_rest_def)
    show "wp (fly_all es) (\<lambda>r. wp (ret (case None of None \<Rightarrow> r | Some e \<Rightarrow> e # r)) (\<lambda>fs w'. flown (e # es) fs w w'))
        (w\<lparr>t_session := (t_session w)\<lparr>s_projectileExpireTick := x\<rparr>,
           changedEntities := remove1 (EntityState_ID e) (changedEntities w),
           removedEntities := List.insert (EntityState_ID e) (removedEntities w)\<rparr>)" for x
      by (rule wp_mono [OF IH]) (auto intro!: flown_drop [OF _ d] simp: same_rest_def dest: subsetD [OF remove1_cover])
  qed
qed

lemma expire_projectiles_law:
  assumes t: "tracked s0 A n w" and Q: "\<And>w'. tracked s0 A n w' \<Longrightarrow> Q () w'"
  shows "wp expireProjectileEntitiesLocked Q w"
  unfolding expireProjectileEntitiesLocked_def
proof (rule wp_bindI, rule wp_asksI, rule wp_if, simp add: Q t, rule wp_bindI)
  have "wp (change (with_entities (\<lambda>_. fs))) Q w'" if f: "flown (entities_of (t_session w)) fs w w'" for fs w'
  proof -
    let ?w = "w'\<lparr>t_session := with_entities (\<lambda>_. fs) (t_session w')\<rparr>"
    have r: "same_rest w w'" using f by (simp add: flown_def)
    have "entities_tracked s0 A n ?w"
    proof (rule entities_rewritten)
      show "entities_tracked s0 A n w" using t by (simp add: tracked_def)
      show "strict EntityState_ID (entities_of (t_session ?w))"
        using f tracked_entities(1) [OF t] by (auto simp: flown_def strict_def sorted_wrt_filter)
    qed (use f r flown_ids [OF f] in \<open>auto simp: flown_def same_rest_def\<close>)
    then have "tracked s0 A n ?w"
      by (rule tracked_new_entities [OF t]) (use r in \<open>auto simp: same_rest_def session_map_def frame_kept_def with_entities_def\<close>)
    then show ?thesis using Q by (simp add: wp_change)
  qed
  then show "wp (fly_all (entities_of (id (t_session w)))) (\<lambda>r. wp (change (with_entities (\<lambda>_. r))) Q) w"
    using wp_fly_all [OF tracked_entities(2) [OF t], of w] by (auto elim: wp_mono)
qed

section \<open>Timed states\<close>

lemma expire_door_law:
  assumes k: "k < length (Doors (session_map s0))" and t: "tracked s0 A n w" and Q: "\<And>w'. tracked s0 A n w' \<Longrightarrow> Q () w'"
  shows "wp (expire_door k) Q w"
proof -
  have k': "k < length (Doors (session_map (t_session w)))"
    using k t by (auto simp: tracked_def map_tracked_def dest: kept_length)
  show ?thesis unfolding expire_door_def Let_def id_def using t
    by - (assumption | rule wp_set_door [where c = True] wp_rules Q k' | (simp; fail) | (erule tracked_close, force))+
qed

lemma restored_door_changed:
  "\<not> snd (restored_door b r d) \<Longrightarrow> fst (restored_door b r d) = d"
  "DoorState_ID (fst (restored_door b r d)) = DoorState_ID d"
  by (auto simp: restored_door_def Let_def split: if_splits)

lemma wp_restored_door:
  assumes t: "tracked s0 A n w" and k: "find_index P (Doors (session_map (t_session w))) = Some k"
    and d: "restored_door b r (Doors (session_map (t_session w)) ! k) = (door, changed)"
    and Q: "\<And>w'. tracked s0 (if changed then insert (Dirty_door (DoorState_ID door)) A else A) n w' \<Longrightarrow> Q () w'"
  shows "wp (set_door k door) Q w"
proof (rule wp_set_door [OF t, where c = changed])
  show "k < length (Doors (session_map (t_session w)))" using k by (simp add: find_index_Some)
  show "DoorState_ID door = DoorState_ID (Doors (session_map (t_session w)) ! k)"
    using restored_door_changed(2) [of b r] d by (metis fst_conv)
  show "changed" if "door \<noteq> Doors (session_map (t_session w)) ! k"
    using that restored_door_changed(1) [of b r] d by (metis fst_conv snd_conv)
qed (rule Q)

lemma restore_lock_law:
  assumes t: "tracked s0 A n w" and Q: "\<And>w'. tracked s0 A n w' \<Longrightarrow> Q () w'"
  shows "wp (restore_lock entry) Q w"
  unfolding restore_lock_def id_def using t
  by - (assumption | rule wp_restored_door wp_rules Q | (erule tracked_close, force split: if_splits))+

lemma expired_effects_honest [wp_rules]: "honest (expired_effects tick)"
  by (simp add: honest_def expired_effects_def Let_def step_defs)

lemma expire_effects_law:
  assumes i: "i < players_count s0" and t: "tracked s0 A n w" and Q: "\<And>w'. tracked s0 A n w' \<Longrightarrow> Q () w'"
  shows "wp (expire_effects i) Q w"
  unfolding expire_effects_def using t
  by - (assumption | rule wp_rules i Q | (erule tracked_close, force split: if_splits))+

lemma settle_chameleon_law:
  assumes i: "i < players_count s0" and t: "tracked s0 A n w" and Q: "\<And>w'. tracked s0 A n w' \<Longrightarrow> Q () w'"
  shows "wp (settle_chameleon i) Q w"
  unfolding settle_chameleon_def Let_def using t
  by - (assumption | rule wp_rules i Q | (erule tracked_close, force split: if_splits))+

lemma timed_states_law:
  assumes t: "tracked s0 A n w" and Q: "\<And>w'. tracked s0 A n w' \<Longrightarrow> Q () w'"
  shows "wp expireTimedStatesLocked Q w"
proof -
  have l: "length (Doors (session_map (t_session w))) = length (Doors (session_map s0))"
    using t by (auto simp: tracked_def map_tracked_def dest: kept_length)
  show ?thesis unfolding expireTimedStatesLocked_def wp_bind wp_asks l
    by (rule wp_for_each [where c = 0 and n = n and A = A], rule expire_door_law, simp, simp, assumption, simp add: t)
      (rule wp_for_each [where c = 0 and n = n and A = A], rule restore_lock_law, simp, assumption, simp,
       rule wp_all_players, rule expire_effects_law, assumption, assumption, assumption, assumption,
       rule wp_all_players, rule settle_chameleon_law, assumption, assumption, assumption, assumption,
       rule wp_all_players, rule wp_reequip, assumption, assumption, assumption, assumption, rule Q)
qed

section \<open>Succession\<close>

text \<open>The succession changes only the roles of the players it reports.\<close>

lemma succession_players:
  assumes "ApplyGangLeaderSuccession gs mid t = (gs', out)"
  shows "\<exists>qs. gs' = gs\<lparr>Players := qs\<rparr> \<and> length qs = length (Players gs) \<and> set out \<subseteq> ID ` set (Players gs) \<and>
    (\<forall>i < length qs. player_step (Players gs ! i) (qs ! i) \<and>
       (ID (Players gs ! i) \<notin> set out \<longrightarrow> qs ! i = Players gs ! i))"
proof (cases "(\<exists>p \<in> set (Players gs). living_leader p) \<or> \<not> (\<exists>p \<in> set (Players gs). living_member p)")
  case True
  then have "gs' = gs \<and> out = []" using assms succession_noop [OF True] by simp
  then show ?thesis by (intro exI [of _ "Players gs"]) simp
next
  case False
  have pr: "player_step p (promoted p)" if "living_member p" for p
    using that by (simp add: step_defs promoted_def living_member_def MaxHeartsHalfForRole_def loadoutForRole_def
        IsAuthorityPlayer_def)
  have de: "player_step p (demoted p)" if "dead_leader p" for p
    using that by (simp add: step_defs demoted_def dead_leader_def MaxHeartsHalfForRole_def loadoutForRole_def
        IsAuthorityPlayer_def)
  obtain i where i: "i < length (Players gs)" "living_member (Players gs ! i)"
    and gs': "gs' = gs\<lparr>Players := map (\<lambda>j. if j = i then promoted (Players gs ! j)
       else if dead_leader (Players gs ! j) then demoted (Players gs ! j) else Players gs ! j)
         [0 ..< length (Players gs)]\<rparr>"
    and out: "set out = insert (ID (Players gs ! i)) (ID ` {p \<in> set (Players gs). dead_leader p})"
    using succession_effect [OF _ _ assms] False by blast
  show ?thesis unfolding gs' out using i
    by (intro exI [of _ "map (\<lambda>j. if j = i then promoted (Players gs ! j)
       else if dead_leader (Players gs ! j) then demoted (Players gs ! j) else Players gs ! j) [0 ..< length (Players gs)]"])
      (auto simp: pr de)
qed

lemma tracked_players_list:
  assumes t: "tracked s0 A n w" and "length qs = length (players_of (t_session w))"
    and step: "\<And>i. i < length qs \<Longrightarrow> player_step (players_of (t_session w) ! i) (qs ! i)"
    and same: "\<And>i. i < length qs \<Longrightarrow> Dirty_player (player_id s0 i) \<notin> B \<Longrightarrow> qs ! i = players_of (t_session w) ! i"
    and AB: "A \<subseteq> B"
  shows "tracked s0 B n (w\<lparr>t_session := with_players (\<lambda>_. qs) (t_session w)\<rparr>)"
proof -
  let ?ps = "players_of (t_session w)"
  note b = tracked_mono [OF t AB order_refl]
  have len: "length qs = players_count s0" using assms(2) tracked_length [OF t] by simp
  have ids: "map ID qs = map ID (players_of s0)"
    using step tracked_ID [OF t] len by (intro nth_equalityI) (auto simp: player_step_def)
  have "players_tracked s0 B (w\<lparr>t_session := with_players (\<lambda>_. qs) (t_session w)\<rparr>)"
    unfolding players_tracked_def
  proof (intro conjI)
    show "list_all2 (player_stamp (s_tickID s0)) (players_of s0)
        (players_of (t_session (w\<lparr>t_session := with_players (\<lambda>_. qs) (t_session w)\<rparr>)))"
      using len step tracked_step [OF t] player_stamp_trans player_step_stamp
      by (auto simp: list_all2_conv_all_nth) blast
    have "kept ID same_player {k. k \<in> set (changedPlayers w) \<or> Dirty_player k \<in> B \<or> Fresh_player k \<in> B} (players_of s0) ?ps"
      "kept ID (\<lambda>p q. LastActionFeedback q = LastActionFeedback p) {k. k \<in> set (changedPlayers w) \<or> Dirty_player k \<in> B}
        (players_of s0) ?ps"
      using b by (simp_all add: tracked_def players_tracked_def)
    then show "kept ID same_player {k. k \<in> set (changedPlayers (w\<lparr>t_session := with_players (\<lambda>_. qs) (t_session w)\<rparr>)) \<or>
        Dirty_player k \<in> B \<or> Fresh_player k \<in> B} (players_of s0)
        (players_of (t_session (w\<lparr>t_session := with_players (\<lambda>_. qs) (t_session w)\<rparr>)))"
      "kept ID (\<lambda>p q. LastActionFeedback q = LastActionFeedback p)
        {k. k \<in> set (changedPlayers (w\<lparr>t_session := with_players (\<lambda>_. qs) (t_session w)\<rparr>)) \<or> Dirty_player k \<in> B}
        (players_of s0) (players_of (t_session (w\<lparr>t_session := with_players (\<lambda>_. qs) (t_session w)\<rparr>)))"
      using same len ids unfolding kept_def by simp_all
  qed (use t in \<open>simp_all add: tracked_def players_tracked_def\<close>)
  then show ?thesis using b by (simp add: tracked_def map_tracked_def entities_tracked_def frame_with)
qed

text \<open>Marking a list of players.\<close>

lemma mark_list_law:
  assumes "set ks \<subseteq> ID ` set (players_of s0)" and "tracked s0 (A \<union> Dirty_player ` set ks) n w"
    and Q: "\<And>w'. tracked s0 A n w' \<Longrightarrow> Q () w'"
  shows "wp (for_each mark_player ks) Q w"
  using assms(1,2)
proof (induction ks arbitrary: w)
  case (Cons k ks)
  then obtain i where i: "i < players_count s0" "k = player_id s0 i" by (auto simp: in_set_conv_nth)
  show ?case unfolding for_each.simps wp_bind
  proof (rule wp_mark_player [OF Cons.prems(2) i(2,1)])
    fix w'
    assume "tracked s0 (A \<union> Dirty_player ` set (k # ks) - {Dirty_player (player_id s0 i), Fresh_player (player_id s0 i)}) n w'"
    then have "tracked s0 (A \<union> Dirty_player ` set ks) n w'" by (rule tracked_close) (use i in auto)
    then show "wp (for_each mark_player ks) Q w'" using Cons.IH Cons.prems(1) by simp
  qed
qed (simp add: Q)

lemma succession_law:
  assumes t: "tracked s0 A n w" and Q: "\<And>w'. tracked s0 A n w' \<Longrightarrow> Q () w'"
  shows "wp run_succession Q w"
proof -
  let ?s = "t_session w"
  obtain gs' out where e: "ApplyGangLeaderSuccession (s_gameState ?s) (s_matchID ?s) (s_tickID ?s) = (gs', out)"
    by (cases "ApplyGangLeaderSuccession (s_gameState ?s) (s_matchID ?s) (s_tickID ?s)")
  obtain qs where q: "gs' = (s_gameState ?s)\<lparr>Players := qs\<rparr>" "length qs = length (players_of ?s)"
    "set out \<subseteq> ID ` set (players_of ?s)"
    "\<And>i. i < length qs \<Longrightarrow> player_step (players_of ?s ! i) (qs ! i) \<and> (ID (players_of ?s ! i) \<notin> set out \<longrightarrow> qs ! i = players_of ?s ! i)"
    using succession_players [OF e] by blast
  have len: "length qs = players_count s0" using q(2) tracked_length [OF t] by simp
  have ids: "map ID (players_of ?s) = map ID (players_of s0)"
    using t by (simp add: tracked_def players_tracked_def kept_def)
  have sub: "set out \<subseteq> ID ` set (players_of s0)" using q(3) arg_cong [OF ids, of set] by simp
  have "tracked s0 (A \<union> Dirty_player ` set out) n (w\<lparr>t_session := with_players (\<lambda>_. qs) ?s\<rparr>)"
  proof (rule tracked_players_list [OF t q(2)])
    fix i assume i: "i < length qs" "Dirty_player (player_id s0 i) \<notin> A \<union> Dirty_player ` set out"
    then have "ID (players_of ?s ! i) \<notin> set out" using tracked_ID [OF t, of i] len by auto
    then show "qs ! i = players_of ?s ! i" using q(4) i by blast
  qed (use q(4) in auto)
  then have "wp (for_each mark_player out) Q (w\<lparr>t_session := with_players (\<lambda>_. qs) ?s\<rparr>)"
    by (rule mark_list_law [OF sub]) (rule Q)
  then show ?thesis unfolding run_succession_def wp_bind wp_asks
    by (simp add: e q(1) wp_change with_players_def)
qed

section \<open>The alarm\<close>

lemma mark_removed_list:
  "wp (for_each (\<lambda>e. mark_removed (EntityState_ID e)) es) Q w \<longleftrightarrow>
   Q () (w\<lparr>changedEntities := fold (\<lambda>e. remove1 (EntityState_ID e)) es (changedEntities w),
     removedEntities := fold (\<lambda>e. List.insert (EntityState_ID e)) es (removedEntities w)\<rparr>)"
  by (induction es arbitrary: w) (simp_all add: mark_removed_def wp_State)

lemma fold_marks:
  "set (fold (\<lambda>e. List.insert (EntityState_ID e)) es ks) = EntityState_ID ` set es \<union> set ks"
  "set ks \<subseteq> set (fold (\<lambda>e. remove1 (EntityState_ID e)) es ks) \<union> EntityState_ID ` set es"
proof (induction es arbitrary: ks)
  case (Cons e es)
  { case 1 show ?case using Cons.IH(1) by auto }
  { case 2 show ?case using Cons.IH(2) [of "remove1 (EntityState_ID e) ks"] remove1_cover [of ks "EntityState_ID e"] by auto }
qed auto

lemma clear_guards_law:
  assumes t: "tracked s0 A n w" and Q: "\<And>w'. tracked s0 A n w' \<Longrightarrow> Q () w'"
  shows "wp clearAlarmGuardEntitiesLocked Q w"
proof -
  let ?es = "entities_of (t_session w)"
  let ?out = "filter (\<lambda>e. Kind e = EntityKindNPCGuard) ?es" and ?in = "filter (\<lambda>e. Kind e \<noteq> EntityKindNPCGuard) ?es"
  let ?w = "w\<lparr>changedEntities := fold (\<lambda>e. remove1 (EntityState_ID e)) ?out (changedEntities w),
     removedEntities := fold (\<lambda>e. List.insert (EntityState_ID e)) ?out (removedEntities w),
     t_session := with_entities (filter (\<lambda>e. Kind e \<noteq> EntityKindNPCGuard)) (t_session w)\<rparr>"
  have split: "EntityState_ID ` set ?es - EntityState_ID ` set ?in = EntityState_ID ` set ?out"
    using tracked_entities(2) [OF t] by (auto simp: distinct_map inj_on_def)
  have "entities_tracked s0 A n ?w"
  proof (rule entities_rewritten)
    show "entities_tracked s0 A n w" using t by (simp add: tracked_def)
    show "strict EntityState_ID (entities_of (t_session ?w))"
      using tracked_entities(1) [OF t] by (auto simp: strict_def sorted_wrt_map sorted_wrt_filter)
    show "set (removedEntities ?w) = set (removedEntities w) \<union>
        (EntityState_ID ` set ?es - EntityState_ID ` set (entities_of (t_session ?w)))"
      using split by (auto simp: fold_marks)
    show "set (changedEntities w) \<subseteq> set (changedEntities ?w) \<union> set (removedEntities ?w)"
      using fold_marks(2) [of "changedEntities w" ?out] by (auto simp: fold_marks(1))
  qed auto
  then have "tracked s0 A n ?w" by (rule tracked_new_entities [OF t]) (auto simp: frame_with)
  then have "wp (change (\<lambda>s. s\<lparr>s_guardEntityByRoom := Map.empty, s_guardLastShotTick := Map.empty\<rparr>)) Q ?w"
    by (rule wp_inert) (rule inert_laws Q | assumption)+
  then show ?thesis unfolding clearAlarmGuardEntitiesLocked_def wp_bind wp_asks mark_removed_list
    by (simp add: wp_change)
qed

lemma wp_new_guard:
  assumes t: "tracked s0 A (Suc n) w"
    and Q: "\<And>e w'. tracked s0 (insert (Dirty_entity (EntityState_ID e)) A) n w' \<Longrightarrow> wp (f e ()) Q w'"
  shows "wp (newAlarmGuardEntityLocked room)
    (\<lambda>e. wp (State_Monad.bind (change (with_entities (\<lambda>es. es @ [e]))) (f e)) Q) w"
proof -
  let ?k = "s_nextEntityID (t_session w) + 1"
  define e where "e = \<lparr>EntityState_ID = ?k, Kind = EntityKindNPCGuard, EntityOwnerPlayerID = PlayerID '''',
          EntityPosition = room_centre room, EntityVelocity = zero_vector, EntityHeartsHalf = 0,
          EntityActive = True, EntityRoomID = room, Tags = [''alarm_guard'', ''restricted_zone'']\<rparr>"
  have e: "EntityState_ID e = ?k" and f: "inert (\<lambda>s. s)" by (simp_all add: e_def inert_def)
  from Q [OF tracked_append [OF t e f]] show ?thesis
    by (simp add: newAlarmGuardEntityLocked_def new_entity_id_def wp_change e_def)
qed

lemma ensure_guard_law:
  assumes t: "tracked s0 A (Suc n) w" and Q: "\<And>w'. tracked s0 A n w' \<Longrightarrow> Q () w'"
  shows "wp (ensure_guard zone) Q w"
  unfolding ensure_guard_def using t
  by - (assumption | rule wp_new_guard wp_rules Q | (erule tracked_mono, force, simp))+

lemma guard_shot_law:
  assumes t: "tracked s0 A n w" and Q: "\<And>w'. tracked s0 A n w' \<Longrightarrow> Q () w'"
  shows "wp (guard_shot k) Q w"
  unfolding guard_shot_def using t
  by - (assumption | rule wp_index_case wp_rules Q | (erule tracked_close, force split: if_splits))+

lemma stand_down_law:
  assumes t: "tracked s0 A n w" and Q: "\<And>w'. tracked s0 A n w' \<Longrightarrow> Q () w'"
  shows "wp stand_down Q w"
  unfolding stand_down_def using t
  by - (assumption | rule wp_bindI wp_with_map clear_guards_law Q | (simp; fail))+

lemma alarm_law:
  assumes t: "tracked s0 A (n + length (RestrictedZones (session_map s0))) w" and Q: "\<And>w'. tracked s0 A n w' \<Longrightarrow> Q () w'"
  shows "wp applyAlarmAndGuardSystemLocked Q w"
proof -
  have n: "tracked s0 A n w" by (rule tracked_mono [OF t]) auto
  have z: "RestrictedZones (session_map (t_session w)) = RestrictedZones (session_map s0)"
    using t by (simp add: tracked_def map_tracked_def)
  have guards: "wp (ensureAlarmGuardEntitiesLocked \<bind> (\<lambda>_. for_each guard_shot ks)) Q w" for ks
    unfolding ensureAlarmGuardEntitiesLocked_def wp_bind wp_asks z
  proof (rule wp_for_each [where c = 1])
    show "tracked s0 A (n + 1 * length (RestrictedZones (session_map s0))) w" using t by simp
    show "wp (ensure_guard x) Q' w'" if "tracked s0 A (m + 1) w'" "\<And>w'. tracked s0 A m w' \<Longrightarrow> Q' () w'" for x m w' Q'
      using ensure_guard_law [of s0 A m w' Q'] that by simp
    show "wp (for_each guard_shot ks) Q w'" if "tracked s0 A n w'" for w'
      by (rule wp_for_each [where c = 0 and A = A and n = n]) (use that Q guard_shot_law in auto)
  qed
  show ?thesis unfolding applyAlarmAndGuardSystemLocked_def wp_bind wp_asks Let_def
    by (intro wp_if clear_guards_law [OF n] stand_down_law [OF n] guards) (rule Q, assumption)+
qed

section \<open>All inputs of a tick\<close>

lemma restock_law:
  assumes t: "tracked s0 A n w" and Q: "\<And>w'. tracked s0 A n w' \<Longrightarrow> Q () w'"
  shows "wp resolveAmmoRestockCompletionsLocked Q w"
  unfolding resolveAmmoRestockCompletionsLocked_def wp_bind
  by (rule wp_all_players [OF _ t], rule wp_silent [where c = 0, OF _ restock_silent])
    (auto intro!: wp_inert inert_laws Q)

text \<open>How many identifiers a tick can need.\<close>

definition id_budget :: "matchSession \<Rightarrow> InputCommand list \<Rightarrow> nat" where
  "id_budget s commands = length commands + length (RestrictedZones (session_map s))"

lemma start_tracked:
  assumes "start_ok s" and "unat (s_nextEntityID s) + n < 2 ^ 32"
  shows "tracked s {} n (start_work s)"
  using assms unfolding tracked_def players_tracked_def map_tracked_def entities_tracked_def Let_def frame_kept_def
    start_work_def session_players_def
  by (auto simp: start_ok_def list_all_iff kept_refl list_all2_conv_all_nth)

lemma run_inputs_tracked:
  assumes "start_ok s" and "unat (s_nextEntityID s) + id_budget s commands < 2 ^ 32"
  shows "tracked s {} 0 (snd (run_state (run_inputs dec commands) (start_work s)))"
proof -
  let ?z = "length (RestrictedZones (session_map s))"
  have t: "tracked s {} (id_budget s commands) (start_work s)" by (rule start_tracked [OF assms])
  have loop: "wp (for_each (apply_command dec) commands) Q w"
    if "tracked s {} (id_budget s commands) w" "\<And>w'. tracked s {} ?z w' \<Longrightarrow> Q () w'" for w Q
    by (rule wp_for_each [where c = 1 and n = ?z and A = "{}"])
      (use that apply_command_law in \<open>auto simp: id_budget_def add.commute\<close>)
  have "wp (run_inputs dec commands) (\<lambda>_. tracked s {} 0) (start_work s)"
    unfolding run_inputs_def using t
    by - (assumption | rule wp_bindI restock_law expire_projectiles_law wp_set_occupied loop succession_law timed_states_law
        alarm_law [where n = 0 and A = "{}"] | (simp only: add_0; fail) | (simp; fail))+
  then show ?thesis by (simp add: wp_def case_prod_beta')
qed

end
