(* ===== verification/SnapshotStore.thy ===== *)
theory SnapshotStore
  imports Snapshots
begin

text \<open>
  The client's copy of a match (\<open>src/internal/client/netclient/snapshot_store.go\<close>): a full snapshot
  replaces it, a delta changes it. The mutex makes every operation atomic; a deep copy of a slice is
  a copy of the value.
\<close>

record SnapshotMeta =
  MetaTickID :: uint64
  MetaPlayerAcks :: "PlayerAck list"

record SnapshotStore =
  store_state :: "GameState option"
  store_meta :: "SnapshotMeta option"

definition NewSnapshotStore :: SnapshotStore where
  "NewSnapshotStore = \<lparr>store_state = None, store_meta = None\<rparr>"

section \<open>Copies\<close>

definition store_clonePlayerState :: "PlayerState \<Rightarrow> PlayerState" where
  "store_clonePlayerState p = p\<lparr>Inventory := Inventory p, Cards := Cards p,
     NightCardChoices := NightCardChoices p, Effects := Effects p\<rparr>"

definition store_cloneGameState :: "GameState \<Rightarrow> GameState" where
  "store_cloneGameState s = s\<lparr>Players := map store_clonePlayerState (Players s),
     Entities := map (\<lambda>e. e\<lparr>Tags := Tags e\<rparr>) (Entities s),
     Map := (Map s)\<lparr>Doors := Doors (Map s),
       Cells := map (\<lambda>c. c\<lparr>OccupantPlayerIDs := OccupantPlayerIDs c, Stash := Stash c\<rparr>) (Cells (Map s)),
       RestrictedZones := RestrictedZones (Map s)\<rparr>,
     GameOver := map_option (\<lambda>g. g\<lparr>WinnerPlayerIDs := WinnerPlayerIDs g\<rparr>) (GameOver s)\<rparr>"

definition clonePlayerAcks :: "PlayerAck list \<Rightarrow> PlayerAck list" where
  "clonePlayerAcks acks = (if length acks = 0 then [] else acks)"

section \<open>Deltas\<close>

text \<open>A map filled from the old and then the changed elements, read out by increasing key.\<close>

definition upserted :: "('a \<Rightarrow> 'b::linorder) \<Rightarrow> 'a list \<Rightarrow> 'a list \<Rightarrow> 'a list" where
  "upserted key existing changed =
     (if length changed = 0 then existing else by_id_sorted key (existing @ changed))"

definition removed_from :: "('a \<Rightarrow> 'b) \<Rightarrow> 'a list \<Rightarrow> 'b list \<Rightarrow> 'a list" where
  "removed_from key existing removed =
     (if length removed = 0 \<or> length existing = 0 then existing
      else filter (\<lambda>x. key x \<notin> set removed) existing)"

definition upsertPlayers :: "PlayerState list \<Rightarrow> PlayerState list \<Rightarrow> PlayerState list" where
  "upsertPlayers existing changed =
     upserted ID (map store_clonePlayerState existing) (map store_clonePlayerState changed)"

definition removePlayers :: "PlayerState list \<Rightarrow> PlayerID list \<Rightarrow> PlayerState list" where
  "removePlayers = removed_from ID"

definition upsertEntities :: "EntityState list \<Rightarrow> EntityState list \<Rightarrow> EntityState list" where
  "upsertEntities = upserted EntityState_ID"

definition removeEntities :: "EntityState list \<Rightarrow> EntityID list \<Rightarrow> EntityState list" where
  "removeEntities = removed_from EntityState_ID"

definition upsertDoors :: "DoorState list \<Rightarrow> DoorState list \<Rightarrow> DoorState list" where
  "upsertDoors = upserted DoorState_ID"

definition upsertCells :: "CellState list \<Rightarrow> CellState list \<Rightarrow> CellState list" where
  "upsertCells = upserted CellState_ID"

definition upsertZones :: "ZoneState list \<Rightarrow> ZoneState list \<Rightarrow> ZoneState list" where
  "upsertZones = upserted ZoneState_ID"

definition or_else :: "'a option \<Rightarrow> 'a \<Rightarrow> 'a" where
  "or_else new old = (case new of None \<Rightarrow> old | Some x \<Rightarrow> x)"

definition applyDeltaLocked :: "GameState \<Rightarrow> GameDelta \<Rightarrow> GameState" where
  "applyDeltaLocked state delta =
     (let m = Map state;
          m = m\<lparr>Doors := upsertDoors (Doors m) (ChangedDoors delta),
                Cells := upsertCells (Cells m) (ChangedCells delta),
                RestrictedZones := upsertZones (RestrictedZones m) (ChangedZones delta),
                PowerOn := or_else (DeltaPowerOn delta) (PowerOn m),
                Alarm := or_else (DeltaAlarm delta) (Alarm m),
                BlackMarketRoomID := or_else (DeltaBlackMarketRoomID delta) (BlackMarketRoomID m)\<rparr>
      in state\<lparr>Players := removePlayers (upsertPlayers (Players state) (ChangedPlayers delta)) (RemovedPlayerIDs delta),
              Entities := removeEntities (upsertEntities (Entities state) (ChangedEntities delta)) (RemovedEntityIDs delta),
              Map := m,
              Phase := or_else (DeltaPhase delta) (Phase state),
              Status := or_else (DeltaStatus delta) (Status state),
              CycleCount := or_else (DeltaCycleCount delta) (CycleCount state),
              GameOver := (case DeltaGameOver delta of None \<Rightarrow> GameOver state
                           | Some g \<Rightarrow> Some (g\<lparr>WinnerPlayerIDs := WinnerPlayerIDs g\<rparr>))\<rparr>)"

definition ApplySnapshot :: "SnapshotStore \<Rightarrow> Snapshot \<Rightarrow> SnapshotStore \<times> bool" where
  "ApplySnapshot s snapshot =
     (let meta = \<lparr>MetaTickID = SnapshotTickID snapshot, MetaPlayerAcks = clonePlayerAcks (PlayerAcks snapshot)\<rparr>
      in case SnapshotKind_of snapshot of
           SnapshotKindFull \<Rightarrow>
             (case State snapshot of
                None \<Rightarrow> (s, False)
              | Some state \<Rightarrow> (s\<lparr>store_state := Some (store_cloneGameState state), store_meta := Some meta\<rparr>, True))
         | SnapshotKindDelta \<Rightarrow>
             (case (Delta snapshot, store_state s) of
                (Some delta, Some state) \<Rightarrow>
                  if SnapshotTickID snapshot \<le> TickID state then (s, False)
                  else (s\<lparr>store_state := Some ((applyDeltaLocked state delta)\<lparr>TickID := SnapshotTickID snapshot\<rparr>),
                         store_meta := Some meta\<rparr>, True)
              | _ \<Rightarrow> (s, False)))"

definition CurrentState :: "SnapshotStore \<Rightarrow> GameState option" where
  "CurrentState s = map_option store_cloneGameState (store_state s)"

definition LatestSnapshotMeta :: "SnapshotStore \<Rightarrow> SnapshotMeta option" where
  "LatestSnapshotMeta s = map_option (\<lambda>meta. \<lparr>MetaTickID = MetaTickID meta,
     MetaPlayerAcks = clonePlayerAcks (MetaPlayerAcks meta)\<rparr>) (store_meta s)"

section \<open>Copies are the values\<close>

lemma store_copies [simp]: "store_clonePlayerState = (\<lambda>p. p)" "clonePlayerAcks = (\<lambda>acks. acks)"
  by (auto simp: store_clonePlayerState_def clonePlayerAcks_def fun_eq_iff)

lemma store_cloneGameState_id [simp]: "store_cloneGameState = (\<lambda>s. s)"
  by (simp add: store_cloneGameState_def option.map_ident fun_eq_iff)

end
