(* ===== verification/KeyedLists.thy ===== *)
theory KeyedLists
  imports TickLaws SnapshotStore
begin

text \<open>
  Lists of states with identifiers: a map filled in order and read out by increasing key, the merge
  of two lists of changes, and what upserting and removing does to a sorted list
  (\<open>upserted\<close>, \<open>removed_from\<close> of \<open>SnapshotStore\<close> and \<open>by_id_sorted\<close> of \<open>Snapshots\<close>).
\<close>

section \<open>Sorted maps\<close>

lemma fold_update_keys:
  "distinct (map fst acc) \<Longrightarrow> distinct (map fst (fold (\<lambda>x. AList.update (key x) x) xs acc))"
  by (induction xs arbitrary: acc) (auto simp: distinct_update)

lemma first_with_id_snoc:
  "first_with_id key (xs @ [x]) k = (case first_with_id key xs k of
     None \<Rightarrow> if key x = k then Some x else None | Some y \<Rightarrow> Some y)"
  unfolding first_with_id_def by (induction xs) auto

lemma fold_update_map_of:
  "map_of (fold (\<lambda>x. AList.update (key x) x) xs acc) k =
     (case first_with_id key (rev xs) k of None \<Rightarrow> map_of acc k | Some x \<Rightarrow> Some x)"
proof (induction xs arbitrary: acc)
  case (Cons x xs)
  show ?case using Cons.IH
    by (auto simp: first_with_id_snoc update_conv' split: option.split)
qed (simp add: first_with_id_def)

section \<open>Sorted lists with keys\<close>

lemma strict_keys_eq:
  assumes "strict key xs" "strict key ys" and "key ` set xs = key ` set ys"
  shows "map key xs = map key ys"
  using assms strict_distinct [OF assms(1)] strict_distinct [OF assms(2)]
  by (intro sorted_distinct_set_unique) (auto simp: strict_def strict_sorted_iff)

lemma strict_list_all2:
  assumes "strict key xs" "strict key ys" and "key ` set xs = key ` set ys"
    and "\<And>x y. x \<in> set xs \<Longrightarrow> y \<in> set ys \<Longrightarrow> key x = key y \<Longrightarrow> R x y"
  shows "list_all2 R xs ys"
proof -
  have m: "map key xs = map key ys" by (rule strict_keys_eq [OF assms(1-3)])
  then have "length xs = length ys" by (rule map_eq_imp_length_eq)
  moreover from this m have "key (xs ! i) = key (ys ! i)" if "i < length xs" for i
    using that by (metis nth_map)
  ultimately show ?thesis using assms(4) by (simp add: list_all2_conv_all_nth)
qed

lemma strict_filter: "strict key xs \<Longrightarrow> strict key (filter P xs)"
  unfolding strict_def sorted_wrt_map by (rule sorted_wrt_filter)

lemma strict_map_cong: "map key ys = map key xs \<Longrightarrow> strict key xs \<Longrightarrow> strict key ys"
  by (simp add: strict_def)

lemma first_with_id_append:
  "first_with_id key (xs @ ys) k = (case first_with_id key xs k of None \<Rightarrow> first_with_id key ys k | Some x \<Rightarrow> Some x)"
  unfolding first_with_id_def by (induction xs) auto

abbreviation filled :: "('a \<Rightarrow> 'b) \<Rightarrow> 'a list \<Rightarrow> ('b \<times> 'a) list" where
  "filled key xs \<equiv> fold (\<lambda>x. AList.update (key x) x) xs []"

lemma filled_entries: "(k, x) \<in> set (filled key xs) \<longleftrightarrow> first_with_id key (rev xs) k = Some x"
  using map_of_eq_Some_iff [OF fold_update_keys, of "[]" key xs k x] by (auto simp: fold_update_map_of split: option.splits)

lemma filled_key: "(k, x) \<in> set (filled key xs) \<Longrightarrow> key x = k"
  unfolding filled_entries first_with_id_def by (auto simp: find_Some_iff)

lemma by_id_sorted_strict: "strict key (by_id_sorted key xs)"
proof -
  let ?al = "sort_key fst (filled key xs)"
  have "map key (by_id_sorted key xs) = map fst ?al"
    using filled_key [of _ _ key xs] by (auto simp: by_id_sorted_def)
  moreover have "distinct (map fst ?al)" using fold_update_keys [of "[]" key xs] by (simp add: distinct_map)
  ultimately show ?thesis by (simp add: strict_def strict_sorted_iff)
qed

lemma by_id_sorted_member: "x \<in> set (by_id_sorted key xs) \<longleftrightarrow> first_with_id key (rev xs) (key x) = Some x"
proof -
  have "x \<in> set (by_id_sorted key xs) \<longleftrightarrow> (\<exists>k. (k, x) \<in> set (filled key xs))"
    by (auto simp: by_id_sorted_def image_iff intro: bexI [rotated])
  also have "\<dots> \<longleftrightarrow> (key x, x) \<in> set (filled key xs)" by (rule iffI, elim exE) (frule filled_key, simp, blast)
  finally show ?thesis by (simp only: filled_entries)
qed

text \<open>Two lists with distinct keys merged: the second wins.\<close>

lemma first_with_id_inj:
  "inj_on key (set ys) \<Longrightarrow> first_with_id key ys k = Some z \<longleftrightarrow> z \<in> set ys \<and> key z = k"
  by (induction ys) (auto simp: first_with_id_def inj_on_def)

lemma merged_member:
  assumes "inj_on key (set xs)" "inj_on key (set ys)"
  shows "z \<in> set (by_id_sorted key (xs @ ys)) \<longleftrightarrow> z \<in> set ys \<or> z \<in> set xs \<and> key z \<notin> key ` set ys"
proof -
  have x: "first_with_id key (rev xs) (key z) = Some z \<longleftrightarrow> z \<in> set xs"
    and y: "first_with_id key (rev ys) (key z) = Some z \<longleftrightarrow> z \<in> set ys"
    using assms by (simp_all add: first_with_id_inj)
  show ?thesis
  proof (cases "key z \<in> key ` set ys")
    case True
    then obtain v where "first_with_id key (rev ys) (key z) = Some v"
      using first_with_id_None [of key "rev ys" "key z"] by auto
    with y True show ?thesis by (auto simp: by_id_sorted_member first_with_id_append)
  next
    case False
    then have "first_with_id key (rev ys) (key z) = None" by (simp add: first_with_id_None)
    with x False show ?thesis by (auto simp: by_id_sorted_member first_with_id_append)
  qed
qed

lemma upserted_member:
  assumes "inj_on key (set xs)" "inj_on key (set ys)"
  shows "z \<in> set (upserted key xs ys) \<longleftrightarrow> z \<in> set ys \<or> z \<in> set xs \<and> key z \<notin> key ` set ys"
  using merged_member [OF assms] by (auto simp: upserted_def)

lemma upserted_strict: "strict key xs \<Longrightarrow> strict key (upserted key xs ys)"
  by (simp add: upserted_def by_id_sorted_strict)

lemma removed_from_filter: "removed_from key xs gone = filter (\<lambda>x. key x \<notin> set gone) xs"
  by (auto simp: removed_from_def)

text \<open>The elements of \<open>changed\<close> are those of the new list \<open>ys\<close>, the keys of \<open>gone\<close> have left it, and
  every other element is related to an old one: upserting and removing yields the new list.\<close>

lemma upsert_mirror:
  assumes xs: "strict key xs" and ys: "strict key ys" and ch: "set changed \<subseteq> set ys"
    and cover: "\<And>y. y \<in> set ys \<Longrightarrow> key y \<notin> key ` set changed \<Longrightarrow> \<exists>x \<in> set xs. key x = key y \<and> R x y"
    and old: "key ` set xs \<subseteq> key ` set ys \<union> set gone" and gone: "set gone \<inter> key ` set ys = {}"
    and refl: "\<And>x. R x x"
  shows "list_all2 R (removed_from key (upserted key xs changed) gone) ys"
proof -
  have ix: "inj_on key (set xs)" and iy: "inj_on key (set ys)"
    using strict_distinct [OF xs] strict_distinct [OF ys] by (simp_all add: distinct_map)
  have ic: "inj_on key (set changed)" using iy ch by (rule inj_on_subset)
  let ?zs = "removed_from key (upserted key xs changed) gone"
  have mem: "z \<in> set ?zs \<longleftrightarrow> key z \<notin> set gone \<and> (z \<in> set changed \<or> z \<in> set xs \<and> key z \<notin> key ` set changed)" for z
    using upserted_member [OF ix ic] by (auto simp: removed_from_filter)
  show ?thesis
  proof (rule strict_list_all2)
    show "strict key ?zs" unfolding removed_from_filter by (intro strict_filter upserted_strict xs)
    show "strict key ys" by (rule ys)
    show "key ` set ?zs = key ` set ys"
    proof
      show "key ` set ?zs \<subseteq> key ` set ys" using mem ch old by blast
      show "key ` set ys \<subseteq> key ` set ?zs"
      proof
        fix k assume "k \<in> key ` set ys"
        then obtain y where y: "y \<in> set ys" "k = key y" by blast
        show "k \<in> key ` set ?zs"
        proof (cases "key y \<in> key ` set changed")
          case True
          then obtain c where "c \<in> set changed" "key c = key y" by auto
          moreover have "key c \<notin> set gone" using calculation y gone by auto
          ultimately show ?thesis using mem y by (metis imageI)
        next
          case False
          then obtain x where "x \<in> set xs" "key x = key y" using cover y by blast
          then show ?thesis using False mem gone y by (intro image_eqI [of _ _ x]) auto
        qed
      qed
    qed
    show "R z y" if z: "z \<in> set ?zs" and y: "y \<in> set ys" "key z = key y" for z y
    proof (cases "key y \<in> key ` set changed")
      case True
      then have "z \<in> set ys" using z mem y ch by auto
      then show ?thesis using y iy refl by (metis inj_onD)
    next
      case False
      then obtain x where "x \<in> set xs" "key x = key y" "R x y" using cover y by blast
      moreover have "z \<notin> set changed" using False y by (metis imageI)
      then have "z \<in> set xs" using z mem by blast
      ultimately show ?thesis using ix y by (metis inj_onD)
    qed
  qed
qed

text \<open>The same for a list whose keys stay.\<close>

lemma upsert_kept:
  assumes "list_all2 R xs xs0" and key: "\<And>x y. R x y \<Longrightarrow> key x = key y"
    and refl: "\<And>x. R x x" and trans: "\<And>x y z. R x y \<Longrightarrow> R y z \<Longrightarrow> R x z"
    and xs0: "strict key xs0" and kept: "kept key R M xs0 ys" and ch: "set changed \<subseteq> set ys"
    and M: "M \<inter> key ` set ys \<subseteq> key ` set changed"
  shows "list_all2 R (upserted key xs changed) ys"
proof -
  have "map key xs = map key xs0" using assms(1) key by (auto simp: list_all2_conv_all_nth intro: nth_equalityI)
  moreover have "map key ys = map key xs0" using kept by (simp add: kept_def)
  ultimately have keys: "map key xs = map key ys" "strict key xs" "strict key ys"
    using xs0 by (simp_all add: strict_def)
  have "list_all2 R (removed_from key (upserted key xs changed) []) ys"
  proof (rule upsert_mirror [OF keys(2,3) ch])
    show "\<exists>x \<in> set xs. key x = key y \<and> R x y" if y: "y \<in> set ys" "key y \<notin> key ` set changed" for y
    proof -
      obtain i where i: "i < length ys" "y = ys ! i" using y by (auto simp: in_set_conv_nth)
      have l: "length xs0 = length ys" "length xs = length ys" using kept_length [OF kept] assms(1)
        by (auto simp: list_all2_lengthD)
      have "key y \<notin> M" using y M by blast
      then have "R (xs0 ! i) y" using kept i l kept_key [OF kept, of i] by (simp add: kept_def)
      moreover have "R (xs ! i) (xs0 ! i)" using assms(1) i l by (simp add: list_all2_conv_all_nth)
      ultimately have "R (xs ! i) y" by (rule trans [rotated])
      moreover have "xs ! i \<in> set xs" using i l by simp
      ultimately show ?thesis using key by blast
    qed
    show "key ` set xs \<subseteq> key ` set ys \<union> set []" using keys(1) by (metis list.set_map sup.cobounded1)
  qed (simp_all add: refl)
  then show ?thesis by (simp add: removed_from_filter)
qed

lemma merged_keys:
  assumes "inj_on key (set xs)" "inj_on key (set ys)"
  shows "key ` set (by_id_sorted key (xs @ ys)) = key ` set xs \<union> key ` set ys"
proof
  note m = merged_member [OF assms]
  show "key ` set (by_id_sorted key (xs @ ys)) \<subseteq> key ` set xs \<union> key ` set ys" using m by blast
  show "key ` set xs \<union> key ` set ys \<subseteq> key ` set (by_id_sorted key (xs @ ys))"
  proof
    fix k assume "k \<in> key ` set xs \<union> key ` set ys"
    then obtain z where z: "k = key z" "z \<in> set ys \<or> z \<in> set xs \<and> key z \<notin> key ` set ys" by auto
    show "k \<in> key ` set (by_id_sorted key (xs @ ys))" unfolding z(1) by (rule imageI) (use z(2) m in blast)
  qed
qed

text \<open>A merge of older and newer reports is current when the newer ones report what changed since.\<close>

lemma merged_current:
  assumes "set xs \<subseteq> set es" "kept key (=) (key ` set ys) es es'" "set ys \<subseteq> set es'" "distinct (map key es)"
  shows "set (by_id_sorted key (xs @ ys)) \<subseteq> set es'"
    "key ` set (by_id_sorted key (xs @ ys)) = key ` set xs \<union> key ` set ys"
proof -
  have "distinct (map key es')" using assms(2,4) by (simp add: kept_def)
  then have i: "inj_on key (set xs)" "inj_on key (set ys)"
    using assms(1,3,4) inj_on_subset by (auto simp: distinct_map)
  show "key ` set (by_id_sorted key (xs @ ys)) = key ` set xs \<union> key ` set ys" by (rule merged_keys [OF i])
  have "z \<in> set es'" if z: "z \<in> set xs" "key z \<notin> key ` set ys" for z
  proof -
    have "z \<in> set es" using z(1) assms(1) by blast
    then obtain j where "j < length es" "z = es ! j" by (auto simp: in_set_conv_nth)
    then have "z = es' ! j" "j < length es'" using assms(2) z(2) kept_length [OF assms(2)] by (simp_all add: kept_def)
    then show ?thesis by simp
  qed
  then show "set (by_id_sorted key (xs @ ys)) \<subseteq> set es'" using merged_member [OF i] assms(3) by blast
qed

end
