(* ===== verification/NightCards.thy ===== *)
theory NightCards
  imports Economy
begin

text \<open>
  The draw of the night cards returns (\<open>deterministicNightCardChoices\<close> of
  \<open>src/internal/server/game/manager.go\<close>). The loop draws from the seeds
  \<open>x \<mapsto> (x * 1099511628211) XOR 1469598103934665603\<close> on 64 bits until it has enough different cards. A
  map \<open>x \<mapsto> (a * x) XOR c\<close> with \<open>a mod 4 = 3\<close> and \<open>c\<close> odd runs through all words of any width in
  one cycle, so every card comes up. The proof is by induction on the width: one round on \<open>k\<close> bits
  flips bit \<open>k\<close>, because the carries into bit \<open>k\<close> sum up to an odd number.
\<close>

section \<open>A generator with a full cycle\<close>

unbundle bit_operations_syntax

locale xor_generator =
  fixes a c :: nat
  assumes a3: "a mod 4 = 3" and c_odd: "odd c"
begin

definition seed_step :: "nat \<Rightarrow> nat \<Rightarrow> nat" where
  "seed_step k x = take_bit k ((a * x) XOR c)"

abbreviation orbit :: "nat \<Rightarrow> nat \<Rightarrow> nat" where
  "orbit k n \<equiv> (seed_step k ^^ n) 0"

lemma seed_step_low: "j \<le> k \<Longrightarrow> take_bit j (seed_step k x) = seed_step j (take_bit j x)"
proof -
  assume "j \<le> k"
  have "take_bit j (a * x) = take_bit j (a * take_bit j x)" by (simp add: take_bit_eq_mod mod_mult_right_eq)
  with \<open>j \<le> k\<close> show ?thesis by (simp add: seed_step_def take_bit_xor)
qed

lemma orbit_low: "j \<le> k \<Longrightarrow> take_bit j (orbit k n) = orbit j n"
  by (induction n) (simp_all add: seed_step_low)

lemma orbit_bound: "orbit k n < 2 ^ k"
  by (cases n) (simp_all add: seed_step_def del: take_bit_xor)

text \<open>The carries into bit \<open>k\<close>: \<open>x\<close> and \<open>2 ^ k - x\<close> together give \<open>a - 1\<close>.\<close>

lemma a_coprime: "coprime a (2 ^ k)"
proof -
  have "odd a" using a3 by presburger
  then show ?thesis by (simp add: coprime_right_2_iff_odd)
qed

lemma carry_pair:
  assumes "0 < x" "x < 2 ^ k"
  shows "a * x div 2 ^ k + a * (2 ^ k - x) div 2 ^ k = a - 1"
proof -
  let ?m = "2 ^ k :: nat" and ?q = "a * x div 2 ^ k" and ?r = "a * x mod 2 ^ k"
  have "\<not> ?m dvd a * x"
    using assms a_coprime [of k] by (simp add: coprime_dvd_mult_right_iff coprime_commute nat_dvd_not_less)
  then have r: "0 < ?r" "?r < ?m" by (simp_all add: mod_greater_zero_iff_not_dvd)
  have "0 < a" using a3 by (cases a) auto
  then have "?q < a" using assms by (intro less_mult_imp_div_less) simp
  then obtain t where t: "a = ?q + t + 1" by (metis Suc_eq_plus1 add_Suc_right less_imp_Suc_add)
  have "a * (?m - x) + a * x = a * ?m" using assms by (simp flip: distrib_left)
  also have "\<dots> = ?m * ?q + ?m * t + ?m" using t by (metis distrib_left mult.commute mult_1_right)
  finally have "a * (?m - x) = ?m * t + (?m - ?r)"
    using r mult_div_mod_eq [of ?m "a * x"] by linarith
  moreover have "(?m * t + u) div ?m = t" if "u < ?m" for u using that by simp
  from this [of "?m - ?r"] have "(?m * t + (?m - ?r)) div ?m = t" using r by linarith
  ultimately have "a * (?m - x) div ?m = t" by (simp only:)
  then show ?thesis using t by linarith
qed

lemma carries_odd:
  assumes "0 < k"
  shows "odd (\<Sum>x < 2 ^ k. a * x div 2 ^ k)"
proof -
  let ?m = "2 ^ k :: nat" and ?f = "\<lambda>x. a * x div 2 ^ k"
  let ?S = "\<Sum>x \<in> {1 ..< ?m}. ?f x"
  have "(\<Sum>x \<in> {1 ..< ?m}. ?f (?m - x)) = ?S"
    by (rule sum.reindex_bij_witness [of _ "\<lambda>x. ?m - x" "\<lambda>x. ?m - x"]) auto
  then have "2 * ?S = (\<Sum>x \<in> {1 ..< ?m}. ?f x + ?f (?m - x))" by (simp add: sum.distrib)
  also have "\<dots> = (\<Sum>x \<in> {1 ..< ?m}. a - 1)" by (intro sum.cong) (auto simp: carry_pair)
  also have "\<dots> = (?m - 1) * (a - 1)" by simp
  finally have "2 * ?S = (?m - 1) * (a - 1)" .
  moreover obtain b where b: "a - 1 = 2 * b" "odd b"
  proof -
    have "a = 4 * (a div 4) + 3" using a3 by presburger
    then show thesis using that [of "2 * (a div 4) + 1"] by simp
  qed
  ultimately have "?S = (?m - 1) * b" by simp
  moreover have "odd (?m - 1)" using assms by simp
  ultimately have "odd ?S" using b by simp
  moreover have "(\<Sum>x < ?m. ?f x) = ?S"
    by (simp add: lessThan_atLeast0 sum.atLeast_Suc_lessThan)
  ultimately show ?thesis by simp
qed

text \<open>Bit \<open>k\<close> of a step.\<close>

lemma top_bit_step:
  "odd (seed_step (Suc k) x div 2 ^ k) \<longleftrightarrow>
     odd (x div 2 ^ k + a * take_bit k x div 2 ^ k + c div 2 ^ k)"
proof -
  have a: "odd a" using a3 by presburger
  have "a * x = a * take_bit k x + 2 ^ k * (a * (x div 2 ^ k))"
    by (metis (no_types, lifting) distrib_left mult.left_commute mod_mult_div_eq take_bit_eq_mod)
  then have "a * x div 2 ^ k = a * take_bit k x div 2 ^ k + a * (x div 2 ^ k)" by simp
  moreover have "odd (seed_step (Suc k) x div 2 ^ k) \<longleftrightarrow> (odd (a * x div 2 ^ k) \<noteq> odd (c div 2 ^ k))"
    unfolding seed_step_def by (simp flip: bit_iff_odd add: bit_take_bit_iff bit_xor_iff del: take_bit_xor)
  ultimately show ?thesis using a by auto
qed

lemma top_bit_orbit:
  "odd (orbit (Suc k) (n + m) div 2 ^ k) \<longleftrightarrow>
     odd (orbit (Suc k) n div 2 ^ k + (\<Sum>i < m. a * orbit k (n + i) div 2 ^ k) + m * (c div 2 ^ k))"
proof (induction m)
  case (Suc m)
  have "odd (orbit (Suc k) (n + Suc m) div 2 ^ k) \<longleftrightarrow>
      odd (orbit (Suc k) (n + m) div 2 ^ k + a * orbit k (n + m) div 2 ^ k + c div 2 ^ k)"
    using top_bit_step [of k "orbit (Suc k) (n + m)"] orbit_low [of k "Suc k" "n + m"] by simp
  then show ?case using Suc.IH by auto
qed simp

definition full :: "nat \<Rightarrow> bool" where
  "full k \<longleftrightarrow> orbit k ` {..< 2 ^ k} = {..< 2 ^ k} \<and> orbit k (2 ^ k) = 0"

lemma orbit_period: "full k \<Longrightarrow> orbit k (2 ^ k + n) = orbit k n"
  by (simp add: full_def add.commute [of _ n] funpow_add)

lemma orbit_flips:
  assumes "full k" and "0 < k"
  shows "odd (orbit (Suc k) (2 ^ k + n) div 2 ^ k) \<longleftrightarrow> even (orbit (Suc k) n div 2 ^ k)"
proof -
  let ?g = "\<lambda>x. a * x div 2 ^ k"
  have "inj_on (orbit k) {..< 2 ^ k}" using assms(1) by (intro eq_card_imp_inj_on) (simp_all add: full_def)
  then have "(\<Sum>i < 2 ^ k. ?g (orbit k i)) = (\<Sum>x < 2 ^ k. ?g x)"
    using assms(1) sum.reindex [of "orbit k" "{..< 2 ^ k}" ?g] by (simp add: full_def)
  then have "odd (orbit (Suc k) (2 ^ k) div 2 ^ k)"
    using top_bit_orbit [where k = k and n = 0 and m = "2 ^ k"] carries_odd [OF assms(2)] assms(2) by (simp only: add_0) simp
  then show ?thesis
    using top_bit_orbit [where k = k and n = "2 ^ k" and m = n]
      top_bit_orbit [where k = k and n = 0 and m = n] orbit_period [OF assms(1)] by auto
qed

lemma word_split: "(x :: nat) < 2 ^ Suc k \<Longrightarrow> x = take_bit k x + (if odd (x div 2 ^ k) then 2 ^ k else 0)"
proof -
  assume "x < 2 ^ Suc k"
  then have "x div 2 ^ k < 2" by (simp add: less_mult_imp_div_less)
  then have "x div 2 ^ k = (if odd (x div 2 ^ k) then 1 else 0)" by (cases "x div 2 ^ k") auto
  then show ?thesis using mod_div_mult_eq [of x "2 ^ k"] by (simp add: take_bit_eq_mod split: if_splits)
qed

lemma full_Suc:
  assumes "full k" and "0 < k"
  shows "full (Suc k)"
proof -
  have word: "orbit (Suc k) n = take_bit k (orbit (Suc k) n) + (if odd (orbit (Suc k) n div 2 ^ k) then 2 ^ k else 0)" for n
    by (rule word_split [OF orbit_bound])
  have low: "take_bit k (orbit (Suc k) n) = orbit k n" for n by (rule orbit_low) simp
  have "orbit (Suc k) (2 ^ k + (2 ^ k + 0)) = orbit k 0"
    using word [of "2 ^ k + (2 ^ k + 0)"] orbit_flips [OF assms, of "2 ^ k + 0"] orbit_flips [OF assms, of 0]
    by (simp only: low orbit_period [OF assms(1)]) simp
  then have zero: "orbit (Suc k) (2 ^ Suc k) = 0" by (simp add: mult_2)
  have "y \<in> orbit (Suc k) ` {..< 2 ^ Suc k}" if y: "y < 2 ^ Suc k" for y
  proof -
    have "take_bit k y \<in> orbit k ` {..< 2 ^ k}" using assms(1) by (simp add: full_def)
    then obtain n where n: "n < 2 ^ k" "orbit k n = take_bit k y" by auto
    have same: "orbit (Suc k) m = y" if "orbit k m = take_bit k y" "odd (orbit (Suc k) m div 2 ^ k) = odd (y div 2 ^ k)" for m
      using word [of m] word_split [OF y] that by (simp only: low)
    show ?thesis
    proof (cases "odd (orbit (Suc k) n div 2 ^ k) = odd (y div 2 ^ k)")
      case True
      then show ?thesis using same n by (intro image_eqI [of _ _ n]) auto
    next
      case False
      then have "orbit (Suc k) (2 ^ k + n) = y"
        using orbit_flips [OF assms, of n] orbit_period [OF assms(1), of n] n by (intro same) auto
      then show ?thesis using n by (intro image_eqI [of _ _ "2 ^ k + n"]) auto
    qed
  qed
  then show ?thesis using zero orbit_bound [where k = "Suc k"] unfolding full_def by (auto simp del: power_Suc)
qed

lemma full_cycle: "0 < k \<Longrightarrow> full k"
proof (induction k rule: nat_induct_non_zero)
  case 1
  have "seed_step 1 0 = 1" "seed_step 1 1 = 0"
    using a3 c_odd by (simp_all add: seed_step_def take_bit_Suc mod2_eq_if even_xor_iff) presburger
  then show ?case by (auto simp: full_def lessThan_Suc numeral_2_eq_2)
qed (rule full_Suc)

lemma every_seed_comes:
  assumes "0 < k" "x < 2 ^ k" "y < 2 ^ k"
  shows "\<exists>n. (seed_step k ^^ n) x = y"
proof -
  have f: "full k" by (rule full_cycle [OF assms(1)])
  then have "x \<in> orbit k ` {..< 2 ^ k}" "y \<in> orbit k ` {..< 2 ^ k}" using assms by (simp_all add: full_def)
  then obtain i j where i: "i < 2 ^ k" "orbit k i = x" and j: "orbit k j = y" by blast
  have "(seed_step k ^^ (j + (2 ^ k - i))) x = orbit k (j + (2 ^ k - i) + i)"
    unfolding i(2) [symmetric] by (simp only: funpow_add comp_apply)
  also have "\<dots> = orbit k (2 ^ k + j)" using i(1) by (simp add: add.commute)
  finally show ?thesis using orbit_period [OF f] j by auto
qed

end

section \<open>The draw\<close>

interpretation night: xor_generator 1099511628211 1469598103934665603
  by unfold_locales simp_all

lemma next_choice_seed_unat: "unat (next_choice_seed seed) = night.seed_step 64 (unat seed)"
proof -
  have "unat (seed * 1099511628211) = take_bit 64 (1099511628211 * unat seed)"
    by (simp add: unat_word_ariths take_bit_eq_mod mult.commute)
  moreover have "unat (1469598103934665603 :: uint64) = take_bit 64 1469598103934665603"
    by (simp add: take_bit_eq_mod)
  ultimately show ?thesis
    unfolding next_choice_seed_def night.seed_step_def unsigned_xor_eq take_bit_xor by (simp only:)
qed

lemma next_choice_seed_funpow: "unat ((next_choice_seed ^^ n) seed) = (night.seed_step 64 ^^ n) (unat seed)"
  by (induction n) (simp_all add: next_choice_seed_unat)

abbreviation drawn :: "uint64 \<Rightarrow> CardType" where
  "drawn seed \<equiv> KnownCards ! mod_index seed (length KnownCards)"

lemma every_card_comes:
  assumes "known \<in> set KnownCards"
  shows "\<exists>n. drawn ((next_choice_seed ^^ n) seed) = known"
proof -
  obtain i where i: "i < length KnownCards" "known = KnownCards ! i" using assms by (auto simp: in_set_conv_nth)
  have l: "length KnownCards = 11" by (simp add: KnownCards_def knownCardCatalog_def)
  obtain n where "(night.seed_step 64 ^^ n) (unat seed) = i"
    using night.every_seed_comes [of 64 "unat seed" i] unsigned_less [of seed] i l by auto
  then have "unat ((next_choice_seed ^^ n) seed) = i" by (simp add: next_choice_seed_funpow)
  then have "mod_index ((next_choice_seed ^^ n) seed) (length KnownCards) = i"
    using i l by (simp add: mod_index_def unat_mod_distrib)
  then show ?thesis using i by auto
qed

text \<open>The loop returns: a card outside \<open>out\<close> comes up, and each one makes the hand longer.\<close>

lemma night_card_loop_new:
  assumes "drawn seed \<notin> set out" and "length out < choiceCount"
  shows "night_card_loop seed out choiceCount = night_card_loop (next_choice_seed seed) (out @ [drawn seed]) choiceCount"
  using assms by (subst night_card_loop.simps) (simp add: Let_def)

lemma drawn_known: "drawn seed \<in> set KnownCards"
  by (rule nth_mod_index_in_set) (simp add: KnownCards_def knownCardCatalog_def)

lemma night_card_loop_progress:
  assumes "drawn ((next_choice_seed ^^ n) seed) \<notin> set out" and "length out < choiceCount"
    and more: "\<And>seed' new. new \<in> set KnownCards - set out \<Longrightarrow> P (night_card_loop seed' (out @ [new]) choiceCount)"
  shows "P (night_card_loop seed out choiceCount)"
  using assms(1)
proof (induction n arbitrary: seed)
  case (Suc n)
  show ?case
  proof (cases "drawn seed \<in> set out")
    case True
    then have "night_card_loop seed out choiceCount = night_card_loop (next_choice_seed seed) out choiceCount"
      using assms(2) by (subst night_card_loop.simps) (simp add: Let_def)
    moreover have "drawn ((next_choice_seed ^^ n) (next_choice_seed seed)) \<notin> set out"
      using Suc.prems by (simp add: funpow_swap1)
    ultimately show ?thesis using Suc.IH by simp
  qed (simp add: night_card_loop_new assms(2) more drawn_known)
qed (simp add: night_card_loop_new assms(2) more drawn_known)

lemma night_card_loop_returns:
  assumes "distinct out" "set out \<subseteq> set KnownCards" "length out \<le> choiceCount" "choiceCount \<le> length KnownCards"
  shows "\<exists>cs. night_card_loop seed out choiceCount = Some cs \<and> distinct cs \<and> set cs \<subseteq> set KnownCards \<and>
    length cs = choiceCount"
  using assms(1-3)
proof (induction "choiceCount - length out" arbitrary: seed out)
  case 0
  then show ?case by (subst night_card_loop.simps) auto
next
  case (Suc m)
  have "card (set out) < card (set KnownCards)"
    using Suc.hyps(2) Suc.prems(1) assms(4) by (simp add: distinct_card KnownCards_def knownCardCatalog_def)
  then obtain known where "known \<in> set KnownCards - set out"
    by (metis Diff_eq_empty_iff card_mono ex_in_conv finite_set not_le)
  then obtain n where "drawn ((next_choice_seed ^^ n) seed) \<notin> set out" using every_card_comes by (metis DiffE)
  then show ?case
  proof (rule night_card_loop_progress)
    fix seed' new assume "new \<in> set KnownCards - set out"
    then show "\<exists>cs. night_card_loop seed' (out @ [new]) choiceCount = Some cs \<and> distinct cs \<and>
        set cs \<subseteq> set KnownCards \<and> length cs = choiceCount"
      using Suc.hyps(2) Suc.prems by (intro Suc.hyps(1)) auto
  qed (use Suc.hyps(2) in simp)
qed

lemma night_cards_return:
  "\<exists>cs. deterministicNightCardChoices matchID playerID cycle choiceCount = Some cs \<and> sorted cs \<and> distinct cs \<and>
     list_all IsKnownCard cs \<and> length cs = min (nat choiceCount) (length KnownCards)"
proof (cases "choiceCount \<le> 0")
  case True
  then show ?thesis by (simp add: deterministicNightCardChoices_def)
next
  case False
  let ?n = "min (nat choiceCount) (length KnownCards)"
  define seed where "seed = fnv_Write (fnv_Write (fnv_Write (fnv_Write fnv_New64a (bytes_of_string (MatchID_str matchID))) [0])
    (bytes_of_string (PlayerID_str playerID))) [cycle]"
  have k: "KnownCards \<noteq> []" and i: "set KnownCards = Collect IsKnownCard"
    by (auto simp: KnownCards_def knownCardCatalog_def IsKnownCard_def knownCards_def)
  have "deterministicNightCardChoices matchID playerID cycle choiceCount = map_option sort (night_card_loop seed [] ?n)"
    using False k by (simp add: deterministicNightCardChoices_def Let_def seed_def min_def)
  moreover obtain cs where "night_card_loop seed [] ?n = Some cs" "distinct cs" "set cs \<subseteq> set KnownCards" "length cs = ?n"
    using night_card_loop_returns [of "[]" ?n seed] by auto
  ultimately show ?thesis using i by (intro exI [of _ "sort cs"]) (auto simp: list_all_iff)
qed

text \<open>C7. The draw of the night cards always returns: for every match, player, cycle and number of
  choices the loop ends, with the requested number of different known cards (all of them when more
  are requested), in sorted order.\<close>

theorem night_cards_dealt:
  "\<exists>cs. deterministicNightCardChoices matchID playerID cycle choiceCount = Some cs \<and> sorted cs \<and> distinct cs \<and>
     list_all IsKnownCard cs \<and> length cs = min (nat choiceCount) (length KnownCards)"
  using night_cards_return by blast

end
