(* ===== verification/PhaseLaws.thy ===== *)
theory PhaseLaws
  imports KeyedLists NightCards
begin

text \<open>
  The work at the start of a day and of a night (\<open>day_work\<close> and \<open>night_work\<close> of \<open>Tick\<close>):
  which players and entities it changes and which it reports. The sidearms of the authority players
  are restored with a silent normalisation of the inventory, so a change of an inventory of more
  than three stacks goes unreported; \<open>light\<close> excludes this.
\<close>

section \<open>Room in an inventory\<close>

lemma canonical_support:
  assumes "canonical inventory"
  shows "raw_qty inventory i \<noteq> 0 \<longleftrightarrow> i \<in> Item ` set inventory"
proof
  assume "raw_qty inventory i \<noteq> 0"
  then show "i \<in> Item ` set inventory" using raw_qty_zero by metis
next
  assume "i \<in> Item ` set inventory"
  then obtain s where s: "s \<in> set inventory" "i = Item s" by blast
  then have "Quantity s \<noteq> 0" using assms by (auto simp: canonical_def)
  then show "raw_qty inventory i \<noteq> 0"
    using raw_qty_member [OF canonical_distinct [OF assms] s(1)] s(2) by (simp add: unat_eq_zero)
qed

lemma canonical_length:
  assumes "canonical inventory"
  shows "length inventory = card {i. raw_qty inventory i \<noteq> 0}" "finite {i. raw_qty inventory i \<noteq> 0}"
proof -
  have s: "{i. raw_qty inventory i \<noteq> 0} = set (map Item inventory)"
    using canonical_support [OF assms] by auto
  show "length inventory = card {i. raw_qty inventory i \<noteq> 0}"
    unfolding s by (simp only: distinct_card [OF canonical_distinct [OF assms]] length_map)
  show "finite {i. raw_qty inventory i \<noteq> 0}" unfolding s by simp
qed

lemma bag_add_length:
  assumes "canonical inventory" "canonical inventory'" "raw_qty inventory' = bag_add (raw_qty inventory) item n" "n \<noteq> 0"
  shows "length inventory' = (if raw_qty inventory item = 0 then Suc (length inventory) else length inventory)"
proof -
  have "{i. raw_qty inventory' i \<noteq> 0} = insert item {i. raw_qty inventory i \<noteq> 0}"
    using assms(3,4) by (auto simp: bag_add_def)
  then show ?thesis using canonical_length [OF assms(1)] canonical_length [OF assms(2)]
    by (simp add: card_insert_if)
qed

lemma bag_remove_length:
  assumes "canonical inventory" "canonical inventory'" and "s \<in> set inventory"
    and "raw_qty inventory' = bag_remove (raw_qty inventory) (Item s) (unat (Quantity s))"
  shows "Suc (length inventory') = length inventory"
proof -
  have q: "raw_qty inventory (Item s) = unat (Quantity s)"
    by (rule raw_qty_member [OF canonical_distinct [OF assms(1)] assms(3)])
  have "{i. raw_qty inventory' i \<noteq> 0} = {i. raw_qty inventory i \<noteq> 0} - {Item s}"
    using q unfolding assms(4) by (auto simp: bag_remove_def)
  moreover have "Item s \<in> {i. raw_qty inventory i \<noteq> 0}"
    using canonical_support [OF assms(1)] assms(3) by blast
  ultimately show ?thesis using canonical_length [OF assms(1)] canonical_length [OF assms(2)]
    by (metis card_Suc_Diff1)
qed

lemma AddItem_room:
  assumes "canonical (Inventory p)" "IsKnownItem item" "amount \<noteq> 0" "raw_qty (Inventory p) item = 0"
    and "item \<noteq> ItemSatchel" and "int (Suc (length (Inventory p))) \<le> stackLimitForBase (Inventory p) (baseStackLimitForPlayer p)"
  shows "AddItem p item amount \<noteq> None"
proof -
  have b: "raw_qty (Inventory p) item + unat amount \<le> 255" using assms(4) unat_uint8_le [of amount] by simp
  obtain v where v: "canonical v" "raw_qty v = bag_add (raw_qty (Inventory p)) item (unat amount)"
    by (rule addToInventory_eq [OF assms(1,3,2) b])
  have "length v = Suc (length (Inventory p))"
    using bag_add_length [OF assms(1) v(1,2)] assms(3,4) by (simp add: unat_eq_zero)
  then have "within_limit v (baseStackLimitForPlayer p)"
    using assms(5,6) v(2) by (simp add: within_limit_def stackLimitForBase_eq bag_add_def)
  then have "AddItem p item amount = Some (p\<lparr>Inventory := v\<rparr>)"
    using assms(1-3) b v unfolding AddItem_Some_iff player_qty_def by (auto simp: normalizeInventory_id)
  then show ?thesis by simp
qed

section \<open>The sidearms of the authority\<close>

lemma evict_first_Some:
  "evict_first allowed q = Some q' \<Longrightarrow>
   \<exists>s \<in> set (Inventory q). allowed s \<and> RemoveItem q (Item s) (Quantity s) = Some q'"
  by (auto simp: evict_first_def find_Some_iff split: option.splits)

lemma evict_True:
  assumes "evictAuthorityOverflowItemForSidearmLocked q = (q', True)"
  shows "\<exists>s \<in> set (Inventory q). Item s \<noteq> ItemPistol \<and> RemoveItem q (Item s) (Quantity s) = Some q'"
proof (cases "evict_first (\<lambda>s. \<not> (Item s = ItemBaton \<or> Item s = ItemPistol \<or> Item s = ItemBullet)) q")
  case None
  then show ?thesis using assms
    by (auto simp: evictAuthorityOverflowItemForSidearmLocked_def attempt_def find_Some_iff
        split: if_splits option.splits intro!: bexI [OF _ nth_mem])
next
  case (Some x)
  then have "x = q'" using assms by (auto simp: evictAuthorityOverflowItemForSidearmLocked_def split: if_splits)
  with evict_first_Some [OF Some] show ?thesis by blast
qed

lemma evict_False:
  "evictAuthorityOverflowItemForSidearmLocked q = (q', False) \<Longrightarrow> q' = q"
  by (auto simp: evictAuthorityOverflowItemForSidearmLocked_def attempt_def split: if_splits option.splits)

text \<open>An eviction makes room for the pistol.\<close>

lemma evicted_room:
  assumes c: "canonical (Inventory q)" and w: "within_limit (Inventory q) (baseStackLimitForPlayer q)"
    and n: "\<not> HasItem q ItemPistol 1" and full: "AddItem q ItemPistol 1 = None"
    and s: "s \<in> set (Inventory q)" "Item s \<noteq> ItemPistol" and r: "RemoveItem q (Item s) (Quantity s) = Some q'"
  shows "AddItem q' ItemPistol 1 \<noteq> None"
proof -
  have known: "IsKnownItem ItemPistol" by (simp add: IsKnownItem_def knownItems_def)
  have z: "raw_qty (Inventory q) ItemPistol = 0"
    using n c known by (simp add: HasItem_iff player_qty_def normalizeInventory_id)
  obtain v where q': "q' = q\<lparr>Inventory := v\<rparr>" and v: "canonical v"
    "raw_qty v = bag_remove (raw_qty (Inventory q)) (Item s) (unat (Quantity s))"
    and sat: "Item s = ItemSatchel \<longrightarrow> within_limit v (baseStackLimitForPlayer q)"
    using r c by (auto simp: RemoveItem_Some_iff player_qty_def normalizeInventory_id)
  have l: "Suc (length v) = length (Inventory q)" by (rule bag_remove_length [OF c v(1) s(1) v(2)])
  have b: "baseStackLimitForPlayer q' = baseStackLimitForPlayer q" by (simp add: q' baseStackLimitForPlayer_def)
  have "int (length (Inventory q)) \<ge> stackLimitForBase (Inventory q) (baseStackLimitForPlayer q)"
    using AddItem_room [OF c known _ z, of 1] full by (cases "int (Suc (length (Inventory q))) \<le>
      stackLimitForBase (Inventory q) (baseStackLimitForPlayer q)") auto
  moreover have "Item s = ItemSatchel \<Longrightarrow> raw_qty (Inventory q) ItemSatchel \<noteq> 0"
    using canonical_support [OF c, of ItemSatchel] s(1) by (metis imageI)
  moreover have "Item s = ItemSatchel \<Longrightarrow> raw_qty v ItemSatchel = 0"
    using raw_qty_member [OF canonical_distinct [OF c] s(1)] by (simp add: v(2) bag_remove_def)
  ultimately have i: "Item s \<noteq> ItemSatchel"
    using sat l by (auto simp: within_limit_def stackLimitForBase_eq)
  then have "raw_qty v ItemSatchel = raw_qty (Inventory q) ItemSatchel" by (simp add: v(2) bag_remove_def)
  then have "int (Suc (length (Inventory q'))) \<le> stackLimitForBase (Inventory q') (baseStackLimitForPlayer q')"
    using w l b by (simp add: q' within_limit_def stackLimitForBase_eq)
  moreover have "raw_qty (Inventory q') ItemPistol = 0" using z s(2) v(2) by (auto simp: q' bag_remove_def)
  ultimately show ?thesis using v(1) known by (intro AddItem_room) (simp_all add: q')
qed

text \<open>An inventory of at most three stacks is rebuilt as it is.\<close>

lemma canonical_append: "canonical (xs @ ys) \<Longrightarrow> canonical xs"
  by (auto simp: canonical_def sorted_wrt_append)

lemma rebuild_inventory_id:
  assumes "canonical (xs @ ys)" "length (xs @ ys) \<le> 3" and "Inventory p = xs" "InventorySlots p = 3"
  shows "Inventory (rebuild_inventory ys p) = xs @ ys"
  using assms
proof (induction ys arbitrary: xs p)
  case (Cons s ys)
  have c: "canonical (xs @ [s])" "canonical xs" using Cons.prems(1) canonical_append [of "xs @ [s]" ys] canonical_append [of xs "s # ys"] by auto
  then have s: "IsKnownItem (Item s)" "Quantity s \<noteq> 0" and n: "raw_qty xs (Item s) = 0"
    by (auto simp: canonical_def sorted_wrt_append intro!: raw_qty_zero)
  have "raw_qty (xs @ [s]) = bag_add (raw_qty xs) (Item s) (unat (Quantity s))" by (auto simp: bag_add_def)
  moreover have "within_limit (xs @ [s]) (baseStackLimitForPlayer p)"
    using Cons.prems(2,4) by (simp add: within_limit_def stackLimitForBase_eq baseStackLimitForPlayer_def)
  ultimately have "AddItem p (Item s) (Quantity s) = Some (p\<lparr>Inventory := xs @ [s]\<rparr>)"
    using s n c Cons.prems(3) unat_uint8_le [of "Quantity s"]
    unfolding AddItem_Some_iff player_qty_def by (auto simp: normalizeInventory_id)
  moreover have "Item s \<noteq> NoItem" using s(1) by (auto simp: IsKnownItem_def knownItems_def)
  ultimately show ?case using s Cons.IH [of "xs @ [s]" "p\<lparr>Inventory := xs @ [s]\<rparr>"] Cons.prems by (simp add: attempt_def)
qed simp

definition light :: "PlayerState \<Rightarrow> bool" where
  "light p \<longleftrightarrow> (IsAuthorityPlayer p \<longrightarrow> length (Inventory p) \<le> 3)"

lemma normalizeInventory_light:
  assumes "canonical (Inventory p)" "length (Inventory p) \<le> 3" "InventorySlots p = playerInventorySlotCount"
  shows "normalizeInventoryToPlayerSlotsLocked (p\<lparr>InventorySlots := playerInventorySlotCount\<rparr>) = p"
proof -
  have "sort_key Item (Inventory p) = Inventory p"
    using assms(1) by (intro sort_key_id_if_sorted) (simp add: canonical_def strict_sorted_iff)
  then have "Inventory (rebuild_inventory (sort_key Item (Inventory p)) (zero_player\<lparr>InventorySlots := playerInventorySlotCount\<rparr>)) = Inventory p"
    using rebuild_inventory_id [of "[]" "Inventory p"] assms by (simp add: playerInventorySlotCount_def zero_player_def)
  then show ?thesis using assms(3) by (simp add: normalizeInventoryToPlayerSlotsLocked_def Let_def)
qed

text \<open>The pistol: a new one, if need be after an eviction.\<close>

abbreviation arm_pistol :: "PlayerState \<Rightarrow> bool \<Rightarrow> PlayerState \<times> bool" where
  "arm_pistol q updated \<equiv> (if \<not> HasItem q ItemPistol 1
     then (case AddItem q ItemPistol 1 of
             Some q \<Rightarrow> (q, True)
           | None \<Rightarrow>
               (case evictAuthorityOverflowItemForSidearmLocked q of
                  (q, True) \<Rightarrow> (case attempt q (AddItem q ItemPistol 1) of (q, added) \<Rightarrow> (q, added \<or> updated))
                | (q, False) \<Rightarrow> (q, updated)))
     else (q, updated))"

lemma evict_step: "player_step q (fst (evictAuthorityOverflowItemForSidearmLocked q))"
proof (cases "evictAuthorityOverflowItemForSidearmLocked q")
  case (Pair q' b)
  then show ?thesis using evict_True [of q q'] evict_False [of q q'] RemoveItem_SomeD by (cases b) auto
qed

lemma arm_pistol_step: "player_step q (fst (arm_pistol q updated))"
proof (cases "evictAuthorityOverflowItemForSidearmLocked q")
  case (Pair q' b)
  then have "player_step q q'" using evict_step [of q] by simp
  then have "player_step q (fst (attempt q' (AddItem q' ItemPistol 1)))" by (rule step_fst_attempt [OF _ AddItem_step])
  then show ?thesis using Pair \<open>player_step q q'\<close>
    by (auto simp: AddItem_SomeD case_prod_beta' split: option.split bool.split)
qed

lemma arm_pistol_honest:
  assumes "canonical (Inventory q)" "within_limit (Inventory q) (baseStackLimitForPlayer q)"
    and "\<not> snd (arm_pistol q updated)"
  shows "fst (arm_pistol q updated) = q" "\<not> updated"
proof -
  have "fst (arm_pistol q updated) = q \<and> \<not> updated"
  proof (cases "\<not> HasItem q ItemPistol 1 \<and> AddItem q ItemPistol 1 = None")
    case True
    obtain q' b where e: "evictAuthorityOverflowItemForSidearmLocked q = (q', b)" by force
    have "\<not> b"
    proof
      assume b
      then obtain s where "s \<in> set (Inventory q)" "Item s \<noteq> ItemPistol" "RemoveItem q (Item s) (Quantity s) = Some q'"
        using evict_True e by auto
      then have "AddItem q' ItemPistol 1 \<noteq> None" using evicted_room [OF assms(1,2)] True by blast
      then show False using assms(3) True e \<open>b\<close> by (auto simp: attempt_def)
    qed
    then show ?thesis using assms(3) True e evict_False by auto
  qed (use assms(3) in \<open>auto split: if_splits\<close>)
  then show "fst (arm_pistol q updated) = q" "\<not> updated" by blast+
qed

abbreviation arm_baton :: "PlayerState \<Rightarrow> PlayerState \<times> bool" where
  "arm_baton q \<equiv> (if \<not> HasItem q ItemBaton 1 then attempt q (AddItem q ItemBaton 1) else (q, False))"

lemma arm_baton_laws:
  "player_step q (fst (arm_baton q))" "\<not> snd (arm_baton q) \<Longrightarrow> fst (arm_baton q) = q"
  using AddItem_step [of q] by (auto simp: attempt_def split: option.splits)

lemma arm_baton_limit:
  assumes "canonical (Inventory q)" "within_limit (Inventory q) (baseStackLimitForPlayer q)"
  shows "canonical (Inventory (fst (arm_baton q)))"
    "within_limit (Inventory (fst (arm_baton q))) (baseStackLimitForPlayer (fst (arm_baton q)))"
  using assms by (auto simp: attempt_def AddItem_Some_iff baseStackLimitForPlayer_def split: option.splits)

lemma restore_sidearms_parts:
  fixes p :: PlayerState
  defines "q1 \<equiv> normalizeInventoryToPlayerSlotsLocked (p\<lparr>InventorySlots := playerInventorySlotCount\<rparr>)"
  defines "r2 \<equiv> arm_baton q1"
  defines "r3 \<equiv> arm_pistol (fst r2) (snd r2)"
  defines "r4 \<equiv> syncAuthorityBulletStackLocked (fst r3)"
  defines "r5 \<equiv> ensureEquippedItemForPlayerLocked (fst r4)"
  shows "restore_sidearms p = (fst r5, snd r3 \<or> snd r4 \<or> snd r5)"
  unfolding restore_sidearms_def Let_def case_prod_beta' r5_def r4_def r3_def r2_def q1_def by (rule refl)

lemma normalize_step: "player_step p (normalizeInventoryToPlayerSlotsLocked (p\<lparr>InventorySlots := playerInventorySlotCount\<rparr>))"
proof -
  have c: "canonical (Inventory (rebuild_inventory xs q))" if "canonical (Inventory q)" for xs q
    using that
  proof (induction xs q rule: rebuild_inventory.induct)
    case (2 s rest q)
    have "canonical (Inventory (fst (attempt q (AddItem q (Item s) (Quantity s)))))"
      using "2.prems" by (auto simp: attempt_def AddItem_Some_iff split: option.split)
    then show ?case using 2 by simp
  qed simp
  show ?thesis unfolding normalizeInventoryToPlayerSlotsLocked_def Let_def
    by (rule player_step_trans [OF _ step_inventory [OF c]]) (simp_all add: zero_player_def)
qed

lemma restore_step: "player_step p (fst (restore_sidearms p))"
proof -
  note honest = syncAuthority_honest [unfolded honest_def] ensureEquipped_honest [unfolded honest_def]
  show ?thesis unfolding restore_sidearms_parts fst_conv
    using normalize_step arm_baton_laws(1) arm_pistol_step honest player_step_trans by meson
qed

lemma restore_light:
  assumes "player_ok p" "length (Inventory p) \<le> 3" and "\<not> snd (restore_sidearms p)"
  shows "fst (restore_sidearms p) = p"
proof -
  have c: "canonical (Inventory p)" and n: "normalizeInventoryToPlayerSlotsLocked (p\<lparr>InventorySlots := playerInventorySlotCount\<rparr>) = p"
    using assms(1,2) normalizeInventory_light by (simp_all add: player_ok_def)
  have w: "within_limit (Inventory p) (baseStackLimitForPlayer p)"
    using assms(1,2) by (simp add: player_ok_def within_limit_def stackLimitForBase_eq baseStackLimitForPlayer_def playerInventorySlotCount_def)
  let ?r2 = "arm_baton p"
  let ?r3 = "arm_pistol (fst ?r2) (snd ?r2)"
  let ?r4 = "syncAuthorityBulletStackLocked (fst ?r3)"
  have u: "\<not> snd ?r3" "\<not> snd ?r4" "\<not> snd (ensureEquippedItemForPlayerLocked (fst ?r4))"
    using assms(3) unfolding restore_sidearms_parts n by simp_all
  have "fst ?r3 = fst ?r2" "\<not> snd ?r2" using arm_pistol_honest [OF arm_baton_limit [OF c w] u(1)] by blast+
  moreover from this have "fst ?r2 = p" using arm_baton_laws(2) by blast
  moreover have "fst ?r4 = fst ?r3" "fst (ensureEquippedItemForPlayerLocked (fst ?r4)) = fst ?r4"
    using u(2,3) syncAuthority_honest ensureEquipped_honest unfolding honest_def by blast+
  ultimately show ?thesis unfolding restore_sidearms_parts n fst_conv by (simp only:)
qed

section \<open>What a phase transition reports\<close>

text \<open>The work of the transitions relates the session \<open>s\<close> before it to the result: only players,
  entities and the offers of the prisoners change; a player or entity that is not reported is as it
  was; the reported states of entities are the current ones.\<close>

definition phase_tracked :: "matchSession \<Rightarrow> phase_work \<Rightarrow> bool" where
  "phase_tracked s pw \<longleftrightarrow>
     (\<exists>ps es bribes. pw_session pw = s\<lparr>s_gameState := (s_gameState s)\<lparr>Players := ps, Entities := es\<rparr>,
        s_npcPrisonerBribeState := bribes\<rparr>) \<and>
     list_all2 player_step (players_of s) (players_of (pw_session pw)) \<and>
     kept ID (=) (set (pw_players pw)) (players_of s) (players_of (pw_session pw)) \<and>
     set (pw_players pw) \<subseteq> ID ` set (players_of s) \<and>
     kept EntityState_ID (=) (EntityState_ID ` set (pw_entities pw)) (entities_of s) (entities_of (pw_session pw)) \<and>
     set (pw_entities pw) \<subseteq> set (entities_of (pw_session pw))"

lemma kept_trans: "kept key (=) M xs ys \<Longrightarrow> kept key (=) N ys zs \<Longrightarrow> kept key (=) (M \<union> N) xs zs"
proof -
  assume k: "kept key (=) M xs ys" "kept key (=) N ys zs"
  have "xs ! i = zs ! i" if "i < length xs" "key (xs ! i) \<notin> M \<union> N" for i
    using that k kept_length [OF k(1)] kept_key [OF k(1) that(1)] by (simp add: kept_def)
  then show ?thesis using k by (simp add: kept_def)
qed

definition reported :: "(PlayerState \<Rightarrow> PlayerState \<times> bool) \<Rightarrow> PlayerState \<Rightarrow> bool" where
  "reported f p \<longleftrightarrow> player_step p (fst (f p)) \<and> (snd (f p) \<or> fst (f p) = p)"

lemma sweep_players_eq:
  "sweep_players f session = (with_players (map (\<lambda>p. fst (f p))) session,
     map ID (filter (\<lambda>p. snd (f p)) (players_of session)))"
proof -
  have "List.map_filter (\<lambda>(playerID, _, changed). if changed then Some playerID else None) (map (\<lambda>p. (ID p, f p)) ps) =
      map ID (filter (\<lambda>p. snd (f p)) ps)" for ps :: "PlayerState list"
    by (induction ps) (auto simp: map_filter_simps case_prod_beta')
  then show ?thesis by (simp add: sweep_players_def Let_def with_players_def case_prod_beta' comp_def)
qed

lemma swept_players:
  assumes "list_all (reported f) ps"
  shows "list_all2 player_step ps (map (\<lambda>p. fst (f p)) ps)"
    "kept ID (=) (set (map ID (filter (\<lambda>p. snd (f p)) ps))) ps (map (\<lambda>p. fst (f p)) ps)"
proof -
  have r: "reported f (ps ! i)" if "i < length ps" for i using assms that by (simp add: list_all_length)
  then show "list_all2 player_step ps (map (\<lambda>p. fst (f p)) ps)"
    by (simp add: list_all2_conv_all_nth reported_def)
  have "map ID (map (\<lambda>p. fst (f p)) ps) = map ID ps"
    using assms by (auto simp: list_all_iff reported_def player_step_def)
  moreover have "ps ! i = fst (f (ps ! i))" if "i < length ps" "ID (ps ! i) \<notin> ID ` {p \<in> set ps. snd (f p)}" for i
    using r [OF that(1)] that by (auto simp: reported_def)
  ultimately show "kept ID (=) (set (map ID (filter (\<lambda>p. snd (f p)) ps))) ps (map (\<lambda>p. fst (f p)) ps)"
    by (simp add: kept_def)
qed

lemma phase_tracked_players:
  assumes t: "phase_tracked s pw" and r: "list_all (reported f) (players_of (pw_session pw))"
  shows "phase_tracked s (pw\<lparr>pw_session := with_players (map (\<lambda>p. fst (f p))) (pw_session pw),
    pw_players := fold List.insert (map ID (filter (\<lambda>p. snd (f p)) (players_of (pw_session pw)))) (pw_players pw)\<rparr>)"
proof -
  let ?ps = "players_of (pw_session pw)"
  let ?ks = "map ID (filter (\<lambda>p. snd (f p)) ?ps)"
  obtain ps es bribes where e: "pw_session pw = s\<lparr>s_gameState := (s_gameState s)\<lparr>Players := ps, Entities := es\<rparr>,
      s_npcPrisonerBribeState := bribes\<rparr>" using t unfolding phase_tracked_def by blast
  have k: "kept ID (=) (set (pw_players pw)) (players_of s) ?ps" "list_all2 player_step (players_of s) ?ps"
    "set (pw_players pw) \<subseteq> ID ` set (players_of s)"
    using t unfolding phase_tracked_def by blast+
  have set: "set (fold List.insert xs ys) = set xs \<union> set ys" for xs ys :: "PlayerID list"
    by (induction xs arbitrary: ys) auto
  have "set ?ks \<subseteq> ID ` set (players_of s)"
    using k(1) by (auto simp: kept_def dest!: arg_cong [where f = set])
  moreover have "list_all2 player_step (players_of s) (map (\<lambda>p. fst (f p)) ?ps)"
    using list_all2_trans [OF player_step_trans k(2) swept_players(1) [OF r]] .
  moreover have "kept ID (=) (set (pw_players pw) \<union> set ?ks) (players_of s) (map (\<lambda>p. fst (f p)) ?ps)"
    by (rule kept_trans [OF k(1) swept_players(2) [OF r]])
  moreover have "\<exists>ps es bribes. with_players (map (\<lambda>p. fst (f p))) (pw_session pw) =
      s\<lparr>s_gameState := (s_gameState s)\<lparr>Players := ps, Entities := es\<rparr>, s_npcPrisonerBribeState := bribes\<rparr>"
    unfolding e with_players_def
    by (intro exI [of _ "map (\<lambda>p. fst (f p)) ps"] exI [of _ es] exI [of _ bribes]) simp
  ultimately show ?thesis using t k(3) unfolding phase_tracked_def
    by (simp add: set Un_commute del: set_map)
qed

text \<open>The start of a day.\<close>

lemma restored_reported:
  assumes "player_ok p" "light p"
  shows "reported (\<lambda>p. if \<not> IsAuthorityPlayer p then (p, False) else restore_sidearms p) p"
  using assms restore_step restore_light by (auto simp: reported_def light_def)

lemma phase_tracked_light:
  assumes "list_all (\<lambda>p. player_ok p \<and> light p) (players_of (pw_session pw))"
  shows "list_all (\<lambda>p. player_ok p \<and> light p) (map (\<lambda>p. fst (if length (NightCardChoices p) = 0 then (p, False)
      else (p\<lparr>NightCardChoices := []\<rparr>, True))) (players_of (pw_session pw)))"
proof -
  have "player_ok (p\<lparr>NightCardChoices := []\<rparr>) = player_ok p" for p by (simp add: player_ok_def)
  then show ?thesis using assms by (auto simp: list_all_iff light_def)
qed

lemma day_work_tracked:
  assumes "phase_tracked s pw" and l: "list_all (\<lambda>p. player_ok p \<and> light p) (players_of (pw_session pw))"
  shows "phase_tracked s (day_work pw)"
proof -
  let ?c = "\<lambda>p. if length (NightCardChoices p) = 0 then (p, False) else (p\<lparr>NightCardChoices := []\<rparr>, True)"
  let ?a = "\<lambda>p. if \<not> IsAuthorityPlayer p then (p, False) else restore_sidearms p"
  let ?pw = "pw\<lparr>pw_session := with_players (map (\<lambda>p. fst (?c p))) (pw_session pw),
    pw_players := fold List.insert (map ID (filter (\<lambda>p. snd (?c p)) (players_of (pw_session pw)))) (pw_players pw)\<rparr>"
  have t: "phase_tracked s ?pw"
    by (rule phase_tracked_players [OF assms(1)]) (simp add: list_all_iff reported_def)
  have "list_all (reported ?a) (players_of (pw_session ?pw))"
    using phase_tracked_light [OF l] restored_reported by (auto simp: list_all_iff with_players_def)
  from phase_tracked_players [OF t this] show ?thesis
    unfolding day_work_def clearNightCardChoicesLocked_def restoreAuthoritySidearmsForNewDayLocked_def
      sweep_players_eq Let_def by simp
qed

text \<open>The start of a night.\<close>

lemma refresh_offer_laws:
  assumes "refresh_offer cycle e (session, changed) = (e', session', changed')"
  shows "EntityState_ID e' = EntityState_ID e" "EntityState_ID e \<in> set changed' \<or> e' = e"
    "set changed \<subseteq> set changed'" "\<exists>bribes. session' = session\<lparr>s_npcPrisonerBribeState := bribes\<rparr>"
proof -
  have "\<exists>bribes. session = session\<lparr>s_npcPrisonerBribeState := bribes\<rparr>"
    by (rule exI [of _ "s_npcPrisonerBribeState session"]) simp
  with assms show "EntityState_ID e' = EntityState_ID e" "EntityState_ID e \<in> set changed' \<or> e' = e"
    "set changed \<subseteq> set changed'" "\<exists>bribes. session' = session\<lparr>s_npcPrisonerBribeState := bribes\<rparr>"
    unfolding refresh_offer_def Let_def by (auto split: if_splits option.splits prod.splits)
qed

lemma refresh_loop_laws:
  "refresh_loop cycle es (session, changed) = (es', session', changed') \<Longrightarrow>
   kept EntityState_ID (=) (set changed') es es' \<and> set changed \<subseteq> set changed' \<and>
   (\<exists>bribes. session' = session\<lparr>s_npcPrisonerBribeState := bribes\<rparr>)"
proof (induction cycle es "(session, changed)" arbitrary: session changed es' session' changed' rule: refresh_loop.induct)
  case 1
  then show ?case by (auto simp: kept_def intro!: exI [of _ "s_npcPrisonerBribeState session'"])
next
  case (2 cycle e es)
  obtain e1 s1 c1 where o1: "refresh_offer cycle e (session, changed) = (e1, s1, c1)" by (metis prod_cases3)
  obtain es2 s2 c2 where l: "refresh_loop cycle es (s1, c1) = (es2, s2, c2)" by (metis prod_cases3)
  have r: "es' = e1 # es2" "session' = s2" "changed' = c2" using "2.prems" o1 l by auto
  note h = refresh_offer_laws [OF o1]
  have ih: "kept EntityState_ID (=) (set c2) es es2" "set c1 \<subseteq> set c2" "\<exists>bribes. s2 = s1\<lparr>s_npcPrisonerBribeState := bribes\<rparr>"
    using "2.hyps" [OF o1 [symmetric] _ l] by auto
  have "kept EntityState_ID (=) (set c2) (e # es) (e1 # es2)"
    using ih(1,2) h(1,2) by (auto simp: kept_def nth_Cons split: nat.split)
  moreover have "\<exists>bribes. s2 = session\<lparr>s_npcPrisonerBribeState := bribes\<rparr>" using ih(3) h(4) by auto
  ultimately show ?case using r h(3) ih(2) by auto
qed

lemma collectChangedEntities_laws:
  "set (collectChangedEntities session changed) \<subseteq> set (entities_of session)"
  "set changed \<inter> EntityState_ID ` set (entities_of session) \<subseteq>
     EntityState_ID ` set (collectChangedEntities session changed)"
proof -
  let ?f = "first_with_id EntityState_ID (entities_of session)"
  have m: "?f k = Some e \<Longrightarrow> e \<in> set (entities_of session) \<and> EntityState_ID e = k" for k e
    by (auto simp: first_with_id_def find_Some_iff)
  have s: "e \<in> set (collectChangedEntities session changed) \<longleftrightarrow> (\<exists>k \<in> set changed. ?f k = Some e)" for e
    by (auto simp: collectChangedEntities_def collect_by_id_def map_filter_def image_iff)
  show "set (collectChangedEntities session changed) \<subseteq> set (entities_of session)" using s m by blast
  show "set changed \<inter> EntityState_ID ` set (entities_of session) \<subseteq>
     EntityState_ID ` set (collectChangedEntities session changed)"
  proof
    fix k assume k: "k \<in> set changed \<inter> EntityState_ID ` set (entities_of session)"
    then obtain e where "?f k = Some e" using first_with_id_None [of EntityState_ID "entities_of session" k] by auto
    moreover from this have "e \<in> set (collectChangedEntities session changed)" using s k by blast
    ultimately show "k \<in> EntityState_ID ` set (collectChangedEntities session changed)" using m [of k e] by (auto intro!: image_eqI)
  qed
qed

lemma refresh_laws:
  assumes "refreshNPCPrisonerOffersForNightLocked session cycle = (session', refreshed)"
  shows "(\<exists>es bribes. session' = session\<lparr>s_gameState := (s_gameState session)\<lparr>Entities := es\<rparr>, s_npcPrisonerBribeState := bribes\<rparr>) \<and>
    kept EntityState_ID (=) (EntityState_ID ` set refreshed) (entities_of session) (entities_of session') \<and>
    set refreshed \<subseteq> set (entities_of session')"
proof -
  obtain es s1 changed where l: "refresh_loop cycle (entities_of session) (session, []) = (es, s1, changed)"
    by (metis prod_cases3)
  note h = refresh_loop_laws [OF l]
  then obtain bribes where b: "s1 = session\<lparr>s_npcPrisonerBribeState := bribes\<rparr>" by blast
  consider "session' = session" "refreshed = []" "entities_of session = []" |
      "session' = with_entities (\<lambda>_. es) s1" "refreshed = collectChangedEntities session' changed"
      using assms l by (auto simp: refreshNPCPrisonerOffersForNightLocked_def Let_def split: if_splits)
  then show ?thesis
    proof cases
      case 1
      then show ?thesis
        by (intro conjI exI [of _ "entities_of session"] exI [of _ "s_npcPrisonerBribeState session"]) (simp_all add: kept_def)
    next
      case 2
      then have e: "entities_of session' = es" by (simp add: with_entities_def)
      have k: "kept EntityState_ID (=) (set changed) (entities_of session) es" using h by blast
      have "EntityState_ID ` set es = EntityState_ID ` set (entities_of session)" using k by (metis kept_def list.set_map)
      then have "set changed \<inter> EntityState_ID ` set (entities_of session) \<subseteq> EntityState_ID ` set refreshed"
        using collectChangedEntities_laws(2) [of changed session'] 2(2) e by simp
      then have "EntityState_ID (entities_of session ! i) \<notin> set changed"
        if "i < length (entities_of session)" "EntityState_ID (entities_of session ! i) \<notin> EntityState_ID ` set refreshed" for i
        using that by (meson IntI imageI nth_mem subsetD)
      then have "kept EntityState_ID (=) (EntityState_ID ` set refreshed) (entities_of session) (entities_of session')"
        using k by (simp add: kept_def e)
      moreover have "set refreshed \<subseteq> set (entities_of session')" using 2(2) collectChangedEntities_laws(1) by blast
      ultimately show ?thesis
        by (intro conjI exI [of _ es] exI [of _ bribes]) (simp_all add: 2(1) b with_entities_def)
    qed
qed

text \<open>The offers of night cards.\<close>

lemma night_offer_exists: "\<exists>r. night_offer matchID cycle p = Some r"
proof -
  obtain cs where "deterministicNightCardChoices matchID (ID p) cycle 3 = Some cs" using night_cards_return by blast
  then show ?thesis by (simp add: night_offer_def)
qed

lemma night_offer_reported:
  "night_offer matchID cycle p = Some r \<Longrightarrow> player_step p (fst r) \<and> (snd r \<or> fst r = p)"
  unfolding night_offer_def no_offer_def by (auto split: if_splits)

lemma those_map_Some: "those (map (\<lambda>x. Some (f x)) xs) = Some (map f xs)"
  by (induction xs) simp_all

lemma night_offers_exist:
  "\<exists>f. list_all (reported f) ps \<and> those (map (night_offer matchID cycle) ps) = Some (map f ps)"
proof -
  obtain f where f: "\<And>p. night_offer matchID cycle p = Some (f p)" using night_offer_exists by metis
  then have "night_offer matchID cycle = (\<lambda>p. Some (f p))" by blast
  then have "those (map (night_offer matchID cycle) ps) = Some (map f ps)" by (simp only: those_map_Some)
  moreover have "list_all (reported f) ps" using night_offer_reported [OF f] by (simp add: list_all_iff reported_def)
  ultimately show ?thesis by blast
qed

lemma assignNightCardOffers_eq:
  "\<exists>f. list_all (reported f) (players_of session) \<and> assignNightCardOffersForCycleLocked session cycle =
     Some (with_players (map (\<lambda>p. fst (f p))) session, map ID (filter (\<lambda>p. snd (f p)) (players_of session)))"
proof -
  obtain f where f: "list_all (reported f) (players_of session)"
    "those (map (night_offer (s_matchID session) cycle) (players_of session)) = Some (map f (players_of session))"
    using night_offers_exist by blast
  have "List.map_filter (\<lambda>(p, changed). if changed then Some (ID p) else None) (map f ps) =
      map ID (filter (\<lambda>p. snd (f p)) ps)" if "list_all (reported f) ps" for ps
    using that by (induction ps) (auto simp: map_filter_simps case_prod_beta' reported_def player_step_def)
  then have "assignNightCardOffersForCycleLocked session cycle =
      Some (with_players (map (\<lambda>p. fst (f p))) session, map ID (filter (\<lambda>p. snd (f p)) (players_of session)))"
    using f by (simp add: assignNightCardOffersForCycleLocked_def session_players_def with_players_def comp_def)
  with f(1) show ?thesis by blast
qed

lemma mergeChangedEntityStates_eq: "mergeChangedEntityStates xs ys = by_id_sorted EntityState_ID (xs @ ys)"
  by (simp add: mergeChangedEntityStates_def by_id_sorted_def)

lemma night_work_tracked:
  assumes t: "phase_tracked s pw" and d: "distinct (map EntityState_ID (entities_of s))"
  shows "\<exists>pw'. night_work cycle pw = Some pw' \<and> phase_tracked s pw'"
proof -
  obtain session refreshed where r: "refreshNPCPrisonerOffersForNightLocked (pw_session pw) cycle = (session, refreshed)" by force
  note l = refresh_laws [OF r]
  obtain es' bribes' where e': "session = (pw_session pw)\<lparr>s_gameState := (s_gameState (pw_session pw))\<lparr>Entities := es'\<rparr>,
      s_npcPrisonerBribeState := bribes'\<rparr>" using l by blast
  obtain ps es bribes where e: "pw_session pw = s\<lparr>s_gameState := (s_gameState s)\<lparr>Players := ps, Entities := es\<rparr>,
      s_npcPrisonerBribeState := bribes\<rparr>" using t unfolding phase_tracked_def by blast
  have k: "kept EntityState_ID (=) (EntityState_ID ` set (pw_entities pw)) (entities_of s) (entities_of (pw_session pw))"
    and c: "set (pw_entities pw) \<subseteq> set (entities_of (pw_session pw))" using t unfolding phase_tracked_def by blast+
  have d': "distinct (map EntityState_ID (entities_of (pw_session pw)))" using k d by (simp add: kept_def)
  let ?m = "by_id_sorted EntityState_ID (pw_entities pw @ refreshed)"
  note m = merged_current [OF c conjunct1 [OF conjunct2 [OF l]] conjunct2 [OF conjunct2 [OF l]] d']
  have "kept EntityState_ID (=) (EntityState_ID ` set ?m) (entities_of s) (entities_of session)"
    unfolding m(2) using l by (intro kept_trans [OF k]) blast
  moreover have "\<exists>ps es bribes. session = s\<lparr>s_gameState := (s_gameState s)\<lparr>Players := ps, Entities := es\<rparr>,
      s_npcPrisonerBribeState := bribes\<rparr>"
    unfolding e' e by (intro exI [of _ ps] exI [of _ es'] exI [of _ bribes']) simp
  moreover have "players_of session = players_of (pw_session pw)" by (simp add: e')
  ultimately have t': "phase_tracked s (pw\<lparr>pw_session := session, pw_entities := ?m\<rparr>)"
    using t m(1) unfolding phase_tracked_def by simp
  obtain f where f: "list_all (reported f) (players_of session)" "assignNightCardOffersForCycleLocked session cycle =
     Some (with_players (map (\<lambda>p. fst (f p))) session, map ID (filter (\<lambda>p. snd (f p)) (players_of session)))"
    using assignNightCardOffers_eq by blast
  let ?ks = "map ID (filter (\<lambda>p. snd (f p)) (players_of session))"
  have "phase_tracked s (pw\<lparr>pw_session := with_players (map (\<lambda>p. fst (f p))) session, pw_entities := ?m,
      pw_players := fold List.insert ?ks (pw_players pw)\<rparr>)"
    using phase_tracked_players [OF t', of f] f(1) by (cases pw) simp
  then show ?thesis using f(2) r by (simp add: night_work_def Let_def mergeChangedEntityStates_eq)
qed

end
