(* ===== verification/Mirror.thy ===== *)
theory Mirror
  imports PhaseLaws
begin

text \<open>
  The client's copy of a match mirrors the server's (\<open>src/internal/server/game/manager.go\<close> and
  \<open>src/internal/client/netclient/snapshot_store.go\<close> together): the delta that the server stores for
  a tick, applied to a copy of the state before the tick, gives the state after it. First the changes
  that a tick collects, then the clock, then the composition.
\<close>

section \<open>Collected changes\<close>

text \<open>The work state after the commands of the next tick.\<close>

definition after_inputs :: "Decoders \<Rightarrow> matchSession \<Rightarrow> tick_state" where
  "after_inputs dec s = (let (s1, commands) = begin_tick s
     in snd (run_state (run_inputs dec commands) (start_work s1)))"

lemma collected_set:
  assumes "distinct (map key xs)"
  shows "set (collect_by_id key xs ks) = {x \<in> set xs. key x \<in> set ks}"
proof -
  have "x \<in> set (collect_by_id key xs ks) \<longleftrightarrow> (\<exists>k \<in> set ks. first_with_id key xs k = Some x)" for x
    by (auto simp: collect_by_id_def map_filter_def image_iff)
  then show ?thesis using first_with_id_Some [OF assms] by auto
qed

lemma collectChanged_sets:
  "distinct (map DoorState_ID (Doors (session_map s))) \<Longrightarrow>
     set (collectChangedDoors s ks) = {d \<in> set (Doors (session_map s)). DoorState_ID d \<in> set ks}"
  "distinct (map CellState_ID (Cells (session_map s))) \<Longrightarrow>
     set (collectChangedCells s cs) = {c \<in> set (Cells (session_map s)). CellState_ID c \<in> set cs}"
  "distinct (map EntityState_ID (entities_of s)) \<Longrightarrow>
     set (collectChangedEntities s es) = {e \<in> set (entities_of s). EntityState_ID e \<in> set es}"
  by (simp_all add: collectChangedDoors_def collectChangedCells_def collectChangedEntities_def session_map_def collected_set)

lemma collectChangedPlayers_Some:
  assumes t: "tracked s0 {} n w"
  shows "\<exists>ps. collectChangedPlayers (t_session w) (playerIndex w) (changedPlayers w) = Some ps \<and>
    set ps = {p \<in> set (players_of (t_session w)). ID p \<in> set (changedPlayers w)}"
proof -
  let ?ps = "players_of (t_session w)"
  have ids: "map ID ?ps = map ID (players_of s0)" and sub: "set (changedPlayers w) \<subseteq> ID ` set (players_of s0)"
    and pi: "playerIndex w = index_players (players_of s0)" and st: "strict ID (players_of s0)"
    using t by (auto simp: tracked_def players_tracked_def kept_def start_ok_def)
  have d: "distinct (map ID (players_of s0))" by (rule strict_distinct [OF st])
  define ix where "ix k = (case playerIndex w k of None \<Rightarrow> 0 | Some i \<Rightarrow> i)" for k
  have i: "ix k < length ?ps \<and> ID (?ps ! ix k) = k" if k: "k \<in> set (changedPlayers w)" for k
  proof -
    obtain j where j: "j < length (players_of s0)" "k = ID (players_of s0 ! j)"
      using subsetD [OF sub k] by (auto simp: in_set_conv_nth)
    then have "ix k = j" using index_players_Some [OF d, of k j] pi by (simp add: ix_def)
    moreover have "j < length ?ps" "ID (?ps ! j) = ID (players_of s0 ! j)"
      using j(1) ids tracked_length [OF t] tracked_ID [OF t j(1)] by simp_all
    ultimately show ?thesis using j by simp
  qed
  have "collectChangedPlayers (t_session w) (playerIndex w) (changedPlayers w) =
      Some (map (\<lambda>k. ?ps ! ix k) (sort (changedPlayers w)))"
    using i by (simp add: collectChangedPlayers_def Let_def list_all_iff ix_def comp_def)
  moreover have "set (map (\<lambda>k. ?ps ! ix k) (sort (changedPlayers w))) = {p \<in> set ?ps. ID p \<in> set (changedPlayers w)}"
  proof -
    have "inj_on ID (set ?ps)" using d ids by (metis distinct_map)
    then have "p = ?ps ! ix (ID p)" if "p \<in> set ?ps" "ID p \<in> set (changedPlayers w)" for p
      using that i [OF that(2)] by (metis inj_onD nth_mem)
    then show ?thesis using i by (auto simp: image_iff)
  qed
  ultimately show ?thesis by blast
qed

text \<open>What the commands of a tick leave: the session, and the reported changes of the state.\<close>

lemma inputs_collected:
  assumes t: "tracked s0 {} n w"
  shows "\<exists>mutations. (let session = t_session w in map_option (\<lambda>ps. (session, \<lparr>mut_players = ps,
       mut_doors = collectChangedDoors session (changedDoors w), mut_cells = collectChangedCells session (changedCells w),
       mut_entities = collectChangedEntities session (changedEntities w),
       mut_removedEntityIDs = collectRemovedEntityIDs (removedEntities w)\<rparr>))
     (collectChangedPlayers session (playerIndex w) (changedPlayers w))) = Some (t_session w, mutations) \<and>
   set (mut_players mutations) = {p \<in> set (players_of (t_session w)). ID p \<in> set (changedPlayers w)} \<and>
   set (mut_doors mutations) = {d \<in> set (Doors (session_map (t_session w))). DoorState_ID d \<in> set (changedDoors w)} \<and>
   set (mut_cells mutations) = {c \<in> set (Cells (session_map (t_session w))). CellState_ID c \<in> set (changedCells w)} \<and>
   set (mut_entities mutations) = {e \<in> set (entities_of (t_session w)). EntityState_ID e \<in> set (changedEntities w)} \<and>
   set (mut_removedEntityIDs mutations) = set (removedEntities w)"
proof -
  have d: "distinct (map DoorState_ID (Doors (session_map (t_session w))))"
    "distinct (map CellState_ID (Cells (session_map (t_session w))))"
    using t strict_distinct by (auto simp: tracked_def map_tracked_def kept_def start_ok_def)
  obtain ps where "collectChangedPlayers (t_session w) (playerIndex w) (changedPlayers w) = Some ps"
    "set ps = {p \<in> set (players_of (t_session w)). ID p \<in> set (changedPlayers w)}"
    using collectChangedPlayers_Some [OF t] by blast
  then show ?thesis
    using collectChanged_sets(1) [OF d(1)] collectChanged_sets(2) [OF d(2)] collectChanged_sets(3) [OF tracked_entities(2) [OF t]]
    by (simp add: Let_def collectRemovedEntityIDs_def)
qed

section \<open>The clock\<close>

lemma Advance_once:
  assumes "t \<le> EndsTick (Phase gs)"
    and "\<And>ph. unat t + unat (phase_ticks (normalized cfg) ph) < 2 ^ 64"
  shows "Advance gs t cfg (Some managerPhaseHooks) =
    Some (if t < EndsTick (Phase gs) then (gs, []) else
      case advance_step (normalized cfg) (Some managerPhaseHooks) gs of (gs', tr) \<Rightarrow> (gs', [tr]))"
proof -
  let ?c = "normalized cfg"
  have late: "t < EndsTick (Phase gs')"
    if st: "advance_step ?c (Some managerPhaseHooks) gs = (gs', tr)" and "\<not> t < EndsTick (Phase gs)" for gs' tr
  proof -
    have e: "EndsTick (Phase gs) = t" using that(2) assms(1) by simp
    have "unat (EndsTick (Phase gs')) = unat t + unat (phase_ticks ?c (other_phase (Current (Phase gs))))"
      using manager_clock.step_clock(1) [OF st] assms(2) by (simp add: e clock_of_def)
    moreover have "0 < unat (phase_ticks ?c (other_phase (Current (Phase gs))))"
      using phase_ticks_pos by (simp add: word_less_nat_alt)
    ultimately show ?thesis by (simp add: word_less_nat_alt)
  qed
  show ?thesis
  proof (cases "t < EndsTick (Phase gs)")
    case True
    then have "\<not> EndsTick (Phase gs) \<le> t" by simp
    then show ?thesis unfolding Advance_def using True by (subst advance_loop.simps) simp
  next
    case False
    obtain gs' tr where st: "advance_step ?c (Some managerPhaseHooks) gs = (gs', tr)" by force
    have "advance_loop ?c (Some managerPhaseHooks) t gs' [tr] = Some (gs', [tr])"
      using late [OF st False] leD by (subst advance_loop.simps) auto
    then show ?thesis unfolding Advance_def using False st by (subst advance_loop.simps) simp
  qed
qed

section \<open>Deltas that explain a change\<close>

text \<open>The client's copy is the server's state, up to the sign of a zero coordinate of a player.\<close>

definition mirrors :: "GameState \<Rightarrow> GameState \<Rightarrow> bool" where
  "mirrors c g \<longleftrightarrow> list_all2 same_player (Players c) (Players g) \<and> c = g\<lparr>Players := Players c\<rparr>"

definition lists_explained :: "GameState \<Rightarrow> GameDelta \<Rightarrow> GameState \<Rightarrow> bool" where
  "lists_explained g0 d g \<longleftrightarrow>
     strict ID (Players g0) \<and> kept ID same_player (ID ` set (ChangedPlayers d)) (Players g0) (Players g) \<and>
     set (ChangedPlayers d) \<subseteq> set (Players g) \<and> RemovedPlayerIDs d = [] \<and>
     strict DoorState_ID (Doors (Map g0)) \<and>
     kept DoorState_ID (=) (DoorState_ID ` set (ChangedDoors d)) (Doors (Map g0)) (Doors (Map g)) \<and>
     set (ChangedDoors d) \<subseteq> set (Doors (Map g)) \<and> strict CellState_ID (Cells (Map g0)) \<and>
     kept CellState_ID (=) (CellState_ID ` set (ChangedCells d)) (Cells (Map g0)) (Cells (Map g)) \<and>
     set (ChangedCells d) \<subseteq> set (Cells (Map g)) \<and>
     ChangedZones d = [] \<and> RestrictedZones (Map g) = RestrictedZones (Map g0)"

definition entities_explained :: "GameState \<Rightarrow> GameDelta \<Rightarrow> GameState \<Rightarrow> bool" where
  "entities_explained g0 d g \<longleftrightarrow>
     strict EntityState_ID (Entities g0) \<and> strict EntityState_ID (Entities g) \<and>
     set (ChangedEntities d) \<subseteq> set (Entities g) \<and>
     (\<forall>e \<in> set (Entities g). EntityState_ID e \<notin> EntityState_ID ` set (ChangedEntities d) \<longrightarrow> e \<in> set (Entities g0)) \<and>
     EntityState_ID ` set (Entities g0) \<subseteq> EntityState_ID ` set (Entities g) \<union> set (RemovedEntityIDs d) \<and>
     set (RemovedEntityIDs d) \<inter> EntityState_ID ` set (Entities g) = {}"

definition scalars_explained :: "GameState \<Rightarrow> GameDelta \<Rightarrow> GameState \<Rightarrow> bool" where
  "scalars_explained g0 d g \<longleftrightarrow>
     GameState_MatchID g = GameState_MatchID g0 \<and> or_else (DeltaPhase d) (Phase g0) = Phase g \<and>
     or_else (DeltaStatus d) (Status g0) = Status g \<and> or_else (DeltaCycleCount d) (CycleCount g0) = CycleCount g \<and>
     or_else (DeltaPowerOn d) (PowerOn (Map g0)) = PowerOn (Map g) \<and>
     or_else (DeltaAlarm d) (Alarm (Map g0)) = Alarm (Map g) \<and>
     or_else (DeltaBlackMarketRoomID d) (BlackMarketRoomID (Map g0)) = BlackMarketRoomID (Map g) \<and>
     (case DeltaGameOver d of None \<Rightarrow> GameOver g0 | Some x \<Rightarrow> Some x) = GameOver g"

lemma list_all2_eq_iff: "list_all2 (=) xs ys \<longleftrightarrow> xs = ys"
  by (simp add: list.rel_eq)

lemma mirrorsI:
  assumes "list_all2 same_player (Players c) (Players g)" "Entities c = Entities g" "Map c = Map g"
    "GameState_MatchID c = GameState_MatchID g" "Status c = Status g" "CycleCount c = CycleCount g"
    "Phase c = Phase g" "GameOver c = GameOver g"
  shows "mirrors (c\<lparr>TickID := TickID g\<rparr>) g"
  using assms by (cases c; cases g) (simp add: mirrors_def)

lemma explained_mirrors:
  assumes m: "mirrors c g0" and l: "lists_explained g0 d g" and e: "entities_explained g0 d g"
    and x: "scalars_explained g0 d g"
  shows "mirrors ((applyDeltaLocked c d)\<lparr>TickID := TickID g\<rparr>) g"
proof -
  obtain ps where c: "c = g0\<lparr>Players := ps\<rparr>" and ps: "list_all2 same_player ps (Players g0)"
    using m unfolding mirrors_def by metis
  have "list_all2 same_player (upserted ID ps (ChangedPlayers d)) (Players g)"
    using l by (intro upsert_kept [OF ps same_player_ID [symmetric] same_player_refl same_player_trans,
        where M = "ID ` set (ChangedPlayers d)"]) (auto simp: lists_explained_def)
  moreover have "list_all2 (=) (upserted DoorState_ID (Doors (Map g0)) (ChangedDoors d)) (Doors (Map g))"
    using l by (intro upsert_kept [where xs0 = "Doors (Map g0)" and M = "DoorState_ID ` set (ChangedDoors d)"])
      (auto simp: lists_explained_def list_all2_eq_iff)
  moreover have "list_all2 (=) (upserted CellState_ID (Cells (Map g0)) (ChangedCells d)) (Cells (Map g))"
    using l by (intro upsert_kept [where xs0 = "Cells (Map g0)" and M = "CellState_ID ` set (ChangedCells d)"])
      (auto simp: lists_explained_def list_all2_eq_iff)
  moreover have "list_all2 (=) (removed_from EntityState_ID (upserted EntityState_ID (Entities g0) (ChangedEntities d))
      (RemovedEntityIDs d)) (Entities g)"
    using e by (intro upsert_mirror) (auto simp: entities_explained_def)
  moreover have "upserted ZoneState_ID (RestrictedZones (Map g0)) (ChangedZones d) = RestrictedZones (Map g)"
    using l by (simp add: lists_explained_def upserted_def)
  moreover have "removed_from ID xs (RemovedPlayerIDs d) = xs" for xs :: "PlayerState list"
    using l by (simp add: lists_explained_def removed_from_def)
  ultimately have parts: "list_all2 same_player (Players (applyDeltaLocked c d)) (Players g)"
    "Entities (applyDeltaLocked c d) = Entities g" "Doors (Map (applyDeltaLocked c d)) = Doors (Map g)"
    "Cells (Map (applyDeltaLocked c d)) = Cells (Map g)"
    "RestrictedZones (Map (applyDeltaLocked c d)) = RestrictedZones (Map g)"
    by (simp_all add: c applyDeltaLocked_def Let_def upsertPlayers_def removePlayers_def upsertEntities_def
        removeEntities_def upsertDoors_def upsertCells_def upsertZones_def list_all2_eq_iff)
  moreover have "Map (applyDeltaLocked c d) = Map g"
    using parts(3-5) x by (intro MapState.equality) (simp_all add: c applyDeltaLocked_def Let_def scalars_explained_def)
  moreover have "GameState_MatchID (applyDeltaLocked c d) = GameState_MatchID g" "Status (applyDeltaLocked c d) = Status g"
    "CycleCount (applyDeltaLocked c d) = CycleCount g" "Phase (applyDeltaLocked c d) = Phase g"
    "GameOver (applyDeltaLocked c d) = GameOver g"
    using x by (auto simp: c applyDeltaLocked_def Let_def scalars_explained_def split: option.splits)
  ultimately show ?thesis by (intro mirrorsI)
qed

section \<open>One tick\<close>

text \<open>The invariant of a match between two ticks.\<close>

definition match_ok :: "matchSession \<Rightarrow> bool" where
  "match_ok s \<longleftrightarrow> strict ID (players_of s) \<and> strict DoorState_ID (Doors (session_map s)) \<and>
     strict CellState_ID (Cells (session_map s)) \<and> strict EntityState_ID (entities_of s) \<and>
     list_all (\<lambda>e. EntityState_ID e \<le> s_nextEntityID s) (entities_of s) \<and>
     list_all (\<lambda>p. player_ok p \<and> FeedbackTickID (LastActionFeedback p) \<le> s_tickID s) (players_of s) \<and>
     TickID (s_gameState s) = s_tickID s \<and> s_tickID s < EndsTick (Phase (s_gameState s)) \<and>
     (s_status s = MatchStatusRunning \<longrightarrow> GameOver (s_gameState s) = None)"

text \<open>Room for one more tick: the tick counter and the entity counter do not wrap around, and no
  authority player carries more than three stacks when the commands have run.\<close>

definition roomy :: "Decoders \<Rightarrow> ServerConfig \<Rightarrow> matchSession \<Rightarrow> bool" where
  "roomy dec config s \<longleftrightarrow>
     unat (s_tickID s) + 1 + unat (DayDurationTicks (PhaseClock.normalized (phaseConfig config))) < 2 ^ 64 \<and>
     unat (s_tickID s) + 1 + unat (NightDurationTicks (PhaseClock.normalized (phaseConfig config))) < 2 ^ 64 \<and>
     unat (s_nextEntityID s) + id_budget s (snd (begin_tick s)) < 2 ^ 32 \<and>
     list_all light (players_of (t_session (after_inputs dec s)))"

lemma begin_tick_parts:
  "s_tickID (fst (begin_tick s)) = s_tickID s + 1" "s_nextEntityID (fst (begin_tick s)) = s_nextEntityID s"
  "s_gameState (fst (begin_tick s)) = (s_gameState s)\<lparr>TickID := s_tickID s + 1\<rparr>"
  "s_status (fst (begin_tick s)) = s_status s" "s_matchID (fst (begin_tick s)) = s_matchID s"
  "s_players (fst (begin_tick s)) = s_players s" "s_snapshotHistory (fst (begin_tick s)) = s_snapshotHistory s"
  by (simp_all add: begin_tick_def Let_def)

lemma next_tick:
  assumes "roomy dec config s"
  shows "s_tickID s < s_tickID s + 1" "unat (s_tickID s + 1) = unat (s_tickID s) + 1"
proof -
  have "unat (s_tickID s) + 1 < 2 ^ 64" using assms by (simp add: roomy_def)
  then show u: "unat (s_tickID s + 1) = unat (s_tickID s) + 1" by (simp add: unat_word_ariths)
  then show "s_tickID s < s_tickID s + 1" by (simp add: word_less_nat_alt)
qed

lemma after_inputs_tracked:
  assumes "match_ok s" "roomy dec config s"
  shows "tracked (fst (begin_tick s)) {} 0 (after_inputs dec s)"
proof -
  have "start_ok (fst (begin_tick s))"
    using assms(1) next_tick(1) [OF assms(2)]
    by (auto simp: match_ok_def start_ok_def begin_tick_parts session_map_def list_all_iff)
  moreover have "unat (s_nextEntityID (fst (begin_tick s))) + id_budget (fst (begin_tick s)) (snd (begin_tick s)) < 2 ^ 32"
    using assms(2) by (simp add: roomy_def begin_tick_parts id_budget_def session_map_def)
  ultimately have "tracked (fst (begin_tick s)) {} 0
      (snd (run_state (run_inputs dec (snd (begin_tick s))) (start_work (fst (begin_tick s)))))" by (rule run_inputs_tracked)
  then show ?thesis by (simp add: after_inputs_def Let_def case_prod_beta')
qed

text \<open>The clock after the commands: at most one transition.\<close>

lemma tick_clock:
  assumes ok: "match_ok s" and room: "roomy dec config s"
  defines "g \<equiv> s_gameState (t_session (after_inputs dec s))"
  shows "\<exists>gs trs. Advance g (s_tickID s + 1) (phaseConfig config) (Some managerPhaseHooks) = Some (gs, trs) \<and>
    clock_frame gs = clock_frame g \<and> length trs \<le> 1 \<and> (trs = [] \<longrightarrow> gs = g) \<and> s_tickID s + 1 < EndsTick (Phase gs)"
proof -
  let ?c = "PhaseClock.normalized (phaseConfig config)" and ?t = "s_tickID s + 1"
  have "Phase g = Phase (s_gameState s)"
    using after_inputs_tracked [OF ok room] by (simp add: g_def tracked_def frame_kept_def begin_tick_parts)
  then have e: "?t \<le> EndsTick (Phase g)"
    using ok next_tick(2) [OF room] by (simp add: match_ok_def word_le_nat_alt word_less_nat_alt)
  have u: "unat ?t + unat (phase_ticks ?c ph) < 2 ^ 64" for ph
    using room next_tick(2) [OF room] by (cases ph) (simp_all add: roomy_def)
  obtain gs trs where r: "Advance g ?t (phaseConfig config) (Some managerPhaseHooks) = Some (gs, trs)"
    and l: "length trs \<le> 1" "trs = [] \<longrightarrow> gs = g"
    using Advance_once [OF e u] by (cases "?t < EndsTick (Phase g)") (auto split: prod.splits)
  moreover have "clock_frame gs = clock_frame g"
    using manager_loop_map [OF r [unfolded Advance_def] refl] by auto
  moreover have "?t < EndsTick (Phase gs)"
    using manager_clock.Advance_clock [OF u] r by (metis Pair_inject option.inject)
  ultimately show ?thesis by blast
qed

lemma clock_frame_parts:
  assumes "clock_frame gs = clock_frame g"
  shows "Players gs = Players g" "Entities gs = Entities g" "Doors (Map gs) = Doors (Map g)" "Cells (Map gs) = Cells (Map g)"
    "RestrictedZones (Map gs) = RestrictedZones (Map g)" "PowerOn (Map gs) = PowerOn (Map g)"
    "GameState_MatchID gs = GameState_MatchID g" "TickID gs = TickID g" "Status gs = Status g" "GameOver gs = GameOver g"
  using assms by (cases gs; cases g; cases "Map gs"; cases "Map g"; simp add: clock_frame_def)+

text \<open>The transitions of the tick.\<close>

lemma phase_tracked_start: "phase_tracked s \<lparr>pw_session = s, pw_entities = [], pw_players = []\<rparr>"
proof -
  have "\<exists>ps es bribes. s = s\<lparr>s_gameState := (s_gameState s)\<lparr>Players := ps, Entities := es\<rparr>, s_npcPrisonerBribeState := bribes\<rparr>"
    by (intro exI [of _ "players_of s"] exI [of _ "entities_of s"] exI [of _ "s_npcPrisonerBribeState s"]) simp
  then show ?thesis by (simp add: phase_tracked_def kept_def list_all2_conv_all_nth)
qed

lemma transitions_work_tracked:
  assumes "length trs \<le> 1" and "list_all (\<lambda>p. player_ok p \<and> light p) (players_of s)"
    and "distinct (map EntityState_ID (entities_of s))"
  shows "\<exists>pw. transitions_work trs \<lparr>pw_session = s, pw_entities = [], pw_players = []\<rparr> = Some pw \<and> phase_tracked s pw"
proof (cases trs)
  case Nil
  then show ?thesis by (simp add: phase_tracked_start)
next
  case (Cons tr rest)
  then have t: "trs = [tr]" using assms(1) by simp
  show ?thesis
  proof (cases "To tr")
    case PhaseDay
    then show ?thesis using day_work_tracked [OF phase_tracked_start] assms(2) by (simp add: t)
  next
    case PhaseNight
    obtain pw where "night_work (Cycle tr) \<lparr>pw_session = s, pw_entities = [], pw_players = []\<rparr> = Some pw" "phase_tracked s pw"
      using night_work_tracked [OF phase_tracked_start assms(3)] by blast
    then show ?thesis using PhaseNight by (simp add: t)
  qed
qed

definition collected :: "tick_state \<Rightarrow> tickMutations \<Rightarrow> bool" where
  "collected w mutations \<longleftrightarrow>
     set (mut_players mutations) = {p \<in> set (players_of (t_session w)). ID p \<in> set (changedPlayers w)} \<and>
     set (mut_doors mutations) = {d \<in> set (Doors (session_map (t_session w))). DoorState_ID d \<in> set (changedDoors w)} \<and>
     set (mut_cells mutations) = {c \<in> set (Cells (session_map (t_session w))). CellState_ID c \<in> set (changedCells w)} \<and>
     set (mut_entities mutations) = {e \<in> set (entities_of (t_session w)). EntityState_ID e \<in> set (changedEntities w)} \<and>
     set (mut_removedEntityIDs mutations) = set (removedEntities w)"

lemma tick_world_returns:
  assumes ok: "match_ok s" and room: "roomy dec config s"
  shows "\<exists>pw mutations gs trs. tick_world dec config s = Some (pw, mutations, trs) \<and>
    collected (after_inputs dec s) mutations \<and>
    clock_frame gs = clock_frame (s_gameState (t_session (after_inputs dec s))) \<and>
    (trs = [] \<longrightarrow> gs = s_gameState (t_session (after_inputs dec s))) \<and> s_tickID s + 1 < EndsTick (Phase gs) \<and>
    phase_tracked ((t_session (after_inputs dec s))\<lparr>s_gameState := gs\<rparr>) pw \<and>
    Advance (s_gameState (t_session (after_inputs dec s))) (s_tickID s + 1) (phaseConfig config) (Some managerPhaseHooks) = Some (gs, trs)"
proof -
  let ?w = "after_inputs dec s"
  have t: "tracked (fst (begin_tick s)) {} 0 ?w" by (rule after_inputs_tracked [OF ok room])
  obtain mutations where m: "applyInputsToGameStateLocked dec (fst (begin_tick s)) (snd (begin_tick s)) = Some (t_session ?w, mutations)"
    "collected ?w mutations"
    using inputs_collected [OF t]
    by (auto simp: applyInputsToGameStateLocked_def after_inputs_def case_prod_beta' Let_def collected_def)
  have k: "s_tickID (t_session ?w) = s_tickID s + 1" using tracked_tick [OF t] by (simp add: begin_tick_parts)
  obtain gs trs where a: "Advance (s_gameState (t_session ?w)) (s_tickID s + 1) (phaseConfig config) (Some managerPhaseHooks) = Some (gs, trs)"
    and c: "clock_frame gs = clock_frame (s_gameState (t_session ?w))" "length trs \<le> 1"
      "trs = [] \<longrightarrow> gs = s_gameState (t_session ?w)" "s_tickID s + 1 < EndsTick (Phase gs)"
    using tick_clock [OF ok room] by blast
  let ?s = "(t_session ?w)\<lparr>s_gameState := gs\<rparr>"
  have "list_all (\<lambda>p. player_ok p \<and> light p) (players_of ?s)"
    using room tracked_ok [OF t] tracked_length [OF t] clock_frame_parts(1) [OF c(1)]
    by (simp add: roomy_def list_all_length)
  moreover have "distinct (map EntityState_ID (entities_of ?s))"
    using tracked_entities(2) [OF t] clock_frame_parts(2) [OF c(1)] by simp
  ultimately obtain pw where "transitions_work trs \<lparr>pw_session = ?s, pw_entities = [], pw_players = []\<rparr> = Some pw" "phase_tracked ?s pw"
    using transitions_work_tracked [OF c(2)] by blast
  then have "tick_world dec config s = Some (pw, mutations, trs)"
    using m(1) a k by (simp add: tick_world_def case_prod_beta')
  then show ?thesis using m(2) c a \<open>phase_tracked ?s pw\<close> by blast
qed

text \<open>What a tick has done when its delta is built; \<open>g\<close> is the state of the game after it.\<close>

definition tick_done ::
  "matchSession \<Rightarrow> tick_state \<Rightarrow> GameState \<Rightarrow> Transition list \<Rightarrow> tickMutations \<Rightarrow> phase_work \<Rightarrow> GameState \<Rightarrow> bool" where
  "tick_done s w gs trs mutations pw g \<longleftrightarrow>
     match_ok s \<and> tracked (fst (begin_tick s)) {} 0 w \<and> collected w mutations \<and>
     clock_frame gs = clock_frame (s_gameState (t_session w)) \<and> (trs = [] \<longrightarrow> gs = s_gameState (t_session w)) \<and>
     phase_tracked ((t_session w)\<lparr>s_gameState := gs\<rparr>) pw \<and>
     (\<exists>st over. g = (s_gameState (pw_session pw))\<lparr>Status := st, GameOver := over\<rparr>)"

lemma tick_doneD:
  assumes "tick_done s w gs trs mutations pw g"
  shows "match_ok s" "tracked (fst (begin_tick s)) {} 0 w" "collected w mutations"
    "clock_frame gs = clock_frame (s_gameState (t_session w))"
    "phase_tracked ((t_session w)\<lparr>s_gameState := gs\<rparr>) pw" "trs = [] \<Longrightarrow> gs = s_gameState (t_session w)"
  using assms unfolding tick_done_def by simp_all

lemma tick_done_game:
  assumes "tick_done s w gs trs mutations pw g"
  shows "\<exists>ps es st over. g = gs\<lparr>Players := ps, Entities := es, Status := st, GameOver := over\<rparr>"
    "Players g = players_of (pw_session pw)" "Entities g = entities_of (pw_session pw)"
proof -
  obtain ps es bribes where p: "pw_session pw = (t_session w)\<lparr>s_gameState := gs\<lparr>Players := ps, Entities := es\<rparr>,
      s_npcPrisonerBribeState := bribes\<rparr>"
    using assms unfolding tick_done_def phase_tracked_def by auto
  obtain st over where g: "g = (s_gameState (pw_session pw))\<lparr>Status := st, GameOver := over\<rparr>"
    using assms unfolding tick_done_def by blast
  show "\<exists>ps es st over. g = gs\<lparr>Players := ps, Entities := es, Status := st, GameOver := over\<rparr>"
    by (intro exI [of _ ps] exI [of _ es] exI [of _ st] exI [of _ over]) (simp add: g p)
  show "Players g = players_of (pw_session pw)" "Entities g = entities_of (pw_session pw)" by (simp_all add: g)
qed

lemma selected_keys: "key ` {x \<in> set xs. key x \<in> A} = A \<inter> key ` set xs"
  by auto

lemma kept_compose:
  assumes "kept key R M xs ys" "kept key (=) N ys zs"
  shows "kept key R (M \<union> N) xs zs"
proof -
  have "R (xs ! i) (zs ! i)" if "i < length xs" "key (xs ! i) \<notin> M \<union> N" for i
    using that assms kept_length [OF assms(1)] kept_key [OF assms(1) that(1)] by (auto simp: kept_def)
  then show ?thesis using assms by (simp add: kept_def)
qed

lemma merged_players:
  assumes d: "tick_done s w gs trs mutations pw g" and g: "Players (s_gameState s4) = Players g"
  defines "ch \<equiv> mergeChangedPlayersByIDLocked s4 (mut_players mutations) (pw_players pw)"
  shows "set ch \<subseteq> set (Players g)" "ID ` set ch = set (changedPlayers w) \<union> set (pw_players pw)"
proof -
  let ?ps = "players_of (t_session w)" and ?extra = "filter (\<lambda>p. ID p \<in> set (pw_players pw)) (Players g)"
  have m: "set (mut_players mutations) = {p \<in> set ?ps. ID p \<in> set (changedPlayers w)}"
    and ids: "map ID ?ps = map ID (players_of s)" and sub: "set (changedPlayers w) \<subseteq> ID ` set (players_of s)"
    and st: "strict ID (players_of s)"
    using tick_doneD(1-3) [OF d]
    by (simp_all add: collected_def tracked_def players_tracked_def kept_def match_ok_def begin_tick_parts)
  have gs: "Players gs = ?ps" by (rule clock_frame_parts(1) [OF tick_doneD(4) [OF d]])
  have k: "kept ID (=) (set (pw_players pw)) ?ps (Players g)" and subp: "set (pw_players pw) \<subseteq> ID ` set ?ps"
    using tick_doneD(5) [OF d] by (simp_all add: phase_tracked_def gs tick_done_game(2) [OF d])
  have idg: "ID ` set (Players g) = ID ` set ?ps" using k by (metis kept_def list.set_map)
  have dist: "distinct (map ID ?ps)" using ids strict_distinct [OF st] by simp
  have ids': "ID ` set ?ps = ID ` set (players_of s)" using ids by (metis list.set_map)
  have mk: "ID ` set (mut_players mutations) = set (changedPlayers w)"
    using sub ids' by (simp add: m selected_keys Int_absorb2)
  have ek: "ID ` set ?extra = set (pw_players pw)" using subp idg by (simp add: selected_keys Int_absorb2)
  show "set ch \<subseteq> set (Players g)" "ID ` set ch = set (changedPlayers w) \<union> set (pw_players pw)"
  proof -
    have "set ch \<subseteq> set (Players g) \<and> ID ` set ch = set (changedPlayers w) \<union> set (pw_players pw)"
    proof (cases "pw_players pw")
      case Nil
      then have "Players g = ?ps" using k kept_length [OF k] by (auto simp: kept_def intro: nth_equalityI)
      then show ?thesis using Nil m mk by (auto simp: ch_def mergeChangedPlayersByIDLocked_def)
    next
      case Cons
      have "kept ID (=) (ID ` set ?extra) ?ps (Players g)" using k ek by simp
      from merged_current [OF _ this _ dist, of "mut_players mutations"] m mk ek Cons
      show ?thesis by (auto simp: ch_def mergeChangedPlayersByIDLocked_def g)
    qed
    then show "set ch \<subseteq> set (Players g)" "ID ` set ch = set (changedPlayers w) \<union> set (pw_players pw)" by blast+
  qed
qed

abbreviation delta_of :: "matchSession \<Rightarrow> matchSession \<Rightarrow> tickMutations \<Rightarrow> phase_work \<Rightarrow> Transition list \<Rightarrow> GameDelta" where
  "delta_of s s4 mutations pw trs \<equiv> tick_delta (s_gameState s) (s_gameState s4) mutations
     (mergeChangedPlayersByIDLocked s4 (mut_players mutations) (pw_players pw))
     (mergeChangedEntityStates (mut_entities mutations) (pw_entities pw)) (length trs > 0)"

lemma kept_selected:
  assumes "kept key R A xs ys" and "set changed = {y \<in> set ys. key y \<in> A}"
  shows "kept key R (key ` set changed) xs ys" "set changed \<subseteq> set ys"
proof -
  have k: "key ` set ys = key ` set xs" using assms(1) by (metis kept_def list.set_map)
  have "R (xs ! i) (ys ! i)" if "i < length xs" "key (xs ! i) \<notin> key ` set changed" for i
  proof -
    have "key (xs ! i) \<in> key ` set ys" using that(1) k by simp
    then have "key (xs ! i) \<notin> A" using that(2) by (auto simp: assms(2))
    then show ?thesis using assms(1) that(1) by (simp add: kept_def)
  qed
  then show "kept key R (key ` set changed) xs ys" using assms(1) by (simp add: kept_def)
  show "set changed \<subseteq> set ys" using assms(2) by auto
qed

lemma tick_lists_explained:
  assumes d: "tick_done s w gs trs mutations pw (s_gameState s4)"
  shows "lists_explained (s_gameState s) (delta_of s s4 mutations pw trs) (s_gameState s4)"
proof -
  let ?d = "delta_of s s4 mutations pw trs" and ?g = "s_gameState s4" and ?m = "Map (s_gameState (t_session w))"
  note t = tick_doneD(2) [OF d] and c = tick_doneD(3) [OF d] and f = clock_frame_parts [OF tick_doneD(4) [OF d]]
  have map: "Doors (Map ?g) = Doors ?m" "Cells (Map ?g) = Cells ?m" "RestrictedZones (Map ?g) = RestrictedZones ?m"
    using tick_done_game(1) [OF d] f(3-5) by auto
  have "kept ID same_player (set (changedPlayers w)) (players_of s) (players_of (t_session w))"
    using t by (simp add: tracked_def players_tracked_def begin_tick_parts)
  moreover have "kept ID (=) (set (pw_players pw)) (players_of (t_session w)) (Players ?g)"
    using tick_doneD(5) [OF d] f(1) tick_done_game(2) [OF d] by (simp add: phase_tracked_def)
  ultimately have "kept ID same_player (ID ` set (ChangedPlayers ?d)) (players_of s) (Players ?g)"
    using merged_players(2) [OF d refl] kept_compose by (simp add: tick_delta_def)
  moreover have "set (ChangedPlayers ?d) \<subseteq> set (Players ?g)" using merged_players(1) [OF d refl] by (simp add: tick_delta_def)
  moreover have "kept DoorState_ID (=) (DoorState_ID ` set (ChangedDoors ?d)) (Doors (Map (s_gameState s))) (Doors (Map ?g))"
    "set (ChangedDoors ?d) \<subseteq> set (Doors (Map ?g))"
    using kept_selected [of DoorState_ID "(=)" "set (changedDoors w)" "Doors (Map (s_gameState s))" "Doors ?m" "ChangedDoors ?d"] t c
    by (simp_all add: tracked_def map_tracked_def collected_def map tick_delta_def begin_tick_parts session_map_def)
  moreover have "kept CellState_ID (=) (CellState_ID ` set (ChangedCells ?d)) (Cells (Map (s_gameState s))) (Cells (Map ?g))"
    "set (ChangedCells ?d) \<subseteq> set (Cells (Map ?g))"
    using kept_selected [of CellState_ID "(=)" "set (changedCells w)" "Cells (Map (s_gameState s))" "Cells ?m" "ChangedCells ?d"] t c
    by (simp_all add: tracked_def map_tracked_def collected_def map tick_delta_def begin_tick_parts session_map_def)
  moreover have "RestrictedZones (Map ?g) = RestrictedZones (Map (s_gameState s))"
    using t by (simp add: tracked_def map_tracked_def map begin_tick_parts session_map_def)
  moreover have "RemovedPlayerIDs ?d = []" "ChangedZones ?d = []" by (simp_all add: tick_delta_def)
  ultimately show ?thesis
    using tick_doneD(1) [OF d] by (simp add: lists_explained_def match_ok_def session_map_def)
qed

lemma kept_member:
  assumes "kept key (=) A xs ys" "y \<in> set ys" "key y \<notin> A"
  shows "y \<in> set xs"
proof -
  obtain i where i: "i < length ys" "y = ys ! i" using assms(2) by (auto simp: in_set_conv_nth)
  have l: "i < length xs" using i(1) kept_length [OF assms(1)] by simp
  have "key (xs ! i) \<notin> A" using assms(3) kept_key [OF assms(1) l] i(2) by simp
  then have "xs ! i = ys ! i" using assms(1) l unfolding kept_def by blast
  then show ?thesis using l i(2) nth_mem by metis
qed

text \<open>Elements are changed, added and removed and then changed again: the merged reports explain it.\<close>

lemma explained_in_two_steps:
  fixes key :: "'a \<Rightarrow> 'b :: linorder"
  assumes old: "distinct (map key old)" and now: "strict key now"
    and first: "\<And>i. i \<notin> C \<Longrightarrow> i \<notin> set gone \<Longrightarrow> first_with_id key now i = first_with_id key old i"
    and left: "key ` set old \<subseteq> key ` set now \<union> set gone" "key ` set now \<inter> set gone = {}"
    and xs: "set xs = {x \<in> set now. key x \<in> C}"
    and fin: "kept key (=) (key ` set ys) now fin" "set ys \<subseteq> set fin"
  shows "strict key fin" "set (by_id_sorted key (xs @ ys)) \<subseteq> set fin"
    "\<forall>x \<in> set fin. key x \<notin> key ` set (by_id_sorted key (xs @ ys)) \<longrightarrow> x \<in> set old"
    "key ` set old \<subseteq> key ` set fin \<union> set gone" "set gone \<inter> key ` set fin = {}"
proof -
  have d: "distinct (map key now)" by (rule strict_distinct [OF now])
  have k: "map key fin = map key now" using fin(1) by (simp add: kept_def)
  then have keys: "key ` set fin = key ` set now" by (metis (mono_tags) list.set_map)
  have sub: "set xs \<subseteq> set now" using xs by blast
  note ch = merged_current [OF sub fin d]
  show "strict key fin" by (rule strict_map_cong [OF k now])
  show "set (by_id_sorted key (xs @ ys)) \<subseteq> set fin" by (rule ch(1))
  show "key ` set old \<subseteq> key ` set fin \<union> set gone" "set gone \<inter> key ` set fin = {}" using left keys by auto
  show "\<forall>x \<in> set fin. key x \<notin> key ` set (by_id_sorted key (xs @ ys)) \<longrightarrow> x \<in> set old"
  proof (intro ballI impI)
    fix x assume x: "x \<in> set fin" "key x \<notin> key ` set (by_id_sorted key (xs @ ys))"
    then have n: "key x \<notin> key ` set xs" "key x \<notin> key ` set ys" unfolding ch(2) by auto
    have m: "x \<in> set now" by (rule kept_member [OF fin(1) x(1) n(2)])
    then have "key x \<notin> C" "key x \<notin> set gone" using n(1) xs left(2) by auto
    then have "first_with_id key old (key x) = Some x" using first m first_with_id_Some [OF d] by metis
    then show "x \<in> set old" using first_with_id_Some [OF old] by metis
  qed
qed

lemma tick_entities_explained:
  assumes d: "tick_done s w gs trs mutations pw (s_gameState s4)"
  shows "entities_explained (s_gameState s) (delta_of s s4 mutations pw trs) (s_gameState s4)"
proof -
  let ?now = "entities_of (t_session w)" and ?fin = "Entities (s_gameState s4)" and ?k = "EntityState_ID"
  note t = tick_doneD(2) [OF d]
  have old: "strict ?k (entities_of s)" using tick_doneD(1) [OF d] by (simp add: match_ok_def)
  have k: "kept ?k (=) (?k ` set (pw_entities pw)) ?now ?fin" "set (pw_entities pw) \<subseteq> set ?fin"
    using tick_doneD(5) [OF d] clock_frame_parts(2) [OF tick_doneD(4) [OF d]] tick_done_game(3) [OF d]
    by (simp_all add: phase_tracked_def)
  have m: "set (mut_entities mutations) = {e \<in> set ?now. ?k e \<in> set (changedEntities w)}"
    and gone: "set (mut_removedEntityIDs mutations) = set (removedEntities w)"
    using tick_doneD(3) [OF d] by (simp_all add: collected_def)
  have e: "?k ` set (entities_of s) \<subseteq> ?k ` set ?now \<union> set (removedEntities w)" "?k ` set ?now \<inter> set (removedEntities w) = {}"
    and first: "\<And>i. i \<notin> set (changedEntities w) \<Longrightarrow> i \<notin> set (removedEntities w) \<Longrightarrow>
      first_with_id ?k ?now i = first_with_id ?k (entities_of s) i"
    using t by (simp_all add: tracked_def entities_tracked_def Let_def begin_tick_parts)
  note x = explained_in_two_steps [OF strict_distinct [OF old] tracked_entities(1) [OF t] first e m k]
  show ?thesis unfolding entities_explained_def tick_delta_def mergeChangedEntityStates_eq GameDelta.simps gone
    by (intro conjI old x)
qed

lemma or_else_simps [simp]: "or_else None y = y" "or_else (Some x) y = x"
  by (simp_all add: or_else_def)

lemma differs_or_else: "or_else (differs new old) old = new"
  by (simp add: differs_def or_else_def)

lemma tick_scalars_explained:
  assumes d: "tick_done s w gs trs mutations pw (s_gameState s4)" and run: "s_status s = MatchStatusRunning"
  shows "scalars_explained (s_gameState s) (delta_of s s4 mutations pw trs) (s_gameState s4)"
proof -
  let ?g = "s_gameState s4"
  have over: "GameOver (s_gameState s) = None" using tick_doneD(1) [OF d] run by (simp add: match_ok_def)
  have fr: "Phase (s_gameState (t_session w)) = Phase (s_gameState s)"
    "GameState_MatchID (s_gameState (t_session w)) = GameState_MatchID (s_gameState s)"
    using tick_doneD(2) [OF d] by (simp_all add: tracked_def frame_kept_def begin_tick_parts)
  have g: "Phase ?g = Phase gs" "GameState_MatchID ?g = GameState_MatchID gs" using tick_done_game(1) [OF d] by auto
  have "GameState_MatchID ?g = GameState_MatchID (s_gameState s)"
    using g fr clock_frame_parts(7) [OF tick_doneD(4) [OF d]] by simp
  moreover have "trs = [] \<Longrightarrow> Phase ?g = Phase (s_gameState s)" using tick_doneD(6) [OF d] g fr by simp
  ultimately show ?thesis using over
    by (simp add: scalars_explained_def tick_delta_def differs_or_else split: option.split)
qed

text \<open>The invariant holds again after the tick.\<close>

lemma tick_done_ok:
  assumes d: "tick_done s w gs trs mutations pw (s_gameState s4)" and "s_tickID s < s_tickID s + 1"
    and s4: "s_tickID s4 = s_tickID s + 1" "s_nextEntityID s4 = s_nextEntityID (t_session w)"
    and ends: "s_tickID s + 1 < EndsTick (Phase gs)"
    and over: "s_status s4 = MatchStatusRunning \<Longrightarrow> GameOver (s_gameState s4) = None"
  shows "match_ok s4"
proof -
  let ?g = "s_gameState s4"
  note ok = tick_doneD(1) [OF d] and t = tick_doneD(2) [OF d]
  have l: "lists_explained (s_gameState s) (delta_of s s4 mutations pw trs) ?g"
    and e: "entities_explained (s_gameState s) (delta_of s s4 mutations pw trs) ?g"
    by (rule tick_lists_explained [OF d], rule tick_entities_explained [OF d])
  have lists: "strict ID (players_of s4)" "strict DoorState_ID (Doors (session_map s4))"
    "strict CellState_ID (Cells (session_map s4))" "strict EntityState_ID (entities_of s4)"
    using l e by (auto simp: lists_explained_def entities_explained_def kept_def strict_def session_map_def)
  have "map EntityState_ID (entities_of s4) = map EntityState_ID (entities_of (t_session w))"
    using tick_doneD(5) [OF d] clock_frame_parts(2) [OF tick_doneD(4) [OF d]] tick_done_game(3) [OF d]
    by (simp add: phase_tracked_def kept_def)
  then have "EntityState_ID ` set (entities_of s4) = EntityState_ID ` set (entities_of (t_session w))" by (metis list.set_map)
  moreover have "\<forall>k \<in> EntityState_ID ` set (entities_of (t_session w)). k \<le> s_nextEntityID (t_session w)"
    using t by (simp add: tracked_def entities_tracked_def Let_def)
  ultimately have ids: "list_all (\<lambda>e. EntityState_ID e \<le> s_nextEntityID s4) (entities_of s4)"
    unfolding list_all_iff s4(2) by (metis imageI)
  have w: "list_all2 (player_stamp (s_tickID s + 1)) (players_of s) (players_of (t_session w))"
    using t by (simp add: tracked_def players_tracked_def begin_tick_parts)
  have g: "list_all2 player_step (players_of (t_session w)) (players_of s4)"
    using tick_doneD(5) [OF d] clock_frame_parts(1) [OF tick_doneD(4) [OF d]] tick_done_game(2) [OF d]
    by (simp add: phase_tracked_def)
  have st: "list_all2 (player_stamp (s_tickID s + 1)) (players_of s) (players_of s4)"
    by (rule list_all2_trans [OF _ w g]) (meson player_stamp_trans player_step_stamp)
  have "player_ok (players_of s4 ! i) \<and> FeedbackTickID (LastActionFeedback (players_of s4 ! i)) \<le> s_tickID s + 1"
    if i: "i < length (players_of s4)" for i
  proof -
    have j: "i < length (players_of s)" using i list_all2_lengthD [OF st] by simp
    then have "player_stamp (s_tickID s + 1) (players_of s ! i) (players_of s4 ! i)" using st by (simp add: list_all2_conv_all_nth)
    moreover have "player_ok (players_of s ! i)" "FeedbackTickID (LastActionFeedback (players_of s ! i)) \<le> s_tickID s"
      using ok j by (simp_all add: match_ok_def list_all_length)
    ultimately show ?thesis using assms(2) by (auto simp: player_stamp_def)
  qed
  moreover have "TickID ?g = s_tickID s + 1"
    using t clock_frame_parts(8) [OF tick_doneD(4) [OF d]] tick_done_game(1) [OF d]
    by (auto simp: tracked_def frame_kept_def begin_tick_parts)
  moreover have "s_tickID s + 1 < EndsTick (Phase ?g)" using ends tick_done_game(1) [OF d] by auto
  ultimately show ?thesis using lists ids over s4(1) by (simp add: match_ok_def list_all_length)
qed

lemma storeSnapshotLocked_parts:
  "s_gameState (storeSnapshotLocked s n) = s_gameState s" "s_tickID (storeSnapshotLocked s n) = s_tickID s"
  "s_nextEntityID (storeSnapshotLocked s n) = s_nextEntityID s" "s_status (storeSnapshotLocked s n) = s_status s"
  "map_of (s_snapshotHistory (storeSnapshotLocked s n)) (SnapshotTickID n) = Some n"
  "s_players (storeSnapshotLocked s n) = s_players s"
proof -
  show "s_gameState (storeSnapshotLocked s n) = s_gameState s" "s_tickID (storeSnapshotLocked s n) = s_tickID s"
    "s_nextEntityID (storeSnapshotLocked s n) = s_nextEntityID s" "s_status (storeSnapshotLocked s n) = s_status s"
    "s_players (storeSnapshotLocked s n) = s_players s"
    by (simp_all add: storeSnapshotLocked_def Let_def)
  have "map_of (filter (\<lambda>(k, _). P k) xs) k = (if P k then map_of xs k else None)"
    for P :: "uint64 \<Rightarrow> bool" and xs :: "(uint64 \<times> Snapshot) list" and k
    by (induction xs) auto
  moreover have "\<not> SnapshotTickID n < SnapshotTickID n - historyLimit" if "\<not> SnapshotTickID n \<le> historyLimit"
    using that by (simp add: not_less word_sub_le)
  ultimately show "map_of (s_snapshotHistory (storeSnapshotLocked s n)) (SnapshotTickID n) = Some n"
    by (simp add: storeSnapshotLocked_def Let_def update_conv')
qed

text \<open>A tick of a running match returns and stores a delta that explains it.\<close>

lemma finish_session_parts:
  "s_tickID (finish_session now outcome s) = s_tickID s" "s_nextEntityID (finish_session now outcome s) = s_nextEntityID s"
  "s_status (finish_session now outcome s) = MatchStatusGameOver"
  "s_gameState (finish_session now outcome s) = (s_gameState s)\<lparr>Status := MatchStatusGameOver, GameOver := Some outcome\<rparr>"
  "s_players (finish_session now outcome s) = s_players s" "s_snapshotHistory (finish_session now outcome s) = s_snapshotHistory s"
  by (simp_all add: finish_session_def clear_queues_def)

lemma tick_session_cases:
  assumes "tick_world dec (m_config m) s = Some (pw, mutations, trs)"
  shows "\<exists>m' s4. tick_session dec now matchID s m = Some m' \<and> m_config m' = m_config m \<and>
    session_of m' matchID = Some (storeSnapshotLocked s4 (delta_snapshot s4 (delta_of s s4 mutations pw trs))) \<and>
    (s4 = pw_session pw \<and> Evaluate (s_gameState s4) \<lparr>WinMaxCycles = ServerMaxCycles (m_config m)\<rparr> = None \<or>
     (\<exists>outcome. s4 = finish_session now outcome (pw_session pw)))"
proof (cases "Evaluate (s_gameState (pw_session pw)) \<lparr>WinMaxCycles = ServerMaxCycles (m_config m)\<rparr>")
  case None
  then show ?thesis using assms
    by (simp add: tick_session_def Let_def appendEventLocked_def session_of_def put_session_def update_conv') blast
next
  case (Some outcome)
  then show ?thesis using assms
    by (simp add: tick_session_def Let_def appendEventLocked_def session_of_def put_session_def update_conv'
        record_match_def forget_players_def) blast
qed

text \<open>The clock of a match that goes on after a tick.\<close>

definition clock_moved :: "Decoders \<Rightarrow> ServerConfig \<Rightarrow> matchSession \<Rightarrow> matchSession \<Rightarrow> bool" where
  "clock_moved dec config s s' \<longleftrightarrow>
     (\<exists>gs trs. Advance (s_gameState (t_session (after_inputs dec s))) (s_tickID s + 1) (phaseConfig config)
        (Some managerPhaseHooks) = Some (gs, trs) \<and>
        Phase (s_gameState s') = Phase gs \<and> CycleCount (s_gameState s') = CycleCount gs) \<and>
     Evaluate (s_gameState s') \<lparr>WinMaxCycles = ServerMaxCycles config\<rparr> = None"

definition explains :: "GameState \<Rightarrow> Snapshot \<Rightarrow> GameState \<Rightarrow> bool" where
  "explains g0 n g \<longleftrightarrow> SnapshotKind_of n = SnapshotKindDelta \<and> SnapshotTickID n = TickID g \<and>
     (\<exists>d. Delta n = Some d \<and> lists_explained g0 d g \<and> entities_explained g0 d g \<and> scalars_explained g0 d g)"

lemma tick_session_explained:
  assumes ok: "match_ok s" and run: "s_status s = MatchStatusRunning" and room: "roomy dec (m_config m) s"
  shows "\<exists>m' s' n. tick_session dec now matchID s m = Some m' \<and> m_config m' = m_config m \<and>
    session_of m' matchID = Some s' \<and> s_tickID s' = s_tickID s + 1 \<and> match_ok s' \<and>
    s_snapshotHistory s' = s_snapshotHistory (storeSnapshotLocked s n) \<and>
    map_of (s_snapshotHistory s') (s_tickID s') = Some n \<and> explains (s_gameState s) n (s_gameState s') \<and>
    s_players s' = s_players s \<and> map ID (players_of s') = map ID (players_of s) \<and>
    (s_status s' = MatchStatusRunning \<and> clock_moved dec (m_config m) s s' \<or> s_status s' = MatchStatusGameOver)"
proof -
  let ?w = "after_inputs dec s"
  obtain pw mutations gs trs where tw: "tick_world dec (m_config m) s = Some (pw, mutations, trs)"
    and f: "collected ?w mutations" "clock_frame gs = clock_frame (s_gameState (t_session ?w))"
      "trs = [] \<longrightarrow> gs = s_gameState (t_session ?w)" and ends: "s_tickID s + 1 < EndsTick (Phase gs)"
    and pt: "phase_tracked ((t_session ?w)\<lparr>s_gameState := gs\<rparr>) pw"
    and adv: "Advance (s_gameState (t_session ?w)) (s_tickID s + 1) (phaseConfig (m_config m)) (Some managerPhaseHooks) = Some (gs, trs)"
    using tick_world_returns [OF ok room] by blast
  note t = after_inputs_tracked [OF ok room]
  obtain ps es bribes where p: "pw_session pw = (t_session ?w)\<lparr>s_gameState := gs\<lparr>Players := ps, Entities := es\<rparr>,
      s_npcPrisonerBribeState := bribes\<rparr>" using pt unfolding phase_tracked_def by auto
  have tick: "s_tickID (t_session ?w) = s_tickID s + 1" using tracked_tick [OF t] by (simp add: begin_tick_parts)
  have over: "GameOver (s_gameState (pw_session pw)) = None"
    using ok run t clock_frame_parts(10) [OF f(2)]
    by (simp add: p match_ok_def tracked_def frame_kept_def begin_tick_parts)
  obtain m' s4 where m': "tick_session dec now matchID s m = Some m'" "m_config m' = m_config m"
    "session_of m' matchID = Some (storeSnapshotLocked s4 (delta_snapshot s4 (delta_of s s4 mutations pw trs)))"
    and s4: "s4 = pw_session pw \<and> Evaluate (s_gameState s4) \<lparr>WinMaxCycles = ServerMaxCycles (m_config m)\<rparr> = None \<or>
      (\<exists>outcome. s4 = finish_session now outcome (pw_session pw))"
    using tick_session_cases [OF tw] by blast
  have parts: "s_tickID s4 = s_tickID s + 1" "s_nextEntityID s4 = s_nextEntityID (t_session ?w)"
    "s_status s4 = MatchStatusRunning \<Longrightarrow> GameOver (s_gameState s4) = None"
    using s4 over tick by (auto simp: p finish_session_parts)
  have frame: "s_players s4 = s_players s" "s_snapshotHistory s4 = s_snapshotHistory s"
    using s4 t run by (auto simp: p finish_session_parts tracked_def frame_kept_def begin_tick_parts)
  have on: "s_status s4 = MatchStatusRunning \<and> clock_moved dec (m_config m) s s4 \<or> s_status s4 = MatchStatusGameOver"
    using s4
  proof (elim disjE exE conjE)
    assume e: "s4 = pw_session pw" and none: "Evaluate (s_gameState s4) \<lparr>WinMaxCycles = ServerMaxCycles (m_config m)\<rparr> = None"
    have "Phase (s_gameState s4) = Phase gs" "CycleCount (s_gameState s4) = CycleCount gs" "s_status s4 = MatchStatusRunning"
      using t run by (simp_all add: e p tracked_def frame_kept_def begin_tick_parts)
    then show ?thesis unfolding clock_moved_def using adv none by blast
  qed (simp add: finish_session_parts)
  have "\<exists>st over. g = g\<lparr>Status := st, GameOver := over\<rparr>" for g :: GameState
    by (intro exI [of _ "Status g"] exI [of _ "GameOver g"]) simp
  then have same: "\<exists>st over. s_gameState s4 = (s_gameState (pw_session pw))\<lparr>Status := st, GameOver := over\<rparr>"
    using s4 finish_session_parts(4) by blast
  have d: "tick_done s ?w gs trs mutations pw (s_gameState s4)"
    using ok t f pt same by (simp add: tick_done_def)
  let ?n = "delta_snapshot s4 (delta_of s s4 mutations pw trs)"
  have "match_ok s4" by (rule tick_done_ok [OF d next_tick(1) [OF room] parts(1,2) ends parts(3)])
  then have ok': "match_ok (storeSnapshotLocked s4 ?n)" "TickID (s_gameState s4) = s_tickID s4"
    by (simp_all add: match_ok_def storeSnapshotLocked_parts session_map_def)
  have "explains (s_gameState s) ?n (s_gameState s4)"
    using tick_lists_explained [OF d] tick_entities_explained [OF d] tick_scalars_explained [OF d run] ok'(2)
    by (simp add: explains_def delta_snapshot_def)
  moreover have "map_of (s_snapshotHistory (storeSnapshotLocked s4 ?n)) (s_tickID s4) = Some ?n"
    using storeSnapshotLocked_parts(5) [of s4 ?n] by (simp add: delta_snapshot_def)
  moreover have "s_snapshotHistory (storeSnapshotLocked s4 ?n) = s_snapshotHistory (storeSnapshotLocked s ?n)"
    using frame(2) by (simp add: storeSnapshotLocked_def Let_def)
  moreover have "map ID (players_of s4) = map ID (players_of s)"
    using tick_lists_explained [OF d] by (simp add: lists_explained_def kept_def)
  moreover have "clock_moved dec (m_config m) s (storeSnapshotLocked s4 ?n) = clock_moved dec (m_config m) s s4"
    by (simp add: clock_moved_def storeSnapshotLocked_parts)
  ultimately show ?thesis using m' ok' parts(1) frame(1) on
    by (intro exI [of _ m'] exI [of _ "storeSnapshotLocked s4 ?n"] exI [of _ ?n])
      (simp add: storeSnapshotLocked_parts)
qed

end
