(* ===== verification/ClientSync.thy ===== *)
theory ClientSync
  imports Mirror
begin

text \<open>
  A client that follows a match: runs of joins (a full snapshot), submissions and ticks, in any
  order, and what holds after each. \<open>client_step\<close> is the step relation on the manager and the
  client's store; a tick hands the client the snapshot that the server stored for it.
\<close>

section \<open>One tick and the client\<close>

lemma mirrors_TickID: "mirrors c g \<Longrightarrow> TickID c = TickID g"
  unfolding mirrors_def by (elim conjE, drule arg_cong [of c _ TickID]) simp

lemma delta_applied:
  assumes "CurrentState c = Some g0'" "mirrors g0' g0" "TickID g0 < TickID g" "explains g0 n g"
  shows "\<exists>c' g'. ApplySnapshot c n = (c', True) \<and> CurrentState c' = Some g' \<and> mirrors g' g"
proof -
  obtain d where n: "SnapshotKind_of n = SnapshotKindDelta" "SnapshotTickID n = TickID g" "Delta n = Some d"
    and e: "lists_explained g0 d g" "entities_explained g0 d g" "scalars_explained g0 d g"
    using assms(4) unfolding explains_def by blast
  have "store_state c = Some g0'" using assms(1) by (simp add: CurrentState_def option.map_ident)
  moreover have "TickID g0' = TickID g0" by (rule mirrors_TickID [OF assms(2)])
  ultimately show ?thesis using n explained_mirrors [OF assms(2) e] assms(3)
    by (auto simp: ApplySnapshot_def Let_def CurrentState_def option.map_ident not_le [symmetric])
qed

lemma tick_match_mirrored:
  assumes s: "session_of m matchID = Some s" and run: "s_status s = MatchStatusRunning"
    and ok: "match_ok s" and room: "roomy dec (m_config m) s"
    and c: "CurrentState c = Some g" "mirrors g (s_gameState s)"
  shows "\<exists>m' s' n c' g'. tick_match dec now tickAt matchID m = Some (m', True) \<and> m_config m' = m_config m \<and>
    session_of m' matchID = Some s' \<and> s_tickID s' = s_tickID s + 1 \<and> match_ok s' \<and>
    map_of (s_snapshotHistory s') (s_tickID s') = Some n \<and> ApplySnapshot c n = (c', True) \<and>
    CurrentState c' = Some g' \<and> mirrors g' (s_gameState s')"
proof -
  obtain m' s' n where t: "tick_session dec (if tickAt = 0 then now else tickAt) matchID s m = Some m'"
    "m_config m' = m_config m" "session_of m' matchID = Some s'" "s_tickID s' = s_tickID s + 1" "match_ok s'"
    "map_of (s_snapshotHistory s') (s_tickID s') = Some n" and e: "explains (s_gameState s) n (s_gameState s')"
    using tick_session_explained [OF ok run room] by blast
  have "TickID (s_gameState s) < TickID (s_gameState s')"
    using ok t(4,5) next_tick(1) [OF room] by (simp add: match_ok_def)
  from delta_applied [OF c this e] obtain c' g' where
    "ApplySnapshot c n = (c', True)" "CurrentState c' = Some g'" "mirrors g' (s_gameState s')" by blast
  moreover have "tick_match dec now tickAt matchID m = Some (m', True)"
    using s run t(1) by (simp add: tick_match_def)
  ultimately show ?thesis using t by blast
qed

section \<open>Runs\<close>

inductive client_step ::
  "Decoders \<Rightarrow> MatchID \<Rightarrow> Manager \<times> SnapshotStore \<Rightarrow> Manager \<times> SnapshotStore \<Rightarrow> bool"
  for dec matchID where
  client_joins: "FullSnapshot m matchID = Inr n \<Longrightarrow> ApplySnapshot c n = (c', True) \<Longrightarrow>
    client_step dec matchID (m, c) (m, c')"
| input_arrives: "SubmitInput dec now m someMatch command = (m', r) \<Longrightarrow> client_step dec matchID (m, c) (m', c)"
| tick_fires: "session_of m matchID = Some s \<Longrightarrow> roomy dec (m_config m) s \<Longrightarrow>
    tick_match dec now tickAt matchID m = Some (m', True) \<Longrightarrow> session_of m' matchID = Some s' \<Longrightarrow>
    map_of (s_snapshotHistory s') (s_tickID s') = Some n \<Longrightarrow> ApplySnapshot c n = (c', applied) \<Longrightarrow>
    client_step dec matchID (m, c) (m', c')"

inductive_cases client_stepE: "client_step dec matchID (m, c) (m', c')"

text \<open>The client holds a mirror of a match that keeps its invariant.\<close>

definition in_sync :: "MatchID \<Rightarrow> Manager \<times> SnapshotStore \<Rightarrow> bool" where
  "in_sync matchID mc = (case session_of (fst mc) matchID of None \<Rightarrow> False | Some s \<Rightarrow> match_ok s \<and>
     (case CurrentState (snd mc) of None \<Rightarrow> False | Some g \<Rightarrow> mirrors g (s_gameState s)))"

lemma in_syncE:
  assumes "in_sync matchID (m, c)"
  obtains s g where "session_of m matchID = Some s" "match_ok s" "CurrentState c = Some g" "mirrors g (s_gameState s)"
  using assms by (auto simp: in_sync_def split: option.splits)

lemma submit_session_keeps:
  assumes "submit_session now matchID playerID command s = (s', r)"
  shows "s_gameState s' = s_gameState s" "s_tickID s' = s_tickID s" "s_nextEntityID s' = s_nextEntityID s"
    "s_status s' = s_status s"
  using assms by (auto simp: submit_session_def pruneRateWindows_def Let_def split: if_splits sum.splits option.splits)

lemma SubmitInput_session:
  assumes "SubmitInput dec now m someMatch command = (m', r)" and "session_of m matchID = Some s"
  shows "\<exists>s'. session_of m' matchID = Some s' \<and> s_gameState s' = s_gameState s \<and> s_tickID s' = s_tickID s \<and>
    s_nextEntityID s' = s_nextEntityID s \<and> s_status s' = s_status s"
  using assms submit_session_keeps
  by (auto simp: SubmitInput_def Let_def split: if_splits option.splits prod.splits)

lemma match_ok_cong:
  "s_gameState s' = s_gameState s \<Longrightarrow> s_tickID s' = s_tickID s \<Longrightarrow> s_nextEntityID s' = s_nextEntityID s \<Longrightarrow>
   s_status s' = s_status s \<Longrightarrow> match_ok s' = match_ok s"
  by (simp add: match_ok_def session_map_def)

lemma mirrors_refl [simp]: "mirrors g g"
  by (simp add: mirrors_def list_all2_conv_all_nth)

lemma client_step_in_sync:
  assumes "client_step dec matchID (m, c) (m', c')" and "in_sync matchID (m, c)"
  shows "in_sync matchID (m', c')"
proof -
  obtain s g where s: "session_of m matchID = Some s" "match_ok s" and c: "CurrentState c = Some g" "mirrors g (s_gameState s)"
    using in_syncE [OF assms(2)] .
  from assms(1) show ?thesis
  proof (rule client_stepE)
    fix n assume n: "m' = m" "FullSnapshot m matchID = Inr n" "ApplySnapshot c n = (c', True)"
    then have "CurrentState c' = Some (s_gameState s)"
      using s(1) by (auto simp: FullSnapshot_def makeFullSnapshotLocked_def ApplySnapshot_def Let_def CurrentState_def)
    then show ?thesis using s n by (simp add: in_sync_def)
  next
    fix now someMatch command r assume r: "c' = c" "SubmitInput dec now m someMatch command = (m', r)"
    then obtain s' where "session_of m' matchID = Some s'" "s_gameState s' = s_gameState s" "match_ok s'"
      using SubmitInput_session [OF _ s(1)] match_ok_cong s(2) by metis
    then show ?thesis using c r by (simp add: in_sync_def)
  next
    fix s1 now tickAt s' n applied
    assume t: "session_of m matchID = Some s1" "roomy dec (m_config m) s1" "tick_match dec now tickAt matchID m = Some (m', True)"
      "session_of m' matchID = Some s'" "map_of (s_snapshotHistory s') (s_tickID s') = Some n" "ApplySnapshot c n = (c', applied)"
    have "s_status s = MatchStatusRunning" using t(3) s(1) by (auto simp: tick_match_def split: if_splits)
    then show ?thesis
      using tick_match_mirrored [OF s(1) _ s(2) _ c, of dec now tickAt] t s(1) by (auto simp: in_sync_def)
  qed
qed

lemma client_run_in_sync:
  assumes "(client_step dec matchID)\<^sup>*\<^sup>* mc mc'" and "in_sync matchID mc"
  shows "in_sync matchID mc'"
  using assms
proof (induction rule: rtranclp_induct)
  case (step y z)
  then show ?case using client_step_in_sync by (metis prod.collapse)
qed simp

end
