(* ===== verification/StartLaws.thy ===== *)
theory StartLaws
  imports Mirror
begin

text \<open>
  The start of a match (\<open>StartMatch\<close> of \<open>src/internal/server/game/manager.go\<close>) establishes the
  invariant \<open>match_ok\<close> that every tick keeps: the players are synchronised with the roster of the
  session, get roles, abilities, cells and loadouts, and the NPC prisoners get fresh identifiers.
\<close>

section \<open>The roster\<close>

definition newcomer :: "PlayerState \<Rightarrow> bool" where
  "newcomer p \<longleftrightarrow> canonical (Inventory p) \<and> hand_ok (Cards p) \<and> FeedbackTickID (LastActionFeedback p) = 0"

definition roster_ok :: "matchSession \<Rightarrow> bool" where
  "roster_ok s \<longleftrightarrow> distinct (map fst (s_players s)) \<and> map ID (players_of s) = sort (map fst (s_players s))"

lemma roster_strict: "roster_ok s \<Longrightarrow> strict ID (players_of s)"
  by (simp add: roster_ok_def strict_def strict_sorted_iff)

lemma existing_players_member: "existing_players ps k = Some p \<Longrightarrow> p \<in> set ps \<and> ID p = k"
  by (auto simp: existing_players_def dest!: map_of_SomeD)

lemma existing_players_dom: "k \<in> ID ` set ps \<Longrightarrow> \<exists>p. existing_players ps k = Some p"
proof -
  assume "k \<in> ID ` set ps"
  then have "k \<in> fst ` set (rev (map (\<lambda>p. (ID p, p)) ps))" by (auto simp: image_iff)
  then show ?thesis unfolding existing_players_def using map_of_eq_None_iff by (metis not_None_eq)
qed

lemma synced_ID: "ID (synced_player ex k v) = k"
  by (simp add: synced_player_def Let_def split: option.split)

lemma map_fst_sort_key: "map fst (sort_key fst xs) = sort (map fst xs)" for xs :: "('a :: linorder \<times> 'b) list"
proof -
  have "mset (map fst (sort_key fst xs)) = mset (map fst xs)" by simp
  moreover have "sorted (map fst (sort_key fst xs))" by simp
  ultimately show ?thesis by (metis properties_for_sort)
qed

lemma synced_roster:
  "distinct (map fst (s_players s)) \<Longrightarrow> roster_ok (syncGameStatePlayersLocked s)"
  "s_players (syncGameStatePlayersLocked s) = s_players s"
proof -
  have "map ID (players_of (syncGameStatePlayersLocked s)) = map fst (sort_key fst (s_players s))"
    by (simp add: syncGameStatePlayersLocked_def Let_def case_prod_beta' synced_ID)
  then have "map ID (players_of (syncGameStatePlayersLocked s)) = sort (map fst (s_players s))"
    unfolding map_fst_sort_key .
  moreover show sp: "s_players (syncGameStatePlayersLocked s) = s_players s"
    by (simp add: syncGameStatePlayersLocked_def Let_def)
  ultimately show "distinct (map fst (s_players s)) \<Longrightarrow> roster_ok (syncGameStatePlayersLocked s)"
    by (simp add: roster_ok_def)
qed

lemma synced_newcomers:
  assumes "list_all newcomer (players_of s)"
  shows "list_all newcomer (players_of (syncGameStatePlayersLocked s))"
proof -
  have "newcomer (synced_player (existing_players (players_of s)) k v)" for k v
  proof (cases "existing_players (players_of s) k")
    case None
    then show ?thesis
      by (simp add: synced_player_def newcomer_def zero_player_def no_action_feedback_def hand_ok_def)
  next
    case (Some p)
    then have "newcomer p" using assms existing_players_member by (auto simp: list_all_iff)
    then show ?thesis using Some by (simp add: synced_player_def newcomer_def)
  qed
  then show ?thesis by (auto simp: syncGameStatePlayersLocked_def Let_def list_all_iff)
qed

section \<open>Roles, abilities, cells\<close>

definition dealt :: "PlayerState \<Rightarrow> PlayerState \<Rightarrow> bool" where
  "dealt p q \<longleftrightarrow> ID q = ID p \<and> Inventory q = Inventory p \<and> Cards q = Cards p \<and>
     LastActionFeedback q = LastActionFeedback p"

lemma dealt_refl [simp]: "dealt p p"
  by (simp add: dealt_def)

lemma dealt_trans: "dealt p q \<Longrightarrow> dealt q r \<Longrightarrow> dealt p r"
  by (simp add: dealt_def)

lemma dealt_newcomer: "dealt p q \<Longrightarrow> newcomer p \<Longrightarrow> newcomer q"
  by (simp add: dealt_def newcomer_def)

lemma dealt_list:
  assumes "list_all2 dealt ps qs"
  shows "map ID qs = map ID ps" "list_all newcomer ps \<Longrightarrow> list_all newcomer qs"
proof -
  show "map ID qs = map ID ps" using assms
    by (auto simp: list_all2_conv_all_nth dealt_def intro!: nth_equalityI)
  show "list_all newcomer ps \<Longrightarrow> list_all newcomer qs" using assms dealt_newcomer
    by (auto simp: list_all2_conv_all_nth list_all_length)
qed

lemma list_dealt_update:
  assumes "list_all2 dealt ps qs" "dealt (qs ! i) q"
  shows "list_all2 dealt ps (qs[i := q])"
proof -
  have "dealt (ps ! j) (qs[i := q] ! j)" if "j < length qs" for j
    using assms that dealt_trans by (cases "i = j") (auto simp: list_all2_conv_all_nth)
  then show ?thesis using assms(1) by (simp add: list_all2_conv_all_nth)
qed

lemma place_player_dealt:
  assumes "list_all2 dealt ps (cs_players st)"
  shows "list_all2 dealt ps (cs_players (place_player i st))" "cs_cells (place_player i st) = cs_cells st"
  using assms by (auto simp: place_player_def Let_def dealt_def intro!: list_dealt_update)

lemma cell_loop_dealt:
  assumes "list_all2 dealt ps (cs_players st)"
  shows "list_all2 dealt ps (cs_players (cell_loop k is st)) \<and>
    map CellState_ID (cs_cells (cell_loop k is st)) = map CellState_ID (cs_cells st)"
  using assms
proof (induction "is" arbitrary: k st)
  case (Cons i rest)
  let ?p = "(cs_players st ! i)\<lparr>LockedInCell := 0, Velocity := zero_vector, AssignedCell := 0\<rparr>"
  let ?st = "st\<lparr>cs_players := (cs_players st)[i := ?p]\<rparr>"
  let ?cell = "(cs_cells ?st ! k)\<lparr>OwnerPlayerID := ID ?p, OccupantPlayerIDs := [ID ?p]\<rparr>"
  let ?st2 = "if k \<ge> length (cs_cells ?st) then ?st else ?st\<lparr>cs_cells := (cs_cells ?st)[k := ?cell],
    cs_players := (cs_players ?st)[i := ?p\<lparr>AssignedCell := CellState_ID ?cell\<rparr>]\<rparr>"
  have a: "list_all2 dealt ps (cs_players ?st)"
    using list_dealt_update [OF Cons.prems, of i ?p] by (simp add: dealt_def)
  have b: "list_all2 dealt ps (cs_players ?st2)"
    using a list_dealt_update [OF a, of i] list_dealt_update [OF Cons.prems, of i] by (simp add: dealt_def)
  have c: "map CellState_ID (cs_cells ?st2) = map CellState_ID (cs_cells st)"
    by (auto simp: map_update list_update_same_conv)
  have "cell_loop k (i # rest) st = cell_loop (Suc k) rest (place_player i ?st2)" by (simp only: cell_loop.simps Let_def)
  then show ?case using Cons.IH [OF place_player_dealt(1) [OF b, of i], of "Suc k"] place_player_dealt(2) [OF b, of i] c
    by (simp only:)
qed simp

section \<open>The deal\<close>

lemma assign_roles_dealt: "list_all2 dealt (players_of s) (players_of (assign_roles s))"
  by (auto simp: assign_roles_def ApplyAssignments_def Let_def list_all2_conv_all_nth apply_assignment_def dealt_def
      split: sum.split if_split)

lemma assign_abilities_dealt: "list_all2 dealt (players_of s) (players_of (assignRandomAbilitiesLocked s))"
  by (simp add: assignRandomAbilitiesLocked_def list_all2_conv_all_nth dealt_def)

lemma assign_cells_dealt:
  "list_all2 dealt (players_of s) (players_of (assignCellsLocked s))"
  "map CellState_ID (Cells (session_map (assignCellsLocked s))) = map CellState_ID (Cells (session_map s))"
proof -
  let ?st = "\<lparr>cs_players = players_of s, cs_cells = map (\<lambda>c. c\<lparr>OwnerPlayerID := PlayerID '''', OccupantPlayerIDs := []\<rparr>)
    (Cells (Map (s_gameState s))), cs_prisonerSpawnIndex = 0, cs_deputySpawnIndex = 0\<rparr>"
  have st: "list_all2 dealt (players_of s) (cs_players ?st)" by (simp add: list_all2_conv_all_nth)
  note l = cell_loop_dealt [OF st, of 0 "order_by_id (players_of s)"]
  show "list_all2 dealt (players_of s) (players_of (assignCellsLocked s))"
    using l by (simp add: assignCellsLocked_def Let_def list_all2_conv_all_nth)
  show "map CellState_ID (Cells (session_map (assignCellsLocked s))) = map CellState_ID (Cells (session_map s))"
    using l by (simp add: assignCellsLocked_def Let_def session_map_def comp_def)
qed

text \<open>The loadouts make a newcomer a player of the match.\<close>

lemma loadout_hearts: "LoadoutHeartsHalf (loadoutForRole r) \<noteq> 0" "LoadoutBullets (loadoutForRole r) \<le> authorityAmmoMax"
  by (simp_all add: loadoutForRole_def authorityAmmoMax_def split: RoleType.split)

lemma newcomer_loadout:
  assumes "newcomer p"
  shows "player_ok ((apply_loadout p)\<lparr>InventorySlots := playerInventorySlotCount\<rparr>)"
  using assms loadout_hearts [of "Role p"]
  by (simp add: newcomer_def player_ok_def apply_loadout_def Let_def MaxHeartsHalfForRole_def DefaultPlayerLives_def word_neq_0_conv)

lemma attempt_add_step: "player_step p q \<Longrightarrow> player_step p (fst (attempt q (AddItem q item n)))"
  using AddItem_step player_step_trans by blast

lemma cap_step: "player_step p q \<Longrightarrow> player_step p (if c then q\<lparr>Bullets := authorityAmmoMax\<rparr> else q)"
  using player_step_trans [OF _ cap_bullets_step] by simp

lemma inventory_loadout_step:
  "player_step (p\<lparr>InventorySlots := playerInventorySlotCount\<rparr>) (inventory_loadout p)"
proof -
  let ?p = "p\<lparr>InventorySlots := playerInventorySlotCount\<rparr>"
  note honest = syncAuthority_honest [unfolded honest_def] ensureEquipped_honest [unfolded honest_def]
  let ?a = "?p\<lparr>Inventory := []\<rparr>"
  let ?b = "fst (attempt ?a (AddItem ?a ItemBaton 1))"
  let ?c = "fst (attempt ?b (AddItem ?b ItemPistol 1))"
  let ?d = "if Bullets ?c = 0 then ?c\<lparr>Bullets := authorityAmmoMax\<rparr> else ?c"
  let ?e = "if Bullets ?d > authorityAmmoMax then ?d\<lparr>Bullets := authorityAmmoMax\<rparr> else ?d"
  have c: "player_step ?p ?c" by (intro attempt_add_step step_inventory) simp
  have "player_step ?p ?e" by (intro cap_step c)
  then have "player_step ?p (fst (syncAuthorityBulletStackLocked ?e))"
    by (rule player_step_trans) (use honest(1) in blast)
  then have a: "player_step ?p ((fst (syncAuthorityBulletStackLocked ?e))\<lparr>EquippedItem := ItemPistol\<rparr>)"
    by (rule player_step_trans) simp
  have "player_step ?p (normalizeInventoryToPlayerSlotsLocked ?p)" using normalize_step [of ?p] by simp
  then have b: "player_step ?p (fst (ensureEquippedItemForPlayerLocked (normalizeInventoryToPlayerSlotsLocked ?p)))"
    by (rule player_step_trans) (use honest(2) in blast)
  show ?thesis unfolding inventory_loadout_def Let_def by (rule if_split [THEN iffD2]) (intro conjI impI a b)
qed

section \<open>The NPC prisoners\<close>

lemma npc_spawn_loop_laws:
  assumes "strict EntityState_ID (entities_of s)" "list_all (\<lambda>e. EntityState_ID e \<le> s_nextEntityID s) (entities_of s)"
    and "unat (s_nextEntityID s) + length rs < 2 ^ 32"
  shows "strict EntityState_ID (entities_of (npc_spawn_loop rs s)) \<and>
    list_all (\<lambda>e. EntityState_ID e \<le> s_nextEntityID (npc_spawn_loop rs s)) (entities_of (npc_spawn_loop rs s)) \<and>
    (\<exists>es n bribes. npc_spawn_loop rs s = s\<lparr>s_nextEntityID := n, s_npcPrisonerBribeState := bribes,
       s_gameState := (s_gameState s)\<lparr>Entities := es\<rparr>\<rparr>)"
  using assms
proof (induction rs arbitrary: s)
  case Nil
  have "\<exists>es n bribes. s = s\<lparr>s_nextEntityID := n, s_npcPrisonerBribeState := bribes, s_gameState := (s_gameState s)\<lparr>Entities := es\<rparr>\<rparr>"
    by (intro exI [of _ "entities_of s"] exI [of _ "s_nextEntityID s"] exI [of _ "s_npcPrisonerBribeState s"]) simp
  then show ?case using Nil.prems by simp
next
  case (Cons r rs)
  let ?n = "s_nextEntityID s + 1"
  have u: "unat ?n = Suc (unat (s_nextEntityID s))" using Cons.prems(3) by (simp add: unat_word_ariths)
  then have lt: "s_nextEntityID s < ?n" by (simp add: word_less_nat_alt)
  have le: "EntityState_ID e < ?n" if "e \<in> set (entities_of s)" for e
    using Cons.prems(2) that lt by (auto simp: list_all_iff)
  let ?next = "\<lambda>e bribes. s\<lparr>s_nextEntityID := ?n, s_npcPrisonerBribeState := bribes,
    s_gameState := (s_gameState s)\<lparr>Entities := entities_of s @ e\<rparr>\<rparr>"
  have ih: "strict EntityState_ID (entities_of (npc_spawn_loop rs (?next e bribes))) \<and>
    list_all (\<lambda>e'. EntityState_ID e' \<le> s_nextEntityID (npc_spawn_loop rs (?next e bribes))) (entities_of (npc_spawn_loop rs (?next e bribes))) \<and>
    (\<exists>es n bribes'. npc_spawn_loop rs (?next e bribes) = s\<lparr>s_nextEntityID := n, s_npcPrisonerBribeState := bribes',
       s_gameState := (s_gameState s)\<lparr>Entities := es\<rparr>\<rparr>)"
    if e: "e = [] \<or> (\<exists>x. e = [x] \<and> EntityState_ID x = ?n)" for e bribes
  proof -
    have "strict EntityState_ID (entities_of (?next e bribes))"
      using Cons.prems(1) le e by (auto simp: strict_def sorted_wrt_append)
    moreover have "list_all (\<lambda>e'. EntityState_ID e' \<le> s_nextEntityID (?next e bribes)) (entities_of (?next e bribes))"
      using le e by (auto simp: list_all_iff dest: less_imp_le)
    moreover have "unat (s_nextEntityID (?next e bribes)) + length rs < 2 ^ 32" using Cons.prems(3) u by simp
    ultimately show ?thesis using Cons.IH [of "?next e bribes"] by auto
  qed
  show ?case
  proof (cases "deterministicNPCPrisonerOffer (s_matchID s) r ?n 0")
    case None
    then have eq: "npc_spawn_loop (r # rs) s = npc_spawn_loop rs (?next [] (s_npcPrisonerBribeState s))" by (simp add: Let_def)
    show ?thesis unfolding eq by (rule ih) simp
  next
    case (Some ofr)
    obtain x bribes where eq: "npc_spawn_loop (r # rs) s = npc_spawn_loop rs (?next [x] bribes)" and x: "EntityState_ID x = ?n"
      using Some by (cases ofr) (auto simp: Let_def)
    show ?thesis unfolding eq by (rule ih) (simp add: x)
  qed
qed

lemma default_room_order: "length (roomOrder defaultMatchLayout) = 11"
proof -
  have "b_tiles (newLayoutBuilder 76 44) = map (\<lambda>_. \<lparr>TileKind_of = TileWall, TileRoomID = NoRoom\<rparr>) [0 ..< 3344]"
    by (simp add: newLayoutBuilder_def map_replicate_const)
  then have "\<exists>l. DefaultPrisonLayout = Some l \<and> length (roomOrder l) = 11"
    by (simp add: DefaultPrisonLayout_def builder_steps carve_meta_def door_meta_def area_in_grid single_in_grid
        newLayoutBuilder_def build_def Let_def ensure_node_def add_edge_def less_eq_RoomID_def del: upt_Suc)
  then obtain l where l: "DefaultPrisonLayout = Some l" "length (roomOrder l) = 11" by (elim exE conjE)
  have "defaultMatchLayout = l" unfolding defaultMatchLayout_def l(1) by (simp only: option.case)
  from this [symmetric] show ?thesis using l(2) by (rule subst)
qed

lemma spawn_rooms_few: "length (npcPrisonerSpawnRoomCandidates m) \<le> 11"
  unfolding npcPrisonerSpawnRoomCandidates_def Rooms_def
  by (simp, rule order_trans [OF length_filter_le]) (simp add: default_room_order)

lemma spawn_npcs_laws:
  assumes "entities_of s = []" "s_nextEntityID s = 0"
  shows "strict EntityState_ID (entities_of (spawnNPCPrisonersLocked s)) \<and>
    list_all (\<lambda>e. EntityState_ID e \<le> s_nextEntityID (spawnNPCPrisonersLocked s)) (entities_of (spawnNPCPrisonersLocked s)) \<and>
    (\<exists>es n bribes. spawnNPCPrisonersLocked s = s\<lparr>s_nextEntityID := n, s_npcPrisonerBribeState := bribes,
       s_gameState := (s_gameState s)\<lparr>Entities := es\<rparr>\<rparr>)"
proof -
  let ?a = "deterministicNPCPrisonerSpawnRooms (s_matchID s) (Map (s_gameState s)) npcPrisonerSpawnCount"
  let ?b = "if length ?a = 0 then npcPrisonerTaskVisitRooms else ?a"
  let ?c = "if length ?b = 0 then [RoomCorridorMain] else ?b"
  have "length ?a \<le> 11"
    unfolding deterministicNPCPrisonerSpawnRooms_def Let_def npcPrisonerSpawnCount_def by simp
  then have "length ?c \<le> 11" using spawn_rooms_few [of "ToMapState defaultMatchLayout"] by (simp add: npcPrisonerTaskVisitRooms_def)
  then show ?thesis unfolding spawnNPCPrisonersLocked_def Let_def
    using assms by (intro npc_spawn_loop_laws) (simp_all add: strict_def)
qed

section \<open>The start\<close>

definition lobby_ok :: "matchSession \<Rightarrow> bool" where
  "lobby_ok s \<longleftrightarrow> distinct (map fst (s_players s)) \<and> list_all newcomer (players_of s) \<and>
     strict DoorState_ID (Doors (session_map s)) \<and> strict CellState_ID (Cells (session_map s)) \<and>
     GameOver (s_gameState s) = None"

lemma InitialPhase_positive:
  assumes "unat (DayDurationTicks (PhaseClock.normalized cfg)) + 1 < 2 ^ 64"
  shows "0 < EndsTick (InitialPhaseState cfg 1)"
  using assms by (simp add: InitialPhaseState_def Let_def word_less_nat_alt unat_word_ariths)

lemma players_same: "\<exists>ps. s = with_players (\<lambda>_. ps) s"
  by (intro exI [of _ "players_of s"]) (simp add: with_players_def)

lemma assign_roles_with: "\<exists>ps. assign_roles s = with_players (\<lambda>_. ps) s"
proof (cases "ApplyAssignments (s_gameState s) (s_matchID s)")
  case Inl
  then have "assign_roles s = s" by (simp add: assign_roles_def)
  then show ?thesis using players_same by simp
next
  case (Inr gs)
  then have "\<exists>ps. gs = (s_gameState s)\<lparr>Players := ps\<rparr>"
  proof (cases "players_of s = []")
    case True
    then have "gs = s_gameState s" using Inr by (simp add: ApplyAssignments_def)
    then show ?thesis by (intro exI [of _ "players_of s"]) simp
  qed (use Inr in \<open>auto simp: ApplyAssignments_def Let_def split: sum.splits\<close>)
  then show ?thesis using Inr by (auto simp: assign_roles_def with_players_def)
qed

lemma assign_cells_with:
  "\<exists>ps cs. assignCellsLocked s = s\<lparr>s_gameState := (s_gameState s)\<lparr>Players := ps, Map := (Map (s_gameState s))\<lparr>Cells := cs\<rparr>\<rparr>\<rparr>"
proof (cases "length (players_of s) = 0 \<or> length (Cells (Map (s_gameState s))) = 0")
  case True
  then have e: "assignCellsLocked s = s" unfolding assignCellsLocked_def Let_def by (rule if_P)
  show ?thesis unfolding e
    by (intro exI [of _ "players_of s"] exI [of _ "Cells (Map (s_gameState s))"]) simp
next
  case False
  show ?thesis unfolding assignCellsLocked_def Let_def if_not_P [OF False] by blast
qed

lemma loadout_player:
  "ID (inventory_loadout (apply_loadout p)) = ID p"
  "newcomer p \<Longrightarrow> player_ok (inventory_loadout (apply_loadout p))"
  "newcomer p \<Longrightarrow> FeedbackTickID (LastActionFeedback (inventory_loadout (apply_loadout p))) = 0"
proof -
  have st: "player_step ((apply_loadout p)\<lparr>InventorySlots := playerInventorySlotCount\<rparr>) (inventory_loadout (apply_loadout p))"
    by (rule inventory_loadout_step)
  then show "ID (inventory_loadout (apply_loadout p)) = ID p" by (simp add: player_step_def apply_loadout_def Let_def)
  show "player_ok (inventory_loadout (apply_loadout p))" if "newcomer p"
    using st newcomer_loadout [OF that] by (simp add: player_step_def)
  have "LastActionFeedback (inventory_loadout (apply_loadout p)) = LastActionFeedback p"
    using st by (simp add: player_step_def apply_loadout_def Let_def)
  then show "FeedbackTickID (LastActionFeedback (inventory_loadout (apply_loadout p))) = 0" if "newcomer p"
    using that by (simp add: newcomer_def)
qed

lemma deal_players_parts:
  assumes "lobby_ok s" and "entities_of s = []" "s_nextEntityID s = 0" "s_tickID s = 0"
    "TickID (s_gameState s) = 0" "0 < EndsTick (Phase (s_gameState s))"
  shows "match_ok (deal_players s)" "roster_ok (deal_players s)" "s_status (deal_players s) = s_status s"
    "s_tickID (deal_players s) = s_tickID s" "s_players (deal_players s) = s_players s"
    "Phase (s_gameState (deal_players s)) = Phase (s_gameState s)" "CycleCount (s_gameState (deal_players s)) = CycleCount (s_gameState s)"
proof -
  define s1 where "s1 = syncGameStatePlayersLocked s"
  define s2 where "s2 = assign_roles s1"
  define s3 where "s3 = assignRandomAbilitiesLocked s2"
  define s4 where "s4 = assignCellsLocked s3"
  let ?f = "\<lambda>p. inventory_loadout (apply_loadout p)"
  let ?s5 = "with_players (map ?f) s4"
  have p1: "roster_ok s1" "list_all newcomer (players_of s1)"
    using assms(1) synced_roster(1) synced_newcomers by (simp_all add: s1_def lobby_ok_def)
  have d: "list_all2 dealt (players_of s1) (players_of s4)"
    using list_all2_trans [OF dealt_trans list_all2_trans [OF dealt_trans assign_roles_dealt [of s1] assign_abilities_dealt [of s2, unfolded s2_def]]
      assign_cells_dealt(1) [of s3, unfolded s3_def s2_def]]
    by (simp only: s4_def s3_def s2_def)
  have g1: "\<exists>ps. s1 = with_players (\<lambda>_. ps) s" unfolding s1_def syncGameStatePlayersLocked_def with_players_def Let_def by auto
  have g2: "\<exists>ps. s2 = with_players (\<lambda>_. ps) s1" unfolding s2_def by (rule assign_roles_with)
  have g3: "\<exists>ps. s3 = with_players (\<lambda>_. ps) s2" unfolding s3_def assignRandomAbilitiesLocked_def with_players_def by auto
  have g4: "\<exists>ps cs. s4 = s3\<lparr>s_gameState := (s_gameState s3)\<lparr>Players := ps, Map := (Map (s_gameState s3))\<lparr>Cells := cs\<rparr>\<rparr>\<rparr>"
    unfolding s4_def by (rule assign_cells_with)
  obtain ps cs where s4: "s4 = s\<lparr>s_gameState := (s_gameState s)\<lparr>Players := ps, Map := (Map (s_gameState s))\<lparr>Cells := cs\<rparr>\<rparr>\<rparr>"
    using g1 g2 g3 g4 by (auto simp: with_players_def)
  have e: "deal_players s = spawnNPCPrisonersLocked ?s5"
    by (simp add: deal_players_def Let_def s4_def s3_def s2_def s1_def ApplyRoleLoadouts_def applyInventoryLoadoutsLocked_def
        with_players_def comp_def)
  have sp: "strict EntityState_ID (entities_of (deal_players s))"
    "list_all (\<lambda>e. EntityState_ID e \<le> s_nextEntityID (deal_players s)) (entities_of (deal_players s))"
    "\<exists>es n bribes. deal_players s = ?s5\<lparr>s_nextEntityID := n, s_npcPrisonerBribeState := bribes, s_gameState := (s_gameState ?s5)\<lparr>Entities := es\<rparr>\<rparr>"
    unfolding e using spawn_npcs_laws [of ?s5] assms(2,3) by (simp_all add: s4 with_players_def)
  obtain es n bribes where f: "deal_players s = ?s5\<lparr>s_nextEntityID := n, s_npcPrisonerBribeState := bribes,
      s_gameState := (s_gameState ?s5)\<lparr>Entities := es\<rparr>\<rparr>" using sp(3) by blast
  have ps: "players_of (deal_players s) = map ?f (players_of s4)" by (simp add: f with_players_def)
  have ids: "map ID (players_of (deal_players s)) = map ID (players_of s1)"
    using dealt_list(1) [OF d] loadout_player(1) by (simp add: ps comp_def)
  have pl: "s_players (deal_players s) = s_players s1" by (simp add: f with_players_def s4 s1_def synced_roster(2))
  show "s_status (deal_players s) = s_status s" "s_tickID (deal_players s) = s_tickID s" "s_players (deal_players s) = s_players s"
    "Phase (s_gameState (deal_players s)) = Phase (s_gameState s)" "CycleCount (s_gameState (deal_players s)) = CycleCount (s_gameState s)"
    by (simp_all add: f with_players_def s4)
  show ro: "roster_ok (deal_players s)" using p1(1) ids pl by (simp add: roster_ok_def)
  have "list_all (\<lambda>p. player_ok p \<and> FeedbackTickID (LastActionFeedback p) \<le> s_tickID (deal_players s)) (players_of (deal_players s))"
    using dealt_list(2) [OF d p1(2)] loadout_player(2,3) by (auto simp: ps list_all_iff)
  moreover have "strict CellState_ID (Cells (session_map (deal_players s)))"
  proof (rule strict_map_cong)
    show "map CellState_ID (Cells (session_map (deal_players s))) = map CellState_ID (Cells (session_map s))"
      using assign_cells_dealt(2) [of s3] g1 g2 g3
      by (auto simp: f with_players_def session_map_def s4_def [symmetric])
    show "strict CellState_ID (Cells (session_map s))" using assms(1) by (simp add: lobby_ok_def)
  qed
  moreover have "strict DoorState_ID (Doors (session_map (deal_players s)))" "TickID (s_gameState (deal_players s)) = s_tickID (deal_players s)"
    "s_tickID (deal_players s) < EndsTick (Phase (s_gameState (deal_players s)))" "GameOver (s_gameState (deal_players s)) = None"
    using assms by (simp_all add: f with_players_def s4 session_map_def lobby_ok_def)
  ultimately show "match_ok (deal_players s)" using sp(1,2) roster_strict [OF ro] by (simp add: match_ok_def)
qed

lemma reset_session_parts:
  "entities_of (reset_session m now s) = []" "s_nextEntityID (reset_session m now s) = 0"
  "s_tickID (reset_session m now s) = 0" "TickID (s_gameState (reset_session m now s)) = 0"
  "Phase (s_gameState (reset_session m now s)) = InitialPhaseState (phaseConfig (m_config m)) 1"
  "lobby_ok s \<Longrightarrow> lobby_ok (reset_session m now s)" "s_status (reset_session m now s) = MatchStatusRunning"
  "s_players (reset_session m now s) = s_players s" "CycleCount (s_gameState (reset_session m now s)) = 0"
  by (simp_all add: reset_session_def Let_def lobby_ok_def session_map_def)

lemma storeSnapshotLocked_first:
  "s_snapshotHistory s = [] \<Longrightarrow> SnapshotTickID n = 0 \<Longrightarrow> s_snapshotHistory (storeSnapshotLocked s n) = [(0, n)]"
  by (simp add: storeSnapshotLocked_def Let_def)

lemma start_session_ready:
  assumes lobby: "lobby_ok s"
    and day: "unat (DayDurationTicks (PhaseClock.normalized (phaseConfig (m_config m)))) + 1 < 2 ^ 64"
  shows "match_ok (start_session m now s)" "roster_ok (start_session m now s)"
    "s_status (start_session m now s) = MatchStatusRunning" "s_players (start_session m now s) = s_players s"
    "s_tickID (start_session m now s) = 0"
    "\<exists>n. s_snapshotHistory (start_session m now s) = [(0, n)] \<and> Snapshot.State n = Some (s_gameState (start_session m now s)) \<and>
       SnapshotKind_of n = SnapshotKindFull \<and> SnapshotTickID n = 0"
    "Phase (s_gameState (start_session m now s)) = InitialPhaseState (phaseConfig (m_config m)) 1"
    "CycleCount (s_gameState (start_session m now s)) = 0"
proof -
  note r = reset_session_parts [where m = m and now = now and s = s]
  let ?d = "deal_players (reset_session m now s)"
  have "0 < EndsTick (Phase (s_gameState (reset_session m now s)))"
    unfolding r(5) by (rule InitialPhase_positive [OF day])
  note d = deal_players_parts [OF r(6) [OF lobby] r(1-4) this]
  define s2 where "s2 = (clear_queues ?d)\<lparr>s_lastProcessedClientSeq :=
    (\<lambda>playerID. if map_of (s_players (clear_queues ?d)) playerID \<noteq> None then Some 0 else None), s_snapshotHistory := []\<rparr>"
  have s2: "s_gameState s2 = s_gameState ?d" "s_tickID s2 = 0" "s_nextEntityID s2 = s_nextEntityID ?d"
    "s_status s2 = MatchStatusRunning" "s_players s2 = s_players s" "s_snapshotHistory s2 = []" "s_status ?d = MatchStatusRunning"
      "s_tickID ?d = 0" "s_players ?d = s_players s"
    using d r by (simp_all add: s2_def clear_queues_def)
  define s3 where "s3 = storeSnapshotLocked s2 (makeFullSnapshotLocked s2)"
  note st = storeSnapshotLocked_parts [of s2 "makeFullSnapshotLocked s2", folded s3_def]
  have e: "start_session m now s = s3\<lparr>s_loopCancel := True, s_loopDone := True\<rparr>"
    by (simp add: start_session_def Let_def s3_def s2_def)
  show "match_ok (start_session m now s)"
    using d(1) s2 st by (simp add: e match_ok_def session_map_def)
  show "roster_ok (start_session m now s)" using d(2) s2 st by (simp add: e roster_ok_def)
  show "s_status (start_session m now s) = MatchStatusRunning" "s_players (start_session m now s) = s_players s"
    "s_tickID (start_session m now s) = 0" using s2 st by (simp_all add: e)
  show "Phase (s_gameState (start_session m now s)) = InitialPhaseState (phaseConfig (m_config m)) 1"
    "CycleCount (s_gameState (start_session m now s)) = 0" using s2(1) st(1) d(6,7) r(5,9) by (simp_all add: e)
  have "s_snapshotHistory s3 = [(0, makeFullSnapshotLocked s2)]"
    unfolding s3_def using s2 by (intro storeSnapshotLocked_first) (simp_all add: makeFullSnapshotLocked_def)
  then show "\<exists>n. s_snapshotHistory (start_session m now s) = [(0, n)] \<and> Snapshot.State n = Some (s_gameState (start_session m now s)) \<and>
       SnapshotKind_of n = SnapshotKindFull \<and> SnapshotTickID n = 0"
    using s2 st by (simp add: e makeFullSnapshotLocked_def copyGameState_def)
qed

end
