(* ===== verification/ServerRuns.thy ===== *)
theory ServerRuns
  imports ClientSync StartLaws
begin

text \<open>
  The match manager as a whole (\<open>src/internal/server/game/manager.go\<close>): runs of its operations in
  any order, from the creation of the manager, and the invariant of every session they keep. A
  lobby is ready to start, and a running match has the invariant \<open>match_ok\<close> of its ticks and a
  player list that agrees with its roster.
\<close>

section \<open>The invariant of a session\<close>

text \<open>The clock follows the timetable of the configuration: day and night alternate from tick 1 on,
  and a running match has not used up its cycles.\<close>

definition clock_ok :: "ServerConfig \<Rightarrow> matchSession \<Rightarrow> bool" where
  "clock_ok config s =
     (let c = PhaseClock.normalized (phaseConfig config);
          d = unat (DayDurationTicks c);
          n = unat (NightDurationTicks c);
          g = s_gameState s
      in CycleCount g < ServerMaxCycles config \<and>
         unat (EndsTick (Phase g)) = 1 + unat (CycleCount g) * (d + n) + (case Current (Phase g) of PhaseDay \<Rightarrow> d | PhaseNight \<Rightarrow> d + n))"

definition session_ok :: "ServerConfig \<Rightarrow> matchSession \<Rightarrow> bool" where
  "session_ok config s = (case s_status s of
     MatchStatusLobby \<Rightarrow> lobby_ok s
   | MatchStatusRunning \<Rightarrow> match_ok s \<and> roster_ok s \<and> clock_ok config s
   | MatchStatusGameOver \<Rightarrow> True)"

definition manager_ok :: "Manager \<Rightarrow> bool" where
  "manager_ok m \<longleftrightarrow> ServerMaxCycles (m_config m) \<noteq> 0 \<and>
     (\<forall>matchID s. session_of m matchID = Some s \<longrightarrow> session_ok (m_config m) s)"

lemma put_session_config [simp]: "m_config (put_session matchID s m) = m_config m"
  by (simp add: put_session_def)

lemma manager_ok_put: "manager_ok m \<Longrightarrow> session_ok (m_config m) s \<Longrightarrow> manager_ok (put_session matchID s m)"
  by (simp add: manager_ok_def)

lemma manager_okD: "manager_ok m \<Longrightarrow> session_of m matchID = Some s \<Longrightarrow> session_ok (m_config m) s"
  by (simp add: manager_ok_def)

lemma day_fits:
  "unat (DayDurationTicks (PhaseClock.normalized (phaseConfig config))) < 2 ^ 48"
  "unat (NightDurationTicks (PhaseClock.normalized (phaseConfig config))) < 2 ^ 48"
proof -
  have "unat ((ucast a :: uint64) * ucast b) < 2 ^ 48" for a :: uint16 and b :: uint32
  proof -
    have l: "unat a < 2 ^ 16" "unat b < 2 ^ 32"
      using unsigned_less [of a, where 'a = nat] unsigned_less [of b, where 'a = nat] by simp_all
    then have "unat a * unat b < 2 ^ 16 * 2 ^ 32" by (intro mult_strict_mono) simp_all
    moreover have "unat (ucast a :: uint64) = unat a" "unat (ucast b :: uint64) = unat b"
      using l by (simp_all add: unsigned_ucast_eq take_bit_eq_mod)
    ultimately show ?thesis by (simp add: unat_word_ariths)
  qed
  then show "unat (DayDurationTicks (PhaseClock.normalized (phaseConfig config))) < 2 ^ 48"
    "unat (NightDurationTicks (PhaseClock.normalized (phaseConfig config))) < 2 ^ 48"
    by (simp_all add: PhaseClock.normalized_def phaseConfig_def Let_def)
qed

section \<open>Creation\<close>

lemma default_map_strict:
  "strict DoorState_ID (Doors (ToMapState defaultMatchLayout))"
  "strict CellState_ID (Cells (ToMapState defaultMatchLayout))"
proof -
  obtain l where l: "DefaultPrisonLayout = Some l"
    "map DoorLink_ID (doors l) = [1, 2, 3, 4, 5, 6, 7, 8, 9, 10]"
    "map Cell_ID (cells l) = [1, 2, 3, 4, 5, 6, 7, 8, 9, 10, 11, 12]"
    "map Cell_DoorID (cells l) = [201, 202, 203, 204, 205, 206, 207, 208, 209, 210, 211, 212]"
    using default_layout_built by (elim exE conjE)
  have e: "defaultMatchLayout = l" unfolding defaultMatchLayout_def l(1) by (simp only: option.case)
  have "distinct (map DoorState_ID (Doors (ToMapState l))) \<and> length (Doors (ToMapState l)) = 22"
    by (rule distinct_length_mset [OF ToMapState_ids(1)]) (simp_all add: l del: length_map)
  then show "strict DoorState_ID (Doors (ToMapState defaultMatchLayout))"
    by (simp add: e strict_def strict_sorted_iff) (simp add: ToMapState_def Let_def)
  have "distinct (map CellState_ID (Cells (ToMapState l))) \<and> length (Cells (ToMapState l)) = 12"
    by (rule distinct_length_mset [OF ToMapState_ids(2)]) (simp_all add: l del: length_map)
  then show "strict CellState_ID (Cells (ToMapState defaultMatchLayout))"
    by (simp add: e strict_def strict_sorted_iff) (simp add: ToMapState_def Let_def)
qed

lemma new_session_ok: "session_ok config (new_session m matchID now)"
  by (simp add: session_ok_def new_session_def lobby_ok_def newInitialGameState_def Let_def session_map_def
      default_map_strict)

lemma CreateMatch_ok: "manager_ok m \<Longrightarrow> manager_ok (fst (CreateMatch now m))"
  by (simp add: CreateMatch_def nextMatchIDLocked_def Let_def manager_ok_def session_of_def put_session_def
      appendEventLocked_def AList.update_conv' new_session_ok)

section \<open>Players\<close>

text \<open>Operations that only touch the connection, the name or the position of players.\<close>

definition player_kept :: "PlayerState \<Rightarrow> PlayerState \<Rightarrow> bool" where
  "player_kept p q \<longleftrightarrow> ID q = ID p \<and> LastActionFeedback q = LastActionFeedback p \<and> Inventory q = Inventory p \<and>
     Cards q = Cards p \<and> (player_ok p \<longrightarrow> player_ok q)"

definition session_kept :: "matchSession \<Rightarrow> matchSession \<Rightarrow> bool" where
  "session_kept s s' \<longleftrightarrow> s_status s' = s_status s \<and> s_tickID s' = s_tickID s \<and> s_nextEntityID s' = s_nextEntityID s \<and>
     map fst (s_players s') = map fst (s_players s) \<and> list_all2 player_kept (players_of s) (players_of s') \<and>
     (\<exists>ps. s_gameState s' = (s_gameState s)\<lparr>Players := ps\<rparr>)"

lemma player_kept_refl: "player_kept p p" by (simp add: player_kept_def)

lemma session_kept_frame:
  "s_gameState s' = s_gameState s \<Longrightarrow> s_status s' = s_status s \<Longrightarrow> s_tickID s' = s_tickID s \<Longrightarrow>
   s_nextEntityID s' = s_nextEntityID s \<Longrightarrow> map fst (s_players s') = map fst (s_players s) \<Longrightarrow> session_kept s s'"
  by (auto simp: session_kept_def player_kept_refl list_all2_conv_all_nth intro!: exI [of _ "players_of s"])

lemma session_kept_players:
  "list_all2 player_kept (players_of s) ps \<Longrightarrow> session_kept s (s\<lparr>s_gameState := (s_gameState s)\<lparr>Players := ps\<rparr>\<rparr>)"
  by (auto simp: session_kept_def)

lemma session_kept_player:
  assumes "player_kept (players_of s ! i) p"
  shows "session_kept s (s\<lparr>s_gameState := (s_gameState s)\<lparr>Players := (players_of s)[i := p]\<rparr>\<rparr>)"
proof (rule session_kept_players, rule list_all2_all_nthI)
  fix j assume "j < length (players_of s)"
  then show "player_kept (players_of s ! j) ((players_of s)[i := p] ! j)"
    using assms by (cases "i = j") (simp_all add: player_kept_refl)
qed simp

lemma player_kept_lists:
  assumes "list_all2 player_kept ps qs"
  shows "map ID qs = map ID ps" "list_all newcomer ps \<Longrightarrow> list_all newcomer qs"
    "list_all (\<lambda>p. player_ok p \<and> FeedbackTickID (LastActionFeedback p) \<le> t) ps \<Longrightarrow>
     list_all (\<lambda>p. player_ok p \<and> FeedbackTickID (LastActionFeedback p) \<le> t) qs"
  using assms by (induction rule: list_all2_induct) (simp_all add: player_kept_def newcomer_def)

lemma session_kept_ok:
  assumes k: "session_kept s s'" and ok: "session_ok config s"
  shows "session_ok config s'"
proof -
  obtain ps where g: "s_gameState s' = (s_gameState s)\<lparr>Players := ps\<rparr>" and l: "list_all2 player_kept (players_of s) ps"
    using k unfolding session_kept_def by auto
  note p = player_kept_lists [OF l]
  have st: "strict ID (players_of s) \<Longrightarrow> strict ID ps" using p(1) by (simp add: strict_def)
  have lobby: "lobby_ok s \<Longrightarrow> lobby_ok s'"
    using k p(2) by (simp add: lobby_ok_def session_kept_def g session_map_def)
  have run: "match_ok s \<Longrightarrow> match_ok s'" "roster_ok s \<Longrightarrow> roster_ok s'" "clock_ok config s \<Longrightarrow> clock_ok config s'"
    using k p(1,3) st by (simp_all add: match_ok_def roster_ok_def session_kept_def g session_map_def clock_ok_def Let_def)
  show ?thesis using ok k lobby run by (simp add: session_ok_def session_kept_def split: MatchStatus.splits)
qed

lemma ensure_ack_kept: "session_kept s (ensure_ack playerID s)"
  by (rule session_kept_frame) (simp_all add: ensure_ack_def split: option.splits)

lemma setPlayerConnectedLocked_kept: "session_kept s (fst (setPlayerConnectedLocked s playerID b))"
proof -
  have "player_kept p (p\<lparr>Connected := b\<rparr>)" "player_kept p (p\<lparr>Connected := b, Velocity := v\<rparr>)" for p v
    by (simp_all add: player_kept_def player_ok_def IsAuthorityPlayer_def)
  then show ?thesis
    by (auto simp: setPlayerConnectedLocked_def Let_def split: option.splits intro: session_kept_player session_kept_frame)
qed

lemma existing_players_nth:
  "distinct (map ID ps) \<Longrightarrow> i < length ps \<Longrightarrow> existing_players ps (ID (ps ! i)) = Some (ps ! i)"
  unfolding existing_players_def
  by (intro map_of_is_SomeI) (auto simp: comp_def image_iff rev_map [symmetric] intro!: bexI [of _ "ps ! i"])

lemma synced_kept:
  assumes "roster_ok s"
  shows "session_kept s (syncGameStatePlayersLocked s)"
proof -
  let ?e = "existing_players (players_of s)"
  have d: "distinct (map ID (players_of s))" using roster_strict [OF assms] by (simp add: strict_def strict_sorted_iff)
  have ids: "map ID (players_of s) = map fst (sort_key fst (s_players s))"
    using assms by (simp add: roster_ok_def map_fst_sort_key)
  have "list_all2 player_kept (players_of s) (map (\<lambda>(k, ps). synced_player ?e k ps) (sort_key fst (s_players s)))"
  proof (rule list_all2_all_nthI)
    show "length (players_of s) = length (map (\<lambda>(k, ps). synced_player ?e k ps) (sort_key fst (s_players s)))"
      using arg_cong [OF ids, of length] by simp
    fix i assume i: "i < length (players_of s)"
    then have j: "i < length (sort_key fst (s_players s))" using arg_cong [OF ids, of length] by simp
    have k: "fst (sort_key fst (s_players s) ! i) = ID (players_of s ! i)"
      using arg_cong [OF ids, of "\<lambda>xs. xs ! i"] i j by simp
    have "?e (ID (players_of s ! i)) = Some (players_of s ! i)"
      using d i by (intro existing_players_nth)
    then show "player_kept (players_of s ! i) (map (\<lambda>(k, ps). synced_player ?e k ps) (sort_key fst (s_players s)) ! i)"
      using j k by (simp add: case_prod_beta' synced_player_def player_kept_def player_ok_def IsAuthorityPlayer_def)
  qed
  then show ?thesis unfolding syncGameStatePlayersLocked_def Let_def by (rule session_kept_players)
qed

lemma synced_ok: "session_ok config s \<Longrightarrow> session_ok config (syncGameStatePlayersLocked s)"
proof (cases "s_status s")
  case MatchStatusLobby
  moreover assume "session_ok config s"
  ultimately have "lobby_ok s" by (simp add: session_ok_def)
  then have "lobby_ok (syncGameStatePlayersLocked s)" using synced_newcomers [of s]
    by (simp add: lobby_ok_def) (simp add: syncGameStatePlayersLocked_def Let_def session_map_def)
  moreover have "s_status (syncGameStatePlayersLocked s) = s_status s"
    by (simp add: syncGameStatePlayersLocked_def Let_def)
  ultimately show ?thesis using MatchStatusLobby by (simp add: session_ok_def)
next
  case MatchStatusRunning
  moreover assume "session_ok config s"
  ultimately show ?thesis using session_kept_ok [OF synced_kept] by (simp add: session_ok_def)
next
  case MatchStatusGameOver
  then show ?thesis by (simp add: session_ok_def syncGameStatePlayersLocked_def Let_def)
qed

lemma joined_ok:
  assumes "session_ok config s" "s_status s = MatchStatusLobby"
  shows "session_ok config (syncGameStatePlayersLocked (ensure_ack playerID (s\<lparr>s_players := AList.update playerID v (s_players s)\<rparr>)))"
proof -
  have "session_ok config (s\<lparr>s_players := AList.update playerID v (s_players s)\<rparr>)"
    using assms by (simp add: session_ok_def lobby_ok_def session_map_def distinct_update)
  then show ?thesis by (intro synced_ok session_kept_ok [OF ensure_ack_kept])
qed

lemma renamed_kept:
  "map_of (s_players s) k = Some v \<Longrightarrow> session_kept s (s\<lparr>s_players := AList.update k w (s_players s)\<rparr>)"
  by (rule session_kept_frame) (auto simp: update_keys dest: map_of_SomeD intro: rev_image_eqI)

lemma JoinMatch_ok: "manager_ok m \<Longrightarrow> manager_ok (fst (JoinMatch now m matchID playerID playerName))"
proof -
  assume ok: "manager_ok m"
  note j = joined_ok [OF manager_okD [OF ok]]
  show ?thesis using ok j
    by (auto simp: JoinMatch_def Let_def manager_ok_def session_of_def put_session_def appendEventLocked_def
        upsert_account_def AList.update_conv' split: option.splits)
qed

lemma resumed_ok:
  assumes "session_ok config s"
  shows "session_ok config (fst (setPlayerConnectedLocked (syncGameStatePlayersLocked (ensure_ack k s)) playerID b))"
  by (rule session_kept_ok [OF setPlayerConnectedLocked_kept synced_ok [OF session_kept_ok [OF ensure_ack_kept assms]]])

lemma ResumePlayer_ok: "manager_ok m \<Longrightarrow> manager_ok (fst (ResumePlayer now m matchID playerID playerName))"
proof -
  assume ok: "manager_ok m"
  have r: "session_ok (m_config m) (fst (setPlayerConnectedLocked (syncGameStatePlayersLocked (ensure_ack k s)) p b))"
    if "session_of m matchID = Some s" for s k p b
    by (rule resumed_ok [OF manager_okD [OF ok that]])
  have q: "session_ok (m_config m) (fst (setPlayerConnectedLocked (syncGameStatePlayersLocked
      (ensure_ack k (s\<lparr>s_players := AList.update k w (s_players s)\<rparr>))) p b))"
    if "session_of m matchID = Some s" "map_of (s_players s) k = Some v" for s k v w p b
    by (rule resumed_ok [OF session_kept_ok [OF renamed_kept [OF that(2)] manager_okD [OF ok that(1)]]])
  show ?thesis using ok r q
    by (auto simp: ResumePlayer_def Let_def manager_ok_def session_of_def put_session_def upsert_account_def
        AList.update_conv' split: option.splits)
qed

lemma SetPlayerConnected_ok: "manager_ok m \<Longrightarrow> manager_ok (fst (SetPlayerConnected m matchID playerID b))"
proof -
  assume ok: "manager_ok m"
  have a: "session_ok (m_config m) s'" if "session_of m matchID = Some s" "setPlayerConnectedLocked (ensure_ack k s) p b = (s', r)" for s s' k p r
    using session_kept_ok [OF setPlayerConnectedLocked_kept session_kept_ok [OF ensure_ack_kept manager_okD [OF ok that(1)]], of k p b]
      that(2) by simp
  have c: "session_ok (m_config m) s'" if "session_of m matchID = Some s"
      "setPlayerConnectedLocked (syncGameStatePlayersLocked (ensure_ack k s)) p b = (s', r)" for s s' k p r
    using resumed_ok [OF manager_okD [OF ok that(1)], of k p b] that(2) by simp
  show ?thesis using ok
    by (auto simp: SetPlayerConnected_def Let_def manager_ok_def split: option.splits prod.splits bool.splits dest: a c)
qed

section \<open>Start, end and ticks\<close>

lemma normalized_cycles:
  "ServerMaxCycles (server_normalized config) \<noteq> 0"
  "ServerMaxCycles config \<noteq> 0 \<Longrightarrow> ServerMaxCycles (server_normalized config) = ServerMaxCycles config"
  by (simp_all add: server_normalized_def Let_def MaxDayNightCycles_def)

lemma start_clock_ok:
  assumes "ServerMaxCycles config \<noteq> 0" and "CycleCount (s_gameState s) = 0"
    and "Phase (s_gameState s) = InitialPhaseState (phaseConfig config) 1"
  shows "clock_ok config s"
  using day_fits(1) [of config] assms
  by (simp add: clock_ok_def InitialPhaseState_def Let_def unat_word_ariths word_gt_0)

lemma start_session_ok:
  assumes "lobby_ok s" and "ServerMaxCycles (m_config m) \<noteq> 0"
  shows "session_ok (m_config m) (start_session m now s)"
proof -
  have day: "unat (DayDurationTicks (PhaseClock.normalized (phaseConfig (m_config m)))) + 1 < 2 ^ 64"
    using day_fits(1) [of "m_config m"] by simp
  note r = start_session_ready [OF assms(1) day, where now = now]
  show ?thesis using r(1-3) start_clock_ok [OF assms(2) r(8,7)] by (simp add: session_ok_def)
qed

lemma StartMatch_ok: "manager_ok m \<Longrightarrow> manager_ok (fst (StartMatch now m matchID))"
proof -
  assume ok: "manager_ok m"
  have "session_ok (m_config m) (start_session m now s)"
    if "session_of m matchID = Some s" "s_status s \<noteq> MatchStatusRunning" "s_status s \<noteq> MatchStatusGameOver" for s
    using manager_okD [OF ok that(1)] that(2,3) ok
    by (intro start_session_ok) (simp_all add: session_ok_def manager_ok_def split: MatchStatus.splits)
  then show ?thesis using ok
    by (auto simp: StartMatch_def Let_def manager_ok_def session_of_def put_session_def appendEventLocked_def
        AList.update_conv' split: option.splits)
qed

lemma game_over_ok: "s_status s = MatchStatusGameOver \<Longrightarrow> session_ok config s"
  by (simp add: session_ok_def)

lemma EndMatch_ok: "manager_ok m \<Longrightarrow> manager_ok (fst (EndMatch now m matchID reason))"
  by (auto simp: EndMatch_def Let_def manager_ok_def session_of_def put_session_def appendEventLocked_def clear_queues_def
      forget_players_def AList.update_conv' game_over_ok split: option.splits)

lemma close_match_ok: "manager_ok m \<Longrightarrow> manager_ok (close_match now matchID m)"
proof (cases "session_of m matchID")
  case None
  moreover assume "manager_ok m"
  ultimately show ?thesis by (simp add: close_match_def)
next
  case (Some s)
  moreover assume ok: "manager_ok m"
  moreover have "session_ok (m_config m) ((clear_queues s)\<lparr>s_loopCancel := False, s_loopDone := False\<rparr>)"
    by (rule session_kept_ok [OF session_kept_frame manager_okD [OF ok Some]]) (simp_all add: clear_queues_def)
  ultimately show ?thesis
    by (auto simp: close_match_def Let_def manager_ok_def session_of_def put_session_def appendEventLocked_def
        forget_players_def clear_queues_def AList.update_conv' game_over_ok)
qed

lemma Close_ok: "manager_ok m \<Longrightarrow> manager_ok (Close now order m)"
  unfolding Close_def by (induction order arbitrary: m) (simp_all add: close_match_ok)

lemma knocked_kept:
  "player_kept p (fst (ApplyKnockback p impulse layout mp occ t d))"
  "player_kept p ((fst (ApplyKnockback p impulse layout mp occ t d))\<lparr>CurrentRoomID := room\<rparr>)"
proof -
  let ?q = "fst (ApplyKnockback p impulse layout mp occ t d)"
  show k: "player_kept p ?q"
    using knockback_step [of p impulse layout mp occ t d]
    by (simp add: player_kept_def player_step_def) (simp add: ApplyKnockback_def Let_def case_prod_beta')
  then show "player_kept p (?q\<lparr>CurrentRoomID := room\<rparr>)"
    by (simp add: player_kept_def player_ok_def IsAuthorityPlayer_def)
qed

lemma ManagerApplyKnockback_ok: "manager_ok m \<Longrightarrow> manager_ok (fst (ManagerApplyKnockback m matchID playerID impulse d))"
proof -
  assume ok: "manager_ok m"
  have "session_ok (m_config m) (s\<lparr>s_gameState := (s_gameState s)\<lparr>Players := (players_of s)[i := q]\<rparr>\<rparr>)"
    if "session_of m matchID = Some s" "player_kept (players_of s ! i) q" for s i q
    by (rule session_kept_ok [OF session_kept_player [OF that(2)] manager_okD [OF ok that(1)]])
  note k = this [OF _ knocked_kept(1)] this [OF _ knocked_kept(2)]
  show ?thesis using ok
    by (auto simp: ManagerApplyKnockback_def Let_def manager_ok_def split: option.splits dest: k)
qed

lemma submitted_kept:
  assumes "submit_session now matchID playerID command s = (s', r)"
  shows "session_kept s s'"
  using submit_session_keeps [OF assms] assms
  by (intro session_kept_frame)
    (auto simp: submit_session_def pruneRateWindows_def Let_def split: if_splits sum.splits option.splits)

lemma SubmitInput_ok: "manager_ok m \<Longrightarrow> manager_ok (fst (SubmitInput dec now m matchID command))"
proof -
  assume ok: "manager_ok m"
  have "session_ok (m_config m) s'" if "session_of m matchID = Some s" "submit_session now matchID k c s = (s', r)" for s s' k c r
    by (rule session_kept_ok [OF submitted_kept [OF that(2)] manager_okD [OF ok that(1)]])
  then show ?thesis using ok
    by (auto simp: SubmitInput_def Let_def manager_ok_def split: option.splits prod.splits)
qed

lemma ConsumeScheduledInputs_ok: "manager_ok m \<Longrightarrow> manager_ok (fst (ConsumeScheduledInputs m matchID tickID))"
proof (cases "session_of m matchID")
  case (Some s)
  moreover assume ok: "manager_ok m"
  moreover have "session_ok (m_config m) (s\<lparr>s_scheduledInputs := q\<rparr>)" for q
    by (rule session_kept_ok [OF session_kept_frame manager_okD [OF ok Some]]) simp_all
  ultimately show ?thesis by (simp add: ConsumeScheduledInputs_def Let_def manager_ok_put)
qed (simp add: ConsumeScheduledInputs_def)

lemma tick_session_others:
  "tick_session dec now matchID s m = Some m' \<Longrightarrow> k \<noteq> matchID \<Longrightarrow> session_of m' k = session_of m k"
  by (auto simp: tick_session_def Let_def session_of_def put_session_def appendEventLocked_def record_match_def
      forget_players_def AList.update_conv' split: option.splits prod.splits)

text \<open>The clock leaves room: only the entity counter and the load of the authority players remain
  to be assumed of a tick.\<close>

definition spacious :: "Decoders \<Rightarrow> matchSession \<Rightarrow> bool" where
  "spacious dec s \<longleftrightarrow> unat (s_nextEntityID s) + id_budget s (snd (begin_tick s)) < 2 ^ 32 \<and>
     list_all light (players_of (t_session (after_inputs dec s)))"

definition last_tick :: "ServerConfig \<Rightarrow> nat" where
  "last_tick config = (let c = PhaseClock.normalized (phaseConfig config)
     in unat (ServerMaxCycles config) * (unat (DayDurationTicks c) + unat (NightDurationTicks c)))"

lemma clock_ok_bound:
  assumes "clock_ok config s"
  shows "unat (EndsTick (Phase (s_gameState s))) \<le> 1 + last_tick config"
proof -
  let ?g = "s_gameState s" and ?c = "PhaseClock.normalized (phaseConfig config)"
  let ?d = "unat (DayDurationTicks ?c)" and ?n = "unat (NightDurationTicks ?c)"
  have "unat (EndsTick (Phase ?g)) \<le> 1 + (unat (CycleCount ?g) + 1) * (?d + ?n)"
    using assms by (simp add: clock_ok_def Let_def split: PhaseType.splits)
  moreover have "unat (CycleCount ?g) + 1 \<le> unat (ServerMaxCycles config)"
    using assms by (simp add: clock_ok_def Let_def word_less_nat_alt)
  then have "(unat (CycleCount ?g) + 1) * (?d + ?n) \<le> unat (ServerMaxCycles config) * (?d + ?n)" by (rule mult_le_mono1)
  ultimately show ?thesis by (simp add: last_tick_def Let_def)
qed

lemma last_tick_fits: "last_tick config < 2 ^ 58"
proof -
  let ?c = "PhaseClock.normalized (phaseConfig config)"
  have "unat (ServerMaxCycles config) < 2 ^ 8" using unsigned_less [of "ServerMaxCycles config", where 'a = nat] by simp
  moreover have "unat (DayDurationTicks ?c) + unat (NightDurationTicks ?c) < 2 ^ 49" using day_fits [of config] by simp
  ultimately have "last_tick config < 2 ^ 8 * 2 ^ 49"
    unfolding last_tick_def Let_def by (intro mult_strict_mono) simp_all
  then show ?thesis by simp
qed

lemma spacious_roomy:
  assumes "match_ok s" "clock_ok config s" "spacious dec s"
  shows "roomy dec config s"
proof -
  have "unat (s_tickID s) < unat (EndsTick (Phase (s_gameState s)))" using assms(1) by (simp add: match_ok_def word_less_nat_alt)
  then have "unat (s_tickID s) < 2 ^ 59" using clock_ok_bound [OF assms(2)] last_tick_fits [of config] by simp
  then show ?thesis using assms(3) day_fits [of config] by (simp add: roomy_def spacious_def)
qed

lemma clock_ok_of:
  "clock_ok config s \<longleftrightarrow> CycleCount (s_gameState s) < ServerMaxCycles config \<and>
     (case clock_of (s_gameState s) of (ph, e, k) \<Rightarrow>
       let c = PhaseClock.normalized (phaseConfig config);
           d = unat (DayDurationTicks c); n = unat (NightDurationTicks c)
       in e = 1 + k * (d + n) + (case ph of PhaseDay \<Rightarrow> d | PhaseNight \<Rightarrow> d + n))"
  by (simp add: clock_ok_def clock_of_def Let_def)

lemma ticked_clock:
  assumes ok: "match_ok s" and clock: "clock_ok config s" and room: "roomy dec config s"
    and cfg: "ServerMaxCycles config \<noteq> 0" and moved: "clock_moved dec config s s'"
  shows "clock_ok config s'"
proof -
  let ?g = "s_gameState (t_session (after_inputs dec s))" and ?c = "PhaseClock.normalized (phaseConfig config)"
  let ?t = "s_tickID s + 1"
  obtain gs trs where adv: "Advance ?g ?t (phaseConfig config) (Some managerPhaseHooks) = Some (gs, trs)"
    and c: "clock_of (s_gameState s') = clock_of gs" and none: "Evaluate (s_gameState s') \<lparr>WinMaxCycles = ServerMaxCycles config\<rparr> = None"
    using moved unfolding clock_moved_def clock_of_def by auto
  have g: "Phase ?g = Phase (s_gameState s)" "CycleCount ?g = CycleCount (s_gameState s)"
    using after_inputs_tracked [OF ok room] by (simp_all add: tracked_def frame_kept_def begin_tick_parts)
  have e: "?t \<le> EndsTick (Phase ?g)"
    using ok next_tick(2) [OF room] by (simp add: g match_ok_def word_le_nat_alt word_less_nat_alt)
  have u: "unat ?t + unat (phase_ticks ?c ph) < 2 ^ 64" for ph
    using room next_tick(2) [OF room] by (cases ph) (simp_all add: roomy_def)
  have mc: "MaxCycles ?c = ServerMaxCycles config"
    using normalized_cycles(2) [OF cfg] cfg by (simp add: PhaseClock.normalized_def phaseConfig_def Let_def)
  have small: "CycleCount (s_gameState s') < ServerMaxCycles config"
    using none cfg
    by (simp add: Evaluate_def win_normalized_def detectReason_def Let_def split: if_splits)
  have old: "clock_of ?g = clock_of (s_gameState s)" by (simp add: clock_of_def g)
  show ?thesis
  proof (cases "?t < EndsTick (Phase ?g)")
    case True
    then have "gs = ?g" using adv Advance_once [OF e u] by simp
    then show ?thesis using clock small by (simp add: clock_ok_of c old)
  next
    case False
    then obtain tr where st: "advance_step ?c (Some managerPhaseHooks) ?g = (gs, tr)"
      using adv Advance_once [OF e u] by (auto split: prod.splits)
    have et: "EndsTick (Phase ?g) = ?t" using False e by simp
    have k: "unat (CycleCount ?g) < unat (MaxCycles ?c)"
      using clock by (simp add: clock_ok_def Let_def mc g word_less_nat_alt)
    have "clock_of gs = (other_phase (Current (Phase ?g)), unat (EndsTick (Phase ?g)) + unat (phase_ticks ?c (other_phase (Current (Phase ?g)))),
      if Current (Phase ?g) = PhaseNight then Suc (unat (CycleCount ?g)) else unat (CycleCount ?g))"
      using manager_clock.step_clock(1) [OF st] u k by (simp add: et)
    then show ?thesis using clock small unfolding clock_ok_of c
      by (cases "Current (Phase ?g)") (simp_all add: clock_of_def g Let_def)
  qed
qed

lemma ticked_ok:
  assumes "match_ok s" "roster_ok s" "clock_ok (m_config m) s" "ServerMaxCycles (m_config m) \<noteq> 0"
    and "s_status s = MatchStatusRunning" "spacious dec s"
  shows "\<exists>m' s'. tick_session dec now matchID s m = Some m' \<and> m_config m' = m_config m \<and> session_of m' matchID = Some s' \<and>
    session_ok (m_config m) s' \<and> s_tickID s' = s_tickID s + 1 \<and>
    (s_status s' = MatchStatusRunning \<or> s_status s' = MatchStatusGameOver)"
proof -
  note room = spacious_roomy [OF assms(1,3,6)]
  obtain m' s' where t: "tick_session dec now matchID s m = Some m'" "m_config m' = m_config m" "session_of m' matchID = Some s'"
      "s_tickID s' = s_tickID s + 1" "match_ok s'" "s_players s' = s_players s" "map ID (players_of s') = map ID (players_of s)"
    and on: "s_status s' = MatchStatusRunning \<and> clock_moved dec (m_config m) s s' \<or> s_status s' = MatchStatusGameOver"
    using tick_session_explained [OF assms(1,5) room, of now matchID] by blast
  have "roster_ok s'" using assms(2) t(6,7) by (simp add: roster_ok_def)
  moreover have "clock_ok (m_config m) s'" if "clock_moved dec (m_config m) s s'"
    by (rule ticked_clock [OF assms(1,3) room assms(4) that])
  ultimately have "session_ok (m_config m) s'" using on t(5) by (auto simp: session_ok_def)
  then show ?thesis using t on by blast
qed

lemma tick_match_ok:
  assumes ok: "manager_ok m" and s: "session_of m matchID = Some s" and room: "spacious dec s"
    and t: "tick_match dec now tickAt matchID m = Some (m', going)"
  shows "manager_ok m'"
proof (cases "s_status s = MatchStatusRunning")
  case True
  then have r: "match_ok s" "roster_ok s" "clock_ok (m_config m) s" "ServerMaxCycles (m_config m) \<noteq> 0"
    using manager_okD [OF ok s] ok by (simp_all add: session_ok_def manager_ok_def)
  obtain m2 s' where m2: "tick_session dec (if tickAt = 0 then now else tickAt) matchID s m = Some m2"
      "m_config m2 = m_config m" "session_of m2 matchID = Some s'" "session_ok (m_config m) s'"
    using ticked_ok [OF r True room] by blast
  then have "m' = m2" using t s True by (simp add: tick_match_def)
  moreover have "session_ok (m_config m2) s2" if "session_of m2 k = Some s2" for k s2
    using that m2 manager_okD [OF ok] tick_session_others [OF m2(1)] by (cases "k = matchID") simp_all
  ultimately show ?thesis using m2(2) r(4) by (simp add: manager_ok_def)
qed (use assms in \<open>auto simp: tick_match_def\<close>)

section \<open>Runs of the manager\<close>

text \<open>One call of the manager, or one firing of a match's ticker. A tick does not exhaust the
  entity counter, and no authority player carries more than three stacks (\<open>spacious\<close>).\<close>

inductive server_step :: "Decoders \<Rightarrow> Manager \<Rightarrow> Manager \<Rightarrow> bool" for dec where
  match_created: "server_step dec m (fst (CreateMatch now m))"
| player_joined: "server_step dec m (fst (JoinMatch now m matchID playerID playerName))"
| player_resumed: "server_step dec m (fst (ResumePlayer now m matchID playerID playerName))"
| connection_set: "server_step dec m (fst (SetPlayerConnected m matchID playerID isConnected))"
| match_started: "server_step dec m (fst (StartMatch now m matchID))"
| input_submitted: "server_step dec m (fst (SubmitInput dec now m matchID command))"
| inputs_consumed: "server_step dec m (fst (ConsumeScheduledInputs m matchID tickID))"
| knockback_applied: "server_step dec m (fst (ManagerApplyKnockback m matchID playerID impulse stunTicks))"
| match_ended: "server_step dec m (fst (EndMatch now m matchID reason))"
| manager_closed: "server_step dec m (Close instants order m)"
| persistence_bound: "server_step dec m (BindPersistence m)"
| match_ticked: "session_of m matchID = Some s \<Longrightarrow> spacious dec s \<Longrightarrow>
    tick_match dec now tickAt matchID m = Some (m', going) \<Longrightarrow> server_step dec m m'"

lemmas manager_operations_ok = CreateMatch_ok JoinMatch_ok ResumePlayer_ok SetPlayerConnected_ok StartMatch_ok
  SubmitInput_ok ConsumeScheduledInputs_ok ManagerApplyKnockback_ok EndMatch_ok Close_ok

lemma server_step_ok: "server_step dec m m' \<Longrightarrow> manager_ok m \<Longrightarrow> manager_ok m'"
proof (induction rule: server_step.induct)
  case (persistence_bound m)
  then show ?case by (simp add: BindPersistence_def manager_ok_def session_of_def)
next
  case match_ticked
  then show ?case using tick_match_ok by blast
qed (simp_all add: manager_operations_ok)

lemma server_run_ok:
  assumes "(server_step dec)\<^sup>*\<^sup>* (NewManager config) m"
  shows "manager_ok m"
  using assms
proof (induction rule: rtranclp_induct)
  case base
  then show ?case by (simp add: NewManager_def manager_ok_def session_of_def normalized_cycles(1))
qed (rule server_step_ok)

lemma running_ok:
  assumes "(server_step dec)\<^sup>*\<^sup>* (NewManager config) m" "session_of m matchID = Some s" "s_status s = MatchStatusRunning"
  shows "match_ok s" "roster_ok s"
  using manager_okD [OF server_run_ok [OF assms(1)] assms(2)] assms(3) by (simp_all add: session_ok_def)

lemma running_session:
  assumes "(server_step dec)\<^sup>*\<^sup>* (NewManager config) m" "session_of m matchID = Some s" "s_status s = MatchStatusRunning"
  shows "match_ok s \<and> roster_ok s \<and> clock_ok (m_config m) s \<and> ServerMaxCycles (m_config m) \<noteq> 0"
  using manager_okD [OF server_run_ok [OF assms(1)] assms(2)] server_run_ok [OF assms(1)] assms(3)
  by (simp add: session_ok_def manager_ok_def)

lemma running_tick_bound:
  assumes "match_ok s" "clock_ok config s"
  shows "unat (s_tickID s) \<le> last_tick config"
proof -
  have "unat (s_tickID s) < unat (EndsTick (Phase (s_gameState s)))" using assms(1) by (simp add: match_ok_def word_less_nat_alt)
  then show ?thesis using clock_ok_bound [OF assms(2)] by simp
qed

section \<open>A match in the making\<close>

text \<open>A concrete run: a server that needs one player creates a match, the player joins and the
  match starts.\<close>

definition sample_config :: ServerConfig where
  "sample_config = ServerDefaultConfig\<lparr>MinPlayers := 1\<rparr>"

definition sample_player :: PlayerID where "sample_player = PlayerID ''ada''"

definition sample_match :: MatchID where "sample_match = MatchID ''match-000001''"

definition sample_lobby :: Manager where
  "sample_lobby = fst (JoinMatch 2 (fst (CreateMatch 1 (NewManager sample_config))) sample_match sample_player ''Ada'')"

definition sample_manager :: Manager where
  "sample_manager = fst (StartMatch 3 sample_lobby sample_match)"

lemma sample_created:
  "fst (CreateMatch 1 (NewManager sample_config)) = \<lparr>m_config = sample_config, m_nextMatchSequence = 1,
     m_matches = [(sample_match, new_session (NewManager sample_config) sample_match 1)], m_playerToMatch = Map.empty,
     m_events = [lifecycle_event LifecycleEventMatchCreated sample_match 1], m_persistence = None\<rparr>"
proof -
  have c: "server_normalized sample_config = sample_config" by code_simp
  have p: "MatchIDPrefix sample_config @ ''-'' @ pad6 (unat (1 :: uint64)) = ''match-000001''" by code_simp
  have n: "m_config m = m_config m' \<Longrightarrow> new_session m k t = new_session m' k t" for m m' k t by (simp add: new_session_def)
  show ?thesis using p n [of "(NewManager sample_config)\<lparr>m_nextMatchSequence := 1\<rparr>" "NewManager sample_config" sample_match 1]
    by (simp add: CreateMatch_def nextMatchIDLocked_def NewManager_def c put_session_def appendEventLocked_def sample_match_def Let_def)
qed

lemma sample_joined:
  "\<exists>s. session_of sample_lobby sample_match = Some s \<and> s_status s = MatchStatusLobby \<and>
    map fst (s_players s) = [sample_player] \<and> m_config sample_lobby = sample_config"
proof -
  have t: "TrimSpace (PlayerID_str sample_player) = ''ada''" "TrimSpace ''Ada'' = ''Ada''"
    "unat (MaxPlayers sample_config) = 12" by code_simp+
  show ?thesis unfolding sample_lobby_def sample_created
    by (simp add: JoinMatch_def t session_of_def new_session_def Let_def put_session_def appendEventLocked_def upsert_account_def
        ensure_ack_def syncGameStatePlayersLocked_def)
qed

lemma sample_running:
  "\<exists>s. session_of sample_manager sample_match = Some s \<and> s_status s = MatchStatusRunning \<and>
     map fst (s_players s) = [sample_player]"
proof -
  obtain s where s: "session_of sample_lobby sample_match = Some s" "s_status s = MatchStatusLobby"
      "map fst (s_players s) = [sample_player]"
    and c: "m_config sample_lobby = sample_config" using sample_joined by (elim exE conjE)
  have "manager_ok sample_lobby" unfolding sample_lobby_def
    by (intro JoinMatch_ok CreateMatch_ok) (simp add: NewManager_def manager_ok_def session_of_def normalized_cycles(1))
  then have lobby: "lobby_ok s" using manager_okD [OF _ s(1)] s(2) by (simp add: session_ok_def)
  have day: "unat (DayDurationTicks (PhaseClock.normalized (phaseConfig (m_config sample_lobby)))) + 1 < 2 ^ 64"
    using day_fits(1) [of "m_config sample_lobby"] by simp
  note ready = start_session_ready(3,4) [OF lobby day, of 3]
  have "unat (MinPlayers sample_config) = 1" by code_simp
  moreover have "length (s_players s) = 1" using arg_cong [OF s(3), of length] by simp
  ultimately have "session_of sample_manager sample_match = Some (start_session sample_lobby 3 s)"
    using s(1,2) c by (simp add: sample_manager_def StartMatch_def Let_def session_of_def put_session_def appendEventLocked_def AList.update_conv')
  then show ?thesis using ready s(3) by (intro exI [of _ "start_session sample_lobby 3 s"]) simp
qed

lemma sample_lobby_run: "(server_step dec)\<^sup>*\<^sup>* (NewManager sample_config) sample_lobby"
proof -
  have "server_step dec (NewManager sample_config) (fst (CreateMatch 1 (NewManager sample_config)))" by (rule match_created)
  moreover have "server_step dec (fst (CreateMatch 1 (NewManager sample_config))) sample_lobby"
    unfolding sample_lobby_def by (rule player_joined)
  ultimately show ?thesis by (intro rtranclp.rtrancl_into_rtrancl [OF r_into_rtranclp])
qed

lemma sample_run: "(server_step dec)\<^sup>*\<^sup>* (NewManager sample_config) sample_manager"
proof (rule rtranclp.rtrancl_into_rtrancl [OF sample_lobby_run])
  show "server_step dec sample_lobby sample_manager" unfolding sample_manager_def by (rule match_started)
qed

text \<open>A small running match, one tick old.\<close>

definition sample_inmate :: PlayerState where
  "sample_inmate = zero_player\<lparr>ID := sample_player, Name := ''Ada'', Connected := True, Alive := True,
     Faction := FactionPrisoner, Role := RoleGangMember, HeartsHalf := 6, LivesRemaining := 3,
     InventorySlots := playerInventorySlotCount, Inventory := [\<lparr>Item = ItemWood, Quantity = 2\<rparr>]\<rparr>"

definition sample_state :: GameState where
  "sample_state = \<lparr>GameState_MatchID = sample_match, TickID = 1, Status = MatchStatusRunning, CycleCount = 0,
     Phase = \<lparr>Current = PhaseDay, StartedTick = 1, EndsTick = 9001\<rparr>,
     Map = \<lparr>PowerOn = True, Alarm = inactive_alarm, BlackMarketRoomID = RoomID '''', Doors = [], Cells = [],
       RestrictedZones = []\<rparr>,
     Players = [sample_inmate], Entities = [], GameOver = None\<rparr>"

text \<open>The command of the next tick: drop one piece of wood.\<close>

definition sample_command :: InputCommand where
  "sample_command = \<lparr>CmdPlayerID = sample_player, ClientSeq = 1, IngressSeq = 1, TargetTick = 2,
     CmdType = CmdDropItem, Payload = ''drop''\<rparr>"

definition sample_decoders :: Decoders where
  "sample_decoders = \<lparr>decode_movement = (\<lambda>_. None), decode_aim = (\<lambda>_. None), decode_interact = (\<lambda>_. None),
     decode_ability = (\<lambda>_. None), decode_card = (\<lambda>_. None), decode_item = (\<lambda>_. None),
     decode_purchase = (\<lambda>_. None), decode_fire = (\<lambda>_. None), decode_equip = (\<lambda>_. None), decode_craft = (\<lambda>_. None),
     decode_drop = (\<lambda>payload. if payload = ''drop'' then Some \<lparr>DropItem = ItemWood, DropAmount = 1\<rparr> else None)\<rparr>"

definition sample_session :: matchSession where
  "sample_session =
     \<lparr>s_matchID = sample_match, s_status = MatchStatusRunning, s_tickRateHz = 30,
      s_createdAt = 1, s_startedAt = Some 2, s_endedAt = None, s_endedReason = '''', s_tickID = 1,
      s_players = [(sample_player, \<lparr>PS_PlayerID = sample_player, PS_Name = ''Ada'', JoinedAt = 1\<rparr>)],
      s_nextIngressSeq = 0, s_nextEntityID = 0, s_blackMarketGoldenBulletSold = False,
      s_alarmUsedDayStartTick = 0, s_scheduledInputs = [2 \<mapsto> [sample_command]], s_seenClientSeq = Map.empty,
      s_acceptedByTick = Map.empty, s_lastProcessedClientSeq = Map.empty,
      s_guardEntityByRoom = Map.empty, s_guardLastShotTick = Map.empty,
      s_abilityCooldownUntil = Map.empty, s_abilityUsedDayStart = Map.empty,
      s_abilityDailyUsage = Map.empty, s_prisonerUnlockedRooms = {}, s_lockSnapDoorRestores = [],
      s_npcPrisonerBribeState = Map.empty, s_npcTaskByPlayer = Map.empty,
      s_chameleonPendingUntil = Map.empty, s_lastMoveIntentTick = Map.empty,
      s_ammoRestockUntil = Map.empty, s_projectileExpireTick = [], s_replayEntries = [],
      s_gameState = sample_state, s_snapshotHistory = [], s_loopCancel = True, s_loopDone = True\<rparr>"

lemma sample_session_ok: "match_ok sample_session \<and> s_status sample_session = MatchStatusRunning"
  by code_simp

lemma sample_session_dropped:
  "map Inventory (players_of (t_session (after_inputs sample_decoders sample_session))) = [[\<lparr>Item = ItemWood, Quantity = 1\<rparr>]] \<and>
   length (entities_of (t_session (after_inputs sample_decoders sample_session))) = 1"
  by code_simp

lemma sample_session_spacious: "spacious sample_decoders sample_session"
proof -
  have "s_nextEntityID sample_session = 0" "length (snd (begin_tick sample_session)) = 1"
    "RestrictedZones (session_map sample_session) = []" by code_simp+
  moreover have "list_all light (players_of (t_session (after_inputs sample_decoders sample_session)))" by code_simp
  ultimately show ?thesis by (simp add: spacious_def id_budget_def)
qed

lemma sample_session_typed: "session_ok sample_config sample_session"
proof -
  have "roster_ok sample_session" by code_simp
  moreover have "DayDurationTicks (PhaseClock.normalized (phaseConfig sample_config)) = 9000"
    "ServerMaxCycles sample_config \<noteq> 0" by code_simp+
  then have "clock_ok sample_config sample_session"
    by (simp add: clock_ok_def sample_session_def sample_state_def word_gt_0)
  ultimately show ?thesis using sample_session_ok by (simp add: session_ok_def)
qed

lemma sample_session_roomy: "roomy sample_decoders sample_config sample_session"
  using spacious_roomy [OF _ _ sample_session_spacious] sample_session_typed sample_session_ok by (simp add: session_ok_def)

definition sample_server :: Manager where
  "sample_server = put_session sample_match sample_session (NewManager sample_config)"

lemma sample_server_parts:
  "session_of sample_server sample_match = Some sample_session" "m_config sample_server = sample_config"
proof -
  have "server_normalized sample_config = sample_config" by code_simp
  then show "session_of sample_server sample_match = Some sample_session" "m_config sample_server = sample_config"
    by (simp_all add: sample_server_def) (simp add: put_session_def NewManager_def)
qed

definition sample_client :: SnapshotStore where
  "sample_client = \<lparr>store_state = Some sample_state, store_meta = None\<rparr>"

lemma sample_client_state:
  "CurrentState sample_client = Some (s_gameState sample_session)"
  by (simp add: sample_client_def CurrentState_def sample_session_def)

section \<open>Properties\<close>





text \<open>C3. Whatever sequence of operations and ticks the manager goes through, every lobby it keeps
  is ready to start (its players are newcomers with canonical inventories and ordered hands, its map
  has ordered doors and cells), and in every running match the players, doors, cells and entities
  are strictly ordered by identifier, the players are exactly those of the roster, no entity
  has an identifier beyond the counter, the game state carries the session's tick, the phase has
  not run out, and the tick is within the configured number of cycles.\<close>

theorem manager_runs_keep_sessions:
  assumes "(server_step dec)\<^sup>*\<^sup>* (NewManager config) m" and "session_of m matchID = Some s"
  shows "case s_status s of
      MatchStatusLobby \<Rightarrow> distinct (map fst (s_players s)) \<and> list_all newcomer (players_of s) \<and>
        strict DoorState_ID (Doors (session_map s)) \<and> strict CellState_ID (Cells (session_map s))
    | MatchStatusRunning \<Rightarrow>
        strict ID (players_of s) \<and> map ID (players_of s) = sort (map fst (s_players s)) \<and>
        strict DoorState_ID (Doors (session_map s)) \<and> strict CellState_ID (Cells (session_map s)) \<and>
        strict EntityState_ID (entities_of s) \<and>
        list_all (\<lambda>e. EntityState_ID e \<le> s_nextEntityID s) (entities_of s) \<and>
        TickID (s_gameState s) = s_tickID s \<and> s_tickID s < EndsTick (Phase (s_gameState s)) \<and>
        unat (s_tickID s) \<le> last_tick (m_config m) \<and> GameOver (s_gameState s) = None
    | MatchStatusGameOver \<Rightarrow> True"
proof -
  have ok: "session_ok (m_config m) s" by (rule manager_okD [OF server_run_ok [OF assms(1)] assms(2)])
  then have "s_status s = MatchStatusRunning \<Longrightarrow> unat (s_tickID s) \<le> last_tick (m_config m)"
    by (intro running_tick_bound) (simp_all add: session_ok_def)
  then show ?thesis using ok
    by (simp add: session_ok_def lobby_ok_def match_ok_def roster_ok_def split: MatchStatus.splits)
qed

theorem manager_runs_keep_sessions_witness:
  "\<exists>s. session_of sample_manager sample_match = Some s \<and> s_status s = MatchStatusRunning \<and>
     map ID (players_of s) = sort (map fst (s_players s)) \<and> strict EntityState_ID (entities_of s) \<and>
     s_tickID s < EndsTick (Phase (s_gameState s))"
proof -
  obtain s where s: "session_of sample_manager sample_match = Some s" "s_status s = MatchStatusRunning"
    using sample_running by blast
  then show ?thesis using manager_runs_keep_sessions [OF sample_run s(1)] by simp
qed

text \<open>C5. In every running match that the manager reaches, every player stays within the bounds of
  the game: the hearts within the maximum of the role, at most two temporary half hearts, at most
  three lives, three bullets for an authority player, a hand of at most three cards, a canonical
  inventory; a living player has a heart and a life left and a dead player has no life left.\<close>

theorem players_stay_bounded:
  assumes "(server_step dec)\<^sup>*\<^sup>* (NewManager config) m"
    and "session_of m matchID = Some s" and "s_status s = MatchStatusRunning" and "p \<in> set (players_of s)"
  shows "HeartsHalf p \<le> MaxHeartsHalfForRole (Role p) \<and> TempHeartsHalf p \<le> 2 \<and>
    LivesRemaining p \<le> DefaultPlayerLives \<and> (if IsAuthorityPlayer p then Bullets p \<le> authorityAmmoMax else True) \<and>
    length (Cards p) \<le> 3 \<and> canonical (Inventory p) \<and> InventorySlots p = playerInventorySlotCount \<and>
    (if Alive p then HeartsHalf p \<noteq> 0 \<and> LivesRemaining p \<noteq> 0 else LivesRemaining p = 0)"
proof -
  have "player_ok p" using running_ok(1) [OF assms(1-3)] assms(4) by (simp add: match_ok_def list_all_iff)
  then show ?thesis by (simp add: player_ok_def hand_ok_def MaxCardsHeld_def)
qed

theorem players_stay_bounded_witness:
  "\<exists>s p. session_of sample_manager sample_match = Some s \<and> players_of s = [p] \<and> ID p = sample_player \<and>
     HeartsHalf p \<le> MaxHeartsHalfForRole (Role p) \<and> length (Cards p) \<le> 3 \<and> LivesRemaining p \<le> DefaultPlayerLives"
proof -
  obtain s where s: "session_of sample_manager sample_match = Some s" "s_status s = MatchStatusRunning"
      "map fst (s_players s) = [sample_player]"
    using sample_running by (elim exE conjE)
  have "map ID (players_of s) = [sample_player]"
    using running_ok(2) [OF sample_run s(1,2)] unfolding roster_ok_def s(3) by simp
  then obtain p where p: "players_of s = [p]" "ID p = sample_player" by (cases "players_of s") auto
  then show ?thesis using players_stay_bounded [OF sample_run s(1,2), of p] s(1) by simp
qed

text \<open>C4. A running match comes to its end: its tick is at most the configured number of cycles times
  the length of a day and a night, and each firing of its ticker returns, counts one tick and keeps
  the invariant of the session, until, at that last tick at the latest, the match is over.\<close>

theorem match_ends_in_time:
  assumes "session_of m matchID = Some s" and "s_status s = MatchStatusRunning"
    and "session_ok (m_config m) s" and "ServerMaxCycles (m_config m) \<noteq> 0" and "spacious dec s"
  shows "unat (s_tickID s) \<le> last_tick (m_config m) \<and>
    (\<exists>m' s'. tick_match dec now tickAt matchID m = Some (m', True) \<and> session_of m' matchID = Some s' \<and>
       session_ok (m_config m) s' \<and> unat (s_tickID s') = unat (s_tickID s) + 1 \<and>
       (if unat (s_tickID s) < last_tick (m_config m)
        then s_status s' \<in> {MatchStatusRunning, MatchStatusGameOver} else s_status s' = MatchStatusGameOver))"
proof -
  have ok: "match_ok s" "roster_ok s" "clock_ok (m_config m) s" using assms(2,3) by (simp_all add: session_ok_def)
  obtain m' s' where t: "tick_session dec (if tickAt = 0 then now else tickAt) matchID s m = Some m'"
      "session_of m' matchID = Some s'" "session_ok (m_config m) s'" "s_tickID s' = s_tickID s + 1"
      "s_status s' = MatchStatusRunning \<or> s_status s' = MatchStatusGameOver"
    using ticked_ok [OF ok assms(4,2,5)] by blast
  have u: "unat (s_tickID s') = unat (s_tickID s) + 1"
    using next_tick(2) [OF spacious_roomy [OF ok(1,3) assms(5)]] t(4) by simp
  have "unat (s_tickID s') \<le> last_tick (m_config m)" if "s_status s' = MatchStatusRunning"
    using t(3) that running_tick_bound [of s' "m_config m"] by (simp add: session_ok_def)
  then show ?thesis using running_tick_bound [OF ok(1,3)] t u assms(1,2) by (auto simp: tick_match_def)
qed

theorem match_ends_in_time_witness:
  "1 \<le> last_tick (m_config sample_server) \<and>
     (\<exists>m' s'. tick_match sample_decoders 5 0 sample_match sample_server = Some (m', True) \<and>
        session_of m' sample_match = Some s' \<and> session_ok sample_config s' \<and> unat (s_tickID s') = 2)"
proof -
  have "unat (s_tickID sample_session) = 1" by (simp add: sample_session_def)
  moreover have "ServerMaxCycles sample_config \<noteq> 0" "s_status sample_session = MatchStatusRunning" by code_simp+
  ultimately show ?thesis
    using match_ends_in_time [OF sample_server_parts(1), of sample_decoders 5 0] sample_session_typed sample_session_spacious
    unfolding sample_server_parts(2) by auto
qed

text \<open>C6. The start of a match of a server in any reachable state: it is refused, with nothing changed,
  exactly for an unknown match, a running or a finished match and a roster below the minimum.
  Otherwise the match runs at tick 0 of the first day with one player per member of the roster,
  ordered by identifier and each well formed, and its history is one full snapshot of this
  state.\<close>

theorem StartMatch_well_formed:
  assumes "(server_step dec)\<^sup>*\<^sup>* (NewManager config) m"
  shows "case session_of m matchID of
      None \<Rightarrow> StartMatch now m matchID = (m, Inl ErrMatchNotFound)
    | Some s \<Rightarrow> (case s_status s of
        MatchStatusRunning \<Rightarrow> StartMatch now m matchID = (m, Inl ErrMatchAlreadyRunning)
      | MatchStatusGameOver \<Rightarrow> StartMatch now m matchID = (m, Inl ErrMatchAlreadyEnded)
      | MatchStatusLobby \<Rightarrow>
          if length (s_players s) < unat (MinPlayers (m_config m)) then StartMatch now m matchID = (m, Inl ErrNotEnoughPlayers)
          else \<exists>m' s' n. StartMatch now m matchID = (m', Inr (snapshotFromSession s')) \<and> session_of m' matchID = Some s' \<and>
            s_status s' = MatchStatusRunning \<and> s_tickID s' = 0 \<and> s_players s' = s_players s \<and>
            map ID (players_of s') = sort (map fst (s_players s)) \<and> list_all player_ok (players_of s') \<and>
            Phase (s_gameState s') = InitialPhaseState (phaseConfig (m_config m)) 1 \<and>
            s_snapshotHistory s' = [(0, n)] \<and> Snapshot.State n = Some (s_gameState s'))"
proof (cases "session_of m matchID")
  case (Some s)
  have ok: "session_ok (m_config m) s" by (rule manager_okD [OF server_run_ok [OF assms] Some])
  have day: "unat (DayDurationTicks (PhaseClock.normalized (phaseConfig (m_config m)))) + 1 < 2 ^ 64"
    using day_fits(1) [of "m_config m"] by simp
  show ?thesis
  proof (cases "s_status s")
    case MatchStatusLobby
    then have "lobby_ok s" using ok by (simp add: session_ok_def)
    note r = start_session_ready [OF this day, where now = now]
    have p: "map ID (players_of (start_session m now s)) = sort (map fst (s_players s))"
      using r(2,4) by (simp add: roster_ok_def)
    have q: "list_all player_ok (players_of (start_session m now s))" using r(1) by (simp add: match_ok_def list_all_iff)
    obtain n where n: "s_snapshotHistory (start_session m now s) = [(0, n)]" "Snapshot.State n = Some (s_gameState (start_session m now s))"
      using r(6) by blast
    have st: "\<not> length (s_players s) < unat (MinPlayers (m_config m)) \<Longrightarrow>
      \<exists>m'. StartMatch now m matchID = (m', Inr (snapshotFromSession (start_session m now s))) \<and>
        session_of m' matchID = Some (start_session m now s)"
      using Some MatchStatusLobby by (simp add: StartMatch_def Let_def appendEventLocked_def session_of_def put_session_def AList.update_conv')
    show ?thesis using Some MatchStatusLobby st r(3,4,5,7) p q n by (auto simp: StartMatch_def)
  qed (simp_all add: StartMatch_def Some)
qed (simp add: StartMatch_def)

theorem StartMatch_well_formed_witness:
  "\<exists>m' s' n. StartMatch 3 sample_lobby sample_match = (m', Inr (snapshotFromSession s')) \<and>
     session_of m' sample_match = Some s' \<and> map ID (players_of s') = [sample_player] \<and>
     list_all player_ok (players_of s') \<and> s_snapshotHistory s' = [(0, n)] \<and> Snapshot.State n = Some (s_gameState s')"
proof -
  obtain s where s: "session_of sample_lobby sample_match = Some s" "s_status s = MatchStatusLobby"
      "map fst (s_players s) = [sample_player]" and c: "m_config sample_lobby = sample_config"
    using sample_joined by (elim exE conjE)
  have "unat (MinPlayers sample_config) = 1" by code_simp
  moreover have "length (s_players s) = 1" using arg_cong [OF s(3), of length] by simp
  moreover have "sort (map fst (s_players s)) = [sample_player]" unfolding s(3) by simp
  ultimately show ?thesis
    using StartMatch_well_formed [OF sample_lobby_run, where matchID = sample_match and now = 3] unfolding s(1) c
    by (simp add: s(2)) (elim exE conjE, intro exI conjI, assumption+)
qed

end
