(* ===== verification/Matchmaking.thy ===== *)
theory Matchmaking
  imports Lifecycle InputQueue "HOL-Library.Product_Lexorder"
begin

text \<open>
  The matchmaking service (\<open>src/internal/server/matchmaking/service.go\<close>): tickets, lobbies and the
  choice of a lobby for a request. The service holds the match manager; the mutex makes each
  operation one step. A Go map that the code ranges over is an association list in the order of
  the iteration; instants are arguments.
\<close>

section \<open>Data\<close>

definition DefaultRegionID :: string where "DefaultRegionID = ''global''"

definition MaxRegionIDLength :: nat where "MaxRegionIDLength = 24"

definition MaxRegionLatencyEntries :: nat where "MaxRegionLatencyEntries = 12"

definition MaxRegionLatencyMS :: uint16 where "MaxRegionLatencyMS = 2000"

record Lobby =
  L_MatchID :: MatchID
  L_Region :: string
  L_Status :: MatchStatus
  L_PlayerCount :: uint8
  L_MinPlayers :: uint8
  L_MaxPlayers :: uint8
  OpenSlots :: uint8
  Joinable :: bool
  ReadyToStart :: bool
  L_CreatedAt :: Time

type_synonym latencies = "(string \<times> uint16) list"

record QueueRequest =
  R_PlayerID :: PlayerID
  PreferredRegion :: string
  RegionLatencyMS :: latencies
  ExcludeMatchIDs :: "MatchID list"

record QueueMetrics =
  QueuedTotal :: uint64
  AllocatedTotal :: uint64
  CurrentDepth :: nat
  MaxDepth :: nat

record QueueEntrySnapshot =
  TicketID :: string
  E_PlayerID :: PlayerID
  E_PreferredRegion :: string
  EnqueuedAt :: Time
  QueuePosition :: nat

record queueEntry =
  q_ticketID :: string
  q_playerID :: PlayerID
  q_preferredRegion :: string
  q_regionLatencyMS :: latencies
  q_excludeMatchIDs :: "MatchID list"
  q_enqueuedAt :: Time

record Service =
  v_manager :: Manager
  v_nextTicketSequence :: uint64
  v_queue :: "queueEntry list"
  v_matchRegions :: "MatchID \<rightharpoonup> string"
  v_queueMetrics :: QueueMetrics

definition NewService :: "Manager \<Rightarrow> Service" where
  "NewService m = \<lparr>v_manager = m, v_nextTicketSequence = 0, v_queue = [], v_matchRegions = Map.empty,
     v_queueMetrics = \<lparr>QueuedTotal = 0, AllocatedTotal = 0, CurrentDepth = 0, MaxDepth = 0\<rparr>\<rparr>"

section \<open>Region identifiers\<close>

definition safe_char :: "char \<Rightarrow> bool" where
  "safe_char c = (let k = of_char c :: nat in 97 \<le> k \<and> k \<le> 122 \<or> 65 \<le> k \<and> k \<le> 90 \<or> 48 \<le> k \<and> k \<le> 57 \<or>
     c = CHR ''-'' \<or> c = CHR ''_'')"

definition isSafeIdentifier :: "string \<Rightarrow> bool" where
  "isSafeIdentifier s = list_all safe_char s"

definition NormalizeRegionID :: "string \<Rightarrow> string" where
  "NormalizeRegionID region =
     (let trimmed = ToLower (TrimSpace region)
      in if trimmed = '''' then ''''
         else if length trimmed > MaxRegionIDLength then ''''
         else if \<not> isSafeIdentifier trimmed then ''''
         else trimmed)"

datatype RequestError = InvalidRegionID | TooManyLatencies | InvalidLatencyKey string | InvalidLatencyValue string

definition validateRegionID :: "string \<Rightarrow> RequestError option" where
  "validateRegionID region =
     (let trimmed = TrimSpace region
      in if trimmed = '''' then None
         else if NormalizeRegionID trimmed = '''' then Some InvalidRegionID else None)"

fun validate_latencies :: "latencies \<Rightarrow> RequestError option" where
  "validate_latencies [] = None"
| "validate_latencies ((region, latency) # rest) =
     (if validateRegionID region \<noteq> None then Some (InvalidLatencyKey region)
      else if latency = 0 \<or> latency > MaxRegionLatencyMS then Some (InvalidLatencyValue region)
      else validate_latencies rest)"

definition ValidateQueueRequest :: "QueueRequest \<Rightarrow> RequestError option" where
  "ValidateQueueRequest request =
     (case validateRegionID (PreferredRegion request) of
        Some err \<Rightarrow> Some err
      | None \<Rightarrow>
          if length (RegionLatencyMS request) > MaxRegionLatencyEntries then Some TooManyLatencies
          else validate_latencies (RegionLatencyMS request))"

text \<open>The trimmed identifiers that are not empty.\<close>

definition trimmed_ids :: "MatchID list \<Rightarrow> MatchID list" where
  "trimmed_ids ids = filter (\<lambda>i. i \<noteq> MatchID '''') (map (\<lambda>i. MatchID (TrimSpace (MatchID_str i))) ids)"

fun normal_latencies :: "latencies \<Rightarrow> latencies \<Rightarrow> latencies" where
  "normal_latencies [] out = out"
| "normal_latencies ((region, latency) # rest) out =
     (let normalizedRegion = NormalizeRegionID region
      in if normalizedRegion = '''' \<or> latency = 0 \<or> latency > MaxRegionLatencyMS
         then normal_latencies rest out
         else normal_latencies rest (AList.update normalizedRegion latency out))"

definition normalizeQueueRequest :: "QueueRequest \<Rightarrow> QueueRequest" where
  "normalizeQueueRequest request =
     \<lparr>R_PlayerID = PlayerID (TrimSpace (PlayerID_str (R_PlayerID request))),
      PreferredRegion = NormalizeRegionID (PreferredRegion request),
      RegionLatencyMS = normal_latencies (RegionLatencyMS request) [],
      ExcludeMatchIDs = trimmed_ids (ExcludeMatchIDs request)\<rparr>"

fun best_region :: "latencies \<Rightarrow> string list \<Rightarrow> string \<times> uint16 \<Rightarrow> string" where
  "best_region lat [] (bestRegion, bestLatency) = bestRegion"
| "best_region lat (region # regions) (bestRegion, bestLatency) =
     (let latency = (case map_of lat region of None \<Rightarrow> 0 | Some l \<Rightarrow> l)
      in if latency < bestLatency then best_region lat regions (region, latency)
         else best_region lat regions (bestRegion, bestLatency))"

definition chooseCreationRegion :: "QueueRequest \<Rightarrow> string" where
  "chooseCreationRegion request =
     (if PreferredRegion request \<noteq> '''' then PreferredRegion request
      else if length (RegionLatencyMS request) = 0 then DefaultRegionID
      else best_region (RegionLatencyMS request) (sort (map fst (RegionLatencyMS request)))
             (DefaultRegionID, MaxRegionLatencyMS + 1))"

section \<open>The queue\<close>

definition enqueueRequestLocked :: "Time \<Rightarrow> QueueRequest \<Rightarrow> Service \<Rightarrow> Service \<times> queueEntry" where
  "enqueueRequestLocked now request s =
     (let s = s\<lparr>v_nextTicketSequence := v_nextTicketSequence s + 1\<rparr>;
          entry = \<lparr>q_ticketID = ''queue-'' @ pad6 (unat (v_nextTicketSequence s)), q_playerID = R_PlayerID request,
            q_preferredRegion = PreferredRegion request, q_regionLatencyMS = RegionLatencyMS request,
            q_excludeMatchIDs = trimmed_ids (ExcludeMatchIDs request), q_enqueuedAt = now\<rparr>;
          queue = (if q_playerID entry \<noteq> PlayerID ''''
                   then filter (\<lambda>existing. q_playerID existing \<noteq> q_playerID entry) (v_queue s) else v_queue s);
          queue = sort_key (\<lambda>e. (q_enqueuedAt e, q_ticketID e)) (queue @ [entry]);
          metrics = v_queueMetrics s;
          metrics = metrics\<lparr>QueuedTotal := QueuedTotal metrics + 1, CurrentDepth := length queue\<rparr>;
          metrics = (if length queue > MaxDepth metrics then metrics\<lparr>MaxDepth := length queue\<rparr> else metrics)
      in (s\<lparr>v_queue := queue, v_queueMetrics := metrics\<rparr>, entry))"

definition dequeueByTicketIDLocked :: "string \<Rightarrow> Service \<Rightarrow> Service" where
  "dequeueByTicketIDLocked ticketID s =
     (if ticketID = '''' \<or> length (v_queue s) = 0 then s
      else let queue = filter (\<lambda>entry. q_ticketID entry \<noteq> ticketID) (v_queue s)
           in s\<lparr>v_queue := queue, v_queueMetrics := (v_queueMetrics s)\<lparr>CurrentDepth := length queue\<rparr>\<rparr>)"

definition QueueMetrics_of :: "Service \<Rightarrow> QueueMetrics" where
  "QueueMetrics_of s = (v_queueMetrics s)\<lparr>CurrentDepth := length (v_queue s)\<rparr>"

definition QueueSnapshot :: "Service \<Rightarrow> QueueEntrySnapshot list" where
  "QueueSnapshot s = map (\<lambda>(idx, entry). \<lparr>TicketID = q_ticketID entry, E_PlayerID = q_playerID entry,
     E_PreferredRegion = q_preferredRegion entry, EnqueuedAt = q_enqueuedAt entry, QueuePosition = idx + 1\<rparr>)
     (enumerate 0 (v_queue s))"

section \<open>Lobbies\<close>

definition regionForMatchLocked :: "MatchID \<Rightarrow> Service \<Rightarrow> Service \<times> string" where
  "regionForMatchLocked matchID s =
     (if matchID = MatchID '''' then (s, DefaultRegionID)
      else case v_matchRegions s matchID of
        Some region \<Rightarrow> (s, region)
      | None \<Rightarrow> (s\<lparr>v_matchRegions := (v_matchRegions s)(matchID \<mapsto> DefaultRegionID)\<rparr>, DefaultRegionID))"

definition MatchRegion :: "MatchID \<Rightarrow> Service \<Rightarrow> Service \<times> string" where
  "MatchRegion matchID s = regionForMatchLocked matchID s"

definition lobbyFromMatchSnapshot :: "MatchSnapshot \<Rightarrow> uint8 \<Rightarrow> uint8 \<Rightarrow> string \<Rightarrow> Lobby" where
  "lobbyFromMatchSnapshot snapshot minPlayers maxPlayers region =
     (let playerCount = of_nat (length (MS_Players snapshot)) :: uint8;
          openSlots = (if maxPlayers > playerCount then maxPlayers - playerCount else 0)
      in \<lparr>L_MatchID = MS_MatchID snapshot, L_Region = region, L_Status = MS_Status snapshot,
          L_PlayerCount = playerCount, L_MinPlayers = minPlayers, L_MaxPlayers = maxPlayers,
          OpenSlots = openSlots, Joinable = (MS_Status snapshot = MatchStatusLobby \<and> openSlots > 0),
          ReadyToStart = (playerCount \<ge> minPlayers), L_CreatedAt = MS_CreatedAt snapshot\<rparr>)"

text \<open>The comparison of \<open>sortLobbiesForRequest\<close>, and the same order as a key: it is total on lobbies
  of different matches, so the sorted list does not depend on the sorting algorithm.\<close>

definition lobby_before :: "QueueRequest \<Rightarrow> Lobby \<Rightarrow> Lobby \<Rightarrow> bool" where
  "lobby_before request a b =
     (if Joinable a \<noteq> Joinable b then Joinable a
      else
        let preferred = PreferredRegion request;
            leftPreferred = (L_Region a = preferred);
            rightPreferred = (L_Region b = preferred)
        in if preferred \<noteq> '''' \<and> leftPreferred \<noteq> rightPreferred then leftPreferred
           else
             let left = map_of (RegionLatencyMS request) (L_Region a);
                 right = map_of (RegionLatencyMS request) (L_Region b)
             in if (left \<noteq> None) \<noteq> (right \<noteq> None) then left \<noteq> None
                else if left \<noteq> None \<and> right \<noteq> None \<and> left \<noteq> right then the left < the right
                else if L_PlayerCount a \<noteq> L_PlayerCount b then L_PlayerCount a > L_PlayerCount b
                else if L_CreatedAt a \<noteq> L_CreatedAt b then L_CreatedAt a < L_CreatedAt b
                else L_MatchID a < L_MatchID b)"

definition lobby_key :: "QueueRequest \<Rightarrow> Lobby \<Rightarrow> bool \<times> bool \<times> bool \<times> uint16 \<times> int \<times> Time \<times> MatchID" where
  "lobby_key request l =
     (let latency = map_of (RegionLatencyMS request) (L_Region l)
      in (\<not> Joinable l, PreferredRegion request \<noteq> '''' \<and> L_Region l \<noteq> PreferredRegion request,
          latency = None, (case latency of None \<Rightarrow> 0 | Some ms \<Rightarrow> ms), - uint (L_PlayerCount l), L_CreatedAt l, L_MatchID l))"

definition sortLobbiesForRequest :: "QueueRequest \<Rightarrow> Lobby list \<Rightarrow> Lobby list" where
  "sortLobbiesForRequest request lobbies = sort_key (lobby_key request) lobbies"

fun collect_lobbies :: "bool \<Rightarrow> uint8 \<Rightarrow> uint8 \<Rightarrow> MatchSnapshot list \<Rightarrow> Service \<Rightarrow> Service \<times> Lobby list" where
  "collect_lobbies includeRunning minPlayers maxPlayers [] s = (s, [])"
| "collect_lobbies includeRunning minPlayers maxPlayers (snapshot # rest) s =
     (let (s, region) = regionForMatchLocked (MS_MatchID snapshot) s;
          lobby = lobbyFromMatchSnapshot snapshot minPlayers maxPlayers region;
          (s, lobbies) = collect_lobbies includeRunning minPlayers maxPlayers rest s
      in (s, if \<not> includeRunning \<and> L_Status lobby \<noteq> MatchStatusLobby then lobbies else lobby # lobbies))"

definition listLobbiesLocked :: "bool \<Rightarrow> QueueRequest \<Rightarrow> Service \<Rightarrow> Service \<times> Lobby list" where
  "listLobbiesLocked includeRunning request s =
     (let (minPlayers, maxPlayers) = MatchConstraints (v_manager s);
          (s, lobbies) = collect_lobbies includeRunning minPlayers maxPlayers (ListMatchSnapshots (v_manager s)) s
      in (s, sortLobbiesForRequest request lobbies))"

definition ListLobbiesForRequest :: "bool \<Rightarrow> QueueRequest \<Rightarrow> Service \<Rightarrow> Service \<times> Lobby list" where
  "ListLobbiesForRequest includeRunning request s = listLobbiesLocked includeRunning (normalizeQueueRequest request) s"

definition empty_request :: QueueRequest where
  "empty_request = \<lparr>R_PlayerID = PlayerID '''', PreferredRegion = '''', RegionLatencyMS = [], ExcludeMatchIDs = []\<rparr>"

definition ListLobbies :: "bool \<Rightarrow> Service \<Rightarrow> Service \<times> Lobby list" where
  "ListLobbies includeRunning s = ListLobbiesForRequest includeRunning empty_request s"

section \<open>Allocation\<close>

definition allocated :: "queueEntry \<Rightarrow> Service \<Rightarrow> Service" where
  "allocated entry s =
     (let s = dequeueByTicketIDLocked (q_ticketID entry) s
      in s\<lparr>v_queueMetrics := (v_queueMetrics s)\<lparr>AllocatedTotal := AllocatedTotal (v_queueMetrics s) + 1\<rparr>\<rparr>)"

definition create_lobby :: "Time \<Rightarrow> QueueRequest \<Rightarrow> queueEntry \<Rightarrow> Service \<Rightarrow> Service \<times> Lobby" where
  "create_lobby createdAt request entry s =
     (let region = chooseCreationRegion request;
          (minPlayers, maxPlayers) = MatchConstraints (v_manager s);
          (m, created) = CreateMatch createdAt (v_manager s);
          s = s\<lparr>v_manager := m, v_matchRegions := (v_matchRegions s)(MS_MatchID created \<mapsto> region)\<rparr>
      in (allocated entry s, lobbyFromMatchSnapshot created minPlayers maxPlayers region))"

definition suits :: "QueueRequest \<Rightarrow> queueEntry \<Rightarrow> Lobby \<Rightarrow> bool" where
  "suits request entry lobby \<longleftrightarrow> Joinable lobby \<and>
     (PreferredRegion request \<noteq> '''' \<longrightarrow> L_Region lobby = PreferredRegion request) \<and>
     L_MatchID lobby \<notin> set (q_excludeMatchIDs entry)"

definition FindOrCreateLobbyForRequest :: "Time \<Rightarrow> Time \<Rightarrow> QueueRequest \<Rightarrow> Service \<Rightarrow> Service \<times> Lobby" where
  "FindOrCreateLobbyForRequest now createdAt request s =
     (let normalized = normalizeQueueRequest request;
          (s, entry) = enqueueRequestLocked now normalized s;
          (s, lobbies) = listLobbiesLocked False normalized s
      in case List.find (suits normalized entry) lobbies of
           Some lobby \<Rightarrow> (allocated entry s, lobby)
         | None \<Rightarrow> create_lobby createdAt normalized entry s)"

definition FindOrCreateLobby :: "Time \<Rightarrow> Time \<Rightarrow> Service \<Rightarrow> Service \<times> Lobby" where
  "FindOrCreateLobby now createdAt s = FindOrCreateLobbyForRequest now createdAt empty_request s"

section \<open>The order of lobbies\<close>

lemma less_pair: "(x, y) < (a, b) \<longleftrightarrow> (if x = a then y < b else x < a)" for x a :: "'a :: linorder" and y b :: "'b :: linorder"
  by (auto simp: less_prod_def)

lemma lobby_before_key: "lobby_before request a b \<longleftrightarrow> lobby_key request a < lobby_key request b"
proof -
  have c: "uint (L_PlayerCount a) = uint (L_PlayerCount b) \<longleftrightarrow> L_PlayerCount a = L_PlayerCount b"
    "uint (L_PlayerCount b) < uint (L_PlayerCount a) \<longleftrightarrow> L_PlayerCount b < L_PlayerCount a"
    by (simp_all add: word_less_def word_uint_eq_iff)
  show ?thesis
    by (cases "map_of (RegionLatencyMS request) (L_Region a)"; cases "map_of (RegionLatencyMS request) (L_Region b)";
        cases "Joinable a"; cases "Joinable b"; cases "PreferredRegion request = ''''";
        cases "L_Region a = PreferredRegion request"; cases "L_Region b = PreferredRegion request")
      (simp_all add: lobby_before_def lobby_key_def Let_def less_pair c del: less_prod_simp)
qed

lemma find_sorted_least:
  assumes "List.find P (sort_key key xs) = Some x"
  shows "x \<in> set xs" "P x" "y \<in> set xs \<Longrightarrow> P y \<Longrightarrow> key x \<le> key y"
proof -
  obtain i where i: "i < length xs" "P (sort_key key xs ! i)" "x = sort_key key xs ! i"
      and first: "\<And>j. j < i \<Longrightarrow> \<not> P (sort_key key xs ! j)"
    using assms by (auto simp: find_Some_iff)
  have "sort_key key xs ! i \<in> set (sort_key key xs)" using i(1) by (intro nth_mem) simp
  then show "x \<in> set xs" "P x" using i by simp_all
  assume y: "y \<in> set xs" "P y"
  then obtain j where j: "j < length xs" "y = sort_key key xs ! j"
    by (metis in_set_conv_nth length_sort set_sort)
  then have "i \<le> j" using first y(2) by (meson not_le)
  then have "map key (sort_key key xs) ! i \<le> map key (sort_key key xs) ! j"
    using j(1) by (intro sorted_nth_mono) simp_all
  then show "key x \<le> key y" using i(1,3) j by simp
qed

section \<open>The lobbies of a service\<close>

definition region_of :: "Service \<Rightarrow> MatchID \<Rightarrow> string" where
  "region_of s matchID = (if matchID = MatchID '''' then DefaultRegionID
     else case v_matchRegions s matchID of None \<Rightarrow> DefaultRegionID | Some region \<Rightarrow> region)"

definition lobbies_of :: "Service \<Rightarrow> Lobby list" where
  "lobbies_of s = map (\<lambda>snapshot. lobbyFromMatchSnapshot snapshot (MinPlayers (m_config (v_manager s)))
     (MaxPlayers (m_config (v_manager s))) (region_of s (MS_MatchID snapshot))) (ListMatchSnapshots (v_manager s))"

lemma regionForMatchLocked_parts:
  "snd (regionForMatchLocked k s) = region_of s k"
  "region_of (fst (regionForMatchLocked k s)) = region_of s"
  "\<exists>regions. fst (regionForMatchLocked k s) = s\<lparr>v_matchRegions := regions\<rparr>"
proof -
  show "snd (regionForMatchLocked k s) = region_of s k" "region_of (fst (regionForMatchLocked k s)) = region_of s"
    by (auto simp: regionForMatchLocked_def region_of_def fun_eq_iff split: option.splits)
  have "\<exists>regions. s = s\<lparr>v_matchRegions := regions\<rparr>" by (rule exI [of _ "v_matchRegions s"]) simp
  then show "\<exists>regions. fst (regionForMatchLocked k s) = s\<lparr>v_matchRegions := regions\<rparr>"
    by (auto simp: regionForMatchLocked_def split: option.splits)
qed

lemma collect_lobbies_eq:
  "snd (collect_lobbies run lo hi snaps s) = filter (\<lambda>l. run \<or> L_Status l = MatchStatusLobby)
     (map (\<lambda>snap. lobbyFromMatchSnapshot snap lo hi (region_of s (MS_MatchID snap))) snaps)"
  "\<exists>regions. fst (collect_lobbies run lo hi snaps s) = s\<lparr>v_matchRegions := regions\<rparr>"
proof (induction snaps arbitrary: s)
  case Nil
  { case 1 show ?case by simp }
  { case (2 s) show ?case by (intro exI [of _ "v_matchRegions s"]) simp }
next
  case (Cons snap snaps)
  {
    case (1 s)
    let ?s = "fst (regionForMatchLocked (MS_MatchID snap) s)"
    show ?case using Cons.IH(1) [of ?s] by (cases run) (simp_all add: case_prod_beta' Let_def regionForMatchLocked_parts(1,2))
  }
  {
    case (2 s)
    let ?s = "fst (regionForMatchLocked (MS_MatchID snap) s)"
    obtain r r' where "?s = s\<lparr>v_matchRegions := r\<rparr>" "fst (collect_lobbies run lo hi snaps ?s) = ?s\<lparr>v_matchRegions := r'\<rparr>"
      using regionForMatchLocked_parts(3) Cons.IH(2) [of ?s] by blast
    then show ?case by (auto simp: case_prod_beta' Let_def)
  }
qed

lemma listLobbiesLocked_eq:
  "snd (listLobbiesLocked run request s) = sort_key (lobby_key request) (filter (\<lambda>l. run \<or> L_Status l = MatchStatusLobby) (lobbies_of s))"
  "\<exists>regions. fst (listLobbiesLocked run request s) = s\<lparr>v_matchRegions := regions\<rparr>"
  using collect_lobbies_eq [of run "MinPlayers (m_config (v_manager s))" "MaxPlayers (m_config (v_manager s))"
      "ListMatchSnapshots (v_manager s)" s]
  by (simp_all add: listLobbiesLocked_def MatchConstraints_def case_prod_beta' Let_def sortLobbiesForRequest_def lobbies_of_def)

lemma enqueueRequestLocked_parts:
  "v_manager (fst (enqueueRequestLocked now r s)) = v_manager s"
  "lobbies_of (fst (enqueueRequestLocked now r s)) = lobbies_of s"
  "QueuedTotal (v_queueMetrics (fst (enqueueRequestLocked now r s))) = QueuedTotal (v_queueMetrics s) + 1"
  "AllocatedTotal (v_queueMetrics (fst (enqueueRequestLocked now r s))) = AllocatedTotal (v_queueMetrics s)"
  "q_excludeMatchIDs (snd (enqueueRequestLocked now r s)) = trimmed_ids (ExcludeMatchIDs r)"
  "v_queue s = [] \<Longrightarrow> v_queue (fst (enqueueRequestLocked now r s)) = [snd (enqueueRequestLocked now r s)]"
  by (simp_all add: enqueueRequestLocked_def Let_def lobbies_of_def region_of_def)

lemma allocated_parts:
  "v_manager (allocated e s) = v_manager s"
  "QueuedTotal (v_queueMetrics (allocated e s)) = QueuedTotal (v_queueMetrics s)"
  "AllocatedTotal (v_queueMetrics (allocated e s)) = AllocatedTotal (v_queueMetrics s) + 1"
  by (simp_all add: allocated_def dequeueByTicketIDLocked_def Let_def)

lemma allocated_queue:
  "v_queue s = [e] \<Longrightarrow> q_ticketID e \<noteq> '''' \<Longrightarrow> v_queue (allocated e s) = []"
  by (simp add: allocated_def dequeueByTicketIDLocked_def Let_def)

lemma ticket_not_empty: "q_ticketID (snd (enqueueRequestLocked now r s)) \<noteq> ''''"
  by (simp add: enqueueRequestLocked_def Let_def)

lemma find_none_iff: "List.find P xs = None \<longleftrightarrow> filter P xs = []"
  by (auto simp: find_None_iff filter_empty_conv)

lemma joinable_lobby: "l \<in> set (lobbies_of s) \<Longrightarrow> Joinable l \<Longrightarrow> L_Status l = MatchStatusLobby"
  by (auto simp: lobbies_of_def lobbyFromMatchSnapshot_def Let_def)

definition latency_of :: "latencies \<Rightarrow> string \<Rightarrow> uint16" where
  "latency_of lat region = (case map_of lat region of None \<Rightarrow> 0 | Some l \<Rightarrow> l)"

lemma best_region_least:
  "best_region lat rs (b, l) = b \<and> (\<forall>r \<in> set rs. l \<le> latency_of lat r) \<or>
   best_region lat rs (b, l) \<in> set rs \<and> latency_of lat (best_region lat rs (b, l)) < l \<and>
     (\<forall>r \<in> set rs. latency_of lat (best_region lat rs (b, l)) \<le> latency_of lat r)"
proof (induction rs arbitrary: b l)
  case (Cons r rs)
  show ?case
  proof (cases "latency_of lat r < l")
    case True
    then have "best_region lat (r # rs) (b, l) = best_region lat rs (r, latency_of lat r)"
      by (simp add: latency_of_def Let_def)
    then show ?thesis using Cons.IH [of r "latency_of lat r"] True by auto
  next
    case False
    then have "best_region lat (r # rs) (b, l) = best_region lat rs (b, l)"
      by (simp add: latency_of_def Let_def)
    then show ?thesis using Cons.IH [of b l] False by auto
  qed
qed simp

lemma normal_latencies_bounds:
  assumes "\<And>k l. map_of out k = Some l \<Longrightarrow> 0 < l \<and> l \<le> MaxRegionLatencyMS"
    and "map_of (normal_latencies xs out) k = Some l"
  shows "0 < l \<and> l \<le> MaxRegionLatencyMS"
  using assms
proof (induction xs arbitrary: out)
  case (Cons x xs)
  obtain region latency where x: "x = (region, latency)" by force
  show ?case
  proof (cases "NormalizeRegionID region = '''' \<or> latency = 0 \<or> latency > MaxRegionLatencyMS")
    case True
    then show ?thesis using Cons.IH [of out] Cons.prems by (simp add: x Let_def)
  next
    case False
    then have "0 < l' \<and> l' \<le> MaxRegionLatencyMS" if "map_of (AList.update (NormalizeRegionID region) latency out) k' = Some l'" for k' l'
      using that Cons.prems(1) by (auto simp: AList.update_conv' word_gt_0 not_less split: if_splits)
    then show ?thesis using Cons.IH [of "AList.update (NormalizeRegionID region) latency out"] Cons.prems(2) False
      by (simp add: x Let_def)
  qed
qed simp

lemma normalized_latency:
  "map_of (RegionLatencyMS (normalizeQueueRequest request)) k = Some l \<Longrightarrow> 0 < l \<and> l \<le> MaxRegionLatencyMS"
  by (rule normal_latencies_bounds [of "[]" "RegionLatencyMS request" k l]) (simp_all add: normalizeQueueRequest_def)

lemma creation_region:
  assumes "PreferredRegion (normalizeQueueRequest request) = ''''" "RegionLatencyMS (normalizeQueueRequest request) \<noteq> []"
  defines "lat \<equiv> RegionLatencyMS (normalizeQueueRequest request)"
    and "r \<equiv> chooseCreationRegion (normalizeQueueRequest request)"
  shows "r \<in> fst ` set lat \<and> (\<forall>k \<in> fst ` set lat. latency_of lat r \<le> latency_of lat k)"
proof -
  let ?rs = "sort (map fst lat)"
  have r: "r = best_region lat ?rs (DefaultRegionID, MaxRegionLatencyMS + 1)"
    using assms(1,2) by (simp add: r_def lat_def chooseCreationRegion_def)
  obtain k where k: "k \<in> set ?rs" using assms(2) by (cases lat) (auto simp: lat_def)
  then obtain l where "map_of lat k = Some l" by (auto simp: dest: weak_map_of_SomeI)
  then have "latency_of lat k \<le> MaxRegionLatencyMS"
    using normalized_latency [of request k l] by (simp add: latency_of_def lat_def)
  then have "\<not> MaxRegionLatencyMS + 1 \<le> latency_of lat k"
    by (simp add: MaxRegionLatencyMS_def word_le_nat_alt unat_word_ariths)
  then show ?thesis using best_region_least [of lat ?rs DefaultRegionID "MaxRegionLatencyMS + 1"] k unfolding r by auto
qed

lemma created_lobby:
  "L_PlayerCount (lobbyFromMatchSnapshot (snd (CreateMatch t m)) lo hi region) = 0"
  "L_Status (lobbyFromMatchSnapshot (snd (CreateMatch t m)) lo hi region) = MatchStatusLobby"
  "L_Region (lobbyFromMatchSnapshot (snd (CreateMatch t m)) lo hi region) = region"
  "L_MatchID (lobbyFromMatchSnapshot (snd (CreateMatch t m)) lo hi region) = MS_MatchID (snd (CreateMatch t m))"
  by (simp_all add: lobbyFromMatchSnapshot_def CreateMatch_def nextMatchIDLocked_def new_session_def snapshotFromSession_def Let_def)

section \<open>Properties\<close>

text \<open>C10. A request gets the best lobby there is: among the open lobbies of its preferred region (of
  any region when it prefers none) that it does not exclude, one that no other precedes in the
  order of the request, with the manager unchanged. When there is none, a new match is created and
  its empty lobby returned, in the preferred region or else the measured region of least latency.
  One ticket is counted as queued and as allocated, and a service with an empty queue has an empty
  queue again.\<close>

theorem FindOrCreateLobby_best:
  assumes "FindOrCreateLobbyForRequest now createdAt request s = (s', lobby)"
    and "r = normalizeQueueRequest request"
    and "fitting = filter (\<lambda>l. Joinable l \<and> (PreferredRegion r = '''' \<or> L_Region l = PreferredRegion r) \<and>
      L_MatchID l \<notin> set (trimmed_ids (ExcludeMatchIDs r))) (lobbies_of s)"
  shows "(if fitting = []
      then v_manager s' = fst (CreateMatch createdAt (v_manager s)) \<and>
        L_MatchID lobby = MS_MatchID (snd (CreateMatch createdAt (v_manager s))) \<and>
        L_PlayerCount lobby = 0 \<and> L_Status lobby = MatchStatusLobby \<and>
        (if PreferredRegion r \<noteq> '''' then L_Region lobby = PreferredRegion r
         else if RegionLatencyMS r = [] then L_Region lobby = DefaultRegionID
         else L_Region lobby \<in> fst ` set (RegionLatencyMS r) \<and>
           (\<forall>k \<in> fst ` set (RegionLatencyMS r). latency_of (RegionLatencyMS r) (L_Region lobby) \<le> latency_of (RegionLatencyMS r) k))
      else v_manager s' = v_manager s \<and> lobby \<in> set fitting \<and> (\<forall>l \<in> set fitting. \<not> lobby_before r l lobby)) \<and>
    QueuedTotal (v_queueMetrics s') = QueuedTotal (v_queueMetrics s) + 1 \<and>
    AllocatedTotal (v_queueMetrics s') = AllocatedTotal (v_queueMetrics s) + 1 \<and>
    (v_queue s = [] \<longrightarrow> v_queue s' = [])"
proof -
  obtain s1 entry where e: "enqueueRequestLocked now r s = (s1, entry)" by force
  obtain s2 lobbies where l: "listLobbiesLocked False r s1 = (s2, lobbies)" by force
  note q = enqueueRequestLocked_parts [where now = now and r = r and s = s, unfolded e, simplified]
    ticket_not_empty [where now = now and r = r and s = s, unfolded e, simplified]
  obtain regions where s2: "s2 = s1\<lparr>v_matchRegions := regions\<rparr>" using listLobbiesLocked_eq(2) [of False r s1] l by auto
  have ls: "lobbies = sort_key (lobby_key r) (filter (\<lambda>l. L_Status l = MatchStatusLobby) (lobbies_of s))"
    using listLobbiesLocked_eq(1) [of False r s1] l q(2) by simp
  have fit: "suits r entry x \<longleftrightarrow> x \<in> set fitting" if "x \<in> set (lobbies_of s)" for x
    using that q(5) by (auto simp: assms(3) suits_def)
  have mem: "x \<in> set (filter (\<lambda>l. L_Status l = MatchStatusLobby) (lobbies_of s))" if "x \<in> set fitting" for x
    using that joinable_lobby by (auto simp: assms(3))
  have queue: "v_queue s = [] \<Longrightarrow> v_queue (allocated entry (s2\<lparr>v_manager := m, v_matchRegions := g\<rparr>)) = []" for m g
    using q(6,7) by (intro allocated_queue) (simp_all add: s2)
  have queue': "v_queue s = [] \<Longrightarrow> v_queue (allocated entry s2) = []"
    using q(6,7) by (intro allocated_queue) (simp_all add: s2)
  show ?thesis
  proof (cases "List.find (suits r entry) lobbies")
    case None
    then have none: "fitting = []" using mem fit by (auto simp: find_None_iff ls filter_empty_conv assms(3))
    have "s' = fst (create_lobby createdAt r entry s2)" "lobby = snd (create_lobby createdAt r entry s2)"
      using assms(1) e l None by (simp_all add: FindOrCreateLobbyForRequest_def assms(2) Let_def)
    then show ?thesis using none q queue creation_region [of request]
      by (simp add: create_lobby_def MatchConstraints_def case_prod_beta' Let_def allocated_parts s2 created_lobby assms(2) chooseCreationRegion_def)
  next
    case (Some x)
    have "x \<in> set fitting" using find_sorted_least(1,2) [OF Some [unfolded ls]] fit by auto
    moreover have "\<not> lobby_before r y x" if "y \<in> set fitting" for y
      using find_sorted_least(3) [OF Some [unfolded ls] mem [OF that]] that fit mem [OF that]
      by (auto simp: lobby_before_key not_less)
    moreover have "s' = allocated entry s2" "lobby = x"
      using assms(1) e l Some by (simp_all add: FindOrCreateLobbyForRequest_def assms(2) Let_def)
    ultimately show ?thesis using q queue' by (auto simp: allocated_parts s2)
  qed
qed

definition sample_request :: QueueRequest where
  "sample_request = \<lparr>R_PlayerID = PlayerID '' ada '', PreferredRegion = '''', RegionLatencyMS = [('' EU'', 40), (''us'', 120), (''x!'', 5)],
     ExcludeMatchIDs = [MatchID ''match-000007'']\<rparr>"

theorem FindOrCreateLobby_best_witness:
  "\<exists>s' lobby. FindOrCreateLobbyForRequest 1 2 sample_request (NewService (NewManager ServerDefaultConfig)) = (s', lobby) \<and>
     L_Region lobby = ''eu'' \<and> L_PlayerCount lobby = 0 \<and> v_queue s' = []"
proof -
  obtain s' lobby where f: "FindOrCreateLobbyForRequest 1 2 sample_request (NewService (NewManager ServerDefaultConfig)) = (s', lobby)"
    by force
  have n: "PreferredRegion (normalizeQueueRequest sample_request) = ''''"
    "RegionLatencyMS (normalizeQueueRequest sample_request) = [(''eu'', 40), (''us'', 120)]" by code_simp+
  have lat: "latency_of [(''eu'', 40), (''us'', 120)] ''eu'' = 40" "latency_of [(''eu'', 40), (''us'', 120)] ''us'' = 120" by code_simp+
  have none: "lobbies_of (NewService (NewManager ServerDefaultConfig)) = []"
    by (simp add: lobbies_of_def NewService_def NewManager_def ListMatchSnapshots_def)
  have "v_queue (NewService (NewManager ServerDefaultConfig)) = []" by (simp add: NewService_def)
  then show ?thesis
    using FindOrCreateLobby_best [OF f refl refl] f lat unfolding none n by auto
qed

end
