(* ===== verification/Int64.thy ===== *)
theory Int64
  imports Prelude
begin

text \<open>
  Go's \<open>int64\<close> (and \<open>int\<close> on 64-bit machines) as integers: arithmetic wraps around.
\<close>

definition wrap64 :: "int \<Rightarrow> int" where
  "wrap64 k = (k + 2 ^ 63) mod 2 ^ 64 - 2 ^ 63"

lemma wrap64_id [simp]: "- (2 ^ 63) \<le> k \<Longrightarrow> k < 2 ^ 63 \<Longrightarrow> wrap64 k = k"
  by (simp add: wrap64_def)

lemma wrap64_less: "wrap64 k < 2 ^ 63" "- (2 ^ 63) \<le> wrap64 k"
proof -
  have "(k + 2 ^ 63) mod 2 ^ 64 < (2 ^ 64 :: int)" "0 \<le> (k + 2 ^ 63) mod (2 ^ 64 :: int)" by simp_all
  then show "wrap64 k < 2 ^ 63" "- (2 ^ 63) \<le> wrap64 k" unfolding wrap64_def by simp_all
qed

end
