(* ===== verification/AuthToken.thy ===== *)
theory AuthToken
  imports Int64
begin

text \<open>
  Session tokens (\<open>src/internal/server/auth/token.go\<close>): signing and verification of claims. The
  keyed hash (\<open>hmac\<close> with SHA-256) and the JSON encoder and decoder of the claims are library code
  and arguments of the definitions; the URL-safe base64 encoding without padding and the
  splitting at dots are modelled here. Instants are Unix seconds.
\<close>

section \<open>Base64\<close>

text \<open>The alphabet of \<open>base64.RawURLEncoding\<close>.\<close>

definition digit64 :: "nat \<Rightarrow> char" where
  "digit64 n = (if n < 26 then char_of (65 + n) else if n < 52 then char_of (97 + (n - 26))
     else if n < 62 then char_of (48 + (n - 52)) else if n = 62 then CHR ''-'' else CHR ''_'')"

definition sextet :: "char \<Rightarrow> nat option" where
  "sextet c = (let k = of_char c :: nat
     in if 65 \<le> k \<and> k \<le> 90 then Some (k - 65) else if 97 \<le> k \<and> k \<le> 122 then Some (k - 97 + 26)
        else if 48 \<le> k \<and> k \<le> 57 then Some (k - 48 + 52)
        else if c = CHR ''-'' then Some 62 else if c = CHR ''_'' then Some 63 else None)"

fun encode_bytes :: "nat list \<Rightarrow> nat list" where
  "encode_bytes [] = []"
| "encode_bytes [a] = [a div 4, (a mod 4) * 16]"
| "encode_bytes [a, b] = [a div 4, (a mod 4) * 16 + b div 16, (b mod 16) * 4]"
| "encode_bytes (a # b # c # rest) =
     a div 4 # ((a mod 4) * 16 + b div 16) # ((b mod 16) * 4 + c div 64) # (c mod 64) # encode_bytes rest"

text \<open>A single left-over digit is an error; the unused bits of the last digit are not checked.\<close>

fun decode_digits :: "nat list \<Rightarrow> nat list option" where
  "decode_digits [] = Some []"
| "decode_digits [x] = None"
| "decode_digits [x, y] = Some [x * 4 + y div 16]"
| "decode_digits [x, y, z] = Some [x * 4 + y div 16, (y mod 16) * 16 + z div 4]"
| "decode_digits (x # y # z # w # rest) =
     map_option (\<lambda>bs. (x * 4 + y div 16) # ((y mod 16) * 16 + z div 4) # ((z mod 4) * 64 + w) # bs) (decode_digits rest)"

definition EncodeToString :: "string \<Rightarrow> string" where
  "EncodeToString bytes = map digit64 (encode_bytes (map of_char bytes))"

text \<open>The decoder skips line breaks.\<close>

definition DecodeString :: "string \<Rightarrow> string option" where
  "DecodeString s =
     (case those (map sextet (filter (\<lambda>c. c \<noteq> CHR 0x0A \<and> c \<noteq> CHR 0x0D) s)) of
        None \<Rightarrow> None
      | Some ds \<Rightarrow> map_option (map char_of) (decode_digits ds))"

text \<open>\<open>strings.Split\<close> at a character.\<close>

fun split_at :: "char \<Rightarrow> string \<Rightarrow> string list" where
  "split_at d [] = [[]]"
| "split_at d (c # cs) =
     (if c = d then [] # split_at d cs
      else case split_at d cs of [] \<Rightarrow> [[c]] | part # parts \<Rightarrow> (c # part) # parts)"

section \<open>Tokens\<close>

datatype AuthError = ErrSecretRequired | ErrInvalidToken | ErrInvalidSignature | ErrInvalidClaims
  | ErrTokenExpired | ErrTokenNotYetValid | ErrUnsupportedFormat | ErrMarshalClaims

definition tokenVersion :: string where "tokenVersion = ''v1''"

abbreviation "ScopeGameplay \<equiv> ''gameplay''"
abbreviation "ScopeLobby \<equiv> ''lobby_read''"
abbreviation "ScopeAdmin \<equiv> ''admin''"

record Claims =
  Subject :: string
  ClaimMatchID :: string
  SessionKind :: string
  Scope :: string
  IssuedAt :: int
  ExpiresAt :: int

definition Allows :: "Claims \<Rightarrow> string \<Rightarrow> bool" where
  "Allows c scope =
     (if Scope c = ScopeAdmin then True
      else if scope = ScopeLobby \<and> Scope c = ScopeGameplay then True
      else Scope c = scope)"

record TokenService =
  t_secret :: string
  t_clockSkew :: int

definition newTokenService :: "string \<Rightarrow> int \<Rightarrow> AuthError + TokenService" where
  "newTokenService secret clockSkew =
     (let trimmedSecret = TrimSpace secret
      in if trimmedSecret = '''' then Inl ErrSecretRequired
         else Inr \<lparr>t_secret = trimmedSecret, t_clockSkew = (if clockSkew < 0 then 0 else clockSkew)\<rparr>)"

record Codec =
  c_mac :: "string \<Rightarrow> string \<Rightarrow> string"
  c_marshal :: "Claims \<Rightarrow> string option"
  c_unmarshal :: "string \<Rightarrow> Claims option"

definition computeSignature :: "Codec \<Rightarrow> TokenService \<Rightarrow> string \<Rightarrow> string" where
  "computeSignature codec s signingInput = c_mac codec (t_secret s) signingInput"

definition Sign :: "Codec \<Rightarrow> int \<Rightarrow> TokenService \<Rightarrow> Claims \<Rightarrow> AuthError + string" where
  "Sign codec now s claims =
     (if length (t_secret s) = 0 then Inl ErrSecretRequired
      else
        let normalized = (if IssuedAt claims \<le> 0 then claims\<lparr>IssuedAt := now\<rparr> else claims)
        in if ExpiresAt normalized \<le> 0 \<or> ExpiresAt normalized \<le> IssuedAt normalized then Inl ErrInvalidClaims
           else case c_marshal codec normalized of
                  None \<Rightarrow> Inl ErrMarshalClaims
                | Some payload \<Rightarrow>
                    let signingInput = tokenVersion @ ''.'' @ EncodeToString payload
                    in Inr (signingInput @ ''.'' @ EncodeToString (computeSignature codec s signingInput)))"

definition Verify :: "Codec \<Rightarrow> int \<Rightarrow> TokenService \<Rightarrow> string \<Rightarrow> AuthError + Claims" where
  "Verify codec now s token =
     (if length (t_secret s) = 0 then Inl ErrSecretRequired
      else
        let parts = split_at (CHR ''.'') token
        in if length parts \<noteq> 3 then Inl ErrInvalidToken
           else if parts ! 0 \<noteq> tokenVersion then Inl ErrUnsupportedFormat
           else
             let signingInput = parts ! 0 @ ''.'' @ parts ! 1
             in case DecodeString (parts ! 2) of
                  None \<Rightarrow> Inl ErrInvalidToken
                | Some givenSignature \<Rightarrow>
                    if givenSignature \<noteq> computeSignature codec s signingInput then Inl ErrInvalidSignature
                    else case DecodeString (parts ! 1) of
                      None \<Rightarrow> Inl ErrInvalidToken
                    | Some payload \<Rightarrow>
                        (case c_unmarshal codec payload of
                           None \<Rightarrow> Inl ErrInvalidToken
                         | Some claims \<Rightarrow>
                             if ExpiresAt claims \<le> 0 \<or> ExpiresAt claims \<le> IssuedAt claims then Inl ErrInvalidClaims
                             else
                               let skewSeconds = t_clockSkew s div 1000000000
                               in if IssuedAt claims > 0 \<and> wrap64 (now + skewSeconds) < IssuedAt claims
                                  then Inl ErrTokenNotYetValid
                                  else if wrap64 (now - skewSeconds) \<ge> ExpiresAt claims then Inl ErrTokenExpired
                                  else Inr claims))"

section \<open>Base64 round trip\<close>

lemma sextet_digit64:
  assumes "n < 64"
  shows "sextet (digit64 n) = Some n"
proof -
  consider "n < 26" | "26 \<le> n" "n < 52" | "52 \<le> n" "n < 62" | "n = 62" | "n = 63" using assms by linarith
  then show ?thesis by cases (auto simp: sextet_def digit64_def Let_def)
qed

lemma digit64_plain: "n < 64 \<Longrightarrow> digit64 n \<notin> {CHR ''.'', CHR 0x0A, CHR 0x0D}"
proof -
  assume n: "n < 64"
  have "sextet (CHR ''.'') = None" "sextet (CHR 0x0A) = None" "sextet (CHR 0x0D) = None" by code_simp+
  then show ?thesis using sextet_digit64 [OF n] by auto
qed

lemma encode_bytes_digits: "list_all (\<lambda>b. b < 256) bs \<Longrightarrow> list_all (\<lambda>n. n < 64) (encode_bytes bs)"
  by (induction bs rule: encode_bytes.induct) auto

lemma high_digits:
  "b < 256 \<Longrightarrow> b div 16 div 16 = 0" "b < 256 \<Longrightarrow> b div 16 mod 16 = b div 16"
  "b < 256 \<Longrightarrow> b div 64 div 4 = 0" "b < 256 \<Longrightarrow> b div 64 mod 4 = b div 64" for b :: nat
proof -
  have "b < 256 \<Longrightarrow> b div 16 < 16" "b < 256 \<Longrightarrow> b div 64 < 4" by (simp_all add: div_less_iff_less_mult)
  then show "b < 256 \<Longrightarrow> b div 16 div 16 = 0" "b < 256 \<Longrightarrow> b div 16 mod 16 = b div 16"
    "b < 256 \<Longrightarrow> b div 64 div 4 = 0" "b < 256 \<Longrightarrow> b div 64 mod 4 = b div 64" by simp_all
qed

lemma decode_encode_bytes: "list_all (\<lambda>b. b < 256) bs \<Longrightarrow> decode_digits (encode_bytes bs) = Some bs"
  by (induction bs rule: encode_bytes.induct) (simp_all add: high_digits)

lemma those_map_inverse: "list_all (\<lambda>x. f (g x) = Some x) xs \<Longrightarrow> those (map f (map g xs)) = Some xs"
  by (induction xs) simp_all

lemma encoded_plain: "c \<in> set (EncodeToString bytes) \<Longrightarrow> c \<notin> {CHR ''.'', CHR 0x0A, CHR 0x0D}"
proof -
  assume "c \<in> set (EncodeToString bytes)"
  then obtain n where "n \<in> set (encode_bytes (map of_char bytes))" "c = digit64 n"
    by (auto simp: EncodeToString_def)
  moreover have "list_all (\<lambda>n. n < 64) (encode_bytes (map of_char bytes :: nat list))"
    by (rule encode_bytes_digits) (simp add: list_all_iff)
  ultimately show ?thesis using digit64_plain by (auto simp: list_all_iff)
qed

lemma DecodeString_EncodeToString: "DecodeString (EncodeToString bytes) = Some bytes"
proof -
  let ?ds = "encode_bytes (map of_char bytes) :: nat list"
  have b: "list_all (\<lambda>b. b < 256) (map of_char bytes :: nat list)" by (simp add: list_all_iff)
  have "filter (\<lambda>c. c \<noteq> CHR 0x0A \<and> c \<noteq> CHR 0x0D) (EncodeToString bytes) = EncodeToString bytes"
    using encoded_plain by (auto simp: filter_id_conv)
  moreover have "those (map sextet (EncodeToString bytes)) = Some ?ds"
    unfolding EncodeToString_def
    by (rule those_map_inverse) (use encode_bytes_digits [OF b] sextet_digit64 in \<open>auto simp: list_all_iff\<close>)
  ultimately show ?thesis using decode_encode_bytes [OF b] by (simp add: DecodeString_def comp_def)
qed

lemma split_at_not_empty: "split_at d s \<noteq> []"
  by (induction s) (auto split: list.splits)

lemma split_at_none: "d \<notin> set s \<Longrightarrow> split_at d s = [s]"
  by (induction s) auto

lemma split_at_append: "d \<notin> set a \<Longrightarrow> split_at d (a @ d # s) = a # split_at d s"
  by (induction a) auto

section \<open>Properties\<close>

text \<open>What signing puts into a token.\<close>

definition issued :: "int \<Rightarrow> Claims \<Rightarrow> Claims" where
  "issued now claims = (if IssuedAt claims \<le> 0 then claims\<lparr>IssuedAt := now\<rparr> else claims)"

lemma Sign_token:
  assumes "Sign codec now s claims = Inr token"
  obtains payload where "c_marshal codec (issued now claims) = Some payload"
    "token = ''v1'' @ CHR ''.'' # EncodeToString payload @ CHR ''.'' #
       EncodeToString (computeSignature codec s (''v1.'' @ EncodeToString payload))"
    "length (t_secret s) \<noteq> 0" "0 < ExpiresAt (issued now claims)" "IssuedAt (issued now claims) < ExpiresAt (issued now claims)"
  using assms that
  by (auto simp: Sign_def issued_def Let_def tokenVersion_def split: if_splits option.splits)

lemma signed_parts:
  "split_at (CHR ''.'') (''v1'' @ CHR ''.'' # EncodeToString a @ CHR ''.'' # EncodeToString b) = [''v1'', EncodeToString a, EncodeToString b]"
proof -
  have n: "CHR ''.'' \<notin> set (EncodeToString x)" for x using encoded_plain [of "CHR ''.''" x] by auto
  have "split_at (CHR ''.'') (EncodeToString a @ CHR ''.'' # EncodeToString b) = [EncodeToString a, EncodeToString b]"
    by (simp add: split_at_append [OF n] split_at_none [OF n])
  then show ?thesis by simp
qed

text \<open>A concrete instance: the keyed hash that prepends the key, and a codec for one kind of claims.\<close>

definition sample_claims :: Claims where
  "sample_claims = \<lparr>Subject = ''ada'', ClaimMatchID = '''', SessionKind = '''', Scope = ScopeGameplay, IssuedAt = 0, ExpiresAt = 200\<rparr>"

definition sample_codec :: Codec where
  "sample_codec = \<lparr>c_mac = (\<lambda>key input. key @ input),
     c_marshal = (\<lambda>c. if c = sample_claims\<lparr>IssuedAt := 100\<rparr> then Some ''ada'' else None),
     c_unmarshal = (\<lambda>p. if p = ''ada'' then Some (sample_claims\<lparr>IssuedAt := 100\<rparr>) else None)\<rparr>"

definition sample_service :: TokenService where
  "sample_service = \<lparr>t_secret = ''key'', t_clockSkew = 5000000000\<rparr>"

lemma sample_signed: "\<exists>token. Sign sample_codec 100 sample_service sample_claims = Inr token"
  by (simp add: Sign_def sample_codec_def sample_service_def sample_claims_def Let_def)

lemma sample_verified: "\<exists>token. Verify sample_codec 150 sample_service token = Inr (sample_claims\<lparr>IssuedAt := 100\<rparr>)"
proof -
  let ?p = "EncodeToString ''ada''"
  have "Verify sample_codec 150 sample_service
      (''v1'' @ CHR ''.'' # ?p @ CHR ''.'' # EncodeToString (''key'' @ ''v1.'' @ ?p)) = Inr (sample_claims\<lparr>IssuedAt := 100\<rparr>)"
    unfolding Verify_def signed_parts
    by (simp add: tokenVersion_def DecodeString_EncodeToString Let_def sample_codec_def sample_service_def computeSignature_def
        sample_claims_def wrap64_def)
  then show ?thesis ..
qed

text \<open>C9. A token that the service signs verifies to the signed claims, with the time of issue filled
  in, exactly while it is valid: it is refused as not yet valid when the verifier's clock plus the
  allowed skew is before the time of issue, and as expired from the time of expiry plus the skew
  on. The JSON decoder inverts the encoder on these claims.\<close>

theorem Verify_Sign:
  assumes "Sign codec now s claims = Inr token"
    and "\<And>payload. c_marshal codec (issued now claims) = Some payload \<Longrightarrow> c_unmarshal codec payload = Some (issued now claims)"
  shows "Verify codec now' s token =
    (if IssuedAt (issued now claims) > 0 \<and> wrap64 (now' + t_clockSkew s div 1000000000) < IssuedAt (issued now claims)
     then Inl ErrTokenNotYetValid
     else if wrap64 (now' - t_clockSkew s div 1000000000) \<ge> ExpiresAt (issued now claims) then Inl ErrTokenExpired
     else Inr (issued now claims))"
proof -
  obtain payload where p: "c_marshal codec (issued now claims) = Some payload"
    "token = ''v1'' @ CHR ''.'' # EncodeToString payload @ CHR ''.'' #
       EncodeToString (computeSignature codec s (''v1.'' @ EncodeToString payload))"
    "length (t_secret s) \<noteq> 0" "0 < ExpiresAt (issued now claims)" "IssuedAt (issued now claims) < ExpiresAt (issued now claims)"
    using Sign_token [OF assms(1)] .
  show ?thesis unfolding Verify_def p(2) signed_parts
    using p(3-5) assms(2) [OF p(1)]
    by (simp add: tokenVersion_def DecodeString_EncodeToString Let_def)
qed

theorem Verify_Sign_witness:
  "\<exists>token. Sign sample_codec 100 sample_service sample_claims = Inr token \<and>
     Verify sample_codec 150 sample_service token = Inr (sample_claims\<lparr>IssuedAt := 100\<rparr>) \<and>
     Verify sample_codec 205 sample_service token = Inl ErrTokenExpired"
proof -
  obtain token where t: "Sign sample_codec 100 sample_service sample_claims = Inr token" using sample_signed by blast
  have "c_marshal sample_codec (issued 100 sample_claims) = Some payload \<Longrightarrow>
      c_unmarshal sample_codec payload = Some (issued 100 sample_claims)" for payload
    by (simp add: sample_codec_def issued_def sample_claims_def split: if_splits)
  note v = Verify_Sign [OF t this]
  show ?thesis using t v [of 150] v [of 205]
    by (simp add: issued_def sample_claims_def sample_service_def wrap64_def)
qed

text \<open>C8. Whatever the token, verification yields claims only if the token is \<open>v1.\<close>, a payload and a
  signature that decodes to the keyed hash of the part before it, the payload decodes to the
  claims, and the claims are in force at the verifier's clock within the allowed skew.\<close>

theorem Verify_sound:
  assumes "Verify codec now s token = Inr claims"
  shows "\<exists>payload signature. split_at (CHR ''.'') token = [''v1'', payload, signature] \<and>
    DecodeString signature = Some (c_mac codec (t_secret s) (''v1.'' @ payload)) \<and>
    (\<exists>json. DecodeString payload = Some json \<and> c_unmarshal codec json = Some claims) \<and> t_secret s \<noteq> '''' \<and>
    0 < ExpiresAt claims \<and> IssuedAt claims < ExpiresAt claims \<and>
    wrap64 (now - t_clockSkew s div 1000000000) < ExpiresAt claims \<and>
    IssuedAt claims \<le> max 0 (wrap64 (now + t_clockSkew s div 1000000000))"
proof -
  have n: "length (split_at (CHR ''.'') token) = 3"
    using assms by (auto simp: Verify_def Let_def split: if_splits)
  then obtain a payload signature where p: "split_at (CHR ''.'') token = [a, payload, signature]"
    by (auto simp: length_Suc_conv numeral_3_eq_3)
  show ?thesis using assms
    by (auto simp: Verify_def Let_def p tokenVersion_def computeSignature_def split: if_splits option.splits)
qed

theorem Verify_sound_witness:
  "\<exists>token payload signature. Verify sample_codec 150 sample_service token = Inr (sample_claims\<lparr>IssuedAt := 100\<rparr>) \<and>
     split_at (CHR ''.'') token = [''v1'', payload, signature] \<and>
     DecodeString signature = Some (''key'' @ ''v1.'' @ payload)"
proof -
  obtain token where t: "Verify sample_codec 150 sample_service token = Inr (sample_claims\<lparr>IssuedAt := 100\<rparr>)"
    using sample_verified by blast
  then show ?thesis using Verify_sound [OF t] by (auto simp: sample_codec_def sample_service_def)
qed

end
