(* ===== verification/PreMatch.thy ===== *)
theory PreMatch
  imports Session Int64 "HOL-Library.Product_Lexorder"
begin

text \<open>
  The client's screens before a match (\<open>src/internal/client/prematch/flow.go\<close>): a state machine over
  stages with a menu, a list of lobbies and a tutorial, and the cursor of each. The methods are on
  a flow that exists; their guards for a nil receiver return the zero value.
\<close>

section \<open>Data\<close>

datatype Stage = StageMainMenu | StageLobbyList | StageTutorial | StageConnecting | StageLobbyWait
  | StageInMatch | StageErrorNotice

datatype MenuOption = MenuOptionQuickPlay | MenuOptionBrowseLobbies | MenuOptionSpectateMatch | MenuOptionTutorialCodex

record ConnectIntent =
  PreferredMatchID :: MatchID
  Spectator :: bool

record LobbySummary =
  LS_MatchID :: MatchID
  LS_Region :: string
  LS_Status :: MatchStatus
  LS_PlayerCount :: uint8
  LS_MinPlayers :: uint8
  LS_MaxPlayers :: uint8
  LS_OpenSlots :: uint8
  LS_Joinable :: bool
  LS_ReadyToStart :: bool
  LS_CreatedAt :: Time

record LobbyStatus =
  St_MatchID :: MatchID
  St_Status :: MatchStatus
  St_PlayerCount :: uint8
  St_MinPlayers :: uint8
  St_MaxPlayers :: uint8

definition StatusReadyToStart :: "LobbyStatus \<Rightarrow> bool" where
  "StatusReadyToStart s = (if St_MinPlayers s = 0 then False else St_PlayerCount s \<ge> St_MinPlayers s)"

record Flow =
  f_stage :: Stage
  f_menuOptions :: "MenuOption list"
  f_menuIndex :: int
  f_lobbies :: "LobbySummary list"
  f_selectedLobby :: int
  f_tutorialPage :: int
  f_lobbyStatus :: LobbyStatus
  f_lastError :: string

text \<open>The status of the zero \<open>LobbyStatus\<close> is the empty string, which no branch of the flow tells
  from \<open>lobby\<close>.\<close>

definition NewFlow :: Flow where
  "NewFlow = \<lparr>f_stage = StageMainMenu,
     f_menuOptions = [MenuOptionQuickPlay, MenuOptionBrowseLobbies, MenuOptionSpectateMatch, MenuOptionTutorialCodex],
     f_menuIndex = 0, f_lobbies = [], f_selectedLobby = 0, f_tutorialPage = 0,
     f_lobbyStatus = \<lparr>St_MatchID = MatchID '''', St_Status = MatchStatusLobby, St_PlayerCount = 0, St_MinPlayers = 0, St_MaxPlayers = 0\<rparr>,
     f_lastError = ''''\<rparr>"

definition MenuOptionLabel :: "MenuOption \<Rightarrow> string" where
  "MenuOptionLabel option =
     (case option of
        MenuOptionQuickPlay \<Rightarrow> ''Quick Play (create/join)''
      | MenuOptionBrowseLobbies \<Rightarrow> ''Browse Lobbies''
      | MenuOptionSpectateMatch \<Rightarrow> ''Spectate Match''
      | MenuOptionTutorialCodex \<Rightarrow> ''Tutorial / Rules Codex'')"

section \<open>Operations\<close>

text \<open>The loop that makes a cursor non-negative, and the move of a cursor among \<open>places\<close> positions.\<close>

function lift_up :: "int \<Rightarrow> int \<Rightarrow> int" where
  "lift_up places next = (if places > 0 \<and> next < 0 then lift_up places (next + places) else next)"
  by pat_completeness auto
termination by (relation "measure (\<lambda>(places, next). nat (- next))") auto

declare lift_up.simps [simp del]

definition move_cursor :: "int \<Rightarrow> int \<Rightarrow> int \<Rightarrow> int" where
  "move_cursor places cursor delta = lift_up places (wrap64 (cursor + delta)) mod places"

definition MoveMenuSelection :: "int \<Rightarrow> Flow \<Rightarrow> Flow" where
  "MoveMenuSelection delta f =
     (if f_stage f \<noteq> StageMainMenu \<or> length (f_menuOptions f) = 0 \<or> delta = 0 then f
      else f\<lparr>f_menuIndex := move_cursor (int (length (f_menuOptions f))) (f_menuIndex f) delta\<rparr>)"

definition no_intent :: ConnectIntent where
  "no_intent = \<lparr>PreferredMatchID = MatchID '''', Spectator = False\<rparr>"

definition ActivateMenuSelection :: "Flow \<Rightarrow> Flow \<times> ConnectIntent \<times> bool" where
  "ActivateMenuSelection f =
     (if f_stage f \<noteq> StageMainMenu \<or> length (f_menuOptions f) = 0 then (f, no_intent, False)
      else case f_menuOptions f ! nat (f_menuIndex f) of
        MenuOptionQuickPlay \<Rightarrow> (f\<lparr>f_stage := StageConnecting, f_lastError := ''''\<rparr>, no_intent, True)
      | MenuOptionBrowseLobbies \<Rightarrow>
          (f\<lparr>f_stage := StageLobbyList, f_lastError := '''', f_selectedLobby := 0\<rparr>, no_intent, False)
      | MenuOptionSpectateMatch \<Rightarrow>
          (f\<lparr>f_stage := StageConnecting, f_lastError := ''''\<rparr>, no_intent\<lparr>Spectator := True\<rparr>, True)
      | MenuOptionTutorialCodex \<Rightarrow>
          (f\<lparr>f_stage := StageTutorial, f_lastError := '''', f_tutorialPage := 0\<rparr>, no_intent, False))"

definition BackToMainMenu :: "Flow \<Rightarrow> Flow" where
  "BackToMainMenu f = f\<lparr>f_stage := StageMainMenu\<rparr>"

definition MoveTutorialPage :: "int \<Rightarrow> int \<Rightarrow> Flow \<Rightarrow> Flow" where
  "MoveTutorialPage delta pageCount f =
     (if f_stage f \<noteq> StageTutorial \<or> pageCount \<le> 0 \<or> delta = 0 then f
      else f\<lparr>f_tutorialPage := move_cursor pageCount (f_tutorialPage f) delta\<rparr>)"

definition summary_key :: "LobbySummary \<Rightarrow> bool \<times> bool \<times> int \<times> MatchID" where
  "summary_key l = (\<not> LS_Joinable l, \<not> LS_ReadyToStart l, - uint (LS_PlayerCount l), LS_MatchID l)"

definition SetLobbies :: "LobbySummary list \<Rightarrow> Flow \<Rightarrow> Flow" where
  "SetLobbies lobbies f =
     (let f = f\<lparr>f_lobbies := sort_key summary_key lobbies\<rparr>
      in if length (f_lobbies f) = 0 then f\<lparr>f_selectedLobby := 0\<rparr>
         else
           let f = (if f_selectedLobby f < 0 then f\<lparr>f_selectedLobby := 0\<rparr> else f)
           in if f_selectedLobby f \<ge> int (length (f_lobbies f))
              then f\<lparr>f_selectedLobby := int (length (f_lobbies f)) - 1\<rparr> else f)"

definition MoveLobbySelection :: "int \<Rightarrow> Flow \<Rightarrow> Flow" where
  "MoveLobbySelection delta f =
     (if f_stage f \<noteq> StageLobbyList \<or> length (f_lobbies f) = 0 \<or> delta = 0 then f
      else f\<lparr>f_selectedLobby := move_cursor (int (length (f_lobbies f))) (f_selectedLobby f) delta\<rparr>)"

definition SelectedLobby :: "Flow \<Rightarrow> LobbySummary option" where
  "SelectedLobby f =
     (if length (f_lobbies f) = 0 \<or> f_selectedLobby f < 0 \<or> f_selectedLobby f \<ge> int (length (f_lobbies f)) then None
      else Some (f_lobbies f ! nat (f_selectedLobby f)))"

datatype FlowError = SelectionNotAvailable | NoLobbiesAvailable | EmptyMatchID

definition begin_selected :: "bool \<Rightarrow> Flow \<Rightarrow> Flow \<times> (FlowError + ConnectIntent)" where
  "begin_selected spectator f =
     (if f_stage f \<noteq> StageLobbyList then (f, Inl SelectionNotAvailable)
      else case SelectedLobby f of
        None \<Rightarrow> (f, Inl NoLobbiesAvailable)
      | Some selected \<Rightarrow>
          if LS_MatchID selected = MatchID '''' then (f, Inl EmptyMatchID)
          else (f\<lparr>f_stage := StageConnecting, f_lastError := ''''\<rparr>,
                Inr \<lparr>PreferredMatchID = LS_MatchID selected, Spectator = spectator\<rparr>))"

definition BeginJoinSelectedLobby :: "Flow \<Rightarrow> Flow \<times> (FlowError + ConnectIntent)" where
  "BeginJoinSelectedLobby f = begin_selected False f"

definition BeginSpectateSelectedLobby :: "Flow \<Rightarrow> Flow \<times> (FlowError + ConnectIntent)" where
  "BeginSpectateSelectedLobby f = begin_selected True f"

text \<open>The error is its message, \<open>None\<close> for nil.\<close>

definition OnConnectError :: "string option \<Rightarrow> Flow \<Rightarrow> Flow" where
  "OnConnectError err f =
     (let f = f\<lparr>f_stage := StageErrorNotice\<rparr>
      in case err of
           None \<Rightarrow> f\<lparr>f_lastError := ''connection failed''\<rparr>
         | Some text \<Rightarrow>
             let message = TrimSpace text
             in f\<lparr>f_lastError := (if message = '''' then ''connection failed'' else message)\<rparr>)"

definition OnJoined :: "LobbyStatus \<Rightarrow> Flow \<Rightarrow> Flow" where
  "OnJoined lobby f =
     (let f = f\<lparr>f_lastError := '''', f_lobbyStatus := lobby\<rparr>
      in if St_Status lobby = MatchStatusRunning then f\<lparr>f_stage := StageInMatch\<rparr>
         else f\<lparr>f_stage := StageLobbyWait\<rparr>)"

definition OnLobbySnapshot :: "MatchStatus \<Rightarrow> uint8 \<Rightarrow> Flow \<Rightarrow> Flow" where
  "OnLobbySnapshot status playerCount f =
     (let f = f\<lparr>f_lobbyStatus := (f_lobbyStatus f)\<lparr>St_Status := status, St_PlayerCount := playerCount\<rparr>\<rparr>
      in if f_stage f = StageLobbyWait \<and> status = MatchStatusRunning then f\<lparr>f_stage := StageInMatch\<rparr> else f)"

section \<open>Cursors\<close>

lemma lift_up_laws: "places > 0 \<Longrightarrow> 0 \<le> lift_up places next \<and> lift_up places next mod places = next mod places"
proof (induction places "next" rule: lift_up.induct)
  case (1 places "next")
  then show ?case by (subst (1 2) lift_up.simps) auto
qed

lemma move_cursor_laws:
  assumes "places > 0"
  shows "0 \<le> move_cursor places cursor delta" "move_cursor places cursor delta < places"
    "move_cursor places cursor delta = wrap64 (cursor + delta) mod places"
  using lift_up_laws [OF assms] assms by (simp_all add: move_cursor_def)

section \<open>Runs\<close>

inductive flow_step :: "Flow \<Rightarrow> Flow \<Rightarrow> bool" where
  "flow_step f (MoveMenuSelection delta f)"
| "flow_step f (fst (ActivateMenuSelection f))"
| "flow_step f (BackToMainMenu f)"
| "flow_step f (MoveTutorialPage delta pageCount f)"
| "flow_step f (SetLobbies lobbies f)"
| "flow_step f (MoveLobbySelection delta f)"
| "flow_step f (fst (BeginJoinSelectedLobby f))"
| "flow_step f (fst (BeginSpectateSelectedLobby f))"
| "flow_step f (OnConnectError err f)"
| "flow_step f (OnJoined lobby f)"
| "flow_step f (OnLobbySnapshot status playerCount f)"

definition flow_ok :: "Flow \<Rightarrow> bool" where
  "flow_ok f \<longleftrightarrow> f_menuOptions f = f_menuOptions NewFlow \<and> 0 \<le> f_menuIndex f \<and> f_menuIndex f < 4 \<and>
     0 \<le> f_selectedLobby f \<and> f_selectedLobby f < max 1 (int (length (f_lobbies f))) \<and> 0 \<le> f_tutorialPage f \<and>
     (f_stage f = StageErrorNotice \<longrightarrow> f_lastError f \<noteq> '''')"

lemma flow_step_ok: "flow_step f f' \<Longrightarrow> flow_ok f \<Longrightarrow> flow_ok f'"
proof (induction rule: flow_step.induct)
  case (1 f delta)
  then show ?case using move_cursor_laws [of 4 "f_menuIndex f" delta]
    by (simp add: MoveMenuSelection_def flow_ok_def NewFlow_def)
next
  case (2 f)
  then show ?case by (simp add: ActivateMenuSelection_def flow_ok_def NewFlow_def split: MenuOption.splits)
next
  case (4 f delta pageCount)
  then show ?case using move_cursor_laws [of pageCount "f_tutorialPage f" delta]
    by (simp add: MoveTutorialPage_def flow_ok_def)
next
  case (5 f lobbies)
  then show ?case by (cases lobbies) (simp_all add: SetLobbies_def flow_ok_def Let_def max_def)
next
  case (6 f delta)
  then show ?case using move_cursor_laws [of "int (length (f_lobbies f))" "f_selectedLobby f" delta]
    by (cases "f_lobbies f") (simp_all add: MoveLobbySelection_def flow_ok_def max_def)
qed (auto simp: BackToMainMenu_def BeginJoinSelectedLobby_def BeginSpectateSelectedLobby_def begin_selected_def
    OnConnectError_def OnJoined_def OnLobbySnapshot_def flow_ok_def Let_def split: option.splits)

lemma flow_run_ok: "flow_step\<^sup>*\<^sup>* NewFlow f \<Longrightarrow> flow_ok f"
proof (induction rule: rtranclp_induct)
  case base
  then show ?case by (simp add: flow_ok_def NewFlow_def)
qed (rule flow_step_ok)

section \<open>Properties\<close>


definition sample_summary :: "string \<Rightarrow> LobbySummary" where
  "sample_summary name = \<lparr>LS_MatchID = MatchID name, LS_Region = ''eu'', LS_Status = MatchStatusLobby, LS_PlayerCount = 1,
     LS_MinPlayers = 2, LS_MaxPlayers = 4, LS_OpenSlots = 3, LS_Joinable = True, LS_ReadyToStart = False, LS_CreatedAt = 0\<rparr>"

definition sample_flow :: Flow where
  "sample_flow = SetLobbies [sample_summary ''b'', sample_summary ''a''] (fst (ActivateMenuSelection (MoveMenuSelection 1 NewFlow)))"

lemma sample_flow_run: "flow_step\<^sup>*\<^sup>* NewFlow sample_flow"
  unfolding sample_flow_def
  by (rule rtranclp.rtrancl_into_rtrancl [OF rtranclp.rtrancl_into_rtrancl [OF r_into_rtranclp]]; rule flow_step.intros)


end
