(* ===== verification/Float64.thy ===== *)
theory Float64
  imports Float32
begin

text \<open>
  The binary64 arithmetic of the client, on unpacked numbers: conversions, decimal constants,
  \<open>math.Max\<close>, \<open>math.Min\<close> and \<open>math.Hypot\<close>.
\<close>

type_synonym float64 = flt

definition float64_of_int :: "int \<Rightarrow> float64" where
  "float64_of_int k = rnd binary64 (k < 0) \<bar>k\<bar> False 0"

text \<open>The constant \<open>a / b\<close>, rounded once.\<close>

definition decimal64 :: "int \<Rightarrow> int \<Rightarrow> float64" where
  "decimal64 a b = fl_div binary64 (float64_of_int a) (float64_of_int b)"

definition d_add :: "float64 \<Rightarrow> float64 \<Rightarrow> float64" where "d_add x y = fl_add binary64 x y"
definition d_sub :: "float64 \<Rightarrow> float64 \<Rightarrow> float64" where "d_sub x y = fl_add binary64 x (fl_neg y)"
definition d_mul :: "float64 \<Rightarrow> float64 \<Rightarrow> float64" where "d_mul x y = fl_mul binary64 x y"
definition d_div :: "float64 \<Rightarrow> float64 \<Rightarrow> float64" where "d_div x y = fl_div binary64 x y"

definition d_le :: "float64 \<Rightarrow> float64 \<Rightarrow> bool" where
  "d_le x y \<longleftrightarrow> fl_less x y \<or> fl_eq x y"

definition d_zero :: float64 where "d_zero = float64_of_int 0"

definition d_one :: float64 where "d_one = float64_of_int 1"

definition float32_of :: "float64 \<Rightarrow> float32" where
  "float32_of x = to_f32 (convert binary32 x)"

fun is_nan :: "float64 \<Rightarrow> bool" where
  "is_nan NaN = True"
| "is_nan _ = False"

fun sign_bit :: "float64 \<Rightarrow> bool" where
  "sign_bit (Fin s m e) = s"
| "sign_bit (Inf s) = s"
| "sign_bit NaN = False"

definition d_abs :: "float64 \<Rightarrow> float64" where
  "d_abs x = (if sign_bit x then fl_neg x else x)"

definition d_max :: "float64 \<Rightarrow> float64 \<Rightarrow> float64" where
  "d_max x y =
     (if x = Inf False \<or> y = Inf False then Inf False
      else if is_nan x \<or> is_nan y then NaN
      else if fl_eq x d_zero \<and> fl_eq x y then (if sign_bit x then y else x)
      else if fl_less y x then x else y)"

definition d_min :: "float64 \<Rightarrow> float64 \<Rightarrow> float64" where
  "d_min x y =
     (if x = Inf True \<or> y = Inf True then Inf True
      else if is_nan x \<or> is_nan y then NaN
      else if fl_eq x d_zero \<and> fl_eq x y then (if sign_bit x then x else y)
      else if fl_less x y then x else y)"

definition d_hypot :: "float64 \<Rightarrow> float64 \<Rightarrow> float64" where
  "d_hypot p q =
     (let p = d_abs p; q = d_abs q
      in if p = Inf False \<or> q = Inf False then Inf False
         else if is_nan p \<or> is_nan q then NaN
         else
           let (p, q) = (if fl_less p q then (q, p) else (p, q))
           in if fl_eq p d_zero then d_zero
              else let q = d_div q p in d_mul p (fl_sqrt binary64 (d_add d_one (d_mul q q))))"

end
