(* ===== verification/Prediction.thy ===== *)
theory Prediction
  imports Physics Determinism Spawn Float64
begin

text \<open>
  The client's prediction engine (\<open>src/internal/client/prediction/engine.go\<close>): a history of
  authoritative states to interpolate between, the local commands that the server has not
  acknowledged yet, and the smoothed position of the local player. Instants and durations are
  nanoseconds, the zero instant is 0; frames that arrive at the same instant keep their order.
\<close>

section \<open>Data\<close>

record PredictionConfig =
  InterpolationBuffer :: int
  CorrectionBlend :: int
  SnapThresholdTiles :: float32
  HistoryLimit :: int
  PendingLimit :: int

definition PositionSnapThresholdTiles :: float32 where "PositionSnapThresholdTiles = 0x3E4CCCCD"

definition PredictionDefaultConfig :: PredictionConfig where
  "PredictionDefaultConfig = \<lparr>InterpolationBuffer = 100 * 1000000, CorrectionBlend = 100 * 1000000,
     SnapThresholdTiles = PositionSnapThresholdTiles, HistoryLimit = 64, PendingLimit = 256\<rparr>"

definition prediction_normalized :: "PredictionConfig \<Rightarrow> PredictionConfig" where
  "prediction_normalized c =
     (let c = (if InterpolationBuffer c < 0 then c\<lparr>InterpolationBuffer := 0\<rparr> else c);
          c = (if CorrectionBlend c < 0 then c\<lparr>CorrectionBlend := 0\<rparr> else c);
          c = (if f_le (SnapThresholdTiles c) 0 then c\<lparr>SnapThresholdTiles := PositionSnapThresholdTiles\<rparr> else c);
          c = (if HistoryLimit c \<le> 1 then c\<lparr>HistoryLimit := 64\<rparr> else c)
      in if PendingLimit c \<le> 0 then c\<lparr>PendingLimit := 256\<rparr> else c)"

record timedState =
  ts_receivedAt :: Time
  ts_state :: GameState

record Engine =
  e_localPlayerID :: PlayerID
  e_config :: PredictionConfig
  e_history :: "timedState list"
  e_pending :: "InputCommand list"
  e_hasSmoothedLocal :: bool
  e_smoothedLocal :: Vector2
  e_lastRenderAt :: Time

definition NewEngine :: "PlayerID \<Rightarrow> PredictionConfig \<Rightarrow> Engine" where
  "NewEngine localPlayerID config = \<lparr>e_localPlayerID = localPlayerID, e_config = prediction_normalized config,
     e_history = [], e_pending = [], e_hasSmoothedLocal = False, e_smoothedLocal = zero_vector, e_lastRenderAt = 0\<rparr>"

section \<open>Frames and pending commands\<close>

definition insertFrameLocked :: "Time \<Rightarrow> GameState \<Rightarrow> Time \<Rightarrow> Engine \<Rightarrow> Engine" where
  "insertFrameLocked now state receivedAt e =
     (let receivedAt = (if receivedAt = 0 then now else receivedAt);
          history = sort_key ts_receivedAt (e_history e @ [\<lparr>ts_receivedAt = receivedAt, ts_state = state\<rparr>])
      in if int (length history) > HistoryLimit (e_config e)
         then e\<lparr>e_history := drop (nat (int (length history) - HistoryLimit (e_config e))) history\<rparr>
         else e\<lparr>e_history := history\<rparr>)"

definition SeedAuthoritativeState :: "Time \<Rightarrow> GameState \<Rightarrow> Time \<Rightarrow> Engine \<Rightarrow> Engine" where
  "SeedAuthoritativeState now state receivedAt e = insertFrameLocked now state receivedAt e"

definition ackedClientSeq :: "PlayerAck list \<Rightarrow> PlayerID \<Rightarrow> uint64" where
  "ackedClientSeq acks playerID =
     (case List.find (\<lambda>ack. AckPlayerID ack = playerID) acks of None \<Rightarrow> 0 | Some ack \<Rightarrow> LastProcessedClientSeq ack)"

definition hasPendingClientSeq :: "InputCommand list \<Rightarrow> uint64 \<Rightarrow> bool" where
  "hasPendingClientSeq queued clientSeq = list_ex (\<lambda>command. ClientSeq command = clientSeq) queued"

definition trimPendingLocked :: "Engine \<Rightarrow> Engine" where
  "trimPendingLocked e =
     (if PendingLimit (e_config e) \<le> 0 \<or> int (length (e_pending e)) \<le> PendingLimit (e_config e) then e
      else e\<lparr>e_pending := drop (nat (int (length (e_pending e)) - PendingLimit (e_config e))) (e_pending e)\<rparr>)"

definition AcceptAuthoritativeSnapshot :: "Time \<Rightarrow> Snapshot \<Rightarrow> GameState \<Rightarrow> Time \<Rightarrow> Engine \<Rightarrow> Engine" where
  "AcceptAuthoritativeSnapshot now snapshot state receivedAt e =
     (let e = insertFrameLocked now state receivedAt e;
          ackSeq = ackedClientSeq (PlayerAcks snapshot) (e_localPlayerID e);
          e = (if ackSeq \<noteq> 0 then e\<lparr>e_pending := DropAckedInputs (e_pending e) ackSeq\<rparr> else e)
      in trimPendingLocked e)"

fun record_commands :: "PlayerID \<Rightarrow> InputCommand list \<Rightarrow> InputCommand list \<Rightarrow> InputCommand list" where
  "record_commands localPlayerID [] queued = queued"
| "record_commands localPlayerID (command # commands) queued =
     (if CmdPlayerID command \<noteq> localPlayerID \<or> ClientSeq command = 0 then record_commands localPlayerID commands queued
      else if CmdType command \<noteq> CmdMoveIntent \<and> CmdType command \<noteq> CmdAimIntent
      then record_commands localPlayerID commands queued
      else if hasPendingClientSeq queued (ClientSeq command) then record_commands localPlayerID commands queued
      else record_commands localPlayerID commands (queued @ [command]))"

definition RecordLocalCommands :: "InputCommand list \<Rightarrow> Engine \<Rightarrow> Engine" where
  "RecordLocalCommands commands e =
     (if length commands = 0 then e
      else trimPendingLocked (e\<lparr>e_pending := record_commands (e_localPlayerID e) commands (e_pending e)\<rparr>))"

definition PendingCommands :: "Engine \<Rightarrow> InputCommand list" where
  "PendingCommands e = e_pending e"

section \<open>Interpolation\<close>

definition lerpVector :: "Vector2 \<Rightarrow> Vector2 \<Rightarrow> float32 \<Rightarrow> Vector2" where
  "lerpVector from to alpha =
     \<lparr>X = f_add (X from) (f_mul (f_sub (X to) (X from)) alpha),
      Y = f_add (Y from) (f_mul (f_sub (Y to) (Y from)) alpha)\<rparr>"

definition pred_vectorDistance :: "Vector2 \<Rightarrow> Vector2 \<Rightarrow> float32" where
  "pred_vectorDistance from to =
     (let dx = f_sub (X to) (X from);
          dy = f_sub (Y to) (Y from)
      in f_sqrt64 (f_add (f_mul dx dx) (f_mul dy dy)))"

text \<open>\<open>Duration.Seconds\<close> and the ratio of two durations as a \<open>float32\<close>.\<close>

definition Seconds :: "int \<Rightarrow> flt" where
  "Seconds d =
     (let sec = sgn d * (\<bar>d\<bar> div 1000000000);
          nsec = sgn d * (\<bar>d\<bar> mod 1000000000)
      in fl_add binary64 (float64_of_int sec) (fl_div binary64 (float64_of_int nsec) (float64_of_int 1000000000)))"

definition duration_ratio :: "int \<Rightarrow> int \<Rightarrow> float32" where
  "duration_ratio a b = to_f32 (convert binary32 (fl_div binary64 (Seconds a) (Seconds b)))"

definition clamp01 :: "float32 \<Rightarrow> float32" where
  "clamp01 a = (let a = (if f_less a 0 then 0 else a) in if f_less 0x3F800000 a then 0x3F800000 else a)"

text \<open>A later entity of the list with the same identifier wins, as for players.\<close>

definition existing_entities :: "EntityState list \<Rightarrow> EntityID \<rightharpoonup> EntityState" where
  "existing_entities es = map_of (rev (map (\<lambda>e. (EntityState_ID e, e)) es))"

definition interpolateState :: "GameState \<Rightarrow> GameState \<Rightarrow> float32 \<Rightarrow> GameState" where
  "interpolateState from to alpha =
     to\<lparr>Players := map (\<lambda>p. case existing_players (Players from) (ID p) of
            None \<Rightarrow> p
          | Some previous \<Rightarrow> p\<lparr>Position := lerpVector (Position previous) (Position p) alpha,
              Velocity := lerpVector (Velocity previous) (Velocity p) alpha\<rparr>) (Players to),
        Entities := map (\<lambda>e. case existing_entities (Entities from) (EntityState_ID e) of
            None \<Rightarrow> e
          | Some previous \<Rightarrow> e\<lparr>EntityPosition := lerpVector (EntityPosition previous) (EntityPosition e) alpha,
              EntityVelocity := lerpVector (EntityVelocity previous) (EntityVelocity e) alpha\<rparr>) (Entities to)\<rparr>"

text \<open>The loop over neighbouring frames.\<close>

fun between_frames :: "Time \<Rightarrow> timedState list \<Rightarrow> GameState option" where
  "between_frames target (prev # nxt # rest) =
     (if target < ts_receivedAt prev \<or> target > ts_receivedAt nxt then between_frames target (nxt # rest)
      else
        let window = ts_receivedAt nxt - ts_receivedAt prev
        in if window \<le> 0 then Some (ts_state nxt)
           else Some (interpolateState (ts_state prev) (ts_state nxt)
                  (clamp01 (duration_ratio (target - ts_receivedAt prev) window))))"
| "between_frames target _ = None"

definition interpolateLocked :: "Time \<Rightarrow> Engine \<Rightarrow> GameState option" where
  "interpolateLocked now e =
     (if length (e_history e) = 0 then None
      else if length (e_history e) = 1 then Some (ts_state (hd (e_history e)))
      else
        let target = now - InterpolationBuffer (e_config e)
        in if target \<le> ts_receivedAt (hd (e_history e)) then Some (ts_state (hd (e_history e)))
           else if target \<ge> ts_receivedAt (last (e_history e)) then Some (ts_state (last (e_history e)))
           else case between_frames target (e_history e) of
                  Some state \<Rightarrow> Some state
                | None \<Rightarrow> Some (ts_state (last (e_history e))))"

section \<open>Replay and rendering\<close>

definition clampMove :: "float32 \<Rightarrow> float32 \<Rightarrow> float32 \<Rightarrow> Vector2" where
  "clampMove moveX moveY maxStep =
     (if f_le maxStep 0 then zero_vector
      else
        let squared = f_add (f_mul moveX moveX) (f_mul moveY moveY)
        in if f_eq squared 0 then zero_vector
           else
             let magnitude = f_sqrt64 squared
             in if f_le magnitude maxStep then \<lparr>X = moveX, Y = moveY\<rparr>
                else let scale = f_div maxStep magnitude
                     in \<lparr>X = f_mul moveX scale, Y = f_mul moveY scale\<rparr>)"

definition replay_command :: "Decoders \<Rightarrow> Vector2 \<Rightarrow> InputCommand \<Rightarrow> Vector2" where
  "replay_command dec position command =
     (case (if length (Payload command) = 0 then None else decode_movement dec (Payload command)) of
        None \<Rightarrow> position
      | Some payload \<Rightarrow>
          let step = (if Sprint payload \<and> f_less BaseMoveStepPerTick SprintMoveStepPerTick
                      then SprintMoveStepPerTick else BaseMoveStepPerTick);
              move = clampMove (MoveX payload) (MoveY payload) step
          in \<lparr>X = f_add (X position) (X move), Y = f_add (Y position) (Y move)\<rparr>)"

definition replay_candidates :: "uint64 \<Rightarrow> InputCommand list \<Rightarrow> InputCommand list" where
  "replay_candidates authoritativeTick queued =
     sort_key ClientSeq (filter (\<lambda>command. CmdType command = CmdMoveIntent \<and>
       \<not> (TargetTick command \<noteq> 0 \<and> TargetTick command \<le> authoritativeTick)) queued)"

definition replayPendingMovement :: "Decoders \<Rightarrow> PlayerState \<Rightarrow> uint64 \<Rightarrow> InputCommand list \<Rightarrow> Vector2" where
  "replayPendingMovement dec base authoritativeTick queued =
     foldl (replay_command dec) (Position base) (replay_candidates authoritativeTick queued)"

definition move_local :: "nat \<Rightarrow> Vector2 \<Rightarrow> GameState \<Rightarrow> GameState" where
  "move_local i position state = state\<lparr>Players := (Players state)[i := (Players state ! i)\<lparr>Position := position\<rparr>]\<rparr>"

definition blend_factor :: "Time \<Rightarrow> Engine \<Rightarrow> float32" where
  "blend_factor now e =
     (if CorrectionBlend (e_config e) > 0 \<and> e_lastRenderAt e \<noteq> 0 \<and> now > e_lastRenderAt e
      then (let f = duration_ratio (now - e_lastRenderAt e) (CorrectionBlend (e_config e));
                f = (if f_less 0x3F800000 f then 0x3F800000 else f)
            in if f_less f 0 then 0 else f)
      else 0x3F800000)"

definition RenderState :: "Decoders \<Rightarrow> Time \<Rightarrow> Engine \<Rightarrow> Engine \<times> GameState option" where
  "RenderState dec now e =
     (if length (e_history e) = 0 then (e, None)
      else case interpolateLocked now e of
        None \<Rightarrow> (e, None)
      | Some base \<Rightarrow>
          (case find_index (\<lambda>p. ID p = e_localPlayerID e) (Players base) of
             None \<Rightarrow> (e\<lparr>e_hasSmoothedLocal := False, e_lastRenderAt := now\<rparr>, Some base)
           | Some localIndex \<Rightarrow>
               let desired = replayPendingMovement dec (Players base ! localIndex) (TickID base) (e_pending e)
               in if \<not> e_hasSmoothedLocal e \<or>
                     f_less (SnapThresholdTiles (e_config e)) (pred_vectorDistance (e_smoothedLocal e) desired)
                  then (e\<lparr>e_smoothedLocal := desired, e_hasSmoothedLocal := True, e_lastRenderAt := now\<rparr>,
                        Some (move_local localIndex desired base))
                  else
                    let smoothed = lerpVector (e_smoothedLocal e) desired (blend_factor now e)
                    in (e\<lparr>e_smoothedLocal := smoothed, e_lastRenderAt := now\<rparr>,
                        Some (move_local localIndex smoothed base))))"

section \<open>Invariants\<close>

text \<open>The limits of the engine, the order of its frames, and what its pending commands are.\<close>

definition engine_ok :: "Engine \<Rightarrow> bool" where
  "engine_ok e \<longleftrightarrow> 1 < HistoryLimit (e_config e) \<and> 0 < PendingLimit (e_config e) \<and>
     int (length (e_history e)) \<le> HistoryLimit (e_config e) \<and> sorted (map ts_receivedAt (e_history e)) \<and>
     int (length (e_pending e)) \<le> PendingLimit (e_config e) \<and> distinct (map ClientSeq (e_pending e)) \<and>
     list_all (\<lambda>c. CmdPlayerID c = e_localPlayerID e \<and> ClientSeq c \<noteq> 0 \<and> CmdType c \<in> {CmdMoveIntent, CmdAimIntent}) (e_pending e)"

definition queue_ok :: "PlayerID \<Rightarrow> InputCommand list \<Rightarrow> bool" where
  "queue_ok k cs \<longleftrightarrow> distinct (map ClientSeq cs) \<and>
     list_all (\<lambda>c. CmdPlayerID c = k \<and> ClientSeq c \<noteq> 0 \<and> CmdType c \<in> {CmdMoveIntent, CmdAimIntent}) cs"

lemma engine_ok_queue:
  "engine_ok e \<longleftrightarrow> 1 < HistoryLimit (e_config e) \<and> 0 < PendingLimit (e_config e) \<and>
     int (length (e_history e)) \<le> HistoryLimit (e_config e) \<and> sorted (map ts_receivedAt (e_history e)) \<and>
     int (length (e_pending e)) \<le> PendingLimit (e_config e) \<and> queue_ok (e_localPlayerID e) (e_pending e)"
  by (simp add: engine_ok_def queue_ok_def)

lemma sorted_drop_map: "sorted (map f xs) \<Longrightarrow> sorted (map f (drop n xs))"
  by (metis drop_map sorted_wrt_drop)

lemma insertFrameLocked_parts:
  assumes "1 < HistoryLimit (e_config e)"
  shows "int (length (e_history (insertFrameLocked now g t e))) \<le> HistoryLimit (e_config e)"
    "sorted (map ts_receivedAt (e_history (insertFrameLocked now g t e)))"
    "e_history (insertFrameLocked now g t e) \<noteq> []"
    "e_pending (insertFrameLocked now g t e) = e_pending e" "e_config (insertFrameLocked now g t e) = e_config e"
    "e_localPlayerID (insertFrameLocked now g t e) = e_localPlayerID e"
proof -
  show "int (length (e_history (insertFrameLocked now g t e))) \<le> HistoryLimit (e_config e)"
    "sorted (map ts_receivedAt (e_history (insertFrameLocked now g t e)))"
    "e_pending (insertFrameLocked now g t e) = e_pending e" "e_config (insertFrameLocked now g t e) = e_config e"
    "e_localPlayerID (insertFrameLocked now g t e) = e_localPlayerID e"
    using assms by (auto simp: insertFrameLocked_def Let_def sorted_drop_map)
  have n: "sort_key ts_receivedAt (xs @ [x]) \<noteq> []" for xs x by (metis length_0_conv length_sort append_is_Nil_conv not_Cons_self2)
  show "e_history (insertFrameLocked now g t e) \<noteq> []"
    using assms n by (auto simp: insertFrameLocked_def Let_def le_nat_iff)
qed

lemma queue_ok_filter: "queue_ok k cs \<Longrightarrow> queue_ok k (filter P cs)"
  by (auto simp: queue_ok_def list_all_iff distinct_map inj_on_def)

lemma queue_ok_drop: "queue_ok k cs \<Longrightarrow> queue_ok k (drop n cs)"
  by (auto simp: queue_ok_def list_all_iff drop_map [symmetric] dest: in_set_dropD)

lemma queue_ok_record: "queue_ok k cs \<Longrightarrow> queue_ok k (record_commands k commands cs)"
proof (induction k commands cs rule: record_commands.induct)
  case (2 k c commands cs)
  have "queue_ok k (cs @ [c])"
    if "CmdPlayerID c = k" "ClientSeq c \<noteq> 0" "CmdType c \<in> {CmdMoveIntent, CmdAimIntent}" "\<not> hasPendingClientSeq cs (ClientSeq c)"
    using 2(5) that by (auto simp: queue_ok_def hasPendingClientSeq_def list_ex_iff)
  then show ?case using 2 by simp
qed simp

lemma trimmed_ok:
  assumes "0 < PendingLimit (e_config e)" and "queue_ok (e_localPlayerID e) (e_pending e)"
  shows "int (length (e_pending (trimPendingLocked e))) \<le> PendingLimit (e_config e)"
    "queue_ok (e_localPlayerID e) (e_pending (trimPendingLocked e))"
    "e_history (trimPendingLocked e) = e_history e" "e_config (trimPendingLocked e) = e_config e"
    "e_localPlayerID (trimPendingLocked e) = e_localPlayerID e"
  using assms by (auto simp: trimPendingLocked_def queue_ok_drop)

inductive engine_step :: "Engine \<Rightarrow> Engine \<Rightarrow> bool" where
  seeded: "engine_step e (SeedAuthoritativeState now g t e)"
| accepted: "engine_step e (AcceptAuthoritativeSnapshot now n g t e)"
| recorded: "engine_step e (RecordLocalCommands commands e)"
| rendered: "engine_step e (fst (RenderState dec now e))"

lemma RenderState_keeps:
  "e_history (fst (RenderState dec now e)) = e_history e" "e_pending (fst (RenderState dec now e)) = e_pending e"
  "e_config (fst (RenderState dec now e)) = e_config e" "e_localPlayerID (fst (RenderState dec now e)) = e_localPlayerID e"
  by (simp_all add: RenderState_def Let_def split: option.splits)

lemma engine_step_ok: "engine_step e e' \<Longrightarrow> engine_ok e \<Longrightarrow> engine_ok e'"
proof (induction rule: engine_step.induct)
  case (seeded e now g t)
  then show ?case using insertFrameLocked_parts [of e now g t] by (simp add: engine_ok_queue SeedAuthoritativeState_def)
next
  case (accepted e now n g t)
  then have h: "1 < HistoryLimit (e_config e)" "0 < PendingLimit (e_config e)" "queue_ok (e_localPlayerID e) (e_pending e)"
    by (simp_all add: engine_ok_queue)
  note p = insertFrameLocked_parts [OF h(1), of now g t]
  define e1 where "e1 = (let a = ackedClientSeq (PlayerAcks n) (e_localPlayerID e); e = insertFrameLocked now g t e
    in if a \<noteq> 0 then e\<lparr>e_pending := DropAckedInputs (e_pending e) a\<rparr> else e)"
  have e1: "queue_ok (e_localPlayerID e1) (e_pending e1)" "e_config e1 = e_config e" "e_history e1 = e_history (insertFrameLocked now g t e)"
    using h(3) p by (simp_all add: e1_def Let_def DropAckedInputs_def queue_ok_filter) (simp add: queue_ok_def)
  have "AcceptAuthoritativeSnapshot now n g t e = trimPendingLocked e1"
    using p by (simp add: AcceptAuthoritativeSnapshot_def Let_def e1_def)
  then show ?case using trimmed_ok [of e1] e1 h p by (simp add: engine_ok_queue)
next
  case (recorded e commands)
  then show ?case
    using trimmed_ok [of "e\<lparr>e_pending := record_commands (e_localPlayerID e) commands (e_pending e)\<rparr>"] queue_ok_record
    by (simp add: engine_ok_queue RecordLocalCommands_def)
next
  case (rendered e dec now)
  then show ?case by (simp add: engine_ok_queue RenderState_keeps)
qed

lemma NewEngine_ok: "engine_ok (NewEngine k config)"
  by (simp add: engine_ok_def NewEngine_def prediction_normalized_def Let_def)

lemma engine_run_ok: "engine_step\<^sup>*\<^sup>* (NewEngine k config) e \<Longrightarrow> engine_ok e"
proof (induction rule: rtranclp_induct)
  case base
  then show ?case by (rule NewEngine_ok)
qed (rule engine_step_ok)

section \<open>What is rendered\<close>

definition moved_player :: "PlayerState \<Rightarrow> PlayerState \<Rightarrow> bool" where
  "moved_player p q \<longleftrightarrow> (\<exists>u v. q = p\<lparr>Position := u, Velocity := v\<rparr>)"

definition moved_entity :: "EntityState \<Rightarrow> EntityState \<Rightarrow> bool" where
  "moved_entity a b \<longleftrightarrow> (\<exists>u v. b = a\<lparr>EntityPosition := u, EntityVelocity := v\<rparr>)"

definition moved_state :: "GameState \<Rightarrow> GameState \<Rightarrow> bool" where
  "moved_state g h \<longleftrightarrow> list_all2 moved_player (Players g) (Players h) \<and> list_all2 moved_entity (Entities g) (Entities h) \<and>
     h = g\<lparr>Players := Players h, Entities := Entities h\<rparr>"

lemma moved_refl [simp]: "moved_player p p" "moved_entity a a" "moved_state g g"
proof -
  show p: "moved_player p p" for p unfolding moved_player_def by (intro exI [of _ "Position p"] exI [of _ "Velocity p"]) simp
  show e: "moved_entity a a" for a unfolding moved_entity_def by (intro exI [of _ "EntityPosition a"] exI [of _ "EntityVelocity a"]) simp
  show "moved_state g g" by (simp add: moved_state_def list_all2_conv_all_nth p e)
qed

lemma moved_intro: "moved_player p (p\<lparr>Position := u, Velocity := v\<rparr>)" "moved_entity a (a\<lparr>EntityPosition := u, EntityVelocity := v\<rparr>)"
  unfolding moved_player_def moved_entity_def by blast+

lemma moved_player_trans: "moved_player p q \<Longrightarrow> moved_player q r \<Longrightarrow> moved_player p r"
  unfolding moved_player_def by (elim exE, simp) blast

lemma interpolateState_moved: "moved_state h (interpolateState g h alpha)"
proof -
  have "moved_player p (case existing_players ps (ID p) of None \<Rightarrow> p
      | Some previous \<Rightarrow> p\<lparr>Position := u previous, Velocity := v previous\<rparr>)" for p ps u v
    by (simp add: moved_intro split: option.split)
  moreover have "moved_entity a (case existing_entities es (EntityState_ID a) of None \<Rightarrow> a
      | Some previous \<Rightarrow> a\<lparr>EntityPosition := u previous, EntityVelocity := v previous\<rparr>)" for a es u v
    by (simp add: moved_intro split: option.split)
  ultimately show ?thesis by (simp add: moved_state_def interpolateState_def list_all2_conv_all_nth)
qed

lemma move_local_moved:
  assumes "moved_state g h"
  shows "moved_state g (move_local i u h)"
proof -
  have m: "moved_player q (q\<lparr>Position := u\<rparr>)" for q
    unfolding moved_player_def by (intro exI [of _ u] exI [of _ "Velocity q"]) simp
  have "list_all2 moved_player (Players g) ((Players h)[i := (Players h ! i)\<lparr>Position := u\<rparr>])"
  proof (rule list_all2_all_nthI)
    show "length (Players g) = length ((Players h)[i := (Players h ! i)\<lparr>Position := u\<rparr>])"
      using assms list_all2_lengthD by (auto simp: moved_state_def)
    fix j assume "j < length (Players g)"
    then have "moved_player (Players g ! j) (Players h ! j)" "j < length (Players h)"
      using assms by (simp_all add: moved_state_def list_all2_conv_all_nth)
    then show "moved_player (Players g ! j) ((Players h)[i := (Players h ! i)\<lparr>Position := u\<rparr>] ! j)"
      using moved_player_trans [OF _ m] by (cases "i = j") simp_all
  qed
  moreover have hh: "h = g\<lparr>Players := Players h, Entities := Entities h\<rparr>" using assms by (simp add: moved_state_def)
  have "move_local i u h = g\<lparr>Players := (Players h)[i := (Players h ! i)\<lparr>Position := u\<rparr>], Entities := Entities h\<rparr>"
    unfolding move_local_def
    by (rule trans [OF arg_cong [OF hh, of "\<lambda>g. g\<lparr>Players := (Players h)[i := (Players h ! i)\<lparr>Position := u\<rparr>]\<rparr>"]]) simp
  ultimately show ?thesis using assms by (simp add: moved_state_def)
qed

lemma between_frames_moved: "between_frames t frames = Some h \<Longrightarrow> \<exists>f \<in> set frames. moved_state (ts_state f) h"
proof (induction t frames rule: between_frames.induct)
  case (1 t prev nxt rest)
  then show ?case
    by (auto simp: Let_def intro: interpolateState_moved split: if_splits)
qed simp_all

lemma interpolateLocked_moved:
  assumes "e_history e \<noteq> []"
  obtains h f where "interpolateLocked now e = Some h" "f \<in> set (e_history e)" "moved_state (ts_state f) h"
proof -
  have f: "\<exists>f \<in> set (e_history e). moved_state (ts_state f) (ts_state (hd (e_history e)))"
    "\<exists>f \<in> set (e_history e). moved_state (ts_state f) (ts_state (last (e_history e)))"
    using assms moved_refl(3) by (meson hd_in_set last_in_set)+
  have "\<exists>h. interpolateLocked now e = Some h \<and> (\<exists>f \<in> set (e_history e). moved_state (ts_state f) h)"
    using assms f between_frames_moved [of _ "e_history e"]
    by (simp add: interpolateLocked_def Let_def split: option.split)
  then show ?thesis using that by blast
qed

section \<open>Properties\<close>

text \<open>C11. An engine that has received any state renders something, and what it renders is one of the
  received states in everything but positions and velocities: prediction and interpolation invent
  no other fact about the match.\<close>

theorem RenderState_shows_history:
  "case RenderState dec now e of
     (e', None) \<Rightarrow> e_history e = [] \<and> e' = e
   | (e', Some g) \<Rightarrow> (\<exists>f \<in> set (e_history e). moved_state (ts_state f) g) \<and>
       e_history e' = e_history e \<and> e_pending e' = e_pending e"
proof (cases "e_history e = []")
  case True
  then show ?thesis by (simp add: RenderState_def)
next
  case False
  then obtain h f where h: "interpolateLocked now e = Some h" "f \<in> set (e_history e)" "moved_state (ts_state f) h"
    by (rule interpolateLocked_moved)
  show ?thesis
    using False h move_local_moved [OF h(3)]
    by (auto simp: RenderState_def Let_def split: option.splits prod.splits)
qed


definition sample_move :: "uint64 \<Rightarrow> InputCommand" where
  "sample_move n = \<lparr>CmdPlayerID = PlayerID ''ada'', ClientSeq = n, IngressSeq = 0, TargetTick = 7, CmdType = CmdMoveIntent,
     Payload = ''right''\<rparr>"

definition sample_engine :: Engine where
  "sample_engine = RecordLocalCommands [sample_move 1, sample_move 2, sample_move 1, sample_move 3]
     (NewEngine (PlayerID ''ada'') PredictionDefaultConfig)"

definition sample_ack :: Snapshot where
  "sample_ack = \<lparr>SnapshotKind_of = SnapshotKindDelta, SnapshotTickID = 1, BaseTickID = 0, State = None, Delta = None,
     PlayerAcks = [\<lparr>AckPlayerID = PlayerID ''ada'', LastProcessedClientSeq = 2\<rparr>]\<rparr>"


end
