(* ===== verification/Controller.thy ===== *)
theory Controller
  imports InputQueue Float64
begin

text \<open>
  The client's input controller (\<open>src/internal/client/input/controller.go\<close>): keys, aim and touches
  become commands with increasing sequence numbers. JSON encoding is an argument (\<open>Encoders\<close>); it
  fails on numbers that JSON cannot express. The methods are on a controller that exists.
\<close>

section \<open>Data\<close>

record TouchPoint =
  TouchID :: int
  TouchX :: float64
  TouchY :: float64

record InputSnapshot =
  MoveUp :: bool
  MoveDown :: bool
  MoveLeft :: bool
  MoveRight :: bool
  SprintHeld :: bool
  EquipSlot1Pressed :: bool
  EquipSlot2Pressed :: bool
  EquipSlot3Pressed :: bool
  InteractPressed :: bool
  AbilityPressed :: bool
  AbilityInfoPressed :: bool
  ReloadPressed :: bool
  FirePressed :: bool
  HasAim :: bool
  AimWorldX :: float32
  AimWorldY :: float32
  PanelInventoryPressed :: bool
  PanelCardsPressed :: bool
  PanelAbilitiesPressed :: bool
  PanelMarketPressed :: bool
  PanelEscapePressed :: bool
  PanelStashPressed :: bool
  PanelPrevPressed :: bool
  PanelNextPressed :: bool
  PanelUsePressed :: bool
  SpectatorPrevPressed :: bool
  SpectatorNextPressed :: bool
  Touches :: "TouchPoint list"

record Rect =
  MinX :: float64
  MinY :: float64
  MaxX :: float64
  MaxY :: float64

definition RectContains :: "Rect \<Rightarrow> float64 \<Rightarrow> float64 \<Rightarrow> bool" where
  "RectContains r x y \<longleftrightarrow> d_le (MinX r) x \<and> d_le x (MaxX r) \<and> d_le (MinY r) y \<and> d_le y (MaxY r)"

record MobileLayout =
  Enabled :: bool
  JoystickCenterX :: float64
  JoystickCenterY :: float64
  JoystickRadius :: float64
  FireButton :: Rect
  InteractButton :: Rect
  AbilityButton :: Rect
  ReloadButton :: Rect

definition DefaultMobileLayout :: "int \<Rightarrow> int \<Rightarrow> MobileLayout" where
  "DefaultMobileLayout screenWidth screenHeight =
     (let screenW = float64_of_int (if screenWidth \<le> 0 then 1280 else screenWidth);
          screenH = float64_of_int (if screenHeight \<le> 0 then 720 else screenHeight);
          buttonSize = d_max (float64_of_int 64) (d_mul screenH (decimal64 11 100));
          margin = d_max (float64_of_int 18) (d_mul screenW (decimal64 18 1000));
          joystickRadius = d_max (float64_of_int 56) (d_mul screenH (decimal64 12 100));
          rightBaseX = d_sub (d_sub screenW margin) buttonSize;
          baseY = d_sub (d_sub screenH margin) buttonSize
      in \<lparr>Enabled = True, JoystickCenterX = d_add margin joystickRadius,
          JoystickCenterY = d_sub (d_sub screenH margin) joystickRadius, JoystickRadius = joystickRadius,
          FireButton = \<lparr>MinX = rightBaseX, MinY = d_sub baseY buttonSize, MaxX = d_add rightBaseX buttonSize, MaxY = baseY\<rparr>,
          InteractButton = \<lparr>MinX = d_sub (d_sub rightBaseX buttonSize) margin,
            MinY = d_sub baseY (d_mul buttonSize (decimal64 45 100)), MaxX = d_sub rightBaseX margin,
            MaxY = d_add baseY (d_mul buttonSize (decimal64 55 100))\<rparr>,
          AbilityButton = \<lparr>MinX = d_sub (d_sub rightBaseX buttonSize) margin,
            MinY = d_sub baseY (d_mul buttonSize (decimal64 145 100)), MaxX = d_sub rightBaseX margin,
            MaxY = d_sub baseY (d_mul buttonSize (decimal64 45 100))\<rparr>,
          ReloadButton = \<lparr>MinX = rightBaseX, MinY = d_add baseY (d_mul buttonSize (decimal64 25 100)),
            MaxX = d_add rightBaseX buttonSize, MaxY = d_add baseY (d_mul buttonSize (decimal64 125 100))\<rparr>\<rparr>)"

record ControllerConfig =
  cc_PlayerID :: PlayerID
  cc_ScreenWidth :: int
  cc_ScreenHeight :: int
  cc_FireWeapon :: ItemType
  cc_MobileLayout :: MobileLayout
  cc_InitialClientSeq :: uint64

record Controller =
  c_playerID :: PlayerID
  c_nextClientSeq :: uint64
  c_fireWeapon :: ItemType
  c_mobile :: MobileLayout
  c_prevFirePressed :: bool
  c_prevInteractPressed :: bool
  c_prevAbilityPressed :: bool
  c_prevReloadPressed :: bool
  c_prevEquipSlot1Pressed :: bool
  c_prevEquipSlot2Pressed :: bool
  c_prevEquipSlot3Pressed :: bool
  c_lastMoveTargetTick :: uint64
  c_lastAimTargetTick :: uint64

definition NewController :: "ControllerConfig \<Rightarrow> Controller" where
  "NewController config =
     (let fireWeapon = (if cc_FireWeapon config = NoItem then ItemPistol else cc_FireWeapon config);
          fireWeapon = (if \<not> IsSupportedWeapon fireWeapon then ItemPistol else fireWeapon);
          mobile = (if d_le (JoystickRadius (cc_MobileLayout config)) d_zero
                    then DefaultMobileLayout (cc_ScreenWidth config) (cc_ScreenHeight config) else cc_MobileLayout config)
      in \<lparr>c_playerID = PlayerID (TrimSpace (PlayerID_str (cc_PlayerID config))),
          c_nextClientSeq = cc_InitialClientSeq config, c_fireWeapon = fireWeapon, c_mobile = mobile,
          c_prevFirePressed = False, c_prevInteractPressed = False, c_prevAbilityPressed = False,
          c_prevReloadPressed = False, c_prevEquipSlot1Pressed = False, c_prevEquipSlot2Pressed = False,
          c_prevEquipSlot3Pressed = False, c_lastMoveTargetTick = 0, c_lastAimTargetTick = 0\<rparr>)"

record Encoders =
  encode_movement :: "MovementInputPayload \<Rightarrow> string option"
  encode_aim :: "AimInputPayload \<Rightarrow> string option"
  encode_interact :: "InteractPayload \<Rightarrow> string option"
  encode_ability :: "AbilityUsePayload \<Rightarrow> string option"
  encode_card :: "CardUsePayload \<Rightarrow> string option"
  encode_item :: "ItemUsePayload \<Rightarrow> string option"
  encode_purchase :: "BlackMarketPurchasePayload \<Rightarrow> string option"
  encode_fire :: "FireWeaponPayload \<Rightarrow> string option"
  encode_equip :: "EquipItemPayload \<Rightarrow> string option"

section \<open>Single commands\<close>

definition newCommand :: "InputCommandType \<Rightarrow> string \<Rightarrow> uint64 \<Rightarrow> Controller \<Rightarrow> Controller \<times> InputCommand" where
  "newCommand commandType payload targetTick c =
     (let c = c\<lparr>c_nextClientSeq := c_nextClientSeq c + 1\<rparr>
      in (c, \<lparr>CmdPlayerID = c_playerID c, ClientSeq = c_nextClientSeq c, IngressSeq = 0, TargetTick = targetTick,
              CmdType = commandType, Payload = payload\<rparr>))"

text \<open>The common form of the builders: a guard, the encoder, the command.\<close>

definition build_command ::
  "bool \<Rightarrow> string option \<Rightarrow> InputCommandType \<Rightarrow> uint64 \<Rightarrow> Controller \<Rightarrow> Controller \<times> InputCommand option" where
  "build_command ok encoded commandType targetTick c =
     (if c_playerID c = PlayerID '''' \<or> \<not> ok then (c, None)
      else case encoded of
        None \<Rightarrow> (c, None)
      | Some payload \<Rightarrow> (case newCommand commandType payload targetTick c of (c, command) \<Rightarrow> (c, Some command)))"

definition BuildUseAbilityCommand :: "Encoders \<Rightarrow> AbilityUsePayload \<Rightarrow> uint64 \<Rightarrow> Controller \<Rightarrow> Controller \<times> InputCommand option" where
  "BuildUseAbilityCommand enc payload targetTick c =
     build_command (IsKnownAbility (Ability payload)) (encode_ability enc payload) CmdUseAbility targetTick c"

definition BuildUseCardCommand :: "Encoders \<Rightarrow> CardUsePayload \<Rightarrow> uint64 \<Rightarrow> Controller \<Rightarrow> Controller \<times> InputCommand option" where
  "BuildUseCardCommand enc payload targetTick c =
     build_command (IsKnownCard (Card payload)) (encode_card enc payload) CmdUseCard targetTick c"

definition BuildUseItemCommand :: "Encoders \<Rightarrow> ItemUsePayload \<Rightarrow> uint64 \<Rightarrow> Controller \<Rightarrow> Controller \<times> InputCommand option" where
  "BuildUseItemCommand enc payload targetTick c =
     build_command (TrimSpace (ItemType_str (UseItem payload)) \<noteq> '''') (encode_item enc payload) CmdUseItem targetTick c"

definition BuildEquipItemCommand :: "Encoders \<Rightarrow> EquipItemPayload \<Rightarrow> uint64 \<Rightarrow> Controller \<Rightarrow> Controller \<times> InputCommand option" where
  "BuildEquipItemCommand enc payload targetTick c =
     build_command (IsSupportedWeapon (EquipItem payload)) (encode_equip enc payload) CmdEquipItem targetTick c"

definition BuildBlackMarketBuyCommand ::
  "Encoders \<Rightarrow> BlackMarketPurchasePayload \<Rightarrow> uint64 \<Rightarrow> Controller \<Rightarrow> Controller \<times> InputCommand option" where
  "BuildBlackMarketBuyCommand enc payload targetTick c =
     build_command (BlackMarketOfferForItem (PurchaseItem payload) \<noteq> None) (encode_purchase enc payload)
       CmdBlackMarketBuy targetTick c"

definition BuildInteractCommand :: "Encoders \<Rightarrow> InteractPayload \<Rightarrow> uint64 \<Rightarrow> Controller \<Rightarrow> Controller \<times> InputCommand option" where
  "BuildInteractCommand enc payload targetTick c =
     build_command (\<not> (EscapeRoute payload \<noteq> EscapeRouteType '''' \<and> \<not> IsKnownRoute (EscapeRoute payload)) \<and>
         \<not> (MarketRoomID payload \<noteq> RoomID '''' \<and> TrimSpace (RoomID_str (MarketRoomID payload)) = ''''))
       (encode_interact enc payload) CmdInteract targetTick c"

section \<open>Movement and touches\<close>

definition edgePressed :: "bool \<Rightarrow> bool \<Rightarrow> bool" where
  "edgePressed previous current \<longleftrightarrow> \<not> previous \<and> current"

definition normalizeVector :: "float32 \<Rightarrow> float32 \<Rightarrow> float32 \<times> float32" where
  "normalizeVector x y =
     (let magnitude = d_hypot (f32 x) (f32 y)
      in if d_le magnitude d_one then (x, y)
         else (float32_of (d_div (f32 x) magnitude), float32_of (d_div (f32 y) magnitude)))"

fun joystick_scan :: "MobileLayout \<Rightarrow> TouchPoint list \<Rightarrow> (float32 \<times> float32) option" where
  "joystick_scan mobile [] = None"
| "joystick_scan mobile (touch # rest) =
     (let dx = d_sub (TouchX touch) (JoystickCenterX mobile);
          dy = d_sub (TouchY touch) (JoystickCenterY mobile);
          distance = d_hypot dx dy
      in if fl_less (d_mul (JoystickRadius mobile) (decimal64 135 100)) distance then joystick_scan mobile rest
         else if fl_eq distance d_zero then Some (0, 0)
         else
           let magnitude = d_min d_one (d_div distance (JoystickRadius mobile))
           in Some (float32_of (d_mul (d_div dx distance) magnitude), float32_of (d_mul (d_div dy distance) magnitude)))"

definition joystickVector :: "Controller \<Rightarrow> TouchPoint list \<Rightarrow> (float32 \<times> float32) option" where
  "joystickVector c touches =
     (if \<not> Enabled (c_mobile c) \<or> d_le (JoystickRadius (c_mobile c)) d_zero \<or> length touches = 0 then None
      else joystick_scan (c_mobile c) (sort_key TouchID touches))"

definition key_axis :: "bool \<Rightarrow> bool \<Rightarrow> float32" where
  "key_axis forward backward =
     (let v = (if forward then f_add 0 0x3F800000 else 0) in if backward then f_sub v 0x3F800000 else v)"

definition resolveMove :: "Controller \<Rightarrow> InputSnapshot \<Rightarrow> float32 \<times> float32 \<times> bool" where
  "resolveMove c snapshot =
     (let moveX = key_axis (MoveRight snapshot) (MoveLeft snapshot);
          moveY = key_axis (MoveDown snapshot) (MoveUp snapshot);
          (moveX, moveY, sprint) =
            (if f_eq moveX 0 \<and> f_eq moveY 0 \<and> Enabled (c_mobile c)
             then (case joystickVector c (Touches snapshot) of
                     None \<Rightarrow> (moveX, moveY, SprintHeld snapshot)
                   | Some (jx, jy) \<Rightarrow>
                       (jx, jy, SprintHeld snapshot \<or> fl_less (decimal64 82 100) (d_hypot (f32 jx) (f32 jy))))
             else (moveX, moveY, SprintHeld snapshot));
          (moveX, moveY) = normalizeVector moveX moveY
      in (moveX, moveY, if f_eq moveX 0 \<and> f_eq moveY 0 then False else sprint))"

definition touchInsideButton :: "Controller \<Rightarrow> TouchPoint list \<Rightarrow> Rect \<Rightarrow> bool" where
  "touchInsideButton c touches button =
     (if \<not> Enabled (c_mobile c) \<or> length touches = 0 then False
      else list_ex (\<lambda>touch. RectContains button (TouchX touch) (TouchY touch)) touches)"

definition resolveAimVector :: "float32 \<Rightarrow> float32 \<Rightarrow> PlayerState option \<Rightarrow> float32 \<times> float32" where
  "resolveAimVector aimWorldX aimWorldY localPlayer =
     (case localPlayer of
        None \<Rightarrow> (aimWorldX, aimWorldY)
      | Some p \<Rightarrow> (f_sub aimWorldX (X (Position p)), f_sub aimWorldY (Y (Position p))))"

definition resolveTriggeredAbility :: "PlayerState \<Rightarrow> AbilityType" where
  "resolveTriggeredAbility p =
     (if IsKnownAbility (AssignedAbility p) \<and> CanPlayerUse p (AssignedAbility p) then AssignedAbility p
      else case List.find (\<lambda>ability. ability \<noteq> AbilityType '''') (AbilitiesForPlayer p) of
             None \<Rightarrow> AbilityType '''' | Some ability \<Rightarrow> ability)"

text \<open>The supported weapons of the inventory, each once, in order.\<close>

fun carried_weapons :: "ItemStack list \<Rightarrow> ItemType list \<Rightarrow> ItemType list" where
  "carried_weapons [] weapons = weapons"
| "carried_weapons (st # rest) weapons =
     (if Item st = NoItem \<or> Quantity st = 0 then carried_weapons rest weapons
      else if \<not> IsSupportedWeapon (Item st) then carried_weapons rest weapons
      else if List.member weapons (Item st) then carried_weapons rest weapons
      else carried_weapons rest (weapons @ [Item st]))"

definition equippableWeaponForSlot :: "PlayerState \<Rightarrow> nat \<Rightarrow> ItemType option" where
  "equippableWeaponForSlot p slot =
     (if slot = 0 then None
      else let weapons = carried_weapons (Inventory p) []
           in if slot - 1 \<ge> length weapons then None else Some (weapons ! (slot - 1)))"

section \<open>The commands of a frame\<close>

text \<open>One command appended to the list of the frame, when its condition holds and it can be encoded.\<close>

type_synonym frame = "Controller \<times> InputCommand list"

definition emit :: "bool \<Rightarrow> string option \<Rightarrow> InputCommandType \<Rightarrow> uint64 \<Rightarrow> (Controller \<Rightarrow> Controller) \<Rightarrow> frame \<Rightarrow> frame" where
  "emit wanted encoded commandType targetTick after fr =
     (case fr of (c, commands) \<Rightarrow>
        if \<not> wanted then (c, commands)
        else case encoded of
          None \<Rightarrow> (c, commands)
        | Some payload \<Rightarrow>
            (case newCommand commandType payload targetTick c of (c, command) \<Rightarrow> (after c, commands @ [command])))"

definition equip_slot :: "Controller \<Rightarrow> InputSnapshot \<Rightarrow> nat" where
  "equip_slot c snapshot =
     (if edgePressed (c_prevEquipSlot1Pressed c) (EquipSlot1Pressed snapshot) then 1
      else if edgePressed (c_prevEquipSlot2Pressed c) (EquipSlot2Pressed snapshot) then 2
      else if edgePressed (c_prevEquipSlot3Pressed c) (EquipSlot3Pressed snapshot) then 3 else 0)"

definition wanted_weapon :: "Controller \<Rightarrow> InputSnapshot \<Rightarrow> PlayerState option \<Rightarrow> ItemType option" where
  "wanted_weapon c snapshot localPlayer =
     (case localPlayer of
        None \<Rightarrow> None
      | Some p \<Rightarrow> if equip_slot c snapshot > 0 then equippableWeaponForSlot p (equip_slot c snapshot) else None)"

definition fire_choice :: "Controller \<Rightarrow> PlayerState option \<Rightarrow> ItemType" where
  "fire_choice c localPlayer =
     (let weapon = (case localPlayer of
            None \<Rightarrow> c_fireWeapon c
          | Some p \<Rightarrow> if IsSupportedWeapon (EquippedItem p) then EquippedItem p else c_fireWeapon c)
      in if \<not> IsSupportedWeapon weapon then ItemPistol else weapon)"

definition empty_interact :: InteractPayload where
  "empty_interact = \<lparr>InteractEntityID = 0, InteractDoorID = 0, InteractCellID = 0, InteractRoomID = RoomID '''',
     EscapeRoute = EscapeRouteType '''', MarketRoomID = RoomID '''', NightCardChoice = CardType '''', StashAction = '''',
     StashItem = NoItem, StashAmount = 0\<rparr>"

definition plain_ability :: "AbilityType \<Rightarrow> AbilityUsePayload" where
  "plain_ability ability = \<lparr>Ability = ability, AbilityTargetPlayerID = PlayerID '''', AbilityTargetEntityID = 0,
     AbilityTargetDoorID = 0, AbilityTargetCellID = 0, AbilityTargetRoomID = RoomID ''''\<rparr>"

definition fire_aim :: "InputSnapshot \<Rightarrow> PlayerState option \<Rightarrow> float32 \<times> float32 \<times> bool" where
  "fire_aim snapshot localPlayer =
     (case localPlayer of
        Some p \<Rightarrow> if \<not> HasAim snapshot then (X (Position p), Y (Position p), True)
                  else (AimWorldX snapshot, AimWorldY snapshot, True)
      | None \<Rightarrow> (AimWorldX snapshot, AimWorldY snapshot, HasAim snapshot))"

definition BuildCommands ::
  "Encoders \<Rightarrow> InputSnapshot \<Rightarrow> uint64 \<Rightarrow> PlayerState option \<Rightarrow> Controller \<Rightarrow> Controller \<times> InputCommand list" where
  "BuildCommands enc snapshot targetTick localPlayer c =
     (if c_playerID c = PlayerID '''' then (c, [])
      else
        let (moveX, moveY, sprint) = resolveMove c snapshot;
            (aimWorldX, aimWorldY, hasAim) = fire_aim snapshot localPlayer;
            firePressed = (FirePressed snapshot \<or> touchInsideButton c (Touches snapshot) (FireButton (c_mobile c)));
            interactPressed = (InteractPressed snapshot \<or> touchInsideButton c (Touches snapshot) (InteractButton (c_mobile c)));
            abilityPressed = (AbilityPressed snapshot \<or> touchInsideButton c (Touches snapshot) (AbilityButton (c_mobile c)));
            reloadPressed = (ReloadPressed snapshot \<or> touchInsideButton c (Touches snapshot) (ReloadButton (c_mobile c)));
            equip = wanted_weapon c snapshot localPlayer;
            (aimX, aimY) = resolveAimVector aimWorldX aimWorldY localPlayer;
            ability = (case localPlayer of None \<Rightarrow> AbilityType '''' | Some p \<Rightarrow> resolveTriggeredAbility p);
            fr = (c, []);
            fr = emit (equip \<noteq> None) (encode_equip enc \<lparr>EquipItem = the equip\<rparr>) CmdEquipItem targetTick id fr;
            fr = emit ((\<not> f_eq moveX 0 \<or> \<not> f_eq moveY 0) \<and> targetTick \<noteq> 0 \<and> targetTick \<noteq> c_lastMoveTargetTick c)
              (encode_movement enc \<lparr>MoveX = moveX, MoveY = moveY, Sprint = sprint\<rparr>) CmdMoveIntent targetTick
              (\<lambda>c. c\<lparr>c_lastMoveTargetTick := targetTick\<rparr>) fr;
            fr = emit (hasAim \<and> targetTick \<noteq> 0 \<and> targetTick \<noteq> c_lastAimTargetTick c)
              (encode_aim enc \<lparr>AimX = aimX, AimY = aimY\<rparr>) CmdAimIntent targetTick
              (\<lambda>c. c\<lparr>c_lastAimTargetTick := targetTick\<rparr>) fr;
            fr = emit (edgePressed (c_prevFirePressed c) firePressed)
              (encode_fire enc \<lparr>Weapon = fire_choice c localPlayer, TargetX = aimWorldX, TargetY = aimWorldY, UseGoldenRound = False\<rparr>)
              CmdFireWeapon targetTick id fr;
            fr = emit (edgePressed (c_prevInteractPressed c) interactPressed) (encode_interact enc empty_interact)
              CmdInteract targetTick id fr;
            fr = emit (edgePressed (c_prevAbilityPressed c) abilityPressed \<and> localPlayer \<noteq> None \<and> ability \<noteq> AbilityType '''')
              (encode_ability enc (plain_ability ability)) CmdUseAbility targetTick id fr;
            fr = emit (edgePressed (c_prevReloadPressed c) reloadPressed) (Some '''') CmdReload targetTick id fr
        in case fr of (c, commands) \<Rightarrow>
          (c\<lparr>c_prevFirePressed := firePressed, c_prevInteractPressed := interactPressed,
             c_prevAbilityPressed := abilityPressed, c_prevReloadPressed := reloadPressed,
             c_prevEquipSlot1Pressed := EquipSlot1Pressed snapshot, c_prevEquipSlot2Pressed := EquipSlot2Pressed snapshot,
             c_prevEquipSlot3Pressed := EquipSlot3Pressed snapshot\<rparr>, commands))"

section \<open>Commands that the server accepts\<close>

text \<open>The JSON decoder of the server inverts the encoder of the client, on the payloads that the
  controller builds.\<close>

definition codec_ok :: "Encoders \<Rightarrow> Decoders \<Rightarrow> bool" where
  "codec_ok enc dec \<longleftrightarrow>
     (\<forall>x s. encode_movement enc x = Some s \<longrightarrow> s \<noteq> '''' \<and> decode_movement dec s = Some x) \<and>
     (\<forall>x s. encode_aim enc x = Some s \<longrightarrow> s \<noteq> '''' \<and> decode_aim dec s = Some x) \<and>
     (\<forall>x s. IsSupportedWeapon (Weapon x) \<and> encode_fire enc x = Some s \<longrightarrow> s \<noteq> '''' \<and> decode_fire dec s = Some x) \<and>
     (\<forall>x s. IsSupportedWeapon (EquipItem x) \<and> encode_equip enc x = Some s \<longrightarrow> s \<noteq> '''' \<and> decode_equip dec s = Some x) \<and>
     (\<forall>s. encode_interact enc empty_interact = Some s \<longrightarrow> s \<noteq> '''' \<and> decode_interact dec s = Some empty_interact) \<and>
     (\<forall>x s. IsKnownAbility (Ability x) \<and> encode_ability enc x = Some s \<longrightarrow> s \<noteq> '''' \<and> decode_ability dec s = Some x)"

definition admissible :: "Decoders \<Rightarrow> InputCommandType \<Rightarrow> string \<Rightarrow> bool" where
  "admissible dec ty payload \<longleftrightarrow> isSupportedInputCommand ty \<and> validateInputPayload dec ty payload = None"

lemma weapon_named: "IsSupportedWeapon w \<Longrightarrow> named_item_ok IsSupportedWeapon w"
proof -
  have "list_all (named_item_ok IsSupportedWeapon) [WeaponBaton, ItemShiv, ItemPistol, ItemHuntingRifle]" by code_simp
  then show "IsSupportedWeapon w \<Longrightarrow> named_item_ok IsSupportedWeapon w" by (auto simp: IsSupportedWeapon_def)
qed

lemma ability_named: "IsKnownAbility a \<Longrightarrow> TrimSpace (AbilityType_str a) \<noteq> ''''"
proof -
  assume "IsKnownAbility a"
  then have "a \<in> set (map fst specsByAbility)" by (simp add: IsKnownAbility_def map_of_eq_None_iff)
  moreover have "list_all (\<lambda>a. TrimSpace (AbilityType_str a) \<noteq> '''') (map fst specsByAbility)" by code_simp
  ultimately show ?thesis unfolding list_all_iff by blast
qed

lemma command_types_distinct:
  "distinct [CmdMoveIntent, CmdAimIntent, CmdInteract, CmdUseAbility, CmdUseCard, CmdUseItem,
      CmdBlackMarketBuy, CmdFireWeapon, CmdEquipItem, CmdReload, CmdDropItem, CmdCraftItem]"
  by simp

lemma admissible_payloads:
  assumes "codec_ok enc dec"
  shows "encode_movement enc x = Some s \<Longrightarrow> admissible dec CmdMoveIntent s"
    "encode_aim enc y = Some s \<Longrightarrow> admissible dec CmdAimIntent s"
    "IsSupportedWeapon (Weapon f) \<Longrightarrow> encode_fire enc f = Some s \<Longrightarrow> admissible dec CmdFireWeapon s"
    "IsSupportedWeapon (EquipItem q) \<Longrightarrow> encode_equip enc q = Some s \<Longrightarrow> admissible dec CmdEquipItem s"
    "encode_interact enc empty_interact = Some s \<Longrightarrow> admissible dec CmdInteract s"
    "IsKnownAbility (Ability a) \<Longrightarrow> encode_ability enc a = Some s \<Longrightarrow> admissible dec CmdUseAbility s"
    "admissible dec CmdReload ''''"
proof -
  note d = validateInputPayload_def check_payload_def decode_payload_def admissible_def isSupportedInputCommand_def
  show "encode_movement enc x = Some s \<Longrightarrow> admissible dec CmdMoveIntent s"
    "encode_aim enc y = Some s \<Longrightarrow> admissible dec CmdAimIntent s"
    "IsSupportedWeapon (Weapon f) \<Longrightarrow> encode_fire enc f = Some s \<Longrightarrow> admissible dec CmdFireWeapon s"
    "IsSupportedWeapon (EquipItem q) \<Longrightarrow> encode_equip enc q = Some s \<Longrightarrow> admissible dec CmdEquipItem s"
    "admissible dec CmdReload ''''"
    using assms weapon_named by (simp_all add: d codec_ok_def)
  show "encode_interact enc empty_interact = Some s \<Longrightarrow> admissible dec CmdInteract s"
    using assms by (simp add: d codec_ok_def) (simp add: interact_ok_def empty_interact_def)
  show "IsKnownAbility (Ability a) \<Longrightarrow> encode_ability enc a = Some s \<Longrightarrow> admissible dec CmdUseAbility s"
    using assms ability_named by (simp add: d codec_ok_def validateAbilityUsePayload_def)
qed

text \<open>The commands of a frame so far: numbered on from the counter, of the player, for the tick.\<close>

definition frame_ok :: "Decoders \<Rightarrow> Controller \<Rightarrow> uint64 \<Rightarrow> frame \<Rightarrow> bool" where
  "frame_ok dec c0 targetTick fr \<longleftrightarrow>
     c_playerID (fst fr) = c_playerID c0 \<and> c_nextClientSeq (fst fr) = c_nextClientSeq c0 + of_nat (length (snd fr)) \<and>
     map ClientSeq (snd fr) = map (\<lambda>i. c_nextClientSeq c0 + of_nat (Suc i)) [0 ..< length (snd fr)] \<and>
     list_all (\<lambda>cmd. CmdPlayerID cmd = c_playerID c0 \<and> TargetTick cmd = targetTick \<and> admissible dec (CmdType cmd) (Payload cmd)) (snd fr)"

lemma emit_ok:
  assumes "frame_ok dec c0 targetTick fr"
    and "\<And>p. wanted \<Longrightarrow> encoded = Some p \<Longrightarrow> admissible dec ty p"
    and "\<And>c. c_playerID (after c) = c_playerID c" "\<And>c. c_nextClientSeq (after c) = c_nextClientSeq c"
  shows "frame_ok dec c0 targetTick (emit wanted encoded ty targetTick after fr)"
  using assms
  by (auto simp: emit_def frame_ok_def newCommand_def Let_def add.assoc add.commute [of 1] split: prod.splits option.splits)

lemma carried_weapons_supported: "list_all IsSupportedWeapon ws \<Longrightarrow> list_all IsSupportedWeapon (carried_weapons stacks ws)"
  by (induction stacks ws rule: carried_weapons.induct) auto

lemma equippable_supported:
  assumes "equippableWeaponForSlot p n = Some w"
  shows "IsSupportedWeapon w"
proof -
  have "n - 1 < length (carried_weapons (Inventory p) [])" "w = carried_weapons (Inventory p) [] ! (n - 1)"
    using assms by (auto simp: equippableWeaponForSlot_def Let_def not_le split: if_splits)
  then show ?thesis using carried_weapons_supported [of "[]" "Inventory p"] by (simp add: list_all_length)
qed

lemma wanted_weapon_supported: "wanted_weapon c snap p = Some w \<Longrightarrow> IsSupportedWeapon w"
  by (auto simp: wanted_weapon_def split: option.splits if_splits intro: equippable_supported)

lemma fire_choice_supported: "IsSupportedWeapon (fire_choice c p)"
  by (simp add: fire_choice_def Let_def IsSupportedWeapon_def)

lemma usable_known: "a \<in> set (AbilitiesForPlayer p) \<Longrightarrow> IsKnownAbility a"
  by (simp add: AbilitiesForPlayer_def CanPlayerUse_def IsKnownAbility_def split: option.splits)

lemma triggered_known: "resolveTriggeredAbility p \<noteq> AbilityType '''' \<Longrightarrow> IsKnownAbility (resolveTriggeredAbility p)"
proof (cases "IsKnownAbility (AssignedAbility p) \<and> CanPlayerUse p (AssignedAbility p)")
  case False
  assume "resolveTriggeredAbility p \<noteq> AbilityType ''''"
  then obtain a where a: "List.find (\<lambda>ability. ability \<noteq> AbilityType '''') (AbilitiesForPlayer p) = Some a" "resolveTriggeredAbility p = a"
    using False by (auto simp: resolveTriggeredAbility_def split: option.splits)
  then have "a \<in> set (AbilitiesForPlayer p)" by (auto simp: find_Some_iff)
  then show ?thesis unfolding a(2) by (rule usable_known)
qed (simp add: resolveTriggeredAbility_def)

section \<open>Properties\<close>


definition sample_encoders :: Encoders where
  "sample_encoders = \<lparr>encode_movement = (\<lambda>_. None), encode_aim = (\<lambda>_. None), encode_interact = (\<lambda>_. Some ''{}''),
     encode_ability = (\<lambda>_. None), encode_card = (\<lambda>_. None), encode_item = (\<lambda>_. None), encode_purchase = (\<lambda>_. None),
     encode_fire = (\<lambda>_. None), encode_equip = (\<lambda>_. None)\<rparr>"

definition sample_json :: Decoders where
  "sample_json = \<lparr>decode_movement = (\<lambda>_. None), decode_aim = (\<lambda>_. None),
     decode_interact = (\<lambda>s. if s = ''{}'' then Some empty_interact else None),
     decode_ability = (\<lambda>_. None), decode_card = (\<lambda>_. None), decode_item = (\<lambda>_. None), decode_purchase = (\<lambda>_. None),
     decode_fire = (\<lambda>_. None), decode_equip = (\<lambda>_. None), decode_craft = (\<lambda>_. None), decode_drop = (\<lambda>_. None)\<rparr>"

definition quiet_layout :: MobileLayout where
  "quiet_layout = (let r = \<lparr>MinX = d_zero, MinY = d_zero, MaxX = d_zero, MaxY = d_zero\<rparr>
     in \<lparr>Enabled = False, JoystickCenterX = d_zero, JoystickCenterY = d_zero, JoystickRadius = d_one,
        FireButton = r, InteractButton = r, AbilityButton = r, ReloadButton = r\<rparr>)"

definition sample_controller :: Controller where
  "sample_controller = NewController \<lparr>cc_PlayerID = PlayerID '' ada'', cc_ScreenWidth = 0, cc_ScreenHeight = 0,
     cc_FireWeapon = NoItem, cc_MobileLayout = quiet_layout, cc_InitialClientSeq = 41\<rparr>"

text \<open>The keys of a frame in which interaction and reloading are pressed.\<close>

definition sample_keys :: InputSnapshot where
  "sample_keys = \<lparr>MoveUp = False, MoveDown = False, MoveLeft = False, MoveRight = False, SprintHeld = False,
     EquipSlot1Pressed = False, EquipSlot2Pressed = False, EquipSlot3Pressed = False, InteractPressed = True,
     AbilityPressed = False, AbilityInfoPressed = False, ReloadPressed = True, FirePressed = False, HasAim = False,
     AimWorldX = 0, AimWorldY = 0, PanelInventoryPressed = False, PanelCardsPressed = False, PanelAbilitiesPressed = False,
     PanelMarketPressed = False, PanelEscapePressed = False, PanelStashPressed = False, PanelPrevPressed = False,
     PanelNextPressed = False, PanelUsePressed = False, SpectatorPrevPressed = False, SpectatorNextPressed = False, Touches = []\<rparr>"


end
